(* ===== verification/Go_Base.thy ===== *)
theory Go_Base
  imports Complex_Main "HOL-Library.AList"
begin

text \<open>
  The base layer of the development: what the components under \<^verbatim>\<open>src/\<close> share of the Go
  language. It holds
  \<^item> the outcome of a call (\<open>go\<close>): a call returns, panics, or blocks forever;
  \<^item> the error values of the repository (\<open>error\<close>), with \<^verbatim>\<open>errors.Is\<close> and \<^verbatim>\<open>Error()\<close>;
  \<^item> the values of the interface type \<^verbatim>\<open>any\<close> that the code inspects (\<open>gval\<close>);
  \<^item> Go maps as partial functions, and the order of a \<^verbatim>\<open>range\<close> loop as an explicit list
    of the keys, since the runtime chooses it (\<open>ranges\<close>);
  \<^item> 64-bit wrap-around (\<open>wrap64\<close>);
  \<^item> \<^verbatim>\<open>sync.RWMutex\<close> as seen by one goroutine (\<open>rwmutex\<close>);
  \<^item> the interface locales: \<open>invariant_system\<close> (a step relation with an invariant),
    \<open>keyed_map\<close> with its extension \<open>keyed_store\<close> (lookup after insert and delete) and
    \<open>bounded_log\<close> (the most recent entries are kept), which the component theories interpret.
  Times and durations are integers in nanoseconds; logging has no effect on the model.
\<close>

section \<open>Collections of simplification rules\<close>

named_theorems go_defs \<open>definitions of the modelled operations\<close>
named_theorems store_laws \<open>lookup after update, for the stores of the components\<close>

section \<open>Outcomes of calls\<close>

text \<open>
  A call that returns yields \<open>Ret\<close>; a run-time panic or a fatal error of the runtime is
  \<open>Panic\<close> with its message; \<open>Deadlock\<close> is a call that blocks forever.
\<close>

datatype 'a go = Ret 'a | Panic string | Deadlock

fun go_bind :: "'a go \<Rightarrow> ('a \<Rightarrow> 'b go) \<Rightarrow> 'b go" where
  "go_bind (Ret x) f = f x"
| "go_bind (Panic m) f = Panic m"
| "go_bind Deadlock f = Deadlock"

fun returns :: "'a go \<Rightarrow> bool" where
  "returns (Ret x) = True"
| "returns (Panic m) = False"
| "returns Deadlock = False"

lemma returns_iff: "returns r \<longleftrightarrow> (\<exists>x. r = Ret x)"
  by (cases r) auto

lemma go_bind_Ret_iff: "go_bind r f = Ret y \<longleftrightarrow> (\<exists>x. r = Ret x \<and> f x = Ret y)"
  by (cases r) auto

section \<open>Error values\<close>

datatype ErrorCode =
    ErrSkillNotFound | ErrSkillTimeout | ErrSkillAlreadyExists
  | ErrSkillExecFailed | ErrCircuitOpen | ErrPipelineStepFailed

fun code_number :: "ErrorCode \<Rightarrow> nat" where
  "code_number ErrSkillNotFound = 4001"
| "code_number ErrSkillTimeout = 4002"
| "code_number ErrSkillAlreadyExists = 4003"
| "code_number ErrSkillExecFailed = 5001"
| "code_number ErrCircuitOpen = 5002"
| "code_number ErrPipelineStepFailed = 5003"

text \<open>
  \<open>Canceled\<close> and \<open>DeadlineExceeded\<close> are the errors of package context; \<open>Wrapped p e\<close> is
  \<^verbatim>\<open>fmt.Errorf("p: %w", e)\<close> and \<open>WrappedBy e s\<close> is \<^verbatim>\<open>fmt.Errorf("%w: s", e)\<close>; \<open>Joined\<close> is \<^verbatim>\<open>errors.Join\<close>; \<open>SkillError\<close> is the struct of
  skillgateway/types.go with its Code, Message, TraceID and Cause, \<open>A2AError\<close> the one of
  a2a/error.go with its Type, Message and Cause.
\<close>

datatype error =
    ErrorString string
  | Canceled
  | DeadlineExceeded
  | Wrapped string error
  | WrappedBy error string
  | Joined error error
  | SkillError ErrorCode string string "error option"
  | A2AError string string "error option"

text \<open>\<^verbatim>\<open>errors.Is\<close> against a sentinel: the error itself or anything it unwraps to.\<close>

fun errors_is :: "error \<Rightarrow> error \<Rightarrow> bool" where
  "errors_is (Wrapped p e) t = (Wrapped p e = t \<or> errors_is e t)"
| "errors_is (WrappedBy e s) t = (WrappedBy e s = t \<or> errors_is e t)"
| "errors_is (Joined a b) t = (Joined a b = t \<or> errors_is a t \<or> errors_is b t)"
| "errors_is (SkillError c m tr (Some e)) t = (SkillError c m tr (Some e) = t \<or> errors_is e t)"
| "errors_is (A2AError k m (Some e)) t = (A2AError k m (Some e) = t \<or> errors_is e t)"
| "errors_is e t = (e = t)"

text \<open>Decimal digits, for \<^verbatim>\<open>%d\<close> and \<^verbatim>\<open>strconv.Itoa\<close>.\<close>

fun show_nat :: "nat \<Rightarrow> string" where
  "show_nat n = (if n < 10 then [char_of (48 + n)] else show_nat (n div 10) @ [char_of (48 + n mod 10)])"

declare show_nat.simps [simp del]

definition show_int :: "int \<Rightarrow> string" where
  "show_int i = (if i < 0 then CHR ''-'' # show_nat (nat (- i)) else show_nat (nat i))"

text \<open>\<^verbatim>\<open>%q\<close> on printable text: double quotes around it, with quotes and backslashes escaped.\<close>

definition quoted :: "string \<Rightarrow> string" where
  "quoted s = [CHR 0x22] @ concat (map (\<lambda>c. if c = CHR 0x22 \<or> c = CHR 0x5C then [CHR 0x5C, c] else [c]) s) @ [CHR 0x22]"

fun error_text :: "error \<Rightarrow> string" where
  "error_text (ErrorString s) = s"
| "error_text Canceled = ''context canceled''"
| "error_text DeadlineExceeded = ''context deadline exceeded''"
| "error_text (Wrapped p e) = p @ '': '' @ error_text e"
| "error_text (WrappedBy e s) = error_text e @ '': '' @ s"
| "error_text (Joined a b) = error_text a @ [CHR 0x0A] @ error_text b"
| "error_text (SkillError c m tr (Some e)) =
     ''['' @ show_nat (code_number c) @ ''] '' @ m @ '' (trace_id='' @ tr @ ''): '' @ error_text e"
| "error_text (SkillError c m tr None) =
     ''['' @ show_nat (code_number c) @ ''] '' @ m @ '' (trace_id='' @ tr @ '')''"
| "error_text (A2AError k m (Some e)) = ''['' @ k @ ''] '' @ m @ '': '' @ error_text e"
| "error_text (A2AError k m None) = ''['' @ k @ ''] '' @ m"

section \<open>Values of type any\<close>

datatype gval =
    VNil
  | VBool bool
  | VInt int
  | VFloat rat
  | VStr string
  | VList "gval list"
  | VMap "(string \<times> gval) list"

text \<open>Conversion of a float64 to int truncates towards zero.\<close>

definition trunc :: "rat \<Rightarrow> int" where
  "trunc q = (if q < 0 then \<lceil>q\<rceil> else \<lfloor>q\<rfloor>)"

section \<open>Maps and the order of range loops\<close>

text \<open>
  \<open>ranges m ks\<close>: the list \<open>ks\<close> is an order in which a \<^verbatim>\<open>for k := range m\<close> loop may visit
  the keys of \<open>m\<close>; the runtime picks any of them, anew for every loop.
\<close>

definition ranges :: "('k \<rightharpoonup> 'v) \<Rightarrow> 'k list \<Rightarrow> bool" where
  "ranges m ks \<longleftrightarrow> distinct ks \<and> set ks = dom m"

lemma ranges_finite: "ranges m ks \<Longrightarrow> finite (dom m)"
  by (metis ranges_def List.finite_set)

lemma ranges_length: "ranges m ks \<Longrightarrow> length ks = card (dom m)"
  by (metis ranges_def distinct_card)

lemma ranges_memD: "ranges m ks \<Longrightarrow> k \<in> set ks \<Longrightarrow> \<exists>v. m k = Some v"
  by (auto simp: ranges_def)

lemma ranges_ex: "finite (dom m) \<Longrightarrow> \<exists>ks. ranges m ks"
  using finite_distinct_list[of "dom m"] by (auto simp: ranges_def)

lemma card_dom_upd_le: "finite (dom m) \<Longrightarrow> card (dom (m(k \<mapsto> v))) \<le> Suc (card (dom m))"
  by (simp add: card_insert_le_m1 card_insert_if)

lemma card_dom_upd_mem: "k \<in> dom m \<Longrightarrow> dom (m(k \<mapsto> v)) = dom m"
  by auto

lemma card_dom_del: "finite (dom m) \<Longrightarrow> k \<in> dom m \<Longrightarrow> card (dom (m(k := None))) = card (dom m) - 1"
  by simp

section \<open>64-bit integers\<close>

definition wrap64 :: "int \<Rightarrow> int" where
  "wrap64 i = (i + 2 ^ 63) mod 2 ^ 64 - 2 ^ 63"

lemma wrap64_id [simp]: "- (2 ^ 63) \<le> i \<Longrightarrow> i < 2 ^ 63 \<Longrightarrow> wrap64 i = i"
  by (simp add: wrap64_def)

lemma wrap64_range: "- (2 ^ 63) \<le> wrap64 i \<and> wrap64 i < 2 ^ 63"
proof -
  have "0 \<le> (i + 2 ^ 63) mod (2 ^ 64 :: int)" and "(i + 2 ^ 63) mod 2 ^ 64 < (2 ^ 64 :: int)"
    by simp_all
  then show ?thesis by (simp add: wrap64_def)
qed

section \<open>Reader-writer locks as one goroutine sees them\<close>

text \<open>
  The state of a \<^verbatim>\<open>sync.RWMutex\<close> that only the current goroutine uses: a second
  \<^verbatim>\<open>Lock\<close> on a held lock blocks for good, and releasing in a mode that is not held is a
  fatal error of the runtime.
\<close>

datatype rwmutex = Free | Readers nat | Writer

fun rw_Lock :: "rwmutex \<Rightarrow> rwmutex go" where
  "rw_Lock Free = Ret Writer"
| "rw_Lock (Readers n) = Deadlock"
| "rw_Lock Writer = Deadlock"

fun rw_Unlock :: "rwmutex \<Rightarrow> rwmutex go" where
  "rw_Unlock Writer = Ret Free"
| "rw_Unlock Free = Panic ''sync: Unlock of unlocked RWMutex''"
| "rw_Unlock (Readers n) = Panic ''sync: Unlock of unlocked RWMutex''"

fun rw_RLock :: "rwmutex \<Rightarrow> rwmutex go" where
  "rw_RLock Free = Ret (Readers 1)"
| "rw_RLock (Readers n) = Ret (Readers (Suc n))"
| "rw_RLock Writer = Deadlock"

fun rw_RUnlock :: "rwmutex \<Rightarrow> rwmutex go" where
  "rw_RUnlock (Readers n) = Ret (if n \<le> 1 then Free else Readers (n - 1))"
| "rw_RUnlock Free = Panic ''sync: RUnlock of unlocked RWMutex''"
| "rw_RUnlock Writer = Panic ''sync: RUnlock of unlocked RWMutex''"

section \<open>Interfaces\<close>

text \<open>A step relation with an invariant: every reachable state satisfies it.\<close>

locale invariant_system =
  fixes init :: "'s \<Rightarrow> bool"
    and step :: "'s \<Rightarrow> 's \<Rightarrow> bool"
    and inv :: "'s \<Rightarrow> bool"
  assumes inv_init: "init s \<Longrightarrow> inv s"
    and inv_step: "step s t \<Longrightarrow> inv s \<Longrightarrow> inv t"
begin

lemma steps_inv: "rtranclp step s t \<Longrightarrow> inv s \<Longrightarrow> inv t"
  by (induction rule: rtranclp_induct) (auto intro: inv_step)

lemma reachable_inv: "init s \<Longrightarrow> rtranclp step s t \<Longrightarrow> inv t"
  by (blast intro: inv_init steps_inv)

end

text \<open>
  A map with keys: what a lookup returns after insertions. \<open>keyed_store\<close> adds deletion. The lemmas
  are what the clients of such a store rely on.
\<close>

locale keyed_map =
  fixes get :: "'m \<Rightarrow> 'k \<Rightarrow> 'v option"
    and put :: "'m \<Rightarrow> 'k \<Rightarrow> 'v \<Rightarrow> 'm"
    and empty_store :: "'m"
  assumes get_empty: "get empty_store k = None"
    and get_put: "get (put m k v) k' = (if k' = k then Some v else get m k')"
begin

lemma get_put_same: "get (put m k v) k = Some v"
  by (simp add: get_put)

lemma get_put_other: "k' \<noteq> k \<Longrightarrow> get (put m k v) k' = get m k'"
  by (simp add: get_put)

lemma put_overwrites: "get (put (put m k v) k w) = get (put m k w)"
  by (rule ext) (simp add: get_put)

lemma put_commute: "k \<noteq> k' \<Longrightarrow> get (put (put m k v) k' w) = get (put (put m k' w) k v)"
  by (rule ext) (simp add: get_put)

lemma get_puts:
  "get (foldl (\<lambda>m (k, v). put m k v) m kvs) k =
     (case map_of (rev kvs) k of Some v \<Rightarrow> Some v | None \<Rightarrow> get m k)"
proof (induction kvs arbitrary: m)
  case Nil
  then show ?case by simp
next
  case (Cons kv kvs)
  then show ?case
    by (cases kv) (auto simp: get_put map_add_def split: option.splits)
qed

lemma get_puts_empty: "get (foldl (\<lambda>m (k, v). put m k v) empty_store kvs) k = map_of (rev kvs) k"
  unfolding get_puts by (simp add: get_empty split: option.split)

end

locale keyed_store = keyed_map +
  fixes del :: "'a \<Rightarrow> 'b \<Rightarrow> 'a"
  assumes get_del: "get (del m k) k' = (if k' = k then None else get m k')"
begin

lemma del_put: "get (del (put m k v) k) k' = get (del m k) k'"
  by (simp add: get_del get_put)

lemma del_commute: "get (del (del m k) k') = get (del (del m k') k)"
  by (rule ext) (simp add: get_del)

lemma put_after_del: "get (put (del m k) k v) = get (put m k v)"
  by (rule ext) (simp add: get_del get_put)

end

text \<open>The last \<open>n\<close> elements, what the slice \<^verbatim>\<open>xs[len(xs)-n:]\<close> keeps of a longer list.\<close>

definition last_n :: "nat \<Rightarrow> 'a list \<Rightarrow> 'a list" where
  "last_n n xs = drop (length xs - n) xs"

lemma length_last_n [simp]: "length (last_n n xs) = min n (length xs)"
  by (simp add: last_n_def)

lemma last_n_short: "length xs \<le> n \<Longrightarrow> last_n n xs = xs"
  by (simp add: last_n_def)

lemma last_n_append: "last_n n (last_n n xs @ ys) = last_n n (xs @ ys)"
proof (cases "length xs \<le> n")
  case False
  then have "length (xs @ ys) - n = (length xs - n) + length ys" by simp
  then show ?thesis using False by (simp add: last_n_def add.commute)
qed (simp add: last_n_short)

text \<open>A log that keeps the most recent entries only, up to a limit.\<close>

locale bounded_log =
  fixes entries :: "'s \<Rightarrow> 'a list"
    and log_add :: "'s \<Rightarrow> 'a \<Rightarrow> 's"
    and limit :: nat
  assumes entries_add: "entries (log_add s x) = last_n limit (entries s @ [x])"
begin

lemma entries_adds: "xs \<noteq> [] \<or> length (entries s) \<le> limit \<Longrightarrow> entries (foldl log_add s xs) = last_n limit (entries s @ xs)"
proof (induction xs rule: rev_induct)
  case Nil
  then show ?case by (simp add: last_n_short)
next
  case (snoc x xs)
  show ?case
  proof (cases "xs = []")
    case False
    with snoc.IH show ?thesis by (simp add: entries_add last_n_append flip: append_assoc)
  qed (simp add: entries_add)
qed

lemma length_entries: "length (entries (log_add s x)) \<le> limit"
  by (simp add: entries_add)

end

end
