(* ===== verification/Circuit_Breaker.thy ===== *)
theory Circuit_Breaker
  imports Go_Base
begin

text \<open>
  The circuit breakers of the skill gateway, internal/skillgateway/circuit_breaker.go: one
  \<open>breaker\<close> per skill inside a \<open>CircuitBreakerManager\<close>, with the operations Allow,
  RecordSuccess and RecordFailure. \<open>time.Now()\<close> is the argument \<open>now\<close>; each operation runs
  under the breaker's mutex, so it is one step of the machine. The gauge of the metrics
  client is kept in the state (\<open>None\<close> when the manager has no metrics client).

  Proved: the invariant of the machine (half-open exactly while a probe is in flight, the
  failure counter below the threshold exactly while closed) in every reachable state, the
  number of failures that opens a breaker, the rejection during the recovery time, that one
  probe at most is admitted, and that skills do not influence one another.
\<close>

section \<open>Data\<close>

datatype CBState = CBClosed | CBOpen | CBHalfOpen

fun CBState_String :: "CBState \<Rightarrow> string" where
  "CBState_String CBClosed = ''closed''"
| "CBState_String CBOpen = ''open''"
| "CBState_String CBHalfOpen = ''half_open''"

record CircuitBreakerConfig =
  FailureThreshold :: int
  RecoveryTimeout :: int

definition defaultCBConfig :: CircuitBreakerConfig where
  "defaultCBConfig = \<lparr>FailureThreshold = 5, RecoveryTimeout = 30 * 10 ^ 9\<rparr>"

record breaker =
  br_state :: CBState
  failures :: int
  lastFailureAt :: int
  probing :: bool

record CircuitBreakerManager =
  breakers :: "string \<rightharpoonup> breaker"
  cb_config :: CircuitBreakerConfig
  cb_gauge :: "(string \<rightharpoonup> CBState) option"

definition newCircuitBreakerManager ::
  "CircuitBreakerConfig \<Rightarrow> (string \<rightharpoonup> CBState) option \<Rightarrow> CircuitBreakerManager" where
  "newCircuitBreakerManager cfg metrics =
     \<lparr>breakers = Map.empty, cb_config = cfg, cb_gauge = metrics\<rparr>"

definition new_breaker :: breaker where
  "new_breaker = \<lparr>br_state = CBClosed, failures = 0, lastFailureAt = 0, probing = False\<rparr>"

section \<open>Operations\<close>

definition getOrCreate :: "CircuitBreakerManager \<Rightarrow> string \<Rightarrow> breaker \<times> CircuitBreakerManager" where
  "getOrCreate m skillID =
     (case breakers m skillID of
        Some b \<Rightarrow> (b, m)
      | None \<Rightarrow> (new_breaker, m\<lparr>breakers := (breakers m)(skillID \<mapsto> new_breaker)\<rparr>))"

definition reportState :: "string \<Rightarrow> CBState \<Rightarrow> CircuitBreakerManager \<Rightarrow> CircuitBreakerManager" where
  "reportState skillID st m =
     (case cb_gauge m of
        None \<Rightarrow> m
      | Some g \<Rightarrow> m\<lparr>cb_gauge := Some (g(skillID \<mapsto> st))\<rparr>)"

definition put_breaker :: "string \<Rightarrow> breaker \<Rightarrow> CircuitBreakerManager \<Rightarrow> CircuitBreakerManager" where
  "put_breaker skillID b m = m\<lparr>breakers := (breakers m)(skillID \<mapsto> b)\<rparr>"

text \<open>The decision of Allow on one breaker: whether the request passes, and the new breaker.\<close>

definition breaker_allow :: "CircuitBreakerConfig \<Rightarrow> int \<Rightarrow> breaker \<Rightarrow> bool \<times> breaker" where
  "breaker_allow cfg now b =
     (case br_state b of
        CBClosed \<Rightarrow> (True, b)
      | CBOpen \<Rightarrow>
          (if now - lastFailureAt b \<ge> RecoveryTimeout cfg
           then (True, b\<lparr>br_state := CBHalfOpen, probing := True\<rparr>)
           else (False, b))
      | CBHalfOpen \<Rightarrow>
          (if \<not> probing b then (True, b\<lparr>probing := True\<rparr>) else (False, b)))"

definition Allow :: "int \<Rightarrow> string \<Rightarrow> CircuitBreakerManager \<Rightarrow> bool \<times> CircuitBreakerManager" where
  "Allow now skillID m =
     (let (b, m1) = getOrCreate m skillID;
          (ok, b') = breaker_allow (cb_config m1) now b
      in (ok, put_breaker skillID b' m1))"

definition breaker_success :: "breaker \<Rightarrow> breaker" where
  "breaker_success b = b\<lparr>br_state := CBClosed, failures := 0, probing := False\<rparr>"

definition RecordSuccess :: "string \<Rightarrow> CircuitBreakerManager \<Rightarrow> CircuitBreakerManager" where
  "RecordSuccess skillID m =
     (let (b, m1) = getOrCreate m skillID
      in reportState skillID CBClosed (put_breaker skillID (breaker_success b) m1))"

text \<open>The effect of RecordFailure on one breaker, and the state it reports, if any.\<close>

definition breaker_failure :: "CircuitBreakerConfig \<Rightarrow> int \<Rightarrow> breaker \<Rightarrow> breaker \<times> CBState option" where
  "breaker_failure cfg now b0 =
     (let b = b0\<lparr>probing := False\<rparr>
      in case br_state b of
           CBClosed \<Rightarrow>
             (let b1 = b\<lparr>failures := failures b + 1\<rparr>
              in if failures b1 \<ge> FailureThreshold cfg
                 then (b1\<lparr>br_state := CBOpen, lastFailureAt := now\<rparr>, Some CBOpen)
                 else (b1, None))
         | CBHalfOpen \<Rightarrow> (b\<lparr>br_state := CBOpen, lastFailureAt := now\<rparr>, Some CBOpen)
         | CBOpen \<Rightarrow> (b, None))"

definition RecordFailure :: "int \<Rightarrow> string \<Rightarrow> CircuitBreakerManager \<Rightarrow> CircuitBreakerManager" where
  "RecordFailure now skillID m =
     (let (b, m1) = getOrCreate m skillID;
          (b', rep) = breaker_failure (cb_config m1) now b;
          m2 = put_breaker skillID b' m1
      in case rep of None \<Rightarrow> m2 | Some st \<Rightarrow> reportState skillID st m2)"

section \<open>The breaker of a skill, and what the operations do to it\<close>

text \<open>The breaker a skill has: the one in the map, or the fresh one it would get.\<close>

definition breaker_of :: "CircuitBreakerManager \<Rightarrow> string \<Rightarrow> breaker" where
  "breaker_of m skillID = (case breakers m skillID of Some b \<Rightarrow> b | None \<Rightarrow> new_breaker)"

lemma fst_getOrCreate [simp]: "fst (getOrCreate m s) = breaker_of m s"
  by (simp add: getOrCreate_def breaker_of_def split: option.splits)

lemma config_getOrCreate [simp]: "cb_config (snd (getOrCreate m s)) = cb_config m"
  by (simp add: getOrCreate_def split: option.splits)

lemma breaker_of_getOrCreate [simp]: "breaker_of (snd (getOrCreate m s)) t = breaker_of m t"
  by (auto simp: getOrCreate_def breaker_of_def split: option.splits)

lemma breaker_of_put [simp]: "breaker_of (put_breaker s b m) t = (if t = s then b else breaker_of m t)"
  by (simp add: put_breaker_def breaker_of_def)

lemma config_put [simp]: "cb_config (put_breaker s b m) = cb_config m"
  by (simp add: put_breaker_def)

lemma breaker_of_report [simp]: "breaker_of (reportState s st m) t = breaker_of m t"
  by (simp add: reportState_def breaker_of_def split: option.splits)

lemma config_report [simp]: "cb_config (reportState s st m) = cb_config m"
  by (simp add: reportState_def split: option.splits)

lemma breaker_of_new [simp]: "breaker_of (newCircuitBreakerManager cfg g) s = new_breaker"
  by (simp add: breaker_of_def newCircuitBreakerManager_def)

lemma config_new [simp]: "cb_config (newCircuitBreakerManager cfg g) = cfg"
  by (simp add: newCircuitBreakerManager_def)

lemma Allow_result: "fst (Allow now s m) = fst (breaker_allow (cb_config m) now (breaker_of m s))"
  by (simp add: Allow_def Let_def split_def)

lemma Allow_breaker:
  "breaker_of (snd (Allow now s m)) t =
     (if t = s then snd (breaker_allow (cb_config m) now (breaker_of m s)) else breaker_of m t)"
  by (simp add: Allow_def Let_def split_def)

lemma RecordSuccess_breaker:
  "breaker_of (RecordSuccess s m) t =
     (if t = s then breaker_success (breaker_of m s) else breaker_of m t)"
  by (simp add: RecordSuccess_def Let_def split_def)

lemma RecordFailure_breaker:
  "breaker_of (RecordFailure now s m) t =
     (if t = s then fst (breaker_failure (cb_config m) now (breaker_of m s)) else breaker_of m t)"
  by (simp add: RecordFailure_def Let_def split_def split: option.splits)

lemma Allow_config [simp]: "cb_config (snd (Allow now s m)) = cb_config m"
  by (simp add: Allow_def Let_def split_def)

lemma RecordSuccess_config [simp]: "cb_config (RecordSuccess s m) = cb_config m"
  by (simp add: RecordSuccess_def Let_def split_def)

lemma RecordFailure_config [simp]: "cb_config (RecordFailure now s m) = cb_config m"
  by (simp add: RecordFailure_def Let_def split_def split: option.splits)

lemmas breaker_effects = Allow_result Allow_breaker RecordSuccess_breaker RecordFailure_breaker

section \<open>The machine and its invariant\<close>

inductive cb_step :: "CircuitBreakerManager \<Rightarrow> CircuitBreakerManager \<Rightarrow> bool" where
  allow: "cb_step m (snd (Allow now s m))"
| success: "cb_step m (RecordSuccess s m)"
| failure: "cb_step m (RecordFailure now s m)"

inductive_cases cb_stepE: "cb_step m m'"

text \<open>
  Half-open exactly while a probe is in flight; closed exactly while fewer failures than the
  threshold have been counted since the last success.
\<close>

definition breaker_inv :: "CircuitBreakerConfig \<Rightarrow> breaker \<Rightarrow> bool" where
  "breaker_inv cfg b \<longleftrightarrow>
     (br_state b = CBHalfOpen \<longleftrightarrow> probing b) \<and>
     (br_state b = CBClosed \<longleftrightarrow> failures b < FailureThreshold cfg) \<and>
     0 \<le> failures b \<and> failures b \<le> FailureThreshold cfg"

definition cb_inv :: "CircuitBreakerConfig \<Rightarrow> CircuitBreakerManager \<Rightarrow> bool" where
  "cb_inv cfg m \<longleftrightarrow> 0 < FailureThreshold cfg \<and> cb_config m = cfg \<and> (\<forall>s. breaker_inv cfg (breaker_of m s))"

definition cb_init :: "CircuitBreakerConfig \<Rightarrow> CircuitBreakerManager \<Rightarrow> bool" where
  "cb_init cfg m \<longleftrightarrow> 0 < FailureThreshold cfg \<and> (\<exists>g. m = newCircuitBreakerManager cfg g)"

lemma breaker_inv_allow: "breaker_inv cfg b \<Longrightarrow> breaker_inv cfg (snd (breaker_allow cfg now b))"
  by (auto simp: breaker_inv_def breaker_allow_def split: CBState.splits)

lemma breaker_inv_success: "0 < FailureThreshold cfg \<Longrightarrow> breaker_inv cfg (breaker_success b)"
  by (simp add: breaker_inv_def breaker_success_def)

lemma breaker_inv_failure:
  "breaker_inv cfg b \<Longrightarrow> breaker_inv cfg (fst (breaker_failure cfg now b))"
  by (auto simp: breaker_inv_def breaker_failure_def Let_def split: CBState.splits)

lemma breaker_failure_settles: "br_state (fst (breaker_failure cfg now b)) \<noteq> CBHalfOpen"
  by (cases "br_state b") (auto simp: breaker_failure_def Let_def)

lemma cb_inv_step: "cb_step m m' \<Longrightarrow> cb_inv cfg m \<Longrightarrow> cb_inv cfg m'"
  by (erule cb_stepE)
    (auto simp: cb_inv_def breaker_effects breaker_inv_allow breaker_inv_success breaker_inv_failure)

interpretation cb_machine: invariant_system "cb_init cfg" cb_step "cb_inv cfg" for cfg
proof unfold_locales
  show "cb_init cfg m \<Longrightarrow> cb_inv cfg m" for m
    by (auto simp: cb_init_def cb_inv_def breaker_inv_def new_breaker_def)
  show "cb_step m m' \<Longrightarrow> cb_inv cfg m \<Longrightarrow> cb_inv cfg m'" for m m'
    by (rule cb_inv_step)
qed

lemma cb_reachable_breaker_inv:
  assumes "0 < FailureThreshold cfg" "rtranclp cb_step (newCircuitBreakerManager cfg g) m"
  shows "breaker_inv cfg (breaker_of m s) \<and> cb_config m = cfg"
proof -
  have "cb_init cfg (newCircuitBreakerManager cfg g)"
    using assms(1) by (auto simp: cb_init_def)
  then have "cb_inv cfg m" using assms(2) by (rule cb_machine.reachable_inv)
  then show ?thesis by (simp add: cb_inv_def)
qed

section \<open>Consecutive failures\<close>

text \<open>A list of failures of one skill, at the given times, with no success in between.\<close>

fun RecordFailures :: "int list \<Rightarrow> string \<Rightarrow> CircuitBreakerManager \<Rightarrow> CircuitBreakerManager" where
  "RecordFailures [] s m = m"
| "RecordFailures (now # nows) s m = RecordFailures nows s (RecordFailure now s m)"

lemma RecordFailures_snoc:
  "RecordFailures (nows @ [now]) s m = RecordFailure now s (RecordFailures nows s m)"
  by (induction nows arbitrary: m) auto

lemma RecordFailures_config [simp]: "cb_config (RecordFailures nows s m) = cb_config m"
  by (induction nows arbitrary: m) auto

lemma failures_below_threshold:
  assumes "br_state (breaker_of m s) = CBClosed"
    and "failures (breaker_of m s) + int (length nows) < FailureThreshold (cb_config m)"
  shows "br_state (breaker_of (RecordFailures nows s m) s) = CBClosed \<and>
         failures (breaker_of (RecordFailures nows s m) s) = failures (breaker_of m s) + int (length nows)"
  using assms
proof (induction nows rule: rev_induct)
  case Nil
  then show ?case by simp
next
  case (snoc now nows)
  then have "br_state (breaker_of (RecordFailures nows s m) s) = CBClosed \<and>
    failures (breaker_of (RecordFailures nows s m) s) = failures (breaker_of m s) + int (length nows)"
    by simp
  with snoc.prems show ?case
    by (simp add: RecordFailures_snoc RecordFailure_breaker breaker_failure_def Let_def)
qed

lemma RecordFailures_others:
  "t \<noteq> s \<Longrightarrow> breaker_of (RecordFailures nows s m) t = breaker_of m t"
  by (induction nows arbitrary: m) (auto simp: RecordFailure_breaker)

lemma failure_at_threshold:
  assumes "br_state (breaker_of m s) = CBClosed"
    and "failures (breaker_of m s) + 1 = FailureThreshold (cb_config m)"
  shows "br_state (breaker_of (RecordFailure now s m) s) = CBOpen \<and>
         lastFailureAt (breaker_of (RecordFailure now s m) s) = now"
  using assms by (simp add: RecordFailure_breaker breaker_failure_def Let_def)


section \<open>Properties\<close>

text \<open>C3: in every state a manager with a positive threshold can reach through any calls of
  Allow, RecordSuccess and RecordFailure, at any times and for any skills, the breaker of every
  skill is half-open exactly while its probe is in flight, closed exactly while its failure
  count is below the threshold, and its count never passes the threshold.\<close>

theorem breaker_invariant_reachable:
  assumes "0 < FailureThreshold cfg"
    and "rtranclp cb_step (newCircuitBreakerManager cfg g) m"
  shows "(br_state (breaker_of m s) = CBHalfOpen \<longleftrightarrow> probing (breaker_of m s)) \<and>
         (br_state (breaker_of m s) = CBClosed \<longleftrightarrow>
            failures (breaker_of m s) < FailureThreshold cfg) \<and>
         0 \<le> failures (breaker_of m s) \<and> failures (breaker_of m s) \<le> FailureThreshold cfg"
  using cb_reachable_breaker_inv[OF assms, of s] unfolding breaker_inv_def by simp

theorem breaker_invariant_reachable_witness:
  "failures (breaker_of (RecordFailure 7 ''s'' (newCircuitBreakerManager defaultCBConfig None)) ''s'')
     \<le> FailureThreshold defaultCBConfig"
proof -
  have pos: "0 < FailureThreshold defaultCBConfig" by (simp add: defaultCBConfig_def)
  have "rtranclp cb_step (newCircuitBreakerManager defaultCBConfig None)
          (RecordFailure 7 ''s'' (newCircuitBreakerManager defaultCBConfig None))"
    by (rule r_into_rtranclp) (rule cb_step.failure)
  from breaker_invariant_reachable[OF pos this, of "''s''"] show ?thesis by simp
qed

text \<open>starting from a closed breaker with no failures counted, a run of consecutive failures
  shorter than the threshold leaves every later request admitted; a run of exactly the threshold
  opens the breaker, and from then on a request is admitted exactly when the recovery time has
  passed since the failure that opened it.\<close>

theorem breaker_opens_at_threshold:
  assumes "br_state (breaker_of m s) = CBClosed" and "failures (breaker_of m s) = 0"
    and "0 < FailureThreshold (cb_config m)"
    and "int (length nows) \<le> FailureThreshold (cb_config m)"
  shows "fst (Allow t s (RecordFailures nows s m)) \<longleftrightarrow>
         int (length nows) < FailureThreshold (cb_config m) \<or>
         t - last nows \<ge> RecoveryTimeout (cb_config m)"
proof (cases "int (length nows) < FailureThreshold (cb_config m)")
  case True
  with assms failures_below_threshold[of m s nows] show ?thesis
    by (simp add: Allow_result breaker_allow_def)
next
  case False
  with assms(4) have len: "int (length nows) = FailureThreshold (cb_config m)" by simp
  with assms(3) obtain ns n where nows: "nows = ns @ [n]"
    by (cases nows rule: rev_cases) auto
  have closed: "br_state (breaker_of (RecordFailures ns s m) s) = CBClosed"
    and count: "failures (breaker_of (RecordFailures ns s m) s) + 1 = FailureThreshold (cb_config m)"
    using failures_below_threshold[of m s ns] assms(1,2) len by (simp_all add: nows)
  from failure_at_threshold[OF closed, of n] count False show ?thesis
    by (simp add: nows RecordFailures_snoc Allow_result breaker_allow_def)
qed

theorem breaker_opens_at_threshold_witness:
  "\<not> fst (Allow 10 ''s'' (RecordFailures [1, 2] ''s''
        (newCircuitBreakerManager \<lparr>FailureThreshold = 2, RecoveryTimeout = 30\<rparr> None)))"
  using breaker_opens_at_threshold
      [of "newCircuitBreakerManager \<lparr>FailureThreshold = 2, RecoveryTimeout = 30\<rparr> None" "''s''" "[1, 2]" 10]
  by (simp add: new_breaker_def)

fun Allows :: "int list \<Rightarrow> string \<Rightarrow> CircuitBreakerManager \<Rightarrow> bool list \<times> CircuitBreakerManager" where
  "Allows [] s m = ([], m)"
| "Allows (now # nows) s m =
     (let (ok, m1) = Allow now s m; (oks, m2) = Allows nows s m1 in (ok # oks, m2))"

lemma Allow_while_probing:
  assumes "br_state (breaker_of m s) = CBHalfOpen" and "probing (breaker_of m s)"
  shows "\<not> fst (Allow now s m) \<and> breaker_of (snd (Allow now s m)) s = breaker_of m s"
  using assms by (simp add: Allow_result Allow_breaker breaker_allow_def)

lemma Allows_while_probing:
  assumes "br_state (breaker_of m s) = CBHalfOpen" and "probing (breaker_of m s)"
  shows "True \<notin> set (fst (Allows nows s m)) \<and> breaker_of (snd (Allows nows s m)) s = breaker_of m s"
  using assms
proof (induction nows arbitrary: m)
  case Nil
  then show ?case by simp
next
  case (Cons now nows)
  note A = Allow_while_probing[OF Cons.prems, of now]
  from Cons.IH[of "snd (Allow now s m)"] A Cons.prems show ?case
    by (simp add: Let_def split_def)
qed

text \<open>once a request has been admitted on a breaker that was not closed (the probe), every
  further request for the same skill is rejected, at any times and in any number, and the breaker
  does not change, until the outcome of the probe is recorded.\<close>

theorem single_probe:
  assumes "br_state (breaker_of m s) \<noteq> CBClosed" and "fst (Allow t s m)"
  shows "True \<notin> set (fst (Allows nows s (snd (Allow t s m)))) \<and>
         breaker_of (snd (Allows nows s (snd (Allow t s m)))) s = breaker_of (snd (Allow t s m)) s"
proof (rule Allows_while_probing)
  from assms show "br_state (breaker_of (snd (Allow t s m)) s) = CBHalfOpen"
    and "probing (breaker_of (snd (Allow t s m)) s)"
    by (auto simp: breaker_effects breaker_allow_def split: CBState.splits if_splits)
qed

theorem single_probe_witness:
  "True \<notin> set (fst (Allows [41, 42, 1000] ''s'' (snd (Allow 40 ''s''
      (RecordFailure 1 ''s'' (newCircuitBreakerManager \<lparr>FailureThreshold = 1, RecoveryTimeout = 30\<rparr> None))))))"
  using single_probe[of "RecordFailure 1 ''s''
      (newCircuitBreakerManager \<lparr>FailureThreshold = 1, RecoveryTimeout = 30\<rparr> None)" "''s''" 40 "[41, 42, 1000]"]
  by (simp add: breaker_effects breaker_failure_def breaker_allow_def new_breaker_def)

text \<open>the operations on one skill leave the breaker of every other skill as it is.\<close>

theorem breakers_are_independent:
  assumes "t \<noteq> s"
  shows "breaker_of (snd (Allow now s m)) t = breaker_of m t \<and>
         breaker_of (RecordSuccess s m) t = breaker_of m t \<and>
         breaker_of (RecordFailure now s m) t = breaker_of m t"
  using assms by (simp add: breaker_effects)

theorem breakers_are_independent_witness:
  "breaker_of (RecordFailure 3 ''a'' (newCircuitBreakerManager defaultCBConfig None)) ''b'' = new_breaker"
  using breakers_are_independent[of "''b''" "''a''" 3 "newCircuitBreakerManager defaultCBConfig None"] by simp

end
