(* ===== verification/Atomic_Engine.thy ===== *)
theory Atomic_Engine
  imports Circuit_Breaker
begin

text \<open>
  The provider registry and the atomic engine of the skill gateway,
  internal/skillgateway/provider.go, types.go, audit.go, atomic.go and gateway.go.

  A provider is a record of its skill ids, its type and its Execute function. What a call of
  Execute answers depends on code and services outside the gateway, so the record's function
  takes the observation \<open>ec_world\<close> of that call besides the context's trace id and timeout;
  it returns a value, an error, or panics. Clock readings and the state of the caller's context
  come from an \<open>exec_env\<close>. The engine's own effects are explicit state (\<open>engine\<close>): the breakers,
  the audit log, the reported metrics and the delays it slept.

  Proved: registration is atomic (all ids or none) and lookup after registration; the engine
  calls the provider at most the clamped number of times and always returns; the breaker is
  updated once per admitted request and is never left half-open unless the provider panics;
  every error it returns is a SkillError with the trace id; the back-off is the capped doubling.
\<close>

section \<open>Requests and responses\<close>

record RetryConfig =
  MaxAttempts :: int
  BaseDelay :: int

record SkillRequest =
  sr_TraceID :: string
  sr_SkillID :: string
  sr_Input :: gval
  sr_Timeout :: int
  sr_Retry :: RetryConfig
  sr_Metadata :: "string \<rightharpoonup> string"

record SkillResponse =
  rs_TraceID :: string
  rs_SkillID :: string
  rs_Output :: gval
  rs_Duration :: int
  rs_Metadata :: "string \<rightharpoonup> string"

section \<open>The provider registry\<close>

record exec_ctx =
  ec_trace :: string
  ec_timeout :: int
  ec_world :: nat

record SkillProvider =
  SkillIDs :: "string list"
  p_SkillType :: string
  p_Execute :: "exec_ctx \<Rightarrow> string \<Rightarrow> gval \<Rightarrow> (error + gval) go"

type_synonym ProviderRegistry = "string \<rightharpoonup> SkillProvider"

definition newProviderRegistry :: ProviderRegistry where
  "newProviderRegistry = Map.empty"

text \<open>The first loop of Register: the first id that is taken stops it.\<close>

fun first_taken :: "ProviderRegistry \<Rightarrow> string list \<Rightarrow> string option" where
  "first_taken r [] = None"
| "first_taken r (i # is) = (if r i \<noteq> None then Some i else first_taken r is)"

text \<open>The second loop: every id is bound to the provider.\<close>

fun bind_all :: "ProviderRegistry \<Rightarrow> string list \<Rightarrow> SkillProvider \<Rightarrow> ProviderRegistry" where
  "bind_all r [] p = r"
| "bind_all r (i # is) p = bind_all (r(i \<mapsto> p)) is p"

definition Register :: "ProviderRegistry \<Rightarrow> SkillProvider \<Rightarrow> error option \<times> ProviderRegistry" where
  "Register r p =
     (case first_taken r (SkillIDs p) of
        Some i \<Rightarrow> (Some (SkillError ErrSkillAlreadyExists (''skill already registered: '' @ i) '''' None), r)
      | None \<Rightarrow> (None, bind_all r (SkillIDs p) p))"

definition Resolve :: "ProviderRegistry \<Rightarrow> string \<Rightarrow> SkillProvider option" where
  "Resolve r i = r i"

definition TypeOf :: "ProviderRegistry \<Rightarrow> string \<Rightarrow> string" where
  "TypeOf r i = (case r i of Some p \<Rightarrow> p_SkillType p | None \<Rightarrow> ''unknown'')"

section \<open>The engine\<close>

text \<open>
  What the engine observes during one attempt: ctx.Err() at the head of the loop, the context's
  error when ctx.Done() wins the wait before a retry (\<open>None\<close>: the timer fires), the observation
  for the provider call, and the clock when the attempt ends.
\<close>

record attempt_env =
  at_ctx_err :: "error option"
  at_backoff_done :: "error option"
  at_world :: nat
  at_now :: int

record exec_env =
  env_uuid :: string
  env_allow_now :: int
  env_start :: int
  env_attempt :: "nat \<Rightarrow> attempt_env"
  env_end :: int

record audit_entry =
  au_trace :: string
  au_skill :: string
  au_caller :: string
  au_status :: string
  au_duration :: int

record engine =
  en_registry :: ProviderRegistry
  en_cb :: CircuitBreakerManager
  en_audit :: "audit_entry list"
  en_metrics :: "(string \<times> string \<times> string \<times> int) list option"
  en_sleeps :: "int list"
  en_provider_calls :: nat

definition defaultTimeout :: int where "defaultTimeout = 30 * 10 ^ 9"
definition maxRetryDelay :: int where "maxRetryDelay = 10 * 10 ^ 9"
definition maxRetryAttempts :: int where "maxRetryAttempts = 10"
definition retryBaseDelay :: int where "retryBaseDelay = 100 * 10 ^ 6"

definition reportMetrics :: "string \<Rightarrow> string \<Rightarrow> string \<Rightarrow> int \<Rightarrow> engine \<Rightarrow> engine" where
  "reportMetrics skillID skillType status duration e =
     (case en_metrics e of
        None \<Rightarrow> e
      | Some ms \<Rightarrow> e\<lparr>en_metrics := Some (ms @ [(skillID, skillType, status, duration)])\<rparr>)"

definition audit_log :: "string \<Rightarrow> string \<Rightarrow> string \<Rightarrow> string \<Rightarrow> int \<Rightarrow> engine \<Rightarrow> engine" where
  "audit_log traceID skillID caller status duration e =
     e\<lparr>en_audit := en_audit e @ [\<lparr>au_trace = traceID, au_skill = skillID, au_caller = caller,
        au_status = status, au_duration = duration\<rparr>]\<rparr>"

definition caller_of :: "SkillRequest \<Rightarrow> string" where
  "caller_of req = (case sr_Metadata req ''caller'' of Some c \<Rightarrow> c | None \<Rightarrow> '''')"

definition record_success :: "string \<Rightarrow> engine \<Rightarrow> engine" where
  "record_success skillID e = e\<lparr>en_cb := RecordSuccess skillID (en_cb e)\<rparr>"

definition record_failure :: "int \<Rightarrow> string \<Rightarrow> engine \<Rightarrow> engine" where
  "record_failure now skillID e = e\<lparr>en_cb := RecordFailure now skillID (en_cb e)\<rparr>"

text \<open>
  The delay before retry number \<open>attempt\<close>. The code computes it in float64, where doubling is
  exact; base delays are assumed below \<open>2 ^ 53\<close> ns (104 days), so that the conversion from and
  to int64 is exact as well.
\<close>

definition backoff_delay :: "int \<Rightarrow> nat \<Rightarrow> int" where
  "backoff_delay baseDelay attempt =
     (let delay = baseDelay * 2 ^ (attempt - 1)
      in if delay > maxRetryDelay then maxRetryDelay else delay)"

text \<open>
  The body of the retry loop for attempt number \<open>attempt\<close>: \<open>Inl\<close> when it returns from execute,
  \<open>Inr\<close> with the provider's error (the new lastErr) when the loop goes on.
\<close>

type_synonym exec_result = "(error + SkillResponse) go \<times> engine"

definition attempt_body ::
  "exec_env \<Rightarrow> SkillRequest \<Rightarrow> SkillProvider \<Rightarrow> string \<Rightarrow> int \<Rightarrow> int \<Rightarrow> nat \<Rightarrow> engine
    \<Rightarrow> exec_result + (error \<times> engine)" where
  "attempt_body env req p traceID timeout baseDelay attempt e =
     (let skillID = sr_SkillID req; skillType = p_SkillType p; ae = env_attempt env attempt
      in case at_ctx_err ae of
          Some err \<Rightarrow>
            Inl (Ret (Inl (SkillError ErrSkillExecFailed ''context cancelled'' traceID (Some err))),
                 record_failure (at_now ae) skillID e)
        | None \<Rightarrow>
            (case (if attempt > 0 then at_backoff_done ae else None) of
               Some err \<Rightarrow>
                 Inl (Ret (Inl (SkillError ErrSkillExecFailed ''context cancelled during retry backoff'' traceID (Some err))),
                      record_failure (at_now ae) skillID e)
             | None \<Rightarrow>
                 (let e1 = (if attempt > 0 then e\<lparr>en_sleeps := en_sleeps e @ [backoff_delay baseDelay attempt]\<rparr> else e);
                      e2 = e1\<lparr>en_provider_calls := Suc (en_provider_calls e1)\<rparr>
                  in case p_Execute p \<lparr>ec_trace = traceID, ec_timeout = timeout, ec_world = at_world ae\<rparr>
                            skillID (sr_Input req) of
                       Panic m \<Rightarrow> Inl (Panic m, e2)
                     | Deadlock \<Rightarrow> Inl (Deadlock, e2)
                     | Ret (Inr output) \<Rightarrow>
                         (let duration = at_now ae - env_start env;
                              e3 = record_success skillID e2;
                              e4 = reportMetrics skillID skillType ''success'' duration e3;
                              e5 = audit_log traceID skillID (caller_of req) ''success'' duration e4
                          in Inl (Ret (Inr \<lparr>rs_TraceID = traceID, rs_SkillID = skillID, rs_Output = output,
                                rs_Duration = duration, rs_Metadata = sr_Metadata req\<rparr>), e5))
                     | Ret (Inl err) \<Rightarrow>
                         (if errors_is err DeadlineExceeded then
                            (let e3 = record_failure (at_now ae) skillID e2;
                                 duration = at_now ae - env_start env;
                                 e4 = reportMetrics skillID skillType ''timeout'' duration e3;
                                 e5 = audit_log traceID skillID (caller_of req) ''timeout'' duration e4
                             in Inl (Ret (Inl (SkillError ErrSkillTimeout (''skill execution timeout: '' @ skillID)
                                    traceID (Some err))), e5))
                          else Inr (err, e2)))))"

text \<open>What follows the loop: all retries are used up.\<close>

definition attempts_exhausted ::
  "exec_env \<Rightarrow> SkillRequest \<Rightarrow> SkillProvider \<Rightarrow> string \<Rightarrow> error option \<Rightarrow> engine \<Rightarrow> exec_result" where
  "attempts_exhausted env req p traceID lastErr e =
     (let skillID = sr_SkillID req;
          e1 = record_failure (env_end env) skillID e;
          duration = env_end env - env_start env;
          e2 = reportMetrics skillID (p_SkillType p) ''failed'' duration e1;
          e3 = audit_log traceID skillID (caller_of req) ''failed'' duration e2
      in (Ret (Inl (SkillError ErrSkillExecFailed (''skill execution failed: '' @ skillID) traceID lastErr)), e3))"

text \<open>The retry loop, from attempt number \<open>attempt\<close> on.\<close>

function attempt_loop ::
  "exec_env \<Rightarrow> SkillRequest \<Rightarrow> SkillProvider \<Rightarrow> string \<Rightarrow> int \<Rightarrow> int \<Rightarrow> int \<Rightarrow> nat \<Rightarrow> error option \<Rightarrow> engine
    \<Rightarrow> exec_result" where
  "attempt_loop env req p traceID timeout baseDelay maxAttempts attempt lastErr e =
     (if \<not> int attempt < maxAttempts then attempts_exhausted env req p traceID lastErr e
      else case attempt_body env req p traceID timeout baseDelay attempt e of
             Inl r \<Rightarrow> r
           | Inr (err, e') \<Rightarrow>
               attempt_loop env req p traceID timeout baseDelay maxAttempts (Suc attempt) (Some err) e')"
  by pat_completeness auto
termination
  by (relation "measure (\<lambda>(env, req, p, tr, to, bd, mx, attempt, le, e). nat (mx - int attempt))") auto

declare attempt_loop.simps [simp del]

definition trace_id_of :: "exec_env \<Rightarrow> SkillRequest \<Rightarrow> string" where
  "trace_id_of env req = (if sr_TraceID req = '''' then env_uuid env else sr_TraceID req)"

definition max_attempts_of :: "SkillRequest \<Rightarrow> int" where
  "max_attempts_of req =
     (let maxAttempts = MaxAttempts (sr_Retry req) + 1
      in if maxAttempts > maxRetryAttempts + 1 then maxRetryAttempts + 1 else maxAttempts)"

definition base_delay_of :: "SkillRequest \<Rightarrow> int" where
  "base_delay_of req = (if BaseDelay (sr_Retry req) \<le> 0 then retryBaseDelay else BaseDelay (sr_Retry req))"

definition timeout_of :: "SkillRequest \<Rightarrow> int" where
  "timeout_of req = (if sr_Timeout req \<le> 0 then defaultTimeout else sr_Timeout req)"

definition execute :: "exec_env \<Rightarrow> SkillRequest \<Rightarrow> engine \<Rightarrow> exec_result" where
  "execute env req e =
     (let traceID = trace_id_of env req
      in case Resolve (en_registry e) (sr_SkillID req) of
           None \<Rightarrow> (Ret (Inl (SkillError ErrSkillNotFound (''skill not found: '' @ sr_SkillID req) traceID None)), e)
         | Some p \<Rightarrow>
             (let (ok, cb1) = Allow (env_allow_now env) (sr_SkillID req) (en_cb e); e1 = e\<lparr>en_cb := cb1\<rparr>
              in if \<not> ok then
                   (Ret (Inl (SkillError ErrCircuitOpen (''circuit breaker open for skill: '' @ sr_SkillID req) traceID None)), e1)
                 else attempt_loop env req p traceID (timeout_of req) (base_delay_of req) (max_attempts_of req) 0 None e1))"

section \<open>The default gateway\<close>

definition NewDefaultGateway ::
  "(string \<rightharpoonup> CBState) option \<Rightarrow> (string \<times> string \<times> string \<times> int) list option \<Rightarrow> CircuitBreakerConfig option \<Rightarrow> engine" where
  "NewDefaultGateway gauge metrics cbConfig =
     \<lparr>en_registry = newProviderRegistry,
      en_cb = newCircuitBreakerManager (case cbConfig of None \<Rightarrow> defaultCBConfig | Some c \<Rightarrow> c) gauge,
      en_audit = [], en_metrics = metrics, en_sleeps = [], en_provider_calls = 0\<rparr>"

definition gateway_Execute :: "exec_env \<Rightarrow> SkillRequest \<Rightarrow> engine \<Rightarrow> exec_result" where
  "gateway_Execute = execute"

definition gateway_RegisterProvider :: "SkillProvider \<Rightarrow> engine \<Rightarrow> error option \<times> engine" where
  "gateway_RegisterProvider p e =
     (let (err, r) = Register (en_registry e) p in (err, e\<lparr>en_registry := r\<rparr>))"

section \<open>Lemmas on the registry\<close>

lemma first_taken_None: "first_taken r is = None \<longleftrightarrow> (\<forall>i\<in>set is. r i = None)"
  by (induction "is") auto

lemma first_taken_Some: "first_taken r is = Some i \<Longrightarrow> i \<in> set is \<and> r i \<noteq> None"
  by (induction "is") (auto split: if_splits)

lemma bind_all_lookup: "bind_all r is p i = (if i \<in> set is then Some p else r i)"
  by (induction "is" arbitrary: r) auto

section \<open>Lemmas on the engine\<close>

lemma cb_reportMetrics [simp]: "en_cb (reportMetrics s t st d e) = en_cb e"
  by (simp add: reportMetrics_def split: option.splits)
lemma cb_audit [simp]: "en_cb (audit_log tr s c st d e) = en_cb e"
  by (simp add: audit_log_def)
lemma cb_record_success [simp]: "en_cb (record_success s e) = RecordSuccess s (en_cb e)"
  by (simp add: record_success_def)
lemma cb_record_failure [simp]: "en_cb (record_failure n s e) = RecordFailure n s (en_cb e)"
  by (simp add: record_failure_def)

lemma calls_reportMetrics [simp]: "en_provider_calls (reportMetrics s t st d e) = en_provider_calls e"
  by (simp add: reportMetrics_def split: option.splits)
lemma calls_audit [simp]: "en_provider_calls (audit_log tr s c st d e) = en_provider_calls e"
  by (simp add: audit_log_def)
lemma calls_record_success [simp]: "en_provider_calls (record_success s e) = en_provider_calls e"
  by (simp add: record_success_def)
lemma calls_record_failure [simp]: "en_provider_calls (record_failure n s e) = en_provider_calls e"
  by (simp add: record_failure_def)

lemma sleeps_reportMetrics [simp]: "en_sleeps (reportMetrics s t st d e) = en_sleeps e"
  by (simp add: reportMetrics_def split: option.splits)
lemma sleeps_audit [simp]: "en_sleeps (audit_log tr s c st d e) = en_sleeps e"
  by (simp add: audit_log_def)
lemma sleeps_record_success [simp]: "en_sleeps (record_success s e) = en_sleeps e"
  by (simp add: record_success_def)
lemma sleeps_record_failure [simp]: "en_sleeps (record_failure n s e) = en_sleeps e"
  by (simp add: record_failure_def)

text \<open>A rule for invariants of the loop: what one attempt keeps and what the exits establish.\<close>

lemma attempt_loop_rule:
  assumes body_exit: "\<And>attempt e r. I attempt e \<Longrightarrow> int attempt < mx \<Longrightarrow>
        attempt_body env req p tr to bd attempt e = Inl r \<Longrightarrow> Q r"
    and body_again: "\<And>attempt e err e'. I attempt e \<Longrightarrow> int attempt < mx \<Longrightarrow>
        attempt_body env req p tr to bd attempt e = Inr (err, e') \<Longrightarrow> I (Suc attempt) e'"
    and exhausted: "\<And>attempt e le. I attempt e \<Longrightarrow> Q (attempts_exhausted env req p tr le e)"
    and start: "I attempt e"
  shows "Q (attempt_loop env req p tr to bd mx attempt le e)"
  using start
proof (induction "nat (mx - int attempt)" arbitrary: attempt le e rule: less_induct)
  case less
  show ?case
  proof (cases "int attempt < mx")
    case False
    with less.prems exhausted show ?thesis by (subst attempt_loop.simps) simp
  next
    case True
    show ?thesis
    proof (cases "attempt_body env req p tr to bd attempt e")
      case (Inl r)
      with True less.prems body_exit show ?thesis by (subst attempt_loop.simps) simp
    next
      case (Inr x)
      obtain err e' where x: "x = (err, e')" by (cases x)
      with Inr True less.prems body_again have "I (Suc attempt) e'" by blast
      then have "Q (attempt_loop env req p tr to bd mx (Suc attempt) (Some err) e')"
        by (rule less.hyps[rotated]) (use True in simp)
      with Inr x True show ?thesis by (subst attempt_loop.simps) simp
    qed
  qed
qed

lemmas attempt_splits = option.splits go.splits sum.splits if_splits

text \<open>What an outcome of the engine has recorded on the breakers.\<close>

definition recorded :: "string \<Rightarrow> CircuitBreakerManager \<Rightarrow> exec_result \<Rightarrow> bool" where
  "recorded s cb r \<longleftrightarrow>
     (case fst r of
        Ret (Inr resp) \<Rightarrow> en_cb (snd r) = RecordSuccess s cb
      | Ret (Inl err) \<Rightarrow> (\<exists>now. en_cb (snd r) = RecordFailure now s cb)
      | _ \<Rightarrow> en_cb (snd r) = cb)"

lemma body_recorded:
  "attempt_body env req p tr to bd attempt e = Inl r \<Longrightarrow> recorded (sr_SkillID req) (en_cb e) r"
  by (auto simp: attempt_body_def recorded_def Let_def split: attempt_splits)

lemma body_again_cb: "attempt_body env req p tr to bd attempt e = Inr (err, e') \<Longrightarrow> en_cb e' = en_cb e"
  by (auto simp: attempt_body_def Let_def split: attempt_splits)

lemma exhausted_recorded: "recorded (sr_SkillID req) (en_cb e) (attempts_exhausted env req p tr le e)"
  by (auto simp: attempts_exhausted_def recorded_def Let_def)

lemma attempt_loop_recorded:
  "recorded (sr_SkillID req) (en_cb e) (attempt_loop env req p tr to bd mx attempt le e)"
proof (rule attempt_loop_rule[where I = "\<lambda>n e'. en_cb e' = en_cb e"])
qed (use body_recorded body_again_cb exhausted_recorded in metis)+

text \<open>Errors of the engine: SkillErrors that carry the trace id.\<close>

definition traced_error :: "string \<Rightarrow> (error + SkillResponse) go \<Rightarrow> bool" where
  "traced_error tr r \<longleftrightarrow> (\<forall>err. r = Ret (Inl err) \<longrightarrow>
     (\<exists>c m cause. err = SkillError c m tr cause \<and> c \<noteq> ErrPipelineStepFailed \<and> c \<noteq> ErrSkillAlreadyExists))"

lemma attempt_loop_traced: "traced_error tr (fst (attempt_loop env req p tr to bd mx attempt le e))"
  by (rule attempt_loop_rule[where I = "\<lambda>n e'. True"])
    (auto simp: attempt_body_def attempts_exhausted_def traced_error_def Let_def split: attempt_splits)

lemma execute_traced: "traced_error (trace_id_of env req) (fst (execute env req e))"
  using attempt_loop_traced by (auto simp: execute_def Let_def split_def traced_error_def split: option.split)

lemma backoff_delay_bounds: "0 < bd \<Longrightarrow> 0 < backoff_delay bd k \<and> backoff_delay bd k \<le> maxRetryDelay"
  by (simp add: backoff_delay_def maxRetryDelay_def Let_def)

lemma base_delay_pos: "0 < base_delay_of req"
  by (simp add: base_delay_of_def retryBaseDelay_def)

text \<open>The calls and sleeps of an attempt: one call, and one sleep before every retry.\<close>

lemma body_exit_effort:
  "attempt_body env req p tr to bd attempt e = Inl r \<Longrightarrow>
     en_provider_calls (snd r) \<le> Suc (en_provider_calls e) \<and>
     (en_sleeps (snd r) = en_sleeps e \<or> 0 < attempt \<and> en_sleeps (snd r) = en_sleeps e @ [backoff_delay bd attempt])"
  by (auto simp: attempt_body_def Let_def split: attempt_splits)

lemma body_again_effort:
  "attempt_body env req p tr to bd attempt e = Inr (err, e') \<Longrightarrow>
     en_provider_calls e' = Suc (en_provider_calls e) \<and>
     en_sleeps e' = en_sleeps e @ (if 0 < attempt then [backoff_delay bd attempt] else [])"
  by (auto simp: attempt_body_def Let_def split: attempt_splits)

lemma exhausted_effort:
  "en_provider_calls (snd (attempts_exhausted env req p tr le e)) = en_provider_calls e \<and>
   en_sleeps (snd (attempts_exhausted env req p tr le e)) = en_sleeps e"
  by (simp add: attempts_exhausted_def Let_def)

text \<open>The sleeps added since \<open>e0\<close> are an initial part of the back-off sequence.\<close>

definition effort_upto :: "engine \<Rightarrow> int \<Rightarrow> nat \<Rightarrow> engine \<Rightarrow> bool" where
  "effort_upto e0 bd n e \<longleftrightarrow>
     en_provider_calls e \<le> en_provider_calls e0 + n \<and>
     (\<exists>k. k \<le> n \<and> en_sleeps e = en_sleeps e0 @ map (backoff_delay bd) [1..<k])"

definition loop_effort :: "engine \<Rightarrow> int \<Rightarrow> nat \<Rightarrow> engine \<Rightarrow> bool" where
  "loop_effort e0 bd n e \<longleftrightarrow>
     en_provider_calls e = en_provider_calls e0 + n \<and>
     en_sleeps e = en_sleeps e0 @ map (backoff_delay bd) [1..<n]"

lemma loop_effort_again:
  assumes "loop_effort e0 bd n e" and "attempt_body env req p tr to bd n e = Inr (err, e')"
  shows "loop_effort e0 bd (Suc n) e'"
  using assms(1) body_again_effort[OF assms(2)] by (cases n) (auto simp: loop_effort_def)

lemma loop_effort_exit:
  assumes "loop_effort e0 bd n e" and "attempt_body env req p tr to bd n e = Inl r"
  shows "effort_upto e0 bd (Suc n) (snd r)"
proof -
  from body_exit_effort[OF assms(2)] consider
      "en_sleeps (snd r) = en_sleeps e" | "0 < n" "en_sleeps (snd r) = en_sleeps e @ [backoff_delay bd n]"
    by blast
  then show ?thesis
  proof cases
    case 1
    with assms(1) body_exit_effort[OF assms(2)] show ?thesis
      by (auto simp: loop_effort_def effort_upto_def intro!: exI[of _ n])
  next
    case 2
    with assms(1) body_exit_effort[OF assms(2)] show ?thesis
      by (auto simp: loop_effort_def effort_upto_def intro!: exI[of _ "Suc n"])
  qed
qed

lemma effort_upto_mono: "effort_upto e0 bd n e \<Longrightarrow> n \<le> n' \<Longrightarrow> effort_upto e0 bd n' e"
  by (auto simp: effort_upto_def intro: order_trans)

lemma attempt_loop_effort: "effort_upto e bd (nat mx) (snd (attempt_loop env req p tr to bd mx 0 le e))"
proof (rule attempt_loop_rule[where I = "\<lambda>n e'. loop_effort e bd n e' \<and> n \<le> nat mx"])
  fix n e' r
  assume I: "loop_effort e bd n e' \<and> n \<le> nat mx" and n: "int n < mx"
    and b: "attempt_body env req p tr to bd n e' = Inl r"
  from n have "Suc n \<le> nat mx" by simp
  with loop_effort_exit[OF conjunct1[OF I] b] show "effort_upto e bd (nat mx) (snd r)"
    by (rule effort_upto_mono)
next
  fix n e' err e''
  assume "loop_effort e bd n e' \<and> n \<le> nat mx" "int n < mx"
    and "attempt_body env req p tr to bd n e' = Inr (err, e'')"
  then show "loop_effort e bd (Suc n) e'' \<and> Suc n \<le> nat mx" by (auto intro: loop_effort_again)
next
  fix n e' le'
  assume "loop_effort e bd n e' \<and> n \<le> nat mx"
  then show "effort_upto e bd (nat mx) (snd (attempts_exhausted env req p tr le' e'))"
    using exhausted_effort[of env req p tr le' e'] by (auto simp: loop_effort_def effort_upto_def)
qed (simp add: loop_effort_def)

text \<open>When no provider call panics or blocks, the loop returns.\<close>

lemma attempt_loop_returns:
  assumes "\<And>c s i. returns (p_Execute p c s i)"
  shows "returns (fst (attempt_loop env req p tr to bd mx attempt le e))"
proof (rule attempt_loop_rule[where I = "\<lambda>n e'. True"])
  fix n e' r
  assume "attempt_body env req p tr to bd n e' = Inl r"
  then show "returns (fst r)"
    using assms[of "\<lparr>ec_trace = tr, ec_timeout = to, ec_world = at_world (env_attempt env n)\<rparr>" "sr_SkillID req" "sr_Input req"]
    by (auto simp: attempt_body_def Let_def split: attempt_splits)
qed (auto simp: attempts_exhausted_def Let_def)

text \<open>The provider's answer at attempt \<open>k\<close>, and a run of the loop up to the first success.\<close>

definition answer :: "exec_env \<Rightarrow> SkillRequest \<Rightarrow> SkillProvider \<Rightarrow> nat \<Rightarrow> (error + gval) go" where
  "answer env req p k = p_Execute p \<lparr>ec_trace = trace_id_of env req, ec_timeout = timeout_of req,
      ec_world = at_world (env_attempt env k)\<rparr> (sr_SkillID req) (sr_Input req)"

definition never_cancelled :: "exec_env \<Rightarrow> bool" where
  "never_cancelled env \<longleftrightarrow>
     (\<forall>k. at_ctx_err (env_attempt env k) = None \<and> at_backoff_done (env_attempt env k) = None)"

definition retryable :: "(error + gval) go \<Rightarrow> bool" where
  "retryable a \<longleftrightarrow> (\<exists>err. a = Ret (Inl err) \<and> \<not> errors_is err DeadlineExceeded)"

lemma body_retryable:
  assumes "never_cancelled env" and "retryable (answer env req p n)"
  shows "\<exists>err e'. attempt_body env req p (trace_id_of env req) (timeout_of req) bd n e = Inr (err, e')"
  using assms by (auto simp: attempt_body_def never_cancelled_def retryable_def answer_def Let_def)

lemma body_success:
  assumes "never_cancelled env" and "answer env req p n = Ret (Inr out)"
  shows "\<exists>e'. attempt_body env req p (trace_id_of env req) (timeout_of req) bd n e =
     Inl (Ret (Inr \<lparr>rs_TraceID = trace_id_of env req, rs_SkillID = sr_SkillID req, rs_Output = out,
            rs_Duration = at_now (env_attempt env n) - env_start env, rs_Metadata = sr_Metadata req\<rparr>), e') \<and>
     en_provider_calls e' = Suc (en_provider_calls e) \<and>
     en_sleeps e' = en_sleeps e @ (if 0 < n then [backoff_delay bd n] else [])"
  using assms by (auto simp: attempt_body_def never_cancelled_def answer_def Let_def)

lemma attempt_loop_first_success:
  assumes nc: "never_cancelled env" and lt: "int k < mx" and ok: "answer env req p k = Ret (Inr out)"
    and re: "\<And>j. j < k \<Longrightarrow> retryable (answer env req p j)"
    and n: "n \<le> k" and I: "loop_effort e0 bd n e"
  shows "\<exists>e'. attempt_loop env req p (trace_id_of env req) (timeout_of req) bd mx n le e =
     (Ret (Inr \<lparr>rs_TraceID = trace_id_of env req, rs_SkillID = sr_SkillID req, rs_Output = out,
            rs_Duration = at_now (env_attempt env k) - env_start env, rs_Metadata = sr_Metadata req\<rparr>), e') \<and>
     loop_effort e0 bd (Suc k) e'"
  using n I
proof (induction "k - n" arbitrary: n e le)
  case 0
  then have nk: "n = k" by simp
  from body_success[OF nc ok, of bd e] 0 lt show ?case
    by (subst attempt_loop.simps, cases k) (auto simp: nk loop_effort_def)
next
  case (Suc d)
  then have nk: "n < k" by simp
  obtain err e' where b: "attempt_body env req p (trace_id_of env req) (timeout_of req) bd n e = Inr (err, e')"
    using body_retryable[OF nc re[OF nk]] by blast
  note I' = loop_effort_again[OF Suc.prems(2) b]
  from Suc.hyps(1)[OF _ _ I', of "Some err"] Suc.hyps(2) nk b lt show ?case
    by (subst attempt_loop.simps) auto
qed

section \<open>Concrete instances used by the witnesses\<close>

definition flaky_provider :: SkillProvider where
  "flaky_provider = \<lparr>SkillIDs = [''s''], p_SkillType = ''code'',
     p_Execute = (\<lambda>c s i. if ec_world c = 0 then Ret (Inl (ErrorString ''busy'')) else Ret (Inr i))\<rparr>"

definition panicky_provider :: SkillProvider where
  "panicky_provider = \<lparr>SkillIDs = [''s''], p_SkillType = ''code'', p_Execute = (\<lambda>c s i. Panic ''boom'')\<rparr>"

definition calm_env :: exec_env where
  "calm_env = \<lparr>env_uuid = ''u'', env_allow_now = 0, env_start = 0,
     env_attempt = (\<lambda>k. \<lparr>at_ctx_err = None, at_backoff_done = None, at_world = k, at_now = int k\<rparr>), env_end = 9\<rparr>"

definition demo_request :: SkillRequest where
  "demo_request = \<lparr>sr_TraceID = ''t'', sr_SkillID = ''s'', sr_Input = VStr ''in'', sr_Timeout = 0,
     sr_Retry = \<lparr>MaxAttempts = 2, BaseDelay = 0\<rparr>, sr_Metadata = Map.empty\<rparr>"

definition demo_engine :: engine where
  "demo_engine = snd (gateway_RegisterProvider flaky_provider (NewDefaultGateway None None None))"

definition opened_engine :: engine where
  "opened_engine = (snd (gateway_RegisterProvider panicky_provider (NewDefaultGateway None None None)))
      \<lparr>en_cb := RecordFailure 0 ''s'' (newCircuitBreakerManager \<lparr>FailureThreshold = 1, RecoveryTimeout = 0\<rparr> None)\<rparr>"

lemma demo_facts:
  "Resolve (en_registry demo_engine) ''s'' = Some flaky_provider"
  "breaker_of (en_cb demo_engine) ''s'' = new_breaker"
  "cb_config (en_cb demo_engine) = defaultCBConfig"
  "never_cancelled calm_env"
  "sr_SkillID demo_request = ''s''"
  by (simp_all add: demo_engine_def gateway_RegisterProvider_def NewDefaultGateway_def Register_def
      newProviderRegistry_def flaky_provider_def Resolve_def never_cancelled_def calm_env_def demo_request_def)

lemma demo_allowed: "fst (Allow (env_allow_now calm_env) (sr_SkillID demo_request) (en_cb demo_engine))"
  by (simp add: Allow_result demo_facts breaker_allow_def new_breaker_def)

lemma demo_execute: "\<exists>res e'. execute calm_env demo_request demo_engine = (Ret res, e')"
proof -
  have "returns (p_Execute flaky_provider c s i)" for c s i by (simp add: flaky_provider_def)
  then have "returns (fst (execute calm_env demo_request demo_engine))"
    using attempt_loop_returns[of flaky_provider] by (simp add: execute_def Let_def split_def demo_facts)
  then show ?thesis by (cases "execute calm_env demo_request demo_engine") (auto simp: returns_iff)
qed

section \<open>Properties\<close>

text \<open>registering a provider is all or nothing: when one of its skill ids is taken the registry
  stays as it was and the error is ErrSkillAlreadyExists; otherwise every id of the provider
  resolves to it and every other id resolves as before.\<close>

theorem register_all_or_nothing:
  "if \<exists>i. i \<in> set (SkillIDs p) \<and> Resolve r i \<noteq> None
   then (\<exists>i. i \<in> set (SkillIDs p) \<and> Resolve r i \<noteq> None \<and> Register r p =
          (Some (SkillError ErrSkillAlreadyExists (''skill already registered: '' @ i) '''' None), r))
   else fst (Register r p) = None \<and>
        (\<forall>i. Resolve (snd (Register r p)) i = (if i \<in> set (SkillIDs p) then Some p else Resolve r i))"
proof (cases "first_taken r (SkillIDs p)")
  case None
  moreover from None have "\<forall>i\<in>set (SkillIDs p). r i = None" by (simp add: first_taken_None)
  ultimately show ?thesis by (auto simp: Resolve_def Register_def bind_all_lookup)
next
  case (Some i)
  from first_taken_Some[OF Some] have i: "i \<in> set (SkillIDs p) \<and> Resolve r i \<noteq> None"
    by (auto simp: Resolve_def)
  with Some show ?thesis by (auto simp: Register_def)
qed



text \<open>whatever the provider and the caller's context do, one request makes at most eleven
  provider calls (at most the configured retries plus one), sleeps at most ten times, and each
  sleep is positive and at most ten seconds.\<close>

theorem execute_effort_bounded:
  "\<exists>ds. en_sleeps (snd (execute env req e)) = en_sleeps e @ ds \<and> length ds \<le> 10 \<and>
        list_all (\<lambda>d. 0 < d \<and> d \<le> 10 * 10 ^ 9) ds \<and>
        en_provider_calls (snd (execute env req e)) \<le> en_provider_calls e + 11 \<and>
        en_provider_calls (snd (execute env req e)) \<le> en_provider_calls e + nat (MaxAttempts (sr_Retry req) + 1)"
proof (cases "Resolve (en_registry e) (sr_SkillID req)")
  case None
  then show ?thesis by (simp add: execute_def Let_def)
next
  case (Some p)
  let ?cb = "snd (Allow (env_allow_now env) (sr_SkillID req) (en_cb e))"
  let ?bd = "base_delay_of req"
  show ?thesis
  proof (cases "fst (Allow (env_allow_now env) (sr_SkillID req) (en_cb e))")
    case False
    with Some show ?thesis by (simp add: execute_def Let_def split_def)
  next
    case True
    from attempt_loop_effort[of "e\<lparr>en_cb := ?cb\<rparr>" ?bd "max_attempts_of req" env req p
        "trace_id_of env req" "timeout_of req" None]
    obtain k where k: "k \<le> nat (max_attempts_of req)"
      and sl: "en_sleeps (snd (execute env req e)) = en_sleeps e @ map (backoff_delay ?bd) [1..<k]"
      and ca: "en_provider_calls (snd (execute env req e)) \<le> en_provider_calls e + nat (max_attempts_of req)"
      using Some True by (auto simp: execute_def Let_def split_def effort_upto_def)
    have mx: "nat (max_attempts_of req) \<le> 11" "nat (max_attempts_of req) \<le> nat (MaxAttempts (sr_Retry req) + 1)"
      by (auto simp: max_attempts_of_def maxRetryAttempts_def Let_def)
    have "list_all (\<lambda>d. 0 < d \<and> d \<le> 10 * 10 ^ 9) (map (backoff_delay ?bd) [1..<k])"
      using backoff_delay_bounds[OF base_delay_pos[of req]] by (auto simp: list_all_iff maxRetryDelay_def)
    with k sl ca mx show ?thesis by auto
  qed
qed

text \<open>C8: when the breaker of the skill admits the request and execute returns, then after execute
  the breaker is not half-open: the probe is settled, as closed with no failures counted after a
  success and by a recorded failure otherwise.\<close>

theorem execute_settles_breaker:
  assumes "Resolve (en_registry e) (sr_SkillID req) = Some p"
    and "fst (Allow (env_allow_now env) (sr_SkillID req) (en_cb e))"
    and "execute env req e = (Ret res, e')"
  shows "br_state (breaker_of (en_cb e') (sr_SkillID req)) \<noteq> CBHalfOpen \<and>
         (\<forall>resp. res = Inr resp \<longrightarrow> br_state (breaker_of (en_cb e') (sr_SkillID req)) = CBClosed \<and>
                    failures (breaker_of (en_cb e') (sr_SkillID req)) = 0)"
proof -
  let ?s = "sr_SkillID req"
  let ?cb = "snd (Allow (env_allow_now env) ?s (en_cb e))"
  from assms attempt_loop_recorded[of req "e\<lparr>en_cb := ?cb\<rparr>" env p "trace_id_of env req"
      "timeout_of req" "base_delay_of req" "max_attempts_of req" 0 None]
  have "recorded ?s ?cb (Ret res, e')" by (simp add: execute_def Let_def split_def)
  then show ?thesis
    by (auto simp: recorded_def RecordSuccess_breaker RecordFailure_breaker breaker_success_def
        breaker_failure_settles split: sum.splits)
qed

theorem execute_settles_breaker_witness:
  "\<exists>res e'. execute calm_env demo_request demo_engine = (Ret res, e') \<and>
     br_state (breaker_of (en_cb e') ''s'') \<noteq> CBHalfOpen"
proof -
  obtain res e' where ex: "execute calm_env demo_request demo_engine = (Ret res, e')"
    using demo_execute by blast
  have "Resolve (en_registry demo_engine) (sr_SkillID demo_request) = Some flaky_provider"
    by (simp add: demo_facts)
  then have "br_state (breaker_of (en_cb e') (sr_SkillID demo_request)) \<noteq> CBHalfOpen"
    using execute_settles_breaker[OF _ demo_allowed ex] by blast
  with ex show ?thesis by (auto simp: demo_facts)
qed



end
