(* ===== verification/Pipeline.thy ===== *)
theory Pipeline
  imports Atomic_Engine "HOL-Library.Multiset"
begin

text \<open>
  The pipeline engine and the pipeline builder of the skill gateway,
  internal/skillgateway/pipeline.go and pipeline_builder.go. A step is a tree (conditional steps
  hold their branches, parallel steps their children), executed by \<open>executeStep\<close> over the atomic
  engine of theory Atomic_Engine.

  What the environment does during the \<open>n\<close>-th call of the atomic engine is \<open>world n\<close>. The
  goroutines of a parallel step are run one after the other in the order \<open>sched\<close> chooses for
  them (any order of the branches; finer interleavings of their breaker calls are left out), and
  their results are collected by index, as the code does. Durations of step results are not
  modelled. A panic inside a branch ends the process, so it is the outcome of the whole step.

  Proved: the pipeline stops at its first failing step and reports its index, name and the
  results so far; every error it reports is a SkillError of the atomic engine with the pipeline's
  trace id (so ErrPipelineStepFailed is never produced); inputs that refer to earlier steps get
  their outputs; the error of a parallel step is that of its lowest-index failing branch; a
  conditional branch built by the DSL keeps only the first step of its sub-pipeline.
\<close>

section \<open>Data\<close>

datatype StepType = StepSequential | StepConditional | StepParallel | StepTypeOther string

type_synonym StepContext = "string \<rightharpoonup> gval"

datatype Step = Step
  (st_Name: string)
  (st_Type: StepType)
  (st_SkillID: string)
  (st_Input: gval)
  (st_Condition: "(StepContext \<Rightarrow> bool) option")
  (st_Then: "Step option")
  (st_Else: "Step option")
  (st_Parallel: "Step list")

record Pipeline =
  pl_ID :: string
  pl_Steps :: "Step list"

record StepResult =
  sres_Name :: string
  sres_Output :: gval
  sres_Error :: "error option"

record PipelineResult =
  pr_PipelineID :: string
  pr_TraceID :: string
  pr_Steps :: "StepResult list"

record PipelineError =
  pe_SkillError :: error
  pe_FailedStep :: string
  pe_StepIndex :: nat

definition PipelineError_Error :: "PipelineError \<Rightarrow> string" where
  "PipelineError_Error e =
     ''pipeline step '' @ [CHR 0x22] @ pe_FailedStep e @ [CHR 0x22] @ '' (index '' @ show_nat (pe_StepIndex e)
       @ '') failed: '' @ error_text (pe_SkillError e)"

text \<open>The engine together with the number of atomic calls made so far.\<close>

type_synonym pstate = "engine \<times> nat"
type_synonym step_outcome = "(StepResult \<times> error option) go \<times> pstate"

section \<open>Inputs\<close>

definition prefix_of :: "string \<Rightarrow> string \<Rightarrow> bool" where
  "prefix_of p s \<longleftrightarrow> take (length p) s = p"

definition step_key :: "string \<Rightarrow> string" where
  "step_key name = ''$steps.'' @ name @ ''.output''"

definition resolveInput :: "gval \<Rightarrow> StepContext \<Rightarrow> string \<Rightarrow> gval" where
  "resolveInput input stepCtx prevName =
     (case input of
        VStr s0 \<Rightarrow>
          (let s = (if s0 = ''$prev.output'' \<and> prevName \<noteq> '''' then step_key prevName else s0)
           in if prefix_of ''$steps.'' s
              then (case stepCtx s of Some v \<Rightarrow> v | None \<Rightarrow> VStr '''')
              else input)
      | _ \<Rightarrow> input)"

section \<open>Execution\<close>

definition atomic_request :: "string \<Rightarrow> string \<Rightarrow> gval \<Rightarrow> SkillRequest" where
  "atomic_request traceID skillID input =
     \<lparr>sr_TraceID = traceID, sr_SkillID = skillID, sr_Input = input, sr_Timeout = 0,
      sr_Retry = \<lparr>MaxAttempts = 0, BaseDelay = 0\<rparr>, sr_Metadata = Map.empty\<rparr>"

definition executeAtomic ::
  "(nat \<Rightarrow> exec_env) \<Rightarrow> Step \<Rightarrow> StepContext \<Rightarrow> string \<Rightarrow> string \<Rightarrow> pstate \<Rightarrow> step_outcome" where
  "executeAtomic world step stepCtx prevName traceID ps =
     (let (e, n) = ps;
          input = resolveInput (st_Input step) stepCtx prevName;
          (r, e') = execute (world n) (atomic_request traceID (st_SkillID step) input) e
      in case r of
           Ret (Inl err) \<Rightarrow>
             (Ret (\<lparr>sres_Name = st_Name step, sres_Output = VNil, sres_Error = Some err\<rparr>, Some err), (e', Suc n))
         | Ret (Inr resp) \<Rightarrow>
             (Ret (\<lparr>sres_Name = st_Name step, sres_Output = rs_Output resp, sres_Error = None\<rparr>, None), (e', Suc n))
         | Panic m \<Rightarrow> (Panic m, (e', Suc n))
         | Deadlock \<Rightarrow> (Deadlock, (e', Suc n)))"

text \<open>\<open>arrange ord xs\<close>: the elements of \<open>xs\<close> in the order \<open>ord\<close> of their indices.\<close>

definition arrange :: "nat list \<Rightarrow> 'a list \<Rightarrow> 'a list" where
  "arrange ord xs = (if distinct ord \<and> set ord = {..<length xs} then map (nth xs) ord else xs)"

lemma mset_arrange [simp]: "mset (arrange ord xs) = mset xs"
proof (cases "distinct ord \<and> set ord = {..<length xs}")
  case True
  then have "mset ord = mset [0..<length xs]"
    by (metis atLeast0LessThan atLeast_upt distinct_upt set_eq_iff_mset_eq_distinct)
  then have "mset (map (nth xs) ord) = mset (map (nth xs) [0..<length xs])" by simp
  with True show ?thesis by (simp add: arrange_def map_nth)
next
  case False
  then show ?thesis by (auto simp: arrange_def)
qed

text \<open>The loop of executeParallel over the collected results: the first error by index, the outputs by name.\<close>

fun collect :: "(StepResult \<times> error option) list \<Rightarrow> error option \<Rightarrow> (string \<times> gval) list
    \<Rightarrow> error option \<times> (string \<times> gval) list" where
  "collect [] firstErr outputs = (firstErr, outputs)"
| "collect ((sr, err) # rs) firstErr outputs =
     collect rs (if err \<noteq> None \<and> firstErr = None then err else firstErr)
       (if sres_Name sr \<noteq> '''' then AList.update (sres_Name sr) (sres_Output sr) outputs else outputs)"

fun place :: "nat \<Rightarrow> (nat \<times> 'a) list \<Rightarrow> 'a list" where
  "place n rs = List.map_filter (map_of rs) [0..<n]"

declare place.simps [simp del]

definition finish_parallel ::
  "string \<Rightarrow> nat \<Rightarrow> (nat \<times> StepResult \<times> error option) list go \<times> pstate \<Rightarrow> step_outcome" where
  "finish_parallel name n r =
     (case fst r of
        Ret rs \<Rightarrow> (let (firstErr, outputs) = collect (place n rs) None []
                   in (Ret (\<lparr>sres_Name = name, sres_Output = VMap outputs, sres_Error = None\<rparr>, firstErr), snd r))
      | Panic m \<Rightarrow> (Panic m, snd r)
      | Deadlock \<Rightarrow> (Deadlock, snd r))"

definition chosen_branch :: "Step \<Rightarrow> StepContext \<Rightarrow> Step option" where
  "chosen_branch step stepCtx =
     (case st_Condition step of
        Some c \<Rightarrow> (if c stepCtx then st_Then step else st_Else step)
      | None \<Rightarrow> st_Else step)"

text \<open>Measures for the recursion over step trees.\<close>

definition branch_weight :: "(nat \<times> Step) list \<Rightarrow> nat" where
  "branch_weight bs = sum_list (map (\<lambda>(i, s). 2 * size s + 1) bs)"

lemma branch_weight_arrange: "branch_weight (arrange ord bs) = branch_weight bs"
proof -
  have "mset (map (\<lambda>(i, s). 2 * size s + 1) (arrange ord bs)) = mset (map (\<lambda>(i, s). 2 * size s + 1) bs)"
    by simp
  then show ?thesis unfolding branch_weight_def by (metis sum_mset_sum_list)
qed

lemma branch_weight_enumerate: "branch_weight (enumerate k ss) \<le> 2 * size_list size ss"
  by (induction ss arbitrary: k) (auto simp: branch_weight_def intro: le_SucI)

lemma size_chosen: "chosen_branch step ctx = Some c \<Longrightarrow> size c < size step"
  by (cases step) (auto simp: chosen_branch_def split: option.splits if_splits)

lemma size_parallel: "size_list size (st_Parallel step) < size step"
  by (cases step) auto

text \<open>
  executeStep dispatches on the type of the step; its conditional and parallel cases are
  executeConditional and executeParallel, and \<open>executeBranches\<close> is the body of the goroutines
  of the latter, for the branches in the order they run, each with its index.
\<close>

function (sequential) executeStep ::
  "(nat \<Rightarrow> exec_env) \<Rightarrow> (nat \<Rightarrow> nat list) \<Rightarrow> Step \<Rightarrow> StepContext \<Rightarrow> string \<Rightarrow> string \<Rightarrow> pstate \<Rightarrow> step_outcome"
and executeBranches ::
  "(nat \<Rightarrow> exec_env) \<Rightarrow> (nat \<Rightarrow> nat list) \<Rightarrow> (nat \<times> Step) list \<Rightarrow> StepContext \<Rightarrow> string \<Rightarrow> pstate
     \<Rightarrow> (nat \<times> StepResult \<times> error option) list go \<times> pstate" where
  "executeStep world sched step stepCtx prevName traceID ps =
     (case st_Type step of
        StepConditional \<Rightarrow>
          (case chosen_branch step stepCtx of
             None \<Rightarrow> (Ret (\<lparr>sres_Name = st_Name step, sres_Output = VNil, sres_Error = None\<rparr>, None), ps)
           | Some c \<Rightarrow> executeStep world sched c stepCtx prevName traceID ps)
      | StepParallel \<Rightarrow>
          finish_parallel (st_Name step) (length (st_Parallel step))
            (executeBranches world sched
               (arrange (sched (length (st_Parallel step))) (enumerate 0 (st_Parallel step)))
               stepCtx traceID ps)
      | _ \<Rightarrow> executeAtomic world step stepCtx prevName traceID ps)"
| "executeBranches world sched [] stepCtx traceID ps = (Ret [], ps)"
| "executeBranches world sched ((i, s) # bs) stepCtx traceID ps =
     (case executeStep world sched s stepCtx '''' traceID ps of
        (Ret r, ps1) \<Rightarrow>
          (case executeBranches world sched bs stepCtx traceID ps1 of
             (Ret rs, ps2) \<Rightarrow> (Ret ((i, r) # rs), ps2)
           | (Panic m, ps2) \<Rightarrow> (Panic m, ps2)
           | (Deadlock, ps2) \<Rightarrow> (Deadlock, ps2))
      | (Panic m, ps1) \<Rightarrow> (Panic m, ps1)
      | (Deadlock, ps1) \<Rightarrow> (Deadlock, ps1))"
  by pat_completeness auto

termination
proof (relation "measure (\<lambda>x. case x of Inl (w, sc, st, c, p, t, ps) \<Rightarrow> 2 * size st
                              | Inr (w, sc, bs, c, t, ps) \<Rightarrow> branch_weight bs)", goal_cases)
  case (3 world sched step stepCtx prevName traceID ps)
  have "branch_weight (arrange (sched (length (st_Parallel step))) (enumerate 0 (st_Parallel step)))
      \<le> 2 * size_list size (st_Parallel step)"
    by (simp add: branch_weight_arrange branch_weight_enumerate)
  also have "\<dots> < 2 * size step" using size_parallel[of step] by simp
  finally show ?case by simp
qed (auto simp: size_chosen branch_weight_def)

declare executeStep.simps [simp del]

text \<open>The loop of execute over the steps, with the index, the step context and the last step name.\<close>

type_synonym pipeline_outcome = "(StepResult list \<times> PipelineError option) go \<times> pstate"

definition as_skill_error :: "string \<Rightarrow> error \<Rightarrow> error" where
  "as_skill_error traceID err =
     (case err of
        SkillError c m tr cause \<Rightarrow> SkillError c m tr cause
      | _ \<Rightarrow> SkillError ErrPipelineStepFailed (error_text err) traceID (Some err))"

fun pipeline_loop ::
  "(nat \<Rightarrow> exec_env) \<Rightarrow> (nat \<Rightarrow> nat list) \<Rightarrow> string \<Rightarrow> nat \<Rightarrow> Step list \<Rightarrow> StepContext \<Rightarrow> string \<Rightarrow> StepResult list
     \<Rightarrow> pstate \<Rightarrow> pipeline_outcome" where
  "pipeline_loop world sched traceID i [] stepCtx prevName results ps = (Ret (results, None), ps)"
| "pipeline_loop world sched traceID i (step # steps) stepCtx prevName results ps =
     (case executeStep world sched step stepCtx prevName traceID ps of
        (Ret (sr, Some err), ps1) \<Rightarrow>
          (Ret (results @ [sr], Some \<lparr>pe_SkillError = as_skill_error traceID err,
                  pe_FailedStep = st_Name step, pe_StepIndex = i\<rparr>), ps1)
      | (Ret (sr, None), ps1) \<Rightarrow>
          (if st_Name step \<noteq> ''''
           then pipeline_loop world sched traceID (Suc i) steps
                  (stepCtx(step_key (st_Name step) \<mapsto> sres_Output sr)) (st_Name step) (results @ [sr]) ps1
           else pipeline_loop world sched traceID (Suc i) steps stepCtx prevName (results @ [sr]) ps1)
      | (Panic m, ps1) \<Rightarrow> (Panic m, ps1)
      | (Deadlock, ps1) \<Rightarrow> (Deadlock, ps1))"

definition ExecutePipeline ::
  "(nat \<Rightarrow> exec_env) \<Rightarrow> (nat \<Rightarrow> nat list) \<Rightarrow> string \<Rightarrow> Pipeline \<Rightarrow> pstate
     \<Rightarrow> (PipelineResult \<times> PipelineError option) go \<times> pstate" where
  "ExecutePipeline world sched uuid p ps =
     (case pipeline_loop world sched uuid 0 (pl_Steps p) Map.empty '''' [] ps of
        (Ret (results, err), ps1) \<Rightarrow>
          (Ret (\<lparr>pr_PipelineID = pl_ID p, pr_TraceID = uuid, pr_Steps = results\<rparr>, err), ps1)
      | (Panic m, ps1) \<Rightarrow> (Panic m, ps1)
      | (Deadlock, ps1) \<Rightarrow> (Deadlock, ps1))"

section \<open>The builder\<close>

record PipelineBuilder =
  pb_id :: string
  pb_steps :: "Step list"

definition NewPipelineBuilder :: "string \<Rightarrow> string \<Rightarrow> PipelineBuilder" where
  "NewPipelineBuilder uuid i = \<lparr>pb_id = (if i = '''' then uuid else i), pb_steps = []\<rparr>"

definition builder_Step :: "PipelineBuilder \<Rightarrow> string \<Rightarrow> string \<Rightarrow> gval \<Rightarrow> PipelineBuilder" where
  "builder_Step b name skillID input =
     b\<lparr>pb_steps := pb_steps b @ [Step name StepSequential skillID input None None None []]\<rparr>"

record ifBuilder =
  ib_parent :: PipelineBuilder
  ib_condition :: "StepContext \<Rightarrow> bool"
  ib_name :: string

definition builder_If :: "PipelineBuilder \<Rightarrow> string \<Rightarrow> (StepContext \<Rightarrow> bool) \<Rightarrow> ifBuilder" where
  "builder_If b name cond = \<lparr>ib_parent = b, ib_condition = cond, ib_name = name\<rparr>"

record thenBuilder =
  tb_parent :: PipelineBuilder
  tb_condition :: "StepContext \<Rightarrow> bool"
  tb_name :: string
  tb_then :: "Step option"

definition first_step :: "PipelineBuilder \<Rightarrow> Step option" where
  "first_step sub = (case pb_steps sub of [] \<Rightarrow> None | s # _ \<Rightarrow> Some s)"

definition builder_Then :: "ifBuilder \<Rightarrow> PipelineBuilder \<Rightarrow> thenBuilder" where
  "builder_Then ib sub = \<lparr>tb_parent = ib_parent ib, tb_condition = ib_condition ib,
     tb_name = ib_name ib, tb_then = first_step sub\<rparr>"

definition builder_Else :: "thenBuilder \<Rightarrow> PipelineBuilder \<Rightarrow> PipelineBuilder" where
  "builder_Else tb sub =
     (tb_parent tb)\<lparr>pb_steps := pb_steps (tb_parent tb) @
        [Step (tb_name tb) StepConditional '''' VNil (Some (tb_condition tb)) (tb_then tb) (first_step sub) []]\<rparr>"

definition builder_EndIf :: "thenBuilder \<Rightarrow> PipelineBuilder" where
  "builder_EndIf tb =
     (tb_parent tb)\<lparr>pb_steps := pb_steps (tb_parent tb) @
        [Step (tb_name tb) StepConditional '''' VNil (Some (tb_condition tb)) (tb_then tb) None []]\<rparr>"

definition builder_Parallel :: "PipelineBuilder \<Rightarrow> string \<Rightarrow> PipelineBuilder list \<Rightarrow> PipelineBuilder" where
  "builder_Parallel b name subs =
     b\<lparr>pb_steps := pb_steps b @
        [Step name StepParallel '''' VNil None None None (concat (map pb_steps subs))]\<rparr>"

definition builder_Build :: "PipelineBuilder \<Rightarrow> Pipeline" where
  "builder_Build b = \<lparr>pl_ID = pb_id b, pl_Steps = pb_steps b\<rparr>"

section \<open>Lemmas\<close>

lemma set_arrange [simp]: "set (arrange ord xs) = set xs"
  by (metis mset_arrange set_mset_mset)

text \<open>An error the atomic engine produced under the trace id \<open>tr\<close>.\<close>

definition engine_error :: "string \<Rightarrow> error \<Rightarrow> bool" where
  "engine_error tr err \<longleftrightarrow> (\<exists>c m cause. err = SkillError c m tr cause \<and> c \<noteq> ErrPipelineStepFailed)"

lemma as_skill_error_id [simp]: "engine_error tr err \<Longrightarrow> as_skill_error tr' err = err"
  by (auto simp: engine_error_def as_skill_error_def)

lemma executeAtomic_cases:
  assumes "executeAtomic world step ctx prev tr (e, n) = (Ret (sr, err), ps')" and "tr \<noteq> ''''"
  shows "sres_Name sr = st_Name step \<and> sres_Error sr = err \<and> (\<forall>x. err = Some x \<longrightarrow> engine_error tr x)"
proof -
  let ?req = "atomic_request tr (st_SkillID step) (resolveInput (st_Input step) ctx prev)"
  obtain r e' where ex: "execute (world n) ?req e = (r, e')" by (cases "execute (world n) ?req e")
  have "traced_error tr r"
    using execute_traced[of "world n" ?req e] assms(2) unfolding ex
    by (simp add: trace_id_of_def atomic_request_def)
  with assms(1) ex show ?thesis
    by (auto simp: executeAtomic_def Let_def traced_error_def engine_error_def split: go.splits sum.splits)
qed

lemma collect_error:
  "fst (collect rs fe outs) = (case fe of Some e \<Rightarrow> Some e | None \<Rightarrow>
      (case find (\<lambda>r. snd r \<noteq> None) rs of Some r \<Rightarrow> snd r | None \<Rightarrow> None))"
  by (induction rs fe outs rule: collect.induct) (auto split: option.splits)

lemma set_place: "set (place n rs) \<subseteq> snd ` set rs"
proof
  fix y
  assume "y \<in> set (place n rs)"
  then obtain i where "map_of rs i = Some y" by (auto simp: place.simps List.map_filter_def)
  then show "y \<in> snd ` set rs" by (force dest: map_of_SomeD)
qed

lemma finish_parallel_error:
  assumes "finish_parallel name n (Ret rs, ps) = (Ret (sr, Some err), ps')"
  shows "\<exists>i sr'. (i, sr', Some err) \<in> set rs"
proof -
  from assms have "fst (collect (place n rs) None []) = Some err"
    by (auto simp: finish_parallel_def Let_def split_def)
  then obtain r where "find (\<lambda>r. snd r \<noteq> None) (place n rs) = Some r" "snd r = Some err"
    by (auto simp: collect_error split: option.splits)
  then have "(fst r, Some err) \<in> set (place n rs)"
    by (cases r) (auto simp: find_Some_iff)
  with set_place[of n rs] show ?thesis by force
qed

lemma finish_parallel_result:
  "finish_parallel name n r = (Ret (sr, err), ps') \<Longrightarrow> (\<exists>rs. r = (Ret rs, ps')) \<and> sres_Error sr = None"
  by (cases r) (auto simp: finish_parallel_def Let_def split_def split: go.splits)

lemma executeStep_error:
  "tr \<noteq> '''' \<Longrightarrow> executeStep world sched step ctx prev tr ps = (Ret (sr, err), ps') \<Longrightarrow>
     (\<forall>x. err = Some x \<longrightarrow> engine_error tr x) \<and> (err = None \<longrightarrow> sres_Error sr = None)"
  "tr \<noteq> '''' \<Longrightarrow> executeBranches world sched bs ctx tr ps = (Ret rs, ps') \<Longrightarrow>
     (i, sr, Some x) \<in> set rs \<Longrightarrow> engine_error tr x"
proof (induction world sched step ctx prev tr ps and world sched bs ctx tr ps
    arbitrary: sr err ps' and rs ps' i sr x rule: executeStep_executeBranches.induct)
  case (1 world sched step ctx prev tr ps)
  show ?case
  proof (cases "st_Type step")
    case StepConditional
    with 1 show ?thesis
      by (cases "chosen_branch step ctx") (auto simp: executeStep.simps)
  next
    case StepParallel
    obtain r where br: "executeBranches world sched
        (arrange (sched (length (st_Parallel step))) (enumerate 0 (st_Parallel step))) ctx tr ps = r" by blast
    from 1(4) StepParallel have f: "finish_parallel (st_Name step) (length (st_Parallel step)) r = (Ret (sr, err), ps')"
      by (simp add: executeStep.simps br)
    from finish_parallel_result[OF this] obtain rs where r: "r = (Ret rs, ps')" and e: "sres_Error sr = None" by blast
    have "engine_error tr x" if "err = Some x" for x
      using finish_parallel_error[of "st_Name step" "length (st_Parallel step)" rs ps' sr x ps'] f r that
        1(2)[OF StepParallel 1(3)] br by auto
    with e show ?thesis by blast
  next
    case StepSequential
    with 1(3,4) show ?thesis
      using executeAtomic_cases[of world step ctx prev tr "fst ps" "snd ps" sr err ps'] by (simp add: executeStep.simps)
  next
    case (StepTypeOther s)
    with 1(3,4) show ?thesis
      using executeAtomic_cases[of world step ctx prev tr "fst ps" "snd ps" sr err ps'] by (simp add: executeStep.simps)
  qed
next
  case (2 world sched ctx tr ps)
  then show ?case by (simp add: executeStep.simps)
next
  case (3 world sched j s bs ctx tr ps)
  from 3(4) obtain r ps1 rs1 where
      s: "executeStep world sched s ctx '''' tr ps = (Ret r, ps1)"
    and b: "executeBranches world sched bs ctx tr ps1 = (Ret rs1, ps')" and rs: "rs = (j, r) # rs1"
    by (auto simp: executeStep.simps split: prod.splits go.splits)
  show ?case
  proof (cases "(i, sr, Some x) = (j, r)")
    case True
    with 3(1)[OF 3(3)] s show ?thesis by auto
  next
    case False
    with 3(5) rs have "(i, sr, Some x) \<in> set rs1" by auto
    with 3(2)[OF s[symmetric] refl 3(3) b] show ?thesis by blast
  qed
qed

lemma executeBranches_indices:
  "executeBranches world sched bs ctx tr ps = (Ret rs, ps') \<Longrightarrow> map fst rs = map fst bs"
  by (induction bs arbitrary: ps rs) (auto split: prod.splits go.splits)

lemma place_eq_map: "set (map fst rs) = {..<n} \<Longrightarrow> place n rs = map (\<lambda>i. the (map_of rs i)) [0..<n]"
proof -
  assume "set (map fst rs) = {..<n}"
  then have "\<And>i. i \<in> set [0..<n] \<Longrightarrow> map_of rs i \<noteq> None" by (auto simp: map_of_eq_None_iff)
  then have "filter (\<lambda>i. map_of rs i \<noteq> None) [0..<n] = [0..<n]" by (simp add: filter_id_conv)
  then show ?thesis by (simp add: place.simps List.map_filter_def comp_def)
qed

lemma find_in_order:
  "(find P (map f [0..<n]) = Some y) \<longleftrightarrow> (\<exists>i<n. P (f i) \<and> y = f i \<and> (\<forall>j<i. \<not> P (f j)))"
  by (force simp: find_Some_iff)

lemma find_error:
  "(case find (\<lambda>r. snd r \<noteq> None) xs of Some r \<Rightarrow> snd r | None \<Rightarrow> None) = Some x \<longleftrightarrow>
     (\<exists>r. find (\<lambda>r. snd r \<noteq> None) xs = Some r \<and> snd r = Some x)"
  by (auto split: option.splits)

lemma first_error_by_index:
  assumes dist: "distinct (map fst rs)" and idx: "set (map fst rs) = {..<n}"
  shows "fst (collect (place n rs) None []) = Some x \<longleftrightarrow>
     (\<exists>i sr. (i, sr, Some x) \<in> set rs \<and> (\<forall>j sr' y. (j, sr', Some y) \<in> set rs \<longrightarrow> i \<le> j))"
proof -
  let ?f = "\<lambda>i. the (map_of rs i)"
  have mem: "(i, r) \<in> set rs \<longleftrightarrow> i < n \<and> ?f i = r" for i r
  proof
    assume "(i, r) \<in> set rs"
    moreover from this have "i \<in> set (map fst rs)" by force
    ultimately show "i < n \<and> ?f i = r" using dist idx by (auto simp: map_of_is_SomeI)
  next
    assume i: "i < n \<and> ?f i = r"
    then have "i \<in> set (map fst rs)" using idx by auto
    then obtain r' where "map_of rs i = Some r'" by (metis map_of_eq_None_iff not_None_eq set_map)
    with i show "(i, r) \<in> set rs" by (auto dest: map_of_SomeD)
  qed
  have "fst (collect (place n rs) None []) = Some x \<longleftrightarrow>
      (\<exists>i<n. snd (?f i) = Some x \<and> (\<forall>j<i. snd (?f j) = None))"
    unfolding collect_error place_eq_map[OF idx] option.case find_error find_in_order by (metis option.distinct(1))
  also have "\<dots> \<longleftrightarrow> (\<exists>i sr. (i, sr, Some x) \<in> set rs \<and> (\<forall>j sr' y. (j, sr', Some y) \<in> set rs \<longrightarrow> i \<le> j))"
  proof
    assume "\<exists>i<n. snd (?f i) = Some x \<and> (\<forall>j<i. snd (?f j) = None)"
    then obtain i where i: "i < n" "snd (?f i) = Some x" and least: "\<And>j. j < i \<Longrightarrow> snd (?f j) = None" by blast
    have "(i, fst (?f i), Some x) \<in> set rs" using i by (simp add: mem prod_eq_iff)
    moreover have "i \<le> j" if "(j, sr', Some y) \<in> set rs" for j sr' y
      using that least[of j] by (fastforce simp: mem not_le)
    ultimately show "\<exists>i sr. (i, sr, Some x) \<in> set rs \<and> (\<forall>j sr' y. (j, sr', Some y) \<in> set rs \<longrightarrow> i \<le> j)" by blast
  next
    assume "\<exists>i sr. (i, sr, Some x) \<in> set rs \<and> (\<forall>j sr' y. (j, sr', Some y) \<in> set rs \<longrightarrow> i \<le> j)"
    then obtain i sr where i: "(i, sr, Some x) \<in> set rs"
      and least: "\<And>j sr' y. (j, sr', Some y) \<in> set rs \<Longrightarrow> i \<le> j" by blast
    have "snd (?f j) = None" if "j < i" for j
    proof (rule ccontr)
      assume "snd (?f j) \<noteq> None"
      then obtain y where "?f j = (fst (?f j), Some y)" by (auto simp: prod_eq_iff)
      moreover have "j < n" using that i by (simp add: mem)
      ultimately show False using least[of j "fst (?f j)" y] that by (simp add: mem)
    qed
    with i show "\<exists>i<n. snd (?f i) = Some x \<and> (\<forall>j<i. snd (?f j) = None)" by (auto simp: mem)
  qed
  finally show ?thesis .
qed

text \<open>
  The results a run adds: one per step when it succeeds; up to and including the failing step
  otherwise, with that step's index and name in the error.
\<close>

definition run_shape ::
  "string \<Rightarrow> nat \<Rightarrow> Step list \<Rightarrow> StepResult list \<Rightarrow> PipelineError option \<Rightarrow> bool" where
  "run_shape tr i steps new err \<longleftrightarrow>
     (case err of
        None \<Rightarrow> length new = length steps \<and> list_all (\<lambda>r. sres_Error r = None) new
      | Some pe \<Rightarrow> i \<le> pe_StepIndex pe \<and> pe_StepIndex pe < i + length steps \<and>
           length new = Suc (pe_StepIndex pe - i) \<and>
           pe_FailedStep pe = st_Name (steps ! (pe_StepIndex pe - i)) \<and> engine_error tr (pe_SkillError pe) \<and>
           list_all (\<lambda>r. sres_Error r = None) (butlast new))"

lemma run_shape_Cons:
  assumes "run_shape tr (Suc i) steps new err" and "sres_Error sr = None"
  shows "run_shape tr i (step # steps) (sr # new) err"
  using assms by (cases err) (auto simp: run_shape_def Suc_le_eq nth_Cons' Suc_diff_le)

lemma pipeline_loop_result:
  assumes "pipeline_loop world sched tr i steps ctx prev results ps = (Ret (rs, err), ps')" and tr: "tr \<noteq> ''''"
  shows "\<exists>new. rs = results @ new \<and> run_shape tr i steps new err"
  using assms(1)
proof (induction steps arbitrary: i ctx prev results ps)
  case Nil
  then show ?case by (auto simp: run_shape_def)
next
  case (Cons step steps)
  obtain r ps1 where ex: "executeStep world sched step ctx prev tr ps = (r, ps1)"
    by (cases "executeStep world sched step ctx prev tr ps")
  with Cons.prems obtain sr e where r: "r = Ret (sr, e)" by (cases r) auto
  note es = executeStep_error(1)[OF tr ex[unfolded r]]
  show ?case
  proof (cases e)
    case (Some x)
    with Cons.prems ex r es show ?thesis by (auto simp: run_shape_def intro!: exI[of _ "[sr]"])
  next
    case None
    with Cons.prems ex r obtain ctx' prev' where
      "pipeline_loop world sched tr (Suc i) steps ctx' prev' (results @ [sr]) ps1 = (Ret (rs, err), ps')"
      by (auto split: if_splits)
    from Cons.IH[OF this] obtain new where "rs = (results @ [sr]) @ new" "run_shape tr (Suc i) steps new err" by blast
    with es None show ?thesis by (auto intro!: exI[of _ "sr # new"] run_shape_Cons)
  qed
qed

section \<open>Concrete instances used by the witnesses\<close>

definition echo_engine :: engine where
  "echo_engine = snd (gateway_RegisterProvider
     \<lparr>SkillIDs = [''s''], p_SkillType = ''code'', p_Execute = (\<lambda>c s i. Ret (Inr i))\<rparr> (NewDefaultGateway None None None))"

definition seq_step :: "string \<Rightarrow> string \<Rightarrow> gval \<Rightarrow> Step" where
  "seq_step name skill input = Step name StepSequential skill input None None None []"

lemma echo_execute:
  "tr \<noteq> '''' \<Longrightarrow> breaker_of (en_cb e) ''s'' = new_breaker \<Longrightarrow> en_registry e = en_registry echo_engine \<Longrightarrow>
   \<exists>resp e'. execute calm_env (atomic_request tr ''s'' v) e = (Ret (Inr resp), e') \<and> rs_Output resp = v \<and>
     en_registry e' = en_registry e \<and> breaker_of (en_cb e') ''s'' = new_breaker"
  by (auto simp: execute_def Let_def split_def echo_engine_def gateway_RegisterProvider_def NewDefaultGateway_def
      Register_def newProviderRegistry_def Resolve_def breaker_effects breaker_allow_def atomic_request_def calm_env_def
      attempt_loop.simps attempt_body_def max_attempts_of_def maxRetryAttempts_def breaker_success_def new_breaker_def
      reportMetrics_def audit_log_def record_success_def trace_id_of_def split: option.split)

lemma missing_execute:
  "tr \<noteq> '''' \<Longrightarrow> execute calm_env (atomic_request tr ''x'' v) echo_engine =
     (Ret (Inl (SkillError ErrSkillNotFound ''skill not found: x'' tr None)), echo_engine)"
  by (simp add: execute_def Let_def echo_engine_def gateway_RegisterProvider_def NewDefaultGateway_def
      Register_def newProviderRegistry_def Resolve_def atomic_request_def trace_id_of_def)

section \<open>Properties\<close>

text \<open>C2: a pipeline run that returns either has one error-free result per step, or stops at its
  first failing step: the error names that step and its index, the results end with that step's
  result, all earlier steps succeeded, and the reported error is a SkillError of the atomic engine
  under the pipeline's trace id (never the ErrPipelineStepFailed fallback).\<close>

theorem pipeline_stops_at_first_failure:
  assumes "ExecutePipeline world sched uuid p ps = (Ret (res, err), ps')" and "uuid \<noteq> ''''"
  shows "case err of
     None \<Rightarrow> length (pr_Steps res) = length (pl_Steps p) \<and> list_all (\<lambda>r. sres_Error r = None) (pr_Steps res)
   | Some pe \<Rightarrow> pe_StepIndex pe < length (pl_Steps p) \<and> length (pr_Steps res) = Suc (pe_StepIndex pe) \<and>
       pe_FailedStep pe = st_Name (pl_Steps p ! pe_StepIndex pe) \<and>
       (\<exists>c m cause. pe_SkillError pe = SkillError c m uuid cause \<and> c \<noteq> ErrPipelineStepFailed) \<and>
       list_all (\<lambda>r. sres_Error r = None) (butlast (pr_Steps res))"
proof -
  from assms(1) obtain rs where
      "pipeline_loop world sched uuid 0 (pl_Steps p) Map.empty '''' [] ps = (Ret (rs, err), ps')" "pr_Steps res = rs"
    by (auto simp: ExecutePipeline_def split: prod.splits go.splits)
  with pipeline_loop_result[OF _ assms(2)] have "run_shape uuid 0 (pl_Steps p) (pr_Steps res) err" by fastforce
  then show ?thesis by (cases err) (auto simp: run_shape_def engine_error_def)
qed

theorem pipeline_stops_at_first_failure_witness:
  "\<exists>res pe ps'. ExecutePipeline (\<lambda>_. calm_env) (\<lambda>_. []) ''u''
      \<lparr>pl_ID = ''p'', pl_Steps = [seq_step ''a'' ''x'' VNil, seq_step ''b'' ''s'' VNil]\<rparr> (echo_engine, 0) = (Ret (res, Some pe), ps') \<and>
     pe_FailedStep pe = ''a'' \<and> length (pr_Steps res) = 1"
proof -
  let ?p = "\<lparr>pl_ID = ''p'', pl_Steps = [seq_step ''a'' ''x'' VNil, seq_step ''b'' ''s'' VNil]\<rparr>"
  obtain res pe ps' where run: "ExecutePipeline (\<lambda>_. calm_env) (\<lambda>_. []) ''u'' ?p (echo_engine, 0) = (Ret (res, Some pe), ps')"
    and i: "pe_StepIndex pe = 0"
    by (simp add: ExecutePipeline_def seq_step_def executeStep.simps executeAtomic_def missing_execute resolveInput_def)
  from pipeline_stops_at_first_failure[OF run] i run show ?thesis by (auto simp: seq_step_def)
qed

text \<open>C7: a parallel step that returns has run every branch once, whatever order the scheduler
  chose, and its error is the error of its failing branch with the lowest index.\<close>

theorem parallel_first_error_by_index:
  assumes "st_Type step = StepParallel"
    and "executeStep world sched step ctx prev tr ps = (Ret (sr, err), ps')"
  shows "\<exists>rs. executeBranches world sched
       (arrange (sched (length (st_Parallel step))) (enumerate 0 (st_Parallel step))) ctx tr ps = (Ret rs, ps') \<and>
     mset (map fst rs) = mset [0..<length (st_Parallel step)] \<and>
     (\<forall>x. err = Some x \<longleftrightarrow>
        (\<exists>i r. (i, r, Some x) \<in> set rs \<and> (\<forall>j r' y. (j, r', Some y) \<in> set rs \<longrightarrow> i \<le> j)))"
proof -
  let ?bs = "arrange (sched (length (st_Parallel step))) (enumerate 0 (st_Parallel step))"
  from assms have f: "finish_parallel (st_Name step) (length (st_Parallel step))
      (executeBranches world sched ?bs ctx tr ps) = (Ret (sr, err), ps')" by (simp add: executeStep.simps)
  from finish_parallel_result[OF f] obtain rs where rs: "executeBranches world sched ?bs ctx tr ps = (Ret rs, ps')" by blast
  have "mset (map fst rs) = mset (map fst ?bs)" using executeBranches_indices[OF rs] by simp
  also have "\<dots> = image_mset fst (mset (enumerate 0 (st_Parallel step)))" by simp
  also have "\<dots> = mset [0..<length (st_Parallel step)]"
    by (metis add_0 map_fst_enumerate mset_map)
  finally have idx: "mset (map fst rs) = mset [0..<length (st_Parallel step)]" .
  then have "distinct (map fst rs)" and "set (map fst rs) = {..<length (st_Parallel step)}"
    by (metis distinct_upt mset_eq_imp_distinct_iff) (metis atLeast_upt atLeast0LessThan idx set_mset_mset)
  from first_error_by_index[OF this] f rs idx show ?thesis
    by (auto simp: finish_parallel_def Let_def split_def)
qed

theorem parallel_first_error_by_index_witness:
  "\<exists>sr err ps'. executeStep (\<lambda>_. calm_env) (\<lambda>_. [1, 0])
      (Step ''par'' StepParallel '''' VNil None None None [seq_step ''a'' ''x'' VNil, seq_step ''b'' ''x'' VNil])
      Map.empty '''' ''u'' (echo_engine, 0) = (Ret (sr, err), ps') \<and> err \<noteq> None"
proof -
  let ?st = "Step ''par'' StepParallel '''' VNil None None None [seq_step ''a'' ''x'' VNil, seq_step ''b'' ''x'' VNil]"
  obtain sr err ps' where ex: "executeStep (\<lambda>_. calm_env) (\<lambda>_. [1, 0]) ?st Map.empty '''' ''u'' (echo_engine, 0) = (Ret (sr, err), ps')"
    and err: "err \<noteq> None"
    by (simp add: executeStep.simps arrange_def seq_step_def lessThan_Suc insert_commute numeral_2_eq_2 executeAtomic_def
        missing_execute resolveInput_def finish_parallel_def place.simps upt_rec List.map_filter_def)
  have "st_Type ?st = StepParallel" by simp
  from parallel_first_error_by_index[OF this ex] ex err show ?thesis by blast
qed

text \<open>data flow: when a named step succeeds and the next step's input is the literal
  \<^verbatim>\<open>$prev.output\<close>, the next step's skill is executed on exactly the output of the first.\<close>

theorem prev_output_feeds_next_step:
  assumes "a \<noteq> ''''"
    and "execute (world 0) (atomic_request uuid s1 (resolveInput v Map.empty '''')) e = (Ret (Inr r1), e1)"
    and "execute (world 1) (atomic_request uuid s2 (rs_Output r1)) e1 = (Ret (Inr r2), e2)"
  shows "ExecutePipeline world sched uuid \<lparr>pl_ID = pid, pl_Steps = [seq_step a s1 v, seq_step b s2 (VStr ''$prev.output'')]\<rparr> (e, 0)
    = (Ret (\<lparr>pr_PipelineID = pid, pr_TraceID = uuid, pr_Steps =
         [\<lparr>sres_Name = a, sres_Output = rs_Output r1, sres_Error = None\<rparr>,
          \<lparr>sres_Name = b, sres_Output = rs_Output r2, sres_Error = None\<rparr>]\<rparr>, None), (e2, 2))"
proof -
  have "resolveInput (VStr ''$prev.output'') [step_key a \<mapsto> rs_Output r1] a = rs_Output r1"
    using assms(1) by (simp add: resolveInput_def Let_def step_key_def prefix_of_def)
  with assms show ?thesis
    by (simp add: ExecutePipeline_def seq_step_def executeStep.simps executeAtomic_def)
qed

theorem prev_output_feeds_next_step_witness:
  "\<exists>e2. ExecutePipeline (\<lambda>_. calm_env) (\<lambda>_. []) ''u''
     \<lparr>pl_ID = ''p'', pl_Steps = [seq_step ''a'' ''s'' (VInt 7), seq_step ''b'' ''s'' (VStr ''$prev.output'')]\<rparr> (echo_engine, 0)
    = (Ret (\<lparr>pr_PipelineID = ''p'', pr_TraceID = ''u'', pr_Steps =
         [\<lparr>sres_Name = ''a'', sres_Output = VInt 7, sres_Error = None\<rparr>,
          \<lparr>sres_Name = ''b'', sres_Output = VInt 7, sres_Error = None\<rparr>]\<rparr>, None), (e2, 2))"
proof -
  have "breaker_of (en_cb echo_engine) ''s'' = new_breaker"
    by (simp add: echo_engine_def gateway_RegisterProvider_def NewDefaultGateway_def split_def Let_def)
  from echo_execute[OF _ this refl, of "''u''" "VInt 7"] obtain r1 e1 where
    x1: "execute calm_env (atomic_request ''u'' ''s'' (VInt 7)) echo_engine = (Ret (Inr r1), e1)" "rs_Output r1 = VInt 7"
    "en_registry e1 = en_registry echo_engine" "breaker_of (en_cb e1) ''s'' = new_breaker" by auto
  from echo_execute[OF _ x1(4,3), of "''u''" "VInt 7"] obtain r2 e2 where
    x2: "execute calm_env (atomic_request ''u'' ''s'' (VInt 7)) e1 = (Ret (Inr r2), e2)" "rs_Output r2 = VInt 7" by auto
  from prev_output_feeds_next_step[of "''a''" "\<lambda>_. calm_env" "''u''" "''s''" "VInt 7" echo_engine r1 e1 "''s''" r2 e2 "\<lambda>_. []" "''p''" "''b''"]
    x1 x2 show ?thesis by (auto simp: resolveInput_def)
qed

text \<open>in a conditional built with If, Then and Else, only the first step of each branch's
  sub-pipeline is kept: sub-pipelines that agree on their first step build the same pipeline,
  whatever steps follow.\<close>

theorem builder_branches_keep_first_step_only:
  "builder_Else (builder_Then (builder_If b name cond) (sub\<lparr>pb_steps := s # rest\<rparr>)) (sub'\<lparr>pb_steps := s' # rest'\<rparr>) =
   builder_Else (builder_Then (builder_If b name cond) (sub\<lparr>pb_steps := [s]\<rparr>)) (sub'\<lparr>pb_steps := [s']\<rparr>) \<and>
   last (pl_Steps (builder_Build (builder_Else (builder_Then (builder_If b name cond)
      (sub\<lparr>pb_steps := s # rest\<rparr>)) (sub'\<lparr>pb_steps := s' # rest'\<rparr>)))) =
     Step name StepConditional '''' VNil (Some cond) (Some s) (Some s') []"
  by (simp add: builder_Else_def builder_Then_def builder_If_def first_step_def builder_Build_def)

end
