(* ===== verification/Go_Strings.thy ===== *)
theory Go_Strings
  imports Go_Base "HOL-Library.Sublist"
begin

text \<open>
  Strings of Go as the code uses them: a \<^verbatim>\<open>string\<close> is a list of bytes (\<open>char\<close> is a byte),
  \<^verbatim>\<open>len\<close> counts bytes, and a \<^verbatim>\<open>range\<close> loop decodes UTF-8, with U+FFFD of width one for a
  byte that starts no valid sequence. Holds decoding and encoding of runes, strings.TrimSpace,
  strings.Split on a newline and strings.Index, with the lemmas the chunker and the memory search
  use: everything is the identity on ASCII, and Index finds the first occurrence.
\<close>

section \<open>Runes\<close>

type_synonym rune = nat

definition byte :: "char \<Rightarrow> nat" where "byte c = of_char c"

definition is_cont :: "char \<Rightarrow> bool" where "is_cont c \<longleftrightarrow> 128 \<le> byte c \<and> byte c < 192"

definition rune_error :: rune where "rune_error = 65533"

text \<open>The rune at the start of a non-empty byte list, and the number of bytes it takes.\<close>

definition decode3 :: "nat \<Rightarrow> char \<Rightarrow> char \<Rightarrow> rune \<times> nat" where
  "decode3 b0 c1 c2 =
     (if is_cont c1 \<and> is_cont c2 \<and> (b0 = 224 \<longrightarrow> 160 \<le> byte c1) \<and> (b0 = 237 \<longrightarrow> byte c1 < 160)
      then ((b0 - 224) * 4096 + (byte c1 - 128) * 64 + (byte c2 - 128), 3) else (rune_error, 1))"

definition decode4 :: "nat \<Rightarrow> char \<Rightarrow> char \<Rightarrow> char \<Rightarrow> rune \<times> nat" where
  "decode4 b0 c1 c2 c3 =
     (if is_cont c1 \<and> is_cont c2 \<and> is_cont c3 \<and> (b0 = 240 \<longrightarrow> 144 \<le> byte c1) \<and> (b0 = 244 \<longrightarrow> byte c1 < 144)
      then ((b0 - 240) * 262144 + (byte c1 - 128) * 4096 + (byte c2 - 128) * 64 + (byte c3 - 128), 4)
      else (rune_error, 1))"

fun decode_rune :: "string \<Rightarrow> rune \<times> nat" where
  "decode_rune [] = (rune_error, 1)"
| "decode_rune (c0 # cs) =
     (let b0 = byte c0 in
      if b0 < 128 then (b0, 1)
      else if 194 \<le> b0 \<and> b0 < 224 then
        (case cs of c1 # _ \<Rightarrow> (if is_cont c1 then ((b0 - 192) * 64 + (byte c1 - 128), 2) else (rune_error, 1))
         | [] \<Rightarrow> (rune_error, 1))
      else if 224 \<le> b0 \<and> b0 < 240 then
        (case cs of c1 # c2 # _ \<Rightarrow> decode3 b0 c1 c2 | _ \<Rightarrow> (rune_error, 1))
      else if 240 \<le> b0 \<and> b0 < 245 then
        (case cs of c1 # c2 # c3 # _ \<Rightarrow> decode4 b0 c1 c2 c3 | _ \<Rightarrow> (rune_error, 1))
      else (rune_error, 1))"

lemma decode_rune_width: "0 < snd (decode_rune s)"
  by (cases s) (auto simp: Let_def decode3_def decode4_def split: list.split)

text \<open>The runes a \<^verbatim>\<open>range\<close> loop sees, each with the number of bytes it was read from.\<close>

function runes :: "string \<Rightarrow> (rune \<times> nat) list" where
  "runes s = (if s = [] then [] else decode_rune s # runes (drop (snd (decode_rune s)) s))"
  by pat_completeness auto
termination
  by (relation "measure length") (auto simp: decode_rune_width)

declare runes.simps [simp del]

definition encode_rune :: "rune \<Rightarrow> string" where
  "encode_rune r =
     (if r < 128 then [char_of r]
      else if r < 2048 then [char_of (192 + r div 64), char_of (128 + r mod 64)]
      else if r < 65536 then [char_of (224 + r div 4096), char_of (128 + r div 64 mod 64), char_of (128 + r mod 64)]
      else [char_of (240 + r div 262144), char_of (128 + r div 4096 mod 64), char_of (128 + r div 64 mod 64),
            char_of (128 + r mod 64)])"

definition ascii :: "string \<Rightarrow> bool" where
  "ascii s \<longleftrightarrow> list_all (\<lambda>c. byte c < 128) s"

lemma ascii_simps [simp]: "ascii []" "ascii (c # s) \<longleftrightarrow> byte c < 128 \<and> ascii s" "ascii (s @ t) \<longleftrightarrow> ascii s \<and> ascii t"
  by (auto simp: ascii_def)

lemma ascii_subset: "ascii s \<Longrightarrow> set t \<subseteq> set s \<Longrightarrow> ascii t"
  by (auto simp: ascii_def list_all_iff)

lemma ascii_take_drop: "ascii s \<Longrightarrow> ascii (take n s)" "ascii s \<Longrightarrow> ascii (drop n s)"
  by (auto intro: ascii_subset dest: in_set_takeD in_set_dropD)

lemma char_of_byte [simp]: "char_of (byte c) = c"
  by (simp add: byte_def)

lemma encode_ascii: "r < 128 \<Longrightarrow> encode_rune r = [char_of r]"
  by (simp add: encode_rune_def)

lemma runes_Nil [simp]: "runes [] = []"
  by (simp add: runes.simps)

lemma runes_ascii: "ascii s \<Longrightarrow> runes s = map (\<lambda>c. (byte c, 1)) s"
proof (induction s)
  case Nil
  then show ?case by simp
next
  case (Cons c s)
  then show ?case by (subst runes.simps) (simp add: Let_def)
qed

text \<open>A rune below 128 comes from one ASCII byte, so a text of such runes is ASCII.\<close>

lemma decode3_ascii: "224 \<le> b \<Longrightarrow> 128 \<le> fst (decode3 b c1 c2)"
  by (cases "b = 224") (auto simp: decode3_def rune_error_def)

lemma decode4_ascii: "240 \<le> b \<Longrightarrow> 128 \<le> fst (decode4 b c1 c2 c3)"
  by (cases "b = 240") (auto simp: decode4_def rune_error_def)

lemma decode2_ascii: "194 \<le> b \<Longrightarrow> 128 \<le> (b - 192) * 64 + n" for b n :: nat
  by simp

lemma decode_rune_ascii: "fst (decode_rune (c # s)) < 128 \<longleftrightarrow> byte c < 128"
proof (cases "byte c < 128")
  case False
  have "128 \<le> fst (decode_rune (c # s))"
    using False by (simp add: Let_def decode2_ascii decode3_ascii decode4_ascii rune_error_def split: list.split)
  with False show ?thesis by simp
qed (simp add: Let_def)

lemma ascii_runes: "list_all (\<lambda>r. fst r < 128) (runes s) \<Longrightarrow> ascii s"
proof (induction s)
  case Nil
  then show ?case by simp
next
  case (Cons c s)
  then have "byte c < 128" by (subst (asm) (2) runes.simps) (simp add: decode_rune_ascii del: decode_rune.simps)
  with Cons show ?case by (subst (asm) (2) runes.simps) (simp add: Let_def)
qed

section \<open>strings.TrimSpace\<close>

definition is_space :: "rune \<Rightarrow> bool" where
  "is_space r \<longleftrightarrow> r \<in> {9, 10, 11, 12, 13, 32, 133, 160, 5760, 8232, 8233, 8239, 8287, 12288} \<or> 8192 \<le> r \<and> r \<le> 8202"

text \<open>The widths of the leading and trailing space runes are cut off the byte list.\<close>

definition TrimSpace :: "string \<Rightarrow> string" where
  "TrimSpace s =
     (let rs = runes s;
          lead = sum_list (map snd (takeWhile (\<lambda>r. is_space (fst r)) rs));
          trail = sum_list (map snd (takeWhile (\<lambda>r. is_space (fst r)) (rev (dropWhile (\<lambda>r. is_space (fst r)) rs))))
      in take (length s - lead - trail) (drop lead s))"

lemma length_TrimSpace: "length (TrimSpace s) \<le> length s"
  by (simp add: TrimSpace_def Let_def)

section \<open>strings.Split(s, "\n")\<close>

definition newline :: char where "newline = CHR 0x0A"

lemma byte_newline [simp]: "byte c = 10 \<longleftrightarrow> c = newline"
proof -
  have "byte newline = 10" by (simp add: byte_def newline_def)
  then show ?thesis by (metis char_of_byte)
qed

fun split_lines :: "string \<Rightarrow> string list" where
  "split_lines [] = [[]]"
| "split_lines (c # s) =
     (if c = newline then [] # split_lines s
      else (case split_lines s of [] \<Rightarrow> [[c]] | l # ls \<Rightarrow> (c # l) # ls))"

lemma split_lines_not_Nil: "split_lines s \<noteq> []"
  by (induction s) (auto split: list.splits)

lemma split_lines_single: "newline \<notin> set s \<Longrightarrow> split_lines s = [s]"
  by (induction s) auto

section \<open>strings.Index\<close>

text \<open>The position of the first occurrence, \<open>None\<close> for the code's \<open>-1\<close>.\<close>

fun str_index :: "string \<Rightarrow> string \<Rightarrow> nat option" where
  "str_index s pat =
     (if take (length pat) s = pat then Some 0
      else (case s of [] \<Rightarrow> None | c # s' \<Rightarrow> map_option Suc (str_index s' pat)))"

declare str_index.simps [simp del]

lemma str_index_Some: "str_index s pat = Some i \<Longrightarrow> i + length pat \<le> length s \<and> take (length pat) (drop i s) = pat"
proof (induction s arbitrary: i)
  case Nil
  then show ?case by (simp add: str_index.simps split: if_splits)
next
  case (Cons c s)
  show ?case
  proof (cases "take (length pat) (c # s) = pat")
    case True
    with Cons.prems have "i = 0" by (simp add: str_index.simps)
    moreover have "length pat \<le> length (c # s)" using True by (metis length_take min.cobounded1)
    ultimately show ?thesis using True by simp
  next
    case False
    with Cons.prems obtain j where "str_index s pat = Some j" "i = Suc j" by (subst (asm) str_index.simps) auto
    with Cons.IH show ?thesis by simp
  qed
qed

text \<open>The byte-wise search loop (an occurrence at some position) is the library's sublist test.\<close>

fun has_match :: "string \<Rightarrow> string \<Rightarrow> bool" where
  "has_match [] pat = (pat = [])"
| "has_match (c # s) pat = (take (length pat) (c # s) = pat \<or> has_match s pat)"

lemma has_match_sublist: "has_match s pat \<longleftrightarrow> sublist pat s"
proof (induction s)
  case Nil
  then show ?case by auto
next
  case (Cons c s)
  have "take (length pat) (c # s) = pat \<longleftrightarrow> prefix pat (c # s)"
    by (metis append_take_drop_id prefixE prefixI append_eq_conv_conj)
  with Cons show ?case by (simp add: sublist_Cons_right)
qed

end
