(* ===== verification/Text_Chunk.thy ===== *)
theory Text_Chunk
  imports Go_Strings
begin

text \<open>
  The text chunker of the knowledge ingestion, internal/textchunk/chunker.go: ChunkText with
  findChunkBoundary and splitSentences, ChunkByParagraphs, ChunkBySemanticBreaks and SmartChunk.
  Texts are byte lists and positions are byte offsets, as in the code. The loop of ChunkText is a
  partial function whose value \<open>None\<close> is a run that does not end; a slice out of range is a panic.

  Proved: a short text is one chunk; ChunkByParagraphs packs the trimmed non-empty lines in order
  into chunks that exceed the maximal size only for a single longer paragraph, numbered from zero;
  ASCII full stops, exclamation marks and question marks never end a sentence; and ChunkText, and
  with it SmartChunk, does not end on an ASCII text without line break longer than the maximal size.
\<close>

section \<open>Data\<close>

record Chunker =
  maxChunkSize :: nat
  overlapSize :: nat
  minChunkSize :: nat

definition NewChunker :: Chunker where
  "NewChunker = \<lparr>maxChunkSize = 1000, overlapSize = 200, minChunkSize = 100\<rparr>"

record TextChunk =
  tc_Content :: string
  tc_Index :: nat
  tc_SourceText :: string

section \<open>Sentences\<close>

definition isLatinChar :: "rune \<Rightarrow> bool" where
  "isLatinChar r \<longleftrightarrow> (0x41 \<le> r \<and> r \<le> 0x7A) \<or> (0xC0 \<le> r \<and> r \<le> 0xD6) \<or> (0x30 \<le> r \<and> r \<le> 0x39)"

text \<open>The loop over the runes, with the sentences so far and the current sentence.\<close>

fun split_loop :: "(rune \<times> nat) list \<Rightarrow> string list \<Rightarrow> string \<Rightarrow> string list" where
  "split_loop [] sentences current = (if length current > 0 then sentences @ [current] else sentences)"
| "split_loop ((r, w) # rs) sentences current =
     (if r \<in> {0x3002, 0xFF01, 0xFF1F, 0xFF0E} then
        (let cur = current @ encode_rune r
         in if length cur > 0 then split_loop rs (sentences @ [cur]) [] else split_loop rs sentences cur)
      else if r \<in> {0x2E, 0x21, 0x3F} then
        (let cur = current @ encode_rune r
         in if isLatinChar r then split_loop rs (sentences @ [cur]) [] else split_loop rs sentences cur)
      else if r = 10 then
        (if length current > 0 then split_loop rs (sentences @ [current]) [] else split_loop rs sentences current)
      else split_loop rs sentences (current @ encode_rune r))"

definition splitSentences :: "string \<Rightarrow> string list" where
  "splitSentences text = split_loop (runes text) [] []"

section \<open>ChunkText\<close>

definition slice :: "string \<Rightarrow> nat \<Rightarrow> nat \<Rightarrow> string option" where
  "slice s a b = (if a \<le> b \<and> b \<le> length s then Some (take (b - a) (drop a s)) else None)"

text \<open>The loop of findChunkBoundary over the sentences, with the index and the accumulated length.\<close>

fun boundary_loop :: "nat \<Rightarrow> nat \<Rightarrow> nat \<Rightarrow> string list \<Rightarrow> nat \<Rightarrow> nat" where
  "boundary_loop mx start i [] acc = start + acc"
| "boundary_loop mx start i (s # ss) acc =
     (if acc + length s > mx \<and> i > 0 then start + acc else boundary_loop mx start (Suc i) ss (acc + length s))"

definition findChunkBoundary :: "Chunker \<Rightarrow> string \<Rightarrow> nat \<Rightarrow> nat \<Rightarrow> nat" where
  "findChunkBoundary c text start end =
     (if end \<ge> length text then end
      else let sentences = splitSentences (take (end - start) (drop start text))
           in if length sentences \<le> 1 then end else boundary_loop (maxChunkSize c) start 0 sentences 0)"

partial_function (option) chunk_loop ::
  "Chunker \<Rightarrow> string \<Rightarrow> nat \<Rightarrow> nat \<Rightarrow> TextChunk list \<Rightarrow> TextChunk list go option" where
  "chunk_loop c text position chunkIndex chunks =
     (if \<not> position < length text then Some (Ret chunks)
      else let endPosition = (if position + maxChunkSize c > length text then length text else position + maxChunkSize c);
               chunk = findChunkBoundary c text position endPosition
           in case slice text position chunk of
                None \<Rightarrow> Some (Panic ''slice bounds out of range'')
              | Some chunkContent \<Rightarrow>
                  if length chunkContent < minChunkSize c
                  then chunk_loop c text endPosition chunkIndex chunks
                  else chunk_loop c text (chunk - overlapSize c) (Suc chunkIndex)
                         (chunks @ [\<lparr>tc_Content = chunkContent, tc_Index = chunkIndex, tc_SourceText = text\<rparr>]))"

definition ChunkText :: "Chunker \<Rightarrow> string \<Rightarrow> TextChunk list go option" where
  "ChunkText c text =
     (if length text \<le> maxChunkSize c
      then Some (Ret [\<lparr>tc_Content = text, tc_Index = 0, tc_SourceText = text\<rparr>])
      else chunk_loop c text 0 0 [])"

section \<open>ChunkByParagraphs\<close>

text \<open>The loop over the paragraphs with its variables chunks, chunkIndex, currentChunk and currentChunkSize.\<close>

fun paragraph_loop ::
  "Chunker \<Rightarrow> string \<Rightarrow> string list \<Rightarrow> TextChunk list \<Rightarrow> nat \<Rightarrow> string \<Rightarrow> nat \<Rightarrow> TextChunk list" where
  "paragraph_loop c text [] chunks idx cur sz =
     (if sz > 0 then chunks @ [\<lparr>tc_Content = TrimSpace cur, tc_Index = idx, tc_SourceText = text\<rparr>] else chunks)"
| "paragraph_loop c text (p # ps) chunks idx cur sz =
     (let para = TrimSpace p in
      if length para = 0 then paragraph_loop c text ps chunks idx cur sz
      else if sz + length para > maxChunkSize c \<and> sz > 0
      then paragraph_loop c text ps
             (chunks @ [\<lparr>tc_Content = TrimSpace cur, tc_Index = idx, tc_SourceText = text\<rparr>])
             (Suc idx) (para @ [newline]) (length para + 1)
      else paragraph_loop c text ps chunks idx (cur @ para @ [newline]) (sz + length para + 1))"

definition ChunkByParagraphs :: "Chunker \<Rightarrow> string \<Rightarrow> TextChunk list" where
  "ChunkByParagraphs c text = paragraph_loop c text (split_lines text) [] 0 [] 0"

section \<open>ChunkBySemanticBreaks\<close>

definition breaks :: "string list" where
  "breaks = [[newline, newline], replicate 40 CHR ''-'', replicate 40 CHR ''='', replicate 33 CHR ''='',
     replicate 38 CHR ''='']"

text \<open>The inner loop: cut at the first occurrence of the break while the piece before it is long enough.\<close>

function break_loop :: "Chunker \<Rightarrow> string \<Rightarrow> string \<Rightarrow> nat \<Rightarrow> TextChunk list \<Rightarrow> nat \<times> TextChunk list" where
  "break_loop c text br start chunks =
     (case str_index (drop start text) br of
        None \<Rightarrow> (start, chunks)
      | Some i \<Rightarrow>
          (if i > 0 \<and> i > minChunkSize c
           then break_loop c text br (start + i + length br)
                  (chunks @ [\<lparr>tc_Content = TrimSpace (take i (drop start text)), tc_Index = length chunks,
                              tc_SourceText = text\<rparr>])
           else (start, chunks)))"
  by pat_completeness auto
termination
proof (relation "measure (\<lambda>(c, t, br, start, chunks). length t - start)", goal_cases)
  case (2 c t br start chunks i)
  with str_index_Some[of "drop start t" br i] show ?case by auto
qed simp

declare break_loop.simps [simp del]

definition ChunkBySemanticBreaks :: "Chunker \<Rightarrow> string \<Rightarrow> TextChunk list" where
  "ChunkBySemanticBreaks c text =
     (let (start, chunks) = foldl (\<lambda>(start, chunks) br. break_loop c text br start chunks) (0, []) breaks
      in if start < length text
         then chunks @ [\<lparr>tc_Content = TrimSpace (drop start text), tc_Index = length chunks, tc_SourceText = text\<rparr>]
         else chunks)"

section \<open>SmartChunk\<close>

text \<open>Appending the sub-chunks of one paragraph, renumbered.\<close>

fun append_subs :: "string \<Rightarrow> TextChunk list \<Rightarrow> TextChunk list \<Rightarrow> TextChunk list" where
  "append_subs text final [] = final"
| "append_subs text final (s # ss) =
     append_subs text (final @ [\<lparr>tc_Content = tc_Content s, tc_Index = length final, tc_SourceText = text\<rparr>]) ss"

fun smart_loop :: "Chunker \<Rightarrow> string \<Rightarrow> TextChunk list \<Rightarrow> TextChunk list \<Rightarrow> TextChunk list go option" where
  "smart_loop c text [] final = Some (Ret final)"
| "smart_loop c text (p # ps) final =
     (if length (tc_Content p) > maxChunkSize c
      then (case ChunkText c (tc_Content p) of
              None \<Rightarrow> None
            | Some (Ret subs) \<Rightarrow> smart_loop c text ps (append_subs text final subs)
            | Some (Panic m) \<Rightarrow> Some (Panic m)
            | Some Deadlock \<Rightarrow> Some Deadlock)
      else smart_loop c text ps (final @ [p]))"

definition SmartChunk :: "Chunker \<Rightarrow> string \<Rightarrow> TextChunk list go option" where
  "SmartChunk c text =
     (let paragraphs = ChunkByParagraphs c text
      in if length paragraphs = 1
         then (case ChunkText c text of
                 None \<Rightarrow> None
               | Some (Ret sentences) \<Rightarrow>
                   (if length sentences = 1 then Some (Ret (ChunkBySemanticBreaks c text)) else Some (Ret sentences))
               | Some (Panic m) \<Rightarrow> Some (Panic m)
               | Some Deadlock \<Rightarrow> Some Deadlock)
         else smart_loop c text paragraphs [])"

section \<open>Sentences of ASCII text\<close>

lemma split_loop_ascii:
  assumes "ascii s" and "newline \<notin> set s"
  shows "split_loop (map (\<lambda>c. (byte c, 1)) s) sents cur = split_loop [] sents (cur @ s)"
  using assms
proof (induction s arbitrary: cur)
  case Nil
  then show ?case by simp
next
  case (Cons c s)
  have b: "byte c < 128" using Cons.prems by simp
  have nl: "byte c \<noteq> 10" using Cons.prems by auto
  have enc: "encode_rune (byte c) = [c]" using b by (simp add: encode_ascii)
  have "split_loop (map (\<lambda>c. (byte c, 1)) (c # s)) sents cur = split_loop (map (\<lambda>c. (byte c, 1)) s) sents (cur @ [c])"
    using b nl by (auto simp: enc isLatinChar_def Let_def)
  also have "\<dots> = split_loop [] sents (cur @ c # s)" using Cons by simp
  finally show ?case .
qed

lemma splitSentences_ascii:
  "ascii s \<Longrightarrow> newline \<notin> set s \<Longrightarrow> splitSentences s = (if s = [] then [] else [s])"
  by (simp add: splitSentences_def runes_ascii split_loop_ascii del: One_nat_def)

lemma findChunkBoundary_ascii:
  assumes "ascii text" and "newline \<notin> set text"
  shows "findChunkBoundary c text start end = end"
proof -
  let ?s = "take (end - start) (drop start text)"
  have "ascii ?s" using assms(1) by (simp add: ascii_take_drop)
  moreover have "newline \<notin> set ?s" using assms(2) by (auto dest: in_set_takeD in_set_dropD)
  ultimately have "length (splitSentences ?s) \<le> 1" by (simp add: splitSentences_ascii)
  then show ?thesis by (simp add: findChunkBoundary_def Let_def)
qed

section \<open>ChunkText on one long ASCII line\<close>

text \<open>
  The states from which the loop never leaves: at least the minimal chunk size is left, and the
  overlap is at least that size, so the last piece is cut again and again.
\<close>

definition trapped :: "Chunker \<Rightarrow> string \<Rightarrow> nat \<Rightarrow> bool" where
  "trapped c text pos \<longleftrightarrow> ascii text \<and> newline \<notin> set text \<and> pos < length text \<and> minChunkSize c \<le> length text - pos \<and>
     minChunkSize c \<le> maxChunkSize c \<and> 0 < minChunkSize c \<and> minChunkSize c \<le> overlapSize c \<and>
     overlapSize c < length text"

lemma chunk_loop_trapped:
  assumes "chunk_loop c t pos idx chunks = Some r"
  shows "\<not> trapped c t pos"
proof (rule chunk_loop.raw_induct[where P = "\<lambda>c t pos idx chunks r. \<not> trapped c t pos", OF _ assms], goal_cases)
  case (1 f c t pos idx chunks r)
  note IH = 1(1) and eq = 1(2)
  show ?case
  proof
    assume tr: "trapped c t pos"
    define e where "e = (if pos + maxChunkSize c > length t then length t else pos + maxChunkSize c)"
    from tr have b: "findChunkBoundary c t pos e = e"
      by (intro findChunkBoundary_ascii) (auto simp: trapped_def)
    from tr have len: "pos < length t" "pos \<le> e" "e \<le> length t" "minChunkSize c \<le> e - pos"
      by (auto simp: trapped_def e_def)
    let ?content = "take (e - pos) (drop pos t)"
    have sl: "slice t pos e = Some ?content" using len by (simp add: slice_def)
    have long: "\<not> length ?content < minChunkSize c" using len by auto
    have "f c t (e - overlapSize c) (Suc idx)
        (chunks @ [\<lparr>tc_Content = ?content, tc_Index = idx, tc_SourceText = t\<rparr>]) = Some r"
      using eq len(1) long unfolding Let_def e_def[symmetric] b sl by simp
    from IH[OF this] have "\<not> trapped c t (e - overlapSize c)" .
    moreover have "trapped c t (e - overlapSize c)" using tr len by (auto simp: trapped_def)
    ultimately show False by blast
  qed
qed

lemma chunk_loop_diverges: "trapped c text pos \<Longrightarrow> chunk_loop c text pos idx chunks = None"
  using chunk_loop_trapped by (metis option.exhaust)

lemma NewChunker_simps [simp]:
  "maxChunkSize NewChunker = 1000" "overlapSize NewChunker = 200" "minChunkSize NewChunker = 100"
  by (simp_all add: NewChunker_def)

lemma ChunkText_diverges:
  assumes "ascii text" and "newline \<notin> set text" and "1000 < length text"
  shows "ChunkText NewChunker text = None"
proof -
  have "trapped NewChunker text 0" using assms by (auto simp: trapped_def)
  then show ?thesis using assms(3) by (simp add: ChunkText_def chunk_loop_diverges)
qed

section \<open>The groups of ChunkByParagraphs\<close>

text \<open>The reference: greedy packing of the non-empty trimmed lines; \<open>group_size\<close> counts the line breaks.\<close>

definition group_size :: "string list \<Rightarrow> nat" where
  "group_size g = sum_list (map (\<lambda>p. length p + 1) g)"

definition join_lines :: "string list \<Rightarrow> string" where
  "join_lines g = concat (map (\<lambda>p. p @ [newline]) g)"

fun pack :: "nat \<Rightarrow> string list \<Rightarrow> string list \<Rightarrow> string list list" where
  "pack mx g [] = (if g = [] then [] else [g])"
| "pack mx g (p # ps) =
     (if p = [] then pack mx g ps
      else if group_size g + length p > mx \<and> g \<noteq> [] then g # pack mx [p] ps
      else pack mx (g @ [p]) ps)"

definition group_chunks :: "string \<Rightarrow> nat \<Rightarrow> string list list \<Rightarrow> TextChunk list" where
  "group_chunks t n gs =
     map (\<lambda>(i, g). \<lparr>tc_Content = TrimSpace (join_lines g), tc_Index = i, tc_SourceText = t\<rparr>) (enumerate n gs)"

lemma group_size_simps [simp]: "group_size [] = 0" "group_size (g @ [p]) = group_size g + length p + 1" "group_size [p] = length p + 1"
  by (simp_all add: group_size_def)

lemma group_size_pos [simp]: "0 < group_size g \<longleftrightarrow> g \<noteq> []"
  by (cases g) (simp_all add: group_size_def)

lemma join_lines_simps [simp]: "join_lines [] = []" "join_lines (g @ [p]) = join_lines g @ p @ [newline]" "join_lines [p] = p @ [newline]"
  by (simp_all add: join_lines_def)

lemma group_chunks_simps [simp]:
  "group_chunks t n [] = []"
  "group_chunks t n (g # gs) = \<lparr>tc_Content = TrimSpace (join_lines g), tc_Index = n, tc_SourceText = t\<rparr> # group_chunks t (Suc n) gs"
  by (simp_all add: group_chunks_def)

lemma group_chunks_proj:
  "map tc_Content (group_chunks t n gs) = map (\<lambda>g. TrimSpace (join_lines g)) gs"
  "map tc_Index (group_chunks t n gs) = [n..<n + length gs]"
  by (induction gs arbitrary: n) (simp_all add: upt_rec)

lemma paragraph_loop_pack:
  "paragraph_loop c t ps chunks idx (join_lines g) (group_size g) =
     chunks @ group_chunks t idx (pack (maxChunkSize c) g (map TrimSpace ps))"
proof (induction ps arbitrary: chunks idx g)
  case Nil
  then show ?case by simp
next
  case (Cons p ps)
  let ?p = "TrimSpace p"
  have fresh: "paragraph_loop c t ps cs n (?p @ [newline]) (length ?p + 1) =
      cs @ group_chunks t n (pack (maxChunkSize c) [?p] (map TrimSpace ps))" for cs n
    using Cons.IH[of cs n "[?p]"] by simp
  have grow: "paragraph_loop c t ps cs n (join_lines g @ ?p @ [newline]) (group_size g + length ?p + 1) =
      cs @ group_chunks t n (pack (maxChunkSize c) (g @ [?p]) (map TrimSpace ps))" for cs n
    using Cons.IH[of cs n "g @ [?p]"] by simp
  show ?case
    using Cons.IH[of chunks idx g] fresh[of "chunks @ [\<lparr>tc_Content = TrimSpace (join_lines g), tc_Index = idx, tc_SourceText = t\<rparr>]" "Suc idx"]
      grow[of chunks idx]
    by (auto simp: Let_def)
qed

lemma ChunkByParagraphs_pack:
  "ChunkByParagraphs c t = group_chunks t 0 (pack (maxChunkSize c) [] (map TrimSpace (split_lines t)))"
  using paragraph_loop_pack[of c t "split_lines t" "[]" 0 "[]"] by (simp add: ChunkByParagraphs_def)

lemma concat_pack: "concat (pack mx g ps) = g @ filter (\<lambda>p. p \<noteq> []) ps"
  by (induction mx g ps rule: pack.induct) simp_all

lemma pack_bound:
  assumes "length g \<le> 1 \<or> group_size g \<le> Suc mx"
  shows "list_all (\<lambda>h. h \<noteq> [] \<and> (length h \<le> 1 \<or> group_size h \<le> Suc mx)) (pack mx g ps)"
  using assms by (induction mx g ps rule: pack.induct) auto

lemma pack_hd: "g \<noteq> [] \<Longrightarrow> \<exists>h hs. pack mx g ps = h # hs \<and> hd h = hd g"
  by (induction mx g ps rule: pack.induct) auto

lemma pack_greedy: "successively (\<lambda>g h. group_size g + length (hd h) > mx) (pack mx g ps)"
proof (induction mx g ps rule: pack.induct)
  case (2 mx g p ps)
  obtain h hs where "pack mx [p] ps = h # hs" "hd h = p" using pack_hd[of "[p]" mx ps] by auto
  with 2 show ?case by (auto simp: successively_Cons)
qed simp

text \<open>ChunkByParagraphs packs the trimmed non-empty lines of the text, in order and none lost, greedily into
  groups; the chunks are the trimmed groups, numbered from zero. A group of several lines, with its line breaks, is
  within the maximal chunk size, and the first line of the next group would not have fitted.\<close>

theorem ChunkByParagraphs_groups:
  "\<exists>gs. concat gs = filter (\<lambda>p. p \<noteq> []) (map TrimSpace (split_lines t)) \<and>
        map tc_Content (ChunkByParagraphs c t) = map (\<lambda>g. TrimSpace (join_lines g)) gs \<and>
        map tc_Index (ChunkByParagraphs c t) = [0..<length gs] \<and>
        list_all (\<lambda>g. g \<noteq> [] \<and> (length g \<le> 1 \<or> group_size g - 1 \<le> maxChunkSize c)) gs \<and>
        successively (\<lambda>g h. group_size g + length (hd h) > maxChunkSize c) gs"
proof -
  let ?gs = "pack (maxChunkSize c) [] (map TrimSpace (split_lines t))"
  have "list_all (\<lambda>g. g \<noteq> [] \<and> (length g \<le> 1 \<or> group_size g - 1 \<le> maxChunkSize c)) ?gs"
    using pack_bound[of "[]" "maxChunkSize c" "map TrimSpace (split_lines t)"] by (auto simp: list_all_iff)
  moreover have "concat ?gs = filter (\<lambda>p. p \<noteq> []) (map TrimSpace (split_lines t))" by (simp add: concat_pack)
  ultimately show ?thesis
    using pack_greedy[of "maxChunkSize c" "[]" "map TrimSpace (split_lines t)"] group_chunks_proj[of t 0 ?gs]
    unfolding ChunkByParagraphs_pack by auto
qed

section \<open>The cuts of ChunkBySemanticBreaks\<close>

text \<open>A cut is a piece of the text and the break that follows it; the chunks so far come from the cuts before \<open>start\<close>.\<close>

definition cuts_ok :: "Chunker \<Rightarrow> (string \<times> string) list \<Rightarrow> bool" where
  "cuts_ok c cuts \<longleftrightarrow> list_all (\<lambda>(p, b). b \<in> set breaks \<and> minChunkSize c < length p) cuts"

definition cut_text :: "(string \<times> string) list \<Rightarrow> string" where
  "cut_text cuts = concat (map (\<lambda>(p, b). p @ b) cuts)"

definition cut_chunks :: "string \<Rightarrow> string list \<Rightarrow> TextChunk list" where
  "cut_chunks t ps = map (\<lambda>(i, p). \<lparr>tc_Content = TrimSpace p, tc_Index = i, tc_SourceText = t\<rparr>) (enumerate 0 ps)"

definition break_inv :: "Chunker \<Rightarrow> string \<Rightarrow> nat \<times> TextChunk list \<Rightarrow> bool" where
  "break_inv c t st \<longleftrightarrow> (\<exists>cuts. cuts_ok c cuts \<and> cut_text cuts = take (fst st) t \<and> fst st \<le> length t \<and>
     snd st = cut_chunks t (map fst cuts))"

lemma cut_chunks_snoc:
  "cut_chunks t (ps @ [p]) = cut_chunks t ps @ [\<lparr>tc_Content = TrimSpace p, tc_Index = length ps, tc_SourceText = t\<rparr>]"
  by (simp add: cut_chunks_def enumerate_append_eq)

lemma length_cut_chunks [simp]: "length (cut_chunks t ps) = length ps"
  by (simp add: cut_chunks_def)

lemma break_loop_inv:
  assumes "br \<in> set breaks" and "break_inv c t (start, chunks)"
  shows "break_inv c t (break_loop c t br start chunks)"
  using assms
proof (induction c t br start chunks rule: break_loop.induct)
  case (1 c t br start chunks)
  show ?case
  proof (cases "\<exists>i. str_index (drop start t) br = Some i \<and> i > 0 \<and> i > minChunkSize c")
    case False
    then have "break_loop c t br start chunks = (start, chunks)"
      by (subst break_loop.simps) (auto split: option.split)
    with 1 show ?thesis by simp
  next
    case True
    then obtain i where i: "str_index (drop start t) br = Some i" "i > 0" "i > minChunkSize c" by blast
    from 1(3) obtain cuts where cuts: "cuts_ok c cuts" "cut_text cuts = take start t" "start \<le> length t"
        "chunks = cut_chunks t (map fst cuts)"
      by (auto simp: break_inv_def)
    let ?p = "take i (drop start t)"
    have fits: "i + length br \<le> length (drop start t)" "take (length br) (drop i (drop start t)) = br"
      using str_index_Some[OF i(1)] by auto
    have "cut_text (cuts @ [(?p, br)]) = take start t @ take i (drop start t) @ take (length br) (drop i (drop start t))"
      using cuts(2) fits(2) by (simp add: cut_text_def)
    also have "\<dots> = take (start + i + length br) t" by (metis append.assoc drop_drop add.commute take_add)
    finally have "cut_text (cuts @ [(?p, br)]) = take (start + i + length br) t" .
    moreover have "cuts_ok c (cuts @ [(?p, br)])" using cuts(1) i(3) fits(1) 1(2) by (simp add: cuts_ok_def)
    ultimately have "break_inv c t (start + i + length br,
        chunks @ [\<lparr>tc_Content = TrimSpace ?p, tc_Index = length chunks, tc_SourceText = t\<rparr>])"
      using cuts(3,4) fits(1)
      by (auto simp: break_inv_def cut_chunks_snoc intro!: exI[of _ "cuts @ [(?p, br)]"])
    with 1(1)[OF i(1)] i 1(2) show ?thesis by (subst break_loop.simps) simp
  qed
qed

lemma break_fold_inv:
  assumes "set bs \<subseteq> set breaks" and "break_inv c t st"
  shows "break_inv c t (foldl (\<lambda>(start, chunks) br. break_loop c t br start chunks) st bs)"
  using assms
proof (induction bs arbitrary: st)
  case (Cons b bs)
  then show ?case by (cases st) (simp add: break_loop_inv)
qed simp

text \<open>ChunkBySemanticBreaks loses nothing but the breaks: the text is the pieces of its chunks, in order, each
  followed by one of the breaks, and the last piece; all but the last piece are longer than the minimal size, the chunk
  contents are the trimmed pieces and the indices count from zero.\<close>

theorem ChunkBySemanticBreaks_pieces:
  "\<exists>cuts rest. t = concat (map (\<lambda>(p, b). p @ b) cuts) @ rest \<and>
     list_all (\<lambda>(p, b). b \<in> set breaks \<and> minChunkSize c < length p) cuts \<and>
     ChunkBySemanticBreaks c t = cut_chunks t (map fst cuts @ (if rest = [] then [] else [rest]))"
proof -
  obtain start chunks where fold: "foldl (\<lambda>(start, chunks) br. break_loop c t br start chunks) (0, []) breaks = (start, chunks)"
    by fastforce
  have "break_inv c t (0, [])" by (auto simp: break_inv_def cuts_ok_def cut_text_def cut_chunks_def intro: exI[of _ "[]"])
  from break_fold_inv[OF _ this, of breaks] obtain cuts where cuts: "cuts_ok c cuts" "cut_text cuts = take start t"
      "chunks = cut_chunks t (map fst cuts)" "start \<le> length t"
    by (auto simp: fold break_inv_def)
  have "ChunkBySemanticBreaks c t = cut_chunks t (map fst cuts @ (if drop start t = [] then [] else [drop start t]))"
    using cuts(3,4) by (auto simp: ChunkBySemanticBreaks_def fold cut_chunks_snoc)
  with cuts(1,2) show ?thesis
    by (intro exI[of _ cuts] exI[of _ "drop start t"]) (simp add: cuts_ok_def cut_text_def)
qed

section \<open>SmartChunk\<close>

lemma SmartChunk_short:
  assumes "length t \<le> maxChunkSize c" and "length (ChunkByParagraphs c t) = 1"
  shows "SmartChunk c t = Some (Ret (ChunkBySemanticBreaks c t))"
  using assms by (simp add: SmartChunk_def ChunkText_def Let_def)

lemma ChunkByParagraphs_one_line:
  assumes "newline \<notin> set t" and "TrimSpace t \<noteq> []"
  shows "length (ChunkByParagraphs c t) = 1"
  using assms by (simp add: ChunkByParagraphs_pack split_lines_single)

text \<open>C38: With the default sizes, ChunkText and SmartChunk do not return on an ASCII text of one line, not blank,
  of more than 1000 bytes: the last piece is cut off again with every turn of the loop.\<close>

theorem SmartChunk_does_not_return:
  assumes "ascii t" and "newline \<notin> set t" and "1000 < length t" and "TrimSpace t \<noteq> []"
  shows "ChunkText NewChunker t = None \<and> SmartChunk NewChunker t = None"
  using assms ChunkText_diverges[of t] ChunkByParagraphs_one_line[of t NewChunker]
  by (simp add: SmartChunk_def Let_def)

lemma TrimSpace_no_space:
  assumes "ascii t" and "list_all (\<lambda>c. \<not> is_space (byte c)) t"
  shows "TrimSpace t = t"
proof -
  have none: "\<forall>r \<in> set (map (\<lambda>c. (byte c, 1 :: nat)) t). \<not> is_space (fst r)" using assms(2) by (auto simp: list_all_iff)
  then have "takeWhile (\<lambda>r. is_space (fst r)) (map (\<lambda>c. (byte c, 1 :: nat)) t) = []"
    "takeWhile (\<lambda>r. is_space (fst r)) (rev (dropWhile (\<lambda>r. is_space (fst r)) (map (\<lambda>c. (byte c, 1 :: nat)) t))) = []"
    by (metis list.set_intros(1) takeWhile_eq_Nil_iff list.exhaust_sel hd_in_set,
        metis set_rev takeWhile_eq_Nil_iff hd_in_set set_dropWhileD)
  then show ?thesis using assms(1) by (simp add: TrimSpace_def Let_def runes_ascii del: One_nat_def)
qed

theorem SmartChunk_does_not_return_witness:
  "ChunkText NewChunker (replicate 1001 CHR ''a'') = None \<and> SmartChunk NewChunker (replicate 1001 CHR ''a'') = None"
proof (rule SmartChunk_does_not_return)
  show a: "ascii (replicate 1001 CHR ''a'')" by (simp add: ascii_def list_all_iff byte_def)
  show "TrimSpace (replicate 1001 CHR ''a'') \<noteq> []"
    using TrimSpace_no_space[OF a] by (simp add: list_all_iff byte_def is_space_def)
qed (simp_all add: newline_def)

text \<open>A full stop, exclamation mark or question mark of an ASCII text without line break never ends a
  sentence: splitSentences returns the text as one sentence, and the boundary of a chunk is its end.\<close>

theorem splitSentences_one:
  assumes "ascii t" and "newline \<notin> set t" and "t \<noteq> []"
  shows "splitSentences t = [t] \<and> findChunkBoundary c t start e = e"
  using assms by (simp add: splitSentences_ascii findChunkBoundary_ascii)

theorem splitSentences_one_witness:
  "splitSentences ''Stop. Go! Why? Ok.'' = [''Stop. Go! Why? Ok.''] \<and>
   findChunkBoundary NewChunker ''Stop. Go! Why? Ok.'' 0 5 = 5"
  by (rule splitSentences_one) (simp_all add: byte_def newline_def)

end
