(* ===== verification/State_Graph.thy ===== *)
theory State_Graph
  imports Go_Strings
begin

text \<open>
  The graph runner of the agents, internal/agent/graph/graph.go, and the retry helper beside it,
  retry.go. A graph has named nodes, static edges and conditional edges; Invoke runs the nodes from
  the entry point until the name END is reached.

  A node changes its state value and the world (everything outside the graph: gateways, clocks, the
  context), so a \<open>NodeFunc\<close> is a function of the world and the state to a new world and an outcome;
  \<open>ctxErr\<close> reads the context's error off the world. Edge functions are total. The text of a
  goroutine's stack, which the error of a panicking node quotes, is the argument \<open>stack\<close>.

  Proved: Compile accepts exactly the graphs whose entry point and static edge targets are
  registered, whatever order the map of edges is ranged over; Invoke succeeds exactly when END is
  reached by fewer than MaxSteps steps of the graph's step relation, and then with the state there;
  a panic of a node becomes an error; RetryFn returns the result of the first successful call, waits
  the doubled and capped delays between the calls, and never calls more often than configured.
\<close>

section \<open>Graphs\<close>

definition END :: string where "END = ''__end__''"

type_synonym ('w, 's) NodeFunc = "'w \<Rightarrow> 's \<Rightarrow> 'w \<times> ('s \<times> error option) go"
type_synonym 's EdgeFunc = "'s \<Rightarrow> string"

record ('w, 's) StateGraph =
  g_nodes :: "string \<rightharpoonup> ('w, 's) NodeFunc"
  g_edges :: "string \<rightharpoonup> string"
  g_condEdges :: "string \<rightharpoonup> 's EdgeFunc"
  g_entry :: string

definition NewGraph :: "('w, 's) StateGraph" where
  "NewGraph = \<lparr>g_nodes = Map.empty, g_edges = Map.empty, g_condEdges = Map.empty, g_entry = ''''\<rparr>"

definition AddNode :: "string \<Rightarrow> ('w, 's) NodeFunc \<Rightarrow> ('w, 's) StateGraph \<Rightarrow> ('w, 's) StateGraph" where
  "AddNode name fn g = g\<lparr>g_nodes := (g_nodes g)(name \<mapsto> fn)\<rparr>"

definition AddEdge :: "string \<Rightarrow> string \<Rightarrow> ('w, 's) StateGraph \<Rightarrow> ('w, 's) StateGraph" where
  "AddEdge from to g = g\<lparr>g_edges := (g_edges g)(from \<mapsto> to)\<rparr>"

definition AddConditionalEdge :: "string \<Rightarrow> 's EdgeFunc \<Rightarrow> ('w, 's) StateGraph \<Rightarrow> ('w, 's) StateGraph" where
  "AddConditionalEdge from fn g = g\<lparr>g_condEdges := (g_condEdges g)(from \<mapsto> fn)\<rparr>"

definition SetEntryPoint :: "string \<Rightarrow> ('w, 's) StateGraph \<Rightarrow> ('w, 's) StateGraph" where
  "SetEntryPoint name g = g\<lparr>g_entry := name\<rparr>"

section \<open>Compile\<close>

definition bad_target :: "('w, 's) StateGraph \<Rightarrow> string \<Rightarrow> error option" where
  "bad_target g from =
     (case g_edges g from of
        None \<Rightarrow> None
      | Some to \<Rightarrow>
          if to \<noteq> END \<and> g_nodes g to = None
          then Some (ErrorString (''graph: edge '' @ quoted from @ '' '' @ encode_rune 0x2192 @ '' '' @ quoted to
                 @ '': target node not registered''))
          else None)"

text \<open>The range loop over the edges, in the order \<open>ks\<close> of their sources: the first bad target is reported.\<close>

fun check_edges :: "('w, 's) StateGraph \<Rightarrow> string list \<Rightarrow> error option" where
  "check_edges g [] = None"
| "check_edges g (k # ks) = (case bad_target g k of Some e \<Rightarrow> Some e | None \<Rightarrow> check_edges g ks)"

definition Compile :: "('w, 's) StateGraph \<Rightarrow> string list \<Rightarrow> error + ('w, 's) StateGraph" where
  "Compile g ks =
     (if g_entry g = '''' then Inl (ErrorString ''graph: entry point not set'')
      else if g_nodes g (g_entry g) = None
      then Inl (ErrorString (''graph: entry node '' @ quoted (g_entry g) @ '' not registered''))
      else case check_edges g ks of Some e \<Rightarrow> Inl e | None \<Rightarrow> Inr g)"

section \<open>Invoke\<close>

text \<open>The name of the next node: a conditional edge takes precedence over a static one.\<close>

definition next_node :: "('w, 's) StateGraph \<Rightarrow> string \<Rightarrow> 's \<Rightarrow> string option" where
  "next_node g current state =
     (case g_condEdges g current of
        Some condFn \<Rightarrow> Some (condFn state)
      | None \<Rightarrow> g_edges g current)"

text \<open>The call of a node under recover: a panic keeps the state and becomes an error.\<close>

definition run_node :: "('w, 's) NodeFunc \<Rightarrow> string \<Rightarrow> string \<Rightarrow> 'w \<Rightarrow> 's \<Rightarrow> 'w \<times> ('s \<times> error option) go" where
  "run_node nodeFn stack current w state =
     (case nodeFn w state of
        (w', Ret r) \<Rightarrow> (w', Ret r)
      | (w', Panic m) \<Rightarrow>
          (w', Ret (state, Some (ErrorString (''graph: node '' @ quoted current @ '' panic: '' @ m @ [newline] @ stack))))
      | (w', Deadlock) \<Rightarrow> (w', Deadlock))"

text \<open>One turn of the loop: it returns (\<open>Inl\<close>) or goes on with a new state and node (\<open>Inr\<close>).\<close>

type_synonym ('w, 's) invoke_result = "'w \<times> ('s \<times> error option) go"

definition invoke_body ::
  "('w, 's) StateGraph \<Rightarrow> ('w \<Rightarrow> error option) \<Rightarrow> string \<Rightarrow> 'w \<Rightarrow> 's \<Rightarrow> string
     \<Rightarrow> ('w, 's) invoke_result + ('w \<times> 's \<times> string)" where
  "invoke_body g ctxErr stack w state current =
     (if current = END then Inl (w, Ret (state, None))
      else case ctxErr w of
        Some err \<Rightarrow> Inl (w, Ret (state, Some err))
      | None \<Rightarrow>
          (case g_nodes g current of
             None \<Rightarrow> Inl (w, Ret (state, Some (ErrorString (''graph: node '' @ quoted current @ '' not found''))))
           | Some nodeFn \<Rightarrow>
               (case run_node nodeFn stack current w state of
                  (w', Ret (state', Some err)) \<Rightarrow> Inl (w', Ret (state', Some err))
                | (w', Ret (state', None)) \<Rightarrow>
                    (case next_node g current state' of
                       Some next \<Rightarrow> Inr (w', state', next)
                     | None \<Rightarrow> Inl (w', Ret (state', Some (ErrorString
                         (''graph: no outgoing edge from node '' @ quoted current)))))
                | (w', Panic m) \<Rightarrow> Inl (w', Panic m)
                | (w', Deadlock) \<Rightarrow> Inl (w', Deadlock))))"

definition effective_max :: "int \<Rightarrow> nat" where
  "effective_max m = (if m \<le> 0 then 10 else nat m)"

text \<open>The loop with the number \<open>n\<close> of steps that are left out of \<open>maxSteps\<close>.\<close>

fun invoke_loop ::
  "('w, 's) StateGraph \<Rightarrow> ('w \<Rightarrow> error option) \<Rightarrow> string \<Rightarrow> nat \<Rightarrow> nat \<Rightarrow> 'w \<Rightarrow> 's \<Rightarrow> string \<Rightarrow> ('w, 's) invoke_result" where
  "invoke_loop g ctxErr stack maxSteps 0 w state current =
     (w, Ret (state, Some (ErrorString (''graph: max steps reached: '' @ show_nat maxSteps))))"
| "invoke_loop g ctxErr stack maxSteps (Suc n) w state current =
     (case invoke_body g ctxErr stack w state current of
        Inl r \<Rightarrow> r
      | Inr (w', state', next) \<Rightarrow> invoke_loop g ctxErr stack maxSteps n w' state' next)"

definition Invoke ::
  "('w, 's) StateGraph \<Rightarrow> ('w \<Rightarrow> error option) \<Rightarrow> string \<Rightarrow> 'w \<Rightarrow> 's \<Rightarrow> int \<Rightarrow> ('w, 's) invoke_result" where
  "Invoke g ctxErr stack w initial MaxSteps =
     invoke_loop g ctxErr stack (effective_max MaxSteps) (effective_max MaxSteps) w initial (g_entry g)"

section \<open>RetryFn\<close>

record RetryCfg =
  rc_Attempts :: int
  rc_Base :: int
  rc_Max :: int

definition DefaultRetry :: RetryCfg where
  "DefaultRetry = \<lparr>rc_Attempts = 3, rc_Base = 100 * 10 ^ 6, rc_Max = 10 * 10 ^ 9\<rparr>"

text \<open>
  \<open>fn\<close> is the retried call; \<open>wait w d\<close> is the select between the context and the timer of delay \<open>d\<close>:
  the error of the context when it wins. \<open>zero\<close> is the zero value of the result type. The loop
  takes the index \<open>i\<close>, the number of turns left, the delay and the last error.
\<close>

definition next_delay :: "RetryCfg \<Rightarrow> int \<Rightarrow> int" where
  "next_delay cfg delay = (let d = wrap64 (delay * 2) in if d > rc_Max cfg then rc_Max cfg else d)"

fun retry_loop ::
  "RetryCfg \<Rightarrow> 'a \<Rightarrow> ('w \<Rightarrow> 'w \<times> ('a \<times> error option) go) \<Rightarrow> ('w \<Rightarrow> int \<Rightarrow> 'w \<times> error option)
     \<Rightarrow> nat \<Rightarrow> int \<Rightarrow> error option \<Rightarrow> 'w \<Rightarrow> 'w \<times> ('a \<times> error option) go" where
  "retry_loop cfg zero fn wait 0 delay lastErr w = (w, Ret (zero, lastErr))"
| "retry_loop cfg zero fn wait (Suc n) delay lastErr w =
     (case fn w of
        (w1, Ret (result, None)) \<Rightarrow> (w1, Ret (result, None))
      | (w1, Ret (result, Some err)) \<Rightarrow>
          (if n > 0
           then (case wait w1 delay of
                   (w2, Some cerr) \<Rightarrow> (w2, Ret (zero, Some (Joined err cerr)))
                 | (w2, None) \<Rightarrow> retry_loop cfg zero fn wait n (next_delay cfg delay) (Some err) w2)
           else retry_loop cfg zero fn wait n delay (Some err) w1)
      | (w1, Panic m) \<Rightarrow> (w1, Panic m)
      | (w1, Deadlock) \<Rightarrow> (w1, Deadlock))"

definition RetryFn ::
  "RetryCfg \<Rightarrow> 'a \<Rightarrow> ('w \<Rightarrow> 'w \<times> ('a \<times> error option) go) \<Rightarrow> ('w \<Rightarrow> int \<Rightarrow> 'w \<times> error option)
     \<Rightarrow> ('w \<Rightarrow> error option) \<Rightarrow> 'w \<Rightarrow> 'w \<times> ('a \<times> error option) go" where
  "RetryFn cfg zero fn wait ctxErr w =
     (case ctxErr w of
        Some err \<Rightarrow> (w, Ret (zero, Some err))
      | None \<Rightarrow> retry_loop cfg zero fn wait (nat (rc_Attempts cfg)) (rc_Base cfg) None w)"

section \<open>Compile accepts the well-formed graphs\<close>

definition graph_ok :: "('w, 's) StateGraph \<Rightarrow> bool" where
  "graph_ok g \<longleftrightarrow> g_entry g \<noteq> '''' \<and> g_entry g \<in> dom (g_nodes g) \<and> ran (g_edges g) \<subseteq> insert END (dom (g_nodes g))"

lemma check_edges_None: "check_edges g ks = None \<longleftrightarrow> list_all (\<lambda>k. bad_target g k = None) ks"
  by (induction ks) (auto split: option.split)

lemma ranges_check_edges:
  assumes "ranges (g_edges g) ks"
  shows "check_edges g ks = None \<longleftrightarrow> ran (g_edges g) \<subseteq> insert END (dom (g_nodes g))"
proof -
  have "check_edges g ks = None \<longleftrightarrow> (\<forall>k \<in> dom (g_edges g). bad_target g k = None)"
    using assms by (simp add: check_edges_None list_all_iff ranges_def)
  also have "\<dots> \<longleftrightarrow> ran (g_edges g) \<subseteq> insert END (dom (g_nodes g))"
    by (fastforce simp: bad_target_def ran_def subset_iff dom_def split: option.splits if_splits)
  finally show ?thesis .
qed

text \<open>Compile accepts a graph exactly when its entry point is set and registered and every static edge leads to
  a registered node or to END; otherwise it returns an error. This does not depend on the order of the range loop.\<close>

theorem Compile_iff:
  assumes "ranges (g_edges g) ks"
  shows "(Compile g ks = Inr g \<longleftrightarrow> graph_ok g) \<and> ((\<exists>e. Compile g ks = Inl e) \<longleftrightarrow> \<not> graph_ok g)"
  using ranges_check_edges[OF assms] by (auto simp: Compile_def graph_ok_def split: option.splits)

definition demo_graph :: "(nat, nat) StateGraph" where
  "demo_graph = SetEntryPoint ''a'' (AddEdge ''a'' END (AddNode ''a'' (\<lambda>w s. (Suc w, Ret (Suc s, None))) NewGraph))"

lemmas graph_defs = NewGraph_def AddNode_def AddEdge_def AddConditionalEdge_def SetEntryPoint_def

theorem Compile_iff_witness:
  "(Compile demo_graph [''a''] = Inr demo_graph \<longleftrightarrow> graph_ok demo_graph) \<and>
   ((\<exists>e. Compile demo_graph [''a''] = Inl e) \<longleftrightarrow> \<not> graph_ok demo_graph)"
  by (rule Compile_iff) (auto simp: ranges_def demo_graph_def graph_defs)

section \<open>The step relation of a graph\<close>

type_synonym ('w, 's) config = "'w \<times> 's \<times> string"

inductive gstep :: "('w, 's) StateGraph \<Rightarrow> ('w \<Rightarrow> error option) \<Rightarrow> ('w, 's) config \<Rightarrow> ('w, 's) config \<Rightarrow> bool"
  for g :: "('w, 's) StateGraph" and ctxErr :: "'w \<Rightarrow> error option" where
  visit: "current \<noteq> END \<Longrightarrow> ctxErr w = None \<Longrightarrow> g_nodes g current = Some nodeFn \<Longrightarrow>
    nodeFn w s = (w', Ret (s', None)) \<Longrightarrow> next_node g current s' = Some next \<Longrightarrow>
    gstep g ctxErr (w, s, current) (w', s', next)"

inductive_cases gstepE [elim!]: "gstep g ctxErr (w, s, current) c"

inductive_simps gstep_END [simp]: "gstep g ctxErr (w, s, END) c"

lemma invoke_body_step: "invoke_body g ctxErr stack w s current = Inr c \<longleftrightarrow> gstep g ctxErr (w, s, current) c"
proof
  assume "invoke_body g ctxErr stack w s current = Inr c"
  then show "gstep g ctxErr (w, s, current) c"
    by (auto simp: invoke_body_def run_node_def intro: gstep.visit split: if_splits option.splits go.splits prod.splits)
next
  assume "gstep g ctxErr (w, s, current) c"
  then show "invoke_body g ctxErr stack w s current = Inr c"
    by (elim gstepE) (simp add: invoke_body_def run_node_def)
qed

text \<open>A run of the loop: some steps of the relation, then a turn that returns, or all steps are used up.\<close>

lemma invoke_loop_trace:
  "(\<exists>k < n. \<exists>w' s' cur'. (gstep g ctxErr ^^ k) (w, s, cur) (w', s', cur') \<and>
      invoke_body g ctxErr stack w' s' cur' = Inl (invoke_loop g ctxErr stack m n w s cur)) \<or>
   (\<exists>w' s' cur'. (gstep g ctxErr ^^ n) (w, s, cur) (w', s', cur') \<and>
      invoke_loop g ctxErr stack m n w s cur = invoke_loop g ctxErr stack m 0 w' s' cur')"
proof (induction n arbitrary: w s cur)
  case 0
  then show ?case by auto
next
  case (Suc n)
  show ?case
  proof (cases "invoke_body g ctxErr stack w s cur")
    case (Inl r)
    then show ?thesis by (intro disjI1 exI[of _ 0]) auto
  next
    case (Inr c)
    obtain w1 s1 cur1 where c: "c = (w1, s1, cur1)" by (cases c)
    have step: "gstep g ctxErr (w, s, cur) (w1, s1, cur1)" using Inr c invoke_body_step by metis
    have "invoke_loop g ctxErr stack m (Suc n) w s cur = invoke_loop g ctxErr stack m n w1 s1 cur1" using Inr c by simp
    moreover have "(gstep g ctxErr ^^ k) (w1, s1, cur1) c' \<Longrightarrow> (gstep g ctxErr ^^ Suc k) (w, s, cur) c'" for k c'
      using step by (rule relpowp_Suc_I2)
    ultimately show ?thesis using Suc.IH[of w1 s1 cur1] by (metis Suc_mono)
  qed
qed

lemma invoke_loop_steps:
  assumes "(gstep g ctxErr ^^ k) (w, s, cur) (w', s', cur')"
  shows "invoke_loop g ctxErr stack m (k + n) w s cur = invoke_loop g ctxErr stack m n w' s' cur'"
  using assms
proof (induction k arbitrary: w s cur)
  case (Suc k)
  then obtain w1 s1 cur1 where step: "gstep g ctxErr (w, s, cur) (w1, s1, cur1)"
    and rest: "(gstep g ctxErr ^^ k) (w1, s1, cur1) (w', s', cur')"
    by (metis prod_cases3 relpowp_Suc_D2)
  have "invoke_body g ctxErr stack w s cur = Inr (w1, s1, cur1)" using step invoke_body_step by metis
  with Suc.IH[OF rest] show ?case by simp
qed simp

lemma invoke_body_success:
  "invoke_body g ctxErr stack w s cur = Inl (w', Ret (s', None)) \<longleftrightarrow> cur = END \<and> w' = w \<and> s' = s"
  by (auto simp: invoke_body_def run_node_def split: if_splits option.splits go.splits prod.splits)

lemma Invoke_reaches_END:
  "Invoke g ctxErr stack w s MaxSteps = (w', Ret (s', None)) \<longleftrightarrow>
     (\<exists>n < effective_max MaxSteps. (gstep g ctxErr ^^ n) (w, s, g_entry g) (w', s', END))"
proof
  assume "Invoke g ctxErr stack w s MaxSteps = (w', Ret (s', None))"
  with invoke_loop_trace[of "effective_max MaxSteps" g ctxErr w s "g_entry g" stack "effective_max MaxSteps"]
  show "\<exists>n < effective_max MaxSteps. (gstep g ctxErr ^^ n) (w, s, g_entry g) (w', s', END)"
    by (auto simp: Invoke_def invoke_body_success)
next
  assume "\<exists>n < effective_max MaxSteps. (gstep g ctxErr ^^ n) (w, s, g_entry g) (w', s', END)"
  then obtain n k where n: "(gstep g ctxErr ^^ n) (w, s, g_entry g) (w', s', END)" "effective_max MaxSteps = n + Suc k"
    by (metis less_iff_Suc_add add_Suc_right)
  show "Invoke g ctxErr stack w s MaxSteps = (w', Ret (s', None))"
    unfolding Invoke_def using invoke_loop_steps[OF n(1), of stack "effective_max MaxSteps" "Suc k"]
    by (simp add: n(2) invoke_body_def)
qed

text \<open>C4: Invoke returns without error exactly when END is reached from the entry point by fewer than MaxSteps
  steps (10 when MaxSteps is not positive), and then with the state and world reached. A run whose last permitted step
  leads to END is not a success.\<close>

theorem Invoke_success_iff:
  "Invoke g ctxErr stack w s MaxSteps = (w', Ret (s', None)) \<longleftrightarrow>
     (\<exists>n < effective_max MaxSteps. (gstep g ctxErr ^^ n) (w, s, g_entry g) (w', s', END))"
  by (rule Invoke_reaches_END)

section \<open>Graphs without dead ends\<close>

text \<open>Every node leads somewhere, and every edge, conditional ones included, to a node or to END.\<close>

definition closed_graph :: "('w, 's) StateGraph \<Rightarrow> bool" where
  "closed_graph g \<longleftrightarrow> g_entry g \<in> dom (g_nodes g) \<and>
     (\<forall>a \<in> dom (g_nodes g). \<forall>s. \<exists>b. next_node g a s = Some b \<and> b \<in> insert END (dom (g_nodes g)))"

text \<open>The errors of a run that stops in \<open>(w, s, a)\<close>: the context's, the node's own, or that of its panic.\<close>

definition node_failure :: "('w, 's) StateGraph \<Rightarrow> ('w \<Rightarrow> error option) \<Rightarrow> string \<Rightarrow> 'w \<Rightarrow> 's \<Rightarrow> string \<Rightarrow> ('w, 's) invoke_result \<Rightarrow> bool" where
  "node_failure g ctxErr stack w s a r \<longleftrightarrow>
     (\<exists>f. a \<noteq> END \<and> g_nodes g a = Some f \<and>
        ((\<exists>e. ctxErr w = Some e \<and> r = (w, Ret (s, Some e))) \<or>
         (\<exists>w' s' e. ctxErr w = None \<and> f w s = (w', Ret (s', Some e)) \<and> r = (w', Ret (s', Some e))) \<or>
         (\<exists>w' m. ctxErr w = None \<and> f w s = (w', Panic m) \<and>
            r = (w', Ret (s, Some (ErrorString (''graph: node '' @ quoted a @ '' panic: '' @ m @ [newline] @ stack))))) \<or>
         (\<exists>w'. ctxErr w = None \<and> f w s = (w', Deadlock) \<and> r = (w', Deadlock))))"

lemma closed_steps:
  assumes "closed_graph g" and "(gstep g ctxErr ^^ n) (w, s, a) (w', s', a')" and "a \<in> insert END (dom (g_nodes g))"
  shows "a' \<in> insert END (dom (g_nodes g))"
  using assms(2,3)
proof (induction n arbitrary: w s a)
  case (Suc n)
  then obtain w1 s1 a1 where step: "gstep g ctxErr (w, s, a) (w1, s1, a1)"
    and rest: "(gstep g ctxErr ^^ n) (w1, s1, a1) (w', s', a')"
    by (metis prod_cases3 relpowp_Suc_D2)
  from step obtain f where "g_nodes g a = Some f" "next_node g a s1 = Some a1" by (elim gstepE) blast
  with assms(1) have "a1 \<in> insert END (dom (g_nodes g))"
    by (metis closed_graph_def domI option.inject)
  with Suc.IH[OF rest] show ?case .
qed simp

lemma closed_body_failure:
  assumes "closed_graph g" and "a \<in> dom (g_nodes g)" and "a \<noteq> END" and "invoke_body g ctxErr stack w s a = Inl r"
  shows "node_failure g ctxErr stack w s a r"
proof -
  from assms(2) obtain f where f: "g_nodes g a = Some f" by auto
  have nx: "\<exists>b. next_node g a s1 = Some b" for s1 using assms(1,2) by (auto simp: closed_graph_def)
  obtain w1 o1 where fw: "f w s = (w1, o1)" by (cases "f w s")
  show ?thesis
  proof (cases "ctxErr w")
    case None
    then show ?thesis
    proof (cases o1)
      case (Ret r1)
      obtain s1 e1 where r1: "r1 = (s1, e1)" by (cases r1)
      from nx[of s1] obtain b where "next_node g a s1 = Some b" ..
      with Ret r1 None assms(3,4) f fw show ?thesis
        by (cases e1) (auto simp: invoke_body_def run_node_def node_failure_def)
    qed (use None assms(3,4) f fw in \<open>auto simp: invoke_body_def run_node_def node_failure_def\<close>)
  qed (use assms(3,4) f in \<open>auto simp: invoke_body_def node_failure_def\<close>)
qed

text \<open>C37: A run of a graph without dead ends ends in one of three ways: in END; in a node whose context has ended,
  that fails, that panics (the state is then the one before the node) or that blocks; or after exactly MaxSteps node
  runs with the max-steps error. It never reports a missing node or edge.\<close>

theorem Invoke_closed_outcome:
  assumes "closed_graph g"
  shows "\<exists>n w' s' a. (gstep g ctxErr ^^ n) (w, s, g_entry g) (w', s', a) \<and>
     (n < effective_max MaxSteps \<and> a = END \<and> Invoke g ctxErr stack w s MaxSteps = (w', Ret (s', None)) \<or>
      n < effective_max MaxSteps \<and> node_failure g ctxErr stack w' s' a (Invoke g ctxErr stack w s MaxSteps) \<or>
      n = effective_max MaxSteps \<and> Invoke g ctxErr stack w s MaxSteps =
        (w', Ret (s', Some (ErrorString (''graph: max steps reached: '' @ show_nat (effective_max MaxSteps))))))"
  using invoke_loop_trace[of "effective_max MaxSteps" g ctxErr w s "g_entry g" stack "effective_max MaxSteps"]
proof (elim disjE exE conjE)
  fix k w' s' a
  assume k: "k < effective_max MaxSteps" "(gstep g ctxErr ^^ k) (w, s, g_entry g) (w', s', a)"
    and body: "invoke_body g ctxErr stack w' s' a =
      Inl (invoke_loop g ctxErr stack (effective_max MaxSteps) (effective_max MaxSteps) w s (g_entry g))"
  have "a \<in> insert END (dom (g_nodes g))"
    using closed_steps[OF assms k(2)] assms by (auto simp: closed_graph_def)
  then show ?thesis
  proof (cases "a = END")
    case True
    with body have "Invoke g ctxErr stack w s MaxSteps = (w', Ret (s', None))"
      by (simp add: Invoke_def invoke_body_def)
    with k True show ?thesis by blast
  next
    case False
    with \<open>a \<in> _\<close> have "node_failure g ctxErr stack w' s' a (Invoke g ctxErr stack w s MaxSteps)"
      using closed_body_failure[OF assms _ False body] by (simp add: Invoke_def)
    with k show ?thesis by blast
  qed
qed (auto simp: Invoke_def)

theorem Invoke_closed_outcome_witness:
  "\<exists>n w' s' a. (gstep demo_graph (\<lambda>w. None) ^^ n) (0, 5, g_entry demo_graph) (w', s', a) \<and>
     (n < effective_max 1 \<and> a = END \<and> Invoke demo_graph (\<lambda>w. None) [] 0 5 1 = (w', Ret (s', None)) \<or>
      n < effective_max 1 \<and> node_failure demo_graph (\<lambda>w. None) [] w' s' a (Invoke demo_graph (\<lambda>w. None) [] 0 5 1) \<or>
      n = effective_max 1 \<and> Invoke demo_graph (\<lambda>w. None) [] 0 5 1 =
        (w', Ret (s', Some (ErrorString (''graph: max steps reached: '' @ show_nat (effective_max 1))))))"
  by (rule Invoke_closed_outcome) (simp add: closed_graph_def demo_graph_def graph_defs next_node_def)

section \<open>Retries\<close>

text \<open>A failed call followed by a wait that the timer ends; the delay grows for the next one.\<close>

inductive rstep ::
  "RetryCfg \<Rightarrow> ('w \<Rightarrow> 'w \<times> ('a \<times> error option) go) \<Rightarrow> ('w \<Rightarrow> int \<Rightarrow> 'w \<times> error option) \<Rightarrow> 'w \<times> int \<Rightarrow> 'w \<times> int \<Rightarrow> bool"
  for cfg :: RetryCfg and fn :: "'w \<Rightarrow> 'w \<times> ('a \<times> error option) go" and wait :: "'w \<Rightarrow> int \<Rightarrow> 'w \<times> error option" where
  fail: "fn w = (w1, Ret (x, Some e)) \<Longrightarrow> wait w1 d = (w2, None) \<Longrightarrow> rstep cfg fn wait (w, d) (w2, next_delay cfg d)"

inductive_simps rstep_simps: "rstep cfg fn wait (w, d) c"

lemma retry_loop_success:
  "retry_loop cfg zero fn wait (Suc n) d le w = (w', Ret (x, None)) \<longleftrightarrow>
     (\<exists>k \<le> n. \<exists>w1 d1. (rstep cfg fn wait ^^ k) (w, d) (w1, d1) \<and> fn w1 = (w', Ret (x, None)))"
proof (induction n arbitrary: w d le)
  case 0
  then show ?case by (auto split: prod.splits go.splits option.splits)
next
  case (Suc n)
  let ?R = "rstep cfg fn wait"
  have split: "(\<exists>k \<le> Suc n. \<exists>w1 d1. (?R ^^ k) (w, d) (w1, d1) \<and> fn w1 = (w', Ret (x, None))) \<longleftrightarrow>
      fn w = (w', Ret (x, None)) \<or>
      (\<exists>w2 d2. ?R (w, d) (w2, d2) \<and> (\<exists>k \<le> n. \<exists>w1 d1. (?R ^^ k) (w2, d2) (w1, d1) \<and> fn w1 = (w', Ret (x, None))))"
    (is "?L \<longleftrightarrow> ?N \<or> ?S")
  proof
    assume ?L
    then obtain k w1 d1 where k: "k \<le> Suc n" "(?R ^^ k) (w, d) (w1, d1)" "fn w1 = (w', Ret (x, None))" by blast
    show "?N \<or> ?S"
    proof (cases k)
      case (Suc j)
      with k(2) obtain w2 d2 where "?R (w, d) (w2, d2)" "(?R ^^ j) (w2, d2) (w1, d1)"
        by (metis prod.exhaust relpowp_Suc_D2)
      with k Suc show ?thesis by (metis Suc_le_mono)
    qed (use k in auto)
  next
    assume "?N \<or> ?S"
    then show ?L
    proof
      assume ?S
      then obtain w2 d2 k w1 d1 where "?R (w, d) (w2, d2)" "k \<le> n" "(?R ^^ k) (w2, d2) (w1, d1)" "fn w1 = (w', Ret (x, None))"
        by blast
      then show ?L by (meson Suc_le_mono relpowp_Suc_I2)
    qed (rule exI[of _ 0], auto)
  qed
  have rs: "(\<exists>w2 d2. ?R (w, d) (w2, d2) \<and> P w2 d2) \<longleftrightarrow>
      (\<exists>w1 y e w2. fn w = (w1, Ret (y, Some e)) \<and> wait w1 d = (w2, None) \<and> P w2 (next_delay cfg d))" for P
    by (auto simp: rstep_simps)
  have "retry_loop cfg zero fn wait (Suc (Suc n)) d le w = (w', Ret (x, None)) \<longleftrightarrow>
      fn w = (w', Ret (x, None)) \<or> (\<exists>w1 y e w2. fn w = (w1, Ret (y, Some e)) \<and> wait w1 d = (w2, None) \<and>
        retry_loop cfg zero fn wait (Suc n) (next_delay cfg d) (Some e) w2 = (w', Ret (x, None)))"
    by (subst retry_loop.simps(2)) (auto simp del: retry_loop.simps split: prod.splits go.splits option.splits)
  then show ?case unfolding split Suc.IH rs .
qed

lemma next_delay_capped:
  assumes "0 < d" and "d \<le> rc_Max cfg" and "rc_Max cfg < 2 ^ 62"
  shows "next_delay cfg d = min (rc_Max cfg) (d * 2)"
  using assms by (simp add: next_delay_def Let_def min_def)

lemma rstep_delay:
  assumes "(rstep cfg fn wait ^^ k) (w, rc_Base cfg) (w', d)"
    and "0 < rc_Base cfg" and "rc_Base cfg \<le> rc_Max cfg" and "rc_Max cfg < 2 ^ 62"
  shows "d = min (rc_Max cfg) (rc_Base cfg * 2 ^ k)"
  using assms(1)
proof (induction k arbitrary: w' d)
  case 0
  then show ?case using assms(3) by simp
next
  case (Suc k)
  then obtain w1 d1 where "(rstep cfg fn wait ^^ k) (w, rc_Base cfg) (w1, d1)" and step: "rstep cfg fn wait (w1, d1) (w', d)"
    by (metis prod.exhaust relpowp_Suc_E)
  from Suc.IH[OF this(1)] have d1: "d1 = min (rc_Max cfg) (rc_Base cfg * 2 ^ k)" .
  have "0 < d1" "d1 \<le> rc_Max cfg" using assms(2,3) by (simp_all add: d1)
  moreover have "d = next_delay cfg d1" using step by (auto simp: rstep_simps)
  ultimately have "d = min (rc_Max cfg) (d1 * 2)" using next_delay_capped assms(4) by blast
  moreover have "min m (min m x * 2) = min m (x * 2)" if "0 < m" for m x :: int using that by (simp add: min_def)
  ultimately show ?case using assms(2,3) by (simp add: d1 mult.assoc mult.commute[of 2])
qed

text \<open>RetryFn, called with a live context, returns a result without error exactly when one of its first
  Attempts calls succeeds after only failed calls and completed waits, and then that result; the wait after the
  \<open>k\<close>-th failure is the base delay doubled \<open>k\<close> times, capped by the maximum.\<close>

theorem RetryFn_first_success:
  assumes "ctxErr w = None" and "0 < rc_Attempts cfg"
    and "0 < rc_Base cfg" and "rc_Base cfg \<le> rc_Max cfg" and "rc_Max cfg < 2 ^ 62"
  shows "RetryFn cfg zero fn wait ctxErr w = (w', Ret (x, None)) \<longleftrightarrow>
     (\<exists>k < nat (rc_Attempts cfg). \<exists>w1.
        (rstep cfg fn wait ^^ k) (w, rc_Base cfg) (w1, min (rc_Max cfg) (rc_Base cfg * 2 ^ k)) \<and>
        fn w1 = (w', Ret (x, None)))"
proof -
  obtain n where n: "nat (rc_Attempts cfg) = Suc n" using assms(2) by (metis gr0_conv_Suc zero_less_nat_eq)
  show ?thesis
    unfolding RetryFn_def assms(1) option.case n retry_loop_success less_Suc_eq_le
    using rstep_delay[OF _ assms(3-5)] by metis
qed

theorem RetryFn_first_success_witness:
  "RetryFn DefaultRetry (0 :: nat) (\<lambda>w. (Suc w, Ret (7, if w < 2 then Some (ErrorString ''busy'') else None)))
       (\<lambda>w d. (w, None)) (\<lambda>w. None) (0 :: nat) = (3, Ret (7, None)) \<longleftrightarrow>
     (\<exists>k < nat (rc_Attempts DefaultRetry). \<exists>w1.
        (rstep DefaultRetry (\<lambda>w. (Suc w, Ret (7 :: nat, if w < 2 then Some (ErrorString ''busy'') else None)))
           (\<lambda>w d. (w, None)) ^^ k) (0, rc_Base DefaultRetry)
           (w1, min (rc_Max DefaultRetry) (rc_Base DefaultRetry * 2 ^ k)) \<and>
        (Suc w1, Ret (7 :: nat, if w1 < 2 then Some (ErrorString ''busy'') else None)) = (3, Ret (7, None)))"
  by (rule RetryFn_first_success) (simp_all add: DefaultRetry_def)

text \<open>RetryFn with no attempts reports success: it returns the zero value and no error without having
  called the function at all.\<close>

theorem RetryFn_no_attempts:
  assumes "rc_Attempts cfg \<le> 0" and "ctxErr w = None"
  shows "RetryFn cfg zero fn wait ctxErr w = (w, Ret (zero, None))"
  using assms by (simp add: RetryFn_def)

theorem RetryFn_no_attempts_witness:
  "RetryFn \<lparr>rc_Attempts = 0, rc_Base = 1, rc_Max = 1\<rparr> (0 :: nat) (\<lambda>w. (Suc w, Ret (1, Some (ErrorString ''down''))))
     (\<lambda>w d. (w, None)) (\<lambda>w. None) (4 :: nat) = (4, Ret (0, None))"
  by (rule RetryFn_no_attempts) simp_all

end
