(* ===== verification/LLM_Gateway.thy ===== *)
theory LLM_Gateway
  imports Go_Strings "HOL-Library.Char_ord" "HOL-Library.List_Lexorder" "HOL-Library.Multiset"
begin

text \<open>
  The LLM gateway, internal/llmgateway/gateway.go, and the per-tenant cache of gateways,
  tenant_cache.go. A gateway picks the client of a provider by the prefix of the model name and
  reports metrics. Clients are services: a client is a record of functions of the world, and the
  optional streaming interface is an optional field. The metrics of a call are the list of events
  it reports; elapsed times are not part of the events. The token callback changes the world.

  Proved: which client a request reaches and that every request reports exactly one request event
  whose status is that of its result; that streaming delivers the same response as the fallback;
  that ListChatModels is sorted and independent of the order of the range loop; and that the tenant
  cache is a keyed store as long as entries have not expired, and forgets an expired entry.
\<close>

section \<open>Requests and responses\<close>

type_synonym ModelProvider = string

definition ProviderQwen :: ModelProvider where "ProviderQwen = ''qwen''"
definition ProviderZhipu :: ModelProvider where "ProviderZhipu = ''zhipu''"

type_synonym json_object = "(string \<times> gval) list option"

record ToolFunction =
  tf_Name :: string
  tf_Description :: string
  tf_Parameters :: json_object

record Tool =
  tl_Type :: string
  tl_Function :: ToolFunction

record GWToolCall =
  gtc_ID :: string
  gtc_Type :: string
  gtc_Name :: string
  gtc_Arguments :: string

record GWMessage =
  gm_Role :: string
  gm_Content :: string
  gm_ToolCalls :: "GWToolCall list"
  gm_ToolCallID :: string

record CompletionRequest =
  cr_Model :: string
  cr_Messages :: "GWMessage list"
  cr_Temperature :: rat
  cr_MaxTokens :: int
  cr_TopP :: rat
  cr_Tools :: "Tool list"
  cr_ToolChoice :: string
  cr_Stream :: bool

record CompletionResponse =
  cp_Content :: string
  cp_Model :: string
  cp_ToolCalls :: "GWToolCall list"
  cp_PromptTokens :: int
  cp_CompletionTokens :: int
  cp_TotalTokens :: int

section \<open>Clients and the gateway\<close>

type_synonym 'w completer = "'w \<Rightarrow> CompletionRequest \<Rightarrow> 'w \<times> (CompletionResponse option \<times> error option) go"
type_synonym 'w token_callback = "'w \<Rightarrow> string \<Rightarrow> 'w"

record 'w LLMClient =
  cl_Complete :: "'w completer"
  cl_CompleteStream :: "('w token_callback \<Rightarrow> 'w completer) option"
  cl_Health :: "'w \<Rightarrow> 'w \<times> error option"
  cl_Models :: "string list"

record EmbeddingRequest =
  er_Input :: "string list"
  er_Model :: string

type_synonym 'w embedder = "'w \<Rightarrow> EmbeddingRequest \<Rightarrow> 'w \<times> (rat list list option \<times> error option) go"

record 'w Gateway =
  gw_clients :: "ModelProvider \<rightharpoonup> 'w LLMClient"
  gw_embeddingClients :: "ModelProvider \<rightharpoonup> 'w embedder"
  gw_defaultProvider :: ModelProvider

definition NewGateway :: "'w Gateway" where
  "NewGateway = \<lparr>gw_clients = Map.empty, gw_embeddingClients = Map.empty, gw_defaultProvider = ''''\<rparr>"

definition RegisterClient :: "ModelProvider \<Rightarrow> 'w LLMClient \<Rightarrow> 'w Gateway \<Rightarrow> 'w Gateway" where
  "RegisterClient provider client g = g\<lparr>gw_clients := (gw_clients g)(provider \<mapsto> client)\<rparr>"

definition RegisterEmbeddingClient :: "ModelProvider \<Rightarrow> 'w embedder \<Rightarrow> 'w Gateway \<Rightarrow> 'w Gateway" where
  "RegisterEmbeddingClient provider client g = g\<lparr>gw_embeddingClients := (gw_embeddingClients g)(provider \<mapsto> client)\<rparr>"

definition SetDefault :: "ModelProvider \<Rightarrow> 'w Gateway \<Rightarrow> 'w Gateway" where
  "SetDefault provider g = g\<lparr>gw_defaultProvider := provider\<rparr>"

definition HasPrefix :: "string \<Rightarrow> string \<Rightarrow> bool" where
  "HasPrefix s p \<longleftrightarrow> take (length p) s = p"

definition parseProvider :: "'w Gateway \<Rightarrow> string \<Rightarrow> ModelProvider" where
  "parseProvider g model =
     (if HasPrefix model ''text-embedding-v3'' \<or> HasPrefix model ''qwen-'' then ProviderQwen
      else if HasPrefix model ''embedding-3'' \<or> HasPrefix model ''glm-'' then ProviderZhipu
      else gw_defaultProvider g)"

section \<open>Complete and CompleteStream\<close>

datatype metric =
    LLMRequest string ModelProvider string
  | LLMDuration string ModelProvider
  | LLMTokenUsage string string int
  | LLMTokenHistogram string string int

definition status_of :: "error option \<Rightarrow> string" where
  "status_of err = (if err \<noteq> None then ''error'' else ''success'')"

definition token_metrics :: "bool \<Rightarrow> string \<Rightarrow> CompletionResponse option \<Rightarrow> error option \<Rightarrow> metric list" where
  "token_metrics histogram model resp err =
     (case (resp, err) of
        (Some r, None) \<Rightarrow>
          (if cp_PromptTokens r > 0
           then LLMTokenUsage model ''prompt'' (cp_PromptTokens r) #
                (if histogram then [LLMTokenHistogram model ''prompt'' (cp_PromptTokens r)] else []) else []) @
          (if cp_CompletionTokens r > 0
           then LLMTokenUsage model ''completion'' (cp_CompletionTokens r) #
                (if histogram then [LLMTokenHistogram model ''completion'' (cp_CompletionTokens r)] else []) else [])
      | _ \<Rightarrow> [])"

text \<open>The metrics after the client has answered; a panic leaves before them.\<close>

definition report ::
  "bool \<Rightarrow> string \<Rightarrow> ModelProvider \<Rightarrow> 'w \<times> (CompletionResponse option \<times> error option) go
     \<Rightarrow> metric list \<times> 'w \<times> (CompletionResponse option \<times> error option) go" where
  "report histogram model provider r =
     (case r of
        (w', Ret (resp, err)) \<Rightarrow>
          (LLMRequest model provider (status_of err) # LLMDuration model provider # token_metrics histogram model resp err,
           w', Ret (resp, err))
      | (w', Panic m) \<Rightarrow> ([], w', Panic m)
      | (w', Deadlock) \<Rightarrow> ([], w', Deadlock))"

definition complete_provider :: "'w Gateway \<Rightarrow> CompletionRequest \<Rightarrow> ModelProvider" where
  "complete_provider g req = (if cr_Model req \<noteq> '''' then parseProvider g (cr_Model req) else gw_defaultProvider g)"

definition Complete ::
  "'w Gateway \<Rightarrow> 'w \<Rightarrow> CompletionRequest \<Rightarrow> metric list \<times> 'w \<times> (CompletionResponse option \<times> error option) go" where
  "Complete g w req =
     (let provider = complete_provider g req
      in case gw_clients g provider of
           None \<Rightarrow> ([LLMRequest (cr_Model req) provider ''error''], w,
                    Ret (None, Some (ErrorString (''provider not found: '' @ provider))))
         | Some client \<Rightarrow> report True (cr_Model req) provider (cl_Complete client w req))"

text \<open>The client's own streaming, or its Complete with the whole content as one token.\<close>

definition stream_call :: "'w LLMClient \<Rightarrow> 'w token_callback \<Rightarrow> 'w completer" where
  "stream_call client onToken w req =
     (case cl_CompleteStream client of
        Some cs \<Rightarrow> cs onToken w req
      | None \<Rightarrow>
          (case cl_Complete client w req of
             (w', Ret (Some resp, None)) \<Rightarrow> (onToken w' (cp_Content resp), Ret (Some resp, None))
           | r \<Rightarrow> r))"

definition CompleteStream ::
  "'w Gateway \<Rightarrow> 'w token_callback \<Rightarrow> 'w \<Rightarrow> CompletionRequest
     \<Rightarrow> metric list \<times> 'w \<times> (CompletionResponse option \<times> error option) go" where
  "CompleteStream g onToken w req =
     (let provider = parseProvider g (cr_Model req)
      in case gw_clients g provider of
           None \<Rightarrow> ([LLMRequest (cr_Model req) provider ''error''], w,
                    Ret (None, Some (ErrorString (''llmgateway: no client for provider '' @ quoted provider))))
         | Some client \<Rightarrow> report False (cr_Model req) provider (stream_call client onToken w req))"

section \<open>Embeddings, health and models\<close>

definition CreateEmbeddings :: "'w Gateway \<Rightarrow> 'w embedder" where
  "CreateEmbeddings g w req =
     (case gw_embeddingClients g (parseProvider g (er_Model req)) of
        Some client \<Rightarrow> client w req
      | None \<Rightarrow>
          (case gw_embeddingClients g (gw_defaultProvider g) of
             Some client \<Rightarrow> client w req
           | None \<Rightarrow> (w, Ret (None, Some (ErrorString ''no embedding client registered'')))))"

text \<open>The range loops over the clients, in the order \<open>ks\<close> of their providers.\<close>

fun Health :: "'w Gateway \<Rightarrow> ModelProvider list \<Rightarrow> 'w \<Rightarrow> 'w \<times> error option" where
  "Health g [] w = (w, None)"
| "Health g (k # ks) w =
     (case gw_clients g k of
        None \<Rightarrow> Health g ks w
      | Some client \<Rightarrow>
          (case cl_Health client w of
             (w', Some err) \<Rightarrow> (w', Some (Wrapped (''provider '' @ k @ '' health check failed'') err))
           | (w', None) \<Rightarrow> Health g ks w'))"

fun collect_models :: "'w Gateway \<Rightarrow> ModelProvider list \<Rightarrow> string list" where
  "collect_models g [] = []"
| "collect_models g (k # ks) =
     (case gw_clients g k of None \<Rightarrow> [] | Some client \<Rightarrow> cl_Models client) @ collect_models g ks"

definition ListChatModels :: "'w Gateway \<Rightarrow> ModelProvider list \<Rightarrow> string list" where
  "ListChatModels g ks = sort (collect_models g ks)"

section \<open>The tenant cache\<close>

record 'g cacheEntry =
  ce_gateway :: 'g
  ce_apiKeys :: "string \<rightharpoonup> string"
  ce_expiresAt :: int

type_synonym 'g TenantGatewayCache = "string \<rightharpoonup> 'g cacheEntry"

definition NewTenantGatewayCache :: "'g TenantGatewayCache" where
  "NewTenantGatewayCache = Map.empty"

definition cache_Get :: "int \<Rightarrow> 'g TenantGatewayCache \<Rightarrow> string \<Rightarrow> ('g \<times> (string \<rightharpoonup> string)) option \<times> 'g TenantGatewayCache" where
  "cache_Get now c tenantID =
     (case c tenantID of
        None \<Rightarrow> (None, c)
      | Some e \<Rightarrow> if now > ce_expiresAt e then (None, c(tenantID := None)) else (Some (ce_gateway e, ce_apiKeys e), c))"

definition cache_Set :: "int \<Rightarrow> int \<Rightarrow> 'g TenantGatewayCache \<Rightarrow> string \<Rightarrow> 'g \<times> (string \<rightharpoonup> string) \<Rightarrow> 'g TenantGatewayCache" where
  "cache_Set now ttl c tenantID v =
     c(tenantID \<mapsto> \<lparr>ce_gateway = fst v, ce_apiKeys = snd v, ce_expiresAt = now + ttl\<rparr>)"

definition cache_Invalidate :: "'g TenantGatewayCache \<Rightarrow> string \<Rightarrow> 'g TenantGatewayCache" where
  "cache_Invalidate c tenantID = c(tenantID := None)"

lemmas cache_defs = NewTenantGatewayCache_def cache_Get_def cache_Set_def cache_Invalidate_def

text \<open>Read at a time within the time to live of what is set, the cache is a keyed store.\<close>

interpretation tenant_cache: keyed_store
  "\<lambda>c k. fst (cache_Get (now + int age) c k)" "cache_Set now (int age + int rest)" NewTenantGatewayCache cache_Invalidate
  for now :: int and age rest :: nat
  by unfold_locales (auto simp: cache_defs split: option.split)

text \<open>Whatever gateways and keys have been set, a tenant is answered, within the time to live, with exactly what
  was set last for this tenant, never with another tenant's; and after the time to live with nothing.\<close>

theorem tenant_cache_isolation:
  "fst (cache_Get (now + int age) (foldl (\<lambda>c (k, v). cache_Set now (int age + int rest) c k v) NewTenantGatewayCache kvs) t)
     = map_of (rev kvs) t \<and>
   fst (cache_Get (now + int rest + 1 + int age) (cache_Set now (int rest) c t v) t) = None"
proof
  show "fst (cache_Get (now + int age) (foldl (\<lambda>c (k, v). cache_Set now (int age + int rest) c k v) NewTenantGatewayCache kvs) t)
      = map_of (rev kvs) t"
    by (rule tenant_cache.get_puts_empty)
  show "fst (cache_Get (now + int rest + 1 + int age) (cache_Set now (int rest) c t v) t) = None"
    by (simp add: cache_defs)
qed

section \<open>Routing and metrics\<close>

lemma parseProvider_empty: "parseProvider g '''' = gw_defaultProvider g"
  by (simp add: parseProvider_def HasPrefix_def)

lemma complete_provider_parse: "complete_provider g req = parseProvider g (cr_Model req)"
  by (simp add: complete_provider_def parseProvider_empty)

fun is_request :: "metric \<Rightarrow> bool" where
  "is_request (LLMRequest m p s) = True"
| "is_request _ = False"

lemma token_metrics_no_request: "filter is_request (token_metrics h model resp err) = []"
  by (auto simp: token_metrics_def split: option.splits)

lemma report_request:
  "report h model p r = (ms, w', Ret (resp, err)) \<Longrightarrow>
     filter is_request ms = [LLMRequest model p (status_of err)] \<and> r = (w', Ret (resp, err))"
  by (auto simp: report_def token_metrics_no_request split: prod.splits go.splits)

text \<open>A completed request, streamed or not, reports exactly one request event, for the provider that the model
  name selects and with the status of its result; without a client for that provider it fails without any call, and
  otherwise the answer is the client's.\<close>

theorem completion_reports_once:
  assumes "Complete g w req = (ms, w', Ret (resp, err)) \<or> CompleteStream g onToken w req = (ms, w', Ret (resp, err))"
  shows "filter is_request ms = [LLMRequest (cr_Model req) (parseProvider g (cr_Model req)) (status_of err)] \<and>
    (case gw_clients g (parseProvider g (cr_Model req)) of
       None \<Rightarrow> w' = w \<and> resp = None \<and> err \<noteq> None
     | Some client \<Rightarrow> cl_Complete client w req = (w', Ret (resp, err)) \<or> stream_call client onToken w req = (w', Ret (resp, err)))"
proof (cases "gw_clients g (parseProvider g (cr_Model req))")
  case None
  with assms show ?thesis
    by (auto simp: Complete_def CompleteStream_def complete_provider_parse Let_def status_of_def)
next
  case (Some client)
  then have "Complete g w req = report True (cr_Model req) (parseProvider g (cr_Model req)) (cl_Complete client w req)"
    and "CompleteStream g onToken w req =
      report False (cr_Model req) (parseProvider g (cr_Model req)) (stream_call client onToken w req)"
    by (simp_all add: Complete_def CompleteStream_def complete_provider_parse Let_def)
  with assms consider
      "report True (cr_Model req) (parseProvider g (cr_Model req)) (cl_Complete client w req) = (ms, w', Ret (resp, err))"
    | "report False (cr_Model req) (parseProvider g (cr_Model req)) (stream_call client onToken w req) = (ms, w', Ret (resp, err))"
    by auto
  then show ?thesis using Some by cases (auto dest!: report_request)
qed

definition demo_client :: "nat LLMClient" where
  "demo_client = \<lparr>cl_Complete = (\<lambda>w req. (Suc w, Ret (Some \<lparr>cp_Content = ''hi'', cp_Model = cr_Model req, cp_ToolCalls = [],
       cp_PromptTokens = 1, cp_CompletionTokens = 2, cp_TotalTokens = 3\<rparr>, None))),
     cl_CompleteStream = None, cl_Health = (\<lambda>w. (w, None)), cl_Models = [''qwen-max'']\<rparr>"

definition demo_gateway :: "nat Gateway" where
  "demo_gateway = RegisterClient ProviderQwen demo_client NewGateway"

definition demo_request :: "string \<Rightarrow> CompletionRequest" where
  "demo_request model = \<lparr>cr_Model = model, cr_Messages = [], cr_Temperature = 0, cr_MaxTokens = 0, cr_TopP = 0,
     cr_Tools = [], cr_ToolChoice = '''', cr_Stream = False\<rparr>"

lemmas demo_defs = demo_client_def demo_gateway_def demo_request_def RegisterClient_def NewGateway_def ProviderQwen_def

theorem completion_reports_once_witness:
  "filter is_request [LLMRequest ''glm-4'' ''zhipu'' ''error''] = [LLMRequest ''glm-4'' ''zhipu'' (status_of (Some (ErrorString ''provider not found: zhipu'')))] \<and>
   gw_clients demo_gateway (parseProvider demo_gateway ''glm-4'') = None"
proof -
  have p: "parseProvider demo_gateway ''glm-4'' = ''zhipu''"
    by (simp add: parseProvider_def HasPrefix_def ProviderZhipu_def)
  have c: "gw_clients demo_gateway ''zhipu'' = None" by (simp add: demo_defs)
  have "Complete demo_gateway 0 (demo_request ''glm-4'') =
      ([LLMRequest ''glm-4'' ''zhipu'' ''error''], 0, Ret (None, Some (ErrorString ''provider not found: zhipu'')))"
    using p c by (simp add: Complete_def complete_provider_parse Let_def demo_request_def)
  from completion_reports_once[OF disjI1, OF this] p c show ?thesis by (simp add: demo_request_def)
qed

lemma onToken_once:
  "cl_CompleteStream client = None \<Longrightarrow> stream_call client onToken w req =
     (case cl_Complete client w req of
        (w', Ret (Some resp, None)) \<Rightarrow> (onToken w' (cp_Content resp), Ret (Some resp, None)) | r \<Rightarrow> r)"
  by (simp add: stream_call_def)

lemma stream_call_answer:
  "cl_CompleteStream client = None \<Longrightarrow> snd (stream_call client onToken w req) = snd (cl_Complete client w req)"
  by (auto simp: onToken_once split: prod.splits go.splits option.splits)

lemma snd_report: "snd (snd (report h model p r)) = snd r"
  by (auto simp: report_def split: prod.splits go.splits)

text \<open>For a client without streaming, CompleteStream returns the very answer of Complete (the clients are
  chosen alike, the empty model name included), except for the wording of the error for a missing client.\<close>

theorem CompleteStream_fallback:
  assumes "gw_clients g (parseProvider g (cr_Model req)) = Some client" and "cl_CompleteStream client = None"
  shows "snd (snd (CompleteStream g onToken w req)) = snd (snd (Complete g w req))"
  using assms by (simp add: CompleteStream_def Complete_def complete_provider_parse Let_def snd_report stream_call_answer)

theorem CompleteStream_fallback_witness:
  "snd (snd (CompleteStream demo_gateway (\<lambda>w t. w) 0 (demo_request ''qwen-max''))) =
   snd (snd (Complete demo_gateway 0 (demo_request ''qwen-max'')))"
  by (rule CompleteStream_fallback[of _ _ demo_client]) (simp_all add: demo_defs parseProvider_def HasPrefix_def)

lemma collect_models_mset:
  "mset (collect_models g ks) = (\<Sum>k \<in># mset ks. mset (case gw_clients g k of None \<Rightarrow> [] | Some c \<Rightarrow> cl_Models c))"
  by (induction ks) simp_all

text \<open>ListChatModels is sorted, holds the models of every registered client with their multiplicity, and does
  not depend on the order in which the map of clients is ranged over.\<close>

theorem ListChatModels_deterministic:
  assumes "ranges (gw_clients g) ks" and "ranges (gw_clients g) ks'"
  shows "ListChatModels g ks = ListChatModels g ks' \<and> sorted (ListChatModels g ks) \<and>
    set (ListChatModels g ks) = (\<Union>c \<in> ran (gw_clients g). set (cl_Models c))"
proof -
  have "mset ks = mset ks'" using assms using set_eq_iff_mset_eq_distinct[of ks ks'] by (simp add: ranges_def)
  then have eq: "mset (collect_models g ks) = mset (collect_models g ks')" by (simp add: collect_models_mset)
  have "set (collect_models g ks) = (\<Union>k \<in> set ks. set (case gw_clients g k of None \<Rightarrow> [] | Some c \<Rightarrow> cl_Models c))"
    by (induction ks) auto
  also have "\<dots> = (\<Union>c \<in> ran (gw_clients g). set (cl_Models c))"
    using assms(1) by (fastforce simp: ranges_def ran_def dom_def split: option.splits)
  finally have "set (ListChatModels g ks) = (\<Union>c \<in> ran (gw_clients g). set (cl_Models c))" by (simp add: ListChatModels_def)
  moreover have "ListChatModels g ks = ListChatModels g ks'"
    using eq by (simp add: ListChatModels_def properties_for_sort)
  moreover have "sorted (ListChatModels g ks)" by (simp add: ListChatModels_def)
  ultimately show ?thesis by blast
qed

theorem ListChatModels_deterministic_witness:
  "ListChatModels demo_gateway [''qwen''] = ListChatModels demo_gateway [''qwen''] \<and>
   sorted (ListChatModels demo_gateway [''qwen'']) \<and>
   set (ListChatModels demo_gateway [''qwen'']) = (\<Union>c \<in> ran (gw_clients demo_gateway). set (cl_Models c))"
  by (rule ListChatModels_deterministic) (simp_all add: ranges_def demo_defs)

end
