(* ===== verification/Cap_Gateway.thy ===== *)
theory Cap_Gateway
  imports LLM_Gateway Atomic_Engine
begin

text \<open>
  The capability gateway, internal/capgateway: the request and response types with Validate
  (types.go), the routing facade (gateway.go), and the adapters to the LLM gateway (llm_adapter.go)
  and to the skill gateway (skill_adapter.go). An adapter is a function of the world; a nil pointer
  it would dereference is a panic. The completers and the skill executor are the interfaces the
  adapters are built on, so they are arguments; \<open>marshal\<close> and \<open>unmarshal\<close> are encoding/json on
  objects. Durations of responses are not modelled.

  Proved: the gateway validates before it routes, so that the adapters never see a nil request; the
  adapters translate every message, tool and tool call in order; and tool calls survive the way
  from a response into the messages of the next request.
\<close>

section \<open>Types\<close>

type_synonym CapabilityType = string

definition CapLLM :: CapabilityType where "CapLLM = ''llm''"
definition CapSkill :: CapabilityType where "CapSkill = ''skill''"

record ToolDefinition =
  td_Name :: string
  td_Description :: string
  td_InputSchema :: json_object

record ToolCall =
  tc_ID :: string
  tc_Name :: string
  tc_Arguments :: json_object

record LLMMessage =
  lm_Role :: string
  lm_Content :: string
  lm_ToolCallID :: string
  lm_ToolCalls :: "ToolCall list"

record LLMCapRequest =
  lq_Model :: string
  lq_Messages :: "LLMMessage list"
  lq_Tools :: "ToolDefinition list"
  lq_Temperature :: rat
  lq_MaxTokens :: int

record SkillCapRequest =
  sq_SkillID :: string
  sq_Input :: gval

record 'w CapabilityRequest =
  cq_TraceID :: string
  cq_TenantID :: string
  cq_Type :: CapabilityType
  cq_LLM :: "LLMCapRequest option"
  cq_Skill :: "SkillCapRequest option"
  cq_Timeout :: int
  cq_LLMAPIKeys :: "(string \<rightharpoonup> string) option"
  cq_TokenStream :: "'w token_callback option"

record TokenUsage =
  tu_Prompt :: int
  tu_Completion :: int
  tu_Total :: int

record CapabilityResponse =
  cs_TraceID :: string
  cs_Type :: CapabilityType
  cs_Content :: string
  cs_ToolCalls :: "ToolCall list"
  cs_Usage :: TokenUsage
  cs_Output :: gval

text \<open>The zero value of a response.\<close>

definition zero_response :: CapabilityResponse where
  "zero_response = \<lparr>cs_TraceID = '''', cs_Type = '''', cs_Content = '''', cs_ToolCalls = [],
     cs_Usage = \<lparr>tu_Prompt = 0, tu_Completion = 0, tu_Total = 0\<rparr>, cs_Output = VNil\<rparr>"

definition Validate :: "'w CapabilityRequest \<Rightarrow> error option" where
  "Validate r =
     (if cq_Type r = CapLLM then
        (if cq_LLM r = None then Some (ErrorString (''capgateway: LLM request required for type '' @ quoted CapLLM)) else None)
      else if cq_Type r = CapSkill then
        (if cq_Skill r = None then Some (ErrorString (''capgateway: Skill request required for type '' @ quoted CapSkill)) else None)
      else Some (ErrorString (''capgateway: unknown capability type '' @ quoted (cq_Type r))))"

section \<open>The gateway\<close>

type_synonym 'w Adapter = "'w \<Rightarrow> 'w CapabilityRequest \<Rightarrow> 'w \<times> (CapabilityResponse \<times> error option) go"

definition Route :: "'w Adapter \<Rightarrow> 'w Adapter \<Rightarrow> 'w Adapter" where
  "Route llm skill w req =
     (case Validate req of
        Some err \<Rightarrow> (w, Ret (zero_response, Some err))
      | None \<Rightarrow>
          (if cq_Type req = CapLLM then llm w req
           else if cq_Type req = CapSkill then skill w req
           else (w, Ret (zero_response, Some (ErrorString (''capgateway: unknown type '' @ quoted (cq_Type req)))))))"

section \<open>The skill adapter\<close>

type_synonym 'w SkillExecutor = "'w \<Rightarrow> SkillRequest \<Rightarrow> 'w \<times> (SkillResponse \<times> error option) go"

definition nil_deref :: string where
  "nil_deref = ''runtime error: invalid memory address or nil pointer dereference''"

definition SkillAdapter_Route :: "'w SkillExecutor \<Rightarrow> 'w Adapter" where
  "SkillAdapter_Route Execute w req =
     (case cq_Skill req of
        None \<Rightarrow> (w, Panic nil_deref)
      | Some sk \<Rightarrow>
          (case Execute w \<lparr>sr_TraceID = cq_TraceID req, sr_SkillID = sq_SkillID sk, sr_Input = sq_Input sk,
                 sr_Timeout = 0, sr_Retry = \<lparr>MaxAttempts = 0, BaseDelay = 0\<rparr>, sr_Metadata = Map.empty\<rparr> of
             (w', Ret (skillResp, Some err)) \<Rightarrow> (w', Ret (zero_response, Some (Wrapped ''skill_adapter'' err)))
           | (w', Ret (skillResp, None)) \<Rightarrow>
               (w', Ret (zero_response\<lparr>cs_TraceID := cq_TraceID req, cs_Type := CapSkill, cs_Output := rs_Output skillResp\<rparr>, None))
           | (w', Panic m) \<Rightarrow> (w', Panic m)
           | (w', Deadlock) \<Rightarrow> (w', Deadlock)))"

section \<open>The LLM adapter\<close>

type_synonym marshaller = "json_object \<Rightarrow> string"
type_synonym unmarshaller = "string \<Rightarrow> json_object option"

definition convertToolCallsToGW :: "marshaller \<Rightarrow> ToolCall list \<Rightarrow> GWToolCall list" where
  "convertToolCallsToGW marshal tcs =
     map (\<lambda>tc. \<lparr>gtc_ID = tc_ID tc, gtc_Type = ''function'', gtc_Name = tc_Name tc,
                gtc_Arguments = marshal (tc_Arguments tc)\<rparr>) tcs"

definition choiceFromTools :: "Tool list \<Rightarrow> string" where
  "choiceFromTools tools = (if length tools = 0 then '''' else ''auto'')"

definition buildLLMRequest :: "marshaller \<Rightarrow> LLMCapRequest \<Rightarrow> CompletionRequest" where
  "buildLLMRequest marshal r =
     (let msgs = map (\<lambda>m. \<lparr>gm_Role = lm_Role m, gm_Content = lm_Content m,
                           gm_ToolCalls = convertToolCallsToGW marshal (lm_ToolCalls m),
                           gm_ToolCallID = lm_ToolCallID m\<rparr>) (lq_Messages r);
          tools = map (\<lambda>td. \<lparr>tl_Type = ''function'',
                             tl_Function = \<lparr>tf_Name = td_Name td, tf_Description = td_Description td,
                                            tf_Parameters = td_InputSchema td\<rparr>\<rparr>) (lq_Tools r)
      in \<lparr>cr_Model = lq_Model r, cr_Messages = msgs, cr_Temperature = lq_Temperature r, cr_MaxTokens = lq_MaxTokens r,
          cr_TopP = 0, cr_Tools = tools, cr_ToolChoice = choiceFromTools tools, cr_Stream = False\<rparr>)"

text \<open>The arguments of one tool call: an object, or the raw text under a key of its own when it is not one.\<close>

definition parse_arguments :: "unmarshaller \<Rightarrow> string \<Rightarrow> json_object" where
  "parse_arguments unmarshal s =
     (if s \<noteq> '''' then (case unmarshal s of Some args \<Rightarrow> args | None \<Rightarrow> Some [(''_raw'', VStr s)]) else None)"

definition buildCapabilityResponse :: "unmarshaller \<Rightarrow> string \<Rightarrow> CompletionResponse \<Rightarrow> CapabilityResponse" where
  "buildCapabilityResponse unmarshal traceID raw =
     \<lparr>cs_TraceID = traceID, cs_Type = CapLLM, cs_Content = cp_Content raw,
      cs_ToolCalls = map (\<lambda>tc. \<lparr>tc_ID = gtc_ID tc, tc_Name = gtc_Name tc,
                                tc_Arguments = parse_arguments unmarshal (gtc_Arguments tc)\<rparr>) (cp_ToolCalls raw),
      cs_Usage = \<lparr>tu_Prompt = cp_PromptTokens raw, tu_Completion = cp_CompletionTokens raw, tu_Total = cp_TotalTokens raw\<rparr>,
      cs_Output = VNil\<rparr>"

definition LLMAdapter_Route :: "marshaller \<Rightarrow> unmarshaller \<Rightarrow> 'w completer \<Rightarrow> ('w token_callback \<Rightarrow> 'w completer) \<Rightarrow> 'w Adapter" where
  "LLMAdapter_Route marshal unmarshal compl stream w req =
     (case cq_LLM req of
        None \<Rightarrow> (w, Panic nil_deref)
      | Some lr \<Rightarrow>
          (case (case cq_TokenStream req of
                   Some cb \<Rightarrow> stream cb w (buildLLMRequest marshal lr)
                 | None \<Rightarrow> compl w (buildLLMRequest marshal lr)) of
             (w', Ret (raw, Some err)) \<Rightarrow> (w', Ret (zero_response, Some (Wrapped ''llm_adapter'' err)))
           | (w', Ret (Some raw, None)) \<Rightarrow> (w', Ret (buildCapabilityResponse unmarshal (cq_TraceID req) raw, None))
           | (w', Ret (None, None)) \<Rightarrow> (w', Panic nil_deref)
           | (w', Panic m) \<Rightarrow> (w', Panic m)
           | (w', Deadlock) \<Rightarrow> (w', Deadlock)))"

section \<open>Validation and routing\<close>

lemma CapLLM_not_CapSkill: "CapLLM \<noteq> CapSkill"
  by (simp add: CapLLM_def CapSkill_def)

lemma Validate_None_iff:
  "Validate r = None \<longleftrightarrow> cq_Type r = CapLLM \<and> cq_LLM r \<noteq> None \<or> cq_Type r = CapSkill \<and> cq_Skill r \<noteq> None"
  using CapLLM_not_CapSkill by (auto simp: Validate_def)

text \<open>The gateway hands a request to the adapter of its type exactly when the part for that type is there, and
  otherwise answers with an error without calling an adapter; so no adapter of the gateway dereferences a missing part,
  and a panic of a routed call comes from the completer or the executor behind it.\<close>

theorem Route_guards_adapters:
  "Route llm skill w req =
     (if cq_Type req = CapLLM \<and> cq_LLM req \<noteq> None then llm w req
      else if cq_Type req = CapSkill \<and> cq_Skill req \<noteq> None then skill w req
      else (w, Ret (zero_response, Some (the (Validate req))))) \<and>
   (Validate req = None \<longleftrightarrow> cq_Type req = CapLLM \<and> cq_LLM req \<noteq> None \<or> cq_Type req = CapSkill \<and> cq_Skill req \<noteq> None)"
  using CapLLM_not_CapSkill by (auto simp: Route_def Validate_def)

section \<open>Tool calls\<close>

text \<open>A tool call of the model survives the round trip: read from a response and sent back with the messages of
  the next request it has the same id, type, name and arguments, for argument texts that are objects encoded as
  encoding/json writes them.\<close>

theorem tool_calls_roundtrip:
  assumes "list_all (\<lambda>tc. gtc_Type tc = ''function'' \<and> gtc_Arguments tc \<noteq> '''' \<and>
     (\<exists>obj. unmarshal (gtc_Arguments tc) = Some obj \<and> marshal obj = gtc_Arguments tc)) (cp_ToolCalls raw)"
  shows "convertToolCallsToGW marshal (cs_ToolCalls (buildCapabilityResponse unmarshal traceID raw)) = cp_ToolCalls raw"
  unfolding convertToolCallsToGW_def buildCapabilityResponse_def
  using assms by (auto simp: list_all_iff parse_arguments_def intro!: map_idI)

theorem tool_calls_roundtrip_witness:
  "convertToolCallsToGW (\<lambda>obj. case obj of None \<Rightarrow> ''null'' | Some _ \<Rightarrow> ''{}'')
     (cs_ToolCalls (buildCapabilityResponse (\<lambda>s. if s = ''{}'' then Some (Some []) else None) ''t''
        \<lparr>cp_Content = '''', cp_Model = '''',
         cp_ToolCalls = [\<lparr>gtc_ID = ''1'', gtc_Type = ''function'', gtc_Name = ''f'', gtc_Arguments = ''{}''\<rparr>],
         cp_PromptTokens = 0, cp_CompletionTokens = 0, cp_TotalTokens = 0\<rparr>)) =
   [\<lparr>gtc_ID = ''1'', gtc_Type = ''function'', gtc_Name = ''f'', gtc_Arguments = ''{}''\<rparr>]"
  by (subst tool_calls_roundtrip) simp_all

lemma buildLLMRequest_messages:
  "map gm_ToolCallID (cr_Messages (buildLLMRequest marshal r)) = map lm_ToolCallID (lq_Messages r)"
  "map gm_Role (cr_Messages (buildLLMRequest marshal r)) = map lm_Role (lq_Messages r)"
  by (simp_all add: buildLLMRequest_def Let_def)

text \<open>The answer of the LLM adapter depends on neither the tenant's API keys nor the timeout of the request.\<close>

theorem LLMAdapter_ignores_keys_and_timeout:
  "LLMAdapter_Route marshal unmarshal compl stream w (req\<lparr>cq_LLMAPIKeys := keys, cq_Timeout := t\<rparr>) =
   LLMAdapter_Route marshal unmarshal compl stream w req"
  by (cases "cq_LLM req"; cases "cq_TokenStream req") (auto simp: LLMAdapter_Route_def split: prod.split go.split option.split)

end
