(* ===== verification/React_Graph.thy ===== *)
theory React_Graph
  imports State_Graph Cap_Gateway
begin

text \<open>
  The ReAct graph of the agents, internal/agent/graph/react.go: the state threaded through it, the
  LLM node (a routed completion under RetryFn), the tool node (the search tool and the routed
  skills) and the graph built from them. The gateway's Route, the wait of the retries, the context
  and the formatting \<^verbatim>\<open>%v\<close> of a skill's output (\<open>fmtv\<close>) are arguments.

  Proved: the graph compiles and has no dead ends; the tool node answers the tool calls of the last
  message one by one and in order, with their ids; a run that succeeds has produced a well-formed
  conversation, rounds of tool calls and their answers followed by one final answer, which is the
  output; and the number of results asked from the knowledge search is at most 20.
\<close>

section \<open>State\<close>

type_synonym 'w rag_search = "'w \<Rightarrow> string list \<Rightarrow> string \<Rightarrow> int \<Rightarrow> 'w \<times> (string \<times> error option) go"

record 'w ReActState =
  ra_TenantID :: string
  ra_TraceID :: string
  ra_LLMAPIKeys :: "(string \<rightharpoonup> string) option"
  ra_Model :: string
  ra_AvailableTools :: "ToolDefinition list"
  ra_Messages :: "LLMMessage list"
  ra_AllToolCalls :: "ToolCall list"
  ra_Output :: string
  ra_Steps :: int
  ra_TotalTokens :: int
  ra_OnToken :: "'w token_callback option"
  ra_RAGSearchFn :: "'w rag_search option"

definition nodeLLM :: string where "nodeLLM = ''llm''"
definition nodeTool :: string where "nodeTool = ''tool''"
definition reactLLMTimeout :: int where "reactLLMTimeout = 60 * 10 ^ 9"

section \<open>The LLM node\<close>

definition llm_request :: "'w ReActState \<Rightarrow> 'w CapabilityRequest" where
  "llm_request s =
     \<lparr>cq_TraceID = ra_TraceID s, cq_TenantID = ra_TenantID s, cq_Type = CapLLM,
      cq_LLM = Some \<lparr>lq_Model = ra_Model s, lq_Messages = ra_Messages s, lq_Tools = ra_AvailableTools s,
                     lq_Temperature = 0, lq_MaxTokens = 0\<rparr>,
      cq_Skill = None, cq_Timeout = reactLLMTimeout, cq_LLMAPIKeys = ra_LLMAPIKeys s, cq_TokenStream = ra_OnToken s\<rparr>"

definition assistant_reply :: "string \<Rightarrow> LLMMessage" where
  "assistant_reply content = \<lparr>lm_Role = ''assistant'', lm_Content = content, lm_ToolCallID = '''', lm_ToolCalls = []\<rparr>"

definition assistant_calls :: "ToolCall list \<Rightarrow> LLMMessage" where
  "assistant_calls tcs = \<lparr>lm_Role = ''assistant'', lm_Content = '''', lm_ToolCallID = '''', lm_ToolCalls = tcs\<rparr>"

text \<open>What the node makes of a response.\<close>

definition absorb :: "CapabilityResponse \<Rightarrow> 'w ReActState \<Rightarrow> 'w ReActState" where
  "absorb resp s0 =
     (let s = s0\<lparr>ra_Steps := ra_Steps s0 + 1, ra_TotalTokens := ra_TotalTokens s0 + tu_Total (cs_Usage resp)\<rparr>
      in if length (cs_ToolCalls resp) = 0
         then s\<lparr>ra_Output := cs_Content resp, ra_Messages := ra_Messages s @ [assistant_reply (cs_Content resp)]\<rparr>
         else s\<lparr>ra_Messages := ra_Messages s @ [assistant_calls (cs_ToolCalls resp)]\<rparr>)"

definition makeLLMNode ::
  "'w Adapter \<Rightarrow> ('w \<Rightarrow> int \<Rightarrow> 'w \<times> error option) \<Rightarrow> ('w \<Rightarrow> error option) \<Rightarrow> ('w, 'w ReActState) NodeFunc" where
  "makeLLMNode route wait ctxErr w s =
     (case RetryFn DefaultRetry zero_response (\<lambda>w. route w (llm_request s)) wait ctxErr w of
        (w', Ret (resp, Some err)) \<Rightarrow> (w', Ret (s, Some (Wrapped ''react llm node'' err)))
      | (w', Ret (resp, None)) \<Rightarrow> (w', Ret (absorb resp s, None))
      | (w', Panic m) \<Rightarrow> (w', Panic m)
      | (w', Deadlock) \<Rightarrow> (w', Deadlock))"

section \<open>The tool node\<close>

definition argument :: "ToolCall \<Rightarrow> string \<Rightarrow> gval option" where
  "argument tc k = (case tc_Arguments tc of None \<Rightarrow> None | Some args \<Rightarrow> map_of args k)"

definition arg_workspaces :: "ToolCall \<Rightarrow> string list" where
  "arg_workspaces tc =
     (case argument tc ''workspaces'' of
        Some (VList raw) \<Rightarrow> concat (map (\<lambda>v. case v of VStr s \<Rightarrow> [s] | _ \<Rightarrow> []) raw)
      | _ \<Rightarrow> [])"

definition arg_query :: "ToolCall \<Rightarrow> string" where
  "arg_query tc = (case argument tc ''query'' of Some (VStr q) \<Rightarrow> q | _ \<Rightarrow> '''')"

definition arg_topK :: "ToolCall \<Rightarrow> int" where
  "arg_topK tc =
     (case argument tc ''top_k'' of
        Some (VFloat v) \<Rightarrow> (let topK = trunc v in if topK > 20 then 20 else topK)
      | _ \<Rightarrow> 5)"

definition skill_request :: "'w ReActState \<Rightarrow> ToolCall \<Rightarrow> 'w CapabilityRequest" where
  "skill_request s tc =
     \<lparr>cq_TraceID = ra_TraceID s, cq_TenantID = ra_TenantID s, cq_Type = CapSkill, cq_LLM = None,
      cq_Skill = Some \<lparr>sq_SkillID = tc_Name tc,
                       sq_Input = VMap (case tc_Arguments tc of None \<Rightarrow> [] | Some args \<Rightarrow> args)\<rparr>,
      cq_Timeout = 30 * 10 ^ 9, cq_LLMAPIKeys = None, cq_TokenStream = None\<rparr>"

text \<open>The content of the answer to one tool call.\<close>

definition search_content :: "'w ReActState \<Rightarrow> ToolCall \<Rightarrow> 'w \<Rightarrow> 'w \<times> string go" where
  "search_content s tc w =
     (case ra_RAGSearchFn s of
        None \<Rightarrow> (w, Ret ''error: search_knowledge tool not configured'')
      | Some f \<Rightarrow>
          (case f w (arg_workspaces tc) (arg_query tc) (arg_topK tc) of
             (w', Ret (content, None)) \<Rightarrow> (w', Ret content)
           | (w', Ret (content, Some ragErr)) \<Rightarrow> (w', Ret (''error: '' @ error_text ragErr))
           | (w', Panic m) \<Rightarrow> (w', Panic m)
           | (w', Deadlock) \<Rightarrow> (w', Deadlock)))"

definition skill_content :: "'w Adapter \<Rightarrow> (gval \<Rightarrow> string) \<Rightarrow> 'w ReActState \<Rightarrow> ToolCall \<Rightarrow> 'w \<Rightarrow> 'w \<times> string go" where
  "skill_content route fmtv s tc w =
     (case route w (skill_request s tc) of
        (w', Ret (resp, Some err)) \<Rightarrow> (w', Ret (''error: '' @ error_text err))
      | (w', Ret (resp, None)) \<Rightarrow> (w', Ret (if cs_Output resp \<noteq> VNil then fmtv (cs_Output resp) else cs_Content resp))
      | (w', Panic m) \<Rightarrow> (w', Panic m)
      | (w', Deadlock) \<Rightarrow> (w', Deadlock))"

definition tool_content :: "'w Adapter \<Rightarrow> (gval \<Rightarrow> string) \<Rightarrow> 'w ReActState \<Rightarrow> ToolCall \<Rightarrow> 'w \<Rightarrow> 'w \<times> string go" where
  "tool_content route fmtv s tc w =
     (if tc_Name tc = ''search_knowledge'' then search_content s tc w else skill_content route fmtv s tc w)"

definition tool_message :: "ToolCall \<Rightarrow> string \<Rightarrow> LLMMessage" where
  "tool_message tc content = \<lparr>lm_Role = ''tool'', lm_Content = content, lm_ToolCallID = tc_ID tc, lm_ToolCalls = []\<rparr>"

fun tool_loop ::
  "'w Adapter \<Rightarrow> (gval \<Rightarrow> string) \<Rightarrow> ToolCall list \<Rightarrow> 'w \<Rightarrow> 'w ReActState \<Rightarrow> 'w \<times> ('w ReActState \<times> error option) go" where
  "tool_loop route fmtv [] w s = (w, Ret (s, None))"
| "tool_loop route fmtv (tc # tcs) w s =
     (case tool_content route fmtv s tc w of
        (w', Ret content) \<Rightarrow>
          tool_loop route fmtv tcs w'
            (s\<lparr>ra_Messages := ra_Messages s @ [tool_message tc content], ra_AllToolCalls := ra_AllToolCalls s @ [tc]\<rparr>)
      | (w', Panic m) \<Rightarrow> (w', Panic m)
      | (w', Deadlock) \<Rightarrow> (w', Deadlock))"

definition makeToolNode :: "'w Adapter \<Rightarrow> (gval \<Rightarrow> string) \<Rightarrow> ('w, 'w ReActState) NodeFunc" where
  "makeToolNode route fmtv w s =
     (if length (ra_Messages s) = 0 then (w, Ret (s, None))
      else tool_loop route fmtv (lm_ToolCalls (last (ra_Messages s))) w s)"

section \<open>The graph\<close>

definition after_llm :: "'w ReActState EdgeFunc" where
  "after_llm s =
     (if length (ra_Messages s) = 0 then END
      else let l = last (ra_Messages s)
           in if lm_Role l = ''assistant'' \<and> length (lm_ToolCalls l) > 0 then nodeTool else END)"

definition react_graph ::
  "'w Adapter \<Rightarrow> (gval \<Rightarrow> string) \<Rightarrow> ('w \<Rightarrow> int \<Rightarrow> 'w \<times> error option) \<Rightarrow> ('w \<Rightarrow> error option)
     \<Rightarrow> ('w, 'w ReActState) StateGraph" where
  "react_graph route fmtv wait ctxErr =
     SetEntryPoint nodeLLM (AddEdge nodeTool nodeLLM (AddConditionalEdge nodeLLM after_llm
       (AddNode nodeTool (makeToolNode route fmtv) (AddNode nodeLLM (makeLLMNode route wait ctxErr) NewGraph))))"

definition BuildReActGraph where
  "BuildReActGraph route fmtv wait ctxErr = Compile (react_graph route fmtv wait ctxErr) [nodeTool]"

section \<open>The graph is well formed\<close>

lemmas react_graph_defs = react_graph_def graph_defs nodeLLM_def nodeTool_def END_def

lemma react_nodes:
  "g_nodes (react_graph route fmtv wait ctxErr) =
     [nodeLLM \<mapsto> makeLLMNode route wait ctxErr, nodeTool \<mapsto> makeToolNode route fmtv]"
  by (auto simp: react_graph_defs)

lemma react_next:
  "next_node (react_graph route fmtv wait ctxErr) nodeLLM s = Some (after_llm s)"
  "next_node (react_graph route fmtv wait ctxErr) nodeTool s = Some nodeLLM"
  by (simp_all add: next_node_def react_graph_defs)

lemma react_names [simp]: "nodeLLM \<noteq> nodeTool" "nodeTool \<noteq> nodeLLM" "nodeLLM \<noteq> END" "nodeTool \<noteq> END"
    "END \<noteq> nodeLLM" "END \<noteq> nodeTool"
  by (simp_all add: nodeLLM_def nodeTool_def END_def)

lemma react_entry [simp]: "g_entry (react_graph route fmtv wait ctxErr) = nodeLLM"
  by (simp add: react_graph_def SetEntryPoint_def)

lemma react_edges: "g_edges (react_graph route fmtv wait ctxErr) = [nodeTool \<mapsto> nodeLLM]"
  by (simp add: react_graph_defs)

lemma BuildReActGraph_eq: "BuildReActGraph route fmtv wait ctxErr = Inr (react_graph route fmtv wait ctxErr)"
  unfolding BuildReActGraph_def Compile_def react_entry react_nodes check_edges.simps bad_target_def react_edges
  by (simp add: nodeLLM_def nodeTool_def)

text \<open>BuildReActGraph succeeds for any gateway, and the graph has no dead end: every node leads, whatever the
  state, to a registered node or to END, so that a run never reports a missing node or edge.\<close>

theorem BuildReActGraph_ok:
  "BuildReActGraph route fmtv wait ctxErr = Inr (react_graph route fmtv wait ctxErr) \<and>
   closed_graph (react_graph route fmtv wait ctxErr)"
proof
  show "BuildReActGraph route fmtv wait ctxErr = Inr (react_graph route fmtv wait ctxErr)" by (rule BuildReActGraph_eq)
  have "after_llm s \<in> {END, nodeTool}" for s :: "'a ReActState" by (simp add: after_llm_def Let_def)
  moreover have "dom (g_nodes (react_graph route fmtv wait ctxErr)) = {nodeLLM, nodeTool}" by (auto simp: react_nodes)
  ultimately show "closed_graph (react_graph route fmtv wait ctxErr)"
    by (auto simp: closed_graph_def react_next)
qed

section \<open>The conversation of a run\<close>

lemma tool_loop_answers:
  "tool_loop route fmtv tcs w s = (w', Ret (s', e)) \<Longrightarrow>
     e = None \<and> (\<exists>cs. length cs = length tcs \<and>
       s' = s\<lparr>ra_Messages := ra_Messages s @ map2 tool_message tcs cs, ra_AllToolCalls := ra_AllToolCalls s @ tcs\<rparr>)"
proof (induction tcs arbitrary: w s)
  case Nil
  then show ?case by auto
next
  case (Cons tc tcs)
  from Cons.prems obtain w1 c where "tool_content route fmtv s tc w = (w1, Ret c)"
    and "tool_loop route fmtv tcs w1
       (s\<lparr>ra_Messages := ra_Messages s @ [tool_message tc c], ra_AllToolCalls := ra_AllToolCalls s @ [tc]\<rparr>) = (w', Ret (s', e))"
    by (auto split: prod.splits go.splits)
  from Cons.IH[OF this(2)] obtain cs where "e = None" "length cs = length tcs"
    "s' = s\<lparr>ra_Messages := ra_Messages s @ tool_message tc c # map2 tool_message tcs cs, ra_AllToolCalls := ra_AllToolCalls s @ tc # tcs\<rparr>"
    by auto
  then show ?case by (auto intro!: exI[of _ "c # cs"])
qed

text \<open>A round: the tool calls of the model and the contents of their answers.\<close>

type_synonym round = "ToolCall list \<times> string list"

definition round_messages :: "round \<Rightarrow> LLMMessage list" where
  "round_messages r = assistant_calls (fst r) # map2 tool_message (fst r) (snd r)"

definition rounds_ok :: "round list \<Rightarrow> bool" where
  "rounds_ok rs \<longleftrightarrow> list_all (\<lambda>(tcs, cs). tcs \<noteq> [] \<and> length cs = length tcs) rs"

text \<open>
  The state after the rounds \<open>rs\<close>, \<open>extra\<close> further messages and \<open>n\<close> runs of the LLM node, from the
  state \<open>s0\<close>.
\<close>

definition conversation :: "'w ReActState \<Rightarrow> round list \<Rightarrow> LLMMessage list \<Rightarrow> nat \<Rightarrow> 'w ReActState \<Rightarrow> bool" where
  "conversation s0 rs extra n s \<longleftrightarrow> rounds_ok rs \<and>
     ra_Messages s = ra_Messages s0 @ concat (map round_messages rs) @ extra \<and>
     ra_AllToolCalls s = ra_AllToolCalls s0 @ concat (map fst rs) \<and>
     ra_Steps s = ra_Steps s0 + int n \<and>
     ra_TenantID s = ra_TenantID s0 \<and> ra_Model s = ra_Model s0 \<and> ra_AvailableTools s = ra_AvailableTools s0"

lemma tool_node_round:
  assumes "makeToolNode route fmtv w s = (w', Ret (s', None))"
    and "conversation s0 rs [assistant_calls tcs] n s" and "tcs \<noteq> []"
  shows "\<exists>cs. conversation s0 (rs @ [(tcs, cs)]) [] n s'"
proof -
  have "last (ra_Messages s) = assistant_calls tcs" "length (ra_Messages s) \<noteq> 0"
    using assms(2) by (auto simp: conversation_def)
  with assms(1) have "tool_loop route fmtv tcs w s = (w', Ret (s', None))"
    by (simp add: makeToolNode_def assistant_calls_def)
  from tool_loop_answers[OF this] obtain cs where cs: "length cs = length tcs"
    "s' = s\<lparr>ra_Messages := ra_Messages s @ map2 tool_message tcs cs, ra_AllToolCalls := ra_AllToolCalls s @ tcs\<rparr>"
    by blast
  then show ?thesis using assms(2,3)
    by (auto intro!: exI[of _ cs] simp: conversation_def rounds_ok_def round_messages_def)
qed

lemma llm_node_reply:
  assumes "makeLLMNode route wait ctxErr w s = (w', Ret (s', None))" and "conversation s0 rs [] n s"
  shows "(\<exists>content. conversation s0 rs [assistant_reply content] (Suc n) s' \<and> ra_Output s' = content \<and> after_llm s' = END) \<or>
    (\<exists>tcs. tcs \<noteq> [] \<and> conversation s0 rs [assistant_calls tcs] (Suc n) s' \<and> after_llm s' = nodeTool)"
proof -
  from assms(1) obtain resp where s': "s' = absorb resp s"
    by (auto simp: makeLLMNode_def split: prod.splits go.splits option.splits)
  show ?thesis
  proof (cases "cs_ToolCalls resp = []")
    case True
    with assms(2) show ?thesis
      by (auto simp: s' absorb_def conversation_def after_llm_def assistant_reply_def Let_def)
  next
    case False
    with assms(2) show ?thesis
      by (auto simp: s' absorb_def conversation_def after_llm_def assistant_calls_def Let_def)
  qed
qed

text \<open>What holds in every configuration a run goes through, by the node that is next.\<close>

definition react_inv :: "'w ReActState \<Rightarrow> nat \<Rightarrow> 'w ReActState \<Rightarrow> string \<Rightarrow> bool" where
  "react_inv s0 n s cur \<longleftrightarrow> (\<exists>rs.
     (cur = nodeLLM \<and> n = 2 * length rs \<and> conversation s0 rs [] (length rs) s) \<or>
     (cur = nodeTool \<and> n = 2 * length rs + 1 \<and>
        (\<exists>tcs. tcs \<noteq> [] \<and> conversation s0 rs [assistant_calls tcs] (length rs + 1) s)) \<or>
     (cur = END \<and> n = 2 * length rs + 1 \<and>
        conversation s0 rs [assistant_reply (ra_Output s)] (length rs + 1) s))"

lemma react_inv_step:
  assumes "react_inv s0 n s cur" and "gstep (react_graph route fmtv wait ctxErr) ctxErr' (w, s, cur) (w', s', cur')"
  shows "react_inv s0 (Suc n) s' cur'"
proof -
  from assms(2) obtain f where cur: "cur \<noteq> END" and f: "g_nodes (react_graph route fmtv wait ctxErr) cur = Some f"
    and run: "f w s = (w', Ret (s', None))" and nx: "next_node (react_graph route fmtv wait ctxErr) cur s' = Some cur'"
    by (auto elim: gstepE)
  from assms(1) cur consider rs where "cur = nodeLLM" "n = 2 * length rs" "conversation s0 rs [] (length rs) s"
    | rs tcs where "cur = nodeTool" "n = 2 * length rs + 1" "tcs \<noteq> []" "conversation s0 rs [assistant_calls tcs] (length rs + 1) s"
    by (auto simp: react_inv_def)
  then show ?thesis
  proof cases
    case 1
    then have "makeLLMNode route wait ctxErr w s = (w', Ret (s', None))" using f run by (simp add: react_nodes)
    moreover have "cur' = after_llm s'" using nx 1 by (simp add: react_next)
    ultimately show ?thesis using llm_node_reply 1 unfolding react_inv_def by (metis Suc_eq_plus1)
  next
    case 2
    then have "makeToolNode route fmtv w s = (w', Ret (s', None))" using f run by (simp add: react_nodes)
    from tool_node_round[OF this 2(4,3)] obtain cs where cs: "conversation s0 (rs @ [(tcs, cs)]) [] (length rs + 1) s'" ..
    moreover have "cur' = nodeLLM" using nx 2 by (simp add: react_next)
    ultimately show ?thesis using 2(2) unfolding react_inv_def by (intro exI[of _ "rs @ [(tcs, cs)]"]) simp
  qed
qed

lemma react_inv_steps:
  assumes "(gstep (react_graph route fmtv wait ctxErr) ctxErr' ^^ n) (w, s0, nodeLLM) (w', s', cur')"
  shows "react_inv s0 n s' cur'"
  using assms
proof (induction n arbitrary: w' s' cur')
  case 0
  then show ?case by (auto simp: react_inv_def conversation_def rounds_ok_def intro: exI[of _ "[]"])
next
  case (Suc n)
  then obtain w1 s1 cur1 where "(gstep (react_graph route fmtv wait ctxErr) ctxErr' ^^ n) (w, s0, nodeLLM) (w1, s1, cur1)"
    and "gstep (react_graph route fmtv wait ctxErr) ctxErr' (w1, s1, cur1) (w', s', cur')"
    by (metis prod_cases3 relpowp_Suc_E)
  from react_inv_step[OF Suc.IH[OF this(1)] this(2)] show ?case .
qed

lemma react_run_rounds:
  assumes "Invoke (react_graph route fmtv wait ctxErr) ctxErr stack w s0 MaxSteps = (w', Ret (s, None))"
  shows "\<exists>rs. conversation s0 rs [assistant_reply (ra_Output s)] (length rs + 1) s \<and>
     2 * length rs + 1 < effective_max MaxSteps"
proof -
  from assms obtain n where "n < effective_max MaxSteps"
    "(gstep (react_graph route fmtv wait ctxErr) ctxErr ^^ n) (w, s0, nodeLLM) (w', s, END)"
    unfolding Invoke_reaches_END by auto
  with react_inv_steps[OF this(2)] show ?thesis by (auto simp: react_inv_def)
qed

text \<open>C5: A successful run of the ReAct graph has added to the messages a number of rounds, each an assistant
  message with tool calls followed by one tool message per call, in order and with its id, and then one assistant message
  without tool calls, whose content is the output. The recorded tool calls are those of the rounds, Steps counts the
  assistant messages, tenant, model and tools are unchanged, and there are fewer than MaxSteps node runs.\<close>

theorem react_run_conversation:
  assumes "Invoke (react_graph route fmtv wait ctxErr) ctxErr stack w s0 MaxSteps = (w', Ret (s, None))"
  shows "\<exists>rs. conversation s0 rs [assistant_reply (ra_Output s)] (length rs + 1) s \<and>
     2 * length rs + 1 < effective_max MaxSteps"
  using assms by (rule react_run_rounds)

definition demo_call :: ToolCall where
  "demo_call = \<lparr>tc_ID = ''c1'', tc_Name = ''add'', tc_Arguments = None\<rparr>"

definition demo_route :: "nat Adapter" where
  "demo_route w req =
     (Suc w, Ret (if w = 0 then zero_response\<lparr>cs_ToolCalls := [demo_call]\<rparr>
                  else if w = 1 then zero_response\<lparr>cs_Content := ''42''\<rparr>
                  else zero_response\<lparr>cs_Content := ''It is 42.''\<rparr>, None))"

definition demo_state :: "nat ReActState" where
  "demo_state = \<lparr>ra_TenantID = ''t'', ra_TraceID = '''', ra_LLMAPIKeys = None, ra_Model = ''qwen-max'', ra_AvailableTools = [],
     ra_Messages = [], ra_AllToolCalls = [], ra_Output = '''', ra_Steps = 0, ra_TotalTokens = 0, ra_OnToken = None,
     ra_RAGSearchFn = None\<rparr>"

definition demo_run :: "(nat, nat ReActState) invoke_result" where
  "demo_run = Invoke (react_graph demo_route (\<lambda>v. []) (\<lambda>w d. (w, None)) (\<lambda>w. None)) (\<lambda>w. None) [] 0 demo_state 4"

definition demo_final :: "nat ReActState" where
  "demo_final = demo_state\<lparr>ra_Steps := 2, ra_AllToolCalls := [demo_call], ra_Output := ''It is 42.'',
     ra_Messages := [assistant_calls [demo_call], tool_message demo_call ''42'', assistant_reply ''It is 42.'']\<rparr>"

lemma demo_run_result: "demo_run = (3, Ret (demo_final, None))"
proof -
  let ?g = "react_graph demo_route (\<lambda>v. []) (\<lambda>w d. (w, None)) (\<lambda>w. None)"
  define s1 where "s1 = demo_state\<lparr>ra_Steps := 1, ra_Messages := [assistant_calls [demo_call]]\<rparr>"
  define s2 where "s2 = s1\<lparr>ra_AllToolCalls := [demo_call], ra_Messages := [assistant_calls [demo_call], tool_message demo_call ''42'']\<rparr>"
  note nodes = invoke_body_def run_node_def react_nodes react_next makeLLMNode_def RetryFn_def DefaultRetry_def
    numeral_3_eq_3 demo_route_def absorb_def zero_response_def after_llm_def Let_def
  have "invoke_body ?g (\<lambda>w. None) [] 0 demo_state nodeLLM = Inr (1, s1, nodeTool)"
    by (simp add: nodes s1_def demo_state_def assistant_calls_def)
  moreover have "invoke_body ?g (\<lambda>w. None) [] 1 s1 nodeTool = Inr (2, s2, nodeLLM)"
    by (simp add: nodes s1_def s2_def demo_state_def assistant_calls_def makeToolNode_def tool_content_def demo_call_def skill_content_def
        tool_message_def)
  moreover have "invoke_body ?g (\<lambda>w. None) [] 2 s2 nodeLLM = Inr (3, demo_final, END)"
    by (simp add: nodes s1_def s2_def demo_state_def demo_final_def assistant_reply_def)
  moreover have "invoke_body ?g (\<lambda>w. None) [] 3 demo_final END = Inl (3, Ret (demo_final, None))"
    by (simp add: invoke_body_def)
  moreover have "effective_max 4 = Suc (Suc (Suc (Suc 0)))" by (simp add: effective_max_def)
  ultimately show ?thesis by (simp add: demo_run_def Invoke_def)
qed

theorem react_run_conversation_witness:
  "demo_run = (3, Ret (demo_final, None)) \<and>
   (\<exists>rs. conversation demo_state rs [assistant_reply (ra_Output demo_final)] (length rs + 1) demo_final \<and>
      2 * length rs + 1 < effective_max 4)"
  using react_run_conversation[OF demo_run_result[unfolded demo_run_def]] demo_run_result by blast

section \<open>The knowledge search\<close>

text \<open>The knowledge search is asked for at most 20 results, for 5 unless the model gives a number, and for that
  number when it is a whole number up to 20; there is no lower bound, so a negative number reaches the search.\<close>

theorem search_topK_bound:
  "arg_topK tc \<le> 20 \<and>
   arg_topK \<lparr>tc_ID = i, tc_Name = n, tc_Arguments = Some ((''top_k'', VFloat (of_int k)) # args)\<rparr> = min 20 k \<and>
   arg_topK \<lparr>tc_ID = i, tc_Name = n, tc_Arguments = None\<rparr> = 5"
  by (auto simp: arg_topK_def argument_def trunc_def Let_def split: option.split gval.split)

end
