(* ===== verification/Agent.thy ===== *)
theory Agent
  imports React_Graph
begin

text \<open>
  The agents, internal/agent/agent.go: the execution options, the base agent with its in-process
  memory, BuildInitMessages, and Execute for every agent type. The capability gateway and the chat
  store are the interfaces the agent is built on; what they, the context and the clock do is a
  function of the world. Times, durations and the metrics provider are left out except for the
  execution status reported to it. The agent's mutex is held only for single reads and writes of
  fields, so one execution is modelled as a whole; two at a time on one agent are not.

  Proved: the message memory holds the most recent 100 messages; the initial messages are the system
  prompt and the most recent history; a successful ReAct execution answers with the last assistant
  message of a well-formed conversation that starts from them; and the step count of a result is
  the agent's running count, not that of the execution.
\<close>

section \<open>Configuration and options\<close>

type_synonym AgentType = string

definition ReActAgent :: AgentType where "ReActAgent = ''react''"
definition CoTAgent :: AgentType where "CoTAgent = ''cot''"
definition PlanningAgent :: AgentType where "PlanningAgent = ''planning''"
definition ToolCallingAgent :: AgentType where "ToolCallingAgent = ''tool_calling''"
definition RAGAgent :: AgentType where "RAGAgent = ''rag''"
definition SwarmAgent :: AgentType where "SwarmAgent = ''swarm''"

lemmas agent_types = ReActAgent_def CoTAgent_def PlanningAgent_def ToolCallingAgent_def RAGAgent_def SwarmAgent_def

record 'w ExecutionConfig =
  x_MaxSteps :: int
  x_Timeout :: int
  x_Temperature :: rat
  x_EnableMemory :: bool
  x_EnableTools :: bool
  x_AvailableTools :: "string list"
  x_Stream :: bool
  x_TokenCallback :: "'w token_callback option"
  x_TenantID :: string
  x_LLMAPIKeys :: "(string \<rightharpoonup> string) option"
  x_RAGSearchFn :: "'w rag_search option"
  x_ExtraTools :: "ToolDefinition list"
  x_ConversationID :: string
  x_UserID :: string
  x_HistoryWindow :: int

definition zero_config :: "'w ExecutionConfig" where
  "zero_config = \<lparr>x_MaxSteps = 0, x_Timeout = 0, x_Temperature = 0, x_EnableMemory = False, x_EnableTools = False,
     x_AvailableTools = [], x_Stream = False, x_TokenCallback = None, x_TenantID = '''', x_LLMAPIKeys = None,
     x_RAGSearchFn = None, x_ExtraTools = [], x_ConversationID = '''', x_UserID = '''', x_HistoryWindow = 0\<rparr>"

type_synonym 'w ExecutionOption = "'w ExecutionConfig \<Rightarrow> 'w ExecutionConfig"

definition WithMaxSteps :: "int \<Rightarrow> 'w ExecutionOption" where
  "WithMaxSteps maxSteps cfg = cfg\<lparr>x_MaxSteps := maxSteps\<rparr>"

definition WithTimeout :: "int \<Rightarrow> 'w ExecutionOption" where
  "WithTimeout timeout cfg = cfg\<lparr>x_Timeout := timeout\<rparr>"

definition WithTemperature :: "rat \<Rightarrow> 'w ExecutionOption" where
  "WithTemperature temperature cfg = cfg\<lparr>x_Temperature := temperature\<rparr>"

definition WithMemory :: "bool \<Rightarrow> 'w ExecutionOption" where
  "WithMemory enable cfg = cfg\<lparr>x_EnableMemory := enable\<rparr>"

definition WithTools :: "string list \<Rightarrow> 'w ExecutionOption" where
  "WithTools tools cfg = cfg\<lparr>x_AvailableTools := tools, x_EnableTools := True\<rparr>"

definition WithStream :: "bool \<Rightarrow> 'w ExecutionOption" where
  "WithStream enable cfg = cfg\<lparr>x_Stream := enable\<rparr>"

definition WithTokenCallback :: "'w token_callback option \<Rightarrow> 'w ExecutionOption" where
  "WithTokenCallback cb cfg = cfg\<lparr>x_TokenCallback := cb, x_Stream := True\<rparr>"

definition WithTenantID :: "string \<Rightarrow> 'w ExecutionOption" where
  "WithTenantID i cfg = cfg\<lparr>x_TenantID := i\<rparr>"

definition WithLLMAPIKeys :: "(string \<rightharpoonup> string) option \<Rightarrow> 'w ExecutionOption" where
  "WithLLMAPIKeys keys cfg = cfg\<lparr>x_LLMAPIKeys := keys\<rparr>"

definition WithRAGSearchFn :: "'w rag_search option \<Rightarrow> 'w ExecutionOption" where
  "WithRAGSearchFn fn cfg = cfg\<lparr>x_RAGSearchFn := fn\<rparr>"

definition WithExtraTools :: "ToolDefinition list \<Rightarrow> 'w ExecutionOption" where
  "WithExtraTools tools cfg = cfg\<lparr>x_ExtraTools := tools\<rparr>"

definition WithConversationID :: "string \<Rightarrow> 'w ExecutionOption" where
  "WithConversationID i cfg = cfg\<lparr>x_ConversationID := i\<rparr>"

definition WithUserID :: "string \<Rightarrow> 'w ExecutionOption" where
  "WithUserID i cfg = cfg\<lparr>x_UserID := i\<rparr>"

definition WithHistoryWindow :: "int \<Rightarrow> 'w ExecutionOption" where
  "WithHistoryWindow n cfg = (if n > 0 then cfg\<lparr>x_HistoryWindow := n\<rparr> else cfg)"

fun ApplyOptions :: "'w ExecutionOption list \<Rightarrow> 'w ExecutionConfig \<Rightarrow> 'w ExecutionConfig" where
  "ApplyOptions [] cfg = cfg"
| "ApplyOptions (opt # opts) cfg = ApplyOptions opts (opt cfg)"

section \<open>The agent\<close>

record ChatMessage =
  cm_ConversationID :: string
  cm_Role :: string
  cm_Content :: string

record 'w ChatStore =
  st_ListMessages :: "'w \<Rightarrow> string \<Rightarrow> string \<Rightarrow> string \<Rightarrow> 'w \<times> (error + ChatMessage list)"
  st_AddMessage :: "'w \<Rightarrow> string \<Rightarrow> ChatMessage \<Rightarrow> 'w \<times> error option"

record AgentConfig =
  ac_ID :: string
  ac_Type :: AgentType
  ac_SystemPrompt :: string
  ac_LLMModel :: string
  ac_MaxIterations :: int
  ac_KnowledgeWorkspaceNames :: "string list"

record AgentMessage =
  am_Role :: string
  am_Content :: string
  am_Timestamp :: int

record Thought =
  th_Step :: nat
  th_Observation :: string
  th_Thought :: string

record 'w BaseAgent =
  ba_config :: AgentConfig
  ba_StepsTaken :: int
  ba_Memory :: "AgentMessage list"
  ba_CapGateway :: "'w Adapter option"
  ba_ChatStore :: "'w ChatStore option"

record AgentToolCall =
  at_ToolName :: string
  at_Input :: json_object

record AgentResult =
  ar_AgentID :: string
  ar_Input :: string
  ar_Output :: string
  ar_Thoughts :: "Thought list"
  ar_ToolCalls :: "AgentToolCall list"
  ar_Steps :: int
  ar_TokensUsed :: int

definition NewBaseAgent :: "AgentConfig \<Rightarrow> 'w BaseAgent" where
  "NewBaseAgent config = \<lparr>ba_config = config, ba_StepsTaken = 0, ba_Memory = [], ba_CapGateway = None, ba_ChatStore = None\<rparr>"

definition SetCapGateway :: "'w Adapter option \<Rightarrow> 'w BaseAgent \<Rightarrow> 'w BaseAgent" where
  "SetCapGateway gw a = a\<lparr>ba_CapGateway := gw\<rparr>"

definition SetChatStore :: "'w ChatStore option \<Rightarrow> 'w BaseAgent \<Rightarrow> 'w BaseAgent" where
  "SetChatStore cs a = a\<lparr>ba_ChatStore := cs\<rparr>"

definition Reset :: "'w BaseAgent \<Rightarrow> 'w BaseAgent" where
  "Reset a = a\<lparr>ba_StepsTaken := 0, ba_Memory := []\<rparr>"

definition GetMemory :: "'w BaseAgent \<Rightarrow> AgentMessage list" where
  "GetMemory a = ba_Memory a"

definition AddToMemory :: "int \<Rightarrow> 'w BaseAgent \<Rightarrow> AgentMessage \<Rightarrow> 'w BaseAgent" where
  "AddToMemory now a msg =
     (let mem = ba_Memory a @ [msg\<lparr>am_Timestamp := now\<rparr>]
      in a\<lparr>ba_Memory := (if length mem > 100 then drop (length mem - 100) mem else mem)\<rparr>)"

section \<open>Initial messages\<close>

definition history_message :: "ChatMessage \<Rightarrow> LLMMessage" where
  "history_message m =
     \<lparr>lm_Role = (if cm_Role m = ''agent'' then ''assistant'' else cm_Role m), lm_Content = cm_Content m,
      lm_ToolCallID = '''', lm_ToolCalls = []\<rparr>"

definition BuildInitMessages :: "string \<Rightarrow> ChatMessage list \<Rightarrow> int \<Rightarrow> LLMMessage list" where
  "BuildInitMessages systemPrompt history window =
     (let win = (if window \<le> 0 then 20 else nat window);
          hist = (if length history > win then drop (length history - win) history else history)
      in (if systemPrompt \<noteq> ''''
          then [\<lparr>lm_Role = ''system'', lm_Content = systemPrompt, lm_ToolCallID = '''', lm_ToolCalls = []\<rparr>] else [])
         @ map history_message hist)"

definition user_message :: "string \<Rightarrow> LLMMessage" where
  "user_message input = \<lparr>lm_Role = ''user'', lm_Content = input, lm_ToolCallID = '''', lm_ToolCalls = []\<rparr>"

definition search_tool :: "string list \<Rightarrow> ToolDefinition" where
  "search_tool workspaceNames =
     \<lparr>td_Name = ''search_knowledge'',
      td_Description = ''Search one or more knowledge bases for relevant information. Pass all relevant workspaces to search simultaneously.'',
      td_InputSchema = Some
        [(''type'', VStr ''object''),
         (''properties'', VMap
            [(''workspaces'', VMap
                [(''type'', VStr ''array''),
                 (''description'', VStr ''Knowledge workspaces to search (one or more)''),
                 (''items'', VMap [(''type'', VStr ''string''), (''enum'', VList (map VStr workspaceNames))]),
                 (''minItems'', VInt 1)]),
             (''query'', VMap [(''type'', VStr ''string''), (''description'', VStr ''Search query'')]),
             (''top_k'', VMap
                [(''type'', VStr ''integer''),
                 (''description'', VStr ''Number of results per workspace (1-20, default 5)'')])]),
         (''required'', VList [VStr ''workspaces'', VStr ''query''])]\<rparr>"

section \<open>Execute\<close>

text \<open>The environment of an execution: output formatting, the retry waits, the context with its timeout, a stack text.\<close>

record 'w agent_env =
  ae_fmtv :: "gval \<Rightarrow> string"
  ae_wait :: "'w \<Rightarrow> int \<Rightarrow> 'w \<times> error option"
  ae_ctxErr :: "'w \<Rightarrow> error option"
  ae_stack :: string

definition exec_config :: "'w BaseAgent \<Rightarrow> 'w ExecutionOption list \<Rightarrow> 'w ExecutionConfig" where
  "exec_config a options =
     (let cfg = ApplyOptions options zero_config;
          cfg1 = (if x_MaxSteps cfg = 0 then cfg\<lparr>x_MaxSteps := ac_MaxIterations (ba_config a)\<rparr> else cfg)
      in if x_Timeout cfg1 = 0 then cfg1\<lparr>x_Timeout := 120 * 10 ^ 9\<rparr> else cfg1)"

definition load_history :: "'w BaseAgent \<Rightarrow> 'w ExecutionConfig \<Rightarrow> 'w \<Rightarrow> 'w \<times> ChatMessage list" where
  "load_history a cfg w =
     (case ba_ChatStore a of
        Some cs \<Rightarrow>
          (if x_ConversationID cfg \<noteq> ''''
           then (case st_ListMessages cs w (x_TenantID cfg) (x_ConversationID cfg) (x_UserID cfg) of
                   (w', Inr msgs) \<Rightarrow> (w', msgs)
                 | (w', Inl err) \<Rightarrow> (w', []))
           else (w, []))
      | None \<Rightarrow> (w, []))"

definition init_state :: "'w BaseAgent \<Rightarrow> 'w ExecutionConfig \<Rightarrow> ChatMessage list \<Rightarrow> string \<Rightarrow> 'w ReActState" where
  "init_state a cfg history input =
     \<lparr>ra_TenantID = x_TenantID cfg, ra_TraceID = '''', ra_LLMAPIKeys = x_LLMAPIKeys cfg, ra_Model = ac_LLMModel (ba_config a),
      ra_AvailableTools =
        (if length (ac_KnowledgeWorkspaceNames (ba_config a)) > 0 \<and> x_RAGSearchFn cfg \<noteq> None
         then [search_tool (ac_KnowledgeWorkspaceNames (ba_config a))] else []) @ x_ExtraTools cfg,
      ra_Messages = BuildInitMessages (ac_SystemPrompt (ba_config a)) history (x_HistoryWindow cfg) @ [user_message input],
      ra_AllToolCalls = [], ra_Output = '''', ra_Steps = 0, ra_TotalTokens = 0, ra_OnToken = x_TokenCallback cfg,
      ra_RAGSearchFn = x_RAGSearchFn cfg\<rparr>"

type_synonym 'w exec_outcome = "'w \<times> ('w BaseAgent \<times> AgentResult \<times> error option) go"

definition run_react ::
  "'w agent_env \<Rightarrow> 'w BaseAgent \<Rightarrow> 'w ExecutionConfig \<Rightarrow> ChatMessage list \<Rightarrow> string \<Rightarrow> AgentResult \<Rightarrow> 'w \<Rightarrow> 'w exec_outcome" where
  "run_react env a cfg history input result w =
     (case ba_CapGateway a of
        None \<Rightarrow> (w, Ret (a, result, Some (ErrorString ''react: CapGateway not set'')))
      | Some route \<Rightarrow>
          (case BuildReActGraph route (ae_fmtv env) (ae_wait env) (ae_ctxErr env) of
             Inl buildErr \<Rightarrow> (w, Ret (a, result, Some (Wrapped ''react: build graph'' buildErr)))
           | Inr cg \<Rightarrow>
               (case Invoke cg (ae_ctxErr env) (ae_stack env) w (init_state a cfg history input) (x_MaxSteps cfg) of
                  (w', Ret (s, Some runErr)) \<Rightarrow> (w', Ret (a, result, Some (Wrapped ''react'' runErr)))
                | (w', Ret (s, None)) \<Rightarrow>
                    (w', Ret (a\<lparr>ba_StepsTaken := ra_Steps s\<rparr>,
                              result\<lparr>ar_Output := ra_Output s, ar_Steps := ra_Steps s, ar_TokensUsed := ra_TotalTokens s,
                                     ar_ToolCalls := ar_ToolCalls result @
                                       map (\<lambda>tc. \<lparr>at_ToolName = tc_Name tc, at_Input = tc_Arguments tc\<rparr>) (ra_AllToolCalls s)\<rparr>,
                              None))
                | (w', Panic m) \<Rightarrow> (w', Panic m)
                | (w', Deadlock) \<Rightarrow> (w', Deadlock))))"

text \<open>The loop of the chain-of-thought agent, with the number of turns left and the index.\<close>

fun cot_loop :: "string \<Rightarrow> nat \<Rightarrow> nat \<Rightarrow> 'w BaseAgent \<Rightarrow> AgentResult \<Rightarrow> 'w BaseAgent \<times> AgentResult" where
  "cot_loop input 0 i a result = (a, result)"
| "cot_loop input (Suc n) i a result =
     (let result' = result\<lparr>ar_Thoughts := ar_Thoughts result @
            [\<lparr>th_Step = i + 1, th_Observation = ''Thinking about: '' @ input, th_Thought = ''Considering possible responses''\<rparr>]\<rparr>;
          a' = a\<lparr>ba_StepsTaken := ba_StepsTaken a + 1\<rparr>
      in if i \<ge> 2 then (a', result'\<lparr>ar_Output := ''Response for: '' @ input\<rparr>)
         else cot_loop input n (Suc i) a' result')"

definition run_agent ::
  "'w agent_env \<Rightarrow> 'w BaseAgent \<Rightarrow> 'w ExecutionConfig \<Rightarrow> ChatMessage list \<Rightarrow> string \<Rightarrow> AgentResult \<Rightarrow> 'w \<Rightarrow> 'w exec_outcome" where
  "run_agent env a cfg history input result w =
     (let t = ac_Type (ba_config a) in
      if t = ReActAgent then run_react env a cfg history input result w
      else if t = CoTAgent
      then (case cot_loop input (nat (x_MaxSteps cfg)) 0 a result of (a', result') \<Rightarrow> (w, Ret (a', result', None)))
      else if t \<in> {PlanningAgent, ToolCallingAgent, RAGAgent, SwarmAgent}
      then (w, Ret (a, result\<lparr>ar_Output := t @ '' agent type not yet implemented''\<rparr>,
                    Some (ErrorString (''agent type '' @ t @ '' not implemented''))))
      else (w, Ret (a, result\<lparr>ar_Output := ''Unknown agent type''\<rparr>, Some (ErrorString (''unknown agent type: '' @ t)))))"

text \<open>The two messages of a successful execution are saved; a failure to save is only logged.\<close>

definition persist :: "'w BaseAgent \<Rightarrow> 'w ExecutionConfig \<Rightarrow> string \<Rightarrow> AgentResult \<Rightarrow> error option \<Rightarrow> 'w \<Rightarrow> 'w" where
  "persist a cfg input result execErr w =
     (case ba_ChatStore a of
        Some cs \<Rightarrow>
          (if x_ConversationID cfg \<noteq> '''' \<and> execErr = None
           then let w1 = fst (st_AddMessage cs w (x_TenantID cfg)
                    \<lparr>cm_ConversationID = x_ConversationID cfg, cm_Role = ''user'', cm_Content = input\<rparr>)
                in fst (st_AddMessage cs w1 (x_TenantID cfg)
                    \<lparr>cm_ConversationID = x_ConversationID cfg, cm_Role = ''agent'', cm_Content = ar_Output result\<rparr>)
           else w)
      | None \<Rightarrow> w)"

definition Execute_agent ::
  "'w agent_env \<Rightarrow> 'w BaseAgent \<Rightarrow> string \<Rightarrow> 'w ExecutionOption list \<Rightarrow> 'w \<Rightarrow> 'w exec_outcome" where
  "Execute_agent env a input options w =
     (let cfg = exec_config a options;
          result = \<lparr>ar_AgentID = ac_ID (ba_config a), ar_Input = input, ar_Output = '''', ar_Thoughts = [], ar_ToolCalls = [],
                    ar_Steps = 0, ar_TokensUsed = 0\<rparr>
      in case load_history a cfg w of
           (w0, history) \<Rightarrow>
             (case run_agent env a cfg history input result w0 of
                (w1, Ret (a', result', execErr)) \<Rightarrow>
                  (persist a cfg input result' execErr w1, Ret (a', result'\<lparr>ar_Steps := ba_StepsTaken a'\<rparr>, execErr))
              | (w1, Panic m) \<Rightarrow> (w1, Panic m)
              | (w1, Deadlock) \<Rightarrow> (w1, Deadlock)))"

section \<open>The message memory\<close>

text \<open>The memory is a bounded log; the entries are compared without the time stamps that adding sets.\<close>

interpretation agent_log: bounded_log "\<lambda>a. map (\<lambda>m. (am_Role m, am_Content m)) (ba_Memory a)"
  "\<lambda>a (r, c). AddToMemory now a \<lparr>am_Role = r, am_Content = c, am_Timestamp = t\<rparr>" 100
  for now t :: int
  by unfold_locales (auto simp: AddToMemory_def Let_def last_n_def drop_map)

text \<open>After any sequence of additions to a fresh agent, the memory holds the last 100 messages added, in order.\<close>

theorem memory_keeps_last_100:
  "map (\<lambda>m. (am_Role m, am_Content m)) (GetMemory (foldl (\<lambda>a (r, c). AddToMemory now a \<lparr>am_Role = r, am_Content = c, am_Timestamp = t\<rparr>)
     (NewBaseAgent config) ms)) = last_n 100 ms"
  using agent_log.entries_adds[of ms "NewBaseAgent config" now t] by (simp add: GetMemory_def NewBaseAgent_def)

section \<open>Successful ReAct executions\<close>

lemma BuildInitMessages_window:
  "BuildInitMessages sys history window =
     (if sys = '''' then [] else [\<lparr>lm_Role = ''system'', lm_Content = sys, lm_ToolCallID = '''', lm_ToolCalls = []\<rparr>]) @
     map history_message (last_n (if window \<le> 0 then 20 else nat window) history)"
  by (simp add: BuildInitMessages_def Let_def last_n_def)

lemma run_react_success:
  assumes "run_react env a cfg history input result w = (w', Ret (a', r, None))"
  shows "\<exists>route s rs. ba_CapGateway a = Some route \<and>
     conversation (init_state a cfg history input) rs [assistant_reply (ar_Output r)] (length rs + 1) s \<and>
     2 * length rs + 1 < effective_max (x_MaxSteps cfg) \<and> ba_StepsTaken a' = ra_Steps s \<and> ar_Output r = ra_Output s \<and>
     ar_ToolCalls r = ar_ToolCalls result @ map (\<lambda>tc. \<lparr>at_ToolName = tc_Name tc, at_Input = tc_Arguments tc\<rparr>) (ra_AllToolCalls s)"
proof -
  from assms obtain route where route: "ba_CapGateway a = Some route"
    by (auto simp: run_react_def split: option.splits)
  with assms obtain s where
      inv: "Invoke (react_graph route (ae_fmtv env) (ae_wait env) (ae_ctxErr env)) (ae_ctxErr env) (ae_stack env) w
        (init_state a cfg history input) (x_MaxSteps cfg) = (w', Ret (s, None))"
      and "a' = a\<lparr>ba_StepsTaken := ra_Steps s\<rparr>" and "ar_Output r = ra_Output s"
      and "ar_ToolCalls r = ar_ToolCalls result @ map (\<lambda>tc. \<lparr>at_ToolName = tc_Name tc, at_Input = tc_Arguments tc\<rparr>) (ra_AllToolCalls s)"
    by (auto simp: run_react_def BuildReActGraph_eq split: prod.splits go.splits option.splits)
  with react_run_rounds[OF inv] route show ?thesis by auto
qed

text \<open>C6: An execution of a ReAct agent that ends without error answers with the last assistant message of a
  conversation of complete tool-call rounds that starts from the system prompt, the most recent history and the user's
  input; it reports the tool calls of the rounds in order and as steps the number of assistant messages, and all of it
  takes fewer than MaxSteps node runs.\<close>

theorem execute_react_answers:
  assumes "ac_Type (ba_config a) = ReActAgent" and "Execute_agent env a input options w = (w', Ret (a', r, None))"
  shows "\<exists>history s rs. history = snd (load_history a (exec_config a options) w) \<and>
     conversation (init_state a (exec_config a options) history input) rs [assistant_reply (ar_Output r)] (length rs + 1) s \<and>
     ar_Steps r = int (length rs + 1) \<and> map at_ToolName (ar_ToolCalls r) = map tc_Name (concat (map fst rs)) \<and>
     2 * length rs + 1 < effective_max (x_MaxSteps (exec_config a options))"
proof -
  let ?cfg = "exec_config a options"
  let ?r0 = "\<lparr>ar_AgentID = ac_ID (ba_config a), ar_Input = input, ar_Output = '''', ar_Thoughts = [], ar_ToolCalls = [],
    ar_Steps = 0, ar_TokensUsed = 0\<rparr>"
  obtain w0 history where hist: "load_history a ?cfg w = (w0, history)" by fastforce
  with assms obtain w1 r1 where run: "run_react env a ?cfg history input ?r0 w0 = (w1, Ret (a', r1, None))"
      and r: "r = r1\<lparr>ar_Steps := ba_StepsTaken a'\<rparr>"
    by (auto simp: Execute_agent_def run_agent_def Let_def split: prod.splits go.splits)
  from run_react_success[OF run] obtain s rs where
      conv: "conversation (init_state a ?cfg history input) rs [assistant_reply (ar_Output r1)] (length rs + 1) s"
      and fuel: "2 * length rs + 1 < effective_max (x_MaxSteps ?cfg)" and steps: "ba_StepsTaken a' = ra_Steps s"
      and calls: "ar_ToolCalls r1 = map (\<lambda>tc. \<lparr>at_ToolName = tc_Name tc, at_Input = tc_Arguments tc\<rparr>) (ra_AllToolCalls s)"
    by auto
  have "ra_Steps s = int (length rs + 1)" and "ra_AllToolCalls s = concat (map fst rs)"
    using conv by (simp_all add: conversation_def init_state_def)
  with conv fuel steps calls hist r show ?thesis
    by (intro exI[of _ history] exI[of _ s] exI[of _ rs]) (simp add: comp_def)
qed

definition demo_agent :: "nat BaseAgent" where
  "demo_agent = SetCapGateway (Some (\<lambda>w req. (Suc w, Ret (zero_response\<lparr>cs_Content := ''Hello''\<rparr>, None))))
     (NewBaseAgent \<lparr>ac_ID = ''a'', ac_Type = ReActAgent, ac_SystemPrompt = '''', ac_LLMModel = ''qwen-max'', ac_MaxIterations = 2,
        ac_KnowledgeWorkspaceNames = []\<rparr>)"

definition demo_env :: "nat agent_env" where
  "demo_env = \<lparr>ae_fmtv = (\<lambda>v. []), ae_wait = (\<lambda>w d. (w, None)), ae_ctxErr = (\<lambda>w. None), ae_stack = []\<rparr>"

lemma demo_execution:
  "\<exists>a' r. Execute_agent demo_env demo_agent ''Hi'' [] 0 = (1, Ret (a', r, None)) \<and> ar_Output r = ''Hello'' \<and> ar_Steps r = 1"
proof -
  note defs = Execute_agent_def run_agent_def run_react_def BuildReActGraph_eq Invoke_def effective_max_def demo_agent_def
    demo_env_def SetCapGateway_def NewBaseAgent_def exec_config_def zero_config_def load_history_def init_state_def
  note nodes = invoke_body_def run_node_def react_nodes react_next makeLLMNode_def RetryFn_def DefaultRetry_def
    numeral_3_eq_3 numeral_2_eq_2 absorb_def zero_response_def after_llm_def Let_def persist_def assistant_reply_def
  show ?thesis by (simp add: defs nodes)
qed

theorem execute_react_answers_witness:
  "\<exists>a' r. Execute_agent demo_env demo_agent ''Hi'' [] 0 = (1, Ret (a', r, None)) \<and>
     (\<exists>history s rs. history = snd (load_history demo_agent (exec_config demo_agent []) 0) \<and>
        conversation (init_state demo_agent (exec_config demo_agent []) history ''Hi'') rs [assistant_reply (ar_Output r)] (length rs + 1) s \<and>
        ar_Steps r = int (length rs + 1) \<and> map at_ToolName (ar_ToolCalls r) = map tc_Name (concat (map fst rs)) \<and>
        2 * length rs + 1 < effective_max (x_MaxSteps (exec_config demo_agent [])))"
proof -
  have t: "ac_Type (ba_config demo_agent) = ReActAgent" by (simp add: demo_agent_def SetCapGateway_def NewBaseAgent_def)
  obtain a' r where "Execute_agent demo_env demo_agent ''Hi'' [] 0 = (1, Ret (a', r, None))" using demo_execution by blast
  with execute_react_answers[OF t this] show ?thesis by blast
qed

section \<open>Step counts\<close>

lemma cot_loop_steps:
  "ba_StepsTaken (fst (cot_loop input n 0 a r)) = ba_StepsTaken a + int (min 3 n)"
  "ar_Output (snd (cot_loop input n 0 a r)) = (if n < 3 then ar_Output r else ''Response for: '' @ input)"
  "ar_Thoughts (snd (cot_loop input n 0 a r)) = ar_Thoughts r @ map (\<lambda>i. \<lparr>th_Step = i, th_Observation = ''Thinking about: '' @ input,
     th_Thought = ''Considering possible responses''\<rparr>) [1..<Suc (min 3 n)]"
proof -
  consider "n = 0" | "n = 1" | "n = 2" | m where "n = Suc (Suc (Suc m))"
    by (metis One_nat_def Suc_1 not0_implies_Suc)
  note cs = this
  show "ba_StepsTaken (fst (cot_loop input n 0 a r)) = ba_StepsTaken a + int (min 3 n)"
    using cs by cases (simp_all add: numeral_2_eq_2 Let_def)
  show "ar_Output (snd (cot_loop input n 0 a r)) = (if n < 3 then ar_Output r else ''Response for: '' @ input)"
    using cs by cases (simp_all add: numeral_2_eq_2 Let_def)
  show "ar_Thoughts (snd (cot_loop input n 0 a r)) = ar_Thoughts r @ map (\<lambda>i. \<lparr>th_Step = i, th_Observation = ''Thinking about: '' @ input,
     th_Thought = ''Considering possible responses''\<rparr>) [1..<Suc (min 3 n)]"
    using cs by cases (simp_all add: numeral_2_eq_2 numeral_3_eq_3 Let_def upt_rec)
qed

text \<open>An execution of a chain-of-thought agent never fails; it makes at most three thoughts, has an output exactly
  when three steps are allowed, and reports as its steps the steps of all executions since the last reset.\<close>

theorem cot_steps_accumulate:
  assumes "ac_Type (ba_config a) = CoTAgent" and "x_MaxSteps (exec_config a options) = int n"
  shows "\<exists>w' a' r. Execute_agent env a input options w = (w', Ret (a', r, None)) \<and>
     length (ar_Thoughts r) = min 3 n \<and> ar_Output r = (if n < 3 then '''' else ''Response for: '' @ input) \<and>
     ar_Steps r = ba_StepsTaken a + int (min 3 n) \<and> ba_StepsTaken a' = ba_StepsTaken a + int (min 3 n)"
proof -
  let ?r0 = "\<lparr>ar_AgentID = ac_ID (ba_config a), ar_Input = input, ar_Output = '''', ar_Thoughts = [], ar_ToolCalls = [],
    ar_Steps = 0, ar_TokensUsed = 0\<rparr>"
  obtain a' r1 where cot: "cot_loop input n 0 a ?r0 = (a', r1)" by fastforce
  have "ba_StepsTaken a' = ba_StepsTaken a + int (min 3 n)" "ar_Output r1 = (if n < 3 then '''' else ''Response for: '' @ input)"
    "length (ar_Thoughts r1) = min 3 n"
    using cot_loop_steps[of input n a ?r0] cot by simp_all
  moreover have "CoTAgent \<noteq> ReActAgent" by (simp add: agent_types)
  ultimately show ?thesis using assms cot
    by (cases "load_history a (exec_config a options) w") (simp add: Execute_agent_def run_agent_def Let_def)
qed

theorem cot_steps_accumulate_witness:
  "\<exists>w' a' r. Execute_agent demo_env (demo_agent\<lparr>ba_config := ba_config demo_agent\<lparr>ac_Type := CoTAgent\<rparr>, ba_StepsTaken := 3\<rparr>)
       ''Hi'' [WithMaxSteps 5] 0 = (w', Ret (a', r, None)) \<and>
     length (ar_Thoughts r) = min 3 5 \<and> ar_Output r = (if (5 :: nat) < 3 then '''' else ''Response for: '' @ ''Hi'') \<and>
     ar_Steps r = 3 + int (min 3 5) \<and> ba_StepsTaken a' = 3 + int (min 3 5)"
  using cot_steps_accumulate[of "demo_agent\<lparr>ba_config := ba_config demo_agent\<lparr>ac_Type := CoTAgent\<rparr>, ba_StepsTaken := 3\<rparr>"
      "[WithMaxSteps 5]" 5 demo_env "''Hi''" 0]
  by (simp add: exec_config_def WithMaxSteps_def zero_config_def Let_def)

end
