(* ===== verification/Harness.thy ===== *)
theory Harness
  imports Go_Base
begin

text \<open>
  The component harness, internal/harness/harness.go, and its component helpers, component.go:
  registration, start with rollback, stop, health checks, the simple components and their builder,
  and the dependency container. A component's functions are functions of the world.

  The components are a Go map. Every range loop over it visits the keys in an order of its own, so
  each loop takes its order as an argument: Start the order of its loop and the order of the
  rollback loop, Stop the order of its loop.

  Proved: registration guards; what Start does on success and on failure, with the components that
  the rollback stops; that the rollback is right when both loops agree and may leave a started
  component running when they do not; that Stop stops every component once; that a container is a
  keyed map.
\<close>

section \<open>Components\<close>

record 'w Component =
  co_Name :: string
  co_Start :: "'w \<Rightarrow> 'w \<times> error option"
  co_Stop :: "'w \<Rightarrow> 'w \<times> error option"
  co_HealthCheck :: "'w \<Rightarrow> 'w \<times> error option"

type_synonym 'w component_fn = "'w \<Rightarrow> 'w \<times> error option"

definition BaseComponent :: "string \<Rightarrow> 'w Component" where
  "BaseComponent name = \<lparr>co_Name = name, co_Start = (\<lambda>w. (w, None)), co_Stop = (\<lambda>w. (w, None)), co_HealthCheck = (\<lambda>w. (w, None))\<rparr>"

record 'w SimpleComponent =
  sc_name :: string
  sc_startFunc :: "'w component_fn option"
  sc_stopFunc :: "'w component_fn option"
  sc_healthCheckFunc :: "'w component_fn option"

type_synonym 'w SimpleComponentOption = "'w SimpleComponent \<Rightarrow> 'w SimpleComponent"

definition WithStartFunc :: "'w component_fn option \<Rightarrow> 'w SimpleComponentOption" where
  "WithStartFunc fn c = c\<lparr>sc_startFunc := fn\<rparr>"

definition WithStopFunc :: "'w component_fn option \<Rightarrow> 'w SimpleComponentOption" where
  "WithStopFunc fn c = c\<lparr>sc_stopFunc := fn\<rparr>"

definition WithHealthCheckFunc :: "'w component_fn option \<Rightarrow> 'w SimpleComponentOption" where
  "WithHealthCheckFunc fn c = c\<lparr>sc_healthCheckFunc := fn\<rparr>"

definition NewSimpleComponent :: "string \<Rightarrow> 'w SimpleComponentOption list \<Rightarrow> 'w SimpleComponent" where
  "NewSimpleComponent name opts =
     foldl (\<lambda>c opt. opt c) \<lparr>sc_name = name, sc_startFunc = None, sc_stopFunc = None, sc_healthCheckFunc = None\<rparr> opts"

definition call_fn :: "'w component_fn option \<Rightarrow> 'w component_fn" where
  "call_fn fn w = (case fn of Some f \<Rightarrow> f w | None \<Rightarrow> (w, None))"

text \<open>The methods of a simple component: each calls its function when it is set.\<close>

definition simple_component :: "'w SimpleComponent \<Rightarrow> 'w Component" where
  "simple_component s =
     \<lparr>co_Name = sc_name s, co_Start = call_fn (sc_startFunc s), co_Stop = call_fn (sc_stopFunc s),
      co_HealthCheck = call_fn (sc_healthCheckFunc s)\<rparr>"

record ('w, 'd) ComponentBuilder =
  cb_name :: string
  cb_deps :: "string \<rightharpoonup> 'd"
  cb_startFn :: "('w \<Rightarrow> (string \<rightharpoonup> 'd) \<Rightarrow> 'w \<times> error option) option"
  cb_stopFn :: "'w component_fn option"
  cb_healthFn :: "'w component_fn option"

definition NewComponentBuilder :: "string \<Rightarrow> ('w, 'd) ComponentBuilder" where
  "NewComponentBuilder name = \<lparr>cb_name = name, cb_deps = Map.empty, cb_startFn = None, cb_stopFn = None, cb_healthFn = None\<rparr>"

definition WithDependency :: "string \<Rightarrow> 'd \<Rightarrow> ('w, 'd) ComponentBuilder \<Rightarrow> ('w, 'd) ComponentBuilder" where
  "WithDependency name dep b = b\<lparr>cb_deps := (cb_deps b)(name \<mapsto> dep)\<rparr>"

definition WithStart :: "('w \<Rightarrow> (string \<rightharpoonup> 'd) \<Rightarrow> 'w \<times> error option) option \<Rightarrow> ('w, 'd) ComponentBuilder \<Rightarrow> ('w, 'd) ComponentBuilder" where
  "WithStart fn b = b\<lparr>cb_startFn := fn\<rparr>"

definition WithStop :: "'w component_fn option \<Rightarrow> ('w, 'd) ComponentBuilder \<Rightarrow> ('w, 'd) ComponentBuilder" where
  "WithStop fn b = b\<lparr>cb_stopFn := fn\<rparr>"

definition WithHealthCheck :: "'w component_fn option \<Rightarrow> ('w, 'd) ComponentBuilder \<Rightarrow> ('w, 'd) ComponentBuilder" where
  "WithHealthCheck fn b = b\<lparr>cb_healthFn := fn\<rparr>"

definition Build :: "('w, 'd) ComponentBuilder \<Rightarrow> 'w Component" where
  "Build b =
     simple_component \<lparr>sc_name = cb_name b,
       sc_startFunc = Some (\<lambda>w. case cb_startFn b of Some f \<Rightarrow> f w (cb_deps b) | None \<Rightarrow> (w, None)),
       sc_stopFunc = Some (call_fn (cb_stopFn b)),
       sc_healthCheckFunc = Some (call_fn (cb_healthFn b))\<rparr>"

section \<open>The harness\<close>

record 'w Harness =
  h_components :: "string \<rightharpoonup> 'w Component"
  h_started :: bool

definition NewHarness :: "'w Harness" where
  "NewHarness = \<lparr>h_components = Map.empty, h_started = False\<rparr>"

definition h_Register :: "'w Component \<Rightarrow> 'w Harness \<Rightarrow> error option \<times> 'w Harness" where
  "h_Register cmp h =
     (if h_started h then (Some (ErrorString ''cannot register component after harness is started''), h)
      else let name = co_Name cmp
           in if h_components h name \<noteq> None then (Some (ErrorString (''component already registered: '' @ name)), h)
              else (None, h\<lparr>h_components := (h_components h)(name \<mapsto> cmp)\<rparr>))"

text \<open>The rollback loop: it stops the components it visits until it meets the failed one.\<close>

fun stopStartedComponents :: "'w Harness \<Rightarrow> string \<Rightarrow> string list \<Rightarrow> 'w \<Rightarrow> 'w" where
  "stopStartedComponents h failedName [] w = w"
| "stopStartedComponents h failedName (n # ns) w =
     (if n = failedName then w
      else case h_components h n of
             None \<Rightarrow> stopStartedComponents h failedName ns w
           | Some cmp \<Rightarrow> stopStartedComponents h failedName ns (fst (co_Stop cmp w)))"

text \<open>The start loop in the order \<open>ns\<close>; \<open>rollback\<close> is the order of the loop of stopStartedComponents.\<close>

fun start_loop :: "'w Harness \<Rightarrow> string list \<Rightarrow> string list \<Rightarrow> 'w \<Rightarrow> 'w \<times> error option" where
  "start_loop h rollback [] w = (w, None)"
| "start_loop h rollback (n # ns) w =
     (case h_components h n of
        None \<Rightarrow> start_loop h rollback ns w
      | Some cmp \<Rightarrow>
          (case co_Start cmp w of
             (w', Some err) \<Rightarrow>
               (stopStartedComponents h n rollback w', Some (Wrapped (''failed to start component '' @ n) err))
           | (w', None) \<Rightarrow> start_loop h rollback ns w'))"

definition h_Start :: "'w Harness \<Rightarrow> string list \<Rightarrow> string list \<Rightarrow> 'w \<Rightarrow> 'w \<times> 'w Harness \<times> error option" where
  "h_Start h order rollback w =
     (if h_started h then (w, h, Some (ErrorString ''harness already started''))
      else case start_loop h rollback order w of
             (w', Some err) \<Rightarrow> (w', h, Some err)
           | (w', None) \<Rightarrow> (w', h\<lparr>h_started := True\<rparr>, None))"

text \<open>getRegistrationOrder collects the keys of the map, in the order its range loop visits them.\<close>

definition getRegistrationOrder :: "'w Harness \<Rightarrow> string list \<Rightarrow> string list" where
  "getRegistrationOrder h order = filter (\<lambda>n. h_components h n \<noteq> None) order"

fun stop_loop :: "'w Harness \<Rightarrow> string list \<Rightarrow> 'w \<Rightarrow> 'w" where
  "stop_loop h [] w = w"
| "stop_loop h (n # ns) w =
     stop_loop h ns (case h_components h n of None \<Rightarrow> w | Some cmp \<Rightarrow> fst (co_Stop cmp w))"

definition h_Stop :: "'w Harness \<Rightarrow> string list \<Rightarrow> 'w \<Rightarrow> 'w \<times> 'w Harness \<times> error option" where
  "h_Stop h order w =
     (if \<not> h_started h then (w, h, None)
      else (stop_loop h (rev (getRegistrationOrder h order)) w, h\<lparr>h_started := False\<rparr>, None))"

fun health_loop :: "'w Harness \<Rightarrow> string list \<Rightarrow> 'w \<Rightarrow> (string \<rightharpoonup> error option) \<Rightarrow> 'w \<times> (string \<rightharpoonup> error option)" where
  "health_loop h [] w results = (w, results)"
| "health_loop h (n # ns) w results =
     (case h_components h n of
        None \<Rightarrow> health_loop h ns w results
      | Some cmp \<Rightarrow> (case co_HealthCheck cmp w of (w', e) \<Rightarrow> health_loop h ns w' (results(n \<mapsto> e))))"

definition h_HealthCheck :: "'w Harness \<Rightarrow> string list \<Rightarrow> 'w \<Rightarrow> 'w \<times> (string \<rightharpoonup> error option)" where
  "h_HealthCheck h order w = health_loop h order w Map.empty"

definition GetComponent :: "'w Harness \<Rightarrow> string \<Rightarrow> 'w Component option" where
  "GetComponent h name = h_components h name"

text \<open>Run: \<open>await\<close> is the wait for the end of the context, with the error of the context.\<close>

definition Run :: "'w Harness \<Rightarrow> string list \<Rightarrow> string list \<Rightarrow> string list \<Rightarrow> ('w \<Rightarrow> 'w \<times> error) \<Rightarrow> 'w \<Rightarrow> 'w \<times> 'w Harness \<times> error option" where
  "Run h order rollback stopOrder await w =
     (case h_Start h order rollback w of
        (w1, h1, Some err) \<Rightarrow> (w1, h1, Some err)
      | (w1, h1, None) \<Rightarrow>
          (case await w1 of (w2, ctxErr) \<Rightarrow> (case h_Stop h1 stopOrder w2 of (w3, h3, _) \<Rightarrow> (w3, h3, Some ctxErr))))"

section \<open>The dependency container\<close>

type_synonym 'd DependencyContainer = "string \<rightharpoonup> 'd"

definition NewDependencyContainer :: "'d DependencyContainer" where
  "NewDependencyContainer = Map.empty"

definition dc_Register :: "'d DependencyContainer \<Rightarrow> string \<Rightarrow> 'd \<Rightarrow> 'd DependencyContainer" where
  "dc_Register c name dep = c(name \<mapsto> dep)"

definition dc_Get :: "'d DependencyContainer \<Rightarrow> string \<Rightarrow> 'd option" where
  "dc_Get c name = c name"

definition MustGet :: "'d DependencyContainer \<Rightarrow> string \<Rightarrow> 'd go" where
  "MustGet c name = (case dc_Get c name of Some dep \<Rightarrow> Ret dep | None \<Rightarrow> Panic (''dependency not found: '' @ name))"

text \<open>\<open>cast\<close> is the type assertion to the type parameter.\<close>

definition GetTyped :: "('d \<Rightarrow> 't option) \<Rightarrow> 'd DependencyContainer \<Rightarrow> string \<Rightarrow> 't option" where
  "GetTyped cast c name = (case dc_Get c name of None \<Rightarrow> None | Some dep \<Rightarrow> cast dep)"

definition MustGetTyped :: "('d \<Rightarrow> 't option) \<Rightarrow> 'd DependencyContainer \<Rightarrow> string \<Rightarrow> 't go" where
  "MustGetTyped cast c name =
     (case GetTyped cast c name of Some dep \<Rightarrow> Ret dep | None \<Rightarrow> Panic (''typed dependency not found: '' @ name))"

interpretation deps: keyed_map dc_Get dc_Register NewDependencyContainer
  by unfold_locales (auto simp: dc_Get_def dc_Register_def NewDependencyContainer_def)

text \<open>A container that holds what the calls of Register gave it, the last one for a name winning, panics exactly for
  names that were never registered.\<close>

lemma container_lookup:
  "MustGet (foldl (\<lambda>c (n, d). dc_Register c n d) NewDependencyContainer kvs) name =
     (case map_of (rev kvs) name of Some d \<Rightarrow> Ret d | None \<Rightarrow> Panic (''dependency not found: '' @ name))"
  unfolding MustGet_def deps.get_puts_empty ..

section \<open>Registration\<close>

definition harness_ok :: "'w Harness \<Rightarrow> bool" where
  "harness_ok h \<longleftrightarrow> (\<forall>n c. h_components h n = Some c \<longrightarrow> co_Name c = n) \<and> finite (dom (h_components h))"

lemma Register_ok: "harness_ok h \<Longrightarrow> harness_ok (snd (h_Register cmp h))"
  by (auto simp: harness_ok_def h_Register_def Let_def)

lemma Register_get:
  "fst (h_Register cmp h) = None \<Longrightarrow>
     \<not> h_started h \<and> GetComponent h (co_Name cmp) = None \<and>
     GetComponent (snd (h_Register cmp h)) = (GetComponent h)(co_Name cmp \<mapsto> cmp)"
  by (auto simp: h_Register_def GetComponent_def Let_def fun_eq_iff split: if_splits)

section \<open>Start and its rollback\<close>

text \<open>Starting the components of a list one after the other, as long as none fails.\<close>

fun start_all :: "'w Harness \<Rightarrow> string list \<Rightarrow> 'w \<Rightarrow> 'w option" where
  "start_all h [] w = Some w"
| "start_all h (n # ns) w =
     (case h_components h n of
        None \<Rightarrow> start_all h ns w
      | Some cmp \<Rightarrow> (case co_Start cmp w of (w', None) \<Rightarrow> start_all h ns w' | (w', Some e) \<Rightarrow> None))"

lemma stopStarted_takeWhile:
  "stopStartedComponents h failed ns w = stop_loop h (takeWhile (\<lambda>n. n \<noteq> failed) ns) w"
  by (induction ns arbitrary: w) (auto split: option.split)

text \<open>The failure of a start: the components before it are up, it failed, and the rollback has run.\<close>

definition start_failed :: "'w Harness \<Rightarrow> string list \<Rightarrow> string list \<Rightarrow> 'w \<Rightarrow> 'w \<Rightarrow> error \<Rightarrow> bool" where
  "start_failed h order rollback w w' e \<longleftrightarrow>
     (\<exists>pre n post w1 w2 cmp err. order = pre @ n # post \<and> start_all h pre w = Some w1 \<and> h_components h n = Some cmp \<and>
        co_Start cmp w1 = (w2, Some err) \<and> e = Wrapped (''failed to start component '' @ n) err \<and>
        w' = stop_loop h (takeWhile (\<lambda>m. m \<noteq> n) rollback) w2)"

lemma start_failed_Cons:
  assumes "start_failed h ns rollback w1 w' e" and "start_all h [n] w = Some w1"
  shows "start_failed h (n # ns) rollback w w' e"
proof -
  from assms(1) obtain pre m post w2 w3 cmp err where f: "ns = pre @ m # post" "start_all h pre w1 = Some w2"
      "h_components h m = Some cmp" "co_Start cmp w2 = (w3, Some err)" "e = Wrapped (''failed to start component '' @ m) err"
      "w' = stop_loop h (takeWhile (\<lambda>x. x \<noteq> m) rollback) w3"
    unfolding start_failed_def by blast
  moreover have "start_all h (n # pre) w = Some w2"
    using assms(2) f(2) by (auto split: option.splits prod.splits)
  ultimately show ?thesis unfolding start_failed_def by (metis append_Cons)
qed

lemma start_loop_outcome:
  "(case start_loop h rollback order w of
      (w', None) \<Rightarrow> start_all h order w = Some w'
    | (w', Some e) \<Rightarrow> start_failed h order rollback w w' e)"
proof (induction order arbitrary: w)
  case Nil
  then show ?case by simp
next
  case (Cons n ns)
  show ?case
  proof (cases "h_components h n")
    case None
    then have "start_all h [n] w = Some w" by simp
    with None Cons.IH[of w] show ?thesis by (auto split: prod.splits option.splits intro: start_failed_Cons)
  next
    case (Some cmp)
    obtain w1 r where st: "co_Start cmp w = (w1, r)" by fastforce
    show ?thesis
    proof (cases r)
      case None
      then have "start_all h [n] w = Some w1" using Some st by simp
      with None Some st Cons.IH[of w1] show ?thesis by (auto split: prod.splits option.splits intro: start_failed_Cons)
    next
      case r: (Some err)
      have "start_failed h (n # ns) rollback w (stop_loop h (takeWhile (\<lambda>m. m \<noteq> n) rollback) w1)
          (Wrapped (''failed to start component '' @ n) err)"
        unfolding start_failed_def using Some st r
        by (intro exI[of _ "[]"] exI[of _ n] exI[of _ ns] exI[of _ w] exI[of _ w1] exI[of _ cmp] exI[of _ err]) simp
      with r Some st show ?thesis by (simp add: stopStarted_takeWhile)
    qed
  qed
qed

lemma takeWhile_before: "distinct (pre @ n # post) \<Longrightarrow> takeWhile (\<lambda>m. m \<noteq> n) (pre @ n # post) = pre"
  by (subst takeWhile_append2) auto

text \<open>C35: Start of a stopped harness starts its components one after the other. It succeeds exactly when all of them
  start; otherwise it reports the first failure, the harness stays stopped, and the rollback stops the components that
  its own range loop meets before the failed one. If that loop visits the map in the order of the start loop, exactly the
  components that had been started are stopped.\<close>

theorem harness_start:
  assumes "ranges (h_components h) order" and "\<not> h_started h"
  shows "(case h_Start h order rollback w of
      (w', h', None) \<Rightarrow> start_all h order w = Some w' \<and> h' = h\<lparr>h_started := True\<rparr>
    | (w', h', Some e) \<Rightarrow> h' = h \<and> start_failed h order rollback w w' e) \<and>
    (case h_Start h order order w of
      (w', h', None) \<Rightarrow> True
    | (w', h', Some e) \<Rightarrow> (\<exists>pre n post w1 w2 cmp err. order = pre @ n # post \<and> start_all h pre w = Some w1 \<and>
        h_components h n = Some cmp \<and> co_Start cmp w1 = (w2, Some err) \<and> w' = stop_loop h pre w2))"
proof
  show "case h_Start h order rollback w of
      (w', h', None) \<Rightarrow> start_all h order w = Some w' \<and> h' = h\<lparr>h_started := True\<rparr>
    | (w', h', Some e) \<Rightarrow> h' = h \<and> start_failed h order rollback w w' e"
    using start_loop_outcome[where h = h and rollback = rollback and order = order and w = w] assms(2) by (auto simp: h_Start_def split: prod.splits option.splits)
  have "start_failed h order order w w' e \<Longrightarrow> \<exists>pre n post w1 w2 cmp err. order = pre @ n # post \<and> start_all h pre w = Some w1 \<and>
        h_components h n = Some cmp \<and> co_Start cmp w1 = (w2, Some err) \<and> w' = stop_loop h pre w2" for w' e
    using assms(1) unfolding start_failed_def ranges_def by (metis takeWhile_before)
  then show "case h_Start h order order w of
      (w', h', None) \<Rightarrow> True
    | (w', h', Some e) \<Rightarrow> (\<exists>pre n post w1 w2 cmp err. order = pre @ n # post \<and> start_all h pre w = Some w1 \<and>
        h_components h n = Some cmp \<and> co_Start cmp w1 = (w2, Some err) \<and> w' = stop_loop h pre w2)"
    using start_loop_outcome[where h = h and rollback = order and order = order and w = w] assms(2) by (auto simp: h_Start_def split: prod.splits option.splits)
qed

text \<open>Components whose world is the list of the names that run; the second argument tells whether the start fails.\<close>

definition tracked :: "string \<Rightarrow> bool \<Rightarrow> string list Component" where
  "tracked name fails =
     \<lparr>co_Name = name, co_Start = (\<lambda>w. if fails then (w, Some (ErrorString ''down'')) else (name # w, None)),
      co_Stop = (\<lambda>w. (remove1 name w, None)), co_HealthCheck = (\<lambda>w. (w, None))\<rparr>"

definition two_components :: "string list Harness" where
  "two_components = snd (h_Register (tracked ''db'' False) (snd (h_Register (tracked ''api'' True) NewHarness)))"

lemma two_components_map: "h_components two_components = [''api'' \<mapsto> tracked ''api'' True, ''db'' \<mapsto> tracked ''db'' False]"
  "\<not> h_started two_components"
  by (simp_all add: two_components_def h_Register_def NewHarness_def tracked_def Let_def fun_eq_iff)

lemma two_components_ranges: "ranges (h_components two_components) [''db'', ''api'']" "ranges (h_components two_components) [''api'', ''db'']"
  by (auto simp: ranges_def two_components_map)

theorem harness_start_witness:
  "(case h_Start two_components [''db'', ''api''] [''db'', ''api''] [] of
      (w', h', None) \<Rightarrow> start_all two_components [''db'', ''api''] [] = Some w' \<and> h' = two_components\<lparr>h_started := True\<rparr>
    | (w', h', Some e) \<Rightarrow> h' = two_components \<and> start_failed two_components [''db'', ''api''] [''db'', ''api''] [] w' e)"
  using harness_start[OF two_components_ranges(1) two_components_map(2), of "[]" "[''db'', ''api'']"] by (rule conjunct1)

text \<open>The two range loops of a failing Start choose their orders independently, and then the rollback may leave a
  started component running: with a database that starts and an interface that fails, one pair of orders of the same map
  leaves nothing running and another leaves the database running although Start has failed.\<close>

theorem rollback_may_leak:
  "ranges (h_components two_components) [''db'', ''api''] \<and> ranges (h_components two_components) [''api'', ''db''] \<and>
   fst (h_Start two_components [''db'', ''api''] [''db'', ''api''] []) = [] \<and>
   fst (h_Start two_components [''db'', ''api''] [''api'', ''db''] []) = [''db''] \<and>
   snd (snd (h_Start two_components [''db'', ''api''] [''api'', ''db''] [])) =
     Some (Wrapped ''failed to start component api'' (ErrorString ''down''))"
  using two_components_ranges two_components_map by (simp add: h_Start_def tracked_def)

section \<open>Stop\<close>

lemma Stop_all_once:
  assumes "ranges (h_components h) order" and "h_started h"
  shows "\<exists>ns. ranges (h_components h) ns \<and> h_Stop h order w = (stop_loop h ns w, h\<lparr>h_started := False\<rparr>, None)"
proof -
  have "getRegistrationOrder h order = order"
    using assms(1) by (auto simp: getRegistrationOrder_def ranges_def filter_id_conv)
  then show ?thesis using assms by (intro exI[of _ "rev order"]) (simp add: h_Stop_def ranges_def)
qed

lemma Stop_idempotent: "snd (snd (h_Stop h order w)) = None" "\<not> h_started h \<Longrightarrow> h_Stop h order w = (w, h, None)"
  by (simp_all add: h_Stop_def)

end
