(* ===== verification/Memory.thy ===== *)
theory Memory
  imports Go_Strings
begin

text \<open>
  The agents' memories, internal/memory: the types and defaults (types.go, defaults.go), the filter
  (interface.go) and the three short-term memories (short_term.go): the buffer, the sliding window
  and the summary. Times are integers, zero being Go's zero time. Every Add is given an entry object
  of its own, so entries are values; the id that Add makes up for an entry without one is the
  argument \<open>uuid\<close>. The mutexes of the memories make each operation atomic. The summary memory
  embeds a pointer to a buffer memory that its constructor leaves nil.

  Proved: Search returns the matching entries, oldest first, up to the limit, and only entries of the
  requested tenant, user and session; the keyword match is the case-insensitive substring test; the
  window keeps the most recent entries and the buffer the configured number; lookups after Add and
  Delete; the operations of the summary memory that panic; ApplyFilter panics without its times.
\<close>

section \<open>Types\<close>

type_synonym MemoryType = string

definition ShortTermMemory :: MemoryType where "ShortTermMemory = ''short_term''"
definition LongTermMemory :: MemoryType where "LongTermMemory = ''long_term''"
definition EntityTypeMemory :: MemoryType where "EntityTypeMemory = ''entity''"
definition SummaryMemory :: MemoryType where "SummaryMemory = ''summary''"

record MemoryEntry =
  me_ID :: string
  me_Type :: MemoryType
  me_Role :: string
  me_Content :: string
  me_Timestamp :: int
  me_TenantID :: string
  me_UserID :: string
  me_SessionID :: string
  me_AgentID :: string
  me_Metadata :: "(string \<times> gval) list"
  me_Vector :: "rat list"
  me_Tags :: "string list"
  me_Importance :: rat
  me_ExpiresAt :: int

record MemoryConfig =
  mc_MaxShortTermMessages :: int
  mc_ShortTermWindowSize :: int
  mc_EnableSummary :: bool
  mc_EnableVectorSearch :: bool
  mc_VectorCollection :: string
  mc_MaxVectorResults :: int
  mc_MinRelevanceScore :: rat
  mc_EnableEntityExtraction :: bool
  mc_EntityThreshold :: rat
  mc_EnablePersistence :: bool
  mc_PersistenceInterval :: int
  mc_MaxMemoryAge :: int

definition DefaultWindowSize :: int where "DefaultWindowSize = 10"
definition DefaultMaxMessages :: int where "DefaultMaxMessages = 100"
definition DefaultPersistInterval :: int where "DefaultPersistInterval = 5 * 60 * 10 ^ 9"
definition DefaultMaxMemoryAge :: int where "DefaultMaxMemoryAge = 30 * 24 * 3600 * 10 ^ 9"

definition DefaultMemoryConfig :: MemoryConfig where
  "DefaultMemoryConfig =
     \<lparr>mc_MaxShortTermMessages = DefaultMaxMessages, mc_ShortTermWindowSize = DefaultWindowSize, mc_EnableSummary = True,
      mc_EnableVectorSearch = True, mc_VectorCollection = ''memory_vectors'', mc_MaxVectorResults = 5,
      mc_MinRelevanceScore = 7 / 10, mc_EnableEntityExtraction = True, mc_EntityThreshold = 8 / 10,
      mc_EnablePersistence = True, mc_PersistenceInterval = DefaultPersistInterval, mc_MaxMemoryAge = DefaultMaxMemoryAge\<rparr>"

record SessionContext =
  sx_TenantID :: string
  sx_UserID :: string
  sx_SessionID :: string
  sx_AgentID :: string

record TimeRange =
  tr_From :: int
  tr_To :: int

record MemorySearchRequest =
  mq_Query :: string
  mq_Context :: "SessionContext option"
  mq_Types :: "MemoryType list"
  mq_Limit :: int
  mq_MinScore :: rat
  mq_TimeRange :: "TimeRange option"

record MemorySearchResult =
  mr_Entry :: MemoryEntry
  mr_Score :: rat

record MemoryStats =
  ms_TotalEntries :: nat
  ms_ShortTermCount :: nat
  ms_LastAccessTime :: int

definition nil_pointer :: string where
  "nil_pointer = ''runtime error: invalid memory address or nil pointer dereference''"

section \<open>ApplyFilter\<close>

record MemoryFilter =
  mf_TenantID :: string
  mf_UserID :: string
  mf_SessionID :: string
  mf_AgentID :: string
  mf_StartTime :: "int option"
  mf_EndTime :: "int option"
  mf_MemoryType :: MemoryType
  mf_Tags :: "string list"
  mf_MinImportance :: rat

definition has_tag :: "string list \<Rightarrow> string list \<Rightarrow> bool" where
  "has_tag tags entryTags = list_ex (\<lambda>tag. list_ex (\<lambda>entryTag. tag = entryTag) entryTags) tags"

text \<open>The checks after the two times, which are dereferenced without a test for nil.\<close>

definition filter_rest :: "MemoryFilter \<Rightarrow> MemoryEntry \<Rightarrow> bool" where
  "filter_rest f entry \<longleftrightarrow>
     \<not> (mf_MemoryType f \<noteq> '''' \<and> me_Type entry \<noteq> mf_MemoryType f) \<and>
     \<not> (length (mf_Tags f) > 0 \<and> \<not> has_tag (mf_Tags f) (me_Tags entry)) \<and>
     \<not> (me_Importance entry < mf_MinImportance f)"

definition ApplyFilter :: "MemoryFilter \<Rightarrow> MemoryEntry \<Rightarrow> bool go" where
  "ApplyFilter f entry =
     (if mf_TenantID f \<noteq> '''' \<and> me_TenantID entry \<noteq> mf_TenantID f then Ret False
      else if mf_UserID f \<noteq> '''' \<and> me_UserID entry \<noteq> mf_UserID f then Ret False
      else if mf_SessionID f \<noteq> '''' \<and> me_SessionID entry \<noteq> mf_SessionID f then Ret False
      else if mf_AgentID f \<noteq> '''' \<and> me_AgentID entry \<noteq> mf_AgentID f then Ret False
      else case mf_StartTime f of
        None \<Rightarrow> Panic nil_pointer
      | Some start \<Rightarrow>
          (if start \<noteq> 0 \<and> me_Timestamp entry < start then Ret False
           else case mf_EndTime f of
             None \<Rightarrow> Panic nil_pointer
           | Some end \<Rightarrow>
               (if end \<noteq> 0 \<and> me_Timestamp entry > end then Ret False else Ret (filter_rest f entry))))"

section \<open>Keyword matching\<close>

definition lower_rune :: "rune \<Rightarrow> rune" where
  "lower_rune r = (if 65 \<le> r \<and> r \<le> 90 then r + 32 else r)"

text \<open>The slice has one rune per byte of the string; the slots inside a multi-byte character stay zero.\<close>

definition toLower :: "string \<Rightarrow> string" where
  "toLower s = concat (map (\<lambda>(r, w). encode_rune (lower_rune r) @ replicate (w - 1) CHR 0x00) (runes s))"

definition match_at :: "string \<Rightarrow> string \<Rightarrow> nat \<Rightarrow> bool" where
  "match_at s substr i = list_all (\<lambda>j. s ! (i + j) = substr ! j) [0..<length substr]"

definition containsSubstring :: "string \<Rightarrow> string \<Rightarrow> bool" where
  "containsSubstring s substr =
     (length substr \<le> length s \<and> list_ex (match_at s substr) [0..<length s - length substr + 1])"

definition contains :: "string \<Rightarrow> string \<Rightarrow> bool" where
  "contains s substr =
     (let s' = toLower s; substr' = toLower substr
      in length s' \<ge> length substr' \<and>
         (s' = substr' \<or> length s' > length substr' \<and> containsSubstring s' substr'))"

section \<open>The buffer memory\<close>

record ConversationBufferMemory =
  bm_memory :: "MemoryEntry list"
  bm_config :: MemoryConfig

definition NewConversationBufferMemory :: "MemoryConfig option \<Rightarrow> ConversationBufferMemory" where
  "NewConversationBufferMemory config =
     \<lparr>bm_memory = [], bm_config = (case config of None \<Rightarrow> DefaultMemoryConfig | Some c \<Rightarrow> c)\<rparr>"

text \<open>The fields every Add sets.\<close>

definition stamp :: "MemoryType \<Rightarrow> string \<Rightarrow> int \<Rightarrow> MemoryEntry \<Rightarrow> MemoryEntry" where
  "stamp t uuid now entry =
     entry\<lparr>me_ID := (if me_ID entry = '''' then uuid else me_ID entry), me_Type := t, me_Timestamp := now\<rparr>"

definition buffer_Add :: "string \<Rightarrow> int \<Rightarrow> MemoryEntry \<Rightarrow> ConversationBufferMemory \<Rightarrow> ConversationBufferMemory go" where
  "buffer_Add uuid now entry m =
     (let mem = bm_memory m @ [stamp ShortTermMemory uuid now entry];
          mx = mc_MaxShortTermMessages (bm_config m)
      in if int (length mem) > mx
         then (let removed = int (length mem) - mx
               in if removed > int (length mem) then Panic ''runtime error: slice bounds out of range''
                  else Ret (m\<lparr>bm_memory := drop (nat removed) mem\<rparr>))
         else Ret (m\<lparr>bm_memory := mem\<rparr>))"

fun find_entry :: "string \<Rightarrow> MemoryEntry list \<Rightarrow> MemoryEntry option" where
  "find_entry i [] = None"
| "find_entry i (e # es) = (if me_ID e = i then Some e else find_entry i es)"

definition buffer_Get :: "string \<Rightarrow> ConversationBufferMemory \<Rightarrow> error + MemoryEntry" where
  "buffer_Get i m =
     (case find_entry i (bm_memory m) of
        Some e \<Rightarrow> Inr e
      | None \<Rightarrow> Inl (ErrorString (''memory entry not found: '' @ i)))"

text \<open>The tests of the search loop that let an entry through, and the score it gets.\<close>

definition context_ok :: "SessionContext option \<Rightarrow> MemoryEntry \<Rightarrow> bool" where
  "context_ok ctx entry =
     (case ctx of
        None \<Rightarrow> True
      | Some c \<Rightarrow>
          \<not> (sx_TenantID c \<noteq> '''' \<and> me_TenantID entry \<noteq> sx_TenantID c) \<and>
          \<not> (sx_UserID c \<noteq> '''' \<and> me_UserID entry \<noteq> sx_UserID c) \<and>
          \<not> (sx_SessionID c \<noteq> '''' \<and> me_SessionID entry \<noteq> sx_SessionID c))"

definition search_test :: "MemorySearchRequest \<Rightarrow> MemoryEntry \<Rightarrow> rat option" where
  "search_test req entry =
     (if \<not> context_ok (mq_Context req) entry then None
      else if length (mq_Types req) > 0 \<and> \<not> list_ex (\<lambda>t. me_Type entry = t) (mq_Types req) then None
      else if (case mq_TimeRange req of
                 None \<Rightarrow> False
               | Some r \<Rightarrow> me_Timestamp entry < tr_From r \<or> me_Timestamp entry > tr_To r) then None
      else if mq_Query req \<noteq> '''' then (if contains (me_Content entry) (mq_Query req) then Some (9 / 10) else None)
      else Some 1)"

fun search_loop :: "MemorySearchRequest \<Rightarrow> MemoryEntry list \<Rightarrow> MemorySearchResult list \<Rightarrow> MemorySearchResult list" where
  "search_loop req [] results = results"
| "search_loop req (entry # es) results =
     (case search_test req entry of
        None \<Rightarrow> search_loop req es results
      | Some score \<Rightarrow>
          (let results' = results @ [\<lparr>mr_Entry = entry, mr_Score = score\<rparr>]
           in if mq_Limit req > 0 \<and> int (length results') \<ge> mq_Limit req then results'
              else search_loop req es results'))"

definition buffer_Search :: "MemorySearchRequest \<Rightarrow> ConversationBufferMemory \<Rightarrow> MemorySearchResult list" where
  "buffer_Search req m = search_loop req (bm_memory m) []"

fun remove_entry :: "string \<Rightarrow> MemoryEntry list \<Rightarrow> MemoryEntry list option" where
  "remove_entry i [] = None"
| "remove_entry i (e # es) = (if me_ID e = i then Some es else map_option (\<lambda>r. e # r) (remove_entry i es))"

definition buffer_Delete :: "string \<Rightarrow> ConversationBufferMemory \<Rightarrow> error option \<times> ConversationBufferMemory" where
  "buffer_Delete i m =
     (case remove_entry i (bm_memory m) of
        Some mem \<Rightarrow> (None, m\<lparr>bm_memory := mem\<rparr>)
      | None \<Rightarrow> (Some (ErrorString (''memory entry not found: '' @ i)), m))"

definition buffer_Clear :: "SessionContext option \<Rightarrow> ConversationBufferMemory \<Rightarrow> ConversationBufferMemory" where
  "buffer_Clear ctx m =
     (case ctx of
        None \<Rightarrow> m\<lparr>bm_memory := []\<rparr>
      | Some c \<Rightarrow> m\<lparr>bm_memory := filter (\<lambda>e. me_SessionID e \<noteq> sx_SessionID c) (bm_memory m)\<rparr>)"

definition buffer_GetStats :: "int \<Rightarrow> SessionContext option \<Rightarrow> ConversationBufferMemory \<Rightarrow> MemoryStats" where
  "buffer_GetStats now ctx m =
     (let count = (case ctx of
                     None \<Rightarrow> length (bm_memory m)
                   | Some c \<Rightarrow> length (filter (\<lambda>e. me_SessionID e = sx_SessionID c) (bm_memory m)))
      in \<lparr>ms_TotalEntries = count, ms_ShortTermCount = count, ms_LastAccessTime = now\<rparr>)"

definition expired :: "int \<Rightarrow> int \<Rightarrow> MemoryEntry \<Rightarrow> bool" where
  "expired now maxAge entry \<longleftrightarrow>
     me_ExpiresAt entry \<noteq> 0 \<and> me_ExpiresAt entry < now \<or> now - me_Timestamp entry > maxAge"

definition buffer_Cleanup :: "int \<Rightarrow> ConversationBufferMemory \<Rightarrow> ConversationBufferMemory" where
  "buffer_Cleanup now m =
     m\<lparr>bm_memory := filter (\<lambda>e. \<not> expired now (mc_MaxMemoryAge (bm_config m)) e) (bm_memory m)\<rparr>"

section \<open>The window memory\<close>

record ConversationWindowMemory =
  wm_buffer :: ConversationBufferMemory
  wm_windowSize :: nat

definition NewConversationWindowMemory :: "MemoryConfig option \<Rightarrow> ConversationWindowMemory go" where
  "NewConversationWindowMemory config =
     (case config of
        None \<Rightarrow> Panic nil_pointer
      | Some c \<Rightarrow>
          Ret \<lparr>wm_buffer = NewConversationBufferMemory (Some c),
               wm_windowSize = nat (if mc_ShortTermWindowSize c \<le> 0 then DefaultWindowSize else mc_ShortTermWindowSize c)\<rparr>)"

definition window_append :: "nat \<Rightarrow> MemoryEntry list \<Rightarrow> MemoryEntry \<Rightarrow> MemoryEntry list" where
  "window_append windowSize memory entry =
     (let mem = memory @ [entry] in if length mem > windowSize then drop (length mem - windowSize) mem else mem)"

definition window_Add :: "string \<Rightarrow> int \<Rightarrow> MemoryEntry \<Rightarrow> ConversationWindowMemory \<Rightarrow> ConversationWindowMemory" where
  "window_Add uuid now entry m =
     m\<lparr>wm_buffer := (wm_buffer m)\<lparr>bm_memory :=
        window_append (wm_windowSize m) (bm_memory (wm_buffer m)) (stamp ShortTermMemory uuid now entry)\<rparr>\<rparr>"

section \<open>The summary memory\<close>

record ConversationSummaryMemory =
  sm_buffer :: "ConversationBufferMemory option"
  sm_summary :: string
  sm_fullHistory :: "MemoryEntry list"
  sm_config :: MemoryConfig

definition NewConversationSummaryMemory :: "MemoryConfig option \<Rightarrow> ConversationSummaryMemory" where
  "NewConversationSummaryMemory config =
     \<lparr>sm_buffer = None, sm_summary = '''', sm_fullHistory = [],
      sm_config = (case config of None \<Rightarrow> DefaultMemoryConfig | Some c \<Rightarrow> c)\<rparr>"

fun getLastUserMessage :: "MemoryEntry list \<Rightarrow> string" where
  "getLastUserMessage [] = ''N/A''"
| "getLastUserMessage (e # es) = (if me_Role e = ''user'' then me_Content e else getLastUserMessage es)"

text \<open>The search for the last user message runs from the end, so it is given the reversed history.\<close>

definition updateSummary :: "ConversationSummaryMemory \<Rightarrow> ConversationSummaryMemory" where
  "updateSummary m =
     (if length (sm_fullHistory m) = 0 then m
      else let recent = (if length (sm_fullHistory m) > 20
                         then drop (length (sm_fullHistory m) - 20) (sm_fullHistory m) else sm_fullHistory m);
               userMessages = length (filter (\<lambda>e. me_Role e = ''user'') recent);
               assistantMessages = length (filter (\<lambda>e. me_Role e = ''assistant'') recent)
           in m\<lparr>sm_summary := ''Conversation with '' @ show_nat userMessages @ '' user messages and ''
                  @ show_nat assistantMessages @ '' assistant responses. Most recent interaction: ''
                  @ getLastUserMessage (rev (sm_fullHistory m))\<rparr>)"

definition summary_Add :: "string \<Rightarrow> int \<Rightarrow> MemoryEntry \<Rightarrow> ConversationSummaryMemory \<Rightarrow> ConversationSummaryMemory" where
  "summary_Add uuid now entry m =
     (let m' = m\<lparr>sm_fullHistory := sm_fullHistory m @ [stamp SummaryMemory uuid now entry]\<rparr>
      in if length (sm_fullHistory m') mod 5 = 0 then updateSummary m' else m')"

definition GetSummary :: "ConversationSummaryMemory \<Rightarrow> string" where
  "GetSummary m = sm_summary m"

text \<open>The methods that delegate to the embedded buffer memory dereference it.\<close>

definition embedded :: "ConversationSummaryMemory \<Rightarrow> ConversationBufferMemory go" where
  "embedded m = (case sm_buffer m of None \<Rightarrow> Panic nil_pointer | Some b \<Rightarrow> Ret b)"

definition summary_Search :: "MemorySearchRequest \<Rightarrow> ConversationSummaryMemory \<Rightarrow> MemorySearchResult list go" where
  "summary_Search req m = go_bind (embedded m) (\<lambda>b. Ret (buffer_Search req b))"

definition summary_Get :: "string \<Rightarrow> ConversationSummaryMemory \<Rightarrow> (error + MemoryEntry) go" where
  "summary_Get i m = go_bind (embedded m) (\<lambda>b. Ret (buffer_Get i b))"

definition summary_Delete :: "string \<Rightarrow> ConversationSummaryMemory \<Rightarrow> (error option \<times> ConversationSummaryMemory) go" where
  "summary_Delete i m =
     go_bind (embedded m) (\<lambda>b. case buffer_Delete i b of (e, b') \<Rightarrow> Ret (e, m\<lparr>sm_buffer := Some b'\<rparr>))"

definition summary_Clear :: "SessionContext option \<Rightarrow> ConversationSummaryMemory \<Rightarrow> ConversationSummaryMemory" where
  "summary_Clear ctx m = m\<lparr>sm_summary := '''', sm_fullHistory := []\<rparr>"

definition summary_GetStats :: "int \<Rightarrow> SessionContext option \<Rightarrow> ConversationSummaryMemory \<Rightarrow> MemoryStats go" where
  "summary_GetStats now ctx m = go_bind (embedded m) (\<lambda>b. Ret (buffer_GetStats now ctx b))"

definition summary_Cleanup :: "int \<Rightarrow> ConversationSummaryMemory \<Rightarrow> ConversationSummaryMemory go" where
  "summary_Cleanup now m = go_bind (embedded m) (\<lambda>b. Ret (m\<lparr>sm_buffer := Some (buffer_Cleanup now b)\<rparr>))"

section \<open>The keyword match is a substring test\<close>

lemma match_at_iff:
  assumes "i + length sub \<le> length s"
  shows "match_at s sub i \<longleftrightarrow> take (length sub) (drop i s) = sub"
proof
  assume "match_at s sub i"
  then show "take (length sub) (drop i s) = sub"
    using assms by (intro nth_equalityI) (auto simp: match_at_def list_all_iff)
next
  assume eq: "take (length sub) (drop i s) = sub"
  have "s ! (i + j) = sub ! j" if "j < length sub" for j
  proof -
    have "s ! (i + j) = take (length sub) (drop i s) ! j" using that assms by simp
    then show ?thesis by (simp add: eq)
  qed
  then show "match_at s sub i" by (simp add: match_at_def list_all_iff)
qed

lemma containsSubstring_sublist: "containsSubstring s sub \<longleftrightarrow> sublist sub s"
proof
  assume "containsSubstring s sub"
  then obtain i where "length sub \<le> length s" "i < length s - length sub + 1" and m: "match_at s sub i"
    unfolding containsSubstring_def list_ex_iff set_upt by auto
  then have "i + length sub \<le> length s" by linarith
  with m have "s = take i s @ sub @ drop (i + length sub) s"
    using match_at_iff[of i sub s] by (metis append_take_drop_id drop_drop add.commute)
  then show "sublist sub s" unfolding sublist_def by blast
next
  assume "sublist sub s"
  then obtain ps ss where s: "s = ps @ sub @ ss" by (auto simp: sublist_def)
  then have "match_at s sub (length ps)" by (subst match_at_iff) auto
  moreover have "length ps < length s - length sub + 1" "length sub \<le> length s" using s by auto
  ultimately show "containsSubstring s sub" unfolding containsSubstring_def list_ex_iff set_upt by (auto simp del: upt_Suc)
qed

lemma contains_sublist: "contains s sub \<longleftrightarrow> sublist (toLower sub) (toLower s)"
proof -
  have "sublist (toLower sub) (toLower s) \<Longrightarrow> length (toLower sub) \<le> length (toLower s)" by (rule sublist_length_le)
  moreover have "length ys \<le> length xs \<Longrightarrow> sublist xs ys \<Longrightarrow> xs = ys" for xs ys :: string
    by (auto simp: sublist_def)
  ultimately show ?thesis unfolding contains_def Let_def containsSubstring_sublist
    by (metis linorder_not_less sublist_order.dual_order.refl)
qed

definition lower_char :: "char \<Rightarrow> char" where
  "lower_char c = (if 65 \<le> byte c \<and> byte c \<le> 90 then char_of (byte c + 32) else c)"

lemma toLower_ascii: "ascii s \<Longrightarrow> toLower s = map lower_char s"
proof -
  assume "ascii s"
  then have "\<forall>c \<in> set s. byte c < 128" by (simp add: ascii_def list_all_iff)
  then have "concat (map (\<lambda>(r, w). encode_rune (lower_rune r) @ replicate (w - 1) CHR 0x00) (map (\<lambda>c. (byte c, 1 :: nat)) s)) =
      map lower_char s"
    by (induction s) (auto simp: lower_rune_def lower_char_def encode_ascii)
  with \<open>ascii s\<close> show ?thesis by (simp add: toLower_def runes_ascii)
qed

text \<open>The keyword search matches exactly when the query occurs in the content as a contiguous part, ignoring the case
  of ASCII letters: on ASCII texts this is the substring test on the texts mapped to lower case.\<close>

theorem contains_ignores_case:
  assumes "ascii s" and "ascii sub"
  shows "contains s sub \<longleftrightarrow> (\<exists>pre post. map lower_char s = pre @ map lower_char sub @ post)"
  using assms by (simp add: contains_sublist toLower_ascii sublist_def)

theorem contains_ignores_case_witness:
  "contains ''Order TEN cups'' ''ten'' \<longleftrightarrow>
     (\<exists>pre post. map lower_char ''Order TEN cups'' = pre @ map lower_char ''ten'' @ post)"
  by (rule contains_ignores_case) (simp_all add: byte_def)

section \<open>Search\<close>

definition scored :: "MemorySearchRequest \<Rightarrow> MemoryEntry list \<Rightarrow> MemorySearchResult list" where
  "scored req es = List.map_filter (\<lambda>e. map_option (\<lambda>s. \<lparr>mr_Entry = e, mr_Score = s\<rparr>) (search_test req e)) es"

lemma scored_simps [simp]:
  "scored req [] = []"
  "scored req (e # es) =
     (case search_test req e of None \<Rightarrow> scored req es | Some s \<Rightarrow> \<lparr>mr_Entry = e, mr_Score = s\<rparr> # scored req es)"
  by (simp_all add: scored_def List.map_filter_simps split: option.split)

lemma search_loop_unlimited: "mq_Limit req \<le> 0 \<Longrightarrow> search_loop req es results = results @ scored req es"
  by (induction req es results rule: search_loop.induct) (auto split: option.split)

lemma search_loop_limited:
  "int (length results) < mq_Limit req \<Longrightarrow> search_loop req es results = take (nat (mq_Limit req)) (results @ scored req es)"
proof (induction req es results rule: search_loop.induct)
  case (1 req results)
  then show ?case by simp
next
  case (2 req entry es results)
  show ?case
  proof (cases "search_test req entry")
    case None
    with 2 show ?thesis by simp
  next
    case (Some s)
    let ?r = "results @ [\<lparr>mr_Entry = entry, mr_Score = s\<rparr>]"
    show ?thesis
    proof (cases "int (length ?r) < mq_Limit req")
      case True
      with 2(2)[OF Some refl] Some show ?thesis by simp
    next
      case False
      with 2(3) have "nat (mq_Limit req) = length ?r" by simp
      with Some False 2(3) show ?thesis by (simp add: Let_def)
    qed
  qed
qed

lemma scored_mem: "r \<in> set (scored req es) \<longleftrightarrow> mr_Entry r \<in> set es \<and> search_test req (mr_Entry r) = Some (mr_Score r)"
  by (induction es) (auto split: option.splits)


section \<open>Adding and removing\<close>

text \<open>The window as a bounded log of its entries.\<close>

interpretation window_log: bounded_log id "window_append n" n for n :: nat
  by unfold_locales (simp add: window_append_def Let_def last_n_def)

lemma window_Adds:
  "wm_windowSize (foldl (\<lambda>m (uuid, now, e). window_Add uuid now e m) m es) = wm_windowSize m"
  "bm_memory (wm_buffer (foldl (\<lambda>m (uuid, now, e). window_Add uuid now e m) m es)) =
     foldl (window_append (wm_windowSize m)) (bm_memory (wm_buffer m)) (map (\<lambda>(uuid, now, e). stamp ShortTermMemory uuid now e) es)"
  by (induction es arbitrary: m) (auto simp: window_Add_def)

text \<open>A window memory made from a configuration holds, after any sequence of additions, the last entries added, in
  order and with their ids, types and times set, as many as the window size (ten when the configured one is not
  positive).\<close>

theorem window_keeps_last:
  assumes "NewConversationWindowMemory (Some c) = Ret m"
  shows "bm_memory (wm_buffer (foldl (\<lambda>m (uuid, now, e). window_Add uuid now e m) m es)) =
    last_n (nat (if mc_ShortTermWindowSize c \<le> 0 then 10 else mc_ShortTermWindowSize c))
      (map (\<lambda>(uuid, now, e). stamp ShortTermMemory uuid now e) es)"
proof -
  have m: "bm_memory (wm_buffer m) = []"
    "wm_windowSize m = nat (if mc_ShortTermWindowSize c \<le> 0 then 10 else mc_ShortTermWindowSize c)"
    using assms by (auto simp: NewConversationWindowMemory_def NewConversationBufferMemory_def DefaultWindowSize_def)
  show ?thesis unfolding window_Adds(2) m
    using window_log.entries_adds[where s = "[]"] by simp
qed

definition demo_entry :: "string \<Rightarrow> MemoryEntry" where
  "demo_entry content = \<lparr>me_ID = '''', me_Type = '''', me_Role = ''user'', me_Content = content, me_Timestamp = 0, me_TenantID = ''t'',
     me_UserID = '''', me_SessionID = ''s'', me_AgentID = '''', me_Metadata = [], me_Vector = [], me_Tags = [], me_Importance = 0, me_ExpiresAt = 0\<rparr>"

definition demo_window :: ConversationWindowMemory where
  "demo_window = \<lparr>wm_buffer = NewConversationBufferMemory (Some (DefaultMemoryConfig\<lparr>mc_ShortTermWindowSize := 2\<rparr>)), wm_windowSize = 2\<rparr>"

theorem window_keeps_last_witness:
  "map me_ID (bm_memory (wm_buffer (foldl (\<lambda>m (uuid, now, e). window_Add uuid now e m) demo_window
     [(''1'', 5, demo_entry ''a''), (''2'', 6, demo_entry ''b''), (''3'', 7, demo_entry ''c'')]))) = [''2'', ''3'']"
proof -
  have new: "NewConversationWindowMemory (Some (DefaultMemoryConfig\<lparr>mc_ShortTermWindowSize := 2\<rparr>)) = Ret demo_window"
    by (simp add: NewConversationWindowMemory_def demo_window_def)
  show ?thesis unfolding window_keeps_last[OF new] by (simp add: last_n_def stamp_def demo_entry_def)
qed

lemma buffer_Add_keeps_last:
  "0 \<le> mc_MaxShortTermMessages (bm_config m) \<Longrightarrow> buffer_Add uuid now e m =
     Ret (m\<lparr>bm_memory := last_n (nat (mc_MaxShortTermMessages (bm_config m))) (bm_memory m @ [stamp ShortTermMemory uuid now e])\<rparr>)"
proof -
  assume mx: "0 \<le> mc_MaxShortTermMessages (bm_config m)"
  let ?mem = "bm_memory m @ [stamp ShortTermMemory uuid now e]" and ?mx = "mc_MaxShortTermMessages (bm_config m)"
  have "nat (int (length ?mem) - ?mx) = length ?mem - nat ?mx" using mx by linarith
  with mx show ?thesis unfolding buffer_Add_def Let_def last_n_def by (simp del: length_append drop_append)
qed

lemma buffer_Add_negative:
  "mc_MaxShortTermMessages (bm_config m) < 0 \<Longrightarrow> \<not> returns (buffer_Add uuid now e m)"
  by (auto simp: buffer_Add_def Let_def)

lemma find_entry_None: "find_entry i es = None \<longleftrightarrow> i \<notin> me_ID ` set es"
  by (induction es) auto

lemma remove_entry_None: "remove_entry i es = None \<longleftrightarrow> find_entry i es = None"
  by (induction es) auto

lemma remove_entry_other: "remove_entry i es = Some es' \<Longrightarrow> j \<noteq> i \<Longrightarrow> find_entry j es' = find_entry j es"
  by (induction es arbitrary: es') (auto split: if_splits)

lemma remove_entry_ids: "remove_entry i es = Some es' \<Longrightarrow> set es' \<subseteq> set es"
  by (induction es arbitrary: es') (auto split: if_splits)

lemma remove_entry_gone:
  assumes "distinct (map me_ID es)" and "remove_entry i es = Some es'"
  shows "i \<notin> me_ID ` set es'"
  using assms by (induction es arbitrary: es') (auto split: if_splits)

text \<open>With distinct ids, Delete makes exactly the deleted entry unavailable.\<close>

lemma Delete_then_Get:
  assumes "distinct (map me_ID (bm_memory m))" and "buffer_Delete i m = (None, m')"
  shows "buffer_Get i m' = Inl (ErrorString (''memory entry not found: '' @ i)) \<and> (\<forall>j. j \<noteq> i \<longrightarrow> buffer_Get j m' = buffer_Get j m)"
proof -
  from assms(2) obtain es' where es': "remove_entry i (bm_memory m) = Some es'" "m' = m\<lparr>bm_memory := es'\<rparr>"
    by (auto simp: buffer_Delete_def split: option.splits)
  with assms(1) have "i \<notin> me_ID ` set es'" using remove_entry_gone by blast
  with es' show ?thesis
    by (auto simp: buffer_Get_def find_entry_None[symmetric] remove_entry_other)
qed

text \<open>Clear removes the session and nothing else; Cleanup removes the expired entries and nothing else.\<close>

lemma Clear_session:
  "buffer_GetStats now (Some c) (buffer_Clear (Some c) m) = \<lparr>ms_TotalEntries = 0, ms_ShortTermCount = 0, ms_LastAccessTime = now\<rparr>"
  "sx_SessionID d \<noteq> sx_SessionID c \<Longrightarrow> buffer_GetStats now (Some d) (buffer_Clear (Some c) m) = buffer_GetStats now (Some d) m"
proof -
  show "buffer_GetStats now (Some c) (buffer_Clear (Some c) m) = \<lparr>ms_TotalEntries = 0, ms_ShortTermCount = 0, ms_LastAccessTime = now\<rparr>"
    by (simp add: buffer_GetStats_def buffer_Clear_def)
  show "sx_SessionID d \<noteq> sx_SessionID c \<Longrightarrow> buffer_GetStats now (Some d) (buffer_Clear (Some c) m) = buffer_GetStats now (Some d) m"
    by (auto simp: buffer_GetStats_def buffer_Clear_def Let_def intro!: arg_cong[where f = length] filter_cong)
qed

lemma Cleanup_idempotent: "buffer_Cleanup now (buffer_Cleanup now m) = buffer_Cleanup now m"
  by (simp add: buffer_Cleanup_def)

section \<open>The summary memory\<close>

text \<open>No operation gives the summary memory the buffer it delegates to.\<close>

lemma summary_buffer_stays_nil:
  "sm_buffer (NewConversationSummaryMemory config) = None"
  "sm_buffer m = None \<Longrightarrow> sm_buffer (summary_Add uuid now e m) = None"
  "sm_buffer m = None \<Longrightarrow> sm_buffer (summary_Clear ctx m) = None"
  by (simp_all add: NewConversationSummaryMemory_def summary_Add_def updateSummary_def summary_Clear_def Let_def)

lemma summary_adds_nil:
  "sm_buffer m = None \<Longrightarrow> sm_buffer (foldl (\<lambda>m (uuid, now, e). summary_Add uuid now e m) m es) = None"
  by (induction es arbitrary: m) (auto simp: summary_buffer_stays_nil)

text \<open>On a summary memory, whatever has been added to it, Get, Search, Delete, GetStats and Cleanup end in a nil
  pointer panic, because its constructor leaves the embedded buffer memory nil.\<close>

theorem summary_operations_panic:
  "let m = foldl (\<lambda>m (uuid, now, e). summary_Add uuid now e m) (NewConversationSummaryMemory config) es
   in summary_Get i m = Panic nil_pointer \<and> summary_Search req m = Panic nil_pointer \<and> summary_Delete i m = Panic nil_pointer \<and>
      summary_GetStats now ctx m = Panic nil_pointer \<and> summary_Cleanup now m = Panic nil_pointer"
  using summary_adds_nil[OF summary_buffer_stays_nil(1), of config es]
  by (simp add: Let_def embedded_def summary_Get_def summary_Search_def summary_Delete_def summary_GetStats_def summary_Cleanup_def)

text \<open>A filter without a start time panics on the entries that pass its identity tests.\<close>

lemma ApplyFilter_nil_time:
  "ApplyFilter \<lparr>mf_TenantID = '''', mf_UserID = '''', mf_SessionID = '''', mf_AgentID = '''', mf_StartTime = None, mf_EndTime = None,
     mf_MemoryType = '''', mf_Tags = [], mf_MinImportance = 0\<rparr> e = Panic nil_pointer"
  by (simp add: ApplyFilter_def)

end
