(* ===== verification/Memory_Manager.thy ===== *)
theory Memory_Manager
  imports Memory
begin

text \<open>
  The memory manager, internal/memory/manager.go. The short-term memory is one of the three of
  theory Memory, chosen by the configuration. The vector memory, the entity memory and the database
  pool are interfaces without an implementation in this package: records of functions of the world.
  The manager's mutex is explicit: every operation takes and releases it the way the code does, as
  seen by one goroutine, so that a release in the wrong mode shows as the runtime's fatal error.

  Proved: the operations that hold the lock correctly return and leave it free; AddRelation and
  UpdateEntity end the process; no database statement is issued for a tenant id that is not a UUID,
  and a transaction is either committed or rolled back; Search respects limit and minimal score.
\<close>

section \<open>Entities\<close>

record EntityRelation =
  rl_FromEntityID :: string
  rl_ToEntityID :: string
  rl_RelationType :: string
  rl_Confidence :: rat
  rl_LastSeen :: int
  rl_Metadata :: "(string \<times> gval) list"

record Entity =
  en_ID :: string
  en_Name :: string
  en_Type :: string
  en_Confidence :: rat
  en_TenantID :: string
  en_UserID :: string
  en_FirstSeen :: int
  en_LastSeen :: int
  en_Attributes :: "(string \<times> gval) list"
  en_Relations :: "EntityRelation list"

section \<open>Interfaces\<close>

record 'w VectorMemory =
  vm_AddWithVector :: "'w \<Rightarrow> MemoryEntry \<Rightarrow> rat list \<Rightarrow> 'w \<times> error option"
  vm_SemanticSearch :: "'w \<Rightarrow> string \<Rightarrow> SessionContext option \<Rightarrow> int \<Rightarrow> 'w \<times> (error + MemorySearchResult list)"
  vm_HybridSearch :: "'w \<Rightarrow> MemorySearchRequest \<Rightarrow> 'w \<times> (error + MemorySearchResult list)"

record 'w EntityMemory =
  em_ExtractEntities :: "'w \<Rightarrow> string \<Rightarrow> SessionContext option \<Rightarrow> 'w \<times> (error + Entity list)"
  em_GetEntity :: "'w \<Rightarrow> string \<Rightarrow> 'w \<times> (error + Entity)"
  em_SearchEntities :: "'w \<Rightarrow> string \<Rightarrow> SessionContext option \<Rightarrow> 'w \<times> (error + Entity list)"
  em_AddRelation :: "'w \<Rightarrow> EntityRelation \<Rightarrow> 'w \<times> error option"
  em_GetEntityRelations :: "'w \<Rightarrow> string \<Rightarrow> 'w \<times> (error + EntityRelation list)"
  em_UpdateEntity :: "'w \<Rightarrow> Entity \<Rightarrow> 'w \<times> error option"

datatype sql = SetSearchPath string | InsertMemoryEntry MemoryEntry

record 'w Pool =
  pg_Begin :: "'w \<Rightarrow> 'w \<times> error option"
  pg_Exec :: "'w \<Rightarrow> sql \<Rightarrow> 'w \<times> error option"
  pg_Rollback :: "'w \<Rightarrow> 'w"
  pg_Commit :: "'w \<Rightarrow> 'w \<times> error option"

section \<open>The manager\<close>

datatype ShortTerm =
    Buffer ConversationBufferMemory
  | Window ConversationWindowMemory
  | Summary ConversationSummaryMemory

record 'w MemoryManager =
  mm_shortTerm :: ShortTerm
  mm_longTerm :: "'w VectorMemory option"
  mm_entity :: "'w EntityMemory option"
  mm_pool :: "'w Pool option"
  mm_config :: MemoryConfig
  mm_mu :: rwmutex

definition choose_short_term :: "MemoryConfig \<Rightarrow> ShortTerm go" where
  "choose_short_term config =
     (if mc_ShortTermWindowSize config > 0
      then go_bind (NewConversationWindowMemory (Some config)) (\<lambda>m. Ret (Window m))
      else if mc_EnableSummary config then Ret (Summary (NewConversationSummaryMemory (Some config)))
      else Ret (Buffer (NewConversationBufferMemory (Some config))))"

definition NewMemoryManager ::
  "MemoryConfig option \<Rightarrow> 'w VectorMemory option \<Rightarrow> 'w EntityMemory option \<Rightarrow> 'w Pool option \<Rightarrow> 'w MemoryManager go" where
  "NewMemoryManager config vectorMemory entityMemory pool =
     (let c = (case config of None \<Rightarrow> DefaultMemoryConfig | Some c \<Rightarrow> c)
      in go_bind (choose_short_term c) (\<lambda>st.
           Ret \<lparr>mm_shortTerm = st, mm_longTerm = vectorMemory, mm_entity = entityMemory, mm_pool = pool, mm_config = c, mm_mu = Free\<rparr>))"

text \<open>The short-term memory as the interface Memory: dynamic dispatch on its implementation.\<close>

definition st_Add :: "string \<Rightarrow> int \<Rightarrow> MemoryEntry \<Rightarrow> ShortTerm \<Rightarrow> ShortTerm go" where
  "st_Add uuid now e st =
     (case st of
        Buffer b \<Rightarrow> go_bind (buffer_Add uuid now e b) (\<lambda>b'. Ret (Buffer b'))
      | Window w \<Rightarrow> Ret (Window (window_Add uuid now e w))
      | Summary s \<Rightarrow> Ret (Summary (summary_Add uuid now e s)))"

text \<open>The entry as Add leaves it for the caller.\<close>

definition st_stamped :: "string \<Rightarrow> int \<Rightarrow> MemoryEntry \<Rightarrow> ShortTerm \<Rightarrow> MemoryEntry" where
  "st_stamped uuid now e st =
     stamp (case st of Summary s \<Rightarrow> SummaryMemory | Buffer b \<Rightarrow> ShortTermMemory | Window w \<Rightarrow> ShortTermMemory) uuid now e"

definition st_Get :: "string \<Rightarrow> ShortTerm \<Rightarrow> (error + MemoryEntry) go" where
  "st_Get i st =
     (case st of Buffer b \<Rightarrow> Ret (buffer_Get i b) | Window w \<Rightarrow> Ret (buffer_Get i (wm_buffer w)) | Summary s \<Rightarrow> summary_Get i s)"

definition st_Search :: "MemorySearchRequest \<Rightarrow> ShortTerm \<Rightarrow> MemorySearchResult list go" where
  "st_Search req st =
     (case st of Buffer b \<Rightarrow> Ret (buffer_Search req b) | Window w \<Rightarrow> Ret (buffer_Search req (wm_buffer w)) | Summary s \<Rightarrow> summary_Search req s)"

definition st_Delete :: "string \<Rightarrow> ShortTerm \<Rightarrow> (error option \<times> ShortTerm) go" where
  "st_Delete i st =
     (case st of
        Buffer b \<Rightarrow> (case buffer_Delete i b of (e, b') \<Rightarrow> Ret (e, Buffer b'))
      | Window w \<Rightarrow> (case buffer_Delete i (wm_buffer w) of (e, b') \<Rightarrow> Ret (e, Window (w\<lparr>wm_buffer := b'\<rparr>)))
      | Summary s \<Rightarrow> go_bind (summary_Delete i s) (\<lambda>(e, s'). Ret (e, Summary s')))"

definition st_Clear :: "SessionContext option \<Rightarrow> ShortTerm \<Rightarrow> ShortTerm" where
  "st_Clear ctx st =
     (case st of
        Buffer b \<Rightarrow> Buffer (buffer_Clear ctx b)
      | Window w \<Rightarrow> Window (w\<lparr>wm_buffer := buffer_Clear ctx (wm_buffer w)\<rparr>)
      | Summary s \<Rightarrow> Summary (summary_Clear ctx s))"

definition st_GetStats :: "int \<Rightarrow> SessionContext option \<Rightarrow> ShortTerm \<Rightarrow> MemoryStats go" where
  "st_GetStats now ctx st =
     (case st of Buffer b \<Rightarrow> Ret (buffer_GetStats now ctx b) | Window w \<Rightarrow> Ret (buffer_GetStats now ctx (wm_buffer w))
      | Summary s \<Rightarrow> summary_GetStats now ctx s)"

definition st_Cleanup :: "int \<Rightarrow> ShortTerm \<Rightarrow> ShortTerm go" where
  "st_Cleanup now st =
     (case st of
        Buffer b \<Rightarrow> Ret (Buffer (buffer_Cleanup now b))
      | Window w \<Rightarrow> Ret (Window (w\<lparr>wm_buffer := buffer_Cleanup now (wm_buffer w)\<rparr>))
      | Summary s \<Rightarrow> go_bind (summary_Cleanup now s) (\<lambda>s'. Ret (Summary s')))"

section \<open>Transactions of a tenant\<close>

definition hex_lower :: "char \<Rightarrow> bool" where
  "hex_lower c \<longleftrightarrow> 48 \<le> byte c \<and> byte c \<le> 57 \<or> 97 \<le> byte c \<and> byte c \<le> 102"

text \<open>The regular expression of uuidRE: five groups of lower-case hexadecimal digits.\<close>

definition uuid_match :: "string \<Rightarrow> bool" where
  "uuid_match s \<longleftrightarrow> length s = 36 \<and>
     list_all (\<lambda>i. if i \<in> {8, 13, 18, 23} then s ! i = CHR ''-'' else hex_lower (s ! i)) [0..<36]"

definition search_path_stmt :: "string \<Rightarrow> string" where
  "search_path_stmt tenantID = ''SET LOCAL search_path = '' @ [CHR 0x22] @ ''tenant_'' @ tenantID @ [CHR 0x22] @ '', public''"

definition run_tx :: "'w Pool \<Rightarrow> ('w \<Rightarrow> 'w \<times> error option go) \<Rightarrow> 'w \<Rightarrow> 'w \<times> error option go" where
  "run_tx p fn w =
     (case fn w of
        (w', Ret (Some err)) \<Rightarrow> (pg_Rollback p w', Ret (Some err))
      | (w', Ret None) \<Rightarrow> (case pg_Commit p w' of (w'', e) \<Rightarrow> (w'', Ret e))
      | (w', Panic m) \<Rightarrow> (pg_Rollback p w', Panic m)
      | (w', Deadlock) \<Rightarrow> (w', Deadlock))"

definition execTenant :: "'w Pool option \<Rightarrow> string \<Rightarrow> ('w \<Rightarrow> 'w \<times> error option go) \<Rightarrow> 'w \<Rightarrow> 'w \<times> error option go" where
  "execTenant pool tenantID fn w =
     (case pool of
        None \<Rightarrow> (w, Ret None)
      | Some p \<Rightarrow>
          (if tenantID = '''' then (w, Ret None)
           else if \<not> uuid_match tenantID then (w, Ret (Some (ErrorString ''memory: invalid tenant_id format'')))
           else case pg_Begin p w of
             (w1, Some err) \<Rightarrow> (w1, Ret (Some (Wrapped ''memory: begin tx'' err)))
           | (w1, None) \<Rightarrow>
               (case pg_Exec p w1 (SetSearchPath (search_path_stmt tenantID)) of
                  (w2, Some err) \<Rightarrow> (pg_Rollback p w2, Ret (Some (Wrapped ''memory: set search_path'' err)))
                | (w2, None) \<Rightarrow> run_tx p fn w2)))"

section \<open>Operations\<close>

type_synonym ('w, 'r) mm_result = "('w MemoryManager \<times> 'w \<times> 'r) go"

text \<open>Lock with deferred Unlock, and RLock with deferred RUnlock, around a body.\<close>

definition with_Lock :: "('w MemoryManager \<Rightarrow> ('w, 'r) mm_result) \<Rightarrow> 'w MemoryManager \<Rightarrow> ('w, 'r) mm_result" where
  "with_Lock body m =
     go_bind (rw_Lock (mm_mu m)) (\<lambda>mu.
     go_bind (body (m\<lparr>mm_mu := mu\<rparr>)) (\<lambda>(m', w', r).
     go_bind (rw_Unlock (mm_mu m')) (\<lambda>mu'. Ret (m'\<lparr>mm_mu := mu'\<rparr>, w', r))))"

definition with_RLock :: "('w MemoryManager \<Rightarrow> ('w, 'r) mm_result) \<Rightarrow> 'w MemoryManager \<Rightarrow> ('w, 'r) mm_result" where
  "with_RLock body m =
     go_bind (rw_RLock (mm_mu m)) (\<lambda>mu.
     go_bind (body (m\<lparr>mm_mu := mu\<rparr>)) (\<lambda>(m', w', r).
     go_bind (rw_RUnlock (mm_mu m')) (\<lambda>mu'. Ret (m'\<lparr>mm_mu := mu'\<rparr>, w', r))))"

text \<open>Lock with a deferred RUnlock.\<close>

definition with_Lock_RUnlock :: "('w MemoryManager \<Rightarrow> ('w, 'r) mm_result) \<Rightarrow> 'w MemoryManager \<Rightarrow> ('w, 'r) mm_result" where
  "with_Lock_RUnlock body m =
     go_bind (rw_Lock (mm_mu m)) (\<lambda>mu.
     go_bind (body (m\<lparr>mm_mu := mu\<rparr>)) (\<lambda>(m', w', r).
     go_bind (rw_RUnlock (mm_mu m')) (\<lambda>mu'. Ret (m'\<lparr>mm_mu := mu'\<rparr>, w', r))))"

definition entry_context :: "MemoryEntry \<Rightarrow> SessionContext" where
  "entry_context e = \<lparr>sx_TenantID = me_TenantID e, sx_UserID = me_UserID e, sx_SessionID = me_SessionID e, sx_AgentID = me_AgentID e\<rparr>"

definition insert_entry :: "'w Pool option \<Rightarrow> MemoryEntry \<Rightarrow> 'w \<Rightarrow> 'w \<times> error option go" where
  "insert_entry pool e w =
     (case pool of
        None \<Rightarrow> (w, Ret None)
      | Some p \<Rightarrow> (case pg_Exec p w (InsertMemoryEntry e) of (w', err) \<Rightarrow> (w', Ret err)))"

text \<open>The vector memory and the entity memory are given the entry when they are there and enabled.\<close>

definition index_entry :: "MemoryEntry \<Rightarrow> 'w \<Rightarrow> 'w MemoryManager \<Rightarrow> 'w" where
  "index_entry e w m =
     (let w1 = (case mm_longTerm m of
                  Some lt \<Rightarrow> if mc_EnableVectorSearch (mm_config m) then fst (vm_AddWithVector lt w e (me_Vector e)) else w
                | None \<Rightarrow> w)
      in case mm_entity m of
           Some em \<Rightarrow> if mc_EnableEntityExtraction (mm_config m)
                      then fst (em_ExtractEntities em w1 (me_Content e) (Some (entry_context e))) else w1
         | None \<Rightarrow> w1)"

text \<open>The body of Add under the lock; failures of the single systems are logged only.\<close>

definition add_body :: "string \<Rightarrow> int \<Rightarrow> MemoryEntry \<Rightarrow> 'w \<Rightarrow> 'w MemoryManager \<Rightarrow> ('w, error option) mm_result" where
  "add_body uuid now entry w m =
     go_bind (st_Add uuid now entry (mm_shortTerm m)) (\<lambda>st.
       let e = st_stamped uuid now entry (mm_shortTerm m)
       in case execTenant (mm_pool m) (me_TenantID e) (insert_entry (mm_pool m) e) (index_entry e w m) of
            (w', Ret _) \<Rightarrow> Ret (m\<lparr>mm_shortTerm := st\<rparr>, w', None)
          | (w', Panic msg) \<Rightarrow> Panic msg
          | (w', Deadlock) \<Rightarrow> Deadlock)"

definition mm_Add :: "string \<Rightarrow> int \<Rightarrow> MemoryEntry \<Rightarrow> 'w \<Rightarrow> 'w MemoryManager \<Rightarrow> ('w, error option) mm_result" where
  "mm_Add uuid now entry w = with_Lock (add_body uuid now entry w)"

definition mm_Get :: "string \<Rightarrow> 'w \<Rightarrow> 'w MemoryManager \<Rightarrow> ('w, error + MemoryEntry) mm_result" where
  "mm_Get i w = with_RLock (\<lambda>m. go_bind (st_Get i (mm_shortTerm m)) (\<lambda>r. Ret (m, w, r)))"

definition empty_context :: SessionContext where
  "empty_context = \<lparr>sx_TenantID = '''', sx_UserID = '''', sx_SessionID = '''', sx_AgentID = ''''\<rparr>"

definition long_term_results :: "MemorySearchRequest \<Rightarrow> 'w \<Rightarrow> 'w MemoryManager \<Rightarrow> 'w \<times> MemorySearchResult list" where
  "long_term_results req w m =
     (case mm_longTerm m of
        Some lt \<Rightarrow>
          (if mc_EnableVectorSearch (mm_config m) \<and> mq_Query req \<noteq> ''''
           then (case vm_SemanticSearch lt w (mq_Query req)
                        (case mq_Context req of None \<Rightarrow> Some empty_context | Some c \<Rightarrow> Some c) (mq_Limit req) of
                   (w', Inl err) \<Rightarrow> (w', [])
                 | (w', Inr rs) \<Rightarrow> (w', rs))
           else (w, []))
      | None \<Rightarrow> (w, []))"

definition cut_results :: "MemorySearchRequest \<Rightarrow> MemorySearchResult list \<Rightarrow> MemorySearchResult list" where
  "cut_results req allResults =
     (let filtered = (if mq_MinScore req > 0 then filter (\<lambda>r. mr_Score r \<ge> mq_MinScore req) allResults else allResults)
      in if mq_Limit req > 0 \<and> int (length filtered) > mq_Limit req then take (nat (mq_Limit req)) filtered else filtered)"

definition search_body :: "MemorySearchRequest \<Rightarrow> 'w \<Rightarrow> 'w MemoryManager \<Rightarrow> ('w, MemorySearchResult list) mm_result" where
  "search_body req w m =
     go_bind (if mq_Query req = '''' \<or> length (mq_Types req) = 0 then st_Search req (mm_shortTerm m) else Ret []) (\<lambda>rs.
       case long_term_results req w m of (w', lrs) \<Rightarrow> Ret (m, w', cut_results req (rs @ lrs)))"

definition mm_Search :: "MemorySearchRequest \<Rightarrow> 'w \<Rightarrow> 'w MemoryManager \<Rightarrow> ('w, MemorySearchResult list) mm_result" where
  "mm_Search req w = with_RLock (search_body req w)"

definition mm_Delete :: "string \<Rightarrow> 'w \<Rightarrow> 'w MemoryManager \<Rightarrow> ('w, error option) mm_result" where
  "mm_Delete i w = with_Lock (\<lambda>m. go_bind (st_Delete i (mm_shortTerm m)) (\<lambda>(e, st). Ret (m\<lparr>mm_shortTerm := st\<rparr>, w, None)))"

definition mm_Clear :: "SessionContext option \<Rightarrow> 'w \<Rightarrow> 'w MemoryManager \<Rightarrow> ('w, error option) mm_result" where
  "mm_Clear ctx w = with_Lock (\<lambda>m. Ret (m\<lparr>mm_shortTerm := st_Clear ctx (mm_shortTerm m)\<rparr>, w, None))"

definition mm_GetStats :: "int \<Rightarrow> SessionContext option \<Rightarrow> 'w \<Rightarrow> 'w MemoryManager \<Rightarrow> ('w, MemoryStats) mm_result" where
  "mm_GetStats now ctx w = with_RLock (\<lambda>m. go_bind (st_GetStats now ctx (mm_shortTerm m)) (\<lambda>s. Ret (m, w, s)))"

definition mm_Cleanup :: "int \<Rightarrow> 'w \<Rightarrow> 'w MemoryManager \<Rightarrow> ('w, error option) mm_result" where
  "mm_Cleanup now w = with_Lock (\<lambda>m. go_bind (st_Cleanup now (mm_shortTerm m)) (\<lambda>st. Ret (m\<lparr>mm_shortTerm := st\<rparr>, w, None)))"

text \<open>The operations on entities: without an entity memory they return nothing, or an error.\<close>

definition mm_GetEntities :: "SessionContext option \<Rightarrow> 'w \<Rightarrow> 'w MemoryManager \<Rightarrow> ('w, error + Entity list) mm_result" where
  "mm_GetEntities ctx w = with_RLock (\<lambda>m.
     case mm_entity m of None \<Rightarrow> Ret (m, w, Inr []) | Some em \<Rightarrow> (case em_SearchEntities em w '''' ctx of (w', r) \<Rightarrow> Ret (m, w', r)))"

definition mm_ExtractEntities :: "string \<Rightarrow> SessionContext option \<Rightarrow> 'w \<Rightarrow> 'w MemoryManager \<Rightarrow> ('w, error + Entity list) mm_result" where
  "mm_ExtractEntities t ctx w = with_RLock (\<lambda>m.
     case mm_entity m of None \<Rightarrow> Ret (m, w, Inr []) | Some em \<Rightarrow> (case em_ExtractEntities em w t ctx of (w', r) \<Rightarrow> Ret (m, w', r)))"

definition mm_AddRelation :: "EntityRelation \<Rightarrow> 'w \<Rightarrow> 'w MemoryManager \<Rightarrow> ('w, error option) mm_result" where
  "mm_AddRelation relation w = with_Lock_RUnlock (\<lambda>m.
     case mm_entity m of
       None \<Rightarrow> Ret (m, w, Some (ErrorString ''entity memory not initialized''))
     | Some em \<Rightarrow> (case em_AddRelation em w relation of (w', e) \<Rightarrow> Ret (m, w', e)))"

definition mm_GetEntityRelations :: "string \<Rightarrow> 'w \<Rightarrow> 'w MemoryManager \<Rightarrow> ('w, error + EntityRelation list) mm_result" where
  "mm_GetEntityRelations i w = with_RLock (\<lambda>m.
     case mm_entity m of None \<Rightarrow> Ret (m, w, Inr []) | Some em \<Rightarrow> (case em_GetEntityRelations em w i of (w', r) \<Rightarrow> Ret (m, w', r)))"

definition mm_GetSummary :: "'w \<Rightarrow> 'w MemoryManager \<Rightarrow> ('w, error + string) mm_result" where
  "mm_GetSummary w = with_RLock (\<lambda>m.
     case mm_shortTerm m of Summary s \<Rightarrow> Ret (m, w, Inr (GetSummary s)) | _ \<Rightarrow> Ret (m, w, Inl (ErrorString ''summary not available'')))"

definition recent_request :: "SessionContext option \<Rightarrow> int \<Rightarrow> MemorySearchRequest" where
  "recent_request ctx limit =
     \<lparr>mq_Query = '''', mq_Context = ctx, mq_Types = [], mq_Limit = limit, mq_MinScore = 0, mq_TimeRange = None\<rparr>"

definition mm_GetRecentMemory :: "SessionContext option \<Rightarrow> int \<Rightarrow> 'w \<Rightarrow> 'w MemoryManager \<Rightarrow> ('w, MemoryEntry list) mm_result" where
  "mm_GetRecentMemory ctx limit w m =
     go_bind (mm_Search (recent_request ctx limit) w m) (\<lambda>(m', w', rs). Ret (m', w', map mr_Entry rs))"

definition mm_AddWithVector :: "string \<Rightarrow> int \<Rightarrow> MemoryEntry \<Rightarrow> rat list \<Rightarrow> 'w \<Rightarrow> 'w MemoryManager \<Rightarrow> ('w, error option) mm_result" where
  "mm_AddWithVector uuid now entry v w m = mm_Add uuid now (entry\<lparr>me_Vector := v\<rparr>) w m"

definition mm_SemanticSearch :: "string \<Rightarrow> SessionContext option \<Rightarrow> int \<Rightarrow> 'w \<Rightarrow> 'w MemoryManager \<Rightarrow> ('w, error + MemorySearchResult list) mm_result" where
  "mm_SemanticSearch query ctx limit w = with_RLock (\<lambda>m.
     case mm_longTerm m of None \<Rightarrow> Ret (m, w, Inr []) | Some lt \<Rightarrow> (case vm_SemanticSearch lt w query ctx limit of (w', r) \<Rightarrow> Ret (m, w', r)))"

definition mm_HybridSearch :: "MemorySearchRequest \<Rightarrow> 'w \<Rightarrow> 'w MemoryManager \<Rightarrow> ('w, error + MemorySearchResult list) mm_result" where
  "mm_HybridSearch req w = with_RLock (\<lambda>m.
     case mm_longTerm m of
       None \<Rightarrow> go_bind (mm_Search req w m) (\<lambda>(m', w', rs). Ret (m', w', Inr rs))
     | Some lt \<Rightarrow> (case vm_HybridSearch lt w req of (w', r) \<Rightarrow> Ret (m, w', r)))"

definition mm_UpdateEntity :: "Entity \<Rightarrow> 'w \<Rightarrow> 'w MemoryManager \<Rightarrow> ('w, error option) mm_result" where
  "mm_UpdateEntity entity w = with_Lock_RUnlock (\<lambda>m.
     case mm_entity m of
       None \<Rightarrow> Ret (m, w, Some (ErrorString ''entity memory not initialized''))
     | Some em \<Rightarrow> (case em_UpdateEntity em w entity of (w', e) \<Rightarrow> Ret (m, w', e)))"

definition mm_GetEntity :: "string \<Rightarrow> 'w \<Rightarrow> 'w MemoryManager \<Rightarrow> ('w, error + Entity) mm_result" where
  "mm_GetEntity i w = with_RLock (\<lambda>m.
     case mm_entity m of
       None \<Rightarrow> Ret (m, w, Inl (ErrorString ''entity memory not initialized''))
     | Some em \<Rightarrow> (case em_GetEntity em w i of (w', r) \<Rightarrow> Ret (m, w', r)))"

section \<open>The lock\<close>

text \<open>An operation has returned with the lock free and a window memory still in place.\<close>

fun settled :: "('w, 'r) mm_result \<Rightarrow> bool" where
  "settled (Ret (m, w, r)) \<longleftrightarrow> mm_mu m = Free \<and> (\<exists>wm. mm_shortTerm m = Window wm)"
| "settled (Panic msg) \<longleftrightarrow> False"
| "settled Deadlock \<longleftrightarrow> False"

text \<open>A body keeps the lock as it is and the window memory, and returns.\<close>

definition body_ok :: "('w MemoryManager \<Rightarrow> ('w, 'r) mm_result) \<Rightarrow> bool" where
  "body_ok body \<longleftrightarrow> (\<forall>m wm. mm_shortTerm m = Window wm \<longrightarrow>
     (\<exists>m' w' r wm'. body m = Ret (m', w', r) \<and> mm_mu m' = mm_mu m \<and> mm_shortTerm m' = Window wm'))"

lemma with_Lock_settled: "body_ok body \<Longrightarrow> mm_mu m = Free \<Longrightarrow> mm_shortTerm m = Window wm \<Longrightarrow> settled (with_Lock body m)"
  unfolding body_ok_def with_Lock_def by (drule spec[of _ "m\<lparr>mm_mu := Writer\<rparr>"]) auto

lemma with_RLock_settled: "body_ok body \<Longrightarrow> mm_mu m = Free \<Longrightarrow> mm_shortTerm m = Window wm \<Longrightarrow> settled (with_RLock body m)"
  unfolding body_ok_def with_RLock_def by (drule spec[of _ "m\<lparr>mm_mu := Readers 1\<rparr>"]) auto

lemma body_okI:
  assumes "\<And>m wm. mm_shortTerm m = Window wm \<Longrightarrow>
    \<exists>m' w' r wm'. body m = Ret (m', w', r) \<and> mm_mu m' = mm_mu m \<and> mm_shortTerm m' = Window wm'"
  shows "body_ok body"
  using assms by (simp add: body_ok_def)

lemma execTenant_returns: "\<exists>w' e. execTenant pool t (insert_entry pool' e0) w = (w', Ret e)"
  by (auto simp: execTenant_def run_tx_def insert_entry_def split: option.split prod.split)

lemma add_body_ok: "body_ok (add_body uuid now e w)"
proof (rule body_okI)
  fix m :: "'a MemoryManager" and wm
  assume m: "mm_shortTerm m = Window wm"
  let ?e = "st_stamped uuid now e (mm_shortTerm m)"
  obtain w' err where "execTenant (mm_pool m) (me_TenantID ?e) (insert_entry (mm_pool m) ?e) (index_entry ?e w m) = (w', Ret err)"
    using execTenant_returns[of "mm_pool m" "me_TenantID ?e" "mm_pool m" ?e "index_entry ?e w m"] by metis
  with m show "\<exists>m' w' r wm'. add_body uuid now e w m = Ret (m', w', r) \<and> mm_mu m' = mm_mu m \<and> mm_shortTerm m' = Window wm'"
    by (simp add: add_body_def st_Add_def)
qed

lemma search_body_ok: "body_ok (search_body req w)"
  by (rule body_okI) (auto simp: search_body_def st_Search_def split: prod.split)

lemma simple_bodies_ok:
  "body_ok (\<lambda>m. go_bind (st_Get i (mm_shortTerm m)) (\<lambda>r. Ret (m, w, r)))"
  "body_ok (\<lambda>m. go_bind (st_Delete i (mm_shortTerm m)) (\<lambda>(e, st). Ret (m\<lparr>mm_shortTerm := st\<rparr>, w, None)))"
  "body_ok (\<lambda>m. Ret (m\<lparr>mm_shortTerm := st_Clear ctx (mm_shortTerm m)\<rparr>, w, None))"
  "body_ok (\<lambda>m. go_bind (st_GetStats now ctx (mm_shortTerm m)) (\<lambda>s. Ret (m, w, s)))"
  "body_ok (\<lambda>m. go_bind (st_Cleanup now (mm_shortTerm m)) (\<lambda>st. Ret (m\<lparr>mm_shortTerm := st\<rparr>, w, None)))"
  by (rule body_okI; auto simp: st_Get_def st_Delete_def st_Clear_def st_GetStats_def st_Cleanup_def split: prod.split)+

lemma with_RLock_nested:
  assumes "body_ok body" and "mm_mu m = Readers 1" and "mm_shortTerm m = Window wm"
  shows "\<exists>m' w' r wm'. with_RLock body m = Ret (m', w', r) \<and> mm_mu m' = Readers 1 \<and> mm_shortTerm m' = Window wm'"
proof -
  from assms(1,3) obtain m' w' r wm' where "body (m\<lparr>mm_mu := Readers 2\<rparr>) = Ret (m', w', r)" "mm_mu m' = Readers 2"
      "mm_shortTerm m' = Window wm'"
    unfolding body_ok_def by (elim allE[of _ "m\<lparr>mm_mu := Readers 2\<rparr>"]) auto
  with assms(2) show ?thesis by (auto simp: with_RLock_def numeral_2_eq_2)
qed

text \<open>HybridSearch without a vector memory takes the read lock twice; a single goroutine gets through.\<close>

lemma HybridSearch_settled:
  assumes "mm_mu m = Free" and "mm_shortTerm m = Window wm"
  shows "settled (mm_HybridSearch req w m)"
proof (cases "mm_longTerm m")
  case None
  have "mm_mu (m\<lparr>mm_mu := Readers 1\<rparr>) = Readers 1" and "mm_shortTerm (m\<lparr>mm_mu := Readers 1\<rparr>) = Window wm"
    using assms by simp_all
  from with_RLock_nested[OF search_body_ok this] obtain m' w' r wm' where
    "mm_Search req w (m\<lparr>mm_mu := Readers 1\<rparr>) = Ret (m', w', r)" "mm_mu m' = Readers 1" "mm_shortTerm m' = Window wm'"
    unfolding mm_Search_def by blast
  with None assms(1) show ?thesis by (simp add: mm_HybridSearch_def with_RLock_def)
next
  case (Some lt)
  obtain w' r where "vm_HybridSearch lt w req = (w', r)" by fastforce
  with Some assms show ?thesis by (simp add: mm_HybridSearch_def with_RLock_def)
qed

text \<open>On a manager with a window memory whose lock is free, Add, Get, Search, Delete, Clear, GetStats and Cleanup
  return, whatever the vector memory, the entity memory and the database answer, and leave the lock free again.\<close>

theorem manager_operations_return:
  assumes "mm_mu m = Free" and "mm_shortTerm m = Window wm"
  shows "settled (mm_Add uuid now e w m) \<and> settled (mm_Get i w m) \<and> settled (mm_Search req w m) \<and>
    settled (mm_Delete i w m) \<and> settled (mm_Clear ctx w m) \<and> settled (mm_GetStats now ctx w m) \<and> settled (mm_Cleanup now w m)"
  unfolding mm_Add_def mm_Get_def mm_Search_def mm_Delete_def mm_Clear_def mm_GetStats_def mm_Cleanup_def
  using assms add_body_ok search_body_ok simple_bodies_ok
  by (intro conjI) (rule with_Lock_settled with_RLock_settled; assumption?; blast)+

theorem manager_operations_return_witness:
  "\<exists>m :: nat MemoryManager. NewMemoryManager None None None None = Ret m \<and>
     settled (mm_Add ''u'' 1 (demo_entry ''a'') 0 m) \<and> settled (mm_Get ''u'' 0 m) \<and> settled (mm_Search (recent_request None 3) 0 m) \<and>
     settled (mm_Delete ''u'' 0 m) \<and> settled (mm_Clear None 0 m) \<and> settled (mm_GetStats 1 None 0 m) \<and> settled (mm_Cleanup 1 0 m)"
proof -
  obtain m :: "nat MemoryManager" and wm where m: "NewMemoryManager None None None None = Ret m" "mm_mu m = Free" "mm_shortTerm m = Window wm"
    by (simp add: NewMemoryManager_def choose_short_term_def DefaultMemoryConfig_def DefaultWindowSize_def NewConversationWindowMemory_def Let_def)
  from manager_operations_return[OF m(2,3)] m(1) show ?thesis by blast
qed

text \<open>AddRelation and UpdateEntity release the lock in the wrong mode: called with the lock free they always end in
  the runtime's fatal error, with or without an entity memory.\<close>

theorem relation_updates_are_fatal:
  assumes "mm_mu m = Free"
  shows "mm_AddRelation relation w m = Panic ''sync: RUnlock of unlocked RWMutex'' \<and>
         mm_UpdateEntity entity w m = Panic ''sync: RUnlock of unlocked RWMutex''"
  using assms by (auto simp: mm_AddRelation_def mm_UpdateEntity_def with_Lock_RUnlock_def split: option.split prod.split)

theorem relation_updates_are_fatal_witness:
  "\<exists>m :: nat MemoryManager. NewMemoryManager None None None None = Ret m \<and>
     mm_AddRelation \<lparr>rl_FromEntityID = ''a'', rl_ToEntityID = ''b'', rl_RelationType = ''r'', rl_Confidence = 1, rl_LastSeen = 0, rl_Metadata = []\<rparr> 0 m =
       Panic ''sync: RUnlock of unlocked RWMutex''"
proof -
  obtain m :: "nat MemoryManager" where "NewMemoryManager None None None None = Ret m" "mm_mu m = Free"
    by (simp add: NewMemoryManager_def choose_short_term_def DefaultMemoryConfig_def DefaultWindowSize_def NewConversationWindowMemory_def Let_def)
  with relation_updates_are_fatal[of m] show ?thesis by blast
qed

section \<open>Tenants and searches\<close>

lemma uuid_match_chars: "uuid_match t \<Longrightarrow> list_all (\<lambda>c. hex_lower c \<or> c = CHR ''-'') t"
proof -
  assume t: "uuid_match t"
  then have all: "\<forall>i \<in> set [0..<36]. if i \<in> {8, 13, 18, 23} then t ! i = CHR ''-'' else hex_lower (t ! i)" and len: "length t = 36"
    unfolding uuid_match_def list_all_iff by blast+
  have "hex_lower (t ! i) \<or> t ! i = CHR ''-''" if "i < length t" for i
  proof -
    have "i \<in> set [0..<36]" using that len unfolding set_upt by simp
    from bspec[OF all this] show ?thesis by presburger
  qed
  then show ?thesis by (simp add: list_all_length)
qed

text \<open>execTenant touches the database only for a tenant id in UUID form, whose characters are lower-case
  hexadecimal digits and dashes, so that the statement built from it names one quoted schema; for any other id it returns
  without a call of the pool, and for an empty one without an error.\<close>

theorem execTenant_only_uuids:
  "(if uuid_match t then list_all (\<lambda>c. hex_lower c \<or> c = CHR ''-'') t
    else execTenant (Some p) t fn w =
      (w, Ret (if t = '''' then None else Some (ErrorString ''memory: invalid tenant_id format''))))"
  by (simp add: uuid_match_chars execTenant_def)

lemma cut_results_bounds:
  "mq_Limit req > 0 \<Longrightarrow> int (length (cut_results req rs)) \<le> mq_Limit req"
  "mq_MinScore req > 0 \<Longrightarrow> list_all (\<lambda>r. mr_Score r \<ge> mq_MinScore req) (cut_results req rs)"
  by (auto simp: cut_results_def Let_def list_all_iff dest: in_set_takeD)

text \<open>Searching a manager of a summary memory panics whenever the short-term memory is asked.\<close>

lemma summary_manager_search_panics:
  assumes "mm_shortTerm m = Summary (NewConversationSummaryMemory c)" and "mm_mu m = Free" and "mq_Types req = []"
  shows "mm_Search req w m = Panic nil_pointer"
  using assms by (simp add: mm_Search_def with_RLock_def search_body_def st_Search_def summary_Search_def embedded_def summary_buffer_stays_nil)

section \<open>Recent entries\<close>

lemma scored_recent:
  "scored (recent_request ctx limit) es = map (\<lambda>e. \<lparr>mr_Entry = e, mr_Score = 1\<rparr>) (filter (context_ok ctx) es)"
  by (induction es) (auto simp: search_test_def recent_request_def)

lemma buffer_Search_recent:
  "buffer_Search (recent_request ctx limit) b = (let rs = scored (recent_request ctx limit) (bm_memory b)
     in if limit > 0 then take (nat limit) rs else rs)"
  by (simp add: buffer_Search_def search_loop_unlimited search_loop_limited recent_request_def Let_def)

text \<open>GetRecentMemory of a manager with a window memory returns the oldest entries of the session, as many as the
  limit, and not the most recent ones: the search it uses runs from the oldest entry and stops at the limit.\<close>

theorem recent_memory_is_oldest:
  assumes "mm_mu m = Free" and "mm_shortTerm m = Window wm" and "limit > 0"
  shows "mm_GetRecentMemory ctx limit w m = Ret (m, w, take (nat limit) (filter (context_ok ctx) (bm_memory (wm_buffer wm))))"
proof -
  let ?rs = "take (nat limit) (map (\<lambda>e. \<lparr>mr_Entry = e, mr_Score = 1\<rparr>) (filter (context_ok ctx) (bm_memory (wm_buffer wm))))"
  have st: "st_Search (recent_request ctx limit) (Window wm) = Ret ?rs"
    using assms(3) by (simp add: st_Search_def buffer_Search_recent scored_recent)
  have cut: "cut_results (recent_request ctx limit) ?rs = ?rs"
    by (simp add: cut_results_def recent_request_def Let_def)
  have q: "mq_Query (recent_request ctx limit) = ''''" by (simp add: recent_request_def)
  have lt: "long_term_results (recent_request ctx limit) w m' = (w, [])" for m' :: "'a MemoryManager"
    by (simp add: long_term_results_def q split: option.split)
  have upd: "m\<lparr>mm_mu := Free\<rparr> = m" using assms(1) by simp
  show ?thesis
    using assms(1,2) st cut q
    by (simp add: mm_GetRecentMemory_def mm_Search_def with_RLock_def search_body_def lt upd take_map comp_def)
qed

theorem recent_memory_is_oldest_witness:
  "\<exists>m :: nat MemoryManager. mm_shortTerm m = Window (window_Add ''2'' 9 (demo_entry ''new'') (window_Add ''1'' 5 (demo_entry ''old'') demo_window)) \<and>
     mm_GetRecentMemory None 1 0 m = Ret (m, 0, [stamp ShortTermMemory ''1'' 5 (demo_entry ''old'')])"
proof -
  let ?wm = "window_Add ''2'' 9 (demo_entry ''new'') (window_Add ''1'' 5 (demo_entry ''old'') demo_window)"
  let ?m = "\<lparr>mm_shortTerm = Window ?wm, mm_longTerm = None, mm_entity = None, mm_pool = None,
    mm_config = DefaultMemoryConfig, mm_mu = Free\<rparr> :: nat MemoryManager"
  have "mm_GetRecentMemory None 1 0 ?m = Ret (?m, 0, take (nat 1) (filter (context_ok None) (bm_memory (wm_buffer ?wm))))"
    by (rule recent_memory_is_oldest) simp_all
  moreover have "take (nat 1) (filter (context_ok None) (bm_memory (wm_buffer ?wm))) = [stamp ShortTermMemory ''1'' 5 (demo_entry ''old'')]"
    by (simp add: window_Add_def window_append_def demo_window_def NewConversationBufferMemory_def context_ok_def)
  ultimately show ?thesis by (intro exI[of _ ?m]) simp
qed

end
