(* ===== verification/A2A_Protocol.thy ===== *)
theory A2A_Protocol
  imports Go_Base
begin

text \<open>
  The agent-to-agent protocol, internal/agent/a2a: messages (message.go), errors (error.go), the
  message handler with its channels (handler.go). Generated ids and clock readings are arguments. A channel is a list with a
  capacity and a closed flag, seen by one goroutine: a send to a full channel blocks, a send to a
  closed one panics. One turn of the loops processInbox and processOutbox is an operation.

  Proved: the default handlers answer requests with one reply that is addressed to the sender and
  refers to the request; they panic on payloads without the expected entry; and a stopped handler
  panics when it is stopped again or asked to send.
\<close>

section \<open>Messages\<close>

type_synonym MessageType = string

definition MessageTypeDiscoveryRequest :: MessageType where "MessageTypeDiscoveryRequest = ''discovery.request''"
definition MessageTypeDiscoveryResponse :: MessageType where "MessageTypeDiscoveryResponse = ''discovery.response''"
definition MessageTypeTaskProposal :: MessageType where "MessageTypeTaskProposal = ''task.proposal''"
definition MessageTypeTaskResponse :: MessageType where "MessageTypeTaskResponse = ''task.response''"
definition MessageTypeCollaborationProposal :: MessageType where "MessageTypeCollaborationProposal = ''collaboration.proposal''"
definition MessageTypeCollaborationAccept :: MessageType where "MessageTypeCollaborationAccept = ''collaboration.accept''"
definition MessageTypeHeartbeat :: MessageType where "MessageTypeHeartbeat = ''control.heartbeat''"
definition MessageTypeProgressUpdate :: MessageType where "MessageTypeProgressUpdate = ''control.progress''"

lemmas message_types = MessageTypeDiscoveryRequest_def MessageTypeDiscoveryResponse_def MessageTypeTaskProposal_def
  MessageTypeTaskResponse_def MessageTypeCollaborationProposal_def MessageTypeCollaborationAccept_def
  MessageTypeHeartbeat_def MessageTypeProgressUpdate_def

record AgentIdentity =
  ai_ID :: string
  ai_Name :: string
  ai_Type :: string
  ai_Endpoint :: string
  ai_Labels :: "string \<rightharpoonup> string"
  ai_LastSeen :: int

definition zero_identity :: AgentIdentity where
  "zero_identity = \<lparr>ai_ID = '''', ai_Name = '''', ai_Type = '''', ai_Endpoint = '''', ai_Labels = Map.empty, ai_LastSeen = 0\<rparr>"

record Capability =
  ca_Name :: string
  ca_Description :: string
  ca_Version :: string

record Message =
  mg_ID :: string
  mg_Type :: MessageType
  mg_From :: AgentIdentity
  mg_To :: AgentIdentity
  mg_Timestamp :: int
  mg_Payload :: "string \<rightharpoonup> gval"
  mg_Priority :: string
  mg_InReplyTo :: string
  mg_ReplyTo :: string
  mg_Headers :: "string \<rightharpoonup> string"
  mg_Retries :: int
  mg_TraceID :: string
  mg_SpanID :: string

definition NewMessage :: "string \<Rightarrow> int \<Rightarrow> MessageType \<Rightarrow> AgentIdentity \<Rightarrow> Message" where
  "NewMessage uuid now msgType from =
     \<lparr>mg_ID = uuid, mg_Type = msgType, mg_From = from, mg_To = zero_identity, mg_Timestamp = now, mg_Payload = Map.empty,
      mg_Priority = '''', mg_InReplyTo = '''', mg_ReplyTo = '''', mg_Headers = Map.empty, mg_Retries = 0, mg_TraceID = '''', mg_SpanID = ''''\<rparr>"

definition WithRecipient :: "AgentIdentity \<Rightarrow> Message \<Rightarrow> Message" where
  "WithRecipient to m = m\<lparr>mg_To := to\<rparr>"

definition WithPayload :: "string \<Rightarrow> gval \<Rightarrow> Message \<Rightarrow> Message" where
  "WithPayload key val m = m\<lparr>mg_Payload := (mg_Payload m)(key \<mapsto> val)\<rparr>"

definition WithPriority :: "string \<Rightarrow> Message \<Rightarrow> Message" where
  "WithPriority priority m = m\<lparr>mg_Priority := priority\<rparr>"

definition WithReplyTo :: "string \<Rightarrow> Message \<Rightarrow> Message" where
  "WithReplyTo messageID m = m\<lparr>mg_InReplyTo := messageID\<rparr>"

definition WithTrace :: "string \<Rightarrow> string \<Rightarrow> Message \<Rightarrow> Message" where
  "WithTrace traceID spanID m = m\<lparr>mg_TraceID := traceID, mg_SpanID := spanID\<rparr>"

definition Clone :: "Message \<Rightarrow> Message" where
  "Clone m =
     \<lparr>mg_ID = mg_ID m, mg_Type = mg_Type m, mg_From = mg_From m, mg_To = mg_To m, mg_Timestamp = mg_Timestamp m,
      mg_Payload = mg_Payload m, mg_Priority = mg_Priority m, mg_InReplyTo = mg_InReplyTo m, mg_ReplyTo = mg_ReplyTo m,
      mg_Headers = mg_Headers m, mg_Retries = mg_Retries m, mg_TraceID = mg_TraceID m, mg_SpanID = mg_SpanID m\<rparr>"

lemmas message_builders = NewMessage_def WithRecipient_def WithPayload_def WithPriority_def WithReplyTo_def WithTrace_def

section \<open>Channels\<close>

record 'a channel =
  ch_cap :: nat
  ch_items :: "'a list"
  ch_closed :: bool

definition make_chan :: "nat \<Rightarrow> 'a channel" where
  "make_chan n = \<lparr>ch_cap = n, ch_items = [], ch_closed = False\<rparr>"

definition ch_send :: "'a \<Rightarrow> 'a channel \<Rightarrow> 'a channel go" where
  "ch_send x c =
     (if ch_closed c then Panic ''send on closed channel''
      else if length (ch_items c) < ch_cap c then Ret (c\<lparr>ch_items := ch_items c @ [x]\<rparr>) else Deadlock)"

definition ch_close :: "'a channel \<Rightarrow> 'a channel go" where
  "ch_close c = (if ch_closed c then Panic ''close of closed channel'' else Ret (c\<lparr>ch_closed := True\<rparr>))"

section \<open>The handler\<close>

text \<open>A handler function gets the id and the time for the reply it may create.\<close>

type_synonym handler_fn = "string \<Rightarrow> int \<Rightarrow> Message \<Rightarrow> (Message option \<times> error option) go"

record ProtocolHandler =
  ph_inbox :: "Message channel"
  ph_outbox :: "Message channel"
  ph_handlers :: "MessageType \<rightharpoonup> handler_fn list"
  ph_running :: bool

definition RegisterHandler :: "MessageType \<Rightarrow> handler_fn \<Rightarrow> ProtocolHandler \<Rightarrow> ProtocolHandler" where
  "RegisterHandler msgType handler h =
     h\<lparr>ph_handlers := (ph_handlers h)(msgType \<mapsto> (case ph_handlers h msgType of None \<Rightarrow> [] | Some hs \<Rightarrow> hs) @ [handler])\<rparr>"

text \<open>The type assertions \<^verbatim>\<open>v.(string)\<close> and \<^verbatim>\<open>v.(int)\<close> on a payload entry: a missing entry is nil.\<close>

definition payload_string :: "Message \<Rightarrow> string \<Rightarrow> string go" where
  "payload_string m k = (case mg_Payload m k of Some (VStr s) \<Rightarrow> Ret s | _ \<Rightarrow> Panic ''interface conversion: not a string'')"

definition payload_int :: "Message \<Rightarrow> string \<Rightarrow> int go" where
  "payload_int m k = (case mg_Payload m k of Some (VInt i) \<Rightarrow> Ret i | _ \<Rightarrow> Panic ''interface conversion: not an int'')"

definition discovery_handler :: handler_fn where
  "discovery_handler uuid now msg =
     Ret (Some (WithReplyTo (mg_ID msg) (WithPayload ''capabilities'' (VList [])
       (WithRecipient (mg_From msg) (NewMessage uuid now MessageTypeDiscoveryResponse (mg_To msg))))), None)"

definition proposal_handler :: handler_fn where
  "proposal_handler uuid now msg =
     go_bind (payload_string msg ''description'') (\<lambda>d.
       Ret (Some (WithReplyTo (mg_ID msg) (WithPayload ''reason'' (VStr ''no handler configured'')
         (WithPayload ''response'' (VStr ''rejected'')
         (WithRecipient (mg_From msg) (NewMessage uuid now MessageTypeTaskResponse (mg_To msg)))))), None))"

definition collaboration_handler :: handler_fn where
  "collaboration_handler uuid now msg =
     go_bind (payload_string msg ''collaboration_id'') (\<lambda>collabID.
       Ret (Some (WithReplyTo (mg_ID msg) (WithPayload ''agent_id'' (VStr (ai_ID (mg_To msg)))
         (WithPayload ''collaboration_id'' (VStr collabID)
         (WithRecipient (mg_From msg) (NewMessage uuid now MessageTypeCollaborationAccept (mg_To msg)))))), None))"

definition heartbeat_handler :: handler_fn where
  "heartbeat_handler uuid now msg = Ret (None, None)"

definition progress_handler :: handler_fn where
  "progress_handler uuid now msg =
     go_bind (payload_string msg ''task_id'') (\<lambda>t. go_bind (payload_int msg ''progress'') (\<lambda>p. Ret (None, None)))"

definition registerDefaultHandlers :: "ProtocolHandler \<Rightarrow> ProtocolHandler" where
  "registerDefaultHandlers h =
     RegisterHandler MessageTypeProgressUpdate progress_handler
     (RegisterHandler MessageTypeHeartbeat heartbeat_handler
     (RegisterHandler MessageTypeCollaborationProposal collaboration_handler
     (RegisterHandler MessageTypeTaskProposal proposal_handler
     (RegisterHandler MessageTypeDiscoveryRequest discovery_handler h))))"

definition NewProtocolHandler :: ProtocolHandler where
  "NewProtocolHandler =
     registerDefaultHandlers \<lparr>ph_inbox = make_chan 1000, ph_outbox = make_chan 1000, ph_handlers = Map.empty, ph_running = False\<rparr>"

definition handler_Start :: "ProtocolHandler \<Rightarrow> ProtocolHandler" where
  "handler_Start h = (if ph_running h then h else h\<lparr>ph_running := True\<rparr>)"

text \<open>Stop closes both channels and waits for the loops, which end on a closed channel.\<close>

definition handler_Stop :: "ProtocolHandler \<Rightarrow> ProtocolHandler go" where
  "handler_Stop h =
     go_bind (ch_close (ph_inbox h)) (\<lambda>ib. go_bind (ch_close (ph_outbox h)) (\<lambda>ob.
       Ret (h\<lparr>ph_running := False, ph_inbox := ib, ph_outbox := ob\<rparr>)))"

definition Receive :: "Message \<Rightarrow> ProtocolHandler \<Rightarrow> ProtocolHandler go" where
  "Receive msg h = go_bind (ch_send msg (ph_inbox h)) (\<lambda>ib. Ret (h\<lparr>ph_inbox := ib\<rparr>))"

definition SendMessage :: "Message \<Rightarrow> string \<Rightarrow> ProtocolHandler \<Rightarrow> ProtocolHandler go" where
  "SendMessage msg replyTo h =
     go_bind (ch_send (if replyTo \<noteq> '''' then msg\<lparr>mg_InReplyTo := replyTo\<rparr> else msg) (ph_outbox h)) (\<lambda>ob.
       Ret (h\<lparr>ph_outbox := ob\<rparr>))"

text \<open>The loop over the handlers of a message; \<open>uuids\<close> and \<open>now\<close> are for the replies.\<close>

fun handler_loop :: "handler_fn list \<Rightarrow> string list \<Rightarrow> int \<Rightarrow> Message \<Rightarrow> ProtocolHandler \<Rightarrow> ProtocolHandler go" where
  "handler_loop [] uuids now msg h = Ret h"
| "handler_loop (f # fs) uuids now msg h =
     (case f (hd uuids) now msg of
        Ret (reply, Some err) \<Rightarrow> handler_loop fs (tl uuids) now msg h
      | Ret (None, None) \<Rightarrow> handler_loop fs (tl uuids) now msg h
      | Ret (Some reply, None) \<Rightarrow>
          go_bind (ch_send reply (ph_outbox h)) (\<lambda>ob. handler_loop fs (tl uuids) now msg (h\<lparr>ph_outbox := ob\<rparr>))
      | Panic m \<Rightarrow> Panic m
      | Deadlock \<Rightarrow> Deadlock)"

definition handleMessage :: "string list \<Rightarrow> int \<Rightarrow> Message \<Rightarrow> ProtocolHandler \<Rightarrow> ProtocolHandler go" where
  "handleMessage uuids now msg h =
     (case ph_handlers h (mg_Type msg) of None \<Rightarrow> Ret h | Some hs \<Rightarrow> handler_loop hs uuids now msg h)"

text \<open>One turn of the two loops: \<open>None\<close> when there is nothing to take.\<close>

definition inbox_turn :: "string list \<Rightarrow> int \<Rightarrow> ProtocolHandler \<Rightarrow> ProtocolHandler go option" where
  "inbox_turn uuids now h =
     (case ch_items (ph_inbox h) of
        [] \<Rightarrow> None
      | msg # rest \<Rightarrow> Some (handleMessage uuids now msg (h\<lparr>ph_inbox := (ph_inbox h)\<lparr>ch_items := rest\<rparr>\<rparr>)))"

definition outbox_turn :: "ProtocolHandler \<Rightarrow> (Message \<times> ProtocolHandler) option" where
  "outbox_turn h =
     (case ch_items (ph_outbox h) of
        [] \<Rightarrow> None
      | msg # rest \<Rightarrow> Some (msg, h\<lparr>ph_outbox := (ph_outbox h)\<lparr>ch_items := rest\<rparr>\<rparr>))"

section \<open>Stopping the handler\<close>

lemma handler_Stop_open:
  "\<not> ch_closed (ph_inbox h) \<Longrightarrow> \<not> ch_closed (ph_outbox h) \<Longrightarrow> \<exists>h'. handler_Stop h = Ret h'"
  by (simp add: handler_Stop_def ch_close_def)

lemma stop_twice_panics: "handler_Stop h = Ret h' \<Longrightarrow> handler_Stop h' = Panic ''close of closed channel''"
  by (auto simp: handler_Stop_def ch_close_def go_bind_Ret_iff split: if_splits)

lemma send_after_stop_panics: "handler_Stop h = Ret h' \<Longrightarrow> SendMessage msg r h' = Panic ''send on closed channel''"
  by (auto simp: handler_Stop_def ch_close_def ch_send_def SendMessage_def go_bind_Ret_iff split: if_splits)

section \<open>The default handlers\<close>

lemma default_handlers:
  "ph_handlers NewProtocolHandler MessageTypeDiscoveryRequest = Some [discovery_handler]"
  "ph_handlers NewProtocolHandler MessageTypeTaskProposal = Some [proposal_handler]"
  "ph_handlers NewProtocolHandler MessageTypeCollaborationProposal = Some [collaboration_handler]"
  "ph_handlers NewProtocolHandler MessageTypeHeartbeat = Some [heartbeat_handler]"
  "ph_handlers NewProtocolHandler MessageTypeProgressUpdate = Some [progress_handler]"
  by (simp_all add: NewProtocolHandler_def registerDefaultHandlers_def RegisterHandler_def message_types)

text \<open>A reply to a message: back to the sender, from the recipient, referring to its id.\<close>

definition reply_to :: "Message \<Rightarrow> Message \<Rightarrow> bool" where
  "reply_to msg r \<longleftrightarrow> mg_To r = mg_From msg \<and> mg_From r = mg_To msg \<and> mg_InReplyTo r = mg_ID msg"

lemma discovery_reply: "\<exists>r. discovery_handler uuid now msg = Ret (Some r, None) \<and> reply_to msg r \<and> mg_Type r = MessageTypeDiscoveryResponse"
  by (simp add: discovery_handler_def message_builders reply_to_def)

lemma proposal_reply:
  "mg_Payload msg ''description'' = Some (VStr d) \<Longrightarrow> \<exists>r. proposal_handler uuid now msg = Ret (Some r, None) \<and> reply_to msg r \<and>
     mg_Type r = MessageTypeTaskResponse \<and> mg_Payload r ''response'' = Some (VStr ''rejected'')"
  by (simp add: proposal_handler_def payload_string_def message_builders reply_to_def)

lemma collaboration_reply:
  "mg_Payload msg ''collaboration_id'' = Some (VStr c) \<Longrightarrow> \<exists>r. collaboration_handler uuid now msg = Ret (Some r, None) \<and> reply_to msg r \<and>
     mg_Type r = MessageTypeCollaborationAccept \<and> mg_Payload r ''collaboration_id'' = Some (VStr c)"
  by (simp add: collaboration_handler_def payload_string_def message_builders reply_to_def)

lemma handle_one_reply:
  assumes "ph_handlers h (mg_Type msg) = Some [f]" and "f uuid now msg = Ret (Some r, None)"
    and "\<not> ch_closed (ph_outbox h)" and "length (ch_items (ph_outbox h)) < ch_cap (ph_outbox h)"
  shows "handleMessage [uuid] now msg h = Ret (h\<lparr>ph_outbox := (ph_outbox h)\<lparr>ch_items := ch_items (ph_outbox h) @ [r]\<rparr>\<rparr>)"
  using assms by (simp add: handleMessage_def ch_send_def)

text \<open>A fresh handler answers a task or collaboration proposal that has the expected payload entry with exactly one message in its outbox, a reply to the sender; and a task or collaboration proposal without
  that entry makes it panic.\<close>

theorem default_replies:
  assumes "mg_Type msg = MessageTypeTaskProposal \<and> key = ''description'' \<or>
      mg_Type msg = MessageTypeCollaborationProposal \<and> key = ''collaboration_id''"
  shows "case mg_Payload msg key of
      Some (VStr d) \<Rightarrow> (\<exists>h r. handleMessage [uuid] now msg NewProtocolHandler = Ret h \<and> ch_items (ph_outbox h) = [r] \<and> reply_to msg r)
    | _ \<Rightarrow> handleMessage [uuid] now msg NewProtocolHandler = Panic ''interface conversion: not a string''"
proof (cases "\<exists>d. mg_Payload msg key = Some (VStr d)")
  case True
  have open_box: "\<not> ch_closed (ph_outbox NewProtocolHandler)" "length (ch_items (ph_outbox NewProtocolHandler)) < ch_cap (ph_outbox NewProtocolHandler)"
    "ch_items (ph_outbox NewProtocolHandler) = []"
    by (simp_all add: NewProtocolHandler_def registerDefaultHandlers_def RegisterHandler_def make_chan_def)
  from True assms obtain f r where "ph_handlers NewProtocolHandler (mg_Type msg) = Some [f]" "f uuid now msg = Ret (Some r, None)" "reply_to msg r"
    using default_handlers proposal_reply collaboration_reply by metis
  from handle_one_reply[OF this(1,2) open_box(1,2)] this(3) open_box(3) True show ?thesis by auto
next
  case False
  with assms have "handleMessage [uuid] now msg NewProtocolHandler = Panic ''interface conversion: not a string''"
    by (auto simp: handleMessage_def default_handlers proposal_handler_def collaboration_handler_def payload_string_def
        split: option.split gval.split)
  with False show ?thesis by (auto split: option.split gval.split)
qed

theorem default_replies_witness:
  "case mg_Payload (NewMessage ''m'' 0 MessageTypeTaskProposal zero_identity) ''description'' of
      Some (VStr d) \<Rightarrow> (\<exists>h r. handleMessage [''u''] 0 (NewMessage ''m'' 0 MessageTypeTaskProposal zero_identity) NewProtocolHandler = Ret h \<and>
        ch_items (ph_outbox h) = [r] \<and> reply_to (NewMessage ''m'' 0 MessageTypeTaskProposal zero_identity) r)
    | _ \<Rightarrow> handleMessage [''u''] 0 (NewMessage ''m'' 0 MessageTypeTaskProposal zero_identity) NewProtocolHandler =
        Panic ''interface conversion: not a string''"
  by (rule default_replies) (simp add: NewMessage_def)

end
