(* ===== verification/A2A_Discovery.thy ===== *)
theory A2A_Discovery
  imports A2A_Protocol
begin

text \<open>
  Agent discovery, internal/agent/a2a/discovery.go. The peers and the capability index both hold
  pointers to the same PeerInfo objects, so the objects live in an explicit store: \<open>ds_heap\<close> maps
  references to objects, and the maps hold references. Subscribers are channels of capacity 100 to
  which events are sent without blocking. The order of a range loop is an argument.

  Proved: as long as no registered id is registered again, the index holds exactly the registered
  peers under exactly their capabilities, an invariant of all operations, and then
  GetPeersWithCapabilities finds exactly the registered peers with all the capabilities asked for.
  Registering an id again breaks it: an unregistered peer can still be found.
\<close>

section \<open>Data\<close>

record PeerInfo =
  pi_Identity :: AgentIdentity
  pi_Capabilities :: "Capability list"
  pi_LastSeen :: int
  pi_HeartbeatInterval :: int

record DiscoveryEvent =
  ev_Type :: string
  ev_Peer :: nat
  ev_Timestamp :: int

record DiscoveryService =
  ds_heap :: "nat \<Rightarrow> PeerInfo"
  ds_next :: nat
  ds_peers :: "string \<rightharpoonup> nat"
  ds_capabilities :: "string \<rightharpoonup> (string \<rightharpoonup> nat)"
  ds_eventChans :: "(nat \<times> DiscoveryEvent channel) list"

definition zero_peer :: PeerInfo where
  "zero_peer = \<lparr>pi_Identity = zero_identity, pi_Capabilities = [], pi_LastSeen = 0, pi_HeartbeatInterval = 0\<rparr>"

definition NewDiscoveryService :: DiscoveryService where
  "NewDiscoveryService = \<lparr>ds_heap = (\<lambda>r. zero_peer), ds_next = 0, ds_peers = Map.empty, ds_capabilities = Map.empty, ds_eventChans = []\<rparr>"

definition ErrNoPeersFound :: error where
  "ErrNoPeersFound = A2AError ''discovery'' ''no peers found with required capabilities'' None"

section \<open>Events\<close>

definition offer_event :: "DiscoveryEvent \<Rightarrow> DiscoveryEvent channel \<Rightarrow> DiscoveryEvent channel" where
  "offer_event e c = (if length (ch_items c) < ch_cap c then c\<lparr>ch_items := ch_items c @ [e]\<rparr> else c)"

definition notifyEvent :: "DiscoveryEvent \<Rightarrow> DiscoveryService \<Rightarrow> DiscoveryService" where
  "notifyEvent e d = d\<lparr>ds_eventChans := map (\<lambda>(i, c). (i, offer_event e c)) (ds_eventChans d)\<rparr>"

text \<open>A subscription has a fresh number, which stands for the identity of its channel.\<close>

definition Subscribe :: "nat \<Rightarrow> DiscoveryService \<Rightarrow> DiscoveryService" where
  "Subscribe i d = d\<lparr>ds_eventChans := ds_eventChans d @ [(i, make_chan 100)]\<rparr>"

fun remove_chan :: "nat \<Rightarrow> (nat \<times> 'c) list \<Rightarrow> (nat \<times> 'c) list" where
  "remove_chan i [] = []"
| "remove_chan i ((j, c) # cs) = (if j = i then cs else (j, c) # remove_chan i cs)"

definition unsubscribe :: "nat \<Rightarrow> DiscoveryService \<Rightarrow> DiscoveryService" where
  "unsubscribe i d = d\<lparr>ds_eventChans := remove_chan i (ds_eventChans d)\<rparr>"

section \<open>Peers\<close>

definition index_add :: "string \<Rightarrow> nat \<Rightarrow> string \<Rightarrow> (string \<rightharpoonup> (string \<rightharpoonup> nat)) \<Rightarrow> (string \<rightharpoonup> (string \<rightharpoonup> nat))" where
  "index_add i r cap ix = ix(cap \<mapsto> (case ix cap of None \<Rightarrow> Map.empty | Some m \<Rightarrow> m)(i \<mapsto> r))"

text \<open>An entry of the index is removed, and the map of a capability with its last entry; \<open>len(caps) == 0\<close> is \<open>caps = Map.empty\<close>.\<close>

definition index_del :: "string \<Rightarrow> string \<Rightarrow> (string \<rightharpoonup> (string \<rightharpoonup> nat)) \<Rightarrow> (string \<rightharpoonup> (string \<rightharpoonup> nat))" where
  "index_del i cap ix =
     (case ix cap of
        None \<Rightarrow> ix
      | Some caps \<Rightarrow> (let caps' = caps(i := None) in if dom caps' = {} then ix(cap := None) else ix(cap \<mapsto> caps')))"

definition RegisterPeer :: "int \<Rightarrow> AgentIdentity \<Rightarrow> Capability list \<Rightarrow> DiscoveryService \<Rightarrow> DiscoveryService" where
  "RegisterPeer now identity capabilities d =
     (let r = ds_next d;
          peer = \<lparr>pi_Identity = identity, pi_Capabilities = capabilities, pi_LastSeen = now, pi_HeartbeatInterval = 30 * 10 ^ 9\<rparr>
      in notifyEvent \<lparr>ev_Type = ''joined'', ev_Peer = r, ev_Timestamp = now\<rparr>
           (d\<lparr>ds_heap := (ds_heap d)(r := peer), ds_next := r + 1,
              ds_peers := (ds_peers d)(ai_ID identity \<mapsto> r),
              ds_capabilities := foldl (\<lambda>ix c. index_add (ai_ID identity) r (ca_Name c) ix) (ds_capabilities d) capabilities\<rparr>))"

definition drop_peer :: "int \<Rightarrow> string \<Rightarrow> nat \<Rightarrow> DiscoveryService \<Rightarrow> DiscoveryService" where
  "drop_peer now i r d =
     notifyEvent \<lparr>ev_Type = ''left'', ev_Peer = r, ev_Timestamp = now\<rparr>
       (d\<lparr>ds_capabilities := foldl (\<lambda>ix c. index_del i (ca_Name c) ix) (ds_capabilities d) (pi_Capabilities (ds_heap d r)),
          ds_peers := (ds_peers d)(i := None)\<rparr>)"

definition UnregisterPeer :: "int \<Rightarrow> string \<Rightarrow> DiscoveryService \<Rightarrow> DiscoveryService" where
  "UnregisterPeer now agentID d = (case ds_peers d agentID of None \<Rightarrow> d | Some r \<Rightarrow> drop_peer now agentID r d)"

definition GetPeer :: "string \<Rightarrow> DiscoveryService \<Rightarrow> PeerInfo option" where
  "GetPeer agentID d = map_option (ds_heap d) (ds_peers d agentID)"

text \<open>The references of a map in the order its range loop visits them.\<close>

definition refs_of :: "(string \<rightharpoonup> nat) \<Rightarrow> string list \<Rightarrow> nat list" where
  "refs_of m order = List.map_filter m order"

definition GetAllPeers :: "string list \<Rightarrow> DiscoveryService \<Rightarrow> nat list" where
  "GetAllPeers order d = refs_of (ds_peers d) order"

text \<open>The candidates: the peers of the first capability that have all the others; \<open>None\<close> is the early return.\<close>

fun intersect_caps :: "DiscoveryService \<Rightarrow> string list \<Rightarrow> (string \<rightharpoonup> nat) \<Rightarrow> (string \<rightharpoonup> nat) option" where
  "intersect_caps d [] candidates = Some candidates"
| "intersect_caps d (c # cs) candidates =
     (case ds_capabilities d c of
        None \<Rightarrow> None
      | Some caps \<Rightarrow> intersect_caps d cs (\<lambda>i. if caps i = None then None else candidates i))"

definition candidates_of :: "DiscoveryService \<Rightarrow> string list \<Rightarrow> (string \<rightharpoonup> nat) option" where
  "candidates_of d requiredCaps =
     (case requiredCaps of
        [] \<Rightarrow> Some (ds_peers d)
      | c # cs \<Rightarrow> intersect_caps d cs (case ds_capabilities d c of None \<Rightarrow> Map.empty | Some caps \<Rightarrow> caps))"

definition GetPeersWithCapabilities :: "string list \<Rightarrow> string list \<Rightarrow> DiscoveryService \<Rightarrow> nat list" where
  "GetPeersWithCapabilities requiredCaps order d =
     (case candidates_of d requiredCaps of None \<Rightarrow> [] | Some cands \<Rightarrow> refs_of cands order)"

definition FindBestPeer :: "string list \<Rightarrow> string list \<Rightarrow> DiscoveryService \<Rightarrow> error + nat" where
  "FindBestPeer requiredCaps order d =
     (case GetPeersWithCapabilities requiredCaps order d of [] \<Rightarrow> Inl ErrNoPeersFound | r # rs \<Rightarrow> Inr r)"

definition UpdateHeartbeat :: "int \<Rightarrow> string \<Rightarrow> DiscoveryService \<Rightarrow> DiscoveryService" where
  "UpdateHeartbeat now agentID d =
     (case ds_peers d agentID of
        None \<Rightarrow> d
      | Some r \<Rightarrow> d\<lparr>ds_heap := (ds_heap d)(r := (ds_heap d r)\<lparr>pi_LastSeen := now\<rparr>)\<rparr>)"

fun cleanup_loop :: "int \<Rightarrow> int \<Rightarrow> string list \<Rightarrow> DiscoveryService \<Rightarrow> DiscoveryService" where
  "cleanup_loop now timeout [] d = d"
| "cleanup_loop now timeout (i # is) d =
     (case ds_peers d i of
        None \<Rightarrow> cleanup_loop now timeout is d
      | Some r \<Rightarrow> cleanup_loop now timeout is (if now - pi_LastSeen (ds_heap d r) > timeout then drop_peer now i r d else d))"

definition disc_Cleanup :: "int \<Rightarrow> int \<Rightarrow> string list \<Rightarrow> DiscoveryService \<Rightarrow> DiscoveryService" where
  "disc_Cleanup now timeout order d = cleanup_loop now timeout order d"

section \<open>The index invariant\<close>

definition cap_names :: "DiscoveryService \<Rightarrow> nat \<Rightarrow> string set" where
  "cap_names d r = ca_Name ` set (pi_Capabilities (ds_heap d r))"

definition indexed :: "(string \<rightharpoonup> (string \<rightharpoonup> nat)) \<Rightarrow> string \<Rightarrow> string \<Rightarrow> nat option" where
  "indexed ix cap i = (case ix cap of None \<Rightarrow> None | Some m \<Rightarrow> m i)"

definition index_inv :: "DiscoveryService \<Rightarrow> bool" where
  "index_inv d \<longleftrightarrow>
     (\<forall>cap i r. indexed (ds_capabilities d) cap i = Some r \<longleftrightarrow> ds_peers d i = Some r \<and> cap \<in> cap_names d r) \<and>
     (\<forall>i r. ds_peers d i = Some r \<longrightarrow> r < ds_next d) \<and> inj_on (ds_peers d) (dom (ds_peers d))"

lemma indexed_add: "indexed (index_add i r cap ix) c j = (if c = cap \<and> j = i then Some r else indexed ix c j)"
  by (auto simp: indexed_def index_add_def split: option.split)

lemma indexed_del: "indexed (index_del i cap ix) c j = (if c = cap \<and> j = i then None else indexed ix c j)"
proof (cases "ix cap")
  case None
  then show ?thesis by (simp add: indexed_def index_del_def)
next
  case (Some m)
  have "m(i := None) = Map.empty \<Longrightarrow> j \<noteq> i \<Longrightarrow> m j = None" by (metis fun_upd_other)
  with Some show ?thesis by (auto simp: indexed_def index_del_def Let_def)
qed

lemma indexed_adds:
  "indexed (foldl (\<lambda>ix c. index_add i r (ca_Name c) ix) ix caps) cap j =
     (if j = i \<and> cap \<in> ca_Name ` set caps then Some r else indexed ix cap j)"
  by (induction caps arbitrary: ix) (auto simp: indexed_add)

lemma indexed_dels:
  "indexed (foldl (\<lambda>ix c. index_del i (ca_Name c) ix) ix caps) cap j =
     (if j = i \<and> cap \<in> ca_Name ` set caps then None else indexed ix cap j)"
  by (induction caps arbitrary: ix) (auto simp: indexed_del)

lemma notify_fields [simp]:
  "ds_heap (notifyEvent e d) = ds_heap d" "ds_next (notifyEvent e d) = ds_next d" "ds_peers (notifyEvent e d) = ds_peers d"
  "ds_capabilities (notifyEvent e d) = ds_capabilities d"
  by (simp_all add: notifyEvent_def)

lemma index_inv_notify [simp]: "index_inv (notifyEvent e d) = index_inv d"
  by (simp add: index_inv_def cap_names_def)

lemma index_inv_new: "index_inv NewDiscoveryService"
  by (simp add: index_inv_def indexed_def NewDiscoveryService_def)

lemma index_inv_register:
  assumes d: "index_inv d" and new: "ds_peers d (ai_ID identity) = None"
  shows "index_inv (RegisterPeer now identity caps d)"
proof -
  have lt: "ds_peers d i = Some r \<Longrightarrow> r < ds_next d" for i r using d by (simp add: index_inv_def)
  then have ne: "ds_peers d i = Some r \<Longrightarrow> r \<noteq> ds_next d" for i r by blast
  have ix: "indexed (ds_capabilities d) cap (ai_ID identity) = None" for cap
    using d new unfolding index_inv_def by (metis not_None_eq)
  have inj: "inj_on (ds_peers d) (dom (ds_peers d))" using d by (simp add: index_inv_def)
  have "Some (ds_next d) \<notin> ds_peers d ` dom (ds_peers d)" using lt by force
  then have "inj_on ((ds_peers d)(ai_ID identity \<mapsto> ds_next d)) (dom ((ds_peers d)(ai_ID identity \<mapsto> ds_next d)))"
    using inj by (auto simp: inj_on_def image_iff) (metis domI)+
  then show ?thesis
    using d ix lt ne new
    by (auto simp: RegisterPeer_def Let_def index_inv_def indexed_adds cap_names_def less_Suc_eq split: if_splits)
qed

lemma index_inv_drop:
  assumes d: "index_inv d" and i: "ds_peers d i = Some r"
  shows "index_inv (drop_peer now i r d)"
  using assms
  by (auto simp: drop_peer_def index_inv_def indexed_dels cap_names_def inj_on_def dom_def split: if_splits)

lemma index_inv_heartbeat: "index_inv d \<Longrightarrow> index_inv (UpdateHeartbeat now i d)"
  by (auto simp: UpdateHeartbeat_def index_inv_def cap_names_def split: option.split)

lemma index_inv_chans: "index_inv d \<Longrightarrow> index_inv (Subscribe k d)" "index_inv d \<Longrightarrow> index_inv (unsubscribe k d)"
  by (simp_all add: index_inv_def cap_names_def Subscribe_def unsubscribe_def)

lemma index_inv_cleanup: "index_inv d \<Longrightarrow> index_inv (cleanup_loop now timeout is d)"
  by (induction "now" timeout "is" d rule: cleanup_loop.induct) (auto simp: index_inv_drop split: option.split)

section \<open>Histories\<close>

text \<open>The operations as steps, with the restriction that a registered id is not registered again.\<close>

inductive disc_step :: "DiscoveryService \<Rightarrow> DiscoveryService \<Rightarrow> bool" where
  register: "ds_peers d (ai_ID identity) = None \<Longrightarrow> disc_step d (RegisterPeer now identity caps d)"
| unregister: "disc_step d (UnregisterPeer now i d)"
| heartbeat: "disc_step d (UpdateHeartbeat now i d)"
| cleanup: "disc_step d (disc_Cleanup now timeout order d)"
| subscribe: "disc_step d (Subscribe k d)"
| leave: "disc_step d (unsubscribe k d)"

inductive_cases disc_stepE: "disc_step d d'"

interpretation discovery: invariant_system "\<lambda>d. d = NewDiscoveryService" disc_step index_inv
proof
  fix s
  assume "s = NewDiscoveryService"
  then show "index_inv s" by (simp add: index_inv_new)
next
  fix s t
  assume "disc_step s t" and inv: "index_inv s"
  then show "index_inv t"
    by (elim disc_stepE)
      (auto simp: disc_Cleanup_def UnregisterPeer_def split: option.split
        intro: index_inv_register index_inv_drop index_inv_heartbeat index_inv_cleanup index_inv_chans)
qed

section \<open>Finding peers\<close>

lemma intersect_caps_Some:
  "intersect_caps d cs cand = Some m \<Longrightarrow> m i = (if \<forall>c \<in> set cs. indexed (ds_capabilities d) c i \<noteq> None then cand i else None)"
proof (induction cs arbitrary: cand)
  case (Cons c cs)
  then obtain caps where caps: "ds_capabilities d c = Some caps"
    and rest: "intersect_caps d cs (\<lambda>i. if caps i = None then None else cand i) = Some m"
    by (auto split: option.splits)
  have "indexed (ds_capabilities d) c i = caps i" using caps by (simp add: indexed_def)
  with Cons.IH[OF rest] show ?case by (auto split: if_splits)
qed simp

lemma intersect_caps_None:
  "intersect_caps d cs cand = None \<Longrightarrow> \<exists>c \<in> set cs. \<forall>i. indexed (ds_capabilities d) c i = None"
  by (induction d cs cand rule: intersect_caps.induct) (auto simp: indexed_def split: option.splits)

text \<open>With the index in order, the candidates are the registered peers with all the capabilities.\<close>

lemma candidates_exact:
  assumes d: "index_inv d"
  shows "(case candidates_of d caps of None \<Rightarrow> None | Some m \<Rightarrow> m i) = Some r \<longleftrightarrow> ds_peers d i = Some r \<and> set caps \<subseteq> cap_names d r"
proof -
  have ix: "indexed (ds_capabilities d) cap i = Some r' \<longleftrightarrow> ds_peers d i = Some r' \<and> cap \<in> cap_names d r'" for cap r'
    using d by (simp add: index_inv_def)
  show ?thesis
  proof (cases caps)
    case Nil
    then show ?thesis by (simp add: candidates_of_def)
  next
    case (Cons c cs)
    let ?cand = "case ds_capabilities d c of None \<Rightarrow> Map.empty | Some m \<Rightarrow> m"
    have cand: "?cand i = Some r' \<longleftrightarrow> ds_peers d i = Some r' \<and> c \<in> cap_names d r'" for r'
      using ix[of c r'] by (simp add: indexed_def split: option.splits)
    show ?thesis
    proof (cases "intersect_caps d cs ?cand")
      case None
      then obtain c' where "c' \<in> set cs" "indexed (ds_capabilities d) c' i = None" using intersect_caps_None by blast
      with ix[of c'] None Cons show ?thesis by (auto simp: candidates_of_def)
    next
      case (Some m)
      have "m i = Some r \<longleftrightarrow> (\<forall>c' \<in> set cs. indexed (ds_capabilities d) c' i \<noteq> None) \<and> ?cand i = Some r"
        using intersect_caps_Some[OF Some, of i] by simp
      also have "\<dots> \<longleftrightarrow> ds_peers d i = Some r \<and> set caps \<subseteq> cap_names d r"
        using ix cand Cons by fastforce
      finally show ?thesis using Some Cons by (simp add: candidates_of_def)
    qed
  qed
qed

lemma set_refs_of: "set (refs_of m order) = {r. \<exists>i \<in> set order. m i = Some r}"
  by (induction order) (auto simp: refs_of_def List.map_filter_simps split: option.splits)

text \<open>C12: As long as no registered id is registered again, whatever the order of the operations, a search for
  capabilities finds exactly the registered peers that have all of them, under their current registration, and
  FindBestPeer fails exactly when there is none.\<close>

theorem discovery_exact:
  assumes "rtranclp disc_step NewDiscoveryService d" and "ranges (ds_peers d) order"
  shows "set (GetPeersWithCapabilities caps order d) = {r. \<exists>i. ds_peers d i = Some r \<and> set caps \<subseteq> cap_names d r} \<and>
    (FindBestPeer caps order d = Inl ErrNoPeersFound \<longleftrightarrow> (\<nexists>i r. ds_peers d i = Some r \<and> set caps \<subseteq> cap_names d r))"
proof -
  have inv: "index_inv d" using assms(1) discovery.reachable_inv by blast
  have dom: "ds_peers d i = Some r \<Longrightarrow> i \<in> set order" for i r using assms(2) by (auto simp: ranges_def)
  have found: "set (GetPeersWithCapabilities caps order d) = {r. \<exists>i. ds_peers d i = Some r \<and> set caps \<subseteq> cap_names d r}"
    unfolding GetPeersWithCapabilities_def
    using candidates_exact[OF inv, where caps = caps] dom
    by (cases "candidates_of d caps") (auto simp: set_refs_of)
  have "FindBestPeer caps order d = Inl ErrNoPeersFound \<longleftrightarrow> set (GetPeersWithCapabilities caps order d) = {}"
    by (auto simp: FindBestPeer_def split: list.split)
  with found show ?thesis by auto
qed

definition agent_a :: AgentIdentity where "agent_a = zero_identity\<lparr>ai_ID := ''a''\<rparr>"

definition cap_named :: "string \<Rightarrow> Capability" where "cap_named n = \<lparr>ca_Name = n, ca_Description = '''', ca_Version = ''''\<rparr>"

theorem discovery_exact_witness:
  "set (GetPeersWithCapabilities [''x''] [''a''] (RegisterPeer 0 agent_a [cap_named ''x''] NewDiscoveryService)) =
     {r. \<exists>i. ds_peers (RegisterPeer 0 agent_a [cap_named ''x''] NewDiscoveryService) i = Some r \<and>
        set [''x''] \<subseteq> cap_names (RegisterPeer 0 agent_a [cap_named ''x''] NewDiscoveryService) r}"
proof -
  let ?d = "RegisterPeer 0 agent_a [cap_named ''x''] NewDiscoveryService"
  have "rtranclp disc_step NewDiscoveryService ?d"
    by (rule r_into_rtranclp, rule disc_step.register) (simp add: NewDiscoveryService_def)
  moreover have "ranges (ds_peers ?d) [''a'']"
    by (simp add: ranges_def RegisterPeer_def Let_def NewDiscoveryService_def agent_a_def)
  ultimately show ?thesis using discovery_exact[of ?d "[''a'']" "[''x'']"] by blast
qed

text \<open>Registering an id again leaves the entries of its old capabilities in the index: a peer that registered
  with one capability, registered again with another and then left is still found for the first one, although it is no
  longer a registered peer.\<close>

theorem reregistration_leaves_ghost:
  "let d = UnregisterPeer 2 ''a'' (RegisterPeer 1 agent_a [cap_named ''y''] (RegisterPeer 0 agent_a [cap_named ''x''] NewDiscoveryService))
   in GetPeer ''a'' d = None \<and> GetAllPeers [] d = [] \<and> ds_peers d = Map.empty \<and>
      GetPeersWithCapabilities [''x''] [''a''] d = [0] \<and> FindBestPeer [''x''] [''a''] d = Inr 0"
proof -
  note defs = UnregisterPeer_def drop_peer_def RegisterPeer_def NewDiscoveryService_def agent_a_def cap_named_def index_add_def
    index_del_def GetPeer_def GetAllPeers_def GetPeersWithCapabilities_def FindBestPeer_def candidates_of_def refs_of_def
  show ?thesis by (simp add: defs Let_def List.map_filter_def fun_eq_iff)
qed

end
