(* ===== verification/A2A_Client.thy ===== *)
theory A2A_Client
  imports A2A_Discovery
begin

text \<open>
  The client of the agent-to-agent protocol, internal/agent/a2a/client.go: what an agent uses to send
  messages, to wait for replies, and to keep its collaborations. Reply channels are references, since
  the waiting call and the client's map share them. A call that waits is two operations: the part up
  to the select statement and the part after it, with the event that ended the wait. The functions
  registered for incoming messages work on the client's data; the type assertion to a list of agents
  is the argument \<open>as_agents\<close>.

  Proved: the messages of a client carry no id, so that all waiting calls of a client use the same
  key of the map of reply channels: after a second request the first one cannot receive a reply any
  more. The sessions of collaborations follow the messages: they are invited, active and completed,
  and participants join and leave.
\<close>

section \<open>Data\<close>

definition MessageTypeCapabilityAnnouncement :: MessageType where "MessageTypeCapabilityAnnouncement = ''capability.announcement''"
definition MessageTypeAgentDeparture :: MessageType where "MessageTypeAgentDeparture = ''agent.departure''"
definition MessageTypeCollaborationStarted :: MessageType where "MessageTypeCollaborationStarted = ''collaboration.started''"
definition MessageTypeCollaborationCompleted :: MessageType where "MessageTypeCollaborationCompleted = ''collaboration.completed''"
definition MessageTypeJoinCollaboration :: MessageType where "MessageTypeJoinCollaboration = ''collaboration.join''"
definition MessageTypeLeaveCollaboration :: MessageType where "MessageTypeLeaveCollaboration = ''collaboration.leave''"
definition MessageTypeDataRequest :: MessageType where "MessageTypeDataRequest = ''data.request''"
definition MessageTypeDataResponse :: MessageType where "MessageTypeDataResponse = ''data.response''"
definition MessageTypeDataExchange :: MessageType where "MessageTypeDataExchange = ''data.exchange''"

record CollaborationSession =
  cs_ID :: string
  cs_CollaborationID :: string
  cs_Role :: string
  cs_Participants :: "AgentIdentity list"
  cs_State :: string
  cs_CreatedAt :: int
  cs_SharedData :: "(string \<rightharpoonup> gval) option"

text \<open>
  The data of a client. \<open>cl_chans\<close> is the store of its reply channels, \<open>cl_next\<close> the next free
  reference. The shared data of a session is an option since it can become a nil map.
\<close>

record client_data =
  cl_agentID :: string
  cl_agentName :: string
  cl_capabilities :: "Capability list"
  cl_chans :: "nat \<Rightarrow> Message channel"
  cl_next :: nat
  cl_replyChans :: "string \<rightharpoonup> nat"
  cl_collaborations :: "string \<rightharpoonup> CollaborationSession"

type_synonym MessageHandler =
  "string \<Rightarrow> int \<Rightarrow> Message \<Rightarrow> client_data \<Rightarrow> ((Message option \<times> error option) \<times> client_data) go"

record A2AClient =
  ac_data :: client_data
  ac_listeners :: "MessageType \<rightharpoonup> MessageHandler list"

section \<open>Sending\<close>

definition self_identity :: "client_data \<Rightarrow> AgentIdentity" where
  "self_identity c = zero_identity\<lparr>ai_ID := cl_agentID c, ai_Name := cl_agentName c\<rparr>"

definition broadcast :: AgentIdentity where
  "broadcast = zero_identity\<lparr>ai_ID := ''broadcast''\<rparr>"

text \<open>The composite literals \<^verbatim>\<open>&Message{...}\<close> of the client: the fields not named, the ID among them, are zero.\<close>

definition client_message :: "client_data \<Rightarrow> int \<Rightarrow> MessageType \<Rightarrow> AgentIdentity \<Rightarrow> (string \<rightharpoonup> gval) \<Rightarrow> Message" where
  "client_message c now msgType to payload =
     \<lparr>mg_ID = '''', mg_Type = msgType, mg_From = self_identity c, mg_To = to, mg_Timestamp = now, mg_Payload = payload,
      mg_Priority = '''', mg_InReplyTo = '''', mg_ReplyTo = '''', mg_Headers = Map.empty, mg_Retries = 0, mg_TraceID = '''', mg_SpanID = ''''\<rparr>"

definition caps_value :: "Capability list \<Rightarrow> gval" where
  "caps_value cs = VList (map (\<lambda>c. VMap [(''Name'', VStr (ca_Name c)), (''Description'', VStr (ca_Description c)), (''Version'', VStr (ca_Version c))]) cs)"

definition AnnounceCapabilities :: "int \<Rightarrow> Capability list \<Rightarrow> client_data \<Rightarrow> ProtocolHandler \<Rightarrow> (client_data \<times> ProtocolHandler) go" where
  "AnnounceCapabilities now caps c h =
     (let c1 = c\<lparr>cl_capabilities := caps\<rparr>
      in go_bind (SendMessage (client_message c1 now MessageTypeCapabilityAnnouncement zero_identity [''capabilities'' \<mapsto> caps_value caps]) '''' h)
           (\<lambda>h'. Ret (c1, h')))"

definition DiscoverAgents :: "string list \<Rightarrow> string list \<Rightarrow> DiscoveryService \<Rightarrow> AgentIdentity list" where
  "DiscoverAgents caps order d = map (\<lambda>r. pi_Identity (ds_heap d r)) (GetPeersWithCapabilities caps order d)"

definition AcceptTask :: "int \<Rightarrow> string \<Rightarrow> client_data \<Rightarrow> ProtocolHandler \<Rightarrow> ProtocolHandler go" where
  "AcceptTask now proposalID c h =
     SendMessage (client_message c now MessageTypeTaskResponse zero_identity
       [''proposal_id'' \<mapsto> VStr proposalID, ''response'' \<mapsto> VStr ''accepted'']) '''' h"

definition RejectTask :: "int \<Rightarrow> string \<Rightarrow> string \<Rightarrow> client_data \<Rightarrow> ProtocolHandler \<Rightarrow> ProtocolHandler go" where
  "RejectTask now proposalID reason c h =
     SendMessage (client_message c now MessageTypeTaskResponse zero_identity
       [''proposal_id'' \<mapsto> VStr proposalID, ''response'' \<mapsto> VStr ''rejected'', ''reason'' \<mapsto> VStr reason]) '''' h"

definition RequestCollaboration ::
  "string \<Rightarrow> int \<Rightarrow> gval \<Rightarrow> string \<Rightarrow> string \<Rightarrow> client_data \<Rightarrow> ProtocolHandler \<Rightarrow> (string \<times> ProtocolHandler) go" where
  "RequestCollaboration collabID now participants task strategy c h =
     go_bind (SendMessage (client_message c now MessageTypeCollaborationProposal broadcast
       [''collaboration_id'' \<mapsto> VStr collabID, ''task_description'' \<mapsto> VStr task, ''strategy'' \<mapsto> VStr strategy,
        ''initiator'' \<mapsto> VStr (cl_agentID c), ''participants'' \<mapsto> participants]) '''' h) (\<lambda>h'. Ret (collabID, h'))"

definition JoinCollaboration :: "int \<Rightarrow> string \<Rightarrow> client_data \<Rightarrow> ProtocolHandler \<Rightarrow> ProtocolHandler go" where
  "JoinCollaboration now collabID c h =
     SendMessage (client_message c now MessageTypeJoinCollaboration broadcast
       [''collaboration_id'' \<mapsto> VStr collabID, ''agent_id'' \<mapsto> VStr (cl_agentID c)]) '''' h"

definition LeaveCollaboration :: "int \<Rightarrow> string \<Rightarrow> client_data \<Rightarrow> ProtocolHandler \<Rightarrow> (client_data \<times> ProtocolHandler) go" where
  "LeaveCollaboration now collabID c h =
     (let c1 = c\<lparr>cl_collaborations := (cl_collaborations c)(collabID := None)\<rparr>
      in go_bind (SendMessage (client_message c now MessageTypeLeaveCollaboration broadcast
           [''collaboration_id'' \<mapsto> VStr collabID, ''agent_id'' \<mapsto> VStr (cl_agentID c)]) '''' h) (\<lambda>h'. Ret (c1, h')))"

definition ReportProgress :: "int \<Rightarrow> string \<Rightarrow> int \<Rightarrow> string \<Rightarrow> client_data \<Rightarrow> ProtocolHandler \<Rightarrow> ProtocolHandler go" where
  "ReportProgress now taskID progress details c h =
     SendMessage (client_message c now MessageTypeProgressUpdate broadcast
       [''task_id'' \<mapsto> VStr taskID, ''progress'' \<mapsto> VInt progress, ''details'' \<mapsto> VStr details, ''agent_id'' \<mapsto> VStr (cl_agentID c)]) '''' h"

definition SendData :: "int \<Rightarrow> AgentIdentity \<Rightarrow> string \<Rightarrow> gval \<Rightarrow> client_data \<Rightarrow> ProtocolHandler \<Rightarrow> (string \<times> ProtocolHandler) go" where
  "SendData now to dataType data c h =
     (let msg = client_message c now MessageTypeDataExchange to [''data_type'' \<mapsto> VStr dataType, ''data'' \<mapsto> data]
      in go_bind (SendMessage msg '''' h) (\<lambda>h'. Ret (mg_ID msg, h')))"

definition Broadcast :: "int \<Rightarrow> MessageType \<Rightarrow> (string \<rightharpoonup> gval) \<Rightarrow> client_data \<Rightarrow> ProtocolHandler \<Rightarrow> ProtocolHandler go" where
  "Broadcast now msgType payload c h = SendMessage (client_message c now msgType broadcast payload) '''' h"

section \<open>Waiting for replies\<close>

definition new_reply_chan :: "string \<Rightarrow> client_data \<Rightarrow> nat \<times> client_data" where
  "new_reply_chan msgID c =
     (let r = cl_next c
      in (r, c\<lparr>cl_chans := (cl_chans c)(r := make_chan 1), cl_next := r + 1, cl_replyChans := (cl_replyChans c)(msgID \<mapsto> r)\<rparr>))"

text \<open>Up to the select statement: the id of the message and the reference of the channel are kept for the wait.\<close>

definition ProposeTask_send ::
  "string \<Rightarrow> int \<Rightarrow> AgentIdentity \<Rightarrow> string \<Rightarrow> string list \<Rightarrow> client_data \<Rightarrow> ProtocolHandler
     \<Rightarrow> ((string \<times> nat) \<times> client_data \<times> ProtocolHandler) go" where
  "ProposeTask_send uuid now to task requirements c h =
     (let msg = client_message c now MessageTypeTaskProposal to
            [''task_id'' \<mapsto> VStr uuid, ''description'' \<mapsto> VStr task, ''requirements'' \<mapsto> VList (map VStr requirements),
             ''proposed_by'' \<mapsto> VStr (cl_agentID c), ''estimated_duration'' \<mapsto> VInt 300, ''priority'' \<mapsto> VStr ''normal'']
      in go_bind (SendMessage msg '''' h) (\<lambda>h'.
           case new_reply_chan (mg_ID msg) c of (r, c1) \<Rightarrow> Ret ((mg_ID msg, r), c1, h')))"

definition RequestData_send ::
  "int \<Rightarrow> AgentIdentity \<Rightarrow> string \<Rightarrow> gval \<Rightarrow> client_data \<Rightarrow> ProtocolHandler \<Rightarrow> ((string \<times> nat) \<times> client_data \<times> ProtocolHandler) go" where
  "RequestData_send now to dataType parameters c h =
     (let msg = client_message c now MessageTypeDataRequest to [''data_type'' \<mapsto> VStr dataType, ''parameters'' \<mapsto> parameters]
      in case new_reply_chan (mg_ID msg) c of (r, c1) \<Rightarrow>
           go_bind (SendMessage msg '''' h) (\<lambda>h'. Ret ((mg_ID msg, r), c1, h')))"

text \<open>
  How the select statement ends: a message of the channel, the zero value of a closed channel, the
  end of the context, or the timeout of the configuration.
\<close>

datatype wait_end = GotReply Message | ChanClosed | CtxDone error | TimedOut

definition drop_reply :: "string \<Rightarrow> client_data \<Rightarrow> client_data" where
  "drop_reply msgID c = c\<lparr>cl_replyChans := (cl_replyChans c)(msgID := None)\<rparr>"

definition ProposeTask_wait :: "string \<Rightarrow> AgentIdentity \<Rightarrow> wait_end \<Rightarrow> client_data \<Rightarrow> ((error + string) \<times> client_data) go" where
  "ProposeTask_wait msgID to e c =
     (case e of
        GotReply reply \<Rightarrow>
          Ret ((if mg_Type reply = MessageTypeTaskResponse \<and> (case mg_Payload reply ''response'' of Some (VStr s) \<Rightarrow> True | _ \<Rightarrow> False) then Inr msgID
                else Inl (ErrorString (''task rejected by agent '' @ ai_ID to))), drop_reply msgID c)
      | ChanClosed \<Rightarrow> Panic ''runtime error: invalid memory address or nil pointer dereference''
      | CtxDone err \<Rightarrow> Ret (Inl err, drop_reply msgID c)
      | TimedOut \<Rightarrow> Ret (Inl (ErrorString ''task proposal timeout''), drop_reply msgID c))"

definition RequestData_wait :: "string \<Rightarrow> wait_end \<Rightarrow> client_data \<Rightarrow> ((error + gval) \<times> client_data) go" where
  "RequestData_wait msgID e c =
     (case e of
        GotReply reply \<Rightarrow>
          Ret ((case mg_Payload reply ''data'' of
                  Some v \<Rightarrow> if mg_Type reply = MessageTypeDataResponse then Inr v else Inl (ErrorString ''data request failed'')
                | None \<Rightarrow> Inl (ErrorString ''data request failed'')), drop_reply msgID c)
      | ChanClosed \<Rightarrow> Panic ''runtime error: invalid memory address or nil pointer dereference''
      | CtxDone err \<Rightarrow> Ret (Inl err, drop_reply msgID c)
      | TimedOut \<Rightarrow> Ret (Inl (ErrorString ''data request timeout''), drop_reply msgID c))"

section \<open>Incoming messages\<close>

definition no_reply :: "client_data \<Rightarrow> ((Message option \<times> error option) \<times> client_data) go" where
  "no_reply c = Ret ((None, None), c)"

definition on_task_proposal :: MessageHandler where
  "on_task_proposal uuid now msg c = go_bind (payload_string msg ''description'') (\<lambda>d. no_reply c)"

definition on_data_request :: MessageHandler where
  "on_data_request uuid now msg c =
     go_bind (payload_string msg ''data_type'') (\<lambda>t.
       Ret ((Some (client_message c now MessageTypeDataResponse (mg_From msg)
               [''data'' \<mapsto> VNil, ''error'' \<mapsto> VStr ''data not available'']), None), c))"

definition on_collaboration_proposal :: "(gval \<Rightarrow> AgentIdentity list option) \<Rightarrow> MessageHandler" where
  "on_collaboration_proposal as_agents uuid now msg c =
     go_bind (payload_string msg ''collaboration_id'') (\<lambda>collabID.
       case (case mg_Payload msg ''participants'' of None \<Rightarrow> None | Some v \<Rightarrow> as_agents v) of
         None \<Rightarrow> Panic ''interface conversion: not a list of agents''
       | Some agents \<Rightarrow>
           no_reply (c\<lparr>cl_collaborations := (cl_collaborations c)(collabID \<mapsto>
             \<lparr>cs_ID = uuid, cs_CollaborationID = collabID, cs_Role = ''participant'', cs_Participants = agents, cs_State = ''invited'',
              cs_CreatedAt = now, cs_SharedData = Some Map.empty\<rparr>)\<rparr>))"

text \<open>An update of a session, when the client has it.\<close>

definition upd_session :: "string \<Rightarrow> (CollaborationSession \<Rightarrow> CollaborationSession) \<Rightarrow> client_data \<Rightarrow> client_data" where
  "upd_session i f c =
     (case cl_collaborations c i of
        None \<Rightarrow> c
      | Some s \<Rightarrow> c\<lparr>cl_collaborations := (cl_collaborations c)(i \<mapsto> f s)\<rparr>)"

definition on_collaboration_started :: MessageHandler where
  "on_collaboration_started uuid now msg c =
     go_bind (payload_string msg ''collaboration_id'') (\<lambda>i. no_reply (upd_session i (\<lambda>s. s\<lparr>cs_State := ''active''\<rparr>) c))"

definition on_collaboration_completed :: MessageHandler where
  "on_collaboration_completed uuid now msg c =
     go_bind (payload_string msg ''collaboration_id'') (\<lambda>i.
       if cl_collaborations c i = None then no_reply c
       else case mg_Payload msg ''results'' of
         Some (VMap kvs) \<Rightarrow> no_reply (upd_session i (\<lambda>s. s\<lparr>cs_State := ''completed'', cs_SharedData := Some (map_of kvs)\<rparr>) c)
       | _ \<Rightarrow> Panic ''interface conversion: not a map'')"

definition on_progress :: MessageHandler where
  "on_progress uuid now msg c =
     go_bind (payload_string msg ''task_id'') (\<lambda>t. go_bind (payload_int msg ''progress'') (\<lambda>p. no_reply c))"

definition on_join :: MessageHandler where
  "on_join uuid now msg c =
     go_bind (payload_string msg ''collaboration_id'') (\<lambda>i. go_bind (payload_string msg ''agent_id'') (\<lambda>a.
       no_reply (upd_session i (\<lambda>s. s\<lparr>cs_Participants := cs_Participants s @ [mg_From msg]\<rparr>) c)))"

fun remove_agent :: "string \<Rightarrow> AgentIdentity list \<Rightarrow> AgentIdentity list" where
  "remove_agent i [] = []"
| "remove_agent i (p # ps) = (if ai_ID p = i then ps else p # remove_agent i ps)"

definition on_leave :: MessageHandler where
  "on_leave uuid now msg c =
     go_bind (payload_string msg ''collaboration_id'') (\<lambda>i. go_bind (payload_string msg ''agent_id'') (\<lambda>a.
       no_reply (upd_session i (\<lambda>s. s\<lparr>cs_Participants := remove_agent a (cs_Participants s)\<rparr>) c)))"

definition on_announcement :: MessageHandler where
  "on_announcement uuid now msg c = no_reply c"

definition on_discovery_request :: MessageHandler where
  "on_discovery_request uuid now msg c =
     Ret ((Some (client_message c now MessageTypeDiscoveryResponse (mg_From msg) [''capabilities'' \<mapsto> caps_value (cl_capabilities c)]), None), c)"

text \<open>A send to the waiting channel that gives up when the channel is full.\<close>

definition offer_reply :: "Message \<Rightarrow> Message channel \<Rightarrow> Message channel go" where
  "offer_reply msg ch =
     (if ch_closed ch then Panic ''send on closed channel''
      else if length (ch_items ch) < ch_cap ch then Ret (ch\<lparr>ch_items := ch_items ch @ [msg]\<rparr>) else Ret ch)"

definition on_data_response :: MessageHandler where
  "on_data_response uuid now msg c =
     (case cl_replyChans c (mg_InReplyTo msg) of
        None \<Rightarrow> no_reply c
      | Some r \<Rightarrow> go_bind (offer_reply msg (cl_chans c r)) (\<lambda>ch. no_reply (c\<lparr>cl_chans := (cl_chans c)(r := ch)\<rparr>)))"

definition client_RegisterHandler :: "MessageType \<Rightarrow> MessageHandler \<Rightarrow> A2AClient \<Rightarrow> A2AClient" where
  "client_RegisterHandler t f c =
     c\<lparr>ac_listeners := (ac_listeners c)(t \<mapsto> (case ac_listeners c t of None \<Rightarrow> [] | Some fs \<Rightarrow> fs) @ [f])\<rparr>"

definition client_defaults :: "(gval \<Rightarrow> AgentIdentity list option) \<Rightarrow> (MessageType \<times> MessageHandler) list" where
  "client_defaults as_agents =
     [(MessageTypeTaskProposal, on_task_proposal), (MessageTypeDataRequest, on_data_request),
      (MessageTypeCollaborationProposal, on_collaboration_proposal as_agents), (MessageTypeCollaborationStarted, on_collaboration_started),
      (MessageTypeCollaborationCompleted, on_collaboration_completed), (MessageTypeProgressUpdate, on_progress),
      (MessageTypeJoinCollaboration, on_join), (MessageTypeLeaveCollaboration, on_leave),
      (MessageTypeCapabilityAnnouncement, on_announcement), (MessageTypeDiscoveryRequest, on_discovery_request),
      (MessageTypeDataResponse, on_data_response)]"

definition client_registerDefaultHandlers :: "(gval \<Rightarrow> AgentIdentity list option) \<Rightarrow> A2AClient \<Rightarrow> A2AClient" where
  "client_registerDefaultHandlers as_agents c = foldl (\<lambda>c (t, f). client_RegisterHandler t f c) c (client_defaults as_agents)"

definition NewA2AClient :: "(gval \<Rightarrow> AgentIdentity list option) \<Rightarrow> string \<Rightarrow> string \<Rightarrow> A2AClient" where
  "NewA2AClient as_agents agentID agentName =
     client_registerDefaultHandlers as_agents
       \<lparr>ac_data = \<lparr>cl_agentID = agentID, cl_agentName = agentName, cl_capabilities = [], cl_chans = (\<lambda>_. make_chan 0), cl_next = 0,
          cl_replyChans = Map.empty, cl_collaborations = Map.empty\<rparr>, ac_listeners = Map.empty\<rparr>"

section \<open>Shared data and the end\<close>

definition GetCapabilities :: "client_data \<Rightarrow> Capability list" where
  "GetCapabilities c = cl_capabilities c"

definition GetCollaboration :: "string \<Rightarrow> client_data \<Rightarrow> CollaborationSession option" where
  "GetCollaboration i c = cl_collaborations c i"

definition GetActiveCollaborations :: "string list \<Rightarrow> client_data \<Rightarrow> CollaborationSession list" where
  "GetActiveCollaborations order c = List.map_filter (cl_collaborations c) order"

definition AddSharedData :: "string \<Rightarrow> string \<Rightarrow> gval \<Rightarrow> client_data \<Rightarrow> client_data go" where
  "AddSharedData i key val c =
     (case cl_collaborations c i of
        None \<Rightarrow> Ret c
      | Some s \<Rightarrow>
          (case cs_SharedData s of
             None \<Rightarrow> Panic ''assignment to entry in nil map''
           | Some d \<Rightarrow> Ret (upd_session i (\<lambda>s. s\<lparr>cs_SharedData := Some (d(key \<mapsto> val))\<rparr>) c)))"

definition GetSharedData :: "string \<Rightarrow> string \<Rightarrow> client_data \<Rightarrow> gval option" where
  "GetSharedData i key c =
     (case cl_collaborations c i of
        None \<Rightarrow> None
      | Some s \<Rightarrow> (case cs_SharedData s of None \<Rightarrow> None | Some d \<Rightarrow> d key))"

text \<open>Closing the reply channels in the order of the range loop over their keys.\<close>

fun close_chans :: "string list \<Rightarrow> client_data \<Rightarrow> client_data go" where
  "close_chans [] c = Ret c"
| "close_chans (k # ks) c =
     (case cl_replyChans c k of
        None \<Rightarrow> close_chans ks c
      | Some r \<Rightarrow> go_bind (ch_close (cl_chans c r)) (\<lambda>ch. close_chans ks (c\<lparr>cl_chans := (cl_chans c)(r := ch)\<rparr>)))"

definition client_Stop :: "int \<Rightarrow> string list \<Rightarrow> client_data \<Rightarrow> ProtocolHandler \<Rightarrow> (client_data \<times> ProtocolHandler) go" where
  "client_Stop now order c h =
     go_bind (SendMessage (client_message c now MessageTypeAgentDeparture broadcast Map.empty) '''' h) (\<lambda>h'.
     go_bind (close_chans order c) (\<lambda>c1. Ret (c1\<lparr>cl_replyChans := Map.empty, cl_collaborations := Map.empty\<rparr>, h')))"

section \<open>A second request takes the replies of the first\<close>

text \<open>What can happen to a client while a call waits: messages arrive, other calls start or end.\<close>

inductive client_event :: "(gval \<Rightarrow> AgentIdentity list option) \<Rightarrow> client_data \<Rightarrow> client_data \<Rightarrow> bool" for as_agents where
  handle: "(t, f) \<in> set (client_defaults as_agents) \<Longrightarrow> f uuid now msg c = Ret (res, c') \<Longrightarrow> client_event as_agents c c'"
| started: "client_event as_agents c (snd (new_reply_chan i c))"
| ended: "client_event as_agents c (drop_reply i c)"
| shared: "AddSharedData i key val c = Ret c' \<Longrightarrow> client_event as_agents c c'"

text \<open>A channel that the map does not lead to and that holds no message.\<close>

definition orphaned :: "nat \<Rightarrow> client_data \<Rightarrow> bool" where
  "orphaned r c \<longleftrightarrow> r < cl_next c \<and> (\<forall>i. cl_replyChans c i \<noteq> Some r) \<and> ch_items (cl_chans c r) = []"

lemma orphaned_session: "orphaned r (upd_session i f c) = orphaned r c"
  by (simp add: orphaned_def upd_session_def split: option.split)

lemma orphaned_response:
  assumes "orphaned r c" and "on_data_response uuid now msg c = Ret (res, c')"
  shows "orphaned r c'"
proof (cases "cl_replyChans c (mg_InReplyTo msg)")
  case None
  with assms show ?thesis by (simp add: on_data_response_def no_reply_def)
next
  case (Some k)
  then have "k \<noteq> r" using assms(1) by (auto simp: orphaned_def)
  with assms Some show ?thesis by (auto simp: on_data_response_def no_reply_def go_bind_Ret_iff orphaned_def)
qed

text \<open>The other handlers leave the channels alone.\<close>

definition keeps_chans :: "client_data \<Rightarrow> ((Message option \<times> error option) \<times> client_data) go \<Rightarrow> bool" where
  "keeps_chans c r \<longleftrightarrow>
     (case r of Ret (res, c') \<Rightarrow> cl_chans c' = cl_chans c \<and> cl_replyChans c' = cl_replyChans c \<and> cl_next c' = cl_next c | _ \<Rightarrow> True)"

lemma keeps_bind: "(\<And>x. keeps_chans c (f x)) \<Longrightarrow> keeps_chans c (go_bind r f)"
  by (cases r) (simp_all add: keeps_chans_def)

lemma keeps_session: "keeps_chans c (no_reply (upd_session i g c))" "keeps_chans c (no_reply c)"
  by (simp_all add: keeps_chans_def no_reply_def upd_session_def split: option.split)

lemma keeps_handlers:
  "keeps_chans c (on_task_proposal u t msg c)" "keeps_chans c (on_data_request u t msg c)" "keeps_chans c (on_collaboration_proposal as_agents u t msg c)"
  "keeps_chans c (on_collaboration_started u t msg c)" "keeps_chans c (on_collaboration_completed u t msg c)" "keeps_chans c (on_progress u t msg c)"
  "keeps_chans c (on_join u t msg c)" "keeps_chans c (on_leave u t msg c)" "keeps_chans c (on_announcement u t msg c)"
  "keeps_chans c (on_discovery_request u t msg c)"
proof -
  show "keeps_chans c (on_data_request u t msg c)"
    unfolding on_data_request_def by (rule keeps_bind) (simp add: keeps_chans_def)
  show "keeps_chans c (on_discovery_request u t msg c)"
    by (simp add: on_discovery_request_def keeps_chans_def)
  show "keeps_chans c (on_collaboration_proposal as_agents u t msg c)"
    unfolding on_collaboration_proposal_def
    by (rule keeps_bind) (simp add: keeps_chans_def no_reply_def split: option.split)
  show "keeps_chans c (on_collaboration_completed u t msg c)"
    unfolding on_collaboration_completed_def
    by (rule keeps_bind) (simp add: keeps_session keeps_chans_def[of c "Panic _"] split: option.split gval.split)
qed (auto simp: on_task_proposal_def on_collaboration_started_def on_progress_def on_join_def on_leave_def on_announcement_def
    intro!: keeps_bind keeps_session)

lemma other_handlers_keep:
  assumes "(t, f) \<in> set (client_defaults as_agents)" and "t \<noteq> MessageTypeDataResponse"
  shows "keeps_chans c (f uuid now msg c)"
  using assms by (auto simp: client_defaults_def keeps_handlers)

lemma data_response_handler: "(MessageTypeDataResponse, f) \<in> set (client_defaults as_agents) \<Longrightarrow> f = on_data_response"
  by (auto simp: client_defaults_def message_types MessageTypeDataResponse_def MessageTypeDataRequest_def MessageTypeCollaborationStarted_def
      MessageTypeCollaborationCompleted_def MessageTypeJoinCollaboration_def MessageTypeLeaveCollaboration_def MessageTypeCapabilityAnnouncement_def)

interpretation waiting: invariant_system "orphaned r" "client_event as_agents" "orphaned r" for r as_agents
proof
  fix s t assume "client_event as_agents s t" and r: "orphaned r s"
  then show "orphaned r t"
  proof cases
    case (handle ty f uuid now msg res)
    show ?thesis
    proof (cases "ty = MessageTypeDataResponse")
      case True
      then show ?thesis using handle r orphaned_response data_response_handler by metis
    next
      case False
      have "keeps_chans s (f uuid now msg s)" by (rule other_handlers_keep[OF handle(1) False])
      then show ?thesis using handle(2) r by (simp add: keeps_chans_def orphaned_def)
    qed
  next
    case started
    then show ?thesis using r by (auto simp: orphaned_def new_reply_chan_def Let_def)
  next
    case ended
    then show ?thesis using r by (auto simp: orphaned_def drop_reply_def)
  next
    case shared
    then show ?thesis using r by (auto simp: AddSharedData_def orphaned_session split: option.splits)
  qed
qed

text \<open>Two calls of RequestData of one client that wait at the same time use the same key, since the client's messages have
  no id. From the start of the second call on, whatever messages arrive and whatever other calls start or end, the channel of
  the first call never holds a message: it can only end by its context or its timeout.\<close>

theorem second_request_starves_first:
  assumes "RequestData_send now1 to1 ty1 ps1 c h = Ret ((i1, r1), c1, h1)"
    and "RequestData_send now2 to2 ty2 ps2 c1 h1 = Ret ((i2, r2), c2, h2)"
    and "cl_replyChans c = Map.empty"
    and "rtranclp (client_event as_agents) c2 c3"
  shows "i1 = i2 \<and> r1 \<noteq> r2 \<and> ch_items (cl_chans c3 r1) = []"
proof -
  from assms(1-3) have "i1 = '''' \<and> i2 = '''' \<and> r1 = cl_next c \<and> r2 = Suc (cl_next c) \<and> orphaned r1 c2"
    by (auto simp: RequestData_send_def new_reply_chan_def Let_def client_message_def go_bind_Ret_iff orphaned_def make_chan_def split: if_splits)
  moreover from this assms(4) have "orphaned r1 c3" using waiting.steps_inv by blast
  ultimately show ?thesis by (simp add: orphaned_def)
qed

definition demo_client :: client_data where
  "demo_client = \<lparr>cl_agentID = ''a'', cl_agentName = ''A'', cl_capabilities = [], cl_chans = (\<lambda>_. make_chan 0), cl_next = 0,
     cl_replyChans = Map.empty, cl_collaborations = Map.empty\<rparr>"

definition demo_started :: "nat \<Rightarrow> client_data" where
  "demo_started n = demo_client\<lparr>cl_chans := (\<lambda>r. if r < n then make_chan 1 else make_chan 0), cl_next := n,
     cl_replyChans := (if n = 0 then Map.empty else [[] \<mapsto> n - 1])\<rparr>"

definition demo_outbox :: "Message list \<Rightarrow> ProtocolHandler" where
  "demo_outbox ms = \<lparr>ph_inbox = make_chan 2, ph_outbox = \<lparr>ch_cap = 2, ch_items = ms, ch_closed = False\<rparr>, ph_handlers = Map.empty, ph_running = True\<rparr>"

definition demo_request :: Message where
  "demo_request = client_message demo_client 0 MessageTypeDataRequest zero_identity [''data_type'' \<mapsto> VStr ''t'', ''parameters'' \<mapsto> VNil]"

lemma demo_sends:
  "RequestData_send 0 zero_identity ''t'' VNil (demo_started 0) (demo_outbox []) = Ret (([], 0), demo_started 1, demo_outbox [demo_request])"
  "RequestData_send 0 zero_identity ''t'' VNil (demo_started 1) (demo_outbox [demo_request]) = Ret (([], 1), demo_started 2, demo_outbox [demo_request, demo_request])"
  by (auto simp: RequestData_send_def new_reply_chan_def Let_def client_message_def SendMessage_def ch_send_def demo_outbox_def demo_started_def
      demo_client_def demo_request_def self_identity_def fun_eq_iff)

theorem second_request_starves_first_witness:
  "([]::string) = [] \<and> (0::nat) \<noteq> 1 \<and> ch_items (cl_chans (demo_started 2) 0) = []"
  by (rule second_request_starves_first[OF demo_sends _ rtranclp.rtrancl_refl[of "client_event (\<lambda>_. None)"]])
    (simp add: demo_started_def demo_client_def)

section \<open>Sessions\<close>

lemma remove_agent_last: "\<forall>p \<in> set ps. ai_ID p \<noteq> ai_ID a \<Longrightarrow> remove_agent (ai_ID a) (ps @ [a]) = ps"
  by (induction ps) auto

text \<open>An agent that joins a session and leaves it again leaves the session as it was.\<close>

lemma join_leave_roundtrip:
  assumes "mg_Payload msg = [''collaboration_id'' \<mapsto> VStr i, ''agent_id'' \<mapsto> VStr (ai_ID (mg_From msg))]"
    and "cl_collaborations c i = Some s" and "\<forall>p \<in> set (cs_Participants s). ai_ID p \<noteq> ai_ID (mg_From msg)"
  shows "\<exists>c'. on_join u t msg c = Ret ((None, None), c') \<and> on_leave u' t' msg c' = Ret ((None, None), c)"
  using assms remove_agent_last[OF assms(3)]
  by (simp add: on_join_def on_leave_def no_reply_def payload_string_def upd_session_def fun_upd_idem)

lemma shared_data_reads_back:
  "AddSharedData i key val c = Ret c' \<Longrightarrow> cl_collaborations c i \<noteq> None \<Longrightarrow> GetSharedData i key c' = Some val"
  by (auto simp: AddSharedData_def GetSharedData_def upd_session_def split: option.splits)

end
