(* ===== verification/A2A_Negotiation.thy ===== *)
theory A2A_Negotiation
  imports A2A_Protocol
begin

text \<open>
  Task negotiation between agents, internal/agent/a2a/negotiation.go. The service keeps the active
  negotiations and statistics; its mutex makes every operation atomic. Ids and clock readings are
  arguments. The callback that ProposeTask hands to time.AfterFunc is the operation \<open>expire\<close>; it
  may run at any later time.

  The operations are the steps of a state machine. Proved, for every reachable state: the state of a
  negotiation and its response agree, and the counters agree with each other and bound the open
  negotiations. A negotiation is answered at most once, while a cancellation is accepted in any
  state. An update of the average duration stays within the bounds of the old average and the new
  duration (durations are not negative, so Go's division is that of HOL).
\<close>

datatype NegotiationState =
    NegotiationStatePending | NegotiationStateNegotiating | NegotiationStateAccepted
  | NegotiationStateRejected | NegotiationStateCancelled

record TaskOffer =
  to_ID :: string
  to_From :: AgentIdentity
  to_To :: AgentIdentity
  to_Description :: string
  to_Requirements :: "string list"
  to_Priority :: string
  to_Timeout :: int
  to_EstDuration :: int
  to_ProposedAt :: int
  to_ExpiresAt :: int

record TaskResponse =
  tp_OfferID :: string
  tp_From :: AgentIdentity
  tp_Accepted :: bool
  tp_Reason :: string
  tp_ETA :: int
  tp_RespondedAt :: int

record Negotiation =
  ng_ID :: string
  ng_Offer :: TaskOffer
  ng_Response :: "TaskResponse option"
  ng_State :: NegotiationState
  ng_CreatedAt :: int
  ng_UpdatedAt :: int

record NegotiationService =
  ns_negotiations :: "string \<rightharpoonup> Negotiation"
  ns_TotalProposed :: nat
  ns_TotalAccepted :: nat
  ns_TotalRejected :: nat
  ns_AverageDuration :: int

definition ErrNegotiationNotFound :: error where
  "ErrNegotiationNotFound = A2AError ''negotiation'' ''negotiation not found'' None"

definition ErrInvalidNegotiationState :: error where
  "ErrInvalidNegotiationState = A2AError ''negotiation'' ''invalid negotiation state'' None"

definition NewNegotiationService :: NegotiationService where
  "NewNegotiationService =
     \<lparr>ns_negotiations = Map.empty, ns_TotalProposed = 0, ns_TotalAccepted = 0, ns_TotalRejected = 0, ns_AverageDuration = 0\<rparr>"

section \<open>Operations\<close>

definition ProposeTask :: "string \<Rightarrow> int \<Rightarrow> TaskOffer \<Rightarrow> NegotiationService \<Rightarrow> NegotiationService" where
  "ProposeTask uuid now offer n =
     n\<lparr>ns_negotiations := (ns_negotiations n)(uuid \<mapsto>
          \<lparr>ng_ID = uuid, ng_Offer = offer, ng_Response = None, ng_State = NegotiationStatePending, ng_CreatedAt = now, ng_UpdatedAt = now\<rparr>),
       ns_TotalProposed := ns_TotalProposed n + 1\<rparr>"

text \<open>The callback of the timer of a proposal.\<close>

definition expire :: "string \<Rightarrow> NegotiationService \<Rightarrow> NegotiationService" where
  "expire i n =
     (case ns_negotiations n i of
        Some neg \<Rightarrow>
          (if ng_State neg = NegotiationStatePending then n\<lparr>ns_negotiations := (ns_negotiations n)(i := None)\<rparr> else n)
      | None \<Rightarrow> n)"

definition moving_average :: "int \<Rightarrow> int \<Rightarrow> int" where
  "moving_average avg duration = (if avg = 0 then duration else (avg * 3 + duration) div 4)"

definition RespondToOffer :: "int \<Rightarrow> string \<Rightarrow> TaskResponse \<Rightarrow> NegotiationService \<Rightarrow> error option \<times> NegotiationService" where
  "RespondToOffer now i response n =
     (case ns_negotiations n i of
        None \<Rightarrow> (Some ErrNegotiationNotFound, n)
      | Some neg \<Rightarrow>
          (if ng_State neg \<noteq> NegotiationStatePending then (Some ErrInvalidNegotiationState, n)
           else let neg1 = neg\<lparr>ng_Response := Some response, ng_UpdatedAt := now\<rparr>
                in if tp_Accepted response
                   then (None, n\<lparr>ns_negotiations := (ns_negotiations n)(i \<mapsto> neg1\<lparr>ng_State := NegotiationStateAccepted\<rparr>),
                                 ns_TotalAccepted := ns_TotalAccepted n + 1,
                                 ns_AverageDuration := moving_average (ns_AverageDuration n) (now - ng_CreatedAt neg)\<rparr>)
                   else (None, n\<lparr>ns_negotiations := (ns_negotiations n)(i \<mapsto> neg1\<lparr>ng_State := NegotiationStateRejected\<rparr>),
                                 ns_TotalRejected := ns_TotalRejected n + 1\<rparr>)))"

definition GetNegotiation :: "string \<Rightarrow> NegotiationService \<Rightarrow> error + Negotiation" where
  "GetNegotiation i n = (case ns_negotiations n i of None \<Rightarrow> Inl ErrNegotiationNotFound | Some neg \<Rightarrow> Inr neg)"

text \<open>The range loop over the negotiations, in the order \<open>ks\<close> of their ids.\<close>

definition GetPendingNegotiations :: "NegotiationService \<Rightarrow> string list \<Rightarrow> Negotiation list" where
  "GetPendingNegotiations n ks =
     List.map_filter (\<lambda>k. case ns_negotiations n k of
        Some neg \<Rightarrow> (if ng_State neg = NegotiationStatePending then Some neg else None) | None \<Rightarrow> None) ks"

definition CancelNegotiation :: "int \<Rightarrow> string \<Rightarrow> NegotiationService \<Rightarrow> error option \<times> NegotiationService" where
  "CancelNegotiation now i n =
     (case ns_negotiations n i of
        None \<Rightarrow> (Some ErrNegotiationNotFound, n)
      | Some neg \<Rightarrow>
          (None, n\<lparr>ns_negotiations := (ns_negotiations n)(i \<mapsto> neg\<lparr>ng_State := NegotiationStateCancelled, ng_UpdatedAt := now\<rparr>)\<rparr>))"

definition final_state :: "NegotiationState \<Rightarrow> bool" where
  "final_state s \<longleftrightarrow> s = NegotiationStateAccepted \<or> s = NegotiationStateRejected \<or> s = NegotiationStateCancelled"

text \<open>Deleting while ranging visits every key once, so the loop is a filter of the map.\<close>

definition neg_Cleanup :: "int \<Rightarrow> int \<Rightarrow> NegotiationService \<Rightarrow> NegotiationService" where
  "neg_Cleanup now maxAge n =
     n\<lparr>ns_negotiations := (\<lambda>i. case ns_negotiations n i of
         None \<Rightarrow> None
       | Some neg \<Rightarrow> if now - ng_CreatedAt neg > maxAge \<and> final_state (ng_State neg) then None else Some neg)\<rparr>"

section \<open>The state machine\<close>

inductive neg_step :: "NegotiationService \<Rightarrow> NegotiationService \<Rightarrow> bool" where
  propose: "neg_step n (ProposeTask uuid now offer n)"
| expiry: "neg_step n (expire i n)"
| respond: "neg_step n (snd (RespondToOffer now i response n))"
| cancel: "neg_step n (snd (CancelNegotiation now i n))"
| cleanup: "neg_step n (neg_Cleanup now maxAge n)"

inductive_cases neg_stepE: "neg_step n n'"

text \<open>State and response of a negotiation agree.\<close>

definition neg_ok :: "Negotiation \<Rightarrow> bool" where
  "neg_ok neg \<longleftrightarrow>
     (case ng_State neg of
        NegotiationStatePending \<Rightarrow> ng_Response neg = None
      | NegotiationStateNegotiating \<Rightarrow> False
      | NegotiationStateAccepted \<Rightarrow> (\<exists>r. ng_Response neg = Some r \<and> tp_Accepted r)
      | NegotiationStateRejected \<Rightarrow> (\<exists>r. ng_Response neg = Some r \<and> \<not> tp_Accepted r)
      | NegotiationStateCancelled \<Rightarrow> True)"

definition pending_ids :: "NegotiationService \<Rightarrow> string set" where
  "pending_ids n = {i. \<exists>neg. ns_negotiations n i = Some neg \<and> ng_State neg = NegotiationStatePending}"

definition service_inv :: "NegotiationService \<Rightarrow> bool" where
  "service_inv n \<longleftrightarrow> finite (dom (ns_negotiations n)) \<and>
     (\<forall>i neg. ns_negotiations n i = Some neg \<longrightarrow> ng_ID neg = i \<and> neg_ok neg) \<and>
     card (pending_ids n) + ns_TotalAccepted n + ns_TotalRejected n \<le> ns_TotalProposed n"

lemma pending_finite: "finite (dom (ns_negotiations n)) \<Longrightarrow> finite (pending_ids n)"
  by (rule finite_subset[of _ "dom (ns_negotiations n)"]) (auto simp: pending_ids_def)

lemma inv_propose: "service_inv n \<Longrightarrow> service_inv (ProposeTask uuid now offer n)"
proof -
  assume n: "service_inv n"
  have "pending_ids (ProposeTask uuid now offer n) = insert uuid (pending_ids n)"
    by (auto simp: pending_ids_def ProposeTask_def)
  moreover have "finite (pending_ids n)" using n by (simp add: service_inv_def pending_finite)
  ultimately have "card (pending_ids (ProposeTask uuid now offer n)) \<le> Suc (card (pending_ids n))"
    by (simp add: card_insert_if)
  with n show ?thesis by (auto simp: service_inv_def ProposeTask_def neg_ok_def)
qed

lemma inv_smaller:
  assumes "service_inv n" and "ns_TotalProposed n' = ns_TotalProposed n" and "ns_TotalAccepted n' = ns_TotalAccepted n"
    and "ns_TotalRejected n' = ns_TotalRejected n" and "dom (ns_negotiations n') \<subseteq> dom (ns_negotiations n)"
    and "pending_ids n' \<subseteq> pending_ids n"
    and "\<And>i neg. ns_negotiations n' i = Some neg \<Longrightarrow> ng_ID neg = i \<and> neg_ok neg"
  shows "service_inv n'"
proof -
  have "card (pending_ids n') \<le> card (pending_ids n)"
    using assms(1,6) by (intro card_mono) (auto simp: service_inv_def intro: pending_finite)
  moreover have "finite (dom (ns_negotiations n'))" using assms(1,5) by (auto simp: service_inv_def intro: finite_subset)
  ultimately show ?thesis using assms by (auto simp: service_inv_def)
qed

lemma inv_expire:
  assumes n: "service_inv n"
  shows "service_inv (expire i n)"
  by (rule inv_smaller[OF n])
    (use n in \<open>auto simp: expire_def service_inv_def pending_ids_def split: option.splits if_splits\<close>)

lemma inv_cancel:
  assumes n: "service_inv n"
  shows "service_inv (snd (CancelNegotiation now i n))"
  by (rule inv_smaller[OF n])
    (use n in \<open>auto simp: CancelNegotiation_def service_inv_def pending_ids_def neg_ok_def split: option.splits if_splits\<close>)

lemma inv_cleanup:
  assumes n: "service_inv n"
  shows "service_inv (neg_Cleanup now maxAge n)"
  by (rule inv_smaller[OF n])
    (use n in \<open>auto simp: neg_Cleanup_def service_inv_def pending_ids_def dom_def split: option.splits if_splits\<close>)

lemma respond_cases:
  "(\<exists>e. RespondToOffer now i r n = (Some e, n)) \<or>
   (\<exists>neg n'. ns_negotiations n i = Some neg \<and> ng_State neg = NegotiationStatePending \<and> RespondToOffer now i r n = (None, n'))"
proof (cases "ns_negotiations n i")
  case (Some neg)
  then show ?thesis
    by (cases "ng_State neg = NegotiationStatePending"; cases "tp_Accepted r") (simp_all add: RespondToOffer_def Let_def)
qed (simp add: RespondToOffer_def)

lemma neg_ok_answered:
  "tp_Accepted r \<Longrightarrow> neg_ok (neg\<lparr>ng_Response := Some r, ng_UpdatedAt := now, ng_State := NegotiationStateAccepted\<rparr>)"
  "\<not> tp_Accepted r \<Longrightarrow> neg_ok (neg\<lparr>ng_Response := Some r, ng_UpdatedAt := now, ng_State := NegotiationStateRejected\<rparr>)"
  by (simp_all add: neg_ok_def)

lemma inv_respond_taken:
  assumes n: "service_inv n" and pend: "ns_negotiations n i = Some neg" "ng_State neg = NegotiationStatePending"
    and resp: "RespondToOffer now i r n = (None, n')"
  shows "service_inv n'"
proof -
  have fin: "finite (pending_ids n)" using n by (simp add: service_inv_def pending_finite)
  have "pending_ids n' = pending_ids n - {i}" using pend resp
    by (auto simp: RespondToOffer_def pending_ids_def Let_def split: if_splits)
  moreover have "i \<in> pending_ids n" using pend by (simp add: pending_ids_def)
  ultimately have "Suc (card (pending_ids n')) = card (pending_ids n)" using fin by (metis card_Suc_Diff1)
  with n pend resp show ?thesis
    by (cases "tp_Accepted r") (auto simp: RespondToOffer_def service_inv_def neg_ok_answered Let_def split: if_splits)
qed

lemma inv_respond: "service_inv n \<Longrightarrow> service_inv (snd (RespondToOffer now i r n))"
  using respond_cases[of now i r n] inv_respond_taken[of n i _ now r] by auto

interpretation negotiation: invariant_system "\<lambda>n. n = NewNegotiationService" neg_step service_inv
proof
  fix s
  assume "s = NewNegotiationService"
  then show "service_inv s" by (simp add: service_inv_def NewNegotiationService_def pending_ids_def)
next
  fix s t
  assume "neg_step s t" and "service_inv s"
  then show "service_inv t"
    by (elim neg_stepE) (auto intro: inv_propose inv_expire inv_respond inv_cancel inv_cleanup)
qed

text \<open>C11: In every state that the operations and the timers can reach, in any order, each negotiation is filed under its
  id, pending ones have no response, accepted and rejected ones have a response that says so, and the open, accepted and
  rejected ones together are at most as many as were proposed.\<close>

theorem negotiation_invariant:
  assumes "rtranclp neg_step NewNegotiationService n"
  shows "card (pending_ids n) + ns_TotalAccepted n + ns_TotalRejected n \<le> ns_TotalProposed n \<and>
    (case GetNegotiation i n of Inl e \<Rightarrow> ns_negotiations n i = None | Inr neg \<Rightarrow> ng_ID neg = i \<and> neg_ok neg)"
  using negotiation.reachable_inv[OF refl assms]
  by (auto simp: service_inv_def GetNegotiation_def split: option.split)

definition demo_offer :: TaskOffer where
  "demo_offer = \<lparr>to_ID = ''o'', to_From = zero_identity, to_To = zero_identity, to_Description = '''', to_Requirements = [],
     to_Priority = '''', to_Timeout = 5, to_EstDuration = 1, to_ProposedAt = 0, to_ExpiresAt = 0\<rparr>"

definition demo_response :: TaskResponse where
  "demo_response = \<lparr>tp_OfferID = ''o'', tp_From = zero_identity, tp_Accepted = True, tp_Reason = '''', tp_ETA = 0, tp_RespondedAt = 0\<rparr>"

theorem negotiation_invariant_witness:
  "card (pending_ids (ProposeTask ''1'' 0 demo_offer NewNegotiationService)) +
     ns_TotalAccepted (ProposeTask ''1'' 0 demo_offer NewNegotiationService) +
     ns_TotalRejected (ProposeTask ''1'' 0 demo_offer NewNegotiationService) \<le>
     ns_TotalProposed (ProposeTask ''1'' 0 demo_offer NewNegotiationService)"
proof -
  have "rtranclp neg_step NewNegotiationService (ProposeTask ''1'' 0 demo_offer NewNegotiationService)"
    by (rule r_into_rtranclp) (rule neg_step.propose)
  from negotiation_invariant[OF this] show ?thesis by blast
qed

text \<open>An offer is answered at most once: after a response that was taken, every further response to the same
  negotiation is refused and changes nothing, whichever the first answer was.\<close>

theorem respond_once:
  assumes "RespondToOffer now i r n = (None, n')"
  shows "RespondToOffer now' i r' n' = (Some ErrInvalidNegotiationState, n')"
  using assms by (auto simp: RespondToOffer_def Let_def split: option.splits if_splits)

theorem respond_once_witness:
  "RespondToOffer 9 ''1'' demo_response (snd (RespondToOffer 7 ''1'' demo_response (ProposeTask ''1'' 0 demo_offer NewNegotiationService))) =
     (Some ErrInvalidNegotiationState, snd (RespondToOffer 7 ''1'' demo_response (ProposeTask ''1'' 0 demo_offer NewNegotiationService)))"
  by (rule respond_once[of 7 "''1''" demo_response "ProposeTask ''1'' 0 demo_offer NewNegotiationService"])
    (simp add: RespondToOffer_def ProposeTask_def NewNegotiationService_def demo_response_def Let_def)

lemma moving_average_bounds:
  "0 \<le> avg \<Longrightarrow> 0 \<le> d \<Longrightarrow> avg \<le> mx \<Longrightarrow> d \<le> mx \<Longrightarrow> 0 \<le> moving_average avg d \<and> moving_average avg d \<le> mx"
  by (auto simp: moving_average_def)

text \<open>An accepted negotiation can still be cancelled; its response and the counters stay.\<close>

lemma cancel_after_accept:
  "ns_negotiations n i = Some neg \<Longrightarrow> ng_State neg = NegotiationStateAccepted \<Longrightarrow>
     \<exists>n'. CancelNegotiation now i n = (None, n') \<and> ns_TotalAccepted n' = ns_TotalAccepted n \<and>
       (\<exists>neg'. ns_negotiations n' i = Some neg' \<and> ng_State neg' = NegotiationStateCancelled \<and> ng_Response neg' = ng_Response neg)"
  by (simp add: CancelNegotiation_def)

lemma expire_only_pending:
  "ns_negotiations n i = Some neg \<Longrightarrow> ng_State neg \<noteq> NegotiationStatePending \<Longrightarrow> expire i n = n"
  "ns_negotiations n i = Some neg \<Longrightarrow> ng_State neg = NegotiationStatePending \<Longrightarrow>
     RespondToOffer now i r (expire i n) = (Some ErrNegotiationNotFound, expire i n)"
  by (simp_all add: expire_def RespondToOffer_def)

end
