(* ===== verification/A2A_Orchestrator.thy ===== *)
theory A2A_Orchestrator
  imports A2A_Protocol
begin

text \<open>
  Collaboration of agents, internal/agent/a2a/orchestrator.go: execution plans by strategy, shared
  contexts, completion of steps and cleanup. The ids that the code generates are arguments. The map
  of contexts may hold a nil pointer, which Cleanup stores there; a context is therefore an option.

  Proved: a plan has one step per participant, in order, and the dependencies of a step are ids of
  earlier steps, so that the steps can be run in the order of the plan; completing a step changes
  that step only; after Cleanup has removed the plan of a collaboration, an update of its shared
  context panics.
\<close>

section \<open>Data\<close>

type_synonym CollaborationStrategy = string

definition StrategySequential :: CollaborationStrategy where "StrategySequential = ''sequential''"
definition StrategyParallel :: CollaborationStrategy where "StrategyParallel = ''parallel''"
definition StrategyHierarchical :: CollaborationStrategy where "StrategyHierarchical = ''hierarchical''"
definition StrategySwarm :: CollaborationStrategy where "StrategySwarm = ''swarm''"
definition StrategyPipeline :: CollaborationStrategy where "StrategyPipeline = ''pipeline''"

record TaskStep =
  ts_ID :: string
  ts_Name :: string
  ts_AgentID :: string
  ts_Dependencies :: "string list"
  ts_Input :: "string \<rightharpoonup> gval"
  ts_Output :: "string \<rightharpoonup> gval"
  ts_Status :: string
  ts_CompletedAt :: int

record ExecutionPlan =
  xp_ID :: string
  xp_CollaborationID :: string
  xp_TaskDescription :: string
  xp_Strategy :: CollaborationStrategy
  xp_Steps :: "TaskStep list"
  xp_CurrentStep :: nat
  xp_Status :: string
  xp_CreatedAt :: int

record SharedContext =
  sh_Data :: "string \<rightharpoonup> gval"
  sh_Version :: nat

record Orchestrator =
  or_plans :: "string \<rightharpoonup> ExecutionPlan"
  or_contexts :: "string \<rightharpoonup> SharedContext option"

definition NewOrchestrator :: Orchestrator where
  "NewOrchestrator = \<lparr>or_plans = Map.empty, or_contexts = Map.empty\<rparr>"

definition ErrPlanNotFound :: error where "ErrPlanNotFound = A2AError ''orchestration'' ''plan not found'' None"
definition ErrContextNotFound :: error where "ErrContextNotFound = A2AError ''orchestration'' ''context not found'' None"
definition ErrStepNotFound :: error where "ErrStepNotFound = A2AError ''orchestration'' ''step not found'' None"

section \<open>Steps\<close>

definition new_step :: "string \<Rightarrow> string \<Rightarrow> AgentIdentity \<Rightarrow> string list \<Rightarrow> TaskStep" where
  "new_step i name agent deps =
     \<lparr>ts_ID = i, ts_Name = name, ts_AgentID = ai_ID agent, ts_Dependencies = deps, ts_Input = Map.empty, ts_Output = Map.empty,
      ts_Status = ''pending'', ts_CompletedAt = 0\<rparr>"

text \<open>Every participant comes with the id generated for its step; \<open>prev\<close> is the id of the step before.\<close>

fun sequential_from :: "string option \<Rightarrow> (string \<times> AgentIdentity) list \<Rightarrow> TaskStep list" where
  "sequential_from prev [] = []"
| "sequential_from prev ((i, agent) # ps) =
     new_step i (ai_Name agent) agent (case prev of None \<Rightarrow> [] | Some p \<Rightarrow> [p]) # sequential_from (Some i) ps"

definition createSequentialSteps :: "(string \<times> AgentIdentity) list \<Rightarrow> TaskStep list" where
  "createSequentialSteps ps = sequential_from None ps"

definition createParallelSteps :: "(string \<times> AgentIdentity) list \<Rightarrow> TaskStep list" where
  "createParallelSteps ps = map (\<lambda>(i, agent). new_step i (ai_Name agent) agent []) ps"

definition createHierarchicalSteps :: "(string \<times> AgentIdentity) list \<Rightarrow> TaskStep list" where
  "createHierarchicalSteps ps =
     (case ps of
        [] \<Rightarrow> []
      | (i0, a0) # rest \<Rightarrow> new_step i0 (ai_Name a0) a0 [] # map (\<lambda>(i, agent). new_step i (ai_Name agent) agent [i0]) rest)"

definition createPipelineSteps :: "(string \<times> AgentIdentity) list \<Rightarrow> TaskStep list" where
  "createPipelineSteps ps = createSequentialSteps ps"

definition createSwarmSteps :: "(string \<times> AgentIdentity) list \<Rightarrow> TaskStep list" where
  "createSwarmSteps ps = map (\<lambda>(i, agent). new_step i (ai_Name agent @ ''_swarm_agent'') agent []) ps"

definition createSteps :: "CollaborationStrategy \<Rightarrow> (string \<times> AgentIdentity) list \<Rightarrow> TaskStep list" where
  "createSteps strategy ps =
     (if strategy = StrategySequential then createSequentialSteps ps
      else if strategy = StrategyParallel then createParallelSteps ps
      else if strategy = StrategyHierarchical then createHierarchicalSteps ps
      else if strategy = StrategyPipeline then createPipelineSteps ps
      else if strategy = StrategySwarm then createSwarmSteps ps
      else createSequentialSteps ps)"

section \<open>Operations\<close>

definition CreatePlan ::
  "string \<Rightarrow> int \<Rightarrow> string \<Rightarrow> string \<Rightarrow> CollaborationStrategy \<Rightarrow> (string \<times> AgentIdentity) list \<Rightarrow> Orchestrator
     \<Rightarrow> ExecutionPlan \<times> Orchestrator" where
  "CreatePlan uuid now collaborationID taskDescription strategy participants orc =
     (let plan = \<lparr>xp_ID = uuid, xp_CollaborationID = collaborationID, xp_TaskDescription = taskDescription, xp_Strategy = strategy,
                  xp_Steps = createSteps strategy participants, xp_CurrentStep = 0, xp_Status = ''created'', xp_CreatedAt = now\<rparr>
      in (plan, orc\<lparr>or_plans := (or_plans orc)(uuid \<mapsto> plan),
                  or_contexts := (or_contexts orc)(collaborationID \<mapsto> Some \<lparr>sh_Data = Map.empty, sh_Version = 0\<rparr>)\<rparr>))"

definition GetPlan :: "string \<Rightarrow> Orchestrator \<Rightarrow> error + ExecutionPlan" where
  "GetPlan i orc = (case or_plans orc i of None \<Rightarrow> Inl ErrPlanNotFound | Some p \<Rightarrow> Inr p)"

definition GetSharedContext :: "string \<Rightarrow> Orchestrator \<Rightarrow> error + SharedContext option" where
  "GetSharedContext i orc = (case or_contexts orc i of None \<Rightarrow> Inl ErrContextNotFound | Some c \<Rightarrow> Inr c)"

definition UpdateContext :: "string \<Rightarrow> string \<Rightarrow> gval \<Rightarrow> Orchestrator \<Rightarrow> Orchestrator go" where
  "UpdateContext i key val orc =
     (case or_contexts orc i of
        None \<Rightarrow> Ret orc
      | Some None \<Rightarrow> Panic ''runtime error: invalid memory address or nil pointer dereference''
      | Some (Some c) \<Rightarrow>
          Ret (orc\<lparr>or_contexts := (or_contexts orc)(i \<mapsto> Some \<lparr>sh_Data = (sh_Data c)(key \<mapsto> val), sh_Version = sh_Version c + 1\<rparr>)\<rparr>))"

fun complete_step :: "string \<Rightarrow> (string \<rightharpoonup> gval) \<Rightarrow> int \<Rightarrow> TaskStep list \<Rightarrow> TaskStep list option" where
  "complete_step i output now [] = None"
| "complete_step i output now (s # ss) =
     (if ts_ID s = i then Some (s\<lparr>ts_Status := ''completed'', ts_Output := output, ts_CompletedAt := now\<rparr> # ss)
      else map_option (\<lambda>r. s # r) (complete_step i output now ss))"

definition MarkStepComplete :: "int \<Rightarrow> string \<Rightarrow> string \<Rightarrow> (string \<rightharpoonup> gval) \<Rightarrow> Orchestrator \<Rightarrow> error option \<times> Orchestrator" where
  "MarkStepComplete now planID stepID output orc =
     (case or_plans orc planID of
        None \<Rightarrow> (Some ErrPlanNotFound, orc)
      | Some plan \<Rightarrow>
          (case complete_step stepID output now (xp_Steps plan) of
             None \<Rightarrow> (Some ErrStepNotFound, orc)
           | Some steps \<Rightarrow> (None, orc\<lparr>or_plans := (or_plans orc)(planID \<mapsto> plan\<lparr>xp_Steps := steps\<rparr>)\<rparr>)))"

fun plan_cleanup_loop :: "int \<Rightarrow> int \<Rightarrow> string list \<Rightarrow> Orchestrator \<Rightarrow> Orchestrator" where
  "plan_cleanup_loop now maxAge [] orc = orc"
| "plan_cleanup_loop now maxAge (i # is) orc =
     (case or_plans orc i of
        None \<Rightarrow> plan_cleanup_loop now maxAge is orc
      | Some plan \<Rightarrow>
          plan_cleanup_loop now maxAge is
            (if now - xp_CreatedAt plan > maxAge \<and> (xp_Status plan = ''completed'' \<or> xp_Status plan = ''failed'')
             then orc\<lparr>or_plans := (or_plans orc)(i := None),
                    or_contexts := (if or_contexts orc (xp_CollaborationID plan) = None then or_contexts orc
                                    else (or_contexts orc)(xp_CollaborationID plan \<mapsto> None))\<rparr>
             else orc))"

definition orch_Cleanup :: "int \<Rightarrow> int \<Rightarrow> string list \<Rightarrow> Orchestrator \<Rightarrow> Orchestrator" where
  "orch_Cleanup now maxAge order orc = plan_cleanup_loop now maxAge order orc"

section \<open>Plans can be run in order\<close>

text \<open>Every dependency is the id of a step earlier in the list.\<close>

fun deps_before :: "string set \<Rightarrow> TaskStep list \<Rightarrow> bool" where
  "deps_before seen [] \<longleftrightarrow> True"
| "deps_before seen (s # ss) \<longleftrightarrow> set (ts_Dependencies s) \<subseteq> seen \<and> deps_before (insert (ts_ID s) seen) ss"

lemma sequential_deps: "(case prev of None \<Rightarrow> True | Some p \<Rightarrow> p \<in> seen) \<Longrightarrow> deps_before seen (sequential_from prev ps)"
  by (induction prev ps arbitrary: seen rule: sequential_from.induct) (auto simp: new_step_def split: option.splits)

lemma independent_deps: "list_all (\<lambda>s. set (ts_Dependencies s) \<subseteq> seen) ss \<Longrightarrow> deps_before seen ss"
proof (induction ss arbitrary: seen)
  case (Cons s ss)
  then have "list_all (\<lambda>s'. set (ts_Dependencies s') \<subseteq> insert (ts_ID s) seen) ss" by (auto simp: list_all_iff)
  with Cons show ?case by simp
qed simp

lemma sequential_map: "map ts_ID (sequential_from prev ps) = map fst ps" "map ts_AgentID (sequential_from prev ps) = map (\<lambda>p. ai_ID (snd p)) ps"
  by (induction prev ps rule: sequential_from.induct) (simp_all add: new_step_def)

lemmas step_makers = createSteps_def createSequentialSteps_def createParallelSteps_def createHierarchicalSteps_def
  createPipelineSteps_def createSwarmSteps_def

text \<open>A plan has, for every strategy, one pending step per participant, in order, and each step depends only on
  steps before it, so that its steps can always be run in the order of the plan.\<close>

theorem plan_steps_runnable:
  "map ts_ID (createSteps strategy ps) = map fst ps \<and> map ts_AgentID (createSteps strategy ps) = map (\<lambda>p. ai_ID (snd p)) ps \<and>
   deps_before {} (createSteps strategy ps)"
proof -
  have seq: "deps_before {} (sequential_from None ps)" by (rule sequential_deps) simp
  have par: "deps_before {} (map (\<lambda>(i, agent). new_step i (f agent) agent []) ps)" for f
    by (rule independent_deps) (auto simp: list_all_iff new_step_def)
  have hier: "deps_before {} (createHierarchicalSteps ps)"
    by (auto simp: createHierarchicalSteps_def new_step_def list_all_iff split: list.split intro!: independent_deps)
  show ?thesis
    using seq par hier sequential_map[of None ps]
    by (auto simp: createSteps_def createSequentialSteps_def createParallelSteps_def createPipelineSteps_def createSwarmSteps_def
        createHierarchicalSteps_def new_step_def comp_def case_prod_unfold split: list.split)
qed

lemma complete_step_map:
  "complete_step i output now ss = Some ss' \<Longrightarrow> map ts_ID ss' = map ts_ID ss \<and> map ts_Dependencies ss' = map ts_Dependencies ss"
  by (induction ss arbitrary: ss') (auto split: if_splits)

lemma complete_step_None: "complete_step i output now ss = None \<longleftrightarrow> i \<notin> ts_ID ` set ss"
  by (induction ss) auto

section \<open>Shared contexts\<close>

text \<open>When Cleanup has removed the finished plan of a collaboration, the context of that collaboration is a nil
  pointer: asking for it succeeds with nil, and the next update of it panics.\<close>

theorem update_after_cleanup_panics:
  assumes "or_plans orc pid = Some plan" and "now - xp_CreatedAt plan > maxAge" and "xp_Status plan = ''completed''"
    and "or_contexts orc (xp_CollaborationID plan) \<noteq> None"
  shows "GetSharedContext (xp_CollaborationID plan) (orch_Cleanup now maxAge [pid] orc) = Inr None \<and>
    UpdateContext (xp_CollaborationID plan) key val (orch_Cleanup now maxAge [pid] orc) =
      Panic ''runtime error: invalid memory address or nil pointer dereference''"
  using assms by (simp add: orch_Cleanup_def UpdateContext_def GetSharedContext_def)

definition done_plan :: ExecutionPlan where
  "done_plan = (fst (CreatePlan ''p'' 0 ''c'' ''task'' StrategyParallel [] NewOrchestrator))\<lparr>xp_Status := ''completed''\<rparr>"

definition done_orchestrator :: Orchestrator where
  "done_orchestrator = (snd (CreatePlan ''p'' 0 ''c'' ''task'' StrategyParallel [] NewOrchestrator))\<lparr>or_plans := [''p'' \<mapsto> done_plan]\<rparr>"

theorem update_after_cleanup_panics_witness:
  "UpdateContext ''c'' ''k'' VNil (orch_Cleanup 9 5 [''p''] done_orchestrator) =
     Panic ''runtime error: invalid memory address or nil pointer dereference''"
proof -
  have c: "xp_CollaborationID done_plan = ''c''" by (simp add: done_plan_def CreatePlan_def Let_def)
  have "or_plans done_orchestrator ''p'' = Some done_plan" by (simp add: done_orchestrator_def)
  moreover have "(9 :: int) - xp_CreatedAt done_plan > 5" "xp_Status done_plan = ''completed''"
    by (simp_all add: done_plan_def CreatePlan_def Let_def)
  moreover have "or_contexts done_orchestrator (xp_CollaborationID done_plan) \<noteq> None"
    by (simp add: c) (simp add: done_orchestrator_def CreatePlan_def Let_def)
  ultimately show ?thesis using update_after_cleanup_panics[of done_orchestrator "''p''" done_plan 5 9] c by simp
qed

text \<open>Updates of a live context count its versions and are seen by the next reader.\<close>

lemma UpdateContext_reads_back:
  "or_contexts orc i = Some (Some c) \<Longrightarrow> \<exists>orc' c'. UpdateContext i key val orc = Ret orc' \<and> GetSharedContext i orc' = Inr (Some c') \<and>
     sh_Data c' key = Some val \<and> sh_Version c' = sh_Version c + 1"
  by (simp add: UpdateContext_def GetSharedContext_def)

end
