(* ===== verification/MCP_Cache.thy ===== *)
theory MCP_Cache
  imports Go_Base
begin

text \<open>
  The capability cache of the MCP clients, internal/mcp/cache.go: the tools and resources of each
  server with a time of expiry. Clock readings are arguments; \<open>order\<close> is the order of the range loop
  that picks the entry to remove when the cache is full.

  Proved: the number of entries never exceeds the maximal size (one, for a maximal size below one);
  an entry is found until it expires, whatever is done to other servers, unless it is removed to make
  room; and storing a server that is already in a full cache can remove another server's entry.
\<close>

record MCPTool =
  mt_Name :: string
  mt_Description :: string
  mt_InputSchema :: gval

record MCPResource =
  mr_URI :: string
  mr_Name :: string
  mr_Description :: string
  mr_MimeType :: string

record CacheEntry =
  ce_Tools :: "MCPTool list"
  ce_Resources :: "MCPResource list"
  ce_ExpiresAt :: int

record CapabilityCache =
  cc_entries :: "string \<rightharpoonup> CacheEntry"
  cc_maxSize :: int
  cc_ttl :: int

section \<open>Operations\<close>

definition NewCapabilityCache :: "int \<Rightarrow> int \<Rightarrow> CapabilityCache" where
  "NewCapabilityCache maxSize ttl = \<lparr>cc_entries = Map.empty, cc_maxSize = maxSize, cc_ttl = ttl\<rparr>"

definition Size :: "CapabilityCache \<Rightarrow> int" where
  "Size c = int (card (dom (cc_entries c)))"

text \<open>At capacity, the first key of a range loop is deleted.\<close>

definition evict :: "string list \<Rightarrow> CapabilityCache \<Rightarrow> CapabilityCache" where
  "evict order c =
     (if int (card (dom (cc_entries c))) \<ge> cc_maxSize c
      then (case order of [] \<Rightarrow> c | k # ks \<Rightarrow> c\<lparr>cc_entries := (cc_entries c)(k := None)\<rparr>)
      else c)"

definition Store :: "string list \<Rightarrow> int \<Rightarrow> string \<Rightarrow> MCPTool list \<Rightarrow> MCPResource list \<Rightarrow> CapabilityCache \<Rightarrow> CapabilityCache" where
  "Store order now serverID tools resources c =
     (let c1 = evict order c
      in c1\<lparr>cc_entries := (cc_entries c1)(serverID \<mapsto> \<lparr>ce_Tools = tools, ce_Resources = resources, ce_ExpiresAt = now + cc_ttl c\<rparr>)\<rparr>)"

text \<open>The entry to update, a new empty one when there is none.\<close>

definition entry_for :: "string list \<Rightarrow> string \<Rightarrow> CapabilityCache \<Rightarrow> CacheEntry \<times> CapabilityCache" where
  "entry_for order serverID c =
     (case cc_entries c serverID of
        Some e \<Rightarrow> (e, c)
      | None \<Rightarrow> (\<lparr>ce_Tools = [], ce_Resources = [], ce_ExpiresAt = 0\<rparr>, evict order c))"

definition StoreTools :: "string list \<Rightarrow> int \<Rightarrow> string \<Rightarrow> MCPTool list \<Rightarrow> CapabilityCache \<Rightarrow> CapabilityCache" where
  "StoreTools order now serverID tools c =
     (case entry_for order serverID c of (entry, c1) \<Rightarrow>
        c1\<lparr>cc_entries := (cc_entries c1)(serverID \<mapsto> entry\<lparr>ce_Tools := tools, ce_ExpiresAt := now + cc_ttl c\<rparr>)\<rparr>)"

definition StoreResources :: "string list \<Rightarrow> int \<Rightarrow> string \<Rightarrow> MCPResource list \<Rightarrow> CapabilityCache \<Rightarrow> CapabilityCache" where
  "StoreResources order now serverID resources c =
     (case entry_for order serverID c of (entry, c1) \<Rightarrow>
        c1\<lparr>cc_entries := (cc_entries c1)(serverID \<mapsto> entry\<lparr>ce_Resources := resources, ce_ExpiresAt := now + cc_ttl c\<rparr>)\<rparr>)"

definition cache_Get :: "int \<Rightarrow> string \<Rightarrow> CapabilityCache \<Rightarrow> CacheEntry option" where
  "cache_Get now serverID c =
     (case cc_entries c serverID of None \<Rightarrow> None | Some e \<Rightarrow> if now > ce_ExpiresAt e then None else Some e)"

definition GetTools :: "int \<Rightarrow> string \<Rightarrow> CapabilityCache \<Rightarrow> MCPTool list option" where
  "GetTools now serverID c =
     (case cc_entries c serverID of None \<Rightarrow> None | Some e \<Rightarrow> if now > ce_ExpiresAt e then None else Some (ce_Tools e))"

definition GetResources :: "int \<Rightarrow> string \<Rightarrow> CapabilityCache \<Rightarrow> MCPResource list option" where
  "GetResources now serverID c =
     (case cc_entries c serverID of None \<Rightarrow> None | Some e \<Rightarrow> if now > ce_ExpiresAt e then None else Some (ce_Resources e))"

definition cache_Delete :: "string \<Rightarrow> CapabilityCache \<Rightarrow> CapabilityCache" where
  "cache_Delete serverID c = c\<lparr>cc_entries := (cc_entries c)(serverID := None)\<rparr>"

definition cache_Clear :: "CapabilityCache \<Rightarrow> CapabilityCache" where
  "cache_Clear c = c\<lparr>cc_entries := Map.empty\<rparr>"

lemmas cache_ops = Store_def StoreTools_def StoreResources_def entry_for_def evict_def cache_Delete_def cache_Clear_def Let_def

section \<open>The size is bounded\<close>

text \<open>A step is an operation that changes the cache, with any order its range loop may have.\<close>

inductive cache_step :: "CapabilityCache \<Rightarrow> CapabilityCache \<Rightarrow> bool" where
  store: "ranges (cc_entries c) order \<Longrightarrow> cache_step c (Store order now s tools resources c)"
| tools: "ranges (cc_entries c) order \<Longrightarrow> cache_step c (StoreTools order now s tools c)"
| resources: "ranges (cc_entries c) order \<Longrightarrow> cache_step c (StoreResources order now s resources c)"
| delete: "cache_step c (cache_Delete s c)"
| clear: "cache_step c (cache_Clear c)"

definition size_ok :: "int \<Rightarrow> CapabilityCache \<Rightarrow> bool" where
  "size_ok mx c \<longleftrightarrow> cc_maxSize c = mx \<and> finite (dom (cc_entries c)) \<and> Size c \<le> max 1 mx"

lemma size_ok_small:
  "size_ok mx c \<Longrightarrow> dom m \<subseteq> dom (cc_entries c) \<Longrightarrow> size_ok mx (c\<lparr>cc_entries := m\<rparr>)"
  using card_mono[of "dom (cc_entries c)" "dom m"] by (auto simp: size_ok_def Size_def intro: finite_subset)

lemma evict_fields [simp]: "cc_maxSize (evict order c) = cc_maxSize c" "cc_ttl (evict order c) = cc_ttl c"
  by (auto simp: evict_def split: list.split)

text \<open>After an eviction there is room for one more entry.\<close>

lemma evict_room:
  assumes "size_ok mx c" and "ranges (cc_entries c) order"
  shows "finite (dom (cc_entries (evict order c)))" "int (card (dom (cc_entries (evict order c)))) + 1 \<le> max 1 mx"
proof -
  let ?m = "cc_entries c"
  have fin: "finite (dom ?m)" and len: "length order = card (dom ?m)" and mx: "cc_maxSize c = mx" "int (card (dom ?m)) \<le> max 1 mx"
    using assms ranges_length[OF assms(2)] by (auto simp: size_ok_def Size_def)
  have "card (dom ?m) = Suc (card (dom (?m(hd order := None))))" if "order \<noteq> []"
  proof -
    from that assms(2) have "hd order \<in> dom ?m" by (metis hd_in_set ranges_def)
    with fin show ?thesis by (metis card_Suc_Diff1 dom_fun_upd)
  qed
  with len mx fin show "finite (dom (cc_entries (evict order c)))" "int (card (dom (cc_entries (evict order c)))) + 1 \<le> max 1 mx"
    by (cases order; auto simp: evict_def)+
qed

lemma size_ok_add:
  assumes "finite (dom (cc_entries c))" and "int (card (dom (cc_entries c))) + 1 \<le> max 1 mx" and "cc_maxSize c = mx"
  shows "size_ok mx (c\<lparr>cc_entries := (cc_entries c)(s \<mapsto> e)\<rparr>)"
  using assms card_dom_upd_le[of "cc_entries c" s e] by (auto simp: size_ok_def Size_def)

lemma size_ok_entry:
  assumes "size_ok mx c" and "ranges (cc_entries c) order"
  shows "size_ok mx ((snd (entry_for order s c))\<lparr>cc_entries := (cc_entries (snd (entry_for order s c)))(s \<mapsto> e)\<rparr>)"
proof (cases "cc_entries c s")
  case None
  then show ?thesis using assms evict_room[OF assms]
    by (auto simp: entry_for_def size_ok_def[of mx c] intro!: size_ok_add)
next
  case (Some e')
  then show ?thesis using assms by (auto simp: entry_for_def split: if_splits intro!: size_ok_small)
qed

interpretation cache: invariant_system "\<lambda>c. \<exists>ttl. c = NewCapabilityCache mx ttl" cache_step "size_ok mx" for mx
proof
  fix s assume "\<exists>ttl. s = NewCapabilityCache mx ttl"
  then show "size_ok mx s" by (auto simp: size_ok_def NewCapabilityCache_def Size_def)
next
  fix s t assume "cache_step s t" and ok: "size_ok mx s"
  then show "size_ok mx t"
  proof (cases rule: cache_step.cases)
    case store
    then show ?thesis using ok evict_room[OF ok]
      by (auto simp: Store_def Let_def size_ok_def[of mx s] intro!: size_ok_add)
  next
    case tools
    then show ?thesis using size_ok_entry[OF ok] by (simp add: StoreTools_def case_prod_beta)
  next
    case resources
    then show ?thesis using size_ok_entry[OF ok] by (simp add: StoreResources_def case_prod_beta)
  next
    case delete
    then show ?thesis using ok by (auto simp: cache_Delete_def split: if_splits intro!: size_ok_small)
  next
    case clear
    then show ?thesis using ok by (auto simp: cache_Clear_def intro!: size_ok_small)
  qed
qed

text \<open>A capability cache never holds more entries than its maximal size, when that is at least one, whatever the
  sequence of operations and whichever entries the range loops pick for removal.\<close>

theorem cache_size_bounded:
  assumes "rtranclp cache_step (NewCapabilityCache mx ttl) c"
  shows "Size c \<le> max 1 mx"
  using cache.reachable_inv[OF _ assms, of mx] by (auto simp: size_ok_def)

theorem cache_size_bounded_witness:
  "Size (Store [''a''] 5 ''b'' [] [] (Store [] 0 ''a'' [] [] (NewCapabilityCache 1 60))) \<le> max 1 1"
proof (rule cache_size_bounded)
  have "cache_step (NewCapabilityCache 1 60) (Store [] 0 ''a'' [] [] (NewCapabilityCache 1 60))"
    by (rule cache_step.store) (simp add: ranges_def NewCapabilityCache_def)
  moreover have "cache_step (Store [] 0 ''a'' [] [] (NewCapabilityCache 1 60)) (Store [''a''] 5 ''b'' [] [] (Store [] 0 ''a'' [] [] (NewCapabilityCache 1 60)))"
    by (rule cache_step.store) (simp add: ranges_def NewCapabilityCache_def cache_ops)
  ultimately show "rtranclp cache_step (NewCapabilityCache 1 60) (Store [''a''] 5 ''b'' [] [] (Store [] 0 ''a'' [] [] (NewCapabilityCache 1 60)))"
    by (meson rtranclp.rtrancl_into_rtrancl rtranclp.rtrancl_refl)
qed

section \<open>What a lookup returns\<close>

text \<open>The entry in the map, expired or not.\<close>

definition raw_get :: "CapabilityCache \<Rightarrow> string \<Rightarrow> CacheEntry option" where
  "raw_get c s = cc_entries c s"

lemma raw_get_Store_other:
  "s' \<noteq> s \<Longrightarrow> raw_get (Store order now s tools resources c) s' = raw_get (evict order c) s'"
  by (simp add: raw_get_def Store_def Let_def)

lemma evict_below: "int (card (dom (cc_entries c))) < cc_maxSize c \<Longrightarrow> evict order c = c"
  by (simp add: evict_def)

lemma evict_raw:
  "raw_get (evict order c) s = None \<or> raw_get (evict order c) s = raw_get c s"
  by (auto simp: evict_def raw_get_def split: list.split)

text \<open>After Store the tools and resources of the server are found until the time to live has passed and not after;
  what is found for another server is what was found before, or nothing when its entry was removed to make room, which
  does not happen below the maximal size.\<close>

theorem cache_Store_lookup:
  "let c' = Store order now s tools resources c in
     (GetTools t s c' = (if t \<le> now + cc_ttl c then Some tools else None)) \<and>
     (GetResources t s c' = (if t \<le> now + cc_ttl c then Some resources else None)) \<and>
     (if s' = s then True
      else if Size c < cc_maxSize c then cache_Get t s' c' = cache_Get t s' c
      else cache_Get t s' c' \<in> {None, cache_Get t s' c})"
proof -
  let ?c = "Store order now s tools resources c"
  have "cc_entries ?c s = Some \<lparr>ce_Tools = tools, ce_Resources = resources, ce_ExpiresAt = now + cc_ttl c\<rparr>"
    by (simp add: Store_def Let_def)
  moreover have "cache_Get t s' ?c \<in> {None, cache_Get t s' c}" if "s' \<noteq> s"
    using raw_get_Store_other[OF that, of order now tools resources c] evict_raw[of order c s']
    by (auto simp: cache_Get_def raw_get_def)
  moreover have "cache_Get t s' ?c = cache_Get t s' c" if "s' \<noteq> s" "Size c < cc_maxSize c"
    using raw_get_Store_other[OF that(1), of order now tools resources c] evict_below[of c order] that(2)
    by (simp add: cache_Get_def raw_get_def Size_def)
  ultimately show ?thesis by (simp add: GetTools_def GetResources_def Let_def)
qed

text \<open>Storing a server that is in the cache already does not make it larger, but at capacity an entry is removed all
  the same, possibly of another server.\<close>

lemma refresh_evicts_other:
  "let c = Store [] 0 ''b'' [] [] (Store [] 0 ''a'' [] [] (NewCapabilityCache 2 60))
   in ranges (cc_entries c) [''b'', ''a''] \<and> GetTools 1 ''b'' c = Some [] \<and>
      GetTools 1 ''b'' (Store [''b'', ''a''] 1 ''a'' [] [] c) = None"
  by (auto simp: NewCapabilityCache_def cache_ops ranges_def GetTools_def)

end
