(* ===== verification/Tenant_DB.thy ===== *)
theory Tenant_DB
  imports Go_Strings
begin

text \<open>
  Tenant isolation, pkg/tenantdb: the tenant of a context (context.go), names that are scoped to a
  tenant (milvus.go, nats.go, neo4j.go), transactions in the schema of a tenant (postgres.go) and the
  creation of that schema (schema.go). The connection pool is a record of functions of the world;
  a statement is a text with its arguments.

  Proved: a transaction is opened for well-formed tenant ids only, its first statement selects the
  schema of exactly that tenant, it is closed exactly once, and it is committed only when the body
  succeeded; schemas of different tenants are different, while collection names of different tenants
  can coincide when the kind contains an underscore. Provisioning skips a statement that follows a
  comment, as the first one of tenant_schema.sql does.
\<close>

section \<open>The tenant of a context\<close>

record TenantContext =
  tc_TenantID :: string
  tc_UserID :: string
  tc_Role :: string

text \<open>What a context holds under the package's key: nothing, a nil pointer, or a tenant.\<close>

type_synonym tenant_ctx = "TenantContext option option"

definition WithTenant :: "tenant_ctx \<Rightarrow> TenantContext option \<Rightarrow> tenant_ctx" where
  "WithTenant ctx tc = Some tc"

definition FromContext :: "tenant_ctx \<Rightarrow> TenantContext option" where
  "FromContext ctx = (case ctx of None \<Rightarrow> None | Some tc \<Rightarrow> tc)"

section \<open>Names scoped to a tenant\<close>

definition missing_tenant :: error where "missing_tenant = ErrorString ''tenantdb: missing tenant context''"

definition empty_tenant :: error where "empty_tenant = ErrorString ''tenantdb: tenant_id is empty''"

definition TenantCollection :: "tenant_ctx \<Rightarrow> string \<Rightarrow> error + string" where
  "TenantCollection ctx kind =
     (case FromContext ctx of
        None \<Rightarrow> Inl missing_tenant
      | Some tc \<Rightarrow> if tc_TenantID tc = '''' then Inl empty_tenant else Inr (''tenant_'' @ tc_TenantID tc @ ''_'' @ kind))"

definition TenantSubject :: "tenant_ctx \<Rightarrow> string \<Rightarrow> error + string" where
  "TenantSubject ctx subject =
     (case FromContext ctx of
        None \<Rightarrow> Inl missing_tenant
      | Some tc \<Rightarrow> if tc_TenantID tc = '''' then Inl empty_tenant else Inr (''tenant.'' @ tc_TenantID tc @ ''.'' @ subject))"

definition TenantLabel :: "tenant_ctx \<Rightarrow> string \<Rightarrow> error + string" where
  "TenantLabel ctx label =
     (case FromContext ctx of
        None \<Rightarrow> Inl missing_tenant
      | Some tc \<Rightarrow> if tc_TenantID tc = '''' then Inl empty_tenant else Inr (''T_'' @ tc_TenantID tc @ ''_'' @ label))"

section \<open>Transactions\<close>

definition isSafeTenantIDChar :: "rune \<Rightarrow> bool" where
  "isSafeTenantIDChar r \<longleftrightarrow> 97 \<le> r \<and> r \<le> 122 \<or> 48 \<le> r \<and> r \<le> 57 \<or> r = 95 \<or> r = 45"

definition safe_id :: "string \<Rightarrow> bool" where
  "safe_id s \<longleftrightarrow> list_all (\<lambda>r. isSafeTenantIDChar (fst r)) (runes s)"

record 'w db_pool =
  db_Begin :: "'w \<Rightarrow> error option \<times> 'w"
  db_Exec :: "string \<Rightarrow> gval list \<Rightarrow> 'w \<Rightarrow> error option \<times> 'w"
  db_Rollback :: "'w \<Rightarrow> 'w"
  db_Commit :: "'w \<Rightarrow> error option \<times> 'w"

definition search_path :: "string \<Rightarrow> string" where
  "search_path schema = ''SET LOCAL search_path = '' @ [CHR 0x22] @ schema @ [CHR 0x22] @ '', public''"

text \<open>The body of a transaction, its error and its panic; \<open>Rollback\<close> ignores its own error.\<close>

definition run_body :: "'w db_pool \<Rightarrow> ('w \<Rightarrow> error option go \<times> 'w) \<Rightarrow> 'w \<Rightarrow> error option go \<times> 'w" where
  "run_body p fn w =
     (case fn w of
        (Ret (Some err), w') \<Rightarrow> (Ret (Some err), db_Rollback p w')
      | (Ret None, w') \<Rightarrow> (case db_Commit p w' of (e, w'') \<Rightarrow> (Ret e, w''))
      | (Panic m, w') \<Rightarrow> (Panic m, db_Rollback p w')
      | (Deadlock, w') \<Rightarrow> (Deadlock, w'))"

definition ExecTenant :: "tenant_ctx \<Rightarrow> 'w db_pool \<Rightarrow> ('w \<Rightarrow> error option go \<times> 'w) \<Rightarrow> 'w \<Rightarrow> error option go \<times> 'w" where
  "ExecTenant ctx p fn w =
     (case FromContext ctx of
        None \<Rightarrow> (Ret (Some missing_tenant), w)
      | Some tc \<Rightarrow>
          (if tc_TenantID tc = '''' then (Ret (Some (ErrorString ''tenantdb: tenant_id is empty (global_admin cannot use ExecTenant)'')), w)
           else if \<not> safe_id (tc_TenantID tc)
           then (Ret (Some (ErrorString (''tenantdb: invalid tenant_id '' @ quoted (tc_TenantID tc)))), w)
           else (case db_Begin p w of
                   (Some err, w1) \<Rightarrow> (Ret (Some (Wrapped ''tenantdb: begin tx'' err)), w1)
                 | (None, w1) \<Rightarrow>
                     (case db_Exec p (search_path (''tenant_'' @ tc_TenantID tc)) [] w1 of
                        (Some err, w2) \<Rightarrow> (Ret (Some (Wrapped ''tenantdb: set search_path'' err)), db_Rollback p w2)
                      | (None, w2) \<Rightarrow> run_body p fn w2))))"

section \<open>Schemas\<close>

text \<open>strings.Split at a separator of one byte, here the semicolon.\<close>

fun split_at :: "char \<Rightarrow> string \<Rightarrow> string list" where
  "split_at d [] = [[]]"
| "split_at d (c # s) =
     (if c = d then [] # split_at d s
      else (case split_at d s of [] \<Rightarrow> [[c]] | l # ls \<Rightarrow> (c # l) # ls))"

definition splitStatements :: "string \<Rightarrow> string list" where
  "splitStatements sql = filter (\<lambda>s. s \<noteq> []) (map TrimSpace (split_at (CHR '';'') sql))"

record 'w db_conn =
  cn_Acquire :: "'w \<Rightarrow> error option \<times> 'w"
  cn_Exec :: "string \<Rightarrow> 'w \<Rightarrow> error option \<times> 'w"
  cn_Release :: "'w \<Rightarrow> 'w"

text \<open>The loop over the statements, \<open>i\<close> the index of the next one.\<close>

fun ddl_loop :: "'w db_conn \<Rightarrow> nat \<Rightarrow> string list \<Rightarrow> 'w \<Rightarrow> error option \<times> 'w" where
  "ddl_loop c i [] w = (None, w)"
| "ddl_loop c i (st # sts) w =
     (let stmt = TrimSpace st in
      if stmt = [] \<or> prefix ''--'' stmt then ddl_loop c (Suc i) sts w
      else (case cn_Exec c stmt w of
              (Some err, w') \<Rightarrow> (Some (Wrapped (''tenantdb: exec statement '' @ show_nat i) err), w')
            | (None, w') \<Rightarrow> ddl_loop c (Suc i) sts w'))"

definition provision_body :: "'w db_conn \<Rightarrow> string \<Rightarrow> string \<Rightarrow> 'w \<Rightarrow> error option \<times> 'w" where
  "provision_body c ddl schemaName w =
     (case cn_Exec c (''CREATE SCHEMA IF NOT EXISTS '' @ [CHR 0x22] @ schemaName @ [CHR 0x22]) w of
        (Some err, w1) \<Rightarrow> (Some (Wrapped (''tenantdb: create schema '' @ schemaName) err), w1)
      | (None, w1) \<Rightarrow>
          (case cn_Exec c (''SET search_path = '' @ [CHR 0x22] @ schemaName @ [CHR 0x22] @ '', public'') w1 of
             (Some err, w2) \<Rightarrow> (Some (Wrapped ''tenantdb: set search_path'' err), w2)
           | (None, w2) \<Rightarrow> ddl_loop c 0 (splitStatements ddl) w2))"

text \<open>\<open>ddl\<close> is the embedded file tenant_schema.sql.\<close>

definition ProvisionTenantSchema :: "'w db_conn \<Rightarrow> string \<Rightarrow> string \<Rightarrow> 'w \<Rightarrow> error option \<times> 'w" where
  "ProvisionTenantSchema c ddl tenantID w =
     (if tenantID = '''' then (Some (ErrorString ''tenantdb: tenantID must not be empty''), w)
      else if \<not> safe_id tenantID then (Some (ErrorString (''tenantdb: invalid tenantID '' @ quoted tenantID)), w)
      else (case cn_Acquire c w of
              (Some err, w1) \<Rightarrow> (Some (Wrapped ''tenantdb: acquire conn'' err), w1)
            | (None, w1) \<Rightarrow>
                (case provision_body c ddl (''tenant_'' @ tenantID) w1 of (e, w2) \<Rightarrow> (e, cn_Release c w2))))"

text \<open>All tenants: \<open>rows\<close> is the outcome of the query, each row its id or the error of Scan.\<close>

fun scan_ids :: "(error + string) list \<Rightarrow> error + string list" where
  "scan_ids [] = Inr []"
| "scan_ids (Inl err # rs) = Inl (Wrapped ''tenantdb: scan tenant id'' err)"
| "scan_ids (Inr i # rs) = (case scan_ids rs of Inl err \<Rightarrow> Inl err | Inr is \<Rightarrow> Inr (i # is))"

definition ProvisionAllTenantSchemas ::
  "'w db_conn \<Rightarrow> string \<Rightarrow> ('w \<Rightarrow> (error + (error + string) list) \<times> 'w) \<Rightarrow> 'w \<Rightarrow> error option \<times> 'w" where
  "ProvisionAllTenantSchemas c ddl query w =
     (case query w of
        (Inl err, w1) \<Rightarrow> (Some (Wrapped ''tenantdb: list tenants'' err), w1)
      | (Inr rows, w1) \<Rightarrow>
          (case scan_ids rows of
             Inl err \<Rightarrow> (Some err, w1)
           | Inr ids \<Rightarrow> (None, foldl (\<lambda>w' i. snd (ProvisionTenantSchema c ddl i w')) w1 ids)))"

section \<open>Tenant ids\<close>

lemma safe_id_ascii: "safe_id s \<Longrightarrow> ascii s"
  unfolding safe_id_def by (rule ascii_runes) (auto simp: list_all_iff isSafeTenantIDChar_def)

lemma safe_id_chars: "safe_id s \<longleftrightarrow> list_all (\<lambda>c. isSafeTenantIDChar (byte c)) s"
proof (cases "ascii s")
  case True
  then show ?thesis by (simp add: safe_id_def runes_ascii list_all_iff)
next
  case False
  then have "\<not> list_all (\<lambda>c. isSafeTenantIDChar (byte c)) s"
    by (force simp: ascii_def list_all_iff isSafeTenantIDChar_def)
  with False show ?thesis using safe_id_ascii by blast
qed

text \<open>A safe id cannot close the quotation marks around the name of its schema.\<close>

lemma safe_id_no_quote: "safe_id s \<Longrightarrow> CHR 0x22 \<notin> set s"
  by (auto simp: safe_id_chars list_all_iff isSafeTenantIDChar_def byte_def)

section \<open>A pool that records what it is asked\<close>

datatype db_event = BeginTx | ExecStmt string "gval list" | RollbackTx | CommitTx

text \<open>The world: the events so far, and which of the operations fail, by position.\<close>

type_synonym db_log = "db_event list \<times> (nat \<Rightarrow> error option)"

definition log_event :: "db_event \<Rightarrow> db_log \<Rightarrow> error option \<times> db_log" where
  "log_event e l = (snd l (length (fst l)), (fst l @ [e], snd l))"

definition logging_pool :: "db_log db_pool" where
  "logging_pool = \<lparr>db_Begin = log_event BeginTx, db_Exec = (\<lambda>q args. log_event (ExecStmt q args)),
     db_Rollback = (\<lambda>l. snd (log_event RollbackTx l)), db_Commit = log_event CommitTx\<rparr>"

lemma logging_pool_simps [simp]:
  "db_Begin logging_pool = log_event BeginTx" "db_Exec logging_pool q args = log_event (ExecStmt q args)"
  "db_Rollback logging_pool l = snd (log_event RollbackTx l)" "db_Commit logging_pool = log_event CommitTx"
  by (simp_all add: logging_pool_def)

fun is_stmt :: "db_event \<Rightarrow> bool" where
  "is_stmt (ExecStmt q args) = True"
| "is_stmt e = False"

text \<open>A body that only executes statements and does not block.\<close>

definition plain_body :: "(db_log \<Rightarrow> error option go \<times> db_log) \<Rightarrow> bool" where
  "plain_body fn \<longleftrightarrow>
     (\<forall>es f. \<exists>r stmts. fn (es, f) = (r, (es @ stmts, f)) \<and> list_all is_stmt stmts \<and> r \<noteq> Deadlock)"

lemma plain_bodyE:
  assumes "plain_body fn"
  obtains r stmts where "fn (es, f) = (r, (es @ stmts, f))" "list_all is_stmt stmts" "r \<noteq> Deadlock"
  using assms unfolding plain_body_def by blast

definition tenant_path :: "string \<Rightarrow> db_event" where
  "tenant_path i = ExecStmt (search_path (''tenant_'' @ i)) []"

lemma run_body_log:
  assumes "plain_body fn"
  obtains out stmts fin where "run_body logging_pool fn (es, f) = (out, (es @ stmts @ [fin], f))" "list_all is_stmt stmts"
    "fin = CommitTx \<and> fst (fn (es, f)) = Ret None \<or> fin = RollbackTx \<and> out \<noteq> Ret None"
proof -
  obtain r stmts where r: "fn (es, f) = (r, (es @ stmts, f))" "list_all is_stmt stmts" "r \<noteq> Deadlock"
    by (rule plain_bodyE[OF assms])
  then show thesis
    by (cases r rule: go.exhaust[case_names Ret Panic Deadlock]; cases "r = Ret None")
      (auto simp: run_body_def log_event_def split: option.split intro!: that)
qed

definition closed_tx :: "string \<Rightarrow> db_event list \<Rightarrow> bool" where
  "closed_tx i new \<longleftrightarrow>
     (\<exists>stmts fin. new = [BeginTx, tenant_path i] @ stmts @ [fin] \<and> list_all is_stmt stmts \<and> (fin = CommitTx \<or> fin = RollbackTx))"

definition usable_tenant :: "tenant_ctx \<Rightarrow> string option" where
  "usable_tenant ctx =
     (case FromContext ctx of
        None \<Rightarrow> None
      | Some tc \<Rightarrow> if tc_TenantID tc \<noteq> '''' \<and> safe_id (tc_TenantID tc) then Some (tc_TenantID tc) else None)"

lemma ExecTenant_unusable:
  "usable_tenant ctx = None \<Longrightarrow> \<exists>err. ExecTenant ctx p fn w = (Ret (Some err), w)"
  by (auto simp: usable_tenant_def ExecTenant_def split: option.splits if_splits)

lemma ExecTenant_usable:
  assumes "usable_tenant ctx = Some i" and "plain_body fn"
  obtains (no_begin) err where "ExecTenant ctx logging_pool fn (es, f) = (Ret (Some err), (es @ [BeginTx], f))"
  | (no_path) err where "ExecTenant ctx logging_pool fn (es, f) = (Ret (Some err), (es @ [BeginTx, tenant_path i, RollbackTx], f))"
  | (ran) out stmts fin where "ExecTenant ctx logging_pool fn (es, f) = (out, (es @ [BeginTx, tenant_path i] @ stmts @ [fin], f))"
      "list_all is_stmt stmts"
      "fin = CommitTx \<and> fst (fn (es @ [BeginTx, tenant_path i], f)) = Ret None \<or> fin = RollbackTx \<and> out \<noteq> Ret None"
proof -
  from assms(1) obtain tc where tc: "FromContext ctx = Some tc" "tc_TenantID tc = i" "i \<noteq> ''''" "safe_id i"
    by (auto simp: usable_tenant_def split: option.splits if_splits)
  note run = ExecTenant_def tc log_event_def tenant_path_def
  consider (b) e where "f (length es) = Some e" | (p) e where "f (length es) = None" "f (Suc (length es)) = Some e"
    | (ok) "f (length es) = None" "f (Suc (length es)) = None" by (metis option.exhaust)
  then show thesis
  proof cases
    case b
    then show ?thesis by (intro no_begin) (simp add: run)
  next
    case p
    then show ?thesis by (intro no_path) (simp add: run)
  next
    case ok
    obtain out stmts fin where "run_body logging_pool fn (es @ [BeginTx, tenant_path i], f) = (out, ((es @ [BeginTx, tenant_path i]) @ stmts @ [fin], f))"
        "list_all is_stmt stmts" "fin = CommitTx \<and> fst (fn (es @ [BeginTx, tenant_path i], f)) = Ret None \<or> fin = RollbackTx \<and> out \<noteq> Ret None"
      by (rule run_body_log[OF assms(2)])
    with ok show ?thesis by (intro ran[of out stmts fin]) (simp_all add: run)
  qed
qed


definition insert_row :: "db_log \<Rightarrow> error option go \<times> db_log" where
  "insert_row l = (Ret (snd l 2), (fst l @ [ExecStmt ''INSERT'' []], snd l))"

definition acme :: tenant_ctx where
  "acme = WithTenant None (Some \<lparr>tc_TenantID = ''acme'', tc_UserID = ''u'', tc_Role = ''tenant_user''\<rparr>)"


section \<open>Names of different tenants\<close>

lemma last_sep_unique:
  "a @ d # k = b @ d # l \<Longrightarrow> d \<notin> set k \<Longrightarrow> d \<notin> set l \<Longrightarrow> a = b \<and> k = l"
proof -
  assume eq: "a @ d # k = b @ d # l" and k: "d \<notin> set k" and l: "d \<notin> set l"
  have "takeWhile (\<lambda>c. c \<noteq> d) (rev (a @ d # k)) = rev k" using k by (auto simp: takeWhile_append)
  moreover have "takeWhile (\<lambda>c. c \<noteq> d) (rev (b @ d # l)) = rev l" using l by (auto simp: takeWhile_append)
  ultimately have "k = l" using eq by (metis rev_rev_ident)
  with eq show ?thesis by simp
qed

text \<open>Collections of different tenants, or of different kinds without an underscore, have different names.\<close>

theorem collections_disjoint:
  assumes "TenantCollection c1 k1 = Inr n" "TenantCollection c2 k2 = Inr n" and "CHR ''_'' \<notin> set k1" "CHR ''_'' \<notin> set k2"
  shows "k1 = k2 \<and> map_option tc_TenantID (FromContext c1) = map_option tc_TenantID (FromContext c2)"
proof -
  from assms(1) obtain t1 where t1: "FromContext c1 = Some t1" "n = ''tenant_'' @ tc_TenantID t1 @ CHR ''_'' # k1"
    by (auto simp: TenantCollection_def split: option.splits if_splits)
  from assms(2) obtain t2 where t2: "FromContext c2 = Some t2" "n = ''tenant_'' @ tc_TenantID t2 @ CHR ''_'' # k2"
    by (auto simp: TenantCollection_def split: option.splits if_splits)
  from t1 t2 have "tc_TenantID t1 @ CHR ''_'' # k1 = tc_TenantID t2 @ CHR ''_'' # k2" by simp
  from last_sep_unique[OF this assms(3,4)] t1 t2 show ?thesis by simp
qed

theorem collections_disjoint_witness:
  "''kb'' = ''kb'' \<and> map_option tc_TenantID (FromContext acme) = map_option tc_TenantID (FromContext acme)"
  by (rule collections_disjoint[of acme "''kb''" "''tenant_acme_kb''"]) (simp_all add: TenantCollection_def acme_def WithTenant_def FromContext_def)

text \<open>With an underscore in the kind the names of two tenants can coincide.\<close>

lemma collections_collide:
  "TenantCollection (Some (Some \<lparr>tc_TenantID = ''a'', tc_UserID = u, tc_Role = r\<rparr>)) ''b_kb'' =
   TenantCollection (Some (Some \<lparr>tc_TenantID = ''a_b'', tc_UserID = u, tc_Role = r\<rparr>)) ''kb''"
  by (simp add: TenantCollection_def FromContext_def)

section \<open>Provisioning\<close>

lemma runes_total: "sum_list (map snd (runes s)) = length s"
proof (induction "length s" arbitrary: s rule: less_induct)
  case less
  show ?case
  proof (cases s)
    case (Cons c cs)
    have "snd (decode_rune s) \<le> length s"
      by (simp add: Cons Let_def decode3_def decode4_def split: list.split)
    moreover have "sum_list (map snd (runes (drop (snd (decode_rune s)) s))) = length (drop (snd (decode_rune s)) s)"
      using decode_rune_width[of s] Cons by (intro less) simp
    ultimately show ?thesis using Cons by (subst runes.simps) simp
  qed simp
qed

lemma sum_takeWhile_le: "sum_list (map snd (takeWhile P (rev rs))) \<le> (sum_list (map snd rs) :: nat)"
proof -
  have "sum_list (map snd (takeWhile P (rev rs))) \<le> sum_list (map snd (takeWhile P (rev rs) @ dropWhile P (rev rs)))"
    by (simp del: takeWhile_dropWhile_id)
  also have "\<dots> = sum_list (map snd rs)" by (simp add: rev_map[symmetric] sum_list_rev)
  finally show ?thesis .
qed

lemma trim_comment: "\<exists>t. TrimSpace (''--'' @ s) = ''--'' @ t"
proof -
  have r: "runes (''--'' @ s) = (45, 1) # (45, 1) # runes s"
    by (subst runes.simps, simp add: Let_def byte_def, subst runes.simps, simp add: Let_def byte_def)
  let ?trail = "sum_list (map snd (takeWhile (\<lambda>r. is_space (fst r)) (rev (runes s))))"
  have "?trail \<le> length s" using sum_takeWhile_le[of _ "runes s"] by (simp add: runes_total)
  then have "length (''--'' @ s) - ?trail = Suc (Suc (length s - ?trail))" by simp
  then have "TrimSpace (''--'' @ s) = ''--'' @ take (length s - ?trail) s"
    unfolding TrimSpace_def r Let_def by (simp add: is_space_def takeWhile_tail)
  then show ?thesis by blast
qed

lemma split_at_not_Nil: "split_at d s \<noteq> []"
  by (induction s) (auto split: list.splits)

lemma split_at_first: "d \<notin> set s \<Longrightarrow> split_at d (s @ d # rest) = s # split_at d rest"
  by (induction s) auto

lemma ddl_loop_index: "snd (ddl_loop c i sts w) = snd (ddl_loop c j sts w)"
proof (induction sts arbitrary: i j w)
  case (Cons st sts)
  have "snd (ddl_loop c (Suc i) sts w') = snd (ddl_loop c (Suc j) sts w')" for w' by (rule Cons.IH)
  then show ?case by (simp add: Let_def split: prod.split option.split)
qed simp

lemma ddl_skips_comment: "snd (ddl_loop c i (splitStatements (''--'' @ st @ '';'' @ rest)) w) = snd (ddl_loop c i (splitStatements rest) w)"
  if "CHR '';'' \<notin> set st"
proof -
  have "split_at (CHR '';'') ((''--'' @ st) @ CHR '';'' # rest) = (''--'' @ st) # split_at (CHR '';'') rest"
    using that by (intro split_at_first) auto
  then have split: "splitStatements (''--'' @ st @ '';'' @ rest) = filter (\<lambda>s. s \<noteq> []) (TrimSpace (''--'' @ st) # map TrimSpace (split_at (CHR '';'') rest))"
    by (simp add: splitStatements_def del: split_at.simps)
  obtain t where t: "TrimSpace (''--'' @ st) = ''--'' @ t" using trim_comment by blast
  obtain t' where t': "TrimSpace (''--'' @ t) = ''--'' @ t'" using trim_comment by blast
  have "snd (ddl_loop c i ((''--'' @ t) # splitStatements rest) w) = snd (ddl_loop c (Suc i) (splitStatements rest) w)"
    by (simp only: ddl_loop.simps t' Let_def) simp
  also have "\<dots> = snd (ddl_loop c i (splitStatements rest) w)" by (rule ddl_loop_index)
  finally show ?thesis unfolding split t by (simp add: splitStatements_def del: ddl_loop.simps)
qed

text \<open>Provisioning leaves out the whole piece up to the next semicolon when it starts with a comment, also the SQL
  statement after the comment: the database ends up as if that statement were not in the file. The file tenant_schema.sql
  starts with a comment before the statement that creates the table agents.\<close>

theorem provisioning_skips_commented_statement:
  assumes "CHR '';'' \<notin> set st"
  shows "snd (ProvisionTenantSchema c (''--'' @ st @ '';'' @ rest) tenantID w) = snd (ProvisionTenantSchema c rest tenantID w)"
proof -
  have "snd (provision_body c (''--'' @ st @ '';'' @ rest) schema w') = snd (provision_body c rest schema w')" for schema w'
    by (simp add: ddl_skips_comment[OF assms] provision_body_def split: prod.split option.split del: append.simps)
  then show ?thesis
    by (simp add: ProvisionTenantSchema_def case_prod_beta split: option.split del: append.simps)
qed

definition logging_conn :: "string list db_conn" where
  "logging_conn = \<lparr>cn_Acquire = (\<lambda>l. (None, l)), cn_Exec = (\<lambda>q l. (None, l @ [q])), cn_Release = (\<lambda>l. l)\<rparr>"

theorem provisioning_skips_commented_statement_witness:
  "snd (ProvisionTenantSchema logging_conn
      (''--'' @ ('' Per-tenant schema DDL'' @ [CHR 0x0A] @ ''CREATE TABLE IF NOT EXISTS agents (id TEXT PRIMARY KEY)'') @ '';'' @ ''CREATE TABLE skills (id TEXT)'') ''acme'' []) =
   snd (ProvisionTenantSchema logging_conn ''CREATE TABLE skills (id TEXT)'' ''acme'' [])"
  by (rule provisioning_skips_commented_statement) simp

end
