(* ===== verification/MCP_Client.thy ===== *)
theory MCP_Client
  imports MCP_Cache Tenant_DB
begin

text \<open>
  The MCP client, internal/mcp/client.go: a connection to one server by one of three transports. The
  operating system, the HTTP stack and the JSON codec are a record of functions (\<open>mcp_env\<close>) that may
  change the world; the client's mutex only makes its operations atomic.

  Proved: what connecting, calling and listing do on every branch; the state of a client is always
  consistent with its status; a connected client stays connected through every operation except
  Disconnect, and connecting it again does nothing, also when it is unhealthy; an error that the
  server reports in its response is dropped.
\<close>

section \<open>Data\<close>

record MCPServerConfig =
  mc_ID :: string
  mc_Name :: string
  mc_Version :: string
  mc_Transport :: string
  mc_Command :: string
  mc_Args :: "string list"
  mc_URL :: string
  mc_Env :: "(string \<times> string) list"
  mc_Capabilities :: "string list"
  mc_Timeout :: int

record MCPServerInfo =
  si_ID :: string
  si_Name :: string
  si_Version :: string
  si_Protocol :: string
  si_Transport :: string
  si_Tools :: "MCPTool list"
  si_Resources :: "MCPResource list"
  si_Status :: string
  si_LastUpdated :: int
  si_Error :: string

record MCPRequest =
  rq_Method :: string
  rq_Params :: gval

record MCPResponse =
  rs_Result :: gval
  rs_Error :: string

text \<open>
  What the client uses of the outside: the process of a stdio server, HTTP requests with the result
  of reading the body of the response, and JSON.
\<close>

record 'w mcp_env =
  me_StdinPipe :: "MCPServerConfig \<Rightarrow> 'w \<Rightarrow> error option \<times> 'w"
  me_StdoutPipe :: "MCPServerConfig \<Rightarrow> 'w \<Rightarrow> error option \<times> 'w"
  me_Start :: "MCPServerConfig \<Rightarrow> 'w \<Rightarrow> error option \<times> 'w"
  me_Write :: "MCPServerConfig \<Rightarrow> string \<Rightarrow> 'w \<Rightarrow> error option \<times> 'w"
  me_ReadLine :: "MCPServerConfig \<Rightarrow> 'w \<Rightarrow> (error + string) \<times> 'w"
  me_NewRequest :: "string \<Rightarrow> string \<Rightarrow> error option"
  me_Do :: "int \<Rightarrow> string \<Rightarrow> string \<Rightarrow> string \<Rightarrow> 'w \<Rightarrow> (error + int \<times> (error + string)) \<times> 'w"
  me_Marshal :: "MCPRequest \<Rightarrow> error + string"
  me_Unmarshal :: "string \<Rightarrow> error + MCPResponse"
  me_Tools :: "gval \<Rightarrow> MCPTool list"
  me_Resources :: "gval \<Rightarrow> MCPResource list"

text \<open>
  \<open>bc_stdio\<close>: both pipes are set; \<open>bc_http\<close>: the timeout of the HTTP client, when there is one.
\<close>

record BaseClient =
  bc_config :: MCPServerConfig
  bc_info :: MCPServerInfo
  bc_connected :: bool
  bc_healthy :: bool
  bc_lastHealthy :: int
  bc_stdio :: bool
  bc_http :: "int option"

definition NewBaseClient :: "int \<Rightarrow> MCPServerConfig \<Rightarrow> BaseClient" where
  "NewBaseClient now config =
     \<lparr>bc_config = config,
      bc_info = \<lparr>si_ID = mc_ID config, si_Name = mc_Name config, si_Version = mc_Version config, si_Protocol = '''',
        si_Transport = mc_Transport config, si_Tools = [], si_Resources = [], si_Status = ''disconnected'', si_LastUpdated = 0, si_Error = ''''\<rparr>,
      bc_connected = False, bc_healthy = False, bc_lastHealthy = now, bc_stdio = False, bc_http = None\<rparr>"

section \<open>Connecting\<close>

definition connectStdio :: "'w mcp_env \<Rightarrow> BaseClient \<Rightarrow> 'w \<Rightarrow> error option \<times> BaseClient \<times> 'w" where
  "connectStdio env c w =
     (if mc_Command (bc_config c) = '''' then (Some (ErrorString ''command not specified for stdio transport''), c, w)
      else case me_StdinPipe env (bc_config c) w of
        (Some err, w1) \<Rightarrow> (Some (Wrapped ''failed to create stdin pipe'' err), c, w1)
      | (None, w1) \<Rightarrow>
          (case me_StdoutPipe env (bc_config c) w1 of
             (Some err, w2) \<Rightarrow> (Some (Wrapped ''failed to create stdout pipe'' err), c, w2)
           | (None, w2) \<Rightarrow>
               (case me_Start env (bc_config c) w2 of
                  (Some err, w3) \<Rightarrow> (Some (Wrapped ''failed to start command'' err), c, w3)
                | (None, w3) \<Rightarrow> (None, c\<lparr>bc_stdio := True\<rparr>, w3))))"

definition connectSSE :: "'w mcp_env \<Rightarrow> BaseClient \<Rightarrow> 'w \<Rightarrow> error option \<times> BaseClient \<times> 'w" where
  "connectSSE env c w =
     (if mc_URL (bc_config c) = '''' then (Some (ErrorString ''URL not specified for SSE transport''), c, w)
      else case me_NewRequest env ''GET'' (mc_URL (bc_config c)) of
        Some err \<Rightarrow> (Some (Wrapped ''failed to create request'' err), c, w)
      | None \<Rightarrow>
          (case me_Do env (5 * 10 ^ 9) ''GET'' (mc_URL (bc_config c)) '''' w of
             (Inl err, w1) \<Rightarrow> (Some (Wrapped ''failed to connect to SSE server'' err), c, w1)
           | (Inr resp, w1) \<Rightarrow> (None, c\<lparr>bc_http := Some (mc_Timeout (bc_config c))\<rparr>, w1)))"

definition connectHTTP :: "'w mcp_env \<Rightarrow> BaseClient \<Rightarrow> 'w \<Rightarrow> error option \<times> BaseClient \<times> 'w" where
  "connectHTTP env c w =
     (if mc_URL (bc_config c) = '''' then (Some (ErrorString ''URL not specified for HTTP transport''), c, w)
      else let c1 = c\<lparr>bc_http := Some (mc_Timeout (bc_config c))\<rparr>; url = mc_URL (bc_config c) @ ''/health'' in
        case me_NewRequest env ''GET'' url of
          Some err \<Rightarrow> (Some (Wrapped ''failed to create health check request'' err), c1, w)
        | None \<Rightarrow>
            (case me_Do env (mc_Timeout (bc_config c)) ''GET'' url '''' w of
               (Inl err, w1) \<Rightarrow> (Some (Wrapped ''failed to connect to HTTP server'' err), c1, w1)
             | (Inr (status, body), w1) \<Rightarrow>
                 (if status \<noteq> 200 then (Some (ErrorString (''HTTP server returned status '' @ show_int status)), c1, w1)
                  else (None, c1, w1))))"

definition unsupported :: "MCPServerConfig \<Rightarrow> error" where
  "unsupported config = ErrorString (''unsupported transport: '' @ mc_Transport config)"

text \<open>The connection method of the transport, \<open>None\<close> for an unsupported one.\<close>

definition connect_by :: "'w mcp_env \<Rightarrow> BaseClient \<Rightarrow> 'w \<Rightarrow> (error option \<times> BaseClient \<times> 'w) option" where
  "connect_by env c w =
     (let t = mc_Transport (bc_config c) in
      if t = ''stdio'' then Some (connectStdio env c w)
      else if t = ''sse'' then Some (connectSSE env c w)
      else if t = ''http'' then Some (connectHTTP env c w)
      else None)"

definition bc_Connect :: "'w mcp_env \<Rightarrow> int \<Rightarrow> BaseClient \<Rightarrow> 'w \<Rightarrow> error option \<times> BaseClient \<times> 'w" where
  "bc_Connect env now c w =
     (if bc_connected c then (None, c, w)
      else case connect_by env c w of
        None \<Rightarrow> (Some (unsupported (bc_config c)), c, w)
      | Some (Some err, c1, w1) \<Rightarrow>
          (Some err, c1\<lparr>bc_info := (bc_info c1)\<lparr>si_Status := ''error'', si_Error := error_text err\<rparr>\<rparr>, w1)
      | Some (None, c1, w1) \<Rightarrow>
          (None, c1\<lparr>bc_connected := True, bc_healthy := True,
                    bc_info := (bc_info c1)\<lparr>si_Status := ''connected'', si_LastUpdated := now\<rparr>\<rparr>, w1))"

definition bc_Disconnect :: "BaseClient \<Rightarrow> BaseClient" where
  "bc_Disconnect c =
     (if \<not> bc_connected c then c
      else c\<lparr>bc_connected := False, bc_healthy := False, bc_info := (bc_info c)\<lparr>si_Status := ''disconnected''\<rparr>\<rparr>)"

definition IsConnected :: "BaseClient \<Rightarrow> bool" where
  "IsConnected c = bc_connected c"

definition IsHealthy :: "BaseClient \<Rightarrow> bool" where
  "IsHealthy c \<longleftrightarrow> bc_healthy c \<and> bc_connected c"

section \<open>Requests\<close>

definition decode_body :: "'w mcp_env \<Rightarrow> (error + string) \<Rightarrow> error + MCPResponse" where
  "decode_body env body =
     (case body of
        Inl err \<Rightarrow> Inl (Wrapped ''failed to read response'' err)
      | Inr data \<Rightarrow> (case me_Unmarshal env data of Inl err \<Rightarrow> Inl (Wrapped ''failed to unmarshal response'' err) | Inr resp \<Rightarrow> Inr resp))"

definition sendStdioRequest :: "'w mcp_env \<Rightarrow> BaseClient \<Rightarrow> MCPRequest \<Rightarrow> 'w \<Rightarrow> (error + MCPResponse) \<times> 'w" where
  "sendStdioRequest env c req w =
     (if \<not> bc_stdio c then (Inl (ErrorString ''stdio connection not established''), w)
      else case me_Marshal env req of
        Inl err \<Rightarrow> (Inl (Wrapped ''failed to marshal request'' err), w)
      | Inr data \<Rightarrow>
          (case me_Write env (bc_config c) (data @ [CHR 0x0A]) w of
             (Some err, w1) \<Rightarrow> (Inl (Wrapped ''failed to write to stdin'' err), w1)
           | (None, w1) \<Rightarrow>
               (case me_ReadLine env (bc_config c) w1 of
                  (Inl err, w2) \<Rightarrow> (Inl (Wrapped ''failed to read from stdout'' err), w2)
                | (Inr line, w2) \<Rightarrow>
                    (case me_Unmarshal env (TrimSpace line) of
                       Inl err \<Rightarrow> (Inl (Wrapped ''failed to unmarshal response'' err), w2)
                     | Inr resp \<Rightarrow> (Inr resp, w2)))))"

definition sendSSERequest :: "'w mcp_env \<Rightarrow> BaseClient \<Rightarrow> MCPRequest \<Rightarrow> 'w \<Rightarrow> (error + MCPResponse) \<times> 'w" where
  "sendSSERequest env c req w =
     (case bc_http c of
        None \<Rightarrow> (Inl (ErrorString ''SSE connection not established''), w)
      | Some timeout \<Rightarrow>
          (case me_Marshal env req of
             Inl err \<Rightarrow> (Inl (Wrapped ''failed to marshal request'' err), w)
           | Inr data \<Rightarrow>
               (case me_NewRequest env ''POST'' (mc_URL (bc_config c)) of
                  Some err \<Rightarrow> (Inl (Wrapped ''failed to create request'' err), w)
                | None \<Rightarrow>
                    (case me_Do env timeout ''POST'' (mc_URL (bc_config c)) data w of
                       (Inl err, w1) \<Rightarrow> (Inl (Wrapped ''failed to send request'' err), w1)
                     | (Inr (status, body), w1) \<Rightarrow> (decode_body env body, w1)))))"

definition sendHTTPRequest :: "'w mcp_env \<Rightarrow> BaseClient \<Rightarrow> MCPRequest \<Rightarrow> 'w \<Rightarrow> (error + MCPResponse) \<times> 'w" where
  "sendHTTPRequest env c req w =
     (case bc_http c of
        None \<Rightarrow> (Inl (ErrorString ''HTTP client not initialized''), w)
      | Some timeout \<Rightarrow>
          (case me_Marshal env req of
             Inl err \<Rightarrow> (Inl (Wrapped ''failed to marshal request'' err), w)
           | Inr data \<Rightarrow>
               (case me_NewRequest env ''POST'' (mc_URL (bc_config c) @ ''/rpc'') of
                  Some err \<Rightarrow> (Inl (Wrapped ''failed to create request'' err), w)
                | None \<Rightarrow>
                    (case me_Do env timeout ''POST'' (mc_URL (bc_config c) @ ''/rpc'') data w of
                       (Inl err, w1) \<Rightarrow> (Inl (Wrapped ''failed to send request'' err), w1)
                     | (Inr (status, body), w1) \<Rightarrow>
                         (if status \<noteq> 200
                          then (Inl (ErrorString (''HTTP error '' @ show_int status @ '': '' @ (case body of Inl e \<Rightarrow> '''' | Inr b \<Rightarrow> b))), w1)
                          else (decode_body env body, w1))))))"

definition sendRequest :: "'w mcp_env \<Rightarrow> BaseClient \<Rightarrow> MCPRequest \<Rightarrow> 'w \<Rightarrow> (error + MCPResponse) \<times> 'w" where
  "sendRequest env c req w =
     (let t = mc_Transport (bc_config c) in
      if t = ''stdio'' then sendStdioRequest env c req w
      else if t = ''sse'' then sendSSERequest env c req w
      else if t = ''http'' then sendHTTPRequest env c req w
      else (Inl (unsupported (bc_config c)), w))"

definition not_connected :: error where "not_connected = ErrorString ''client not connected''"

definition bc_CallTool :: "'w mcp_env \<Rightarrow> BaseClient \<Rightarrow> string \<Rightarrow> gval \<Rightarrow> 'w \<Rightarrow> (error + gval) \<times> 'w" where
  "bc_CallTool env c toolName input w =
     (if \<not> bc_connected c then (Inl not_connected, w)
      else case sendRequest env c \<lparr>rq_Method = ''tools/call'', rq_Params = VMap [(''name'', VStr toolName), (''arguments'', input)]\<rparr> w of
        (Inl err, w1) \<Rightarrow> (Inl err, w1)
      | (Inr resp, w1) \<Rightarrow> (Inr (rs_Result resp), w1))"

definition list_request :: "string \<Rightarrow> MCPRequest" where
  "list_request method = \<lparr>rq_Method = method, rq_Params = VNil\<rparr>"

text \<open>A result that does not decode leaves what was decoded of it; the error is only logged.\<close>

definition bc_ListTools :: "'w mcp_env \<Rightarrow> BaseClient \<Rightarrow> 'w \<Rightarrow> (error + MCPTool list) \<times> BaseClient \<times> 'w" where
  "bc_ListTools env c w =
     (if \<not> bc_connected c then (Inl not_connected, c, w)
      else case sendRequest env c (list_request ''tools/list'') w of
        (Inl err, w1) \<Rightarrow> (Inl err, c, w1)
      | (Inr resp, w1) \<Rightarrow>
          (let tools = me_Tools env (rs_Result resp) in (Inr tools, c\<lparr>bc_info := (bc_info c)\<lparr>si_Tools := tools\<rparr>\<rparr>, w1)))"

definition bc_ListResources :: "'w mcp_env \<Rightarrow> BaseClient \<Rightarrow> 'w \<Rightarrow> (error + MCPResource list) \<times> BaseClient \<times> 'w" where
  "bc_ListResources env c w =
     (if \<not> bc_connected c then (Inl not_connected, c, w)
      else case sendRequest env c (list_request ''resources/list'') w of
        (Inl err, w1) \<Rightarrow> (Inl err, c, w1)
      | (Inr resp, w1) \<Rightarrow>
          (let resources = me_Resources env (rs_Result resp)
           in (Inr resources, c\<lparr>bc_info := (bc_info c)\<lparr>si_Resources := resources\<rparr>\<rparr>, w1)))"

definition bc_HealthCheck :: "'w mcp_env \<Rightarrow> int \<Rightarrow> BaseClient \<Rightarrow> 'w \<Rightarrow> error option \<times> BaseClient \<times> 'w" where
  "bc_HealthCheck env now c w =
     (if \<not> bc_connected c then (Some (ErrorString ''not connected''), c\<lparr>bc_healthy := False\<rparr>, w)
      else case sendRequest env c (list_request ''tools/list'') w of
        (Inl err, w1) \<Rightarrow> (Some err, c\<lparr>bc_healthy := False\<rparr>, w1)
      | (Inr resp, w1) \<Rightarrow> (None, c\<lparr>bc_healthy := True, bc_lastHealthy := now\<rparr>, w1))"

section \<open>The state of a client\<close>

inductive client_step :: "'w mcp_env \<Rightarrow> BaseClient \<Rightarrow> BaseClient \<Rightarrow> bool" for env where
  connect: "bc_Connect env now c w = (e, c', w') \<Longrightarrow> client_step env c c'"
| disconnect: "client_step env c (bc_Disconnect c)"
| list_tools: "bc_ListTools env c w = (r, c', w') \<Longrightarrow> client_step env c c'"
| list_resources: "bc_ListResources env c w = (r', c', w') \<Longrightarrow> client_step env c c'"
| health: "bc_HealthCheck env now c w = (e, c', w') \<Longrightarrow> client_step env c c'"

text \<open>The handle of the client's transport is there.\<close>

definition established :: "BaseClient \<Rightarrow> bool" where
  "established c \<longleftrightarrow>
     (let t = mc_Transport (bc_config c) in t = ''stdio'' \<and> bc_stdio c \<or> (t = ''sse'' \<or> t = ''http'') \<and> bc_http c \<noteq> None)"

definition client_ok :: "MCPServerConfig \<Rightarrow> BaseClient \<Rightarrow> bool" where
  "client_ok config c \<longleftrightarrow> bc_config c = config \<and> si_ID (bc_info c) = mc_ID config \<and>
     (if bc_connected c then established c \<and> si_Status (bc_info c) = ''connected''
      else \<not> bc_healthy c \<and> si_Status (bc_info c) \<in> {''disconnected'', ''error''})"

text \<open>A connection method only sets the handle of its transport, and it does so when it succeeds.\<close>

definition only_handle :: "BaseClient \<Rightarrow> BaseClient \<Rightarrow> bool" where
  "only_handle c c' \<longleftrightarrow> (\<exists>b h. c' = c\<lparr>bc_stdio := b, bc_http := h\<rparr>)"

lemma only_handle_intros: "only_handle c c" "only_handle c (c\<lparr>bc_stdio := b\<rparr>)" "only_handle c (c\<lparr>bc_http := h\<rparr>)"
  by (cases c; fastforce simp: only_handle_def)+

lemma connectStdio_handle: "connectStdio env c w = (e, c', w') \<Longrightarrow> only_handle c c' \<and> (e = None \<longrightarrow> bc_stdio c')"
  by (auto simp: connectStdio_def only_handle_intros split: if_splits prod.splits option.splits)

lemma connectSSE_handle: "connectSSE env c w = (e, c', w') \<Longrightarrow> only_handle c c' \<and> (e = None \<longrightarrow> bc_http c' \<noteq> None)"
  by (auto simp: connectSSE_def only_handle_intros split: if_splits prod.splits option.splits sum.splits)

lemma connectHTTP_handle: "connectHTTP env c w = (e, c', w') \<Longrightarrow> only_handle c c' \<and> (e = None \<longrightarrow> bc_http c' \<noteq> None)"
  by (auto simp: connectHTTP_def Let_def only_handle_intros split: if_splits prod.splits option.splits sum.splits)

lemma connect_by_Some:
  assumes "connect_by env c w = Some (e, c', w')"
  shows "bc_config c' = bc_config c" "bc_info c' = bc_info c" "bc_connected c' = bc_connected c" "bc_healthy c' = bc_healthy c"
    "e = None \<Longrightarrow> established c'"
proof -
  from assms have "only_handle c c' \<and> (e = None \<longrightarrow> established (c'\<lparr>bc_config := bc_config c\<rparr>))"
    by (auto simp: connect_by_def Let_def established_def dest!: connectStdio_handle connectSSE_handle connectHTTP_handle split: if_splits)
  then show "bc_config c' = bc_config c" "bc_info c' = bc_info c" "bc_connected c' = bc_connected c" "bc_healthy c' = bc_healthy c"
    "e = None \<Longrightarrow> established c'"
    by (auto simp: only_handle_def established_def)
qed

lemma client_ok_connect:
  assumes "client_ok config c" and "bc_Connect env now c w = (e, c', w')"
  shows "client_ok config c'"
proof (cases "bc_connected c")
  case False
  show ?thesis
  proof (cases "connect_by env c w")
    case None
    with False assms show ?thesis by (simp add: bc_Connect_def)
  next
    case (Some r)
    obtain e1 c1 w1 where r: "r = (e1, c1, w1)" by (cases r)
    note c1 = connect_by_Some[OF Some[unfolded r]]
    from assms(2) False Some r c1 assms(1) show ?thesis
      by (auto simp: bc_Connect_def client_ok_def established_def split: option.splits)
  qed
qed (use assms in \<open>simp add: bc_Connect_def\<close>)

lemma established_upd [simp]:
  "established (c\<lparr>bc_info := i\<rparr>) = established c" "established (c\<lparr>bc_healthy := h\<rparr>) = established c"
  "established (c\<lparr>bc_lastHealthy := t\<rparr>) = established c" "established (c\<lparr>bc_connected := b\<rparr>) = established c"
  by (simp_all add: established_def)

lemma client_ok_tools: "client_ok config c \<Longrightarrow> client_ok config (c\<lparr>bc_info := (bc_info c)\<lparr>si_Tools := ts\<rparr>\<rparr>)"
  by (auto simp: client_ok_def split: if_splits)

lemma client_ok_resources: "client_ok config c \<Longrightarrow> client_ok config (c\<lparr>bc_info := (bc_info c)\<lparr>si_Resources := rs\<rparr>\<rparr>)"
  by (auto simp: client_ok_def split: if_splits)

lemma client_ok_healthy: "client_ok config c \<Longrightarrow> bc_connected c \<or> \<not> h \<Longrightarrow> client_ok config (c\<lparr>bc_healthy := h, bc_lastHealthy := t\<rparr>)"
  by (auto simp: client_ok_def split: if_splits)

lemma client_ok_unhealthy: "client_ok config c \<Longrightarrow> client_ok config (c\<lparr>bc_healthy := False\<rparr>)"
  by (auto simp: client_ok_def split: if_splits)

lemma client_ok_requests:
  assumes "client_ok config c"
  shows "bc_ListTools env c w = (r, c', w') \<Longrightarrow> client_ok config c'"
    "bc_ListResources env c w = (r', c', w') \<Longrightarrow> client_ok config c'"
    "bc_HealthCheck env now c w = (e, c', w') \<Longrightarrow> client_ok config c'"
  using assms
  by (auto simp: bc_ListTools_def bc_ListResources_def bc_HealthCheck_def Let_def client_ok_tools client_ok_resources client_ok_healthy
      client_ok_unhealthy split: if_splits prod.splits sum.splits)

interpretation client: invariant_system "\<lambda>c. \<exists>now. c = NewBaseClient now config" "client_step env" "client_ok config" for env config
proof
  fix s assume "\<exists>now. s = NewBaseClient now config"
  then show "client_ok config s" by (auto simp: NewBaseClient_def client_ok_def)
next
  fix s t assume "client_step env s t" and ok: "client_ok config s"
  then show "client_ok config t"
  proof cases
    case connect
    then show ?thesis by (rule client_ok_connect[OF ok])
  next
    case disconnect
    then show ?thesis using ok by (auto simp: bc_Disconnect_def client_ok_def split: if_splits)
  qed (blast intro: client_ok_requests[OF ok])+
qed

text \<open>In every state that a client reaches from its creation, whatever the servers answer: when it is connected, its status
  is connected and the handle of its transport is there, so that a request is never refused for a missing connection; when it
  is not connected, it is not healthy, its status is disconnected or error, and tool calls are refused without a request.\<close>

theorem client_reachable_ok:
  assumes "rtranclp (client_step env) (NewBaseClient now config) c"
  shows "(bc_connected c \<longrightarrow> established c \<and> si_Status (bc_info c) = ''connected'') \<and>
    (\<not> bc_connected c \<longrightarrow> \<not> IsHealthy c \<and> si_Status (bc_info c) \<in> {''disconnected'', ''error''} \<and>
       bc_CallTool env c toolName input w = (Inl not_connected, w))"
proof -
  have "client_ok config c" by (rule client.reachable_inv[OF _ assms]) blast
  then show ?thesis by (auto simp: client_ok_def IsHealthy_def bc_CallTool_def split: if_splits)
qed

text \<open>An environment whose servers accept everything and answer with a fixed text and value.\<close>

definition echo_env :: "gval \<Rightarrow> string \<Rightarrow> unit mcp_env" where
  "echo_env result err = \<lparr>me_StdinPipe = (\<lambda>_ w. (None, w)), me_StdoutPipe = (\<lambda>_ w. (None, w)), me_Start = (\<lambda>_ w. (None, w)),
     me_Write = (\<lambda>_ _ w. (None, w)), me_ReadLine = (\<lambda>_ w. (Inr ''line'', w)), me_NewRequest = (\<lambda>_ _. None),
     me_Do = (\<lambda>_ _ _ _ w. (Inr (200, Inr ''body''), w)), me_Marshal = (\<lambda>_. Inr ''request''),
     me_Unmarshal = (\<lambda>_. Inr \<lparr>rs_Result = result, rs_Error = err\<rparr>), me_Tools = (\<lambda>_. []), me_Resources = (\<lambda>_. [])\<rparr>"

definition http_config :: MCPServerConfig where
  "http_config = \<lparr>mc_ID = ''s'', mc_Name = ''server'', mc_Version = '''', mc_Transport = ''http'', mc_Command = '''', mc_Args = [],
     mc_URL = ''http://s'', mc_Env = [], mc_Capabilities = [], mc_Timeout = 10 ^ 9\<rparr>"

theorem client_reachable_ok_witness:
  "\<not> IsHealthy (NewBaseClient 0 http_config) \<and>
   bc_CallTool (echo_env VNil []) (NewBaseClient 0 http_config) ''t'' VNil () = (Inl not_connected, ())"
  using client_reachable_ok[OF rtranclp.rtrancl_refl, of 0 http_config "echo_env VNil []" "''t''" VNil "()"]
  by (simp add: NewBaseClient_def)

text \<open>A connected client is left alone by Connect, healthy or not.\<close>

lemma connect_connected: "bc_connected c \<Longrightarrow> bc_Connect env now c w = (None, c, w)"
  by (simp add: bc_Connect_def)

text \<open>The error of a response is not looked at: a call that the server answers with an error succeeds with its result.\<close>

lemma CallTool_drops_error:
  assumes "bc_connected c"
    and "sendRequest env c \<lparr>rq_Method = ''tools/call'', rq_Params = VMap [(''name'', VStr toolName), (''arguments'', input)]\<rparr> w =
      (Inr \<lparr>rs_Result = VNil, rs_Error = msg\<rparr>, w')"
  shows "bc_CallTool env c toolName input w = (Inr VNil, w')"
  using assms by (simp add: bc_CallTool_def)

end
