(* ===== verification/MCP_Manager.thy ===== *)
theory MCP_Manager
  imports MCP_Client
begin

text \<open>
  The manager of the MCP clients, internal/mcp/client_manager.go, and the adapter that offers their
  tools as skills, internal/mcp/skill_adapter.go. The manager keeps the clients with their
  configurations and a cache of capabilities, and mirrors them in the tenant's database. The
  database (\<open>mcp_db\<close>) is a record of functions of the world; \<open>pick\<close> gives the order of the range
  loop over a map.

  Proved: clients and configurations always have the same keys and every client of the manager is
  connected and marked healthy, so that the periodic health check never does anything; after a
  connection the capabilities are answered from the cache without a request; a failed discovery is
  cached as an empty list for an hour; a connection that cannot be persisted leaves the maps
  unchanged; and a skill id leads to the tool it was made for.
\<close>

section \<open>The database\<close>

record config_row =
  cr_id :: string
  cr_name :: string
  cr_transport :: string
  cr_command :: string
  cr_url :: string
  cr_args :: string
  cr_env :: string
  cr_caps :: string
  cr_timeoutSec :: int

text \<open>
  \<open>dp_Query\<close>: the rows of the query, each scanned or with the error of Scan, and the error at the end
  of the iteration; \<open>dp_unique\<close>: the error is a unique violation; the others are JSON of the columns.
\<close>

record 'w mcp_db =
  dp_pool :: "'w db_pool"
  dp_Query :: "string \<Rightarrow> 'w \<Rightarrow> (error + (error + config_row) list \<times> error option) \<times> 'w"
  dp_unique :: "error \<Rightarrow> bool"
  dp_json :: "gval \<Rightarrow> string"
  dp_list :: "string \<Rightarrow> string list"
  dp_map :: "string \<Rightarrow> (string \<times> string) list"

definition exec_body :: "'w db_pool \<Rightarrow> string \<Rightarrow> gval list \<Rightarrow> 'w \<Rightarrow> error option go \<times> 'w" where
  "exec_body p q args w = (case db_Exec p q args w of (e, w') \<Rightarrow> (Ret e, w'))"

definition upsert_sql :: string where
  "upsert_sql = ''INSERT INTO mcp_configs (id, name, transport, command, url, args, env, capabilities, timeout_sec, enabled, updated_at) '' @
     ''VALUES ($1, $2, $3, $4, $5, $6, $7, $8, $9, true, NOW()) ON CONFLICT (id) DO UPDATE SET name=$2, transport=$3, command=$4, url=$5, '' @
     ''args=$6, env=$7, capabilities=$8, timeout_sec=$9, enabled=true, updated_at=NOW()''"

definition disable_sql :: string where
  "disable_sql = ''UPDATE mcp_configs SET enabled=false WHERE id=$1''"

definition select_sql :: string where
  "select_sql = ''SELECT id, name, transport, command, url, args, env, capabilities, timeout_sec FROM mcp_configs WHERE enabled = true''"

definition ErrNameConflict :: error where
  "ErrNameConflict = ErrorString ''mcp server name already exists''"

definition name_conflict :: "MCPServerConfig \<Rightarrow> error" where
  "name_conflict cfg = WrappedBy ErrNameConflict (''mcp server name '' @ quoted (mc_Name cfg))"

definition timeout_sec :: "int \<Rightarrow> int" where
  "timeout_sec timeout = (if timeout div 10 ^ 9 \<le> 0 then 30 else timeout div 10 ^ 9)"

definition persistConnect :: "tenant_ctx \<Rightarrow> 'w mcp_db option \<Rightarrow> MCPServerConfig \<Rightarrow> 'w \<Rightarrow> error option go \<times> 'w" where
  "persistConnect ctx pool cfg w =
     (case pool of
        None \<Rightarrow> (Ret None, w)
      | Some db \<Rightarrow>
          (case ExecTenant ctx (dp_pool db)
                  (exec_body (dp_pool db) upsert_sql
                     [VStr (mc_ID cfg), VStr (mc_Name cfg), VStr (mc_Transport cfg), VStr (mc_Command cfg), VStr (mc_URL cfg),
                      VStr (dp_json db (VList (map VStr (mc_Args cfg)))),
                      VStr (dp_json db (VMap (map (\<lambda>(k, v). (k, VStr v)) (mc_Env cfg)))),
                      VStr (dp_json db (VList (map VStr (mc_Capabilities cfg)))), VInt (timeout_sec (mc_Timeout cfg))]) w of
             (Ret (Some err), w') \<Rightarrow>
               (Ret (Some (if dp_unique db err then name_conflict cfg else Wrapped (''persist mcp config '' @ mc_ID cfg) err)), w')
           | (r, w') \<Rightarrow> (r, w')))"

definition persistDisconnect :: "tenant_ctx \<Rightarrow> 'w mcp_db option \<Rightarrow> string \<Rightarrow> 'w \<Rightarrow> 'w" where
  "persistDisconnect ctx pool serverID w =
     (case pool of
        None \<Rightarrow> w
      | Some db \<Rightarrow> snd (ExecTenant ctx (dp_pool db) (exec_body (dp_pool db) disable_sql [VStr serverID]) w))"

section \<open>The manager\<close>

record 'w ClientManager =
  cm_clients :: "string \<rightharpoonup> BaseClient"
  cm_configs :: "string \<rightharpoonup> MCPServerConfig"
  cm_cache :: CapabilityCache
  cm_stopped :: bool
  cm_pool :: "'w mcp_db option"

definition NewClientManager :: "'w mcp_db option \<Rightarrow> 'w ClientManager" where
  "NewClientManager pool =
     \<lparr>cm_clients = Map.empty, cm_configs = Map.empty, cm_cache = NewCapabilityCache 1000 (3600 * 10 ^ 9), cm_stopped = False, cm_pool = pool\<rparr>"

type_synonym cache_pick = "(string \<rightharpoonup> CacheEntry) \<Rightarrow> string list"

definition or_nil :: "error + 'a list \<Rightarrow> 'a list" where
  "or_nil r = (case r of Inl e \<Rightarrow> [] | Inr xs \<Rightarrow> xs)"

definition cm_Connect ::
  "'w mcp_env \<Rightarrow> tenant_ctx \<Rightarrow> cache_pick \<Rightarrow> int \<Rightarrow> MCPServerConfig \<Rightarrow> 'w ClientManager \<Rightarrow> 'w \<Rightarrow> error option go \<times> 'w ClientManager \<times> 'w" where
  "cm_Connect env ctx pick now config m w =
     (if cm_clients m (mc_ID config) \<noteq> None
      then (Ret (Some (ErrorString (''client already connected: '' @ mc_ID config))), m, w)
      else case bc_Connect env now (NewBaseClient now config) w of
        (Some err, c1, w1) \<Rightarrow> (Ret (Some err), m, w1)
      | (None, c1, w1) \<Rightarrow>
          (case bc_ListTools env c1 w1 of (tools, c2, w2) \<Rightarrow>
           case bc_ListResources env c2 w2 of (resources, c3, w3) \<Rightarrow>
             let m1 = m\<lparr>cm_cache := Store (pick (cc_entries (cm_cache m))) now (mc_ID config) (or_nil tools) (or_nil resources) (cm_cache m)\<rparr>
             in case persistConnect ctx (cm_pool m) config w3 of
                  (Ret (Some err), w4) \<Rightarrow> (Ret (Some err), m1\<lparr>cm_cache := cache_Delete (mc_ID config) (cm_cache m1)\<rparr>, w4)
                | (Ret None, w4) \<Rightarrow>
                    (Ret None, m1\<lparr>cm_clients := (cm_clients m1)(mc_ID config \<mapsto> c3), cm_configs := (cm_configs m1)(mc_ID config \<mapsto> config)\<rparr>, w4)
                | (r, w4) \<Rightarrow> (r, m1, w4)))"

definition cm_Disconnect :: "tenant_ctx \<Rightarrow> string \<Rightarrow> 'w ClientManager \<Rightarrow> 'w \<Rightarrow> error option \<times> 'w ClientManager \<times> 'w" where
  "cm_Disconnect ctx serverID m w =
     (case cm_clients m serverID of
        None \<Rightarrow> (Some (ErrorString (''client not found: '' @ serverID)), m, w)
      | Some client \<Rightarrow>
          (None, m\<lparr>cm_clients := (cm_clients m)(serverID := None), cm_configs := (cm_configs m)(serverID := None),
                   cm_cache := cache_Delete serverID (cm_cache m)\<rparr>, persistDisconnect ctx (cm_pool m) serverID w))"

definition GetClient :: "string \<Rightarrow> 'w ClientManager \<Rightarrow> BaseClient option" where
  "GetClient serverID m = cm_clients m serverID"

definition cm_CallTool :: "'w mcp_env \<Rightarrow> string \<Rightarrow> string \<Rightarrow> gval \<Rightarrow> 'w ClientManager \<Rightarrow> 'w \<Rightarrow> (error + gval) \<times> 'w" where
  "cm_CallTool env serverID toolName input m w =
     (case GetClient serverID m of
        None \<Rightarrow> (Inl (ErrorString (''client not found: '' @ serverID)), w)
      | Some c \<Rightarrow> bc_CallTool env c toolName input w)"

definition cm_ListTools ::
  "'w mcp_env \<Rightarrow> cache_pick \<Rightarrow> int \<Rightarrow> string \<Rightarrow> 'w ClientManager \<Rightarrow> 'w \<Rightarrow> (error + MCPTool list) \<times> 'w ClientManager \<times> 'w" where
  "cm_ListTools env pick now serverID m w =
     (case GetTools now serverID (cm_cache m) of
        Some tools \<Rightarrow> (Inr tools, m, w)
      | None \<Rightarrow>
          (case GetClient serverID m of
             None \<Rightarrow> (Inl (ErrorString (''client not found: '' @ serverID)), m, w)
           | Some c \<Rightarrow>
               (case bc_ListTools env c w of
                  (Inl err, c', w') \<Rightarrow> (Inl err, m\<lparr>cm_clients := (cm_clients m)(serverID \<mapsto> c')\<rparr>, w')
                | (Inr tools, c', w') \<Rightarrow>
                    (Inr tools, m\<lparr>cm_clients := (cm_clients m)(serverID \<mapsto> c'),
                        cm_cache := StoreTools (pick (cc_entries (cm_cache m))) now serverID tools (cm_cache m)\<rparr>, w'))))"

definition cm_ListResources ::
  "'w mcp_env \<Rightarrow> cache_pick \<Rightarrow> int \<Rightarrow> string \<Rightarrow> 'w ClientManager \<Rightarrow> 'w \<Rightarrow> (error + MCPResource list) \<times> 'w ClientManager \<times> 'w" where
  "cm_ListResources env pick now serverID m w =
     (case GetResources now serverID (cm_cache m) of
        Some resources \<Rightarrow> (Inr resources, m, w)
      | None \<Rightarrow>
          (case GetClient serverID m of
             None \<Rightarrow> (Inl (ErrorString (''client not found: '' @ serverID)), m, w)
           | Some c \<Rightarrow>
               (case bc_ListResources env c w of
                  (Inl err, c', w') \<Rightarrow> (Inl err, m\<lparr>cm_clients := (cm_clients m)(serverID \<mapsto> c')\<rparr>, w')
                | (Inr resources, c', w') \<Rightarrow>
                    (Inr resources, m\<lparr>cm_clients := (cm_clients m)(serverID \<mapsto> c'),
                        cm_cache := StoreResources (pick (cc_entries (cm_cache m))) now serverID resources (cm_cache m)\<rparr>, w'))))"

text \<open>One tick of the health check: the loop over the clients, in the order of the list.\<close>

fun performHealthCheck :: "'w mcp_env \<Rightarrow> int \<Rightarrow> string list \<Rightarrow> 'w ClientManager \<Rightarrow> 'w \<Rightarrow> 'w ClientManager \<times> 'w" where
  "performHealthCheck env now [] m w = (m, w)"
| "performHealthCheck env now (i # is) m w =
     (case cm_clients m i of
        None \<Rightarrow> performHealthCheck env now is m w
      | Some c \<Rightarrow>
          (if IsHealthy c \<or> cm_configs m i = None then performHealthCheck env now is m w
           else case bc_Connect env now c w of (e, c', w') \<Rightarrow>
             performHealthCheck env now is (m\<lparr>cm_clients := (cm_clients m)(i \<mapsto> c')\<rparr>) w'))"

text \<open>Stop closes the channel stopCh, which panics when it is closed already.\<close>

definition cm_Stop :: "'w ClientManager \<Rightarrow> 'w ClientManager go" where
  "cm_Stop m =
     (if cm_stopped m then Panic ''close of closed channel''
      else Ret (m\<lparr>cm_stopped := True, cm_clients := Map.empty, cm_configs := Map.empty\<rparr>))"

definition GetServerInfo :: "string \<Rightarrow> 'w ClientManager \<Rightarrow> MCPServerInfo option" where
  "GetServerInfo serverID m = map_option bc_info (GetClient serverID m)"

definition GetAllServerInfo :: "string list \<Rightarrow> 'w ClientManager \<Rightarrow> MCPServerInfo list" where
  "GetAllServerInfo order m = List.map_filter (\<lambda>i. GetServerInfo i m) order"

section \<open>Restoring the connections\<close>

text \<open>The pool on a world that carries a captured variable of the body.\<close>

definition carry :: "('w \<Rightarrow> 'e \<times> 'w) \<Rightarrow> 'w \<times> 'v \<Rightarrow> 'e \<times> 'w \<times> 'v" where
  "carry f s = (case f (fst s) of (e, w') \<Rightarrow> (e, w', snd s))"

definition lift_pool :: "'w db_pool \<Rightarrow> ('w \<times> 'v) db_pool" where
  "lift_pool p = \<lparr>db_Begin = carry (db_Begin p), db_Exec = (\<lambda>q args. carry (db_Exec p q args)),
     db_Rollback = (\<lambda>s. (db_Rollback p (fst s), snd s)), db_Commit = carry (db_Commit p)\<rparr>"

fun scan_rows :: "(error + config_row) list \<Rightarrow> error option \<Rightarrow> config_row list \<Rightarrow> error option \<times> config_row list" where
  "scan_rows [] fin acc = (fin, acc)"
| "scan_rows (Inl err # rs) fin acc = (Some (Wrapped ''restore mcp_configs scan'' err), acc)"
| "scan_rows (Inr r # rs) fin acc = scan_rows rs fin (acc @ [r])"

definition read_rows :: "'w mcp_db \<Rightarrow> 'w \<times> config_row list \<Rightarrow> error option go \<times> 'w \<times> config_row list" where
  "read_rows db s =
     (case dp_Query db select_sql (fst s) of
        (Inl err, w') \<Rightarrow> (Ret (Some (Wrapped ''restore mcp_configs query'' err)), w', snd s)
      | (Inr (rows, fin), w') \<Rightarrow> (case scan_rows rows fin (snd s) of (e, acc) \<Rightarrow> (Ret e, w', acc)))"

definition row_config :: "'w mcp_db \<Rightarrow> config_row \<Rightarrow> MCPServerConfig" where
  "row_config db r =
     \<lparr>mc_ID = cr_id r, mc_Name = cr_name r, mc_Version = '''', mc_Transport = cr_transport r, mc_Command = cr_command r,
      mc_Args = dp_list db (cr_args r), mc_URL = cr_url r, mc_Env = dp_map db (cr_env r), mc_Capabilities = dp_list db (cr_caps r),
      mc_Timeout = cr_timeoutSec r * 10 ^ 9\<rparr>"

text \<open>The errors of the connections are only logged.\<close>

fun restore_loop ::
  "'w mcp_env \<Rightarrow> tenant_ctx \<Rightarrow> cache_pick \<Rightarrow> int \<Rightarrow> MCPServerConfig list \<Rightarrow> 'w ClientManager \<Rightarrow> 'w \<Rightarrow> error option go \<times> 'w ClientManager \<times> 'w" where
  "restore_loop env ctx pick now [] m w = (Ret None, m, w)"
| "restore_loop env ctx pick now (cfg # cfgs) m w =
     (case cm_Connect env ctx pick now cfg m w of
        (Ret e, m', w') \<Rightarrow> restore_loop env ctx pick now cfgs m' w'
      | (r, m', w') \<Rightarrow> (r, m', w'))"

definition RestoreFromDB ::
  "'w mcp_env \<Rightarrow> tenant_ctx \<Rightarrow> cache_pick \<Rightarrow> int \<Rightarrow> 'w ClientManager \<Rightarrow> 'w \<Rightarrow> error option go \<times> 'w ClientManager \<times> 'w" where
  "RestoreFromDB env ctx pick now m w =
     (case cm_pool m of
        None \<Rightarrow> (Ret None, m, w)
      | Some db \<Rightarrow>
          (case ExecTenant ctx (lift_pool (dp_pool db)) (read_rows db) (w, []) of
             (Ret (Some err), w', rows) \<Rightarrow> (Ret (Some (Wrapped ''RestoreFromDB'' err)), m, w')
           | (Ret None, w', rows) \<Rightarrow> restore_loop env ctx pick now (map (row_config db) rows) m w'
           | (r, w', rows) \<Rightarrow> (r, m, w')))"

section \<open>The invariant of the manager\<close>

inductive mgr_step :: "'w mcp_env \<Rightarrow> 'w ClientManager \<Rightarrow> 'w ClientManager \<Rightarrow> bool" for env where
  connect: "cm_Connect env ctx pick now config m w = (r, m', w') \<Longrightarrow> mgr_step env m m'"
| disconnect: "cm_Disconnect ctx i m w = (e, m', w') \<Longrightarrow> mgr_step env m m'"
| tools: "cm_ListTools env pick now i m w = (ts, m', w') \<Longrightarrow> mgr_step env m m'"
| resources: "cm_ListResources env pick now i m w = (rs, m', w') \<Longrightarrow> mgr_step env m m'"
| health: "performHealthCheck env now order m w = (m', w') \<Longrightarrow> mgr_step env m m'"
| restore: "RestoreFromDB env ctx pick now m w = (r, m', w') \<Longrightarrow> mgr_step env m m'"
| stop: "cm_Stop m = Ret m' \<Longrightarrow> mgr_step env m m'"

definition managed_ok :: "string \<Rightarrow> MCPServerConfig \<Rightarrow> BaseClient \<Rightarrow> bool" where
  "managed_ok i config c \<longleftrightarrow> mc_ID config = i \<and> client_ok config c \<and> bc_connected c \<and> bc_healthy c"

fun pair_ok :: "string \<Rightarrow> BaseClient option \<Rightarrow> MCPServerConfig option \<Rightarrow> bool" where
  "pair_ok i None None = True"
| "pair_ok i (Some c) (Some config) = managed_ok i config c"
| "pair_ok i _ _ = False"

definition mgr_ok :: "'w ClientManager \<Rightarrow> bool" where
  "mgr_ok m \<longleftrightarrow> (\<forall>i. pair_ok i (cm_clients m i) (cm_configs m i))"

lemma pair_ok_Some: "pair_ok i (Some c) x \<longleftrightarrow> (\<exists>config. x = Some config \<and> managed_ok i config c)"
  by (cases x) auto

lemma mgr_okD: "mgr_ok m \<Longrightarrow> cm_clients m i = Some c \<Longrightarrow> \<exists>config. cm_configs m i = Some config \<and> managed_ok i config c"
  by (metis mgr_ok_def pair_ok_Some)

lemma mgr_ok_cache [simp]: "mgr_ok (m\<lparr>cm_cache := c\<rparr>) = mgr_ok m"
  by (simp add: mgr_ok_def)

lemma mgr_ok_add:
  "mgr_ok m \<Longrightarrow> managed_ok i config c \<Longrightarrow> mgr_ok (m\<lparr>cm_clients := (cm_clients m)(i \<mapsto> c), cm_configs := (cm_configs m)(i \<mapsto> config)\<rparr>)"
  by (simp add: mgr_ok_def)

lemma mgr_ok_del: "mgr_ok m \<Longrightarrow> mgr_ok (m\<lparr>cm_clients := (cm_clients m)(i := None), cm_configs := (cm_configs m)(i := None)\<rparr>)"
  by (simp add: mgr_ok_def)

lemma mgr_ok_client:
  assumes "mgr_ok m" and "cm_clients m i = Some c" and "\<And>config. managed_ok i config c \<Longrightarrow> managed_ok i config c'"
  shows "mgr_ok (m\<lparr>cm_clients := (cm_clients m)(i \<mapsto> c')\<rparr>)"
  using assms mgr_okD[OF assms(1,2)] by (auto simp: mgr_ok_def)

lemma connect_healthy:
  "bc_Connect env now c w = (None, c', w') \<Longrightarrow> bc_connected c \<and> bc_healthy c \<or> \<not> bc_connected c \<Longrightarrow> bc_connected c' \<and> bc_healthy c'"
  by (auto simp: bc_Connect_def split: if_splits option.splits prod.splits)

lemma list_keeps:
  "bc_ListTools env c w = (r, c', w') \<Longrightarrow> bc_connected c' = bc_connected c \<and> bc_healthy c' = bc_healthy c"
  "bc_ListResources env c w = (r', c', w') \<Longrightarrow> bc_connected c' = bc_connected c \<and> bc_healthy c' = bc_healthy c"
  by (auto simp: bc_ListTools_def bc_ListResources_def Let_def split: if_splits prod.splits sum.splits)

lemma managed_list:
  assumes "managed_ok i config c"
  shows "bc_ListTools env c w = (r, c', w') \<Longrightarrow> managed_ok i config c'"
    and "bc_ListResources env c w = (r', c', w') \<Longrightarrow> managed_ok i config c'"
  using assms client_ok_requests list_keeps unfolding managed_ok_def by metis+

lemma new_client_ok: "client_ok config (NewBaseClient now config)"
  by (simp add: NewBaseClient_def client_ok_def)

lemma mgr_ok_connect:
  assumes "mgr_ok m" and "cm_Connect env ctx pick now config m w = (r, m', w')"
  shows "mgr_ok m' \<and> cm_pool m' = cm_pool m"
proof (cases "cm_clients m (mc_ID config)")
  case None
  obtain e c1 w1 where c1: "bc_Connect env now (NewBaseClient now config) w = (e, c1, w1)" by (cases "bc_Connect env now (NewBaseClient now config) w")
  show ?thesis
  proof (cases e)
    case (Some err)
    with assms None c1 show ?thesis by (auto simp: cm_Connect_def)
  next
    case e: None
    obtain tools c2 w2 where c2: "bc_ListTools env c1 w1 = (tools, c2, w2)" by (cases "bc_ListTools env c1 w1")
    obtain resources c3 w3 where c3: "bc_ListResources env c2 w2 = (resources, c3, w3)" by (cases "bc_ListResources env c2 w2")
    have "managed_ok (mc_ID config) config c1"
      using client_ok_connect[OF new_client_ok c1] connect_healthy[OF c1[unfolded e]] by (simp add: managed_ok_def NewBaseClient_def)
    then have "managed_ok (mc_ID config) config c3" by (rule managed_list(2)[OF managed_list(1)[OF _ c2] c3])
    then have ok: "mgr_ok (m\<lparr>cm_clients := (cm_clients m)(mc_ID config \<mapsto> c3), cm_configs := (cm_configs m)(mc_ID config \<mapsto> config)\<rparr>)"
      using assms(1) by (rule mgr_ok_add[rotated])
    have "mgr_ok (m\<lparr>cm_cache := cc, cm_clients := (cm_clients m)(mc_ID config \<mapsto> c3), cm_configs := (cm_configs m)(mc_ID config \<mapsto> config)\<rparr>)" for cc
      using ok by (simp add: mgr_ok_def)
    then show ?thesis using assms None c1 e c2 c3
      by (auto simp: cm_Connect_def Let_def split: prod.splits go.splits option.splits)
  qed
qed (use assms in \<open>auto simp: cm_Connect_def\<close>)

lemma health_idle: "mgr_ok m \<Longrightarrow> performHealthCheck env now order m w = (m, w)"
  by (induction order) (auto simp: managed_ok_def IsHealthy_def split: option.split dest!: mgr_okD)

lemma mgr_ok_restore_loop: "mgr_ok m \<Longrightarrow> restore_loop env ctx pick now cfgs m w = (r, m', w') \<Longrightarrow> mgr_ok m'"
proof (induction cfgs arbitrary: m w)
  case (Cons cfg cfgs)
  obtain r1 m1 w1 where c: "cm_Connect env ctx pick now cfg m w = (r1, m1, w1)" by (cases "cm_Connect env ctx pick now cfg m w")
  then have "mgr_ok m1" using mgr_ok_connect[OF Cons.prems(1) c] by blast
  with Cons c show ?case by (cases r1) auto
qed simp

lemma mgr_ok_ListTools:
  assumes "mgr_ok m" and "cm_ListTools env pick now i m w = (ts, m', w')"
  shows "mgr_ok m'"
proof (cases "GetTools now i (cm_cache m) = None \<and> cm_clients m i \<noteq> None")
  case True
  then obtain c where c: "cm_clients m i = Some c" by blast
  obtain r c' w1 where l: "bc_ListTools env c w = (r, c', w1)" by (cases "bc_ListTools env c w")
  have "mgr_ok (m\<lparr>cm_clients := (cm_clients m)(i \<mapsto> c')\<rparr>)"
    by (rule mgr_ok_client[OF assms(1) c]) (rule managed_list(1)[OF _ l])
  then have "mgr_ok (m\<lparr>cm_clients := (cm_clients m)(i \<mapsto> c'), cm_cache := cc\<rparr>)" for cc by (simp add: mgr_ok_def)
  with \<open>mgr_ok (m\<lparr>cm_clients := (cm_clients m)(i \<mapsto> c')\<rparr>)\<close> True c l assms(2) show ?thesis
    by (auto simp: cm_ListTools_def GetClient_def split: sum.splits)
qed (use assms in \<open>auto simp: cm_ListTools_def GetClient_def split: option.splits\<close>)

lemma mgr_ok_ListResources:
  assumes "mgr_ok m" and "cm_ListResources env pick now i m w = (rs, m', w')"
  shows "mgr_ok m'"
proof (cases "GetResources now i (cm_cache m) = None \<and> cm_clients m i \<noteq> None")
  case True
  then obtain c where c: "cm_clients m i = Some c" by blast
  obtain r c' w1 where l: "bc_ListResources env c w = (r, c', w1)" by (cases "bc_ListResources env c w")
  have "mgr_ok (m\<lparr>cm_clients := (cm_clients m)(i \<mapsto> c')\<rparr>)"
    by (rule mgr_ok_client[OF assms(1) c]) (rule managed_list(2)[OF _ l])
  then have "mgr_ok (m\<lparr>cm_clients := (cm_clients m)(i \<mapsto> c'), cm_cache := cc\<rparr>)" for cc by (simp add: mgr_ok_def)
  with \<open>mgr_ok (m\<lparr>cm_clients := (cm_clients m)(i \<mapsto> c')\<rparr>)\<close> True c l assms(2) show ?thesis
    by (auto simp: cm_ListResources_def GetClient_def split: sum.splits)
qed (use assms in \<open>auto simp: cm_ListResources_def GetClient_def split: option.splits\<close>)

lemma mgr_ok_Disconnect: "mgr_ok m \<Longrightarrow> cm_Disconnect ctx i m w = (e, m', w') \<Longrightarrow> mgr_ok m'"
  by (auto simp: cm_Disconnect_def mgr_ok_def split: option.splits)

lemma mgr_ok_Stop: "cm_Stop m = Ret m' \<Longrightarrow> mgr_ok m'"
  by (auto simp: cm_Stop_def mgr_ok_def split: if_splits)

lemma mgr_ok_restore: "mgr_ok m \<Longrightarrow> RestoreFromDB env ctx pick now m w = (r, m', w') \<Longrightarrow> mgr_ok m'"
  by (auto simp: RestoreFromDB_def split: option.splits prod.splits go.splits intro: mgr_ok_restore_loop)

interpretation manager: invariant_system "\<lambda>m. \<exists>pool. m = NewClientManager pool" "mgr_step env" mgr_ok for env
proof
  fix s :: "'a ClientManager" assume "\<exists>pool. s = NewClientManager pool"
  then show "mgr_ok s" by (auto simp: NewClientManager_def mgr_ok_def)
next
  fix s t assume "mgr_step env s t" and ok: "mgr_ok s"
  then show "mgr_ok t"
  proof cases
    case connect
    then show ?thesis using mgr_ok_connect[OF ok] by simp
  next
    case health
    then show ?thesis using ok by (simp add: health_idle)
  next
    case disconnect
    then show ?thesis by (rule mgr_ok_Disconnect[OF ok])
  next
    case tools
    then show ?thesis by (rule mgr_ok_ListTools[OF ok])
  next
    case resources
    then show ?thesis by (rule mgr_ok_ListResources[OF ok])
  next
    case restore
    then show ?thesis by (rule mgr_ok_restore[OF ok])
  next
    case stop
    then show ?thesis by (rule mgr_ok_Stop)
  qed
qed

text \<open>C22: Whatever the servers and the database answer, in every reachable state of the manager the clients and the
  configurations have the same keys, and every client is connected, marked healthy, and belongs to the configuration with its
  key. Hence the periodic health check, which reconnects clients that are not healthy, never does anything.\<close>

theorem manager_invariant:
  assumes "rtranclp (mgr_step env) (NewClientManager pool) m"
  shows "dom (cm_clients m) = dom (cm_configs m) \<and>
    (\<forall>i c. cm_clients m i = Some c \<longrightarrow> bc_connected c \<and> IsHealthy c \<and> established c \<and> cm_configs m i = Some (bc_config c) \<and> mc_ID (bc_config c) = i) \<and>
    performHealthCheck env now order m w = (m, w)"
proof -
  have ok: "mgr_ok m" by (rule manager.reachable_inv[OF _ assms]) blast
  have "dom (cm_clients m) = dom (cm_configs m)"
  proof (rule set_eqI)
    fix i have "pair_ok i (cm_clients m i) (cm_configs m i)" using ok by (simp add: mgr_ok_def)
    then show "i \<in> dom (cm_clients m) \<longleftrightarrow> i \<in> dom (cm_configs m)"
      by (cases "cm_clients m i"; cases "cm_configs m i") auto
  qed
  moreover have "bc_connected c \<and> IsHealthy c \<and> established c \<and> cm_configs m i = Some (bc_config c) \<and> mc_ID (bc_config c) = i"
    if "cm_clients m i = Some c" for i c
    using mgr_okD[OF ok that] by (auto simp: managed_ok_def client_ok_def IsHealthy_def)
  ultimately show ?thesis using ok by (simp add: health_idle)
qed

definition demo_manager :: "unit ClientManager" where
  "demo_manager = fst (snd (cm_Connect (echo_env VNil '''') None (\<lambda>m. []) 0 http_config (NewClientManager None) ()))"

lemma demo_connects: "cm_Connect (echo_env VNil '''') None (\<lambda>m. []) 0 http_config (NewClientManager None) () = (Ret None, demo_manager, ())"
  by (simp add: demo_manager_def cm_Connect_def NewClientManager_def persistConnect_def bc_Connect_def NewBaseClient_def connect_by_def
      connectHTTP_def http_config_def echo_env_def Let_def split: prod.split)

theorem manager_invariant_witness:
  "dom (cm_clients demo_manager) = dom (cm_configs demo_manager) \<and>
   (\<exists>c. cm_clients demo_manager ''s'' = Some c \<and> IsHealthy c \<and> established c \<and> cm_configs demo_manager ''s'' = Some (bc_config c)) \<and>
   performHealthCheck (echo_env VNil '''') 1 [''s''] demo_manager () = (demo_manager, ())"
proof -
  have "mgr_step (echo_env VNil '''') (NewClientManager None) demo_manager" by (rule mgr_step.connect[OF demo_connects])
  then have "rtranclp (mgr_step (echo_env VNil '''')) (NewClientManager None) demo_manager" by (rule r_into_rtranclp)
  note inv = manager_invariant[OF this, of 1 "[''s'']" "()"]
  have "cm_clients demo_manager ''s'' \<noteq> None"
    by (simp add: demo_manager_def cm_Connect_def NewClientManager_def persistConnect_def bc_Connect_def NewBaseClient_def connect_by_def
        connectHTTP_def http_config_def echo_env_def Let_def split: prod.split)
  with inv show ?thesis by blast
qed

section \<open>Connecting\<close>

lemma cm_Connect_success:
  assumes "cm_Connect env ctx pick now config m w = (Ret None, m', w')"
  obtains c1 w1 c2 w2 c3 w3 tools resources where
    "bc_Connect env now (NewBaseClient now config) w = (None, c1, w1)" "bc_ListTools env c1 w1 = (tools, c2, w2)"
    "bc_ListResources env c2 w2 = (resources, c3, w3)"
    "m' = m\<lparr>cm_cache := Store (pick (cc_entries (cm_cache m))) now (mc_ID config) (or_nil tools) (or_nil resources) (cm_cache m),
       cm_clients := (cm_clients m)(mc_ID config \<mapsto> c3), cm_configs := (cm_configs m)(mc_ID config \<mapsto> config)\<rparr>"
  using assms by (auto simp: cm_Connect_def Let_def split: if_splits prod.splits go.splits option.splits)

text \<open>After a successful Connect the client is there, and until the time to live has passed a listing of its tools is
  answered from the cache without any request. The answer is what the discovery during Connect returned, and the empty list
  when that discovery failed: the failure is remembered as an answer.\<close>

theorem connect_caches_tools:
  assumes "cm_Connect env ctx pick now config m w = (Ret None, m', w')" and "t \<le> now + cc_ttl (cm_cache m)"
  shows "\<exists>c1 w1. bc_Connect env now (NewBaseClient now config) w = (None, c1, w1) \<and> GetClient (mc_ID config) m' \<noteq> None \<and>
    cm_ListTools env pick' t (mc_ID config) m' v =
      (Inr (case fst (bc_ListTools env c1 w1) of Inl err \<Rightarrow> [] | Inr tools \<Rightarrow> tools), m', v)"
proof -
  from assms(1) obtain c1 w1 c2 w2 c3 w3 tools resources where c: "bc_Connect env now (NewBaseClient now config) w = (None, c1, w1)"
    "bc_ListTools env c1 w1 = (tools, c2, w2)"
    and m': "m' = m\<lparr>cm_cache := Store (pick (cc_entries (cm_cache m))) now (mc_ID config) (or_nil tools) (or_nil resources) (cm_cache m),
       cm_clients := (cm_clients m)(mc_ID config \<mapsto> c3), cm_configs := (cm_configs m)(mc_ID config \<mapsto> config)\<rparr>"
    by (rule cm_Connect_success) blast
  have "GetTools t (mc_ID config) (cm_cache m') = Some (or_nil tools)"
    using assms(2) by (simp add: m' GetTools_def Store_def Let_def)
  then show ?thesis using c by (simp add: m' cm_ListTools_def GetClient_def or_nil_def)
qed

theorem connect_caches_tools_witness:
  "\<exists>c1 w1. bc_Connect (echo_env VNil '''') 0 (NewBaseClient 0 http_config) () = (None, c1, w1) \<and> GetClient (mc_ID http_config) demo_manager \<noteq> None \<and>
    cm_ListTools (echo_env VNil '''') (\<lambda>m. []) 60 (mc_ID http_config) demo_manager () =
      (Inr (case fst (bc_ListTools (echo_env VNil '''') c1 w1) of Inl err \<Rightarrow> [] | Inr tools \<Rightarrow> tools), demo_manager, ())"
  by (rule connect_caches_tools[OF demo_connects]) (simp add: NewClientManager_def NewCapabilityCache_def)

text \<open>A Connect that fails leaves clients and configurations as they were; the entry of the server is not in the cache or is
  the old one.\<close>

lemma connect_failure_clean:
  assumes "cm_Connect env ctx pick now config m w = (Ret (Some err), m', w')"
  shows "cm_clients m' = cm_clients m \<and> cm_configs m' = cm_configs m \<and>
    (cm_cache m' = cm_cache m \<or> cc_entries (cm_cache m') (mc_ID config) = None)"
  using assms by (auto simp: cm_Connect_def Let_def cache_Delete_def split: if_splits prod.splits go.splits option.splits)

lemma manager_stop_twice_panics: "cm_Stop m = Ret m' \<Longrightarrow> cm_Stop m' = Panic ''close of closed channel''"
  by (auto simp: cm_Stop_def split: if_splits)

section \<open>Tools as skills\<close>

record MCPSkillWrapper =
  sw_ID :: string
  sw_Name :: string
  sw_Description :: string
  sw_Type :: string
  sw_Tool :: MCPTool
  sw_ServerID :: string

record MCPSkillAdapter =
  sa_serverID :: string
  sa_skills :: "string \<rightharpoonup> MCPSkillWrapper"

record MCPSkillRegistry =
  sr_adapters :: "string \<rightharpoonup> MCPSkillAdapter"

definition skill_id :: "string \<Rightarrow> string \<Rightarrow> string" where
  "skill_id serverID name = ''mcp:'' @ serverID @ '':'' @ name"

definition wrap_tool :: "string \<Rightarrow> MCPTool \<Rightarrow> MCPSkillWrapper" where
  "wrap_tool serverID tool =
     \<lparr>sw_ID = skill_id serverID (mt_Name tool), sw_Name = mt_Name tool, sw_Description = mt_Description tool, sw_Type = ''mcp'',
      sw_Tool = tool, sw_ServerID = serverID\<rparr>"

definition wrapper_Execute :: "'w mcp_env \<Rightarrow> MCPSkillWrapper \<Rightarrow> gval \<Rightarrow> 'w ClientManager \<Rightarrow> 'w \<Rightarrow> (error + gval) \<times> 'w" where
  "wrapper_Execute env s input m w = cm_CallTool env (sw_ServerID s) (mt_Name (sw_Tool s)) input m w"

definition NewMCPSkillAdapter :: "string \<Rightarrow> MCPSkillAdapter" where
  "NewMCPSkillAdapter serverID = \<lparr>sa_serverID = serverID, sa_skills = Map.empty\<rparr>"

definition DiscoverSkills ::
  "'w mcp_env \<Rightarrow> cache_pick \<Rightarrow> int \<Rightarrow> MCPSkillAdapter \<Rightarrow> 'w ClientManager \<Rightarrow> 'w
     \<Rightarrow> (error + MCPSkillWrapper list) \<times> MCPSkillAdapter \<times> 'w ClientManager \<times> 'w" where
  "DiscoverSkills env pick now a m w =
     (case cm_ListTools env pick now (sa_serverID a) m w of
        (Inl err, m', w') \<Rightarrow> (Inl err, a, m', w')
      | (Inr tools, m', w') \<Rightarrow>
          (let skills = map (wrap_tool (sa_serverID a)) tools
           in (Inr skills, a\<lparr>sa_skills := foldl (\<lambda>sk s. sk(sw_ID s \<mapsto> s)) (sa_skills a) skills\<rparr>, m', w')))"

definition adapter_GetSkill :: "string \<Rightarrow> MCPSkillAdapter \<Rightarrow> MCPSkillWrapper option" where
  "adapter_GetSkill skillID a = sa_skills a skillID"

definition NewMCPSkillRegistry :: MCPSkillRegistry where
  "NewMCPSkillRegistry = \<lparr>sr_adapters = Map.empty\<rparr>"

definition GetAdapterForServer :: "string \<Rightarrow> MCPSkillRegistry \<Rightarrow> MCPSkillAdapter option" where
  "GetAdapterForServer serverID r = sr_adapters r serverID"

definition RegisterServer ::
  "'w mcp_env \<Rightarrow> cache_pick \<Rightarrow> int \<Rightarrow> string \<Rightarrow> MCPSkillRegistry \<Rightarrow> 'w ClientManager \<Rightarrow> 'w
     \<Rightarrow> error option \<times> MCPSkillRegistry \<times> 'w ClientManager \<times> 'w" where
  "RegisterServer env pick now serverID r m w =
     (if sr_adapters r serverID \<noteq> None then (Some (ErrorString (''server already registered: '' @ serverID)), r, m, w)
      else case DiscoverSkills env pick now (NewMCPSkillAdapter serverID) m w of
        (Inl err, a, m', w') \<Rightarrow> (Some err, r, m', w')
      | (Inr skills, a, m', w') \<Rightarrow> (None, r\<lparr>sr_adapters := (sr_adapters r)(serverID \<mapsto> a)\<rparr>, m', w'))"

definition UnregisterServer :: "string \<Rightarrow> MCPSkillRegistry \<Rightarrow> error option \<times> MCPSkillRegistry" where
  "UnregisterServer serverID r =
     (if sr_adapters r serverID = None then (Some (ErrorString (''server not found: '' @ serverID)), r)
      else (None, r\<lparr>sr_adapters := (sr_adapters r)(serverID := None)\<rparr>))"

text \<open>The loop over the adapters, in the order of the range loop; the first skill found is returned.\<close>

fun registry_GetSkill :: "string list \<Rightarrow> string \<Rightarrow> MCPSkillRegistry \<Rightarrow> MCPSkillWrapper option" where
  "registry_GetSkill [] skillID r = None"
| "registry_GetSkill (k # ks) skillID r =
     (case sr_adapters r k of
        None \<Rightarrow> registry_GetSkill ks skillID r
      | Some a \<Rightarrow> (case adapter_GetSkill skillID a of Some s \<Rightarrow> Some s | None \<Rightarrow> registry_GetSkill ks skillID r))"

definition ExecuteSkill ::
  "'w mcp_env \<Rightarrow> string list \<Rightarrow> string \<Rightarrow> gval \<Rightarrow> MCPSkillRegistry \<Rightarrow> 'w ClientManager \<Rightarrow> 'w \<Rightarrow> (error + gval) \<times> 'w" where
  "ExecuteSkill env order skillID input r m w =
     (case registry_GetSkill order skillID r of
        None \<Rightarrow> (Inl (ErrorString (''skill not found: '' @ skillID)), w)
      | Some s \<Rightarrow> wrapper_Execute env s input m w)"

text \<open>Refreshing: the errors of single servers are only logged.\<close>

fun RefreshSkills ::
  "'w mcp_env \<Rightarrow> cache_pick \<Rightarrow> int \<Rightarrow> string list \<Rightarrow> MCPSkillRegistry \<Rightarrow> 'w ClientManager \<Rightarrow> 'w \<Rightarrow> MCPSkillRegistry \<times> 'w ClientManager \<times> 'w" where
  "RefreshSkills env pick now [] r m w = (r, m, w)"
| "RefreshSkills env pick now (k # ks) r m w =
     (case sr_adapters r k of
        None \<Rightarrow> RefreshSkills env pick now ks r m w
      | Some a \<Rightarrow>
          (case DiscoverSkills env pick now a m w of (res, a', m', w') \<Rightarrow>
             RefreshSkills env pick now ks (r\<lparr>sr_adapters := (sr_adapters r)(k \<mapsto> a')\<rparr>) m' w'))"

definition adapter_GetAllSkills :: "string list \<Rightarrow> MCPSkillAdapter \<Rightarrow> MCPSkillWrapper list" where
  "adapter_GetAllSkills order a = List.map_filter (sa_skills a) order"

text \<open>\<open>orders\<close>: the servers in the order of the outer loop, each with the order of the loop over its skills.\<close>

definition registry_GetAllSkills :: "(string \<times> string list) list \<Rightarrow> MCPSkillRegistry \<Rightarrow> MCPSkillWrapper list" where
  "registry_GetAllSkills orders r =
     concat (map (\<lambda>(k, order). case sr_adapters r k of None \<Rightarrow> [] | Some a \<Rightarrow> adapter_GetAllSkills order a) orders)"

section \<open>A skill id leads to its tool\<close>

definition skill_ok :: "string \<Rightarrow> string \<Rightarrow> MCPSkillWrapper \<Rightarrow> bool" where
  "skill_ok k i s \<longleftrightarrow> s = wrap_tool k (sw_Tool s) \<and> i = skill_id k (mt_Name (sw_Tool s))"

definition adapter_ok :: "string \<Rightarrow> MCPSkillAdapter \<Rightarrow> bool" where
  "adapter_ok k a \<longleftrightarrow> sa_serverID a = k \<and> (\<forall>i s. sa_skills a i = Some s \<longrightarrow> skill_ok k i s)"

definition registry_ok :: "MCPSkillRegistry \<Rightarrow> bool" where
  "registry_ok r \<longleftrightarrow> (\<forall>k a. sr_adapters r k = Some a \<longrightarrow> adapter_ok k a)"

lemma fold_skills:
  "foldl (\<lambda>sk s. sk(sw_ID s \<mapsto> s)) sk0 (map (wrap_tool k) tools) i =
     (case find (\<lambda>t. skill_id k (mt_Name t) = i) (rev tools) of Some t \<Rightarrow> Some (wrap_tool k t) | None \<Rightarrow> sk0 i)"
proof (induction tools rule: rev_induct)
  case (snoc t tools)
  then show ?case by (auto simp: wrap_tool_def)
qed simp

lemma adapter_ok_discover:
  assumes "adapter_ok k a" and "DiscoverSkills env pick now a m w = (res, a', m', w')"
  shows "adapter_ok k a'"
proof -
  have "skill_ok k i s" if "foldl (\<lambda>sk s. sk(sw_ID s \<mapsto> s)) (sa_skills a) (map (wrap_tool k) tools) i = Some s" for tools i s
    using that assms(1) unfolding fold_skills adapter_ok_def
    by (auto simp: skill_ok_def wrap_tool_def find_Some_iff split: option.splits)
  then show ?thesis using assms
    by (auto simp: DiscoverSkills_def adapter_ok_def Let_def split: prod.splits sum.splits)
qed

lemma registry_ok_upd: "registry_ok r \<Longrightarrow> adapter_ok k a \<Longrightarrow> registry_ok (r\<lparr>sr_adapters := (sr_adapters r)(k \<mapsto> a)\<rparr>)"
  by (simp add: registry_ok_def)

lemma new_adapter_ok: "adapter_ok k (NewMCPSkillAdapter k)"
  by (simp add: adapter_ok_def NewMCPSkillAdapter_def)

lemma registry_ok_register:
  assumes "registry_ok r" and "RegisterServer env pick now s r m w = (e, r', m', w')"
  shows "registry_ok r'"
  using assms adapter_ok_discover[OF new_adapter_ok, of env pick now s m w]
  by (auto simp: RegisterServer_def split: if_splits prod.splits sum.splits intro!: registry_ok_upd)

lemma registry_ok_refresh: "registry_ok r \<Longrightarrow> registry_ok (fst (RefreshSkills env pick now ks r m w))"
proof (induction env pick now ks r m w rule: RefreshSkills.induct)
  case (2 env pick now k ks r m w)
  show ?case
  proof (cases "sr_adapters r k")
    case (Some a)
    obtain res a' m' w' where d: "DiscoverSkills env pick now a m w = (res, a', m', w')" by (cases "DiscoverSkills env pick now a m w")
    have "adapter_ok k a'" using 2(3) Some adapter_ok_discover[OF _ d] by (simp add: registry_ok_def)
    then show ?thesis using 2 Some d registry_ok_upd by simp
  qed (use 2 in simp)
qed simp

inductive registry_step :: "'w mcp_env \<Rightarrow> MCPSkillRegistry \<Rightarrow> MCPSkillRegistry \<Rightarrow> bool" for env where
  register: "RegisterServer env pick now s r m w = (e, r', m', w') \<Longrightarrow> registry_step env r r'"
| unregister: "UnregisterServer s r = (e, r') \<Longrightarrow> registry_step env r r'"
| refresh: "registry_step env r (fst (RefreshSkills env pick now ks r m w))"

interpretation skills: invariant_system "\<lambda>r. r = NewMCPSkillRegistry" "registry_step env" registry_ok for env
proof
  fix s assume "s = NewMCPSkillRegistry"
  then show "registry_ok s" by (simp add: NewMCPSkillRegistry_def registry_ok_def)
next
  fix s t assume "registry_step env s t" and ok: "registry_ok s"
  then show "registry_ok t"
  proof cases
    case register
    then show ?thesis by (rule registry_ok_register[OF ok])
  next
    case unregister
    then show ?thesis using ok by (auto simp: UnregisterServer_def registry_ok_def split: if_splits)
  next
    case refresh
    then show ?thesis using ok registry_ok_refresh by simp
  qed
qed

text \<open>Without colons in the server ids, a skill id names one server and one tool.\<close>

lemma first_sep_unique: "a @ d # x = b @ d # y \<Longrightarrow> d \<notin> set a \<Longrightarrow> d \<notin> set b \<Longrightarrow> a = b \<and> x = y"
proof (induction a arbitrary: b)
  case Nil
  then show ?case by (cases b) auto
next
  case (Cons c a)
  then show ?case by (cases b) auto
qed

lemma skill_id_inj: "skill_id k n = skill_id k' n' \<Longrightarrow> CHR '':'' \<notin> set k \<Longrightarrow> CHR '':'' \<notin> set k' \<Longrightarrow> k = k' \<and> n = n'"
  using first_sep_unique[of k "CHR '':''" n k' n'] by (simp add: skill_id_def)

lemma registry_GetSkill_Some:
  "registry_GetSkill ks i r = Some s \<Longrightarrow> \<exists>k a. k \<in> set ks \<and> sr_adapters r k = Some a \<and> sa_skills a i = Some s"
  by (induction ks i r rule: registry_GetSkill.induct) (auto simp: adapter_GetSkill_def split: option.splits)

lemma registry_GetSkill_None:
  "registry_GetSkill ks i r = None \<Longrightarrow> k \<in> set ks \<Longrightarrow> sr_adapters r k = Some a \<Longrightarrow> sa_skills a i = None"
  by (induction ks i r rule: registry_GetSkill.induct) (auto simp: adapter_GetSkill_def split: option.splits)

text \<open>C23: In a registry reached by any sequence of operations, when the ids of the registered servers have no colon: whatever
  the order of the loop over the servers, executing the skill with the id of a tool of a server calls exactly that tool on
  exactly that server when the server's adapter has the tool, and reports that the skill is not found otherwise.\<close>

theorem skill_reaches_its_tool:
  assumes "rtranclp (registry_step env) NewMCPSkillRegistry r" and "ranges (sr_adapters r) order"
    and "\<forall>k \<in> dom (sr_adapters r). CHR '':'' \<notin> set k" and "GetAdapterForServer s r = Some a"
  shows "ExecuteSkill env' order (skill_id s tool) input r m w =
    (if adapter_GetSkill (skill_id s tool) a \<noteq> None then cm_CallTool env' s tool input m w
     else (Inl (ErrorString (''skill not found: '' @ skill_id s tool)), w))"
proof -
  have ok: "registry_ok r" by (rule skills.reachable_inv[OF _ assms(1)]) simp
  have a: "sr_adapters r s = Some a" "s \<in> set order" "CHR '':'' \<notin> set s"
    using assms(2-4) by (auto simp: GetAdapterForServer_def ranges_def)
  have here: "k = s \<and> sw_ServerID sk = s \<and> mt_Name (sw_Tool sk) = tool"
    if "sr_adapters r k = Some b" "sa_skills b (skill_id s tool) = Some sk" for k b sk
  proof -
    from ok that have sk: "skill_ok k (skill_id s tool) sk" by (simp add: registry_ok_def adapter_ok_def)
    have "CHR '':'' \<notin> set k" using assms(3) that(1) by auto
    with skill_id_inj[of s tool k "mt_Name (sw_Tool sk)"] sk a(3) show ?thesis
      by (auto simp: skill_ok_def) (metis MCPSkillWrapper.select_convs(6) wrap_tool_def)
  qed
  show ?thesis
  proof (cases "registry_GetSkill order (skill_id s tool) r")
    case None
    then have "sa_skills a (skill_id s tool) = None" using registry_GetSkill_None a by blast
    with None show ?thesis by (simp add: ExecuteSkill_def adapter_GetSkill_def)
  next
    case (Some sk)
    then obtain k b where "sr_adapters r k = Some b" "sa_skills b (skill_id s tool) = Some sk" using registry_GetSkill_Some by blast
    with here[OF this] a Some show ?thesis by (simp add: ExecuteSkill_def adapter_GetSkill_def wrapper_Execute_def)
  qed
qed

definition demo_tool :: MCPTool where
  "demo_tool = \<lparr>mt_Name = ''sum'', mt_Description = '''', mt_InputSchema = VNil\<rparr>"

definition demo_registry :: MCPSkillRegistry where
  "demo_registry = \<lparr>sr_adapters = [''s'' \<mapsto> \<lparr>sa_serverID = ''s'', sa_skills = [skill_id ''s'' ''sum'' \<mapsto> wrap_tool ''s'' demo_tool]\<rparr>]\<rparr>"

definition warm_manager :: "unit ClientManager" where
  "warm_manager = (NewClientManager None)\<lparr>cm_cache := StoreTools [] 0 ''s'' [demo_tool] (NewCapabilityCache 10 60)\<rparr>"

lemma demo_register:
  "RegisterServer (echo_env VNil '''') (\<lambda>m. []) 1 ''s'' NewMCPSkillRegistry warm_manager () = (None, demo_registry, warm_manager, ())"
  by (simp add: RegisterServer_def NewMCPSkillRegistry_def DiscoverSkills_def NewMCPSkillAdapter_def cm_ListTools_def warm_manager_def
      NewClientManager_def cache_ops NewCapabilityCache_def GetTools_def demo_registry_def wrap_tool_def demo_tool_def)

theorem skill_reaches_its_tool_witness:
  "ExecuteSkill (echo_env (VInt 3) '''') [''s''] (skill_id ''s'' ''sum'') VNil demo_registry demo_manager () =
    (if adapter_GetSkill (skill_id ''s'' ''sum'') \<lparr>sa_serverID = ''s'', sa_skills = [skill_id ''s'' ''sum'' \<mapsto> wrap_tool ''s'' demo_tool]\<rparr> \<noteq> None
     then cm_CallTool (echo_env (VInt 3) '''') ''s'' ''sum'' VNil demo_manager ()
     else (Inl (ErrorString (''skill not found: '' @ skill_id ''s'' ''sum'')), ()))"
proof (rule skill_reaches_its_tool)
  show "rtranclp (registry_step (echo_env VNil '''')) NewMCPSkillRegistry demo_registry"
    by (rule r_into_rtranclp, rule registry_step.register, rule demo_register)
qed (simp_all add: demo_registry_def ranges_def GetAdapterForServer_def)

end
