(* ===== verification/Auth_JWT.thy ===== *)
theory Auth_JWT
  imports Tenant_DB
begin

text \<open>
  Access tokens and request guards: internal/auth/jwt.go, internal/auth/middleware.go and the
  middleware of api/middleware that reads what they set. The JWT package is an argument
  (\<open>jwt_lib\<close>): signing yields a text, \<open>jl_Header\<close> reads the signing method and its name from a text,
  \<open>jl_Parse\<close> yields the payload of a text whose signature and time are right. A payload is a list of named JSON values. A middleware maps a
  request context to the next one or to the status it aborts with; a chain runs them in order.

  Proved: what Sign puts into a token Verify reads back; onboarding tokens and access tokens are not
  told apart, so that each passes the check of the other; a request that passes the guards of a
  route carries a token with at least the required role, and the tenant of its context is the one of
  the token.
\<close>

section \<open>Claims\<close>

record TokenClaims =
  tk_Sub :: string
  tk_TenantID :: string
  tk_Role :: string
  tk_GlobalRole :: string
  tk_JTI :: string
  tk_AvatarURL :: string
  tk_GitHubLogin :: string

record OnboardingClaims =
  ob_GitHubID :: int
  ob_GitHubLogin :: string
  ob_AvatarURL :: string

type_synonym payload = "(string \<times> gval) list"

text \<open>The methods of signing, as the header of a token names them; an access token has to be an RSA one.\<close>

datatype jwt_method = RSA | HMAC | OtherMethod

record jwt_lib =
  jl_SignedString :: "payload \<Rightarrow> error + string"
  jl_Header :: "string \<Rightarrow> error + (jwt_method \<times> string)"
  jl_Parse :: "int \<Rightarrow> string \<Rightarrow> error + payload"

text \<open>JSON encoding: \<^verbatim>\<open>omitempty\<close> leaves out an empty text; a missing or differently typed field decodes to its zero value.\<close>

definition opt_field :: "string \<Rightarrow> string \<Rightarrow> payload" where
  "opt_field name val = (if val = '''' then [] else [(name, VStr val)])"

definition str_field :: "payload \<Rightarrow> string \<Rightarrow> string" where
  "str_field p name = (case map_of p name of Some (VStr s) \<Rightarrow> s | _ \<Rightarrow> '''')"

definition int_field :: "payload \<Rightarrow> string \<Rightarrow> int" where
  "int_field p name = (case map_of p name of Some (VInt i) \<Rightarrow> i | _ \<Rightarrow> 0)"

text \<open>Numeric dates count seconds.\<close>

definition seconds :: "int \<Rightarrow> int" where
  "seconds t = t div 10 ^ 9"

definition access_payload :: "int \<Rightarrow> int \<Rightarrow> TokenClaims \<Rightarrow> payload" where
  "access_payload now ttl c =
     opt_field ''tid'' (tk_TenantID c) @ opt_field ''role'' (tk_Role c) @ opt_field ''global_role'' (tk_GlobalRole c) @
     opt_field ''ava'' (tk_AvatarURL c) @ opt_field ''ghl'' (tk_GitHubLogin c) @ opt_field ''sub'' (tk_Sub c) @
     [(''exp'', VInt (seconds (now + ttl))), (''iat'', VInt (seconds now))] @ opt_field ''jti'' (tk_JTI c)"

definition onboarding_payload :: "int \<Rightarrow> int \<Rightarrow> OnboardingClaims \<Rightarrow> payload" where
  "onboarding_payload now ttl c =
     [(''github_id'', VInt (ob_GitHubID c)), (''github_login'', VStr (ob_GitHubLogin c)), (''avatar_url'', VStr (ob_AvatarURL c)),
      (''exp'', VInt (seconds (now + ttl))), (''iat'', VInt (seconds now))]"

section \<open>Signing and verifying\<close>

definition Sign :: "jwt_lib \<Rightarrow> int \<Rightarrow> TokenClaims \<Rightarrow> int \<Rightarrow> error + string" where
  "Sign lib now c ttl =
     (case jl_SignedString lib (access_payload now ttl c) of Inl err \<Rightarrow> Inl (Wrapped ''jwt: sign'' err) | Inr s \<Rightarrow> Inr s)"

definition SignOnboarding :: "jwt_lib \<Rightarrow> int \<Rightarrow> OnboardingClaims \<Rightarrow> int \<Rightarrow> error + string" where
  "SignOnboarding lib now c ttl =
     (case jl_SignedString lib (onboarding_payload now ttl c) of Inl err \<Rightarrow> Inl (Wrapped ''jwt: sign onboarding'' err) | Inr s \<Rightarrow> Inr s)"

text \<open>Parsing with the callback that checks the method and hands out the public key.\<close>

definition parse_with_rsa :: "jwt_lib \<Rightarrow> int \<Rightarrow> string \<Rightarrow> error + payload" where
  "parse_with_rsa lib now tok =
     (case jl_Header lib tok of
        Inl err \<Rightarrow> Inl err
      | Inr (m, alg) \<Rightarrow>
          if m \<noteq> RSA then Inl (ErrorString (''jwt: unexpected signing method: '' @ alg)) else jl_Parse lib now tok)"

definition Verify :: "jwt_lib \<Rightarrow> int \<Rightarrow> string \<Rightarrow> error + TokenClaims" where
  "Verify lib now tok =
     (case parse_with_rsa lib now tok of
        Inl err \<Rightarrow> Inl (Wrapped ''jwt: verify'' err)
      | Inr p \<Rightarrow> Inr \<lparr>tk_Sub = str_field p ''sub'', tk_TenantID = str_field p ''tid'', tk_Role = str_field p ''role'',
          tk_GlobalRole = str_field p ''global_role'', tk_JTI = str_field p ''jti'', tk_AvatarURL = str_field p ''ava'',
          tk_GitHubLogin = str_field p ''ghl''\<rparr>)"

definition VerifyOnboarding :: "jwt_lib \<Rightarrow> int \<Rightarrow> string \<Rightarrow> error + OnboardingClaims" where
  "VerifyOnboarding lib now tok =
     (case parse_with_rsa lib now tok of
        Inl err \<Rightarrow> Inl (Wrapped ''jwt: verify onboarding'' err)
      | Inr p \<Rightarrow> Inr \<lparr>ob_GitHubID = int_field p ''github_id'', ob_GitHubLogin = str_field p ''github_login'', ob_AvatarURL = str_field p ''avatar_url''\<rparr>)"

section \<open>Middleware\<close>

text \<open>What the guards see of a request: its headers, the keys set so far, and the tenant of its context.\<close>

record req_ctx =
  rc_Authorization :: string
  rc_keys :: "string \<rightharpoonup> string"
  rc_tenant :: tenant_ctx

datatype outcome = Next req_ctx | Abort nat string

type_synonym middleware = "req_ctx \<Rightarrow> outcome"

fun run_chain :: "middleware list \<Rightarrow> middleware" where
  "run_chain [] c = Next c"
| "run_chain (m # ms) c = (case m c of Next c' \<Rightarrow> run_chain ms c' | Abort st msg \<Rightarrow> Abort st msg)"

definition bearer :: "string \<Rightarrow> string option" where
  "bearer h = (if prefix ''Bearer '' h then Some (drop 7 h) else None)"

definition JWTMiddleware :: "jwt_lib \<Rightarrow> int \<Rightarrow> middleware" where
  "JWTMiddleware lib now c =
     (case bearer (rc_Authorization c) of
        None \<Rightarrow> Abort 401 ''missing bearer token''
      | Some tok \<Rightarrow>
          (case Verify lib now tok of
             Inl err \<Rightarrow> Abort 401 ''invalid or expired token''
           | Inr claims \<Rightarrow>
               Next (c\<lparr>rc_keys := (rc_keys c)(''auth.sub'' \<mapsto> tk_Sub claims, ''auth.tenant_id'' \<mapsto> tk_TenantID claims,
                  ''auth.role'' \<mapsto> tk_Role claims, ''auth.global_role'' \<mapsto> tk_GlobalRole claims, ''auth.jti'' \<mapsto> tk_JTI claims)\<rparr>)))"

definition key_or_empty :: "req_ctx \<Rightarrow> string \<Rightarrow> string" where
  "key_or_empty c k = (case rc_keys c k of None \<Rightarrow> '''' | Some s \<Rightarrow> s)"

definition InjectTenantContext :: middleware where
  "InjectTenantContext c =
     (let tid = key_or_empty c ''auth.tenant_id''
      in if tid \<noteq> ''''
         then Next (c\<lparr>rc_tenant := WithTenant (rc_tenant c)
                (Some \<lparr>tc_TenantID = tid, tc_UserID = key_or_empty c ''auth.sub'', tc_Role = key_or_empty c ''auth.role''\<rparr>)\<rparr>)
         else Next c)"

definition RequireGlobalAdmin :: middleware where
  "RequireGlobalAdmin c =
     (if rc_keys c ''auth.global_role'' = Some ''global_admin'' then Next c else Abort 403 ''global admin role required'')"

definition role_rank :: "string \<Rightarrow> nat" where
  "role_rank r = (if r = ''member'' then 1 else if r = ''admin'' then 2 else if r = ''owner'' then 3 else 0)"

text \<open>An unknown minimal role panics when the route is set up.\<close>

definition RequireTenantRole :: "string \<Rightarrow> middleware go" where
  "RequireTenantRole minRole =
     (if role_rank minRole = 0 then Panic (''require_role: unknown minRole: '' @ minRole)
      else Ret (\<lambda>c. if role_rank (key_or_empty c ''auth.role'') < role_rank minRole then Abort 403 ''insufficient tenant role'' else Next c))"

text \<open>\<open>status_of\<close> is the query for the status of a tenant that is not deleted.\<close>

definition RequireActiveTenant :: "(string \<Rightarrow> error + string) option \<Rightarrow> middleware" where
  "RequireActiveTenant db c =
     (case db of
        None \<Rightarrow> Next c
      | Some status_of \<Rightarrow>
          (case rc_keys c ''auth.tenant_id'' of
             None \<Rightarrow> Next c
           | Some tid \<Rightarrow>
               (if tid = '''' then Next c
                else case status_of tid of
                  Inl err \<Rightarrow> Next c
                | Inr status \<Rightarrow> if status \<noteq> ''active'' then Abort 403 ''tenant disabled'' else Next c)))"

section \<open>Round trip\<close>

lemma str_field_simps:
  "str_field [] n = ''''"
  "str_field ((k, v) # p) n = (if k = n then (case v of VStr s \<Rightarrow> s | _ \<Rightarrow> '''') else str_field p n)"
  "str_field (opt_field k s @ p) n = (if k = n \<and> s \<noteq> '''' then s else str_field p n)"
  "str_field (opt_field k s) n = (if k = n then s else '''')"
  by (auto simp: str_field_def opt_field_def split: gval.split)

text \<open>A token that Sign made is accepted by Verify as long as the library parses it to what was signed, and gives back
  exactly the claims that were signed.\<close>

theorem sign_verify_roundtrip:
  assumes "Sign lib now c ttl = Inr tok" and "jl_Header lib tok = Inr (RSA, alg)" and "jl_Parse lib later tok = Inr (access_payload now ttl c)"
  shows "Verify lib later tok = Inr c"
  using assms(2,3) by (simp add: Verify_def parse_with_rsa_def access_payload_def str_field_simps)

definition demo_claims :: TokenClaims where
  "demo_claims = \<lparr>tk_Sub = ''u1'', tk_TenantID = ''t1'', tk_Role = ''admin'', tk_GlobalRole = '''', tk_JTI = ''j'', tk_AvatarURL = '''', tk_GitHubLogin = ''gh''\<rparr>"

definition fixed_lib :: "payload \<Rightarrow> jwt_lib" where
  "fixed_lib p = \<lparr>jl_SignedString = (\<lambda>_. Inr ''tok''), jl_Header = (\<lambda>_. Inr (RSA, ''RS256'')), jl_Parse = (\<lambda>_ _. Inr p)\<rparr>"

theorem sign_verify_roundtrip_witness:
  "Verify (fixed_lib (access_payload 0 900 demo_claims)) 1 ''tok'' = Inr demo_claims"
  by (rule sign_verify_roundtrip[of _ 0 demo_claims 900]) (simp_all add: Sign_def fixed_lib_def)

text \<open>The two kinds of tokens are not told apart. An onboarding token passes Verify, with empty claims, and an access token
  passes VerifyOnboarding, as the GitHub user with id zero and no login.\<close>

theorem token_kinds_confused:
  assumes "jl_Header lib ot = Inr (RSA, alg)" "jl_Parse lib t ot = Inr (onboarding_payload now ttl ob)"
    and "jl_Header lib act = Inr (RSA, alg)" "jl_Parse lib t act = Inr (access_payload now' ttl' c)"
  shows "Verify lib t ot = Inr \<lparr>tk_Sub = '''', tk_TenantID = '''', tk_Role = '''', tk_GlobalRole = '''', tk_JTI = '''', tk_AvatarURL = '''', tk_GitHubLogin = ''''\<rparr> \<and>
    VerifyOnboarding lib t act = Inr \<lparr>ob_GitHubID = 0, ob_GitHubLogin = '''', ob_AvatarURL = ''''\<rparr>"
proof
  show "Verify lib t ot = Inr \<lparr>tk_Sub = '''', tk_TenantID = '''', tk_Role = '''', tk_GlobalRole = '''', tk_JTI = '''', tk_AvatarURL = '''', tk_GitHubLogin = ''''\<rparr>"
    using assms(1,2) by (simp add: Verify_def parse_with_rsa_def onboarding_payload_def str_field_simps)
  have "int_field (access_payload now' ttl' c) ''github_id'' = 0"
    by (auto simp: int_field_def access_payload_def opt_field_def map_add_def)
  then show "VerifyOnboarding lib t act = Inr \<lparr>ob_GitHubID = 0, ob_GitHubLogin = '''', ob_AvatarURL = ''''\<rparr>"
    using assms(3,4) by (simp add: VerifyOnboarding_def parse_with_rsa_def access_payload_def str_field_simps)
qed

definition two_tokens_lib :: jwt_lib where
  "two_tokens_lib = \<lparr>jl_SignedString = (\<lambda>_. Inr ''tok''), jl_Header = (\<lambda>_. Inr (RSA, ''RS256'')),
     jl_Parse = (\<lambda>_ tok. Inr (if tok = ''ob'' then onboarding_payload 0 900 \<lparr>ob_GitHubID = 7, ob_GitHubLogin = ''gh'', ob_AvatarURL = ''''\<rparr>
       else access_payload 0 900 demo_claims))\<rparr>"

theorem token_kinds_confused_witness:
  "Verify two_tokens_lib 1 ''ob'' = Inr \<lparr>tk_Sub = '''', tk_TenantID = '''', tk_Role = '''', tk_GlobalRole = '''', tk_JTI = '''', tk_AvatarURL = '''', tk_GitHubLogin = ''''\<rparr> \<and>
   VerifyOnboarding two_tokens_lib 1 ''acc'' = Inr \<lparr>ob_GitHubID = 0, ob_GitHubLogin = '''', ob_AvatarURL = ''''\<rparr>"
  by (rule token_kinds_confused[of _ _ "''RS256''" _ 0 900 "\<lparr>ob_GitHubID = 7, ob_GitHubLogin = ''gh'', ob_AvatarURL = ''''\<rparr>" _ 0 900 demo_claims])
     (simp_all add: two_tokens_lib_def)

section \<open>Guarded routes\<close>

lemma run_chain_Next_Cons:
  "run_chain (m # ms) c = Next c' \<longleftrightarrow> (\<exists>d. m c = Next d \<and> run_chain ms d = Next c')"
  by (auto split: outcome.splits)

lemma JWTMiddleware_Next:
  assumes "JWTMiddleware lib now c = Next d"
  obtains tok claims where "rc_Authorization c = ''Bearer '' @ tok" "Verify lib now tok = Inr claims"
    "d = c\<lparr>rc_keys := (rc_keys c)(''auth.sub'' \<mapsto> tk_Sub claims, ''auth.tenant_id'' \<mapsto> tk_TenantID claims,
                  ''auth.role'' \<mapsto> tk_Role claims, ''auth.global_role'' \<mapsto> tk_GlobalRole claims, ''auth.jti'' \<mapsto> tk_JTI claims)\<rparr>"
  using assms by (auto simp: JWTMiddleware_def bearer_def prefix_def split: option.splits sum.splits if_splits)

lemma RequireTenantRole_Next:
  assumes "RequireTenantRole minRole = Ret guard" "guard c = Next d"
  shows "d = c \<and> 0 < role_rank minRole \<and> role_rank minRole \<le> role_rank (key_or_empty c ''auth.role'')"
  using assms by (auto simp: RequireTenantRole_def split: if_splits)

lemma RequireActiveTenant_Next:
  assumes "RequireActiveTenant db c = Next d"
  shows "d = c"
    and "db = Some status_of \<Longrightarrow> rc_keys c ''auth.tenant_id'' = Some tid \<Longrightarrow> tid \<noteq> '''' \<Longrightarrow> status_of tid = Inr status \<Longrightarrow> status = ''active''"
  using assms by (auto simp: RequireActiveTenant_def split: option.splits sum.splits if_splits)

text \<open>A request that passes the guards of a tenant route (the bearer check, the tenant context, the minimal role and the
  active tenant, in this order) carries a bearer token that Verify accepts; the role in the token is at least the required one;
  the tenant context the handlers read is that of the token when the token names a tenant; and a tenant whose status could be
  read is active.\<close>

theorem guarded_route:
  assumes "RequireTenantRole minRole = Ret role_guard"
    and "run_chain [JWTMiddleware lib now, InjectTenantContext, role_guard, RequireActiveTenant db] c = Next d"
  shows "\<exists>tok claims. rc_Authorization c = ''Bearer '' @ tok \<and> Verify lib now tok = Inr claims \<and>
    0 < role_rank minRole \<and> role_rank minRole \<le> role_rank (tk_Role claims) \<and>
    (tk_TenantID claims \<noteq> '''' \<longrightarrow>
       FromContext (rc_tenant d) = Some \<lparr>tc_TenantID = tk_TenantID claims, tc_UserID = tk_Sub claims, tc_Role = tk_Role claims\<rparr> \<and>
       (\<forall>status_of status. db = Some status_of \<longrightarrow> status_of (tk_TenantID claims) = Inr status \<longrightarrow> status = ''active''))"
proof -
  from assms(2) obtain d1 d2 d3 where s: "JWTMiddleware lib now c = Next d1" "InjectTenantContext d1 = Next d2"
      "role_guard d2 = Next d3" "RequireActiveTenant db d3 = Next d"
    unfolding run_chain_Next_Cons by auto
  from s(1) obtain tok claims where v: "rc_Authorization c = ''Bearer '' @ tok" "Verify lib now tok = Inr claims"
    and d1: "d1 = c\<lparr>rc_keys := (rc_keys c)(''auth.sub'' \<mapsto> tk_Sub claims, ''auth.tenant_id'' \<mapsto> tk_TenantID claims,
                  ''auth.role'' \<mapsto> tk_Role claims, ''auth.global_role'' \<mapsto> tk_GlobalRole claims, ''auth.jti'' \<mapsto> tk_JTI claims)\<rparr>"
    by (rule JWTMiddleware_Next)
  have keys: "rc_keys d2 = rc_keys d1" and tenant: "tk_TenantID claims \<noteq> '''' \<Longrightarrow> FromContext (rc_tenant d2) =
      Some \<lparr>tc_TenantID = tk_TenantID claims, tc_UserID = tk_Sub claims, tc_Role = tk_Role claims\<rparr>"
    using s(2) by (auto simp: InjectTenantContext_def Let_def key_or_empty_def d1 WithTenant_def FromContext_def split: if_splits)
  note role = RequireTenantRole_Next[OF assms(1) s(3)]
  note active = RequireActiveTenant_Next[OF s(4)]
  have "d = d2" using role active(1) by simp
  moreover have "role_rank minRole \<le> role_rank (tk_Role claims)" "0 < role_rank minRole"
    using role by (simp_all add: key_or_empty_def keys d1)
  moreover have "rc_keys d3 ''auth.tenant_id'' = Some (tk_TenantID claims)" using role by (simp add: keys d1)
  ultimately show ?thesis using v tenant active(2) by blast
qed

definition demo_request :: req_ctx where
  "demo_request = \<lparr>rc_Authorization = ''Bearer tok'', rc_keys = Map.empty, rc_tenant = None\<rparr>"

definition member_guard :: middleware where
  "member_guard c = (if role_rank (key_or_empty c ''auth.role'') < role_rank ''member'' then Abort 403 ''insufficient tenant role'' else Next c)"

theorem guarded_route_witness:
  "\<exists>d tok claims. run_chain [JWTMiddleware (fixed_lib (access_payload 0 900 demo_claims)) 1, InjectTenantContext, member_guard,
      RequireActiveTenant (Some (\<lambda>_. Inr ''active''))] demo_request = Next d \<and>
    rc_Authorization demo_request = ''Bearer '' @ tok \<and> Verify (fixed_lib (access_payload 0 900 demo_claims)) 1 tok = Inr claims \<and>
    role_rank ''member'' \<le> role_rank (tk_Role claims)"
proof -
  have r: "RequireTenantRole ''member'' = Ret member_guard"
    by (rule trans[OF RequireTenantRole_def]) (simp add: role_rank_def member_guard_def[abs_def])
  have "\<exists>d. run_chain [JWTMiddleware (fixed_lib (access_payload 0 900 demo_claims)) 1, InjectTenantContext, member_guard,
      RequireActiveTenant (Some (\<lambda>_. Inr ''active''))] demo_request = Next d"
    by (simp add: demo_request_def JWTMiddleware_def bearer_def Verify_def parse_with_rsa_def fixed_lib_def access_payload_def str_field_simps
        demo_claims_def InjectTenantContext_def Let_def WithTenant_def key_or_empty_def member_guard_def role_rank_def RequireActiveTenant_def)
  with guarded_route[OF r] show ?thesis by blast
qed

end
