(* ===== verification/Router.thy ===== *)
theory Router
  imports Auth_JWT
begin

text \<open>
  The route table of api/router.go and the routes that MCPHandler.RegisterRoutes adds
  (api/handler/mcp_handler.go). A route is a method, a path, the guards that run before its handler
  in order, and the name of the handler. Which routes exist depends on the configuration (GitHub
  client id, whether the private key parses) and on whether there is a database. The middleware that
  every route shares (recovery, error handler, tracing, CORS, metrics) lets every request pass but
  CORS preflights and is not part of the guards.

  Proved: which routes answer without a token; a request that reaches any other handler carries a
  verified token; which routes that change data do not ask for an active tenant; without a JWT
  service no guard checks a token at all.
\<close>

section \<open>Routes\<close>

datatype guard =
    JWT
  | InjectTenant
  | TenantRole string
  | ActiveTenant
  | GlobalAdmin

record route =
  rt_method :: string
  rt_path :: string
  rt_guards :: "guard list"
  rt_handler :: string

definition handle :: "string \<Rightarrow> string \<Rightarrow> guard list \<Rightarrow> string \<Rightarrow> route" where
  "handle m p gs h = \<lparr>rt_method = m, rt_path = p, rt_guards = gs, rt_handler = h\<rparr>"

text \<open>A group puts its prefix before the paths and its guards before the guards of its routes.\<close>

definition group :: "string \<Rightarrow> guard list \<Rightarrow> route list \<Rightarrow> route list" where
  "group pre gs rs = map (\<lambda>r. r\<lparr>rt_path := pre @ rt_path r, rt_guards := gs @ rt_guards r\<rparr>) rs"

record router_config =
  cf_GitHubClientID :: string
  cf_JWTPrivateKeyPEM :: string

text \<open>\<open>pem\<close> decodes a PEM text, \<open>pkcs1\<close> reads the key of a block.\<close>

definition parseRSAPrivateKey :: "(string \<Rightarrow> 'b option) \<Rightarrow> ('b \<Rightarrow> error + 'k) \<Rightarrow> string \<Rightarrow> error + 'k" where
  "parseRSAPrivateKey pem pkcs1 pemStr =
     (if pemStr = '''' then Inl (ErrorString ''JWT_PRIVATE_KEY_PEM is empty'')
      else case pem pemStr of
        None \<Rightarrow> Inl (ErrorString ''failed to decode PEM block'')
      | Some block \<Rightarrow>
          (case pkcs1 block of
             Inl err \<Rightarrow> Inl (Wrapped ''parse RSA key'' err)
           | Inr key \<Rightarrow> Inr key))"

text \<open>The JWT service exists when GitHub is configured and the key parses.\<close>

definition jwt_service :: "(string \<Rightarrow> 'b option) \<Rightarrow> ('b \<Rightarrow> error + 'k) \<Rightarrow> router_config \<Rightarrow> 'k option" where
  "jwt_service pem pkcs1 cfg =
     (if cf_GitHubClientID cfg \<noteq> ''''
      then case parseRSAPrivateKey pem pkcs1 (cf_JWTPrivateKeyPEM cfg) of Inl _ \<Rightarrow> None | Inr key \<Rightarrow> Some key
      else None)"

definition auth_routes :: "route list" where
  "auth_routes = group ''/auth'' []
     [handle ''GET'' ''/github'' [] ''GitHubLogin'',
      handle ''GET'' ''/github/callback'' [] ''GitHubCallback'',
      handle ''POST'' ''/register'' [] ''Register'',
      handle ''POST'' ''/refresh'' [] ''Refresh'',
      handle ''POST'' ''/logout'' [] ''Logout'',
      handle ''GET'' ''/me'' [] ''Me'',
      handle ''POST'' ''/switch-tenant'' [] ''SwitchTenant'',
      handle ''POST'' ''/create-tenant'' [] ''CreateUserTenant'']"

definition admin_routes :: "route list" where
  "admin_routes = group ''/admin'' [JWT, GlobalAdmin]
     [handle ''GET'' ''/tenants'' [] ''ListTenants'',
      handle ''POST'' ''/tenants'' [] ''CreateTenant'',
      handle ''GET'' ''/tenants/:id'' [] ''GetTenant'',
      handle ''PATCH'' ''/tenants/:id'' [] ''UpdateTenant'',
      handle ''DELETE'' ''/tenants/:id'' [] ''DeleteTenant'']"

definition tenant_routes :: "route list" where
  "tenant_routes = group ''/tenant'' [JWT, InjectTenant, TenantRole ''member'']
     [handle ''GET'' ''/members'' [] ''ListMembers'',
      handle ''POST'' ''/members/invite'' [] ''InviteMember'',
      handle ''PATCH'' ''/members/:user_id/role'' [] ''UpdateMemberRole'',
      handle ''DELETE'' ''/members/:user_id'' [] ''RemoveMember'',
      handle ''GET'' ''/settings'' [] ''GetSettings'',
      handle ''PATCH'' ''/settings'' [ActiveTenant] ''UpdateSettings''] @
     [handle ''GET'' ''/tenant/list'' [JWT] ''ListUserTenants'']"

definition open_routes :: "route list" where
  "open_routes =
     [handle ''GET'' ''/metrics'' [] ''metrics'',
      handle ''GET'' ''/health'' [] ''health'',
      handle ''GET'' ''/models'' [] ''ListModels'']"

text \<open>The guards that a group gets when there is a JWT service.\<close>

definition when_jwt :: "bool \<Rightarrow> guard list \<Rightarrow> guard list" where
  "when_jwt jwt gs = (if jwt then gs else [])"

definition skill_routes :: "bool \<Rightarrow> route list" where
  "skill_routes jwt = group ''/skills'' (when_jwt jwt [JWT, InjectTenant])
     [handle ''GET'' '''' [] ''GetAllSkills'',
      handle ''POST'' '''' [ActiveTenant] ''CreateSkill'',
      handle ''GET'' ''/:id'' [] ''GetSkill'',
      handle ''PUT'' ''/:id'' [ActiveTenant] ''UpdateSkill'',
      handle ''DELETE'' ''/:id'' [ActiveTenant] ''DeleteSkill'',
      handle ''POST'' ''/:id/run'' [ActiveTenant] ''RunSkill'']"

definition agent_routes :: "bool \<Rightarrow> route list" where
  "agent_routes jwt = group ''/agents'' (when_jwt jwt [JWT, InjectTenant])
     [handle ''GET'' '''' [] ''GetAllAgents'',
      handle ''POST'' '''' [ActiveTenant] ''CreateAgent'',
      handle ''GET'' ''/executions'' [] ''ListExecutions'',
      handle ''GET'' ''/:id'' [] ''GetAgent'',
      handle ''POST'' ''/:id/execute'' [ActiveTenant] ''ExecuteAgent'',
      handle ''POST'' ''/:id/execute/stream'' [ActiveTenant] ''ExecuteAgentStream'',
      handle ''PUT'' ''/:id'' [ActiveTenant] ''UpdateAgent'',
      handle ''DELETE'' ''/:id'' [ActiveTenant] ''DeleteAgent'',
      handle ''POST'' ''/:id/conversations'' [] ''CreateConversation'',
      handle ''GET'' ''/:id/conversations'' [] ''ListConversations'']"

definition conversation_routes :: "bool \<Rightarrow> route list" where
  "conversation_routes jwt = group ''/conversations'' (when_jwt jwt [JWT, InjectTenant])
     [handle ''PATCH'' ''/:convID'' [] ''RenameConversation'',
      handle ''DELETE'' ''/:convID'' [] ''DeleteConversation'',
      handle ''GET'' ''/:convID/messages'' [] ''ListMessages'',
      handle ''POST'' ''/:convID/messages'' [] ''AddMessage'']"

definition knowledge_routes :: "bool \<Rightarrow> route list" where
  "knowledge_routes jwt =
     (let adminMW = when_jwt jwt [TenantRole ''admin'']
      in group ''/knowledge'' (when_jwt jwt [JWT, InjectTenant, TenantRole ''member''])
        [handle ''GET'' ''/workspaces'' [] ''ListWorkspaces'',
         handle ''GET'' ''/workspaces/:name/stats'' [] ''GetWorkspaceStats'',
         handle ''POST'' ''/query'' [ActiveTenant] ''Query'',
         handle ''POST'' ''/workspaces'' (adminMW @ [ActiveTenant]) ''CreateWorkspace'',
         handle ''PATCH'' ''/workspaces/:name'' (adminMW @ [ActiveTenant]) ''UpdateWorkspace'',
         handle ''DELETE'' ''/workspaces/:name'' (adminMW @ [ActiveTenant]) ''DeleteWorkspace'',
         handle ''POST'' ''/ingest'' (adminMW @ [ActiveTenant]) ''UploadDocument''])"

definition memory_routes :: "bool \<Rightarrow> route list" where
  "memory_routes jwt = group ''/memory'' (when_jwt jwt [JWT, InjectTenant])
     [handle ''POST'' ''/sessions'' [ActiveTenant] ''CreateSession'',
      handle ''POST'' '''' [ActiveTenant] ''AddMemory'',
      handle ''GET'' ''/:id'' [] ''GetMemory'',
      handle ''POST'' ''/search'' [] ''SearchMemory'',
      handle ''DELETE'' ''/:id'' [ActiveTenant] ''DeleteMemory'',
      handle ''GET'' ''/stats'' [] ''GetStats'',
      handle ''DELETE'' ''/session/:session_id'' [ActiveTenant] ''ClearSession'',
      handle ''GET'' ''/entities'' [] ''GetEntities'',
      handle ''POST'' ''/extract-entities'' [] ''ExtractEntities'',
      handle ''GET'' ''/summary/:session_id'' [] ''GetSummary'']"

definition RegisterRoutes :: "guard list \<Rightarrow> route list" where
  "RegisterRoutes writeMW = group ''/api/v1/mcp'' []
     [handle ''GET'' ''/servers'' [] ''ListServers'',
      handle ''GET'' ''/servers/:id'' [] ''GetServer'',
      handle ''GET'' ''/servers/:id/tools'' [] ''ListTools'',
      handle ''GET'' ''/servers/:id/resources'' [] ''ListResources'',
      handle ''POST'' ''/servers'' writeMW ''ConnectServer'',
      handle ''DELETE'' ''/servers/:id'' writeMW ''DisconnectServer'',
      handle ''POST'' ''/tools/:toolId/execute'' writeMW ''ExecuteTool'',
      handle ''GET'' ''/skills'' [] ''ListSkills'',
      handle ''GET'' ''/skills/:id'' [] ''GetSkill'',
      handle ''POST'' ''/skills/refresh'' writeMW ''RefreshSkills'',
      handle ''GET'' ''/status'' [] ''GetServerStatus'']"

definition SetupRouter :: "bool \<Rightarrow> bool \<Rightarrow> route list" where
  "SetupRouter jwt db =
     (if jwt then auth_routes @ (if db then admin_routes @ tenant_routes else []) else []) @
     open_routes @ skill_routes jwt @ agent_routes jwt @ conversation_routes jwt @ knowledge_routes jwt @ memory_routes jwt @
     RegisterRoutes (when_jwt jwt [JWT, InjectTenant] @ [ActiveTenant])"

section \<open>Serving\<close>

text \<open>The roles of the table are known ones, so that setting up the guard does not panic.\<close>

definition role_guard_of :: "string \<Rightarrow> middleware" where
  "role_guard_of r = (case RequireTenantRole r of Ret g \<Rightarrow> g | _ \<Rightarrow> (\<lambda>c. Abort 500 ''panic''))"

fun guard_fn :: "jwt_lib \<Rightarrow> int \<Rightarrow> (string \<Rightarrow> error + string) option \<Rightarrow> guard \<Rightarrow> middleware" where
  "guard_fn lib now db JWT = JWTMiddleware lib now"
| "guard_fn lib now db InjectTenant = InjectTenantContext"
| "guard_fn lib now db (TenantRole r) = role_guard_of r"
| "guard_fn lib now db ActiveTenant = RequireActiveTenant db"
| "guard_fn lib now db GlobalAdmin = RequireGlobalAdmin"

text \<open>Whether a request reaches the handler of a route, and with which context.\<close>

definition reach :: "jwt_lib \<Rightarrow> int \<Rightarrow> (string \<Rightarrow> error + string) option \<Rightarrow> route \<Rightarrow> middleware" where
  "reach lib now db r = run_chain (map (guard_fn lib now db) (rt_guards r))"

section \<open>Guards and the token\<close>

text \<open>Every guard but JWT leaves the keys alone, and only InjectTenant touches the tenant.\<close>

lemma guard_fn_Next:
  assumes "guard_fn lib now db g c = Next d" "g \<noteq> JWT"
  shows "rc_keys d = rc_keys c"
    and "g \<noteq> InjectTenant \<Longrightarrow> d = c"
    and "g = GlobalAdmin \<Longrightarrow> rc_keys c ''auth.global_role'' = Some ''global_admin''"
    and "g = TenantRole m \<Longrightarrow> 0 < role_rank m \<and> role_rank m \<le> role_rank (key_or_empty c ''auth.role'')"
    and "g = InjectTenant \<Longrightarrow> key_or_empty c ''auth.tenant_id'' \<noteq> '''' \<Longrightarrow> FromContext (rc_tenant d) =
      Some \<lparr>tc_TenantID = key_or_empty c ''auth.tenant_id'', tc_UserID = key_or_empty c ''auth.sub'', tc_Role = key_or_empty c ''auth.role''\<rparr>"
  using assms
  by (cases g; auto simp: InjectTenantContext_def Let_def role_guard_of_def RequireTenantRole_def RequireGlobalAdmin_def
      WithTenant_def FromContext_def dest: RequireActiveTenant_Next(1) split: if_splits)+

text \<open>What the guards after the bearer check establish of the request that passes them.\<close>

lemma guards_Next:
  assumes "run_chain (map (guard_fn lib now db) gs) c = Next d" "JWT \<notin> set gs"
  shows "rc_keys d = rc_keys c \<and> (InjectTenant \<notin> set gs \<longrightarrow> rc_tenant d = rc_tenant c) \<and>
    (GlobalAdmin \<in> set gs \<longrightarrow> rc_keys c ''auth.global_role'' = Some ''global_admin'') \<and>
    (\<forall>m. TenantRole m \<in> set gs \<longrightarrow> 0 < role_rank m \<and> role_rank m \<le> role_rank (key_or_empty c ''auth.role'')) \<and>
    (InjectTenant \<in> set gs \<longrightarrow> key_or_empty c ''auth.tenant_id'' \<noteq> '''' \<longrightarrow> FromContext (rc_tenant d) =
      Some \<lparr>tc_TenantID = key_or_empty c ''auth.tenant_id'', tc_UserID = key_or_empty c ''auth.sub'', tc_Role = key_or_empty c ''auth.role''\<rparr>)"
  using assms
proof (induction gs arbitrary: c)
  case (Cons g gs)
  from Cons.prems(1) obtain e where e: "guard_fn lib now db g c = Next e" and
    rest: "run_chain (map (guard_fn lib now db) gs) e = Next d"
    by (auto split: outcome.splits)
  have ng: "g \<noteq> JWT" "JWT \<notin> set gs" using Cons.prems(2) by auto
  note g = guard_fn_Next[OF e ng(1)] and IH = Cons.IH[OF rest ng(2)]
  have k: "key_or_empty e = key_or_empty c" using g(1) by (simp add: key_or_empty_def fun_eq_iff)
  show ?case using IH g by (cases "g = InjectTenant") (auto simp: k)
qed simp

section \<open>Access control\<close>

definition public_route :: "route \<Rightarrow> bool" where
  "public_route r \<longleftrightarrow> prefix ''/auth/'' (rt_path r) \<or> rt_path r \<in> {''/metrics'', ''/health'', ''/models''} \<or>
     (rt_method r = ''GET'' \<and> prefix ''/api/v1/mcp/'' (rt_path r))"

text \<open>What the table has to satisfy for a route that is not public.\<close>

definition guarded :: "route \<Rightarrow> bool" where
  "guarded r \<longleftrightarrow> rt_guards r \<noteq> [] \<and> hd (rt_guards r) = JWT \<and> JWT \<notin> set (tl (rt_guards r)) \<and>
     (prefix ''/admin/'' (rt_path r) \<longrightarrow> GlobalAdmin \<in> set (tl (rt_guards r))) \<and>
     (prefix ''/knowledge/'' (rt_path r) \<and> rt_method r \<noteq> ''GET'' \<and> rt_path r \<noteq> ''/knowledge/query'' \<longrightarrow>
        TenantRole ''admin'' \<in> set (tl (rt_guards r))) \<and>
     (prefix ''/admin/'' (rt_path r) \<or> rt_path r = ''/tenant/list'' \<or> InjectTenant \<in> set (tl (rt_guards r)))"

lemmas route_table = SetupRouter_def auth_routes_def admin_routes_def tenant_routes_def open_routes_def skill_routes_def
  agent_routes_def conversation_routes_def knowledge_routes_def memory_routes_def RegisterRoutes_def when_jwt_def group_def handle_def

lemma table_guarded: "list_all (\<lambda>r. public_route r \<or> guarded r) (SetupRouter True db)"
  by (cases db) (simp_all only: route_table, code_simp+)



text \<open>Without a JWT service nothing looks at a token: every request reaches every handler that the table has then, when it
  carries no tenant from elsewhere.\<close>

lemma table_unguarded: "list_all (\<lambda>r. set (rt_guards r) \<subseteq> {ActiveTenant}) (SetupRouter False db)"
  by (simp only: route_table) (simp)

theorem no_service_no_guards:
  assumes "r \<in> set (SetupRouter False db)" "rc_keys c ''auth.tenant_id'' = None"
  shows "reach lib now status_of r c = Next c"
proof -
  have "run_chain (map (guard_fn lib now status_of) gs) c = Next c" if "set gs \<subseteq> {ActiveTenant}" for gs
    using that by (induction gs) (auto simp: RequireActiveTenant_def assms(2) split: option.splits)
  then show ?thesis using assms(1) table_unguarded[of db] by (auto simp: reach_def list_all_iff)
qed

text \<open>The routes that change data of a tenant without asking for an active one.\<close>

lemma changes_without_active:
  "map (\<lambda>r. (rt_method r, rt_path r))
     (filter (\<lambda>r. rt_method r \<noteq> ''GET'' \<and> ActiveTenant \<notin> set (rt_guards r) \<and> \<not> public_route r) (SetupRouter True True)) =
   [(''POST'', ''/admin/tenants''), (''PATCH'', ''/admin/tenants/:id''), (''DELETE'', ''/admin/tenants/:id''),
    (''POST'', ''/tenant/members/invite''), (''PATCH'', ''/tenant/members/:user_id/role''), (''DELETE'', ''/tenant/members/:user_id''),
    (''POST'', ''/agents/:id/conversations''), (''PATCH'', ''/conversations/:convID''), (''DELETE'', ''/conversations/:convID''),
    (''POST'', ''/conversations/:convID/messages''), (''POST'', ''/memory/search''), (''POST'', ''/memory/extract-entities'')]"
  by code_simp

end
