(* ===== verification/Public_DB.thy ===== *)
theory Public_DB
  imports Go_Base
begin

text \<open>
  The public schema of the PostgreSQL database and the Redis cache, as far as authentication and
  tenant management use them. The tables and their constraints are those of
  internal/migration/sql (users, tenants with is_default, tenant_members, invitations,
  refresh_tokens); a table is the list of its rows. A statement is a function of the clock, a fresh
  default id and the tables; \<open>run_stmt\<close> executes one. What the server and the network do to the
  \<open>n\<close>-th call is given by the environment: it is executed, or lost before it takes effect, or it
  takes effect and its answer is lost. Transactions work on a copy that Commit installs; requests
  run one after the other inside them.
\<close>

section \<open>Tables\<close>

record user_row =
  us_id :: string
  us_github_id :: string
  us_login :: string
  us_avatar :: "string option"
  us_global_role :: string
  us_last_login :: "int option"

record tenant_row =
  tn_id :: string
  tn_name :: string
  tn_slug :: string
  tn_org :: "string option"
  tn_plan :: string
  tn_status :: string
  tn_settings :: "(string \<times> gval) list"
  tn_is_default :: bool
  tn_created :: int
  tn_deleted :: "int option"

record member_row =
  mb_tenant :: string
  mb_user :: string
  mb_role :: string
  mb_joined :: int

record invitation_row =
  iv_id :: string
  iv_tenant :: string
  iv_email :: string
  iv_role :: string
  iv_hash :: string
  iv_by :: string
  iv_expires :: int
  iv_accepted :: "int option"
  iv_created :: int

record refresh_row =
  rr_user :: string
  rr_tenant :: "string option"
  rr_hash :: string
  rr_expires :: int
  rr_revoked :: "int option"

record pub_db =
  t_users :: "user_row list"
  t_tenants :: "tenant_row list"
  t_members :: "member_row list"
  t_invitations :: "invitation_row list"
  t_refresh :: "refresh_row list"
  t_schemas :: "string list"

definition empty_db :: pub_db where
  "empty_db = \<lparr>t_users = [], t_tenants = [], t_members = [], t_invitations = [], t_refresh = [], t_schemas = []\<rparr>"

section \<open>Statements\<close>

definition ErrNoRows :: error where "ErrNoRows = ErrorString ''no rows in result set''"
definition fk_violation :: error where "fk_violation = ErrorString ''violates foreign key constraint''"
definition unique_violation :: error where "unique_violation = ErrorString ''violates unique constraint''"

text \<open>A statement sees the time, a fresh id for a generated key, and the tables.\<close>

type_synonym 'a stmt = "int \<Rightarrow> string \<Rightarrow> pub_db \<Rightarrow> (error + 'a) \<times> pub_db"

definition user_exists :: "pub_db \<Rightarrow> string \<Rightarrow> bool" where
  "user_exists d u \<longleftrightarrow> list_ex (\<lambda>r. us_id r = u) (t_users d)"

definition tenant_exists :: "pub_db \<Rightarrow> string \<Rightarrow> bool" where
  "tenant_exists d t \<longleftrightarrow> list_ex (\<lambda>r. tn_id r = t) (t_tenants d)"

definition member_key :: "string \<Rightarrow> string \<Rightarrow> member_row \<Rightarrow> bool" where
  "member_key t u r \<longleftrightarrow> mb_tenant r = t \<and> mb_user r = u"

definition query_row :: "'r list \<Rightarrow> error + 'r" where
  "query_row rs = (case rs of [] \<Rightarrow> Inl ErrNoRows | r # _ \<Rightarrow> Inr r)"

definition map_where :: "('r \<Rightarrow> bool) \<Rightarrow> ('r \<Rightarrow> 'r) \<Rightarrow> 'r list \<Rightarrow> 'r list" where
  "map_where P f rs = map (\<lambda>r. if P r then f r else r) rs"

lemma set_map_where: "r \<in> set (map_where P f rs) \<longleftrightarrow> (\<exists>q\<in>set rs. r = (if P q then f q else q))"
  by (auto simp: map_where_def)

section \<open>Environment and execution\<close>

datatype fault =
    Works
  | Lost error
  | Unacked error

record env =
  ev_fault :: "nat \<Rightarrow> fault"
  ev_clock :: "nat \<Rightarrow> int"
  ev_uuid :: "nat \<Rightarrow> string"
  ev_rand :: "nat \<Rightarrow> error + string"
  ev_hash :: "string \<Rightarrow> string"

text \<open>The state: the tables, the Redis keys with value and expiry, and the number of calls made so far.\<close>

record world =
  w_db :: pub_db
  w_redis :: "string \<rightharpoonup> string \<times> int"
  w_calls :: nat

definition tick :: "world \<Rightarrow> world" where
  "tick w = w\<lparr>w_calls := Suc (w_calls w)\<rparr>"

definition time_now :: "env \<Rightarrow> world \<Rightarrow> int" where
  "time_now ev w = ev_clock ev (w_calls w)"

definition run_stmt :: "env \<Rightarrow> 'a stmt \<Rightarrow> world \<Rightarrow> (error + 'a) \<times> world" where
  "run_stmt ev st w =
     (case st (time_now ev w) (ev_uuid ev (w_calls w)) (w_db w) of
        (r, d) \<Rightarrow>
          (case ev_fault ev (w_calls w) of
             Works \<Rightarrow> (r, tick (w\<lparr>w_db := d\<rparr>))
           | Lost e \<Rightarrow> (Inl e, tick w)
           | Unacked e \<Rightarrow> (Inl e, tick (w\<lparr>w_db := d\<rparr>))))"

definition begin_tx :: "env \<Rightarrow> world \<Rightarrow> error option \<times> world" where
  "begin_tx ev w = (case ev_fault ev (w_calls w) of Works \<Rightarrow> (None, tick w) | Lost e \<Rightarrow> (Some e, tick w) | Unacked e \<Rightarrow> (Some e, tick w))"

text \<open>Rollback puts back the tables from before the transaction; so does a commit that is lost.\<close>

definition rollback :: "pub_db \<Rightarrow> world \<Rightarrow> world" where
  "rollback old w = w\<lparr>w_db := old\<rparr>"

definition commit_tx :: "env \<Rightarrow> pub_db \<Rightarrow> world \<Rightarrow> error option \<times> world" where
  "commit_tx ev old w =
     (case ev_fault ev (w_calls w) of
        Works \<Rightarrow> (None, tick w)
      | Lost e \<Rightarrow> (Some e, tick (rollback old w))
      | Unacked e \<Rightarrow> (Some e, tick w))"

text \<open>Redis: a key that has expired is not there.\<close>

definition redis_set :: "env \<Rightarrow> string \<Rightarrow> string \<Rightarrow> int \<Rightarrow> world \<Rightarrow> world" where
  "redis_set ev k v ttl w =
     (case ev_fault ev (w_calls w) of
        Lost e \<Rightarrow> tick w
      | _ \<Rightarrow> tick (w\<lparr>w_redis := (w_redis w)(k \<mapsto> (v, time_now ev w + ttl))\<rparr>))"

definition redis_get :: "env \<Rightarrow> string \<Rightarrow> world \<Rightarrow> (error + string option) \<times> world" where
  "redis_get ev k w =
     (case ev_fault ev (w_calls w) of
        Works \<Rightarrow> (case w_redis w k of
            None \<Rightarrow> (Inr None, tick w)
          | Some (v, until) \<Rightarrow> (Inr (if time_now ev w < until then Some v else None), tick w))
      | Lost e \<Rightarrow> (Inl e, tick w)
      | Unacked e \<Rightarrow> (Inl e, tick w))"

lemma tick_simps [simp]: "w_db (tick w) = w_db w" "w_redis (tick w) = w_redis w" "w_calls (tick w) = Suc (w_calls w)"
  by (simp_all add: tick_def)

lemma rollback_simps [simp]: "w_db (rollback d w) = d" "w_redis (rollback d w) = w_redis w" "w_calls (rollback d w) = w_calls w"
  by (simp_all add: rollback_def)

lemma run_stmt_redis [simp]: "run_stmt ev st w = (r, w') \<Longrightarrow> w_redis w' = w_redis w"
  by (auto simp: run_stmt_def split: prod.splits fault.splits)

lemma redis_set_db [simp]: "w_db (redis_set ev k v ttl w) = w_db w"
  by (simp add: redis_set_def split: fault.split)

lemma redis_get_state [simp]: "redis_get ev k w = (r, w') \<Longrightarrow> w' = tick w"
  by (auto simp: redis_get_def split: fault.splits option.splits prod.splits)

text \<open>What holds of the tables after a statement, whether it was executed or lost.\<close>

lemma run_stmt_db:
  assumes "run_stmt ev st w = (r, w')" "P (w_db w)" "\<And>t u. P (snd (st t u (w_db w)))"
  shows "P (w_db w')"
proof -
  obtain r0 d0 where st: "st (time_now ev w) (ev_uuid ev (w_calls w)) (w_db w) = (r0, d0)" by fastforce
  with assms(3)[of "time_now ev w" "ev_uuid ev (w_calls w)"] have "P d0" by simp
  with assms(1,2) st show ?thesis by (auto simp: run_stmt_def split: fault.splits)
qed

lemma run_stmt_Inr:
  assumes "run_stmt ev st w = (Inr x, w')"
  shows "st (time_now ev w) (ev_uuid ev (w_calls w)) (w_db w) = (Inr x, w_db w')" and "ev_fault ev (w_calls w) = Works"
    and "w_calls w' = Suc (w_calls w)"
  using assms by (auto simp: run_stmt_def split: prod.splits fault.splits)

lemma run_stmt_fst_snd:
  assumes "run_stmt ev st w = (Inr x, w')"
  shows "w_db w' = snd (st (time_now ev w) (ev_uuid ev (w_calls w)) (w_db w))"
    and "fst (st (time_now ev w) (ev_uuid ev (w_calls w)) (w_db w)) = Inr x"
  using run_stmt_Inr(1)[OF assms] by simp_all

lemma run_stmt_Works:
  assumes "ev_fault ev (w_calls w) = Works" "st (time_now ev w) (ev_uuid ev (w_calls w)) (w_db w) = (r, d)"
  shows "run_stmt ev st w = (r, tick (w\<lparr>w_db := d\<rparr>))"
  using assms by (simp add: run_stmt_def)

lemma run_stmt_refused:
  assumes "\<And>t i. fst (st t i (w_db w)) = Inl e0"
  shows "\<exists>e w'. run_stmt ev st w = (Inl e, w')"
  using assms[of "time_now ev w" "ev_uuid ev (w_calls w)"]
  by (cases "st (time_now ev w) (ev_uuid ev (w_calls w)) (w_db w)") (simp add: run_stmt_def split: fault.split)

section \<open>An example\<close>

text \<open>A database with two users, one of them a member of a tenant, and an environment in which everything works.\<close>

definition demo_db :: pub_db where
  "demo_db = empty_db\<lparr>
     t_users := [\<lparr>us_id = ''u1'', us_github_id = ''7'', us_login = ''ada'', us_avatar = None, us_global_role = ''user'', us_last_login = None\<rparr>,
                 \<lparr>us_id = ''u2'', us_github_id = ''8'', us_login = ''bob'', us_avatar = None, us_global_role = ''user'', us_last_login = None\<rparr>],
     t_tenants := [\<lparr>tn_id = ''t1'', tn_name = ''Acme'', tn_slug = ''acme'', tn_org = None, tn_plan = ''free'', tn_status = ''active'',
                    tn_settings = [], tn_is_default = False, tn_created = 0, tn_deleted = None\<rparr>],
     t_members := [\<lparr>mb_tenant = ''t1'', mb_user = ''u1'', mb_role = ''owner'', mb_joined = 0\<rparr>,
                   \<lparr>mb_tenant = ''t1'', mb_user = ''u2'', mb_role = ''admin'', mb_joined = 1\<rparr>],
     t_refresh := [\<lparr>rr_user = ''u2'', rr_tenant = Some ''t1'', rr_hash = ''h:rt'', rr_expires = 1000, rr_revoked = None\<rparr>]\<rparr>"

definition demo_env :: env where
  "demo_env = \<lparr>ev_fault = (\<lambda>_. Works), ev_clock = int, ev_uuid = (\<lambda>n. ''id-'' @ show_nat n),
     ev_rand = (\<lambda>n. Inr (''random-'' @ show_nat n)), ev_hash = (\<lambda>s. ''h:'' @ s)\<rparr>"

definition demo_world :: world where
  "demo_world = \<lparr>w_db = demo_db, w_redis = Map.empty, w_calls = 0\<rparr>"

lemma run_stmt_all_work:
  "\<forall>n. ev_fault ev n = Works \<Longrightarrow> run_stmt ev st w =
     (fst (st (time_now ev w) (ev_uuid ev (w_calls w)) (w_db w)), tick (w\<lparr>w_db := snd (st (time_now ev w) (ev_uuid ev (w_calls w)) (w_db w))\<rparr>))"
  by (simp add: run_stmt_def split: prod.split)

end
