(* ===== verification/Token_Store.thy ===== *)
theory Token_Store
  imports Public_DB
begin

text \<open>
  Refresh tokens (internal/auth/token_store.go): rows in the table refresh_tokens, keyed by the hash
  of the token, and a Redis blacklist of revoked ones. Every database access is a single statement,
  so that the statements of concurrent requests interleave freely.

  Proved: a token that was rotated or revoked is never accepted again, whatever other operations,
  failures of the database and of Redis follow; however the statements of concurrent requests
  interleave, a token issued once is taken at most once; a rotation moves user and tenant to the new
  token; a rotation may lose the session, since it is not a transaction.
\<close>

section \<open>Statements\<close>

definition ins_refresh :: "string \<Rightarrow> string \<Rightarrow> string option \<Rightarrow> int \<Rightarrow> unit stmt" where
  "ins_refresh h u tid expires t i d =
     (if \<not> user_exists d u \<or> (case tid of None \<Rightarrow> False | Some tn \<Rightarrow> \<not> tenant_exists d tn) then (Inl fk_violation, d)
      else (Inr (), d\<lparr>t_refresh := t_refresh d @ [\<lparr>rr_user = u, rr_tenant = tid, rr_hash = h, rr_expires = expires, rr_revoked = None\<rparr>]\<rparr>))"

definition active_row :: "string \<Rightarrow> refresh_row \<Rightarrow> bool" where
  "active_row h r \<longleftrightarrow> rr_hash r = h \<and> rr_revoked r = None"

definition upd_revoke :: "string \<Rightarrow> refresh_row stmt" where
  "upd_revoke h t i d =
     (query_row (filter (active_row h) (t_refresh d)),
      d\<lparr>t_refresh := map_where (active_row h) (\<lambda>r. r\<lparr>rr_revoked := Some t\<rparr>) (t_refresh d)\<rparr>)"

definition sel_active_claims :: "string \<Rightarrow> (refresh_row \<times> user_row) stmt" where
  "sel_active_claims h t i d =
     (query_row (concat (map (\<lambda>r. map (Pair r) (filter (\<lambda>u. us_id u = rr_user r) (t_users d)))
        (filter (\<lambda>r. active_row h r \<and> t < rr_expires r) (t_refresh d)))), d)"

section \<open>Operations\<close>

definition blacklist_key :: "string \<Rightarrow> string" where
  "blacklist_key h = ''rt:blacklist:'' @ h"

definition Create :: "env \<Rightarrow> string \<Rightarrow> string \<Rightarrow> string \<Rightarrow> int \<Rightarrow> world \<Rightarrow> error option \<times> world" where
  "Create ev userID tenantID rawToken ttl w =
     (let h = ev_hash ev rawToken;
          expiresAt = time_now ev w + ttl;
          tid = (if tenantID \<noteq> '''' then Some tenantID else None)
      in case run_stmt ev (ins_refresh h userID tid expiresAt) w of
           (Inl err, w') \<Rightarrow> (Some (Wrapped ''token_store: create'' err), w')
         | (Inr _, w') \<Rightarrow> (None, w'))"

text \<open>The blacklist entry lives as long as the token would have.\<close>

definition blacklist :: "env \<Rightarrow> string \<Rightarrow> int \<Rightarrow> world \<Rightarrow> world" where
  "blacklist ev h expiresAt w =
     (let remaining = expiresAt - time_now ev w
      in if remaining > 0 then redis_set ev (blacklist_key h) ''1'' remaining w else w)"

definition Rotate :: "env \<Rightarrow> string \<Rightarrow> string \<Rightarrow> int \<Rightarrow> world \<Rightarrow> error option \<times> world" where
  "Rotate ev oldRaw newRaw ttl w =
     (let oldHash = ev_hash ev oldRaw
      in case run_stmt ev (upd_revoke oldHash) w of
           (Inl err, w1) \<Rightarrow> (Some (Wrapped ''token_store: rotate revoke old'' err), w1)
         | (Inr row, w1) \<Rightarrow>
             (let w2 = blacklist ev oldHash (rr_expires row) w1;
                  tid = (case rr_tenant row of None \<Rightarrow> '''' | Some t \<Rightarrow> t)
              in Create ev (rr_user row) tid newRaw ttl w2))"

definition Revoke :: "env \<Rightarrow> string \<Rightarrow> world \<Rightarrow> error option \<times> world" where
  "Revoke ev rawToken w =
     (let h = ev_hash ev rawToken
      in case run_stmt ev (upd_revoke h) w of
           (Inl err, w1) \<Rightarrow> (Some (Wrapped ''token_store: revoke'' err), w1)
         | (Inr row, w1) \<Rightarrow> (None, blacklist ev h (rr_expires row) w1))"

record StoredClaims =
  sc_UserID :: string
  sc_TenantID :: string
  sc_AvatarURL :: string
  sc_GitHubLogin :: string

definition GetActiveClaims :: "env \<Rightarrow> string \<Rightarrow> world \<Rightarrow> (error + StoredClaims) \<times> world" where
  "GetActiveClaims ev rawToken w =
     (case run_stmt ev (sel_active_claims (ev_hash ev rawToken)) w of
        (Inl err, w1) \<Rightarrow> (Inl (Wrapped ''token_store: get active claims'' err), w1)
      | (Inr (row, u), w1) \<Rightarrow>
          (Inr \<lparr>sc_UserID = rr_user row, sc_TenantID = (case rr_tenant row of None \<Rightarrow> '''' | Some t \<Rightarrow> t),
             sc_AvatarURL = (case us_avatar u of None \<Rightarrow> '''' | Some a \<Rightarrow> a), sc_GitHubLogin = us_login u\<rparr>, w1))"

definition IsBlacklisted :: "env \<Rightarrow> string \<Rightarrow> world \<Rightarrow> (error + bool) \<times> world" where
  "IsBlacklisted ev rawToken w =
     (case redis_get ev (blacklist_key (ev_hash ev rawToken)) w of
        (Inl err, w1) \<Rightarrow> (Inl (Wrapped ''token_store: redis get'' err), w1)
      | (Inr None, w1) \<Rightarrow> (Inr False, w1)
      | (Inr (Some v), w1) \<Rightarrow> (Inr (v = ''1''), w1))"

section \<open>Dead tokens stay dead\<close>

text \<open>No row of the hash is active.\<close>

definition dead :: "string \<Rightarrow> pub_db \<Rightarrow> bool" where
  "dead h d \<longleftrightarrow> filter (active_row h) (t_refresh d) = []"

lemma dead_iff: "dead h d \<longleftrightarrow> (\<forall>r\<in>set (t_refresh d). \<not> active_row h r)"
  by (simp add: dead_def filter_empty_conv)

lemma dead_revoke:
  assumes "dead h d \<or> h = h'"
  shows "dead h (snd (upd_revoke h' t i d))"
proof -
  have "\<not> active_row h (if active_row h' r then r\<lparr>rr_revoked := Some t\<rparr> else r)" if "r \<in> set (t_refresh d)" for r
    using assms that by (cases "active_row h' r") (auto simp: dead_iff active_row_def)
  then show ?thesis by (auto simp: dead_iff upd_revoke_def set_map_where)
qed

lemma dead_ins: "h' \<noteq> h \<Longrightarrow> dead h d \<Longrightarrow> dead h (snd (ins_refresh h' u tid e t i d))"
  by (simp add: dead_def ins_refresh_def active_row_def split: option.split)

lemma sel_db [simp]: "snd (sel_active_claims h t i d) = d"
  by (simp add: sel_active_claims_def)

lemma run_revoke_dead: "dead h (w_db w) \<Longrightarrow> run_stmt ev (upd_revoke h') w = (r, w') \<Longrightarrow> dead h (w_db w')"
  by (erule run_stmt_db) (auto intro: dead_revoke)

lemma run_revoke_kills: "run_stmt ev (upd_revoke h) w = (Inr r, w') \<Longrightarrow> dead h (w_db w')"
  using run_stmt_Inr(1)[of ev "upd_revoke h" w r w'] dead_revoke[of h "w_db w" h] by (metis snd_conv)

lemma run_sel_db: "run_stmt ev (sel_active_claims h) w = (r, w') \<Longrightarrow> w_db w' = w_db w"
  using run_stmt_db[of ev "sel_active_claims h" w r w' "\<lambda>d. d = w_db w"] by simp

lemma blacklist_db [simp]: "w_db (blacklist ev h e w) = w_db w"
  by (simp add: blacklist_def Let_def)

lemma Create_dead:
  assumes "Create ev u t raw ttl w = (r, w')" "ev_hash ev raw \<noteq> h" "dead h (w_db w)"
  shows "dead h (w_db w')"
proof -
  obtain r1 w1 where s: "run_stmt ev (ins_refresh (ev_hash ev raw) u (if t \<noteq> '''' then Some t else None) (time_now ev w + ttl)) w = (r1, w1)"
    by fastforce
  with assms(1) have "w' = w1" by (auto simp: Create_def Let_def split: sum.splits)
  with run_stmt_db[OF s, of "dead h"] assms(2,3) show ?thesis by (simp add: dead_ins)
qed

lemma Revoke_dead: "Revoke ev raw w = (r, w') \<Longrightarrow> dead h (w_db w) \<Longrightarrow> dead h (w_db w')"
  by (auto simp: Revoke_def Let_def split: prod.splits sum.splits dest: run_revoke_dead)

lemma Rotate_dead:
  assumes "Rotate ev old new ttl w = (r, w')" "ev_hash ev new \<noteq> h" "dead h (w_db w)"
  shows "dead h (w_db w')"
  using assms by (auto simp: Rotate_def Let_def split: prod.splits sum.splits dest: run_revoke_dead elim!: Create_dead)

text \<open>A dead token is refused by every operation that takes one.\<close>

lemma dead_refused:
  assumes "dead (ev_hash ev raw) (w_db w)"
  shows "isl (fst (GetActiveClaims ev raw w))" and "fst (Rotate ev raw new ttl w) \<noteq> None" and "fst (Revoke ev raw w) \<noteq> None"
proof -
  have no_sel: "fst (sel_active_claims (ev_hash ev raw) t i (w_db w)) = Inl ErrNoRows" for t i
    using assms by (auto simp: dead_def sel_active_claims_def query_row_def filter_empty_conv split: list.splits)
  have no_upd: "fst (upd_revoke (ev_hash ev raw) t i (w_db w)) = Inl ErrNoRows" for t i
    using assms by (simp add: dead_def upd_revoke_def query_row_def)
  show "isl (fst (GetActiveClaims ev raw w))"
    using run_stmt_refused[of "sel_active_claims (ev_hash ev raw)" w ErrNoRows ev, OF no_sel] by (auto simp: GetActiveClaims_def)
  show "fst (Rotate ev raw new ttl w) \<noteq> None" "fst (Revoke ev raw w) \<noteq> None"
    using run_stmt_refused[of "upd_revoke (ev_hash ev raw)" w ErrNoRows ev, OF no_upd] by (auto simp: Rotate_def Revoke_def)
qed

text \<open>What may happen to the store while a token with hash \<open>h\<close> is not issued anew.\<close>

inductive store_step :: "env \<Rightarrow> string \<Rightarrow> world \<Rightarrow> world \<Rightarrow> bool" for ev h where
  step_Create: "Create ev u t raw ttl w = (r, w') \<Longrightarrow> ev_hash ev raw \<noteq> h \<Longrightarrow> store_step ev h w w'"
| step_Rotate: "Rotate ev old new ttl w = (r, w') \<Longrightarrow> ev_hash ev new \<noteq> h \<Longrightarrow> store_step ev h w w'"
| step_Revoke: "Revoke ev raw w = (r, w') \<Longrightarrow> store_step ev h w w'"
| step_Claims: "GetActiveClaims ev raw w = (c, w') \<Longrightarrow> store_step ev h w w'"
| step_Blacklisted: "IsBlacklisted ev raw w = (b, w') \<Longrightarrow> store_step ev h w w'"

lemma GetActiveClaims_db: "GetActiveClaims ev raw w = (c, w') \<Longrightarrow> w_db w' = w_db w"
  by (auto simp: GetActiveClaims_def split: prod.splits sum.splits dest: run_sel_db)

lemma IsBlacklisted_db: "IsBlacklisted ev raw w = (b, w') \<Longrightarrow> w_db w' = w_db w"
  by (auto simp: IsBlacklisted_def split: prod.splits sum.splits option.splits dest: redis_get_state)

lemma store_step_dead: "store_step ev h w w' \<Longrightarrow> dead h (w_db w) \<Longrightarrow> dead h (w_db w')"
  by (induction rule: store_step.induct)
     (simp_all add: GetActiveClaims_db IsBlacklisted_db, (blast intro: Create_dead Rotate_dead Revoke_dead)+)

interpretation token_death: invariant_system "\<lambda>w. dead h (w_db w)" "store_step ev h" "\<lambda>w. dead h (w_db w)" for ev h
  by unfold_locales (auto intro: store_step_dead)

text \<open>A refresh token that was rotated or revoked successfully is refused from then on: after any sequence of operations
  of the store that does not issue a token with its hash, and whatever calls to the database and to Redis fail on the way,
  neither its claims are found nor can it be rotated or revoked again.\<close>

theorem used_token_stays_dead:
  assumes "Rotate ev raw new ttl w = (None, w1) \<and> ev_hash ev new \<noteq> ev_hash ev raw \<or> Revoke ev raw w = (None, w1)"
    and "rtranclp (store_step ev (ev_hash ev raw)) w1 w2"
  shows "isl (fst (GetActiveClaims ev raw w2)) \<and> fst (Rotate ev raw new' ttl' w2) \<noteq> None \<and> fst (Revoke ev raw w2) \<noteq> None"
proof -
  have "dead (ev_hash ev raw) (w_db w1)"
    using assms(1)
    by (auto simp: Rotate_def Revoke_def Let_def split: prod.splits sum.splits dest!: run_revoke_kills elim!: Create_dead)
  from token_death.steps_inv[OF assms(2) this] show ?thesis by (simp add: dead_refused)
qed

theorem used_token_stays_dead_witness:
  "isl (fst (GetActiveClaims demo_env ''rt'' (snd (Rotate demo_env ''rt'' ''new'' 500 demo_world))))"
proof -
  have "fst (Rotate demo_env ''rt'' ''new'' 500 demo_world) = None" by code_simp
  then have "Rotate demo_env ''rt'' ''new'' 500 demo_world = (None, snd (Rotate demo_env ''rt'' ''new'' 500 demo_world))"
    by (metis prod.collapse)
  moreover have "ev_hash demo_env ''new'' \<noteq> ev_hash demo_env ''rt''" by (simp add: demo_env_def)
  ultimately show ?thesis using used_token_stays_dead by blast
qed

section \<open>Concurrent requests\<close>

text \<open>
  The statements that concurrent requests send, in the order in which the database executes them.
  \<open>takes\<close> counts the updates that returned a row for \<open>h\<close>: the requests that go on with the token.
\<close>

datatype store_op =
    Insert string string "string option" int
  | Take string

fun takes :: "env \<Rightarrow> string \<Rightarrow> store_op list \<Rightarrow> world \<Rightarrow> nat" where
  "takes ev h [] w = 0"
| "takes ev h (Insert h' u tid e # ops) w = takes ev h ops (snd (run_stmt ev (ins_refresh h' u tid e) w))"
| "takes ev h (Take h' # ops) w =
     (case run_stmt ev (upd_revoke h') w of
        (Inr _, w') \<Rightarrow> (if h' = h then 1 else 0) + takes ev h ops w'
      | (Inl _, w') \<Rightarrow> takes ev h ops w')"

fun inserts :: "string \<Rightarrow> store_op list \<Rightarrow> nat" where
  "inserts h [] = 0"
| "inserts h (Insert h' u tid e # ops) = (if h' = h then 1 else 0) + inserts h ops"
| "inserts h (Take h' # ops) = inserts h ops"

definition active_count :: "string \<Rightarrow> pub_db \<Rightarrow> nat" where
  "active_count h d = length (filter (active_row h) (t_refresh d))"

lemma active_count_ins:
  "active_count h (snd (ins_refresh h' u tid e t i d)) \<le> active_count h d + (if h' = h then 1 else 0)"
  by (simp add: active_count_def ins_refresh_def active_row_def split: option.split)

lemma active_count_revoke: "active_count h (snd (upd_revoke h' t i d)) \<le> active_count h d"
proof -
  have "length (filter (active_row h) (map_where (active_row h') (\<lambda>r. r\<lparr>rr_revoked := Some t\<rparr>) rs)) \<le> length (filter (active_row h) rs)" for rs
    by (induction rs) (auto simp: map_where_def active_row_def)
  then show ?thesis by (simp add: active_count_def upd_revoke_def)
qed

lemma active_count_dead: "dead h d \<longleftrightarrow> active_count h d = 0"
  by (simp add: dead_def active_count_def)

text \<open>A successful update finds an active row and leaves none.\<close>

lemma take_needs_row: "run_stmt ev (upd_revoke h) w = (Inr r, w') \<Longrightarrow> 0 < active_count h (w_db w) \<and> active_count h (w_db w') = 0"
  using run_revoke_kills[of ev h w r w'] run_stmt_Inr(1)[of ev "upd_revoke h" w r w']
  by (auto simp: active_count_dead upd_revoke_def query_row_def active_count_def split: list.splits)

text \<open>C17: Whatever statements concurrent refreshes, rotations, revocations and logins send, in whatever order the database
  executes them and whichever of them fail, a refresh token is taken at most as often as it was issued: a token that was issued
  once is given to at most one of the requests that present it.\<close>

theorem token_taken_at_most_once:
  "takes ev h ops w \<le> active_count h (w_db w) + inserts h ops"
proof (induction ops arbitrary: w)
  case (Cons op ops)
  show ?case
  proof (cases op)
    case (Insert h' u tid e)
    obtain r w' where s: "run_stmt ev (ins_refresh h' u tid e) w = (r, w')" by fastforce
    have "active_count h (w_db w') \<le> active_count h (w_db w) + (if h' = h then 1 else 0)"
      by (rule run_stmt_db[OF s]) (simp, rule active_count_ins)
    with Cons.IH[of w'] show ?thesis by (simp add: Insert s)
  next
    case (Take h')
    obtain r w' where s: "run_stmt ev (upd_revoke h') w = (r, w')" by fastforce
    have le: "active_count h (w_db w') \<le> active_count h (w_db w)"
      by (rule run_stmt_db[OF s]) (auto intro: active_count_revoke)
    show ?thesis
    proof (cases r)
      case (Inr x)
      with take_needs_row[of ev h' w x w'] s Cons.IH[of w'] le show ?thesis by (auto simp: Take split: if_splits)
    qed (use Cons.IH[of w'] le in \<open>simp add: Take s\<close>)
  qed
qed simp

section \<open>Rotation\<close>

lemma Create_Some:
  assumes "Create ev u t raw ttl w = (None, w')"
  shows "w_db w' = (w_db w)\<lparr>t_refresh := t_refresh (w_db w) @ [\<lparr>rr_user = u, rr_tenant = (if t \<noteq> '''' then Some t else None),
      rr_hash = ev_hash ev raw, rr_expires = time_now ev w + ttl, rr_revoked = None\<rparr>]\<rparr>"
    and "user_exists (w_db w) u" and "w_calls w' = Suc (w_calls w)"
proof -
  from assms obtain x where s: "run_stmt ev (ins_refresh (ev_hash ev raw) u (if t \<noteq> '''' then Some t else None) (time_now ev w + ttl)) w = (Inr x, w')"
    by (auto simp: Create_def Let_def split: prod.splits sum.splits)
  note i = run_stmt_Inr(1)[OF s]
  show "w_db w' = (w_db w)\<lparr>t_refresh := t_refresh (w_db w) @ [\<lparr>rr_user = u, rr_tenant = (if t \<noteq> '''' then Some t else None),
      rr_hash = ev_hash ev raw, rr_expires = time_now ev w + ttl, rr_revoked = None\<rparr>]\<rparr>" "user_exists (w_db w) u"
    using i by (auto simp: ins_refresh_def split: if_splits)
  show "w_calls w' = Suc (w_calls w)" by (rule run_stmt_Inr(3)[OF s])
qed

text \<open>What a rotation returns when it succeeds.\<close>

lemma Rotate_None:
  assumes "Rotate ev old new ttl w = (None, w')"
  obtains row w1 where "row \<in> set (t_refresh (w_db w))" "active_row (ev_hash ev old) row"
    "t_refresh (w_db w') = map_where (active_row (ev_hash ev old)) (\<lambda>r. r\<lparr>rr_revoked := Some (time_now ev w)\<rparr>) (t_refresh (w_db w)) @
      [\<lparr>rr_user = rr_user row, rr_tenant = (case rr_tenant row of None \<Rightarrow> None | Some t \<Rightarrow> if t \<noteq> '''' then Some t else None),
        rr_hash = ev_hash ev new, rr_expires = time_now ev w1 + ttl, rr_revoked = None\<rparr>]"
    "w_calls w' = Suc (w_calls w1)" "t_users (w_db w') = t_users (w_db w)" "user_exists (w_db w) (rr_user row)"
proof -
  from assms obtain row w1 where s: "run_stmt ev (upd_revoke (ev_hash ev old)) w = (Inr row, w1)"
    and c: "Create ev (rr_user row) (case rr_tenant row of None \<Rightarrow> '''' | Some t \<Rightarrow> t) new ttl (blacklist ev (ev_hash ev old) (rr_expires row) w1) = (None, w')"
    by (auto simp: Rotate_def Let_def split: prod.splits sum.splits)
  note u = run_stmt_Inr(1)[OF s]
  from u have row: "row \<in> set (t_refresh (w_db w))" "active_row (ev_hash ev old) row"
    by (auto simp: upd_revoke_def query_row_def filter_eq_Cons_iff split: list.splits)
  have d1: "w_db w1 = (w_db w)\<lparr>t_refresh := map_where (active_row (ev_hash ev old)) (\<lambda>r. r\<lparr>rr_revoked := Some (time_now ev w)\<rparr>) (t_refresh (w_db w))\<rparr>"
    using u by (simp add: upd_revoke_def)
  show ?thesis
    by (rule that[OF row, of "blacklist ev (ev_hash ev old) (rr_expires row) w1"])
       (use Create_Some[OF c] in \<open>auto simp: d1 user_exists_def split: option.splits\<close>)
qed

lemma sel_active_claims_only:
  assumes "filter (active_row h) (t_refresh d) = [r]"
  shows "sel_active_claims h t i d = (if t < rr_expires r then (case filter (\<lambda>u. us_id u = rr_user r) (t_users d) of [] \<Rightarrow> Inl ErrNoRows | u # _ \<Rightarrow> Inr (r, u)) else Inl ErrNoRows, d)"
proof -
  have "filter (\<lambda>r. active_row h r \<and> t < rr_expires r) (t_refresh d) = filter (\<lambda>r. t < rr_expires r) [r]"
    unfolding assms[symmetric] filter_filter by (rule filter_cong) auto
  then show ?thesis by (simp add: sel_active_claims_def query_row_def split: list.split)
qed

lemma GetActiveClaims_Inr:
  assumes "GetActiveClaims ev raw w = (Inr c, w')"
  obtains r u where "run_stmt ev (sel_active_claims (ev_hash ev raw)) w = (Inr (r, u), w')"
    "c = \<lparr>sc_UserID = rr_user r, sc_TenantID = (case rr_tenant r of None \<Rightarrow> '''' | Some t \<Rightarrow> t),
       sc_AvatarURL = (case us_avatar u of None \<Rightarrow> '''' | Some a \<Rightarrow> a), sc_GitHubLogin = us_login u\<rparr>"
  using assms
  by (cases "run_stmt ev (sel_active_claims (ev_hash ev raw)) w"; cases "fst (run_stmt ev (sel_active_claims (ev_hash ev raw)) w)")
     (auto simp: GetActiveClaims_def)

text \<open>A rotation hands the session over: when a token with a hash of its own gives claims and is then rotated to a fresh
  token successfully, the new token gives exactly the same user, tenant, avatar and login, until its own time to live is over.\<close>

theorem rotate_keeps_session:
  assumes "GetActiveClaims ev old w0 = (Inr c, w)" and "filter (\<lambda>r. rr_hash r = ev_hash ev old) (t_refresh (w_db w0)) = [row]"
    and "dead (ev_hash ev new) (w_db w0)" and "ev_hash ev new \<noteq> ev_hash ev old"
    and "Rotate ev old new ttl w = (None, w')"
    and "ev_fault ev (w_calls w') = Works" and "ev_clock ev (w_calls w') < ev_clock ev (w_calls w' - 1) + ttl"
  shows "fst (GetActiveClaims ev new w') = Inr c"
proof -
  have db: "w_db w = w_db w0" using assms(1) by (rule GetActiveClaims_db)
  from assms(5) obtain row' w1 where row': "row' \<in> set (t_refresh (w_db w))" "active_row (ev_hash ev old) row'"
    and tab: "t_refresh (w_db w') = map_where (active_row (ev_hash ev old)) (\<lambda>r. r\<lparr>rr_revoked := Some (time_now ev w)\<rparr>) (t_refresh (w_db w)) @
      [\<lparr>rr_user = rr_user row', rr_tenant = (case rr_tenant row' of None \<Rightarrow> None | Some t \<Rightarrow> if t \<noteq> '''' then Some t else None),
        rr_hash = ev_hash ev new, rr_expires = time_now ev w1 + ttl, rr_revoked = None\<rparr>]"
    and calls: "w_calls w' = Suc (w_calls w1)" and users: "t_users (w_db w') = t_users (w_db w)"
    by (rule Rotate_None)
  have "row' \<in> set (filter (\<lambda>r. rr_hash r = ev_hash ev old) (t_refresh (w_db w0)))" using row' db by (simp add: active_row_def)
  then have rr: "row' = row" unfolding assms(2) by simp
  have "filter (active_row (ev_hash ev old)) (t_refresh (w_db w0)) = filter (\<lambda>r. rr_revoked r = None) [row]"
    unfolding assms(2)[symmetric] filter_filter by (rule filter_cong) (auto simp: active_row_def)
  then have one: "filter (active_row (ev_hash ev old)) (t_refresh (w_db w0)) = [row]" using row'(2) rr by (simp add: active_row_def)
  from assms(1) obtain r u0 where g: "run_stmt ev (sel_active_claims (ev_hash ev old)) w0 = (Inr (r, u0), w)"
    and c0: "c = \<lparr>sc_UserID = rr_user r, sc_TenantID = (case rr_tenant r of None \<Rightarrow> '''' | Some t \<Rightarrow> t),
       sc_AvatarURL = (case us_avatar u0 of None \<Rightarrow> '''' | Some a \<Rightarrow> a), sc_GitHubLogin = us_login u0\<rparr>"
    by (rule GetActiveClaims_Inr)
  from run_stmt_Inr(1)[OF g] obtain us where u: "filter (\<lambda>u. us_id u = rr_user row) (t_users (w_db w0)) = u0 # us" and r: "r = row"
    unfolding sel_active_claims_only[OF one] by (cases "filter (\<lambda>u. us_id u = rr_user row) (t_users (w_db w0))") (auto split: if_splits)
  have "\<not> active_row (ev_hash ev new) (if active_row (ev_hash ev old) r then r\<lparr>rr_revoked := Some (time_now ev w)\<rparr> else r)"
    if "r \<in> set (t_refresh (w_db w))" for r
    using assms(3,4) that db by (cases "active_row (ev_hash ev old) r") (simp_all add: dead_iff, simp add: active_row_def)
  then have none: "filter (active_row (ev_hash ev new)) (map_where (active_row (ev_hash ev old)) (\<lambda>r. r\<lparr>rr_revoked := Some (time_now ev w)\<rparr>) (t_refresh (w_db w))) = []"
    by (auto simp: filter_empty_conv set_map_where)
  have new: "filter (active_row (ev_hash ev new)) (t_refresh (w_db w')) = [\<lparr>rr_user = rr_user row,
      rr_tenant = (case rr_tenant row of None \<Rightarrow> None | Some t \<Rightarrow> if t \<noteq> '''' then Some t else None),
      rr_hash = ev_hash ev new, rr_expires = time_now ev w1 + ttl, rr_revoked = None\<rparr>]"
    unfolding tab filter_append none by (simp add: active_row_def rr)
  have t: "time_now ev w' < time_now ev w1 + ttl" using assms(7) calls by (simp add: time_now_def)
  have f: "filter (\<lambda>u. us_id u = rr_user row) (t_users (w_db w')) = u0 # us" using u users db by simp
  show ?thesis
    using assms(6) t f
    by (auto simp: GetActiveClaims_def run_stmt_def sel_active_claims_only[OF new] c0 r split: option.split)
qed

theorem rotate_keeps_session_witness:
  "fst (GetActiveClaims demo_env ''new'' (snd (Rotate demo_env ''rt'' ''new'' 500 (snd (GetActiveClaims demo_env ''rt'' demo_world))))) =
     Inr \<lparr>sc_UserID = ''u2'', sc_TenantID = ''t1'', sc_AvatarURL = '''', sc_GitHubLogin = ''bob''\<rparr>"
proof -
  define c where "c = \<lparr>sc_UserID = ''u2'', sc_TenantID = ''t1'', sc_AvatarURL = '''', sc_GitHubLogin = ''bob''\<rparr>"
  define w where "w = snd (GetActiveClaims demo_env ''rt'' demo_world)"
  define w' where "w' = snd (Rotate demo_env ''rt'' ''new'' 500 w)"
  have "fst (GetActiveClaims demo_env ''rt'' demo_world) = Inr c" unfolding c_def by code_simp
  then have 1: "GetActiveClaims demo_env ''rt'' demo_world = (Inr c, w)" by (simp add: w_def prod_eq_iff)
  have "fst (Rotate demo_env ''rt'' ''new'' 500 w) = None" unfolding w_def by code_simp
  then have 5: "Rotate demo_env ''rt'' ''new'' 500 w = (None, w')" by (simp add: w'_def prod_eq_iff)
  have 2: "filter (\<lambda>r. rr_hash r = ev_hash demo_env ''rt'') (t_refresh (w_db demo_world)) =
      [\<lparr>rr_user = ''u2'', rr_tenant = Some ''t1'', rr_hash = ''h:rt'', rr_expires = 1000, rr_revoked = None\<rparr>]"
    by (simp add: demo_world_def demo_db_def empty_db_def demo_env_def)
  have 3: "dead (ev_hash demo_env ''new'') (w_db demo_world)"
    by (simp add: dead_def demo_world_def demo_db_def empty_db_def demo_env_def active_row_def)
  have 4: "ev_hash demo_env ''new'' \<noteq> ev_hash demo_env ''rt''" by (simp add: demo_env_def)
  have 6: "ev_fault demo_env (w_calls w') = Works" "ev_clock demo_env (w_calls w') < ev_clock demo_env (w_calls w' - 1) + 500"
    by (simp_all add: demo_env_def)
  show ?thesis using rotate_keeps_session[OF 1 2 3 4 5 6] unfolding c_def w'_def w_def .
qed

text \<open>The rotation is not a transaction: when the insertion fails after the update, both tokens are dead.\<close>

definition second_call_fails :: env where
  "second_call_fails = demo_env\<lparr>ev_fault := (\<lambda>n. if n = 2 then Lost (ErrorString ''conn closed'') else Works)\<rparr>"

lemma rotate_may_lose_session:
  "fst (Rotate second_call_fails ''rt'' ''new'' 500 demo_world) = Some (Wrapped ''token_store: create'' (ErrorString ''conn closed''))"
  "isl (fst (GetActiveClaims demo_env ''rt'' (snd (Rotate second_call_fails ''rt'' ''new'' 500 demo_world))))"
  "isl (fst (GetActiveClaims demo_env ''new'' (snd (Rotate second_call_fails ''rt'' ''new'' 500 demo_world))))"
  by code_simp+

end
