(* ===== verification/Onboard.thy ===== *)
theory Onboard
  imports Public_DB
begin

text \<open>
  The onboarding service (internal/auth/onboard.go): users, tenants, memberships and invitations.
  Each query of the source is one statement over the tables of \<open>Public_DB\<close>; the operations that
  open a transaction restore the tables on every error. Rows that SQL leaves unordered are taken in
  the order of the table.

  Proved: creating a tenant is all or nothing, and its creator becomes its owner; an invitation is
  accepted at most once; joining the default tenant overwrites the role the user had there; no
  operation takes the role of an owner of another tenant away.
\<close>

section \<open>Statements\<close>

definition upsert_user :: "string \<Rightarrow> string \<Rightarrow> string \<Rightarrow> (string \<times> string) stmt" where
  "upsert_user gid login avatar t i d =
     (case filter (\<lambda>u. us_github_id u = gid) (t_users d) of
        [] \<Rightarrow> (Inr (i, ''user''), d\<lparr>t_users := t_users d @ [\<lparr>us_id = i, us_github_id = gid, us_login = login, us_avatar = Some avatar,
                 us_global_role = ''user'', us_last_login = None\<rparr>]\<rparr>)
      | u # _ \<Rightarrow> (Inr (us_id u, us_global_role u),
          d\<lparr>t_users := map_where (\<lambda>u. us_github_id u = gid) (\<lambda>u. u\<lparr>us_login := login, us_avatar := Some avatar, us_last_login := Some t\<rparr>) (t_users d)\<rparr>))"

definition ins_tenant :: "string \<Rightarrow> string \<Rightarrow> string \<Rightarrow> string option \<Rightarrow> unit stmt" where
  "ins_tenant tid name slug org t i d =
     (if list_ex (\<lambda>r. tn_id r = tid \<or> tn_slug r = slug) (t_tenants d) then (Inl unique_violation, d)
      else (Inr (), d\<lparr>t_tenants := t_tenants d @ [\<lparr>tn_id = tid, tn_name = name, tn_slug = slug, tn_org = org, tn_plan = ''free'',
              tn_status = ''active'', tn_settings = [], tn_is_default = False, tn_created = t, tn_deleted = None\<rparr>]\<rparr>))"

definition new_member :: "string \<Rightarrow> string \<Rightarrow> string \<Rightarrow> int \<Rightarrow> member_row" where
  "new_member tid u role t = \<lparr>mb_tenant = tid, mb_user = u, mb_role = role, mb_joined = t\<rparr>"

definition ins_member :: "string \<Rightarrow> string \<Rightarrow> string \<Rightarrow> unit stmt" where
  "ins_member tid u role t i d =
     (if \<not> user_exists d u \<or> \<not> tenant_exists d tid then (Inl fk_violation, d)
      else if list_ex (member_key tid u) (t_members d) then (Inl unique_violation, d)
      else (Inr (), d\<lparr>t_members := t_members d @ [new_member tid u role t]\<rparr>))"

text \<open>The two forms with ON CONFLICT: update the role, or do nothing.\<close>

definition upsert_member :: "string \<Rightarrow> string \<Rightarrow> string \<Rightarrow> unit stmt" where
  "upsert_member tid u role t i d =
     (if list_ex (member_key tid u) (t_members d)
      then (Inr (), d\<lparr>t_members := map_where (member_key tid u) (\<lambda>r. r\<lparr>mb_role := role\<rparr>) (t_members d)\<rparr>)
      else if \<not> user_exists d u \<or> \<not> tenant_exists d tid then (Inl fk_violation, d)
      else (Inr (), d\<lparr>t_members := t_members d @ [new_member tid u role t]\<rparr>))"

definition ins_member_if_new :: "string \<Rightarrow> string \<Rightarrow> string \<Rightarrow> unit stmt" where
  "ins_member_if_new tid u role t i d =
     (if list_ex (member_key tid u) (t_members d) then (Inr (), d)
      else if \<not> user_exists d u \<or> \<not> tenant_exists d tid then (Inl fk_violation, d)
      else (Inr (), d\<lparr>t_members := t_members d @ [new_member tid u role t]\<rparr>))"

definition create_schema :: "string \<Rightarrow> unit stmt" where
  "create_schema s t i d = (Inr (), if s \<in> set (t_schemas d) then d else d\<lparr>t_schemas := t_schemas d @ [s]\<rparr>)"

definition sel_default_tenant :: "string stmt" where
  "sel_default_tenant t i d = (map_sum id tn_id (query_row (filter tn_is_default (t_tenants d))), d)"

definition open_invitation :: "int \<Rightarrow> string \<Rightarrow> invitation_row \<Rightarrow> bool" where
  "open_invitation t h r \<longleftrightarrow> iv_hash r = h \<and> iv_accepted r = None \<and> t < iv_expires r"

definition accept_invitation :: "int \<Rightarrow> string \<Rightarrow> invitation_row stmt" where
  "accept_invitation t0 h t i d =
     (query_row (filter (open_invitation t0 h) (t_invitations d)),
      d\<lparr>t_invitations := map_where (open_invitation t0 h) (\<lambda>r. r\<lparr>iv_accepted := Some t0\<rparr>) (t_invitations d)\<rparr>)"

section \<open>Combining statements\<close>

definition stmt_then :: "env \<Rightarrow> string \<Rightarrow> 'a stmt \<Rightarrow> ('a \<Rightarrow> world \<Rightarrow> (error + 'b) \<times> world) \<Rightarrow> world \<Rightarrow> (error + 'b) \<times> world" where
  "stmt_then ev msg st k w =
     (case run_stmt ev st w of
        (Inl err, w') \<Rightarrow> (Inl (Wrapped msg err), w')
      | (Inr x, w') \<Rightarrow> k x w')"

text \<open>BeginTx, the body, Commit; the deferred Rollback after an error. \<open>f\<close> is what becomes of an error of Commit.\<close>

definition in_tx :: "env \<Rightarrow> (error \<Rightarrow> error) \<Rightarrow> (world \<Rightarrow> (error + 'a) \<times> world) \<Rightarrow> world \<Rightarrow> (error + 'a) \<times> world" where
  "in_tx ev f body w =
     (case begin_tx ev w of
        (Some err, w1) \<Rightarrow> (Inl (Wrapped ''onboard: begin tx'' err), w1)
      | (None, w1) \<Rightarrow>
          (case body w1 of
             (Inl err, w2) \<Rightarrow> (Inl err, rollback (w_db w) w2)
           | (Inr x, w2) \<Rightarrow>
               (case commit_tx ev (w_db w) w2 of
                  (Some err, w3) \<Rightarrow> (Inl (f err), w3)
                | (None, w3) \<Rightarrow> (Inr x, w3))))"

section \<open>Operations\<close>

record CreateTenantInput =
  ci_GitHubID :: int
  ci_GitHubLogin :: string
  ci_AvatarURL :: string
  ci_Name :: string
  ci_GitHubOrg :: string

record CreateTenantResult =
  cr_TenantID :: string
  cr_SchemaName :: string
  cr_UserUUID :: string

text \<open>The id of the tenant is drawn before the transaction begins.\<close>

definition CreateTenant :: "env \<Rightarrow> CreateTenantInput \<Rightarrow> world \<Rightarrow> (error + CreateTenantResult) \<times> world" where
  "CreateTenant ev inp w =
     (let tenantID = ev_uuid ev (w_calls w);
          schemaName = ''tenant_'' @ tenantID
      in in_tx ev (Wrapped ''onboard: commit'')
           (stmt_then ev ''onboard: upsert user'' (upsert_user (show_int (ci_GitHubID inp)) (ci_GitHubLogin inp) (ci_AvatarURL inp)) (\<lambda>(uid, gr).
              let slug = (if ci_GitHubOrg inp = '''' then take 8 tenantID else ci_GitHubOrg inp) in
              stmt_then ev ''onboard: insert tenant'' (ins_tenant tenantID (ci_Name inp) slug (Some (ci_GitHubOrg inp))) (\<lambda>_.
              stmt_then ev ''onboard: insert tenant_member'' (ins_member tenantID uid ''owner'') (\<lambda>_.
              stmt_then ev ''onboard: create schema'' (create_schema schemaName) (\<lambda>_ w4.
                (Inr \<lparr>cr_TenantID = tenantID, cr_SchemaName = schemaName, cr_UserUUID = uid\<rparr>, w4)))))) w)"

definition CreateTenantForUser :: "env \<Rightarrow> string \<Rightarrow> string \<Rightarrow> world \<Rightarrow> (error + string) \<times> world" where
  "CreateTenantForUser ev userID name w =
     (let tenantID = ev_uuid ev (w_calls w);
          schemaName = ''tenant_'' @ tenantID
      in in_tx ev (Wrapped ''onboard: commit'')
           (stmt_then ev ''onboard: insert tenant'' (ins_tenant tenantID name (take 8 tenantID) None) (\<lambda>_.
            stmt_then ev ''onboard: insert tenant_member'' (ins_member tenantID userID ''owner'') (\<lambda>_.
            stmt_then ev ''onboard: create schema'' (create_schema schemaName) (\<lambda>_ w3. (Inr tenantID, w3))))) w)"

definition sel_user_tenant :: "string \<Rightarrow> (string \<times> string) stmt" where
  "sel_user_tenant gid t i d =
     (query_row (concat (map (\<lambda>u. case filter (\<lambda>m. mb_user m = us_id u) (t_members d) of
          [] \<Rightarrow> [(us_id u, '''')] | ms \<Rightarrow> map (\<lambda>m. (us_id u, mb_tenant m)) ms)
        (filter (\<lambda>u. us_github_id u = gid) (t_users d)))), d)"

text \<open>Found, with user id and tenant id, or not found.\<close>

definition GetUserTenant :: "env \<Rightarrow> string \<Rightarrow> world \<Rightarrow> (error + (string \<times> string) option) \<times> world" where
  "GetUserTenant ev githubID w =
     (case run_stmt ev (sel_user_tenant githubID) w of
        (Inl err, w') \<Rightarrow> (if errors_is err ErrNoRows then (Inr None, w') else (Inl (Wrapped ''onboard: get user tenant'' err), w'))
      | (Inr x, w') \<Rightarrow> (Inr (Some x), w'))"

record TenantInfo =
  ti_TenantID :: string
  ti_Name :: string
  ti_IsDefault :: bool
  ti_Role :: string
  ti_CreatedAt :: int

definition sel_user :: "string \<Rightarrow> (string \<times> string) stmt" where
  "sel_user gid t i d = (map_sum id (\<lambda>u. (us_id u, us_global_role u)) (query_row (filter (\<lambda>u. us_github_id u = gid) (t_users d))), d)"

text \<open>The tenants of a user that are not deleted, the default one first, then by age.\<close>

definition tenants_of :: "string \<Rightarrow> pub_db \<Rightarrow> TenantInfo list" where
  "tenants_of uid d =
     (let rows = concat (map (\<lambda>m. map (\<lambda>tn. \<lparr>ti_TenantID = tn_id tn, ti_Name = tn_name tn, ti_IsDefault = tn_is_default tn, ti_Role = mb_role m,
              ti_CreatedAt = tn_created tn\<rparr>) (filter (\<lambda>tn. tn_id tn = mb_tenant m \<and> tn_deleted tn = None) (t_tenants d)))
            (filter (\<lambda>m. mb_user m = uid) (t_members d)))
      in sort_key ti_CreatedAt (filter ti_IsDefault rows) @ sort_key ti_CreatedAt (filter (\<lambda>r. \<not> ti_IsDefault r) rows))"

definition sel_tenants_of :: "string \<Rightarrow> TenantInfo list stmt" where
  "sel_tenants_of uid t i d = (Inr (tenants_of uid d), d)"

definition GetUserTenants :: "env \<Rightarrow> string \<Rightarrow> world \<Rightarrow> (error + (string \<times> string \<times> TenantInfo list) option) \<times> world" where
  "GetUserTenants ev githubID w =
     (case run_stmt ev (sel_user githubID) w of
        (Inl err, w1) \<Rightarrow> (if errors_is err ErrNoRows then (Inr None, w1) else (Inl (Wrapped ''onboard: get user'' err), w1))
      | (Inr (uid, gr), w1) \<Rightarrow>
          stmt_then ev ''onboard: list tenants'' (sel_tenants_of uid) (\<lambda>ts w2. (Inr (Some (uid, gr, ts)), w2)) w1)"

definition upd_global_role :: "string \<Rightarrow> string \<Rightarrow> unit stmt" where
  "upd_global_role uid role t i d = (Inr (), d\<lparr>t_users := map_where (\<lambda>u. us_id u = uid) (\<lambda>u. u\<lparr>us_global_role := role\<rparr>) (t_users d)\<rparr>)"

definition SetGlobalRole :: "env \<Rightarrow> string \<Rightarrow> string \<Rightarrow> world \<Rightarrow> (error + unit) \<times> world" where
  "SetGlobalRole ev userID role = stmt_then ev ''onboard: set global role'' (upd_global_role userID role) (\<lambda>x w. (Inr x, w))"

definition sel_global_role :: "string \<Rightarrow> string stmt" where
  "sel_global_role uid t i d = (map_sum id us_global_role (query_row (filter (\<lambda>u. us_id u = uid) (t_users d))), d)"

definition GetGlobalRole :: "env \<Rightarrow> string \<Rightarrow> world \<Rightarrow> (error + string) \<times> world" where
  "GetGlobalRole ev userID = stmt_then ev ''onboard: get global role'' (sel_global_role userID) (\<lambda>x w. (Inr x, w))"

text \<open>\<^verbatim>\<open>strings.EqualFold\<close> on ASCII text, which GitHub logins are.\<close>

definition fold_char :: "char \<Rightarrow> char" where
  "fold_char c = (if 65 \<le> (of_char c :: nat) \<and> of_char c \<le> (90 :: nat) then char_of (of_char c + 32 :: nat) else c)"

definition EqualFold :: "string \<Rightarrow> string \<Rightarrow> bool" where
  "EqualFold s t \<longleftrightarrow> map fold_char s = map fold_char t"

text \<open>The role in the default tenant: owner for the login that the configuration names.\<close>

definition member_role_for :: "string \<Rightarrow> string \<Rightarrow> string" where
  "member_role_for adminLogin login = (if adminLogin \<noteq> '''' \<and> EqualFold login adminLogin then ''owner'' else ''member'')"

definition AutoJoinDefaultTenant :: "env \<Rightarrow> int \<Rightarrow> string \<Rightarrow> string \<Rightarrow> string \<Rightarrow> world \<Rightarrow> (error + string \<times> string \<times> string) \<times> world" where
  "AutoJoinDefaultTenant ev githubID githubLogin avatarURL globalAdminLogin =
     in_tx ev (Wrapped ''onboard: commit'')
       (stmt_then ev ''onboard: upsert user'' (upsert_user (show_int githubID) githubLogin avatarURL) (\<lambda>(uid, gr).
        stmt_then ev ''onboard: default tenant not found'' sel_default_tenant (\<lambda>tid.
          stmt_then ev ''onboard: join default tenant'' (upsert_member tid uid (member_role_for globalAdminLogin githubLogin)) (\<lambda>_ w3. (Inr (uid, tid, gr), w3)))))"

definition sel_tenant_role :: "string \<Rightarrow> string \<Rightarrow> string stmt" where
  "sel_tenant_role uid tid t i d = (map_sum id mb_role (query_row (filter (member_key tid uid) (t_members d))), d)"

definition GetTenantRole :: "env \<Rightarrow> string \<Rightarrow> string \<Rightarrow> world \<Rightarrow> (error + string) \<times> world" where
  "GetTenantRole ev userID tenantID = stmt_then ev ''onboard: get tenant role'' (sel_tenant_role userID tenantID) (\<lambda>x w. (Inr x, w))"

definition count_membership :: "string \<Rightarrow> string \<Rightarrow> nat stmt" where
  "count_membership uid tid t i d =
     (Inr (length (concat (map (\<lambda>m. filter (\<lambda>tn. tn_id tn = mb_tenant m \<and> tn_id tn = tid \<and> tn_deleted tn = None) (t_tenants d))
        (filter (\<lambda>m. mb_user m = uid) (t_members d))))), d)"

definition IsMember :: "env \<Rightarrow> string \<Rightarrow> string \<Rightarrow> world \<Rightarrow> (error + bool) \<times> world" where
  "IsMember ev userID tenantID = stmt_then ev ''onboard: is member'' (count_membership userID tenantID) (\<lambda>n w. (Inr (0 < n), w))"

text \<open>NOW() is the time at which the transaction began.\<close>

definition JoinTenant :: "env \<Rightarrow> string \<Rightarrow> string \<Rightarrow> world \<Rightarrow> (error + unit) \<times> world" where
  "JoinTenant ev userID invitationToken w =
     in_tx ev id
       (stmt_then ev ''onboard: invalid or expired invitation token'' (accept_invitation (time_now ev w) invitationToken) (\<lambda>inv.
        stmt_then ev ''onboard: insert tenant_member'' (ins_member_if_new (iv_tenant inv) userID (iv_role inv)) (\<lambda>_ w2. (Inr (), w2)))) w"

section \<open>Reasoning about sequences of statements\<close>

lemma stmt_then_Inr:
  assumes "stmt_then ev msg st k w = (Inr y, w')"
  obtains x w1 where "fst (st (time_now ev w) (ev_uuid ev (w_calls w)) (w_db w)) = Inr x"
    "w_db w1 = snd (st (time_now ev w) (ev_uuid ev (w_calls w)) (w_db w))" "k x w1 = (Inr y, w')" "w_calls w1 = Suc (w_calls w)"
proof -
  obtain r w1 where s: "run_stmt ev st w = (r, w1)" by fastforce
  show thesis
  proof (cases r)
    case (Inr x)
    with s have "run_stmt ev st w = (Inr x, w1)" by simp
    from run_stmt_Inr[OF this] Inr s assms show thesis by (intro that[of x w1]) (simp_all add: stmt_then_def)
  qed (use s assms in \<open>simp add: stmt_then_def\<close>)
qed

lemma in_tx_cases:
  assumes "in_tx ev f body w = (r, w')"
  obtains (none) e where "r = Inl e" "w_db w' = w_db w"
  | (committed) x w2 where "body (tick w) = (Inr x, w2)" "w_db w' = w_db w2" "r = Inr x \<or> (\<exists>n e. ev_fault ev n = Unacked e \<and> r = Inl (f e))"
proof (cases "begin_tx ev w")
  case (Pair be w1)
  then have w1: "w1 = tick w" by (auto simp: begin_tx_def split: fault.splits)
  show thesis
  proof (cases be)
    case (Some e)
    with Pair assms w1 show thesis by (intro none) (auto simp: in_tx_def)
  next
    case None
    obtain br w2 where b: "body (tick w) = (br, w2)" by fastforce
    show thesis
    proof (cases br)
      case (Inl e)
      with Pair None w1 b assms show thesis by (intro none) (auto simp: in_tx_def)
    next
      case (Inr x)
      with Pair None w1 b assms have c: "(case commit_tx ev (w_db w) w2 of (Some err, w3) \<Rightarrow> (Inl (f err), w3) | (None, w3) \<Rightarrow> (Inr x, w3)) = (r, w')"
        by (simp add: in_tx_def)
      show thesis
      proof (cases "ev_fault ev (w_calls w2)")
        case (Lost e)
        with c show thesis by (intro none) (auto simp: commit_tx_def)
      next
        case Works
        with c b Inr show thesis by (intro committed[of x w2]) (auto simp: commit_tx_def)
      next
        case (Unacked e)
        with c b Inr show thesis by (intro committed[of x w2]) (auto simp: commit_tx_def)
      qed
    qed
  qed
qed

text \<open>A property of the tables that every statement of an operation keeps.\<close>

definition keeps :: "(pub_db \<Rightarrow> bool) \<Rightarrow> (world \<Rightarrow> 'r \<times> world) \<Rightarrow> bool" where
  "keeps P op \<longleftrightarrow> (\<forall>w. P (w_db w) \<longrightarrow> P (w_db (snd (op w))))"

lemma keepsD: "keeps P op \<Longrightarrow> op w = (r, w') \<Longrightarrow> P (w_db w) \<Longrightarrow> P (w_db w')"
  unfolding keeps_def by (metis snd_conv)

lemma keeps_ret: "keeps P (\<lambda>w. (r, w))" "keeps P (Pair r)"
  by (simp_all add: keeps_def)

lemma keeps_run_stmt: "(\<And>t i d. P d \<Longrightarrow> P (snd (st t i d))) \<Longrightarrow> keeps P (run_stmt ev st)"
  unfolding keeps_def by (metis prod.collapse run_stmt_db)

lemma keeps_stmt_then:
  assumes "\<And>t i d. P d \<Longrightarrow> P (snd (st t i d))" and "\<And>x. keeps P (k x)"
  shows "keeps P (stmt_then ev msg st k)"
  unfolding keeps_def
proof (intro allI impI)
  fix w :: world assume P: "P (w_db w)"
  obtain r w1 where s: "run_stmt ev st w = (r, w1)" by fastforce
  have "P (w_db w1)" using run_stmt_db[OF s] P assms(1) by blast
  with s show "P (w_db (snd (stmt_then ev msg st k w)))"
    using assms(2) by (cases r) (auto simp: stmt_then_def keeps_def)
qed

lemma keeps_in_tx:
  assumes "keeps P body"
  shows "keeps P (in_tx ev f body)"
  unfolding keeps_def
proof (intro allI impI)
  fix w :: world assume P: "P (w_db w)"
  obtain r w' where s: "in_tx ev f body w = (r, w')" by fastforce
  then have "P (w_db w')"
    by (cases rule: in_tx_cases) (use P assms in \<open>auto simp: keeps_def dest: spec[of _ "tick w"]\<close>)
  with s show "P (w_db (snd (in_tx ev f body w)))" by simp
qed

lemma upsert_user_frame [simp]:
  "t_tenants (snd (upsert_user g l a t i d)) = t_tenants d" "t_members (snd (upsert_user g l a t i d)) = t_members d"
  "t_invitations (snd (upsert_user g l a t i d)) = t_invitations d"
  by (simp_all add: upsert_user_def split: list.split)

lemma ins_tenant_frame [simp]:
  "t_members (snd (ins_tenant tid n s org t i d)) = t_members d" "t_users (snd (ins_tenant tid n s org t i d)) = t_users d"
  by (simp_all add: ins_tenant_def)

lemma create_schema_frame [simp]:
  "t_members (snd (create_schema s t i d)) = t_members d" "t_tenants (snd (create_schema s t i d)) = t_tenants d"
  by (simp_all add: create_schema_def)

section \<open>Creating a tenant\<close>

text \<open>C18: Creating a tenant at onboarding is all or nothing. Either an error is returned and the tables are what they were, or
  the tables have exactly one tenant more, one membership more, which makes the user the owner of that tenant, and its schema;
  then the result names that tenant and user. Only when the answer to the commit is lost may both an error be returned and the
  tenant exist.\<close>

theorem create_tenant_atomic:
  assumes "CreateTenant ev inp w = (r, w')"
  shows "(\<exists>e. r = Inl e) \<and> w_db w' = w_db w \<or>
    (\<exists>uid tn t. t_tenants (w_db w') = t_tenants (w_db w) @ [tn] \<and> tn_id tn = ev_uuid ev (w_calls w) \<and> tn_name tn = ci_Name inp \<and>
       t_members (w_db w') = t_members (w_db w) @ [new_member (tn_id tn) uid ''owner'' t] \<and>
       ''tenant_'' @ tn_id tn \<in> set (t_schemas (w_db w')) \<and> user_exists (w_db w') uid \<and>
       (r = Inr \<lparr>cr_TenantID = tn_id tn, cr_SchemaName = ''tenant_'' @ tn_id tn, cr_UserUUID = uid\<rparr> \<or>
        (\<exists>n e. ev_fault ev n = Unacked e \<and> r = Inl (Wrapped ''onboard: commit'' e))))"
  using assms unfolding CreateTenant_def Let_def
proof (cases rule: in_tx_cases)
  case (committed x w2)
  let ?tid = "ev_uuid ev (w_calls w)"
  from committed(1) obtain uid gr w3 w4 w5 w6 where
    s1: "fst (upsert_user (show_int (ci_GitHubID inp)) (ci_GitHubLogin inp) (ci_AvatarURL inp) (time_now ev (tick w)) (ev_uuid ev (Suc (w_calls w))) (w_db w)) = Inr (uid, gr)"
      "w_db w3 = snd (upsert_user (show_int (ci_GitHubID inp)) (ci_GitHubLogin inp) (ci_AvatarURL inp) (time_now ev (tick w)) (ev_uuid ev (Suc (w_calls w))) (w_db w))"
    and s2: "fst (ins_tenant ?tid (ci_Name inp) (if ci_GitHubOrg inp = '''' then take 8 ?tid else ci_GitHubOrg inp) (Some (ci_GitHubOrg inp)) (time_now ev w3) (ev_uuid ev (w_calls w3)) (w_db w3)) = Inr ()"
      "w_db w4 = snd (ins_tenant ?tid (ci_Name inp) (if ci_GitHubOrg inp = '''' then take 8 ?tid else ci_GitHubOrg inp) (Some (ci_GitHubOrg inp)) (time_now ev w3) (ev_uuid ev (w_calls w3)) (w_db w3))"
    and s3: "fst (ins_member ?tid uid ''owner'' (time_now ev w4) (ev_uuid ev (w_calls w4)) (w_db w4)) = Inr ()"
      "w_db w5 = snd (ins_member ?tid uid ''owner'' (time_now ev w4) (ev_uuid ev (w_calls w4)) (w_db w4))"
    and s4: "w_db w6 = snd (create_schema (''tenant_'' @ ?tid) (time_now ev w5) (ev_uuid ev (w_calls w5)) (w_db w5))"
    and fin: "(Inr \<lparr>cr_TenantID = ?tid, cr_SchemaName = ''tenant_'' @ ?tid, cr_UserUUID = uid\<rparr>, w6) = (Inr x, w2)"
    by (auto elim!: stmt_then_Inr)
  have u: "t_tenants (w_db w3) = t_tenants (w_db w)" "t_members (w_db w3) = t_members (w_db w)"
    using s1 by simp_all
  have t: "\<exists>tn. t_tenants (w_db w4) = t_tenants (w_db w) @ [tn] \<and> tn_id tn = ?tid \<and> tn_name tn = ci_Name inp"
    "t_members (w_db w4) = t_members (w_db w)"
    using s2 u by (auto simp: ins_tenant_def split: if_splits)
  have m: "t_tenants (w_db w5) = t_tenants (w_db w4)" "t_users (w_db w5) = t_users (w_db w4)" "user_exists (w_db w4) uid"
    "t_members (w_db w5) = t_members (w_db w) @ [new_member ?tid uid ''owner'' (time_now ev w4)]"
    using s3 t(2) by (auto simp: ins_member_def split: if_splits)
  have c: "t_tenants (w_db w6) = t_tenants (w_db w5)" "t_members (w_db w6) = t_members (w_db w5)" "t_users (w_db w6) = t_users (w_db w5)"
    "''tenant_'' @ ?tid \<in> set (t_schemas (w_db w6))"
    unfolding s4 by (simp_all add: create_schema_def)
  from t(1) obtain tn where tn: "t_tenants (w_db w4) = t_tenants (w_db w) @ [tn]" "tn_id tn = ?tid" "tn_name tn = ci_Name inp" by blast
  have w6: "w6 = w2" "x = \<lparr>cr_TenantID = ?tid, cr_SchemaName = ''tenant_'' @ ?tid, cr_UserUUID = uid\<rparr>" using fin by auto
  have "user_exists (w_db w2) uid" using m(2,3) c(3) w6 by (simp add: user_exists_def)
  moreover have "t_tenants (w_db w2) = t_tenants (w_db w) @ [tn]" "t_members (w_db w2) = t_members (w_db w) @ [new_member (tn_id tn) uid ''owner'' (time_now ev w4)]"
    "''tenant_'' @ tn_id tn \<in> set (t_schemas (w_db w2))"
    using tn c m w6 by auto
  moreover have "r = Inr \<lparr>cr_TenantID = tn_id tn, cr_SchemaName = ''tenant_'' @ tn_id tn, cr_UserUUID = uid\<rparr> \<or>
      (\<exists>n e. ev_fault ev n = Unacked e \<and> r = Inl (Wrapped ''onboard: commit'' e))"
    using committed(3) w6(2) tn(2) by simp
  ultimately show ?thesis unfolding committed(2) using tn(2,3) by blast
qed blast

theorem create_tenant_atomic_witness:
  "t_members (w_db (snd (CreateTenant demo_env \<lparr>ci_GitHubID = 9, ci_GitHubLogin = ''eve'', ci_AvatarURL = '''', ci_Name = ''New'', ci_GitHubOrg = ''''\<rparr> demo_world))) \<noteq>
     t_members demo_db"
proof -
  define inp where "inp = \<lparr>ci_GitHubID = 9, ci_GitHubLogin = ''eve'', ci_AvatarURL = '''', ci_Name = ''New'', ci_GitHubOrg = ''''\<rparr>"
  obtain r w' where c: "CreateTenant demo_env inp demo_world = (r, w')" by fastforce
  have "\<not> isl (fst (CreateTenant demo_env inp demo_world))" unfolding inp_def by code_simp
  with c have "\<not> isl r" by simp
  with create_tenant_atomic[OF c] have "t_members (w_db w') \<noteq> t_members (w_db demo_world)" by auto
  with c show ?thesis by (simp add: inp_def demo_world_def)
qed

section \<open>Invitations\<close>

text \<open>Joining by an invitation that is the only one with its hash makes the user a member of the tenant of the invitation,
  and uses it up: as long as the table of invitations stays the same, every further attempt with the same token fails, for any
  user, at any time.\<close>

theorem invitation_single_use:
  assumes "JoinTenant ev u tok w = (Inr (), w')" and "filter (\<lambda>r. iv_hash r = tok) (t_invitations (w_db w)) = [iv]"
    and "t_invitations (w_db w2) = t_invitations (w_db w')"
  shows "list_ex (member_key (iv_tenant iv) u) (t_members (w_db w')) \<and> isl (fst (JoinTenant ev2 u2 tok w2))"
proof -
  let ?t = "time_now ev w"
  from assms(1) obtain w3 where "stmt_then ev ''onboard: invalid or expired invitation token'' (accept_invitation ?t tok) (\<lambda>iv.
        stmt_then ev ''onboard: insert tenant_member'' (ins_member_if_new (iv_tenant iv) u (iv_role iv)) (\<lambda>_ w2. (Inr (), w2))) (tick w) = (Inr (), w3)"
      and w': "w_db w' = w_db w3"
    unfolding JoinTenant_def by (cases rule: in_tx_cases) auto
  then obtain x w4 where q: "query_row (filter (open_invitation ?t tok) (t_invitations (w_db w))) = Inr x"
    and w4: "w_db w4 = (w_db w)\<lparr>t_invitations := map_where (open_invitation ?t tok) (\<lambda>r. r\<lparr>iv_accepted := Some ?t\<rparr>) (t_invitations (w_db w))\<rparr>"
    and m: "fst (ins_member_if_new (iv_tenant x) u (iv_role x) (time_now ev w4) (ev_uuid ev (w_calls w4)) (w_db w4)) = Inr ()"
       "w_db w3 = snd (ins_member_if_new (iv_tenant x) u (iv_role x) (time_now ev w4) (ev_uuid ev (w_calls w4)) (w_db w4))"
    by (auto elim!: stmt_then_Inr simp: accept_invitation_def)
  have "filter (open_invitation ?t tok) (t_invitations (w_db w)) = filter (open_invitation ?t tok) [iv]"
    unfolding assms(2)[symmetric] filter_filter by (rule filter_cong) (auto simp: open_invitation_def)
  with q have x: "x = iv" and o: "open_invitation ?t tok iv"
    by (auto simp: query_row_def split: if_splits)
  have mem: "list_ex (member_key (iv_tenant iv) u) (t_members (w_db w'))"
    using m x by (auto simp: w' ins_member_if_new_def member_key_def new_member_def split: if_splits)
  have inv3: "t_invitations (w_db w3) = t_invitations (w_db w4)"
    unfolding m(2) by (simp add: ins_member_if_new_def)
  have "iv_accepted r \<noteq> None" if r: "r \<in> set (t_invitations (w_db w2))" "iv_hash r = tok" for r
  proof -
    from r(1) obtain r0 where r0: "r0 \<in> set (t_invitations (w_db w))" "r = (if open_invitation ?t tok r0 then r0\<lparr>iv_accepted := Some ?t\<rparr> else r0)"
      unfolding assms(3) w' inv3 w4 by (auto simp: set_map_where)
    with r(2) have "iv_hash r0 = tok" by (auto split: if_splits)
    with r0(1) have "r0 \<in> set (filter (\<lambda>r. iv_hash r = tok) (t_invitations (w_db w)))" by simp
    then have "r0 = iv" unfolding assms(2) by simp
    with r0(2) o show ?thesis by simp
  qed
  then have "filter (open_invitation t0 tok) (t_invitations (w_db w2)) = []" for t0
    by (auto simp: filter_empty_conv open_invitation_def)
  then have "fst (accept_invitation t0 tok t i (w_db w2)) = Inl ErrNoRows" for t0 t i
    by (simp add: accept_invitation_def query_row_def)
  then have "\<exists>e w''. run_stmt ev2 (accept_invitation t0 tok) (tick w2) = (Inl e, w'')" for t0
    using run_stmt_refused[of "accept_invitation t0 tok" "tick w2" ErrNoRows ev2] by simp
  then obtain e w'' where none: "run_stmt ev2 (accept_invitation (time_now ev2 w2) tok) (tick w2) = (Inl e, w'')" by blast
  obtain r w5 where j: "JoinTenant ev2 u2 tok w2 = (r, w5)" by fastforce
  then have "isl r"
    unfolding JoinTenant_def by (cases rule: in_tx_cases) (simp_all add: stmt_then_def none)
  with mem j show ?thesis by simp
qed

section \<open>The default tenant\<close>

lemma member_key_role [simp]: "member_key tid u (m\<lparr>mb_role := r\<rparr>) = member_key tid u m"
  by (simp add: member_key_def)

lemma upsert_member_role:
  assumes "fst (upsert_member tid u role t i d) = Inr ()" "m \<in> set (t_members (snd (upsert_member tid u role t i d)))" "member_key tid u m"
  shows "mb_role m = role"
proof (cases "list_ex (member_key tid u) (t_members d)")
  case True
  with assms(2) obtain m0 where "m = (if member_key tid u m0 then m0\<lparr>mb_role := role\<rparr> else m0)"
    by (auto simp: upsert_member_def set_map_where)
  with assms(3) show ?thesis by (cases "member_key tid u m0") simp_all
next
  case False
  with assms show ?thesis by (auto simp: upsert_member_def new_member_def list_ex_iff split: if_splits)
qed

text \<open>Joining the default tenant sets the role of the user there to member, or to owner for the configured administrator,
  whatever role the user had before: the other roles of the tenant are lost.\<close>

theorem autojoin_resets_role:
  assumes "AutoJoinDefaultTenant ev gid login avatar adminLogin w = (Inr (uid, tid, gr), w')"
    and "m \<in> set (t_members (w_db w'))" and "member_key tid uid m"
  shows "mb_role m = member_role_for adminLogin login"
  using assms(1) unfolding AutoJoinDefaultTenant_def
proof (cases rule: in_tx_cases)
  case (committed x w2)
  have "\<exists>t i d. fst (upsert_member tid uid (member_role_for adminLogin login) t i d) = Inr () \<and>
      w_db w2 = snd (upsert_member tid uid (member_role_for adminLogin login) t i d)"
    using committed(1,3) by (elim stmt_then_Inr disjE) (simp_all add: split_beta, elim stmt_then_Inr, clarsimp, blast)
  with assms(2,3) upsert_member_role show ?thesis unfolding committed(2) by metis
qed simp

end
