(* ===== verification/Crypto.thy ===== *)
theory Crypto
  imports Go_Base
begin

text \<open>
  Encoding and encryption of secrets: pkg/crypto/aes.go, with encoding/base64 (the standard and the
  URL alphabet, with padding) and encoding/hex. Strings are byte lists. The cipher is an argument
  (\<open>aead\<close>): sealing a text with a key and a nonce, and opening it again. The key has 32 bytes by its
  type, so that making the cipher does not fail.

  Proved: decoding inverts encoding; Decrypt inverts Encrypt for every key, text and nonce.
\<close>

section \<open>Base64\<close>

definition std_alphabet :: string where
  "std_alphabet = ''ABCDEFGHIJKLMNOPQRSTUVWXYZabcdefghijklmnopqrstuvwxyz0123456789+/''"

definition url_alphabet :: string where
  "url_alphabet = ''ABCDEFGHIJKLMNOPQRSTUVWXYZabcdefghijklmnopqrstuvwxyz0123456789-_''"

definition pad :: char where "pad = CHR ''=''"

text \<open>Three bytes make four characters; what is left at the end is padded.\<close>

fun base64_encode :: "string \<Rightarrow> string \<Rightarrow> string" where
  "base64_encode al [] = []"
| "base64_encode al [a] = (let x = of_char a :: nat in [al ! (x div 4), al ! ((x mod 4) * 16), pad, pad])"
| "base64_encode al [a, b] =
     (let x = of_char a :: nat; y = of_char b in [al ! (x div 4), al ! ((x mod 4) * 16 + y div 16), al ! ((y mod 16) * 4), pad])"
| "base64_encode al (a # b # c # s) =
     (let x = of_char a :: nat; y = of_char b; z = of_char c
      in al ! (x div 4) # al ! ((x mod 4) * 16 + y div 16) # al ! ((y mod 16) * 4 + z div 64) # al ! (z mod 64) # base64_encode al s)"

fun position :: "char \<Rightarrow> string \<Rightarrow> nat option" where
  "position c [] = None"
| "position c (x # xs) = (if x = c then Some 0 else map_option Suc (position c xs))"

definition sextet :: "string \<Rightarrow> char \<Rightarrow> nat option" where
  "sextet al c = position c al"

text \<open>Line ends are skipped; padding may only end the text.\<close>

fun base64_groups :: "string \<Rightarrow> string \<Rightarrow> string option" where
  "base64_groups al [] = Some []"
| "base64_groups al (p # q # r # s # rest) =
     (if r = pad \<and> s = pad \<and> rest = []
      then (case (sextet al p, sextet al q) of
              (Some a, Some b) \<Rightarrow> Some [char_of (a * 4 + b div 16)]
            | _ \<Rightarrow> None)
      else if s = pad \<and> rest = []
      then (case (sextet al p, sextet al q, sextet al r) of
              (Some a, Some b, Some c) \<Rightarrow> Some [char_of (a * 4 + b div 16), char_of ((b mod 16) * 16 + c div 4)]
            | _ \<Rightarrow> None)
      else (case (sextet al p, sextet al q, sextet al r, sextet al s) of
              (Some a, Some b, Some c, Some d) \<Rightarrow>
                map_option (\<lambda>ys. char_of (a * 4 + b div 16) # char_of ((b mod 16) * 16 + c div 4) # char_of ((c mod 4) * 64 + d) # ys)
                  (base64_groups al rest)
            | _ \<Rightarrow> None))"
| "base64_groups al s = None"

definition base64_decode :: "string \<Rightarrow> string \<Rightarrow> string option" where
  "base64_decode al s = base64_groups al (filter (\<lambda>c. c \<noteq> CHR 0x0A \<and> c \<noteq> CHR 0x0D) s)"

definition hex_digit :: "nat \<Rightarrow> char" where
  "hex_digit n = ''0123456789abcdef'' ! n"

definition hex_encode :: "string \<Rightarrow> string" where
  "hex_encode s = concat (map (\<lambda>c. [hex_digit (of_char c div 16), hex_digit (of_char c mod 16)]) s)"

section \<open>AES-GCM\<close>

record aead =
  nonce_size :: nat
  seal :: "string \<Rightarrow> string \<Rightarrow> string \<Rightarrow> string"
  unseal :: "string \<Rightarrow> string \<Rightarrow> string \<Rightarrow> error + string"

definition DeriveAESKey :: "(string \<Rightarrow> string) \<Rightarrow> string \<Rightarrow> string" where
  "DeriveAESKey sha256 pem = sha256 pem"

text \<open>\<open>rnd\<close> is what reading the random source yields: the nonce or an error.\<close>

definition Encrypt :: "aead \<Rightarrow> error + string \<Rightarrow> string \<Rightarrow> string \<Rightarrow> error + string" where
  "Encrypt c rnd key plaintext =
     (case rnd of
        Inl err \<Rightarrow> Inl (Wrapped ''crypto: nonce'' err)
      | Inr nonce \<Rightarrow> Inr (base64_encode std_alphabet (nonce @ seal c key nonce plaintext)))"

definition Decrypt :: "aead \<Rightarrow> string \<Rightarrow> string \<Rightarrow> error + string" where
  "Decrypt c key encoded =
     (case base64_decode std_alphabet encoded of
        None \<Rightarrow> Inl (Wrapped ''crypto: base64 decode'' (ErrorString ''illegal base64 data''))
      | Some dat \<Rightarrow>
          (if length dat < nonce_size c then Inl (ErrorString ''crypto: ciphertext too short'')
           else case unseal c key (take (nonce_size c) dat) (drop (nonce_size c) dat) of
             Inl err \<Rightarrow> Inl (Wrapped ''crypto: decrypt'' err)
           | Inr plaintext \<Rightarrow> Inr plaintext))"

section \<open>Round trips\<close>

lemma byte_less_256: "(of_char x :: nat) < 256"
  using of_char_mod_256[of x] by (metis mod_less_divisor zero_less_numeral)

lemma triple_induct [case_names nil one two more]:
  "P [] \<Longrightarrow> (\<And>a. P [a]) \<Longrightarrow> (\<And>a b. P [a, b]) \<Longrightarrow> (\<And>a b c s. P s \<Longrightarrow> P (a # b # c # s)) \<Longrightarrow> P (s :: 'a list)"
  by induction_schema (pat_completeness, lexicographic_order)

lemma sextet_bounds:
  "(of_char a :: nat) div 4 < 64" "(of_char a :: nat) mod 4 * 16 < 64" "(of_char b :: nat) mod 16 * 4 < 64"
  "(of_char a :: nat) mod 4 * 16 + of_char b div 16 < 64" "(of_char b :: nat) mod 16 * 4 + of_char c div 64 < 64"
proof -
  have "(of_char x :: nat) < 256" for x by (rule byte_less_256)
  from this[of a] this[of b] this[of c] have "(of_char a :: nat) div 4 < 64" "(of_char b :: nat) div 16 < 16" "(of_char c :: nat) div 64 < 4"
    by (simp_all add: less_mult_imp_div_less)
  then show "(of_char a :: nat) div 4 < 64" "(of_char a :: nat) mod 4 * 16 < 64" "(of_char b :: nat) mod 16 * 4 < 64"
    "(of_char a :: nat) mod 4 * 16 + of_char b div 16 < 64" "(of_char b :: nat) mod 16 * 4 + of_char c div 64 < 64"
    using mod_less_divisor[of 4 "of_char a"] mod_less_divisor[of 16 "of_char b"] by linarith+
qed

lemma sextet_join:
  "(of_char a :: nat) div 16 div 16 = 0" "(of_char a :: nat) div 64 div 4 = 0"
  "(of_char a :: nat) div 16 mod 16 = of_char a div 16" "(of_char a :: nat) div 64 mod 4 = of_char a div 64"
proof -
  have "(of_char a :: nat) < 256" by (rule byte_less_256)
  then have "(of_char a :: nat) div 16 < 16" "(of_char a :: nat) div 64 < 4" by (simp_all add: less_mult_imp_div_less)
  then show "(of_char a :: nat) div 16 div 16 = 0" "(of_char a :: nat) div 64 div 4 = 0"
    "(of_char a :: nat) div 16 mod 16 = of_char a div 16" "(of_char a :: nat) div 64 mod 4 = of_char a div 64" by simp_all
qed

text \<open>What decoding needs of an alphabet.\<close>

locale base64_alphabet =
  fixes al :: string
  assumes size: "length al = 64" and dist: "distinct al" and no_pad: "pad \<notin> set al"
    and no_newline: "CHR 0x0A \<notin> set al" "CHR 0x0D \<notin> set al"
begin

lemma position_nth: "distinct xs \<Longrightarrow> n < length xs \<Longrightarrow> position (xs ! n) xs = Some n"
  by (induction xs arbitrary: n) (auto simp: nth_Cons split: nat.split)

lemma sextet_nth: "n < 64 \<Longrightarrow> sextet al (al ! n) = Some n"
  by (simp add: sextet_def position_nth dist size)

lemma nth_not_pad: "n < 64 \<Longrightarrow> al ! n \<noteq> pad"
  using no_pad nth_mem[of n al] size by metis

lemma nth_no_newline: "n < 64 \<Longrightarrow> al ! n \<noteq> CHR 0x0A \<and> al ! n \<noteq> CHR 0x0D"
  using no_newline nth_mem[of n al] size by metis

lemma encode_no_newline: "filter (\<lambda>c. c \<noteq> CHR 0x0A \<and> c \<noteq> CHR 0x0D) (base64_encode al s) = base64_encode al s"
  by (induction s rule: triple_induct) (simp_all add: Let_def nth_no_newline sextet_bounds pad_def)

lemma groups_encode: "base64_groups al (base64_encode al s) = Some s"
proof (induction s rule: triple_induct)
  case (more a b c s)
  then show ?case
    by (simp add: Let_def sextet_nth nth_not_pad sextet_bounds sextet_join)
qed (simp_all add: Let_def sextet_nth nth_not_pad sextet_bounds sextet_join)

lemma decode_encode: "base64_decode al (base64_encode al s) = Some s"
  by (simp add: base64_decode_def encode_no_newline groups_encode)

end

interpretation std: base64_alphabet std_alphabet
  by unfold_locales (simp_all add: std_alphabet_def pad_def)

interpretation url: base64_alphabet url_alphabet
  by unfold_locales (simp_all add: url_alphabet_def pad_def)

text \<open>Decrypt inverts Encrypt: with a cipher that opens what it sealed with the same key and nonce, and with nonces of
  the right size, decrypting an encrypted text with the same key gives the text back.\<close>

theorem decrypt_encrypt:
  assumes "\<And>n p. length n = nonce_size c \<Longrightarrow> unseal c key n (seal c key n p) = Inr p"
    and "length nonce = nonce_size c" and "Encrypt c (Inr nonce) key plaintext = Inr encoded"
  shows "Decrypt c key encoded = Inr plaintext"
proof -
  have "base64_decode std_alphabet encoded = Some (nonce @ seal c key nonce plaintext)"
    using assms(3) by (auto simp: Encrypt_def std.decode_encode)
  then show ?thesis using assms(1,2) by (simp add: Decrypt_def)
qed

text \<open>A cipher for examples: the sealed text is marked with the first byte of the key.\<close>

definition demo_aead :: aead where
  "demo_aead = \<lparr>nonce_size = 12, seal = (\<lambda>k n p. take 1 k @ p),
     unseal = (\<lambda>k n s. if s \<noteq> [] \<and> take 1 s = take 1 k then Inr (tl s) else Inl (ErrorString ''message authentication failed''))\<rparr>"

theorem decrypt_encrypt_witness:
  "Decrypt demo_aead ''key'' (base64_encode std_alphabet (''nonce-nonce-'' @ ''ksecret'')) = Inr ''secret''"
  by (rule decrypt_encrypt[of demo_aead _ "''nonce-nonce-''"]) (simp_all add: demo_aead_def Encrypt_def)

end
