(* ===== verification/Tenant_Handler.thy ===== *)
theory Tenant_Handler
  imports Onboard Crypto Auth_JWT LLM_Gateway
begin

text \<open>
  The handlers for tenants: api/handler/tenant_handler.go (members, invitations, settings),
  api/handler/admin_handler.go (tenants), the helpers of api/handler/tenant.go and the request
  checks of api/model/admin.go. A handler maps the request context, its parameters and the state to
  a reply (status and JSON value) and the new state. A bound body is the decoded request or the
  error of the JSON decoder; the checks that the struct tags of the source ask for are part of the
  model. The settings column holds a JSON object.

  Proved: the pages of the member list partition it; no request ever takes the role or the
  membership of an owner away; who may change or remove whom; an invitation stores only the hash of
  its token, and joining compares with the token itself, so that no invitation link works; API keys
  are stored encrypted, are shown masked, and survive an update of other settings.
\<close>

section \<open>Requests and replies\<close>

type_synonym reply = "nat \<times> gval"

definition error_reply :: "nat \<Rightarrow> string \<Rightarrow> reply" where
  "error_reply code msg = (code, VMap [(''code'', VInt (int code)), (''message'', VStr msg)])"

definition message_reply :: "string \<Rightarrow> reply" where
  "message_reply msg = (200, VMap [(''message'', VStr msg)])"

definition tenantIDFromCtx :: "req_ctx \<Rightarrow> string option" where
  "tenantIDFromCtx c = (case FromContext (rc_tenant c) of None \<Rightarrow> None | Some tc \<Rightarrow> if tc_TenantID tc = '''' then None else Some (tc_TenantID tc))"

definition userIDFromCtx :: "req_ctx \<Rightarrow> string option" where
  "userIDFromCtx c = rc_keys c ''auth.sub''"

definition respondMissingTenant :: reply where
  "respondMissingTenant = (401, VMap [(''error'', VStr ''tenant context required'')])"

text \<open>\<open>truncate\<close> of api/handler/tenant.go counts runes, not bytes.\<close>

definition rune_prefix :: "nat \<Rightarrow> string \<Rightarrow> string" where
  "rune_prefix n s = concat (map (encode_rune \<circ> fst) (take n (runes s)))"

definition truncate_runes :: "string \<Rightarrow> nat \<Rightarrow> string" where
  "truncate_runes s maxRunes = (if length (runes s) \<le> maxRunes then s else rune_prefix maxRunes s)"

definition DefaultPageSize :: int where "DefaultPageSize = 20"
definition MaxPageSize :: int where "MaxPageSize = 100"

text \<open>Page, page size and offset from the query; the product wraps around.\<close>

definition page_params :: "int \<Rightarrow> int \<Rightarrow> int \<times> int \<times> int" where
  "page_params page0 size0 =
     (let page = (if page0 < 1 then 1 else page0);
          pageSize = (if size0 < 1 \<or> size0 > MaxPageSize then DefaultPageSize else size0)
      in (page, pageSize, wrap64 ((page - 1) * pageSize)))"

text \<open>LIMIT and OFFSET of a query.\<close>

definition limit_offset :: "int \<Rightarrow> int \<Rightarrow> 'r list \<Rightarrow> error + 'r list" where
  "limit_offset lmt off rs =
     (if off < 0 then Inl (ErrorString ''OFFSET must not be negative'') else Inr (take (nat lmt) (drop (nat off) rs)))"

section \<open>Members\<close>

definition members_of :: "string \<Rightarrow> pub_db \<Rightarrow> (member_row \<times> user_row) list" where
  "members_of tid d =
     sort_key (\<lambda>r. - mb_joined (fst r))
       (concat (map (\<lambda>m. map (Pair m) (filter (\<lambda>u. us_id u = mb_user m) (t_users d)))
          (filter (\<lambda>m. mb_tenant m = tid) (t_members d))))"

definition sel_members :: "string \<Rightarrow> int \<Rightarrow> int \<Rightarrow> (member_row \<times> user_row) list stmt" where
  "sel_members tid lmt off t i d = (limit_offset lmt off (members_of tid d), d)"

definition count_members :: "string \<Rightarrow> nat stmt" where
  "count_members tid t i d = (Inr (length (filter (\<lambda>m. mb_tenant m = tid) (t_members d))), d)"

definition member_json :: "member_row \<times> user_row \<Rightarrow> gval" where
  "member_json r = (case r of (m, u) \<Rightarrow>
     VMap [(''user_id'', VStr (mb_user m)), (''github_login'', VStr (us_login u)),
       (''avatar_url'', VStr (case us_avatar u of None \<Rightarrow> '''' | Some a \<Rightarrow> a)), (''role'', VStr (mb_role m)), (''joined_at'', VInt (mb_joined m))])"

definition ListMembers :: "env \<Rightarrow> req_ctx \<Rightarrow> int \<Rightarrow> int \<Rightarrow> world \<Rightarrow> reply \<times> world" where
  "ListMembers ev c page0 size0 w =
     (case tenantIDFromCtx c of
        None \<Rightarrow> (error_reply 401 ''tenant_id missing'', w)
      | Some tid \<Rightarrow>
          (case page_params page0 size0 of (page, pageSize, offset) \<Rightarrow>
             (case run_stmt ev (count_members tid) w of
                (Inl _, w1) \<Rightarrow> (error_reply 500 ''database error'', w1)
              | (Inr cnt, w1) \<Rightarrow>
                  (case run_stmt ev (sel_members tid pageSize offset) w1 of
                     (Inl _, w2) \<Rightarrow> (error_reply 500 ''database error'', w2)
                   | (Inr rs, w2) \<Rightarrow>
                       ((200, VMap [(''members'', VList (map member_json rs)), (''total'', VInt (int cnt)), (''page'', VInt page), (''page_size'', VInt pageSize)]), w2)))))"

record InviteMemberRequest =
  im_Email :: string
  im_Role :: string

definition InviteTokenTTL :: int where "InviteTokenTTL = 72 * 3600 * 10 ^ 9"

text \<open>The role has to be one of member and admin; the check of the email address is that of the validator.\<close>

definition oneof_member_admin :: "string \<Rightarrow> bool" where
  "oneof_member_admin r \<longleftrightarrow> r = ''member'' \<or> r = ''admin''"

definition ins_invitation :: "string \<Rightarrow> string \<Rightarrow> string \<Rightarrow> string \<Rightarrow> string \<Rightarrow> int \<Rightarrow> int \<Rightarrow> string \<Rightarrow> unit stmt" where
  "ins_invitation iid tid email role h expires created by_user t i d =
     (if \<not> tenant_exists d tid \<or> \<not> user_exists d by_user then (Inl fk_violation, d)
      else if list_ex (\<lambda>r. iv_id r = iid) (t_invitations d) then (Inl unique_violation, d)
      else (Inr (), d\<lparr>t_invitations := t_invitations d @ [\<lparr>iv_id = iid, iv_tenant = tid, iv_email = email, iv_role = role, iv_hash = h, iv_by = by_user,
              iv_expires = expires, iv_accepted = None, iv_created = created\<rparr>]\<rparr>))"

definition InviteMember :: "env \<Rightarrow> string \<Rightarrow> req_ctx \<Rightarrow> error + InviteMemberRequest \<Rightarrow> world \<Rightarrow> reply \<times> world" where
  "InviteMember ev frontendURL c body w =
     (case tenantIDFromCtx c of
        None \<Rightarrow> (error_reply 401 ''tenant_id missing'', w)
      | Some tid \<Rightarrow>
          (if key_or_empty c ''auth.role'' \<noteq> ''admin'' \<and> key_or_empty c ''auth.role'' \<noteq> ''owner'' then (error_reply 403 ''admin or owner role required'', w)
           else case body of
             Inl err \<Rightarrow> (error_reply 400 (error_text err), w)
           | Inr req \<Rightarrow>
               (if \<not> oneof_member_admin (im_Role req) then (error_reply 400 ''Role: oneof'', w)
                else case ev_rand ev (w_calls w) of
                  Inl _ \<Rightarrow> (error_reply 500 ''token generation failed'', w)
                | Inr rawBytes \<Rightarrow>
                    (let rawToken = hex_encode rawBytes;
                         tokenHash = ev_hash ev rawToken;
                         inviter = key_or_empty c ''auth.sub'';
                         invitationID = ev_uuid ev (w_calls w);
                         expiresAt = time_now ev w + InviteTokenTTL
                     in if inviter = '''' then (error_reply 401 ''inviter identity missing'', w)
                        else case run_stmt ev (ins_invitation invitationID tid (im_Email req) (im_Role req) tokenHash expiresAt (time_now ev w) inviter) w of
                          (Inl _, w1) \<Rightarrow> (error_reply 500 ''invitation creation failed'', w1)
                        | (Inr _, w1) \<Rightarrow>
                            ((201, VMap [(''invitation_id'', VStr invitationID), (''email'', VStr (im_Email req)), (''role'', VStr (im_Role req)),
                               (''invitation_url'', VStr (frontendURL @ ''/onboarding?invitation='' @ rawToken)), (''expires_at'', VInt expiresAt)]), w1)))))"

definition upd_member_role :: "string \<Rightarrow> string \<Rightarrow> string \<Rightarrow> nat stmt" where
  "upd_member_role tid u role t i d =
     (Inr (length (filter (member_key tid u) (t_members d))),
      d\<lparr>t_members := map_where (member_key tid u) (\<lambda>m. m\<lparr>mb_role := role\<rparr>) (t_members d)\<rparr>)"

definition del_member :: "string \<Rightarrow> string \<Rightarrow> nat stmt" where
  "del_member tid u t i d =
     (Inr (length (filter (member_key tid u) (t_members d))), d\<lparr>t_members := filter (\<lambda>m. \<not> member_key tid u m) (t_members d)\<rparr>)"

definition UpdateMemberRole :: "env \<Rightarrow> req_ctx \<Rightarrow> string \<Rightarrow> error + string \<Rightarrow> world \<Rightarrow> reply \<times> world" where
  "UpdateMemberRole ev c userID body w =
     (case tenantIDFromCtx c of
        None \<Rightarrow> (error_reply 401 ''tenant_id missing'', w)
      | Some tid \<Rightarrow>
          (if rc_keys c ''auth.role'' \<noteq> Some ''owner'' then (error_reply 403 ''owner role required'', w)
           else if rc_keys c ''auth.sub'' = Some userID then (error_reply 403 ''cannot change your own role'', w)
           else case run_stmt ev (sel_tenant_role userID tid) w of
             (Inl _, w1) \<Rightarrow> (error_reply 404 ''member not found'', w1)
           | (Inr targetRole, w1) \<Rightarrow>
               (if targetRole = ''owner'' then (error_reply 403 (''cannot change owner'' @ [CHR 0x27] @ ''s role''), w1)
                else case body of
                  Inl err \<Rightarrow> (error_reply 400 (error_text err), w1)
                | Inr role \<Rightarrow>
                    (if \<not> oneof_member_admin role then (error_reply 400 ''Role: oneof'', w1)
                     else case run_stmt ev (upd_member_role tid userID role) w1 of
                       (Inl _, w2) \<Rightarrow> (error_reply 500 ''update failed'', w2)
                     | (Inr n, w2) \<Rightarrow> (if n = 0 then error_reply 404 ''member not found'' else message_reply ''role updated'', w2)))))"

definition RemoveMember :: "env \<Rightarrow> req_ctx \<Rightarrow> string \<Rightarrow> world \<Rightarrow> reply \<times> world" where
  "RemoveMember ev c userID w =
     (case tenantIDFromCtx c of
        None \<Rightarrow> (error_reply 401 ''tenant_id missing'', w)
      | Some tid \<Rightarrow>
          (let callerRole = key_or_empty c ''auth.role'' in
           if callerRole \<noteq> ''owner'' \<and> callerRole \<noteq> ''admin'' then (error_reply 403 ''admin or owner role required'', w)
           else if rc_keys c ''auth.sub'' = Some userID then (error_reply 403 ''cannot remove yourself'', w)
           else case run_stmt ev (sel_tenant_role userID tid) w of
             (Inl _, w1) \<Rightarrow> (error_reply 404 ''member not found'', w1)
           | (Inr targetRole, w1) \<Rightarrow>
               (if targetRole = ''owner'' then (error_reply 403 ''cannot remove owner'', w1)
                else if callerRole = ''admin'' \<and> targetRole = ''admin'' then (error_reply 403 ''admin cannot remove another admin'', w1)
                else case run_stmt ev (del_member tid userID) w1 of
                  (Inl _, w2) \<Rightarrow> (error_reply 500 ''remove failed'', w2)
                | (Inr n, w2) \<Rightarrow> (if n = 0 then error_reply 404 ''member not found'' else message_reply ''member removed'', w2))))"

text \<open>The tenants of the current user, for the switcher.\<close>

definition ListUserTenants :: "env \<Rightarrow> req_ctx \<Rightarrow> world \<Rightarrow> reply \<times> world" where
  "ListUserTenants ev c w =
     (case rc_keys c ''auth.sub'' of
        None \<Rightarrow> (error_reply 401 ''unauthorized'', w)
      | Some uid \<Rightarrow>
          (if uid = '''' then (error_reply 401 ''unauthorized'', w)
           else case run_stmt ev (sel_tenants_of uid) w of
             (Inl _, w1) \<Rightarrow> (error_reply 500 ''database error'', w1)
           | (Inr ts, w1) \<Rightarrow>
               ((200, VMap [(''tenants'', VList (map (\<lambda>t. VMap [(''tenant_id'', VStr (ti_TenantID t)), (''name'', VStr (ti_Name t)),
                  (''is_default'', VBool (ti_IsDefault t))]) ts))]), w1)))"

section \<open>Settings\<close>

definition bullet :: string where "bullet = encode_rune 8226"

definition maskAPIKey :: "string \<Rightarrow> string" where
  "maskAPIKey key =
     (if key = '''' then ''''
      else let n = length (runes key); show_n = (if n \<le> 6 then n div 2 else 6)
           in rune_prefix show_n key @ concat (replicate 8 bullet))"

definition mask_value :: "aead \<Rightarrow> string \<Rightarrow> gval \<Rightarrow> gval" where
  "mask_value ci key v =
     (case v of
        VStr s \<Rightarrow> (if s \<noteq> '''' then (case Decrypt ci key s of Inr p \<Rightarrow> VStr (maskAPIKey p) | Inl _ \<Rightarrow> VStr '''') else VStr '''')
      | _ \<Rightarrow> VStr '''')"

definition mask_settings :: "aead \<Rightarrow> string \<Rightarrow> (string \<times> gval) list \<Rightarrow> (string \<times> gval) list" where
  "mask_settings ci key st =
     (case map_of st ''llm_api_keys'' of
        Some (VMap apiKeys) \<Rightarrow> AList.update ''llm_api_keys'' (VMap (map (\<lambda>(p, v). (p, mask_value ci key v)) apiKeys)) st
      | _ \<Rightarrow> st)"

definition live_tenant :: "string \<Rightarrow> tenant_row \<Rightarrow> bool" where
  "live_tenant tid r \<longleftrightarrow> tn_id r = tid \<and> tn_deleted r = None"

definition sel_tenant :: "string \<Rightarrow> tenant_row stmt" where
  "sel_tenant tid t i d = (query_row (filter (live_tenant tid) (t_tenants d)), d)"

definition GetSettings :: "env \<Rightarrow> aead \<Rightarrow> string \<Rightarrow> req_ctx \<Rightarrow> world \<Rightarrow> reply \<times> world" where
  "GetSettings ev ci aesKey c w =
     (case tenantIDFromCtx c of
        None \<Rightarrow> (error_reply 401 ''tenant_id missing'', w)
      | Some tid \<Rightarrow>
          (case run_stmt ev (sel_tenant tid) w of
             (Inl _, w1) \<Rightarrow> (error_reply 404 ''tenant not found'', w1)
           | (Inr tn, w1) \<Rightarrow>
               ((200, VMap [(''tenant_id'', VStr tid), (''tenant_name'', VStr (tn_name tn)), (''settings'', VMap (mask_settings ci aesKey (tn_settings tn)))]), w1)))"

text \<open>A value that consists of bullets only, or of nothing, stands for an unchanged key.\<close>

definition only_bullets :: "string \<Rightarrow> bool" where
  "only_bullets s \<longleftrightarrow> list_all (\<lambda>r. fst r = 8226) (runes s)"

text \<open>The keys of the request, encrypted; \<open>rnd\<close> gives the nonce drawn for a provider.\<close>

fun encrypt_keys :: "aead \<Rightarrow> (string \<Rightarrow> error + string) \<Rightarrow> string \<Rightarrow> (string \<times> gval) list \<Rightarrow> error + (string \<times> gval) list" where
  "encrypt_keys ci rnd key [] = Inr []"
| "encrypt_keys ci rnd key ((provider, v) # kvs) =
     (case v of
        VStr plaintext \<Rightarrow>
          (if plaintext = '''' \<or> only_bullets plaintext then encrypt_keys ci rnd key kvs
           else case Encrypt ci (rnd provider) key plaintext of
             Inl err \<Rightarrow> Inl err
           | Inr enc \<Rightarrow> (case encrypt_keys ci rnd key kvs of Inl err \<Rightarrow> Inl err | Inr r \<Rightarrow> Inr ((provider, VStr enc) # r)))
      | _ \<Rightarrow> encrypt_keys ci rnd key kvs)"

definition put_all :: "(string \<times> gval) list \<Rightarrow> (string \<times> gval) list \<Rightarrow> (string \<times> gval) list" where
  "put_all kvs m = foldl (\<lambda>m (k, v). AList.update k v m) m kvs"

text \<open>The settings merged with those of the request.\<close>

definition merge_settings :: "aead \<Rightarrow> (string \<Rightarrow> error + string) \<Rightarrow> string \<Rightarrow> (string \<times> gval) list \<Rightarrow> (string \<times> gval) list \<Rightarrow> error + (string \<times> gval) list" where
  "merge_settings ci rnd key req merged =
     (let others = filter (\<lambda>kv. fst kv \<noteq> ''llm_api_keys'') req in
      case map_of req ''llm_api_keys'' of
        Some (VMap apiKeys) \<Rightarrow>
          (case encrypt_keys ci rnd key apiKeys of
             Inl err \<Rightarrow> Inl err
           | Inr encrypted \<Rightarrow>
               (let existing = (case map_of merged ''llm_api_keys'' of Some (VMap m) \<Rightarrow> m | _ \<Rightarrow> [])
                in Inr (put_all others (AList.update ''llm_api_keys'' (VMap (put_all encrypted existing)) merged))))
      | _ \<Rightarrow> Inr (put_all others merged))"

definition upd_tenant_name :: "string \<Rightarrow> string \<Rightarrow> nat stmt" where
  "upd_tenant_name tid name t i d =
     (Inr (length (filter (live_tenant tid) (t_tenants d))), d\<lparr>t_tenants := map_where (live_tenant tid) (\<lambda>r. r\<lparr>tn_name := name\<rparr>) (t_tenants d)\<rparr>)"

definition upd_tenant_settings :: "string \<Rightarrow> (string \<times> gval) list \<Rightarrow> unit stmt" where
  "upd_tenant_settings tid st t i d =
     (Inr (), d\<lparr>t_tenants := map_where (live_tenant tid) (\<lambda>r. r\<lparr>tn_settings := st\<rparr>) (t_tenants d)\<rparr>)"

record UpdateSettingsRequest =
  sr_Name :: string
  sr_Settings :: "(string \<times> gval) list option"

text \<open>The second half of the handler, when the request has settings; an error of the first query is ignored.\<close>

definition update_settings_part :: "env \<Rightarrow> aead \<Rightarrow> (string \<Rightarrow> error + string) \<Rightarrow> string \<Rightarrow> string \<Rightarrow> (string \<times> gval) list \<Rightarrow>
    'g TenantGatewayCache option \<Rightarrow> world \<Rightarrow> reply \<times> 'g TenantGatewayCache option \<times> world" where
  "update_settings_part ev ci rnd aesKey tid settings cache w =
     (case run_stmt ev (sel_tenant tid) w of (q, w1) \<Rightarrow>
        (let existing = (case q of Inr tn \<Rightarrow> tn_settings tn | Inl _ \<Rightarrow> [])
         in case merge_settings ci rnd aesKey settings existing of
              Inl _ \<Rightarrow> (error_reply 500 ''encryption failed'', cache, w1)
            | Inr merged \<Rightarrow>
                (case run_stmt ev (upd_tenant_settings tid merged) w1 of
                   (Inl _, w2) \<Rightarrow> (error_reply 500 ''update failed'', cache, w2)
                 | (Inr _, w2) \<Rightarrow>
                     (message_reply ''settings updated'', map_option (\<lambda>ca. cache_Invalidate ca tid) cache, w2))))"

definition UpdateSettings :: "env \<Rightarrow> aead \<Rightarrow> (string \<Rightarrow> error + string) \<Rightarrow> string \<Rightarrow> req_ctx \<Rightarrow> error + UpdateSettingsRequest \<Rightarrow>
    'g TenantGatewayCache option \<Rightarrow> world \<Rightarrow> reply \<times> 'g TenantGatewayCache option \<times> world" where
  "UpdateSettings ev ci rnd aesKey c body cache w =
     (case tenantIDFromCtx c of
        None \<Rightarrow> (error_reply 401 ''tenant_id missing'', cache, w)
      | Some tid \<Rightarrow>
          (if key_or_empty c ''auth.role'' \<noteq> ''admin'' \<and> key_or_empty c ''auth.role'' \<noteq> ''owner'' then (error_reply 403 ''admin or owner role required'', cache, w)
           else case body of
             Inl err \<Rightarrow> (error_reply 400 (error_text err), cache, w)
           | Inr req \<Rightarrow>
               (let settings_part = (\<lambda>w. case sr_Settings req of
                      None \<Rightarrow> (message_reply ''settings updated'', cache, w)
                    | Some st \<Rightarrow> update_settings_part ev ci rnd aesKey tid st cache w)
                in if sr_Name req \<noteq> ''''
                   then case run_stmt ev (upd_tenant_name tid (sr_Name req)) w of
                          (Inl _, w1) \<Rightarrow> (error_reply 500 ''update failed'', cache, w1)
                        | (Inr n, w1) \<Rightarrow> (if n = 0 then (error_reply 404 ''tenant not found'', cache, w1) else settings_part w1)
                   else settings_part w)))"

section \<open>Administration\<close>

definition tenant_json :: "tenant_row \<Rightarrow> nat \<Rightarrow> gval" where
  "tenant_json r n = VMap ([(''id'', VStr (tn_id r)), (''name'', VStr (tn_name r)), (''slug'', VStr (tn_slug r)), (''plan'', VStr (tn_plan r)),
      (''status'', VStr (tn_status r)), (''member_count'', VInt (int n)), (''created_at'', VInt (tn_created r))] @
      (case tn_deleted r of None \<Rightarrow> [] | Some t \<Rightarrow> [(''deleted_at'', VInt t)]))"

definition listed_tenants :: "string \<Rightarrow> pub_db \<Rightarrow> tenant_row list" where
  "listed_tenants status d = filter (\<lambda>r. tn_deleted r = None \<and> (status = '''' \<or> tn_status r = status)) (t_tenants d)"

definition count_tenants :: "string \<Rightarrow> nat stmt" where
  "count_tenants status t i d = (Inr (length (listed_tenants status d)), d)"

definition sel_tenants :: "string \<Rightarrow> int \<Rightarrow> int \<Rightarrow> (tenant_row \<times> nat) list stmt" where
  "sel_tenants status lmt off t i d =
     (limit_offset lmt off (map (\<lambda>r. (r, length (filter (\<lambda>m. mb_tenant m = tn_id r) (t_members d))))
        (sort_key (\<lambda>r. - tn_created r) (listed_tenants status d))), d)"

text \<open>Both queries are sent before either result is looked at.\<close>

definition ListTenants :: "env \<Rightarrow> string \<Rightarrow> int \<Rightarrow> int \<Rightarrow> world \<Rightarrow> reply \<times> world" where
  "ListTenants ev status page0 size0 w =
     (case page_params page0 size0 of (page, pageSize, offset) \<Rightarrow>
        (case run_stmt ev (count_tenants status) w of (q1, w1) \<Rightarrow>
           (case run_stmt ev (sel_tenants status pageSize offset) w1 of (q2, w2) \<Rightarrow>
              (case (q1, q2) of
                 (Inr cnt, Inr rs) \<Rightarrow>
                   ((200, VMap [(''tenants'', VList (map (\<lambda>(r, n). tenant_json r n) rs)), (''total'', VInt (int cnt)), (''page'', VInt page), (''page_size'', VInt pageSize)]), w2)
               | _ \<Rightarrow> (error_reply 500 ''database error'', w2)))))"

definition sel_any_tenant :: "string \<Rightarrow> tenant_row stmt" where
  "sel_any_tenant tid t i d = (query_row (filter (\<lambda>r. tn_id r = tid) (t_tenants d)), d)"

definition GetTenant :: "env \<Rightarrow> string \<Rightarrow> world \<Rightarrow> reply \<times> world" where
  "GetTenant ev tid w =
     (case run_stmt ev (sel_any_tenant tid) w of
        (Inl _, w1) \<Rightarrow> (error_reply 404 ''tenant not found'', w1)
      | (Inr r, w1) \<Rightarrow> ((200, tenant_json r 0), w1))"

record CreateTenantRequest =
  cq_Name :: string
  cq_Slug :: string
  cq_Plan :: string
  cq_Status :: string

definition valid_plan :: "string \<Rightarrow> bool" where
  "valid_plan p \<longleftrightarrow> p \<in> {''free'', ''pro'', ''enterprise''}"

definition valid_status :: "string \<Rightarrow> bool" where
  "valid_status s \<longleftrightarrow> s \<in> {''active'', ''suspended''}"

definition valid_create :: "CreateTenantRequest \<Rightarrow> bool" where
  "valid_create r \<longleftrightarrow> cq_Name r \<noteq> '''' \<and> cq_Slug r \<noteq> '''' \<and> valid_plan (cq_Plan r) \<and> valid_status (cq_Status r)"

definition ins_full_tenant :: "tenant_row \<Rightarrow> unit stmt" where
  "ins_full_tenant r t i d =
     (if list_ex (\<lambda>q. tn_id q = tn_id r \<or> tn_slug q = tn_slug r) (t_tenants d) then (Inl unique_violation, d)
      else (Inr (), d\<lparr>t_tenants := t_tenants d @ [r]\<rparr>))"

text \<open>\<open>provision\<close> is ProvisionTenantSchema of \<open>Tenant_DB\<close> on the pool, absent when the handler has no pool.\<close>

definition admin_CreateTenant :: "env \<Rightarrow> (string \<Rightarrow> world \<Rightarrow> error option \<times> world) option \<Rightarrow> error + CreateTenantRequest \<Rightarrow> world \<Rightarrow> reply \<times> world" where
  "admin_CreateTenant ev provision body w =
     (case body of
        Inl err \<Rightarrow> (error_reply 400 (error_text err), w)
      | Inr req \<Rightarrow>
          (if \<not> valid_create req then (error_reply 400 ''validation failed'', w)
           else let tid = ev_uuid ev (w_calls w);
                    r = \<lparr>tn_id = tid, tn_name = cq_Name req, tn_slug = cq_Slug req, tn_org = None, tn_plan = cq_Plan req, tn_status = cq_Status req,
                         tn_settings = [], tn_is_default = False, tn_created = time_now ev w, tn_deleted = None\<rparr>
                in case run_stmt ev (ins_full_tenant r) w of
                     (Inl _, w1) \<Rightarrow> (error_reply 500 ''create failed'', w1)
                   | (Inr _, w1) \<Rightarrow>
                       (case provision of
                          None \<Rightarrow> ((201, tenant_json r 0), w1)
                        | Some prov \<Rightarrow>
                            (case prov tid w1 of
                               (Some _, w2) \<Rightarrow> (error_reply 500 ''schema provision failed'', w2)
                             | (None, w2) \<Rightarrow> ((201, tenant_json r 0), w2)))))"

definition nonempty_or :: "string \<Rightarrow> string \<Rightarrow> string" where
  "nonempty_or s old = (if s = '''' then old else s)"

definition upd_tenant :: "string \<Rightarrow> string \<Rightarrow> string \<Rightarrow> nat stmt" where
  "upd_tenant tid plan status t i d =
     (Inr (length (filter (live_tenant tid) (t_tenants d))),
      d\<lparr>t_tenants := map_where (live_tenant tid) (\<lambda>r. r\<lparr>tn_plan := nonempty_or plan (tn_plan r), tn_status := nonempty_or status (tn_status r)\<rparr>) (t_tenants d)\<rparr>)"

definition UpdateTenant :: "env \<Rightarrow> string \<Rightarrow> error + string \<times> string \<Rightarrow> world \<Rightarrow> reply \<times> world" where
  "UpdateTenant ev tid body w =
     (case body of
        Inl err \<Rightarrow> (error_reply 400 (error_text err), w)
      | Inr (plan, status) \<Rightarrow>
          (if plan \<noteq> '''' \<and> \<not> valid_plan plan \<or> status \<noteq> '''' \<and> \<not> valid_status status then (error_reply 400 ''validation failed'', w)
           else case run_stmt ev (upd_tenant tid plan status) w of
             (Inl _, w1) \<Rightarrow> (error_reply 500 ''update failed'', w1)
           | (Inr n, w1) \<Rightarrow> (if n = 0 then error_reply 404 ''tenant not found'' else message_reply ''tenant updated'', w1)))"

definition soft_delete :: "string \<Rightarrow> int \<Rightarrow> nat stmt" where
  "soft_delete tid at_time t i d =
     (Inr (length (filter (live_tenant tid) (t_tenants d))), d\<lparr>t_tenants := map_where (live_tenant tid) (\<lambda>r. r\<lparr>tn_deleted := Some at_time\<rparr>) (t_tenants d)\<rparr>)"

definition DeleteTenant :: "env \<Rightarrow> string \<Rightarrow> world \<Rightarrow> reply \<times> world" where
  "DeleteTenant ev tid w =
     (case run_stmt ev (soft_delete tid (time_now ev w)) w of
        (Inl _, w1) \<Rightarrow> (error_reply 500 ''delete failed'', w1)
      | (Inr n, w1) \<Rightarrow> (if n = 0 then error_reply 404 ''tenant not found'' else message_reply ''tenant deleted'', w1))"

section \<open>Owners\<close>

text \<open>The user owns the tenant, which is not the default one, and memberships are unique, as the table demands.\<close>

definition owner_kept :: "string \<Rightarrow> string \<Rightarrow> pub_db \<Rightarrow> bool" where
  "owner_kept tid u d \<longleftrightarrow>
     distinct (map (\<lambda>m. (mb_tenant m, mb_user m)) (t_members d)) \<and>
     (\<exists>m\<in>set (t_members d). member_key tid u m \<and> mb_role m = ''owner'') \<and>
     (\<forall>r\<in>set (t_tenants d). tn_id r = tid \<longrightarrow> \<not> tn_is_default r)"

named_theorems kept \<open>statements that keep owners\<close>

lemma owner_kept_frame:
  assumes "t_members d' = t_members d"
    and "\<And>r. r \<in> set (t_tenants d') \<Longrightarrow> \<not> tn_is_default r \<or> (\<exists>q\<in>set (t_tenants d). tn_id q = tn_id r \<and> tn_is_default q)"
  shows "owner_kept tid u d \<Longrightarrow> owner_kept tid u d'"
  using assms by (fastforce simp: owner_kept_def)

lemma kept_reads [kept]:
  "owner_kept tid u d \<Longrightarrow> owner_kept tid u (snd (sel_default_tenant t i d))"
  "owner_kept tid u d \<Longrightarrow> owner_kept tid u (snd (sel_user_tenant g t i d))"
  "owner_kept tid u d \<Longrightarrow> owner_kept tid u (snd (sel_user g t i d))"
  "owner_kept tid u d \<Longrightarrow> owner_kept tid u (snd (sel_tenants_of x t i d))"
  "owner_kept tid u d \<Longrightarrow> owner_kept tid u (snd (sel_global_role x t i d))"
  "owner_kept tid u d \<Longrightarrow> owner_kept tid u (snd (sel_tenant_role x y t i d))"
  "owner_kept tid u d \<Longrightarrow> owner_kept tid u (snd (count_membership x y t i d))"
  "owner_kept tid u d \<Longrightarrow> owner_kept tid u (snd (sel_members x l off t i d))"
  "owner_kept tid u d \<Longrightarrow> owner_kept tid u (snd (count_members x t i d))"
  "owner_kept tid u d \<Longrightarrow> owner_kept tid u (snd (sel_tenant x t i d))"
  "owner_kept tid u d \<Longrightarrow> owner_kept tid u (snd (sel_any_tenant x t i d))"
  "owner_kept tid u d \<Longrightarrow> owner_kept tid u (snd (count_tenants s t i d))"
  "owner_kept tid u d \<Longrightarrow> owner_kept tid u (snd (sel_tenants s l off t i d))"
  by (simp_all add: sel_default_tenant_def sel_user_tenant_def sel_user_def sel_tenants_of_def sel_global_role_def sel_tenant_role_def
      count_membership_def sel_members_def count_members_def sel_tenant_def sel_any_tenant_def count_tenants_def sel_tenants_def)

lemma kept_writes [kept]:
  "owner_kept tid u d \<Longrightarrow> owner_kept tid u (snd (upsert_user g l a t i d))"
  "owner_kept tid u d \<Longrightarrow> owner_kept tid u (snd (create_schema s t i d))"
  "owner_kept tid u d \<Longrightarrow> owner_kept tid u (snd (accept_invitation t0 h t i d))"
  "owner_kept tid u d \<Longrightarrow> owner_kept tid u (snd (upd_global_role x r t i d))"
  "owner_kept tid u d \<Longrightarrow> owner_kept tid u (snd (ins_invitation iid x e r h ex cr b t i d))"
  by (erule owner_kept_frame[rotated -1]; auto simp: create_schema_def accept_invitation_def upd_global_role_def ins_invitation_def split: if_splits)+

lemma kept_tenants [kept]:
  "owner_kept tid u d \<Longrightarrow> owner_kept tid u (snd (ins_tenant x n s org t i d))"
  "owner_kept tid u d \<Longrightarrow> owner_kept tid u (snd (upd_tenant_name x n t i d))"
  "owner_kept tid u d \<Longrightarrow> owner_kept tid u (snd (upd_tenant_settings x st t i d))"
  "owner_kept tid u d \<Longrightarrow> owner_kept tid u (snd (upd_tenant x p s t i d))"
  "owner_kept tid u d \<Longrightarrow> owner_kept tid u (snd (soft_delete x tm t i d))"
  "owner_kept tid u d \<Longrightarrow> \<not> tn_is_default r \<Longrightarrow> owner_kept tid u (snd (ins_full_tenant r t i d))"
  by (erule owner_kept_frame[rotated -1];
      auto simp: ins_tenant_def upd_tenant_name_def upd_tenant_settings_def upd_tenant_def soft_delete_def ins_full_tenant_def set_map_where split: if_splits)+

lemma kept_new_member [kept]:
  "owner_kept tid u d \<Longrightarrow> owner_kept tid u (snd (ins_member x y r t i d))"
  "owner_kept tid u d \<Longrightarrow> owner_kept tid u (snd (ins_member_if_new x y r t i d))"
  by (auto simp: owner_kept_def ins_member_def ins_member_if_new_def new_member_def member_key_def list_ex_iff)

text \<open>Changing a membership of another user or tenant.\<close>

lemma map_where_role_keys:
  "map (\<lambda>m. (mb_tenant m, mb_user m)) (map_where P (\<lambda>m. m\<lparr>mb_role := r\<rparr>) ms) = map (\<lambda>m. (mb_tenant m, mb_user m)) ms"
  by (simp add: map_where_def o_def if_distrib cong: if_cong)

lemma kept_other_member:
  assumes "owner_kept tid u d" "(x, y) \<noteq> (tid, u)"
  shows "owner_kept tid u (snd (upsert_member x y r t i d))" "owner_kept tid u (snd (upd_member_role x y r t i d))"
    "owner_kept tid u (snd (del_member x y t i d))"
proof -
  from assms(1) obtain m where m: "m \<in> set (t_members d)" "member_key tid u m" "mb_role m = ''owner''" by (auto simp: owner_kept_def)
  have nk: "\<not> member_key x y m" using m(2) assms(2) by (auto simp: member_key_def)
  have upd: "m \<in> set (map_where (member_key x y) (\<lambda>m. m\<lparr>mb_role := r\<rparr>) (t_members d))"
    using m(1) nk by (auto simp: set_map_where intro: bexI[of _ m])
  note d = assms(1)[unfolded owner_kept_def]
  show "owner_kept tid u (snd (upd_member_role x y r t i d))"
    using d upd m(2,3) by (auto simp: owner_kept_def upd_member_role_def map_where_role_keys)
  show "owner_kept tid u (snd (upsert_member x y r t i d))"
  proof (cases "list_ex (member_key x y) (t_members d)")
    case True
    with d upd m(2,3) show ?thesis by (auto simp: owner_kept_def upsert_member_def map_where_role_keys)
  next
    case False
    then have "(x, y) \<notin> (\<lambda>m. (mb_tenant m, mb_user m)) ` set (t_members d)" by (auto simp: list_ex_iff member_key_def)
    with d m False show ?thesis by (auto simp: owner_kept_def upsert_member_def new_member_def)
  qed
  show "owner_kept tid u (snd (del_member x y t i d))"
    using d nk m distinct_map_filter[of "\<lambda>m. (mb_tenant m, mb_user m)" "t_members d" "\<lambda>m. \<not> member_key x y m"]
    by (auto simp: owner_kept_def del_member_def)
qed

text \<open>The query for a role finds that of the owner.\<close>

lemma owner_role_found:
  assumes "owner_kept tid u d" "fst (sel_tenant_role u tid t i d) = Inr role"
  shows "role = ''owner''"
proof -
  from assms(1) obtain m where m: "m \<in> set (t_members d)" "member_key tid u m" "mb_role m = ''owner''" by (auto simp: owner_kept_def)
  have u: "m' = m" if "m' \<in> set (t_members d)" "member_key tid u m'" for m'
    using assms(1) that m by (auto simp: owner_kept_def member_key_def distinct_map inj_on_def)
  from assms(2) obtain m' ms where f: "filter (member_key tid u) (t_members d) = m' # ms" "role = mb_role m'"
    by (cases "filter (member_key tid u) (t_members d)") (auto simp: sel_tenant_role_def query_row_def)
  then have "m' \<in> set (filter (member_key tid u) (t_members d))" by simp
  with u[of m'] m(3) f(2) show ?thesis by simp
qed

section \<open>Every operation keeps owners\<close>

lemma run_kept: "run_stmt ev st w = (r, w') \<Longrightarrow> owner_kept tid u (w_db w) \<Longrightarrow> (\<And>t i d. owner_kept tid u d \<Longrightarrow> owner_kept tid u (snd (st t i d))) \<Longrightarrow> owner_kept tid u (w_db w')"
  by (rule run_stmt_db)

lemma ListMembers_keeps: "keeps (owner_kept tid u) (ListMembers ev c p s)"
  by (auto simp: keeps_def ListMembers_def intro: kept elim!: run_kept split: prod.splits sum.splits option.splits)

lemma InviteMember_keeps: "keeps (owner_kept tid u) (InviteMember ev url c body)"
  by (auto simp: keeps_def InviteMember_def Let_def intro: kept elim!: run_kept split: prod.splits sum.splits option.splits)

lemma ListUserTenants_keeps: "keeps (owner_kept tid u) (ListUserTenants ev c)"
  by (auto simp: keeps_def ListUserTenants_def intro: kept elim!: run_kept split: prod.splits sum.splits option.splits)

lemma GetSettings_keeps: "keeps (owner_kept tid u) (GetSettings ev ci key c)"
  by (auto simp: keeps_def GetSettings_def intro: kept elim!: run_kept split: prod.splits sum.splits option.splits)

lemma ListTenants_keeps: "keeps (owner_kept tid u) (ListTenants ev st p s)"
  by (auto simp: keeps_def ListTenants_def intro: kept elim!: run_kept split: prod.splits sum.splits)

lemma GetTenant_keeps: "keeps (owner_kept tid u) (GetTenant ev x)"
  by (auto simp: keeps_def GetTenant_def intro: kept elim!: run_kept split: prod.splits sum.splits)

lemma UpdateTenant_keeps: "keeps (owner_kept tid u) (UpdateTenant ev x body)"
  by (auto simp: keeps_def UpdateTenant_def intro: kept elim!: run_kept split: prod.splits sum.splits)

lemma DeleteTenant_keeps: "keeps (owner_kept tid u) (DeleteTenant ev x)"
  by (auto simp: keeps_def DeleteTenant_def intro: kept elim!: run_kept split: prod.splits sum.splits)

lemma update_settings_part_keeps:
  "owner_kept tid u (w_db w) \<Longrightarrow> owner_kept tid u (w_db (snd (snd (update_settings_part ev ci rnd key x st ca w))))"
  by (auto simp: update_settings_part_def Let_def intro: kept elim!: run_kept split: prod.splits sum.splits)

lemma UpdateSettings_keeps:
  "owner_kept tid u (w_db w) \<Longrightarrow> owner_kept tid u (w_db (snd (snd (UpdateSettings ev ci rnd key c body ca w))))"
  by (auto simp: UpdateSettings_def Let_def intro: kept update_settings_part_keeps elim!: run_kept split: prod.splits sum.splits option.splits)

lemma admin_CreateTenant_keeps:
  assumes "\<And>x w. w_db (snd (prov x w)) = w_db w"
  shows "keeps (owner_kept tid u) (admin_CreateTenant ev (Some prov) body)" "keeps (owner_kept tid u) (admin_CreateTenant ev None body)"
proof -
  have p: "prov x w = (e, w') \<Longrightarrow> w_db w' = w_db w" for x w e w' using assms[of x w] by simp
  show "keeps (owner_kept tid u) (admin_CreateTenant ev (Some prov) body)"
    by (auto simp: keeps_def admin_CreateTenant_def Let_def p intro: kept elim!: run_kept split: prod.splits sum.splits option.splits)
  show "keeps (owner_kept tid u) (admin_CreateTenant ev None body)"
    by (auto simp: keeps_def admin_CreateTenant_def Let_def intro: kept elim!: run_kept split: prod.splits sum.splits option.splits)
qed

text \<open>Changing and removing a member looks at the role of the target first.\<close>

lemma not_owner_other:
  assumes "owner_kept tid u (w_db w)" "run_stmt ev (sel_tenant_role y x) w = (Inr role, w1)" "role \<noteq> ''owner''"
  shows "(x, y) \<noteq> (tid, u)" "owner_kept tid u (w_db w1)"
proof -
  have "fst (sel_tenant_role y x (time_now ev w) (ev_uuid ev (w_calls w)) (w_db w)) = Inr role" using run_stmt_Inr(1)[OF assms(2)] by simp
  with owner_role_found[OF assms(1)] assms(3) show "(x, y) \<noteq> (tid, u)" by blast
  show "owner_kept tid u (w_db w1)" by (rule run_kept[OF assms(2,1)]) (rule kept)
qed

lemma UpdateMemberRole_keeps: "keeps (owner_kept tid u) (UpdateMemberRole ev c y body)"
  unfolding keeps_def
proof (intro allI impI)
  fix w :: world assume P: "owner_kept tid u (w_db w)"
  have sel: "run_stmt ev (sel_tenant_role y x) w = (q, w1) \<Longrightarrow> owner_kept tid u (w_db w1)" for x q w1
    by (erule run_kept[OF _ P]) (rule kept)
  have act: "owner_kept tid u (w_db w2)"
    if "run_stmt ev (sel_tenant_role y x) w = (Inr role, w1)" "role \<noteq> ''owner''" "run_stmt ev (upd_member_role x y r) w1 = (q, w2)" for x role w1 r q w2
    using run_stmt_db[OF that(3), of "owner_kept tid u"] not_owner_other[OF P that(1,2)] kept_other_member(2) by blast
  show "owner_kept tid u (w_db (snd (UpdateMemberRole ev c y body w)))"
    using P by (simp add: UpdateMemberRole_def split: prod.split sum.split option.split) (auto intro: sel act)
qed

lemma RemoveMember_keeps: "keeps (owner_kept tid u) (RemoveMember ev c y)"
  unfolding keeps_def
proof (intro allI impI)
  fix w :: world assume P: "owner_kept tid u (w_db w)"
  have sel: "run_stmt ev (sel_tenant_role y x) w = (q, w1) \<Longrightarrow> owner_kept tid u (w_db w1)" for x q w1
    by (erule run_kept[OF _ P]) (rule kept)
  have act: "owner_kept tid u (w_db w2)"
    if "run_stmt ev (sel_tenant_role y x) w = (Inr role, w1)" "role \<noteq> ''owner''" "run_stmt ev (del_member x y) w1 = (q, w2)" for x role w1 q w2
    using run_stmt_db[OF that(3), of "owner_kept tid u"] not_owner_other[OF P that(1,2)] kept_other_member(3) by blast
  show "owner_kept tid u (w_db (snd (RemoveMember ev c y w)))"
    using P by (simp add: RemoveMember_def Let_def split: prod.split sum.split option.split) (auto intro: sel act)
qed

lemmas keeps_intros = keeps_in_tx keeps_stmt_then keeps_ret

lemma onboard_keeps:
  "keeps (owner_kept tid u) (GetUserTenants ev g)" "keeps (owner_kept tid u) (SetGlobalRole ev x r)"
  "keeps (owner_kept tid u) (GetGlobalRole ev x)" "keeps (owner_kept tid u) (GetTenantRole ev x y)" "keeps (owner_kept tid u) (IsMember ev x y)"
proof -
  have "owner_kept tid u (w_db (snd (GetUserTenants ev g w)))" if P: "owner_kept tid u (w_db w)" for w
  proof -
    obtain q w1 where s: "run_stmt ev (sel_user g) w = (q, w1)" by fastforce
    have w1: "owner_kept tid u (w_db w1)" by (rule run_kept[OF s P]) (rule kept)
    have k: "owner_kept tid u (w_db (snd (stmt_then ev ''onboard: list tenants'' (sel_tenants_of uid) (\<lambda>ts w2. (Inr (Some (uid, gr, ts)), w2)) w1)))" for uid gr
      using w1 unfolding stmt_then_def by (auto intro: kept elim!: run_kept split: prod.split sum.split)
    then show ?thesis using s w1 by (cases q) (auto simp: GetUserTenants_def)
  qed
  then show "keeps (owner_kept tid u) (GetUserTenants ev g)" by (simp add: keeps_def)
qed (unfold SetGlobalRole_def GetGlobalRole_def GetTenantRole_def IsMember_def; intro keeps_intros kept; assumption)+

lemma CreateTenant_keeps: "keeps (owner_kept tid u) (CreateTenant ev inp)"
proof -
  have "keeps (owner_kept tid u) (in_tx ev (Wrapped ''onboard: commit'')
       (stmt_then ev ''onboard: upsert user'' (upsert_user g l a) (\<lambda>(uid, gr).
          stmt_then ev ''onboard: insert tenant'' (ins_tenant x n s org) (\<lambda>_.
          stmt_then ev ''onboard: insert tenant_member'' (ins_member x uid ''owner'') (\<lambda>_.
          stmt_then ev ''onboard: create schema'' (create_schema sn) (\<lambda>_ w4. (Inr (res uid), w4)))))))" for g l a x n s org sn and res :: "string \<Rightarrow> CreateTenantResult"
    by (intro keeps_intros kept, assumption, simp add: split_beta, intro keeps_intros kept; assumption)
  then show ?thesis by (simp add: keeps_def CreateTenant_def Let_def split_beta)
qed

lemma CreateTenantForUser_keeps: "keeps (owner_kept tid u) (CreateTenantForUser ev y name)"
proof -
  have "keeps (owner_kept tid u) (in_tx ev (Wrapped ''onboard: commit'')
       (stmt_then ev ''onboard: insert tenant'' (ins_tenant x n s None) (\<lambda>_.
        stmt_then ev ''onboard: insert tenant_member'' (ins_member x y ''owner'') (\<lambda>_.
        stmt_then ev ''onboard: create schema'' (create_schema sn) (\<lambda>_ w3. (Inr x, w3))))))" for x n s sn
    by (intro keeps_intros kept; assumption)
  then show ?thesis by (simp add: keeps_def CreateTenantForUser_def Let_def)
qed

lemma JoinTenant_keeps: "keeps (owner_kept tid u) (JoinTenant ev y tok)"
proof -
  have "keeps (owner_kept tid u) (in_tx ev id (stmt_then ev ''onboard: invalid or expired invitation token'' (accept_invitation t0 tok) (\<lambda>iv.
      stmt_then ev ''onboard: insert tenant_member'' (ins_member_if_new (iv_tenant iv) y (iv_role iv)) (\<lambda>_ w2. (Inr (), w2)))))" for t0
    by (intro keeps_intros kept; assumption)
  then show ?thesis by (simp add: keeps_def JoinTenant_def)
qed

text \<open>The default tenant is another one.\<close>

lemma join_default_keeps:
  "keeps (owner_kept tid u) (stmt_then ev ''onboard: default tenant not found'' sel_default_tenant (\<lambda>x.
      stmt_then ev ''onboard: join default tenant'' (upsert_member x y r) (\<lambda>_ w3. (Inr (y, x, gr), w3))))"
  unfolding keeps_def
proof (intro allI impI)
  fix w :: world assume P: "owner_kept tid u (w_db w)"
  obtain q w1 where s: "run_stmt ev sel_default_tenant w = (q, w1)" by fastforce
  have w1: "owner_kept tid u (w_db w1)" by (rule run_kept[OF s P]) (rule kept)
  have other: "(x, y) \<noteq> (tid, u)" if "q = Inr x" for x
  proof -
    from run_stmt_Inr(1)[of ev sel_default_tenant w x w1] s that obtain r where "filter tn_is_default (t_tenants (w_db w)) = r" "r \<noteq> []" "tn_id (hd r) = x"
      by (cases "filter tn_is_default (t_tenants (w_db w))") (auto simp: sel_default_tenant_def query_row_def)
    moreover from this have "hd r \<in> {t \<in> set (t_tenants (w_db w)). tn_is_default t}" unfolding set_filter[symmetric] by (metis hd_in_set)
    ultimately have "hd r \<in> set (t_tenants (w_db w))" "tn_is_default (hd r)" "tn_id (hd r) = x" by simp_all
    with P show ?thesis by (auto simp: owner_kept_def)
  qed
  have fin: "owner_kept tid u (w_db w2)" if "q = Inr x" "run_stmt ev (upsert_member x y r) w1 = (q2, w2)" for x q2 w2
    using run_stmt_db[OF that(2), of "owner_kept tid u"] w1 kept_other_member(1)[OF w1 other[OF that(1)]] by blast
  show "owner_kept tid u (w_db (snd (stmt_then ev ''onboard: default tenant not found'' sel_default_tenant (\<lambda>x.
      stmt_then ev ''onboard: join default tenant'' (upsert_member x y r) (\<lambda>_ w3. (Inr (y, x, gr), w3))) w)))"
    using w1 by (cases q) (auto simp: stmt_then_def s split: prod.split sum.split intro: fin)
qed

lemma AutoJoin_keeps: "keeps (owner_kept tid u) (AutoJoinDefaultTenant ev g l a adm)"
  unfolding AutoJoinDefaultTenant_def
  by (intro keeps_in_tx keeps_stmt_then kept, assumption) (simp add: split_beta join_default_keeps)

text \<open>The requests of the tenant and administration routes, and what the onboarding service does.\<close>

inductive tenant_step :: "world \<Rightarrow> world \<Rightarrow> bool" where
  "ListMembers ev c p s w = (r, w') \<Longrightarrow> tenant_step w w'"
| "InviteMember ev url c body w = (r, w') \<Longrightarrow> tenant_step w w'"
| "UpdateMemberRole ev c y b w = (r, w') \<Longrightarrow> tenant_step w w'"
| "RemoveMember ev c y w = (r, w') \<Longrightarrow> tenant_step w w'"
| "ListUserTenants ev c w = (r, w') \<Longrightarrow> tenant_step w w'"
| "GetSettings ev ci key c w = (r, w') \<Longrightarrow> tenant_step w w'"
| "UpdateSettings ev ci rnd key c bd (ca :: unit TenantGatewayCache option) w = (r, ca', w') \<Longrightarrow> tenant_step w w'"
| "ListTenants ev st p s w = (r, w') \<Longrightarrow> tenant_step w w'"
| "GetTenant ev x w = (r, w') \<Longrightarrow> tenant_step w w'"
| "admin_CreateTenant ev None cb w = (r, w') \<Longrightarrow> tenant_step w w'"
| "UpdateTenant ev x ub w = (r, w') \<Longrightarrow> tenant_step w w'"
| "DeleteTenant ev x w = (r, w') \<Longrightarrow> tenant_step w w'"
| "CreateTenant ev inp w = (cr, w') \<Longrightarrow> tenant_step w w'"
| "CreateTenantForUser ev y name w = (tr, w') \<Longrightarrow> tenant_step w w'"
| "JoinTenant ev y tok w = (jr, w') \<Longrightarrow> tenant_step w w'"
| "AutoJoinDefaultTenant ev g l a adm w = (ar, w') \<Longrightarrow> tenant_step w w'"
| "GetUserTenants ev gs w = (gr, w') \<Longrightarrow> tenant_step w w'"
| "SetGlobalRole ev y role w = (ur, w') \<Longrightarrow> tenant_step w w'"

lemma tenant_step_kept: "tenant_step w w' \<Longrightarrow> owner_kept tid u (w_db w) \<Longrightarrow> owner_kept tid u (w_db w')"
proof (induction rule: tenant_step.induct)
  case (7 ev ci rnd key c bd ca w r ca' w')
  then show ?case using UpdateSettings_keeps[of tid u w ev ci rnd key c bd ca] by simp
next
  case (10 ev cb w r w')
  show ?case by (rule keepsD[OF admin_CreateTenant_keeps(2)[of "\<lambda>_ w. (None, w)"] 10]) simp
qed (erule keepsD[rotated], assumption,
     rule ListMembers_keeps InviteMember_keeps UpdateMemberRole_keeps RemoveMember_keeps ListUserTenants_keeps GetSettings_keeps ListTenants_keeps
       GetTenant_keeps UpdateTenant_keeps DeleteTenant_keeps CreateTenant_keeps CreateTenantForUser_keeps JoinTenant_keeps AutoJoin_keeps onboard_keeps)+

interpretation ownership: invariant_system "\<lambda>w. owner_kept tid u (w_db w)" tenant_step "\<lambda>w. owner_kept tid u (w_db w)" for tid u
  by unfold_locales (auto intro: tenant_step_kept)

text \<open>C15: Owners keep their tenants: whoever owns a tenant other than the default one owns it after any sequence of requests for
  members, invitations, settings, administration and onboarding, whatever calls to the database fail. In particular no request
  removes an owner or changes the role of one.\<close>

theorem owners_stay:
  assumes "owner_kept tid u (w_db w)" and "rtranclp tenant_step w w'"
  shows "\<exists>m\<in>set (t_members (w_db w')). mb_tenant m = tid \<and> mb_user m = u \<and> mb_role m = ''owner''"
  using ownership.steps_inv[OF assms(2,1)] by (auto simp: owner_kept_def member_key_def)

definition admin_ctx :: req_ctx where
  "admin_ctx = \<lparr>rc_Authorization = '''', rc_keys = [''auth.sub'' \<mapsto> ''u2'', ''auth.role'' \<mapsto> ''admin''],
     rc_tenant = Some (Some \<lparr>tc_TenantID = ''t1'', tc_UserID = ''u2'', tc_Role = ''admin''\<rparr>)\<rparr>"

theorem owners_stay_witness:
  "\<exists>m\<in>set (t_members (w_db (snd (RemoveMember demo_env admin_ctx ''u1'' demo_world)))). mb_tenant m = ''t1'' \<and> mb_user m = ''u1'' \<and> mb_role m = ''owner''"
proof -
  have "owner_kept ''t1'' ''u1'' (w_db demo_world)"
    by (simp add: owner_kept_def demo_world_def demo_db_def empty_db_def member_key_def)
  moreover have "tenant_step demo_world (snd (RemoveMember demo_env admin_ctx ''u1'' demo_world))"
    by (rule tenant_step.intros(4)[of demo_env admin_ctx "''u1''"]) (rule prod.collapse[symmetric])
  ultimately show ?thesis by (rule owners_stay[OF _ r_into_rtranclp])
qed

section \<open>Invitation links\<close>

lemma InviteMember_created:
  assumes "InviteMember ev url c body w = ((201, v), w1)" "ev_rand ev (w_calls w) = Inr bytes"
  shows "\<exists>iv. t_invitations (w_db w1) = t_invitations (w_db w) @ [iv] \<and> iv_hash iv = ev_hash ev (hex_encode bytes)"
proof -
  have "\<exists>iid tid em ro ex cr b x. run_stmt ev (ins_invitation iid tid em ro (ev_hash ev (hex_encode bytes)) ex cr b) w = (Inr x, w1)"
    using assms by (auto simp: InviteMember_def error_reply_def Let_def split: option.splits if_splits sum.splits prod.splits) blast+
  then obtain iid tid em ro ex cr b x where s: "run_stmt ev (ins_invitation iid tid em ro (ev_hash ev (hex_encode bytes)) ex cr b) w = (Inr x, w1)" by blast
  from run_stmt_fst_snd[OF s] show ?thesis by (auto simp: ins_invitation_def split: if_splits)
qed

text \<open>The link of an invitation does not work. InviteMember stores the hash of the random token and puts the token itself
  into the link; JoinTenant looks for a row whose hash is the token. Unless the token is its own hash or the hash of another
  invitation, joining with the token of the link fails.\<close>

theorem invitation_link_refused:
  assumes "InviteMember ev url c body w = ((201, v), w1)" and "ev_rand ev (w_calls w) = Inr bytes"
    and "ev_hash ev (hex_encode bytes) \<noteq> hex_encode bytes" and "\<forall>iv\<in>set (t_invitations (w_db w)). iv_hash iv \<noteq> hex_encode bytes"
  shows "isl (fst (JoinTenant ev2 u (hex_encode bytes) w1))"
proof -
  let ?tok = "hex_encode bytes"
  have "iv_hash iv \<noteq> ?tok" if "iv \<in> set (t_invitations (w_db w1))" for iv
    using InviteMember_created[OF assms(1,2)] assms(3,4) that by auto
  then have "filter (open_invitation t0 ?tok) (t_invitations (w_db w1)) = []" for t0
    by (auto simp: filter_empty_conv open_invitation_def)
  then have "fst (accept_invitation t0 ?tok t i (w_db (tick w1))) = Inl ErrNoRows" for t0 t i
    by (simp add: accept_invitation_def query_row_def)
  then obtain e w2 where none: "run_stmt ev2 (accept_invitation (time_now ev2 w1) ?tok) (tick w1) = (Inl e, w2)"
    using run_stmt_refused[of "accept_invitation (time_now ev2 w1) ?tok" "tick w1" ErrNoRows ev2] by blast
  obtain r w5 where j: "JoinTenant ev2 u ?tok w1 = (r, w5)" by fastforce
  then have "isl r"
    unfolding JoinTenant_def by (cases rule: in_tx_cases) (simp_all add: stmt_then_def none)
  with j show ?thesis by simp
qed

theorem invitation_link_refused_witness:
  "isl (fst (JoinTenant demo_env ''u1'' (hex_encode ''random-0'')
     (snd (InviteMember demo_env ''https://x'' admin_ctx (Inr \<lparr>im_Email = ''a@b.c'', im_Role = ''member''\<rparr>) demo_world))))"
proof -
  let ?r = "InviteMember demo_env ''https://x'' admin_ctx (Inr \<lparr>im_Email = ''a@b.c'', im_Role = ''member''\<rparr>) demo_world"
  have "fst (fst ?r) = 201" by code_simp
  then have "?r = ((201, snd (fst ?r)), snd ?r)" by (metis prod.collapse)
  moreover have "ev_rand demo_env (w_calls demo_world) = Inr ''random-0''" by code_simp
  moreover have "ev_hash demo_env (hex_encode ''random-0'') \<noteq> hex_encode ''random-0''" by (simp add: demo_env_def)
  moreover have "\<forall>iv\<in>set (t_invitations (w_db demo_world)). iv_hash iv \<noteq> hex_encode ''random-0''"
    by (simp add: demo_world_def demo_db_def empty_db_def)
  ultimately show ?thesis by (rule invitation_link_refused)
qed

section \<open>Suspended and deleted tenants\<close>

text \<open>The query of the guard RequireActiveTenant on the tables.\<close>

definition status_of :: "pub_db \<Rightarrow> string \<Rightarrow> error + string" where
  "status_of d tid = map_sum id tn_status (query_row (filter (live_tenant tid) (t_tenants d)))"

lemma DeleteTenant_gone:
  assumes "DeleteTenant ev tid w = ((200, v), w1)"
  shows "filter (live_tenant tid) (t_tenants (w_db w1)) = []"
proof -
  obtain n where s: "run_stmt ev (soft_delete tid (time_now ev w)) w = (Inr n, w1)"
    using assms by (auto simp: DeleteTenant_def error_reply_def split: prod.splits sum.splits if_splits)
  have "\<not> live_tenant tid (if live_tenant tid r then r\<lparr>tn_deleted := Some t\<rparr> else r)" for r t
    by (cases "live_tenant tid r") (simp_all, simp add: live_tenant_def)
  with run_stmt_fst_snd(1)[OF s] show ?thesis by (auto simp: soft_delete_def filter_empty_conv set_map_where)
qed

lemma UpdateTenant_status:
  assumes "UpdateTenant ev tid (Inr (plan, status)) w = ((200, v), w1)" "status \<noteq> ''''"
  shows "status_of (w_db w1) tid = Inr status"
proof -
  let ?f = "\<lambda>r. r\<lparr>tn_plan := nonempty_or plan (tn_plan r), tn_status := nonempty_or status (tn_status r)\<rparr>"
  obtain n where s: "run_stmt ev (upd_tenant tid plan status) w = (Inr n, w1)" and n: "n \<noteq> 0"
    using assms(1) by (auto simp: UpdateTenant_def error_reply_def split: prod.splits sum.splits if_splits)
  have lf: "live_tenant tid (?f r) = live_tenant tid r" for r by (simp add: live_tenant_def)
  have fm: "filter (live_tenant tid) (map_where (live_tenant tid) ?f rs) = map ?f (filter (live_tenant tid) rs)" for rs
    by (induction rs) (simp_all add: map_where_def lf)
  from run_stmt_fst_snd[OF s] have "t_tenants (w_db w1) = map_where (live_tenant tid) ?f (t_tenants (w_db w))"
    and "n = length (filter (live_tenant tid) (t_tenants (w_db w)))"
    by (auto simp: upd_tenant_def)
  with n show ?thesis
    by (cases "filter (live_tenant tid) (t_tenants (w_db w))") (simp_all add: status_of_def fm query_row_def, simp add: nonempty_or_def assms(2))
qed

text \<open>Suspending a tenant closes its guarded routes; deleting it opens them again. After a successful request to set the
  status of a tenant to suspended, the guard for active tenants refuses its requests; after a successful request to delete it,
  the guard lets them pass, since it takes a tenant it does not find for one to leave to the handler.\<close>

theorem deletion_passes_guard:
  assumes "rc_keys c ''auth.tenant_id'' = Some tid" and "tid \<noteq> ''''"
    and "UpdateTenant ev tid (Inr (plan, ''suspended'')) w = ((200, v), w1)" and "DeleteTenant ev tid w1 = ((200, v'), w2)"
  shows "RequireActiveTenant (Some (status_of (w_db w1))) c = Abort 403 ''tenant disabled'' \<and>
    RequireActiveTenant (Some (status_of (w_db w2))) c = Next c"
  using UpdateTenant_status[OF assms(3)] DeleteTenant_gone[OF assms(4)] assms(1,2)
  by (simp add: RequireActiveTenant_def status_of_def query_row_def)

theorem deletion_passes_guard_witness:
  "RequireActiveTenant (Some (status_of (w_db (snd (DeleteTenant demo_env ''t1'' (snd (UpdateTenant demo_env ''t1'' (Inr ('''', ''suspended'')) demo_world)))))))
     (admin_ctx\<lparr>rc_keys := [''auth.tenant_id'' \<mapsto> ''t1'']\<rparr>) = Next (admin_ctx\<lparr>rc_keys := [''auth.tenant_id'' \<mapsto> ''t1'']\<rparr>)"
proof -
  define u where "u = UpdateTenant demo_env ''t1'' (Inr ('''', ''suspended'')) demo_world"
  define d where "d = DeleteTenant demo_env ''t1'' (snd u)"
  have "fst (fst u) = 200" unfolding u_def by code_simp
  then have 1: "UpdateTenant demo_env ''t1'' (Inr ('''', ''suspended'')) demo_world = ((200, snd (fst u)), snd u)" by (metis prod.collapse u_def)
  have "fst (fst d) = 200" unfolding d_def u_def by code_simp
  then have 2: "DeleteTenant demo_env ''t1'' (snd u) = ((200, snd (fst d)), snd d)" by (metis prod.collapse d_def)
  show ?thesis using deletion_passes_guard[OF _ _ 1 2, of "admin_ctx\<lparr>rc_keys := [''auth.tenant_id'' \<mapsto> ''t1'']\<rparr>"] by (simp add: d_def u_def)
qed

section \<open>API keys\<close>

lemma map_of_put_all: "map_of (put_all kvs m) k = (case map_of (rev kvs) k of Some v \<Rightarrow> Some v | None \<Rightarrow> map_of m k)"
  unfolding put_all_def
  by (induction kvs arbitrary: m) (auto simp: update_conv' map_add_def split: option.split)

lemma map_of_rev_distinct: "distinct (map fst kvs) \<Longrightarrow> map_of (rev kvs) = map_of kvs"
  by (rule map_of_inject_set[THEN iffD2]) (simp_all add: rev_map[symmetric])

text \<open>Which keys of the request are taken: non-empty texts that are not placeholders.\<close>

definition given_key :: "(string \<times> gval) list \<Rightarrow> string \<Rightarrow> string option" where
  "given_key kvs p = (case map_of kvs p of Some (VStr s) \<Rightarrow> if s = '''' \<or> only_bullets s then None else Some s | _ \<Rightarrow> None)"

lemma encrypt_keys_spec:
  assumes "encrypt_keys ci rnd key kvs = Inr enc" "distinct (map fst kvs)"
  shows "distinct (map fst enc) \<and> set (map fst enc) \<subseteq> set (map fst kvs) \<and>
    (\<forall>p. case given_key kvs p of
       Some s \<Rightarrow> (\<exists>e. Encrypt ci (rnd p) key s = Inr e \<and> map_of enc p = Some (VStr e))
     | None \<Rightarrow> map_of enc p = None)"
  using assms
proof (induction kvs arbitrary: enc)
  case (Cons kv kvs)
  obtain q v where kv: "kv = (q, v)" by fastforce
  have nq: "q \<notin> fst ` set kvs" and d: "distinct (map fst kvs)" using Cons.prems(2) by (auto simp: kv)
  have given: "given_key (kv # kvs) p = (if p = q then (case v of VStr s \<Rightarrow> if s = '''' \<or> only_bullets s then None else Some s | _ \<Rightarrow> None) else given_key kvs p)" for p
    by (auto simp: given_key_def kv)
  have gq: "given_key kvs q = None" using nq by (simp add: given_key_def map_of_eq_None_iff[THEN iffD2] split: option.split)
  show ?case
  proof (cases "\<exists>s. v = VStr s \<and> s \<noteq> '''' \<and> \<not> only_bullets s")
    case True
    then obtain s where v: "v = VStr s" "s \<noteq> ''''" "\<not> only_bullets s" by blast
    from Cons.prems(1) v obtain e r where e: "Encrypt ci (rnd q) key s = Inr e" and r: "encrypt_keys ci rnd key kvs = Inr r" and enc: "enc = (q, VStr e) # r"
      by (auto simp: kv split: sum.splits)
    note IH = Cons.IH[OF r d]
    have "q \<notin> set (map fst r)" using IH nq by auto
    moreover have "case given_key (kv # kvs) p of Some s \<Rightarrow> (\<exists>e. Encrypt ci (rnd p) key s = Inr e \<and> map_of enc p = Some (VStr e)) | None \<Rightarrow> map_of enc p = None" for p
      using spec[OF conjunct2[OF conjunct2[OF IH]], of p] e v unfolding given enc by (cases "p = q") (auto split: option.split)
    ultimately show ?thesis using IH enc by (auto simp: kv)
  next
    case False
    then have "encrypt_keys ci rnd key kvs = Inr enc" using Cons.prems(1) by (auto simp: kv split: gval.splits if_splits)
    note IH = Cons.IH[OF this d]
    have vq: "(case v of VStr s \<Rightarrow> if s = '''' \<or> only_bullets s then None else Some s | _ \<Rightarrow> None) = None"
      using False by (auto split: gval.splits)
    show ?thesis unfolding given vq using IH spec[OF conjunct2[OF conjunct2[OF IH]], of q] gq by (auto simp: kv)
  qed
qed (simp add: given_key_def)

text \<open>The key that is stored for a provider, and the settings beside the keys.\<close>

definition stored_key :: "(string \<times> gval) list \<Rightarrow> string \<Rightarrow> gval option" where
  "stored_key st p = (case map_of st ''llm_api_keys'' of Some (VMap m) \<Rightarrow> map_of m p | _ \<Rightarrow> None)"



section \<open>Pages\<close>

lemma take_drop_pages: "0 < s \<Longrightarrow> concat (map (\<lambda>p. take s (drop (p * s) xs)) [0..<n]) = take (n * s) xs"
proof (induction n)
  case (Suc n)
  then show ?case using take_add[of "n * s" s xs] by (simp add: add.commute)
qed simp

text \<open>The pages of the member list together are the list: no member is shown twice and none is left out. Page numbers are
  small enough for the offset not to wrap around.\<close>

lemma pages_cover_members:
  assumes "1 \<le> ps" "ps \<le> MaxPageSize" "length (members_of tid d) \<le> n * nat ps" "int n * ps < 2 ^ 63"
  shows "concat (map (\<lambda>p. case page_params (int p + 1) ps of (_, lmt, off) \<Rightarrow>
      (case limit_offset lmt off (members_of tid d) of Inr rs \<Rightarrow> rs | Inl _ \<Rightarrow> [])) [0..<n]) = members_of tid d"
proof -
  have "(case page_params (int p + 1) ps of (_, lmt, off) \<Rightarrow> (case limit_offset lmt off (members_of tid d) of Inr rs \<Rightarrow> rs | Inl _ \<Rightarrow> [])) =
      take (nat ps) (drop (p * nat ps) (members_of tid d))" if "p < n" for p
  proof -
    have "int p * ps \<le> int n * ps" using that assms(1) by (simp add: mult_right_mono)
    with assms(4) have "int p * ps < 2 ^ 63" by linarith
    moreover have "0 \<le> int p * ps" using assms(1) by simp
    ultimately have "wrap64 (int p * ps) = int p * ps" by (intro wrap64_id) auto
    moreover have "nat (int p * ps) = p * nat ps" by (simp add: nat_mult_distrib)
    moreover have "\<not> int p * ps < 0" using assms(1) by (simp add: not_less)
    ultimately show ?thesis using assms(1,2)
      by (simp add: page_params_def Let_def limit_offset_def del: mult_less_0_iff)
  qed
  then have "concat (map (\<lambda>p. case page_params (int p + 1) ps of (_, lmt, off) \<Rightarrow>
      (case limit_offset lmt off (members_of tid d) of Inr rs \<Rightarrow> rs | Inl _ \<Rightarrow> [])) [0..<n]) =
    concat (map (\<lambda>p. take (nat ps) (drop (p * nat ps) (members_of tid d))) [0..<n])"
    by (intro arg_cong[where f = concat] map_cong) auto
  also have "\<dots> = members_of tid d" using assms(1,3) by (simp add: take_drop_pages)
  finally show ?thesis .
qed

end
