(* ===== verification/Auth_Handler.thy ===== *)
theory Auth_Handler
  imports Token_Store Tenant_Handler
begin

text \<open>
  Signing in and sessions: api/handler/auth_handler.go with the GitHub client of
  internal/auth/github.go. GitHub is an argument: the answers of its two endpoints and the decoders
  of their bodies. A reply has a status, a body, the cookies it sets and the address it redirects
  to. The random source, the database and Redis are those of \<open>Public_DB\<close>.

  Proved: a refresh token can be exchanged once; logging out ends the session; a switch of the tenant
  needs a membership of a tenant that is not deleted; a removed member keeps access to the tenant by
  refreshing; the register action join lets nobody in.
\<close>

section \<open>GitHub\<close>

record GitHubUser =
  gu_ID :: int
  gu_Login :: string
  gu_Email :: string
  gu_AvatarURL :: string

record token_answer =
  ta_AccessToken :: string
  ta_Error :: string
  ta_ErrorDesc :: string

text \<open>The endpoints: the status and body of an answer, or the error of the request; \<open>NewRequest\<close> may refuse the address.\<close>

record github =
  gh_client_id :: string
  gh_secret :: string
  gh_new_request :: "error option"
  gh_token :: "(string \<times> string) list \<Rightarrow> error + nat \<times> string"
  gh_decode_token :: "string \<Rightarrow> error + token_answer"
  gh_user :: "string \<Rightarrow> error + nat \<times> string"
  gh_decode_user :: "string \<Rightarrow> error + GitHubUser"

definition ExchangeCode :: "github \<Rightarrow> string \<Rightarrow> string \<Rightarrow> error + string" where
  "ExchangeCode g code redirectURI =
     (case gh_new_request g of
        Some err \<Rightarrow> Inl (Wrapped ''github: build token request'' err)
      | None \<Rightarrow>
          (case gh_token g [(''client_id'', gh_client_id g), (''client_secret'', gh_secret g), (''code'', code), (''redirect_uri'', redirectURI)] of
             Inl err \<Rightarrow> Inl (Wrapped ''github: token request'' err)
           | Inr (status, body) \<Rightarrow>
               (if status \<noteq> 200 then Inl (ErrorString (''github: token endpoint returned '' @ show_nat status @ '': '' @ body))
                else case gh_decode_token g body of
                  Inl err \<Rightarrow> Inl (Wrapped ''github: decode token response'' err)
                | Inr a \<Rightarrow>
                    (if ta_Error a \<noteq> '''' then Inl (ErrorString (''github: oauth error '' @ ta_Error a @ '': '' @ ta_ErrorDesc a))
                     else Inr (ta_AccessToken a)))))"

definition GetUser :: "github \<Rightarrow> string \<Rightarrow> error + GitHubUser" where
  "GetUser g accessToken =
     (case gh_new_request g of
        Some err \<Rightarrow> Inl (Wrapped ''github: build user request'' err)
      | None \<Rightarrow>
          (case gh_user g accessToken of
             Inl err \<Rightarrow> Inl (Wrapped ''github: user request'' err)
           | Inr (status, body) \<Rightarrow>
               (if status \<noteq> 200 then Inl (ErrorString (''github: user endpoint returned '' @ show_nat status @ '': '' @ body))
                else case gh_decode_user g body of
                  Inl err \<Rightarrow> Inl (Wrapped ''github: decode user response'' err)
                | Inr u \<Rightarrow> Inr u)))"

section \<open>Tokens and cookies\<close>

record deps =
  dp_github :: github
  dp_jwt :: jwt_lib
  dp_CallbackURL :: string
  dp_FrontendURL :: string
  dp_GlobalAdmin :: string

text \<open>Name, value and maximal age of a cookie.\<close>

type_synonym cookie = "string \<times> string \<times> int"

record auth_reply =
  ar_status :: nat
  ar_body :: gval
  ar_cookies :: "cookie list"
  ar_location :: "string option"

definition json_reply :: "nat \<Rightarrow> (string \<times> gval) list \<Rightarrow> auth_reply" where
  "json_reply st m = \<lparr>ar_status = st, ar_body = VMap m, ar_cookies = [], ar_location = None\<rparr>"

definition fail :: "nat \<Rightarrow> string \<Rightarrow> auth_reply" where
  "fail st msg = json_reply st [(''error'', VStr msg)]"

definition redirect :: "string \<Rightarrow> auth_reply" where
  "redirect url = \<lparr>ar_status = 302, ar_body = VNil, ar_cookies = [], ar_location = Some url\<rparr>"

definition with_cookie :: "cookie \<Rightarrow> auth_reply \<Rightarrow> auth_reply" where
  "with_cookie ck r = r\<lparr>ar_cookies := ck # ar_cookies r\<rparr>"

definition AccessTokenTTL :: int where "AccessTokenTTL = 72 * 3600 * 10 ^ 9"
definition RefreshTokenTTL :: int where "RefreshTokenTTL = 7 * 24 * 3600 * 10 ^ 9"
definition OnboardingTTL :: int where "OnboardingTTL = 5 * 60 * 10 ^ 9"

text \<open>The cookie of the refresh token; an empty value deletes it.\<close>

definition refresh_cookie :: "string \<Rightarrow> cookie" where
  "refresh_cookie v = (''refresh_token'', v, if v = '''' then -1 else RefreshTokenTTL div 10 ^ 9)"

definition randomState :: "env \<Rightarrow> world \<Rightarrow> (error + string) \<times> world" where
  "randomState ev w = (map_sum id (base64_encode url_alphabet) (ev_rand ev (w_calls w)), tick w)"

definition issueTokenPair :: "deps \<Rightarrow> env \<Rightarrow> string \<Rightarrow> string \<Rightarrow> string \<Rightarrow> string \<Rightarrow> string \<Rightarrow> string \<Rightarrow> world \<Rightarrow> (error + string \<times> string) \<times> world" where
  "issueTokenPair h ev userID tenantID role globalRole avatarURL githubLogin w =
     (case randomState ev w of
        (Inl err, w1) \<Rightarrow> (Inl err, w1)
      | (Inr rawRT, w1) \<Rightarrow>
          (case Create ev userID tenantID rawRT RefreshTokenTTL w1 of
             (Some err, w2) \<Rightarrow> (Inl (Wrapped ''store refresh token'' err), w2)
           | (None, w2) \<Rightarrow>
               (case Sign (dp_jwt h) (time_now ev w2) \<lparr>tk_Sub = userID, tk_TenantID = tenantID, tk_Role = role, tk_GlobalRole = globalRole,
                    tk_JTI = take 8 rawRT, tk_AvatarURL = avatarURL, tk_GitHubLogin = githubLogin\<rparr> AccessTokenTTL of
                  Inl err \<Rightarrow> (Inl (Wrapped ''sign access token'' err), w2)
                | Inr accessJWT \<Rightarrow> (Inr (rawRT, accessJWT), w2))))"

section \<open>Signing in\<close>

definition GitHubLogin :: "deps \<Rightarrow> env \<Rightarrow> world \<Rightarrow> auth_reply \<times> world" where
  "GitHubLogin h ev w =
     (case randomState ev w of
        (Inl _, w1) \<Rightarrow> (fail 500 ''failed to generate state'', w1)
      | (Inr state, w1) \<Rightarrow>
          (with_cookie (''oauth_state'', state, 300)
             (redirect (''https://github.com/login/oauth/authorize'' @ ''?client_id='' @ gh_client_id (dp_github h) @
                ''&redirect_uri='' @ dp_CallbackURL h @ ''&scope=user:email'' @ ''&state='' @ state)), w1))"

text \<open>The tenant of a returning user: the first that is not the default one, or else the first.\<close>

definition pick_tenant :: "TenantInfo list \<Rightarrow> string \<times> string" where
  "pick_tenant ts =
     (case filter (\<lambda>t. \<not> ti_IsDefault t) ts of
        t # _ \<Rightarrow> if ti_TenantID t \<noteq> '''' then (ti_TenantID t, ti_Role t) else (ti_TenantID (hd ts), ti_Role (hd ts))
      | [] \<Rightarrow> (ti_TenantID (hd ts), ti_Role (hd ts)))"

definition configured_admin :: "deps \<Rightarrow> string \<Rightarrow> bool" where
  "configured_admin h login \<longleftrightarrow> dp_GlobalAdmin h \<noteq> '''' \<and> EqualFold login (dp_GlobalAdmin h)"

definition frontend :: "deps \<Rightarrow> string" where
  "frontend h = (if dp_FrontendURL h = '''' then ''http://localhost:3002'' else dp_FrontendURL h)"

text \<open>The answer to a user who gets a token pair.\<close>

definition signed_in :: "deps \<Rightarrow> (error + string \<times> string) \<times> world \<Rightarrow> auth_reply \<times> world" where
  "signed_in h r =
     (case r of
        (Inl _, w) \<Rightarrow> (fail 500 ''token issuance failed'', w)
      | (Inr (rawRT, accessJWT), w) \<Rightarrow>
          (with_cookie (refresh_cookie rawRT) (redirect (frontend h @ ''/auth/callback?access_token='' @ accessJWT)), w))"

definition onboarding_redirect :: "deps \<Rightarrow> env \<Rightarrow> GitHubUser \<Rightarrow> world \<Rightarrow> auth_reply \<times> world" where
  "onboarding_redirect h ev u w =
     (case SignOnboarding (dp_jwt h) (time_now ev w) \<lparr>ob_GitHubID = gu_ID u, ob_GitHubLogin = gu_Login u, ob_AvatarURL = gu_AvatarURL u\<rparr> OnboardingTTL of
        Inl _ \<Rightarrow> (fail 500 ''token signing failed'', w)
      | Inr obToken \<Rightarrow>
          (redirect (frontend h @ ''/auth/callback?onboarding_token='' @ obToken @ ''&github_login='' @ gu_Login u @ ''&avatar_url='' @ gu_AvatarURL u), w))"

text \<open>A user without tenants joins the default one; errors of SetGlobalRole are ignored.\<close>

definition join_default :: "deps \<Rightarrow> env \<Rightarrow> GitHubUser \<Rightarrow> string \<Rightarrow> world \<Rightarrow> auth_reply \<times> world" where
  "join_default h ev u globalRole w =
     (case AutoJoinDefaultTenant ev (gu_ID u) (gu_Login u) (gu_AvatarURL u) (dp_GlobalAdmin h) w of
        (Inl _, w1) \<Rightarrow> onboarding_redirect h ev u w1
      | (Inr (uid, tid, dbRole), w1) \<Rightarrow>
          (let w2 = (if globalRole = ''global_admin'' \<and> dbRole \<noteq> ''global_admin'' then snd (SetGlobalRole ev uid ''global_admin'' w1) else w1);
               gr = (if globalRole = ''global_admin'' \<and> dbRole \<noteq> ''global_admin'' then globalRole
                     else if globalRole = '''' \<and> dbRole \<noteq> '''' then dbRole else globalRole)
           in signed_in h (issueTokenPair h ev uid tid (member_role_for (dp_GlobalAdmin h) (gu_Login u)) gr (gu_AvatarURL u) (gu_Login u) w2)))"

definition callback_user :: "deps \<Rightarrow> env \<Rightarrow> GitHubUser \<Rightarrow> world \<Rightarrow> auth_reply \<times> world" where
  "callback_user h ev u w =
     (let globalRole0 = (if configured_admin h (gu_Login u) then ''global_admin'' else '''')
      in case GetUserTenants ev (show_int (gu_ID u)) w of (lookup, w1) \<Rightarrow>
        (let (userID, dbRole, tenants) = (case lookup of Inr (Some x) \<Rightarrow> x | _ \<Rightarrow> ('''', '''', []));
             w2 = (if globalRole0 = ''global_admin'' \<and> dbRole \<noteq> ''global_admin'' \<and> userID \<noteq> '''' then snd (SetGlobalRole ev userID ''global_admin'' w1) else w1);
             globalRole = (if globalRole0 = ''global_admin'' then globalRole0 else if dbRole \<noteq> '''' then dbRole else globalRole0)
         in if tenants \<noteq> []
            then signed_in h (issueTokenPair h ev userID (fst (pick_tenant tenants)) (snd (pick_tenant tenants)) globalRole (gu_AvatarURL u) (gu_Login u) w2)
            else join_default h ev u globalRole w2))"

definition GitHubCallback :: "deps \<Rightarrow> env \<Rightarrow> string option \<Rightarrow> string \<Rightarrow> string \<Rightarrow> world \<Rightarrow> auth_reply \<times> world" where
  "GitHubCallback h ev stateCookie state code w =
     (if stateCookie \<noteq> Some state then (fail 400 ''invalid oauth state'', w)
      else let clear = (\<lambda>(r, w). (with_cookie (''oauth_state'', '''', -1) r, w)) in
           if code = '''' then clear (fail 400 ''missing code'', w)
           else case ExchangeCode (dp_github h) code (dp_CallbackURL h) of
             Inl _ \<Rightarrow> clear (fail 502 ''github oauth failed'', w)
           | Inr accessToken \<Rightarrow>
               (case GetUser (dp_github h) accessToken of
                  Inl _ \<Rightarrow> clear (fail 502 ''failed to fetch github user'', w)
                | Inr u \<Rightarrow> clear (callback_user h ev u w)))"

record RegisterRequest =
  rg_OnboardingToken :: string
  rg_Action :: string
  rg_TenantName :: string
  rg_GitHubOrg :: string
  rg_InvitationToken :: string

definition created_reply :: "string \<Rightarrow> nat \<Rightarrow> (error + string \<times> string) \<times> world \<Rightarrow> auth_reply \<times> world" where
  "created_reply tid status r =
     (case r of
        (Inl _, w) \<Rightarrow> (fail 500 ''token issuance failed'', w)
      | (Inr (rawRT, accessJWT), w) \<Rightarrow>
          (with_cookie (refresh_cookie rawRT) (json_reply status [(''access_token'', VStr accessJWT), (''tenant_id'', VStr tid)]), w))"

definition register_create :: "deps \<Rightarrow> env \<Rightarrow> OnboardingClaims \<Rightarrow> RegisterRequest \<Rightarrow> world \<Rightarrow> auth_reply \<times> world" where
  "register_create h ev ob req w =
     (case CreateTenant ev \<lparr>ci_GitHubID = ob_GitHubID ob, ci_GitHubLogin = ob_GitHubLogin ob, ci_AvatarURL = ob_AvatarURL ob,
          ci_Name = rg_TenantName req, ci_GitHubOrg = rg_GitHubOrg req\<rparr> w of
        (Inl _, w1) \<Rightarrow> (fail 500 ''failed to create tenant'', w1)
      | (Inr res, w1) \<Rightarrow>
          (let (gr, w2) = (if configured_admin h (ob_GitHubLogin ob)
                 then (''global_admin'', snd (SetGlobalRole ev (cr_UserUUID res) ''global_admin'' w1))
                 else (case GetGlobalRole ev (cr_UserUUID res) w1 of (Inr r, w') \<Rightarrow> (r, w') | (Inl _, w') \<Rightarrow> ('''', w')))
           in created_reply (cr_TenantID res) 201
                (issueTokenPair h ev (cr_UserUUID res) (cr_TenantID res) ''owner'' gr (ob_AvatarURL ob) (ob_GitHubLogin ob) w2)))"

definition Register :: "deps \<Rightarrow> env \<Rightarrow> error + RegisterRequest \<Rightarrow> world \<Rightarrow> auth_reply \<times> world" where
  "Register h ev body w =
     (case body of
        Inl _ \<Rightarrow> (fail 400 ''onboarding_token required'', w)
      | Inr req \<Rightarrow>
          (if rg_OnboardingToken req = '''' then (fail 400 ''onboarding_token required'', w)
           else case VerifyOnboarding (dp_jwt h) (time_now ev w) (rg_OnboardingToken req) of
             Inl _ \<Rightarrow> (fail 401 ''invalid or expired onboarding token'', w)
           | Inr ob \<Rightarrow>
               (if rg_Action req = ''create''
                then if rg_TenantName req = '''' then (fail 400 ''tenant_name required for action=create'', w) else register_create h ev ob req w
                else if rg_Action req = ''join''
                then if rg_InvitationToken req = '''' then (fail 400 ''invitation_token required for action=join'', w)
                     else (case JoinTenant ev (ob_GitHubLogin ob) (rg_InvitationToken req) w of
                             (Inl _, w1) \<Rightarrow> (fail 400 ''invalid invitation token'', w1)
                           | (Inr _, w1) \<Rightarrow> (fail 501 ''join flow requires Plan 3 user DB'', w1))
                else (fail 400 (''action must be '' @ [CHR 0x27] @ ''create'' @ [CHR 0x27] @ '' or '' @ [CHR 0x27] @ ''join'' @ [CHR 0x27]), w))))"

section \<open>Sessions\<close>

definition Refresh :: "deps \<Rightarrow> env \<Rightarrow> string option \<Rightarrow> world \<Rightarrow> auth_reply \<times> world" where
  "Refresh h ev ck w =
     (case ck of
        None \<Rightarrow> (fail 401 ''refresh token cookie missing'', w)
      | Some rawRT \<Rightarrow>
          (if rawRT = '''' then (fail 401 ''refresh token cookie missing'', w)
           else case IsBlacklisted ev rawRT w of
             (Inl _, w1) \<Rightarrow> (fail 401 ''refresh token revoked'', w1)
           | (Inr True, w1) \<Rightarrow> (fail 401 ''refresh token revoked'', w1)
           | (Inr False, w1) \<Rightarrow>
               (case GetActiveClaims ev rawRT w1 of
                  (Inl _, w2) \<Rightarrow> (fail 401 ''invalid refresh token'', w2)
                | (Inr sc, w2) \<Rightarrow>
                    (case randomState ev w2 of
                       (Inl _, w3) \<Rightarrow> (fail 500 ''token generation failed'', w3)
                     | (Inr newRawRT, w3) \<Rightarrow>
                         (case Rotate ev rawRT newRawRT RefreshTokenTTL w3 of
                            (Some _, w4) \<Rightarrow> (fail 401 ''invalid refresh token'', w4)
                          | (None, w4) \<Rightarrow>
                              (let (globalRole, w5) = (case GetGlobalRole ev (sc_UserID sc) w4 of (Inr r, w') \<Rightarrow> (r, w') | (Inl _, w') \<Rightarrow> ('''', w'));
                                   (tenantRole, w6) = (case GetTenantRole ev (sc_UserID sc) (sc_TenantID sc) w5 of (Inr r, w') \<Rightarrow> (r, w') | (Inl _, w') \<Rightarrow> (''member'', w'))
                               in case Sign (dp_jwt h) (time_now ev w6) \<lparr>tk_Sub = sc_UserID sc, tk_TenantID = sc_TenantID sc, tk_Role = tenantRole,
                                      tk_GlobalRole = globalRole, tk_JTI = take 8 newRawRT, tk_AvatarURL = sc_AvatarURL sc, tk_GitHubLogin = sc_GitHubLogin sc\<rparr> AccessTokenTTL of
                                    Inl _ \<Rightarrow> (fail 500 ''token signing failed'', w6)
                                  | Inr accessJWT \<Rightarrow>
                                      (with_cookie (refresh_cookie newRawRT) (json_reply 200 [(''access_token'', VStr accessJWT)]), w6)))))))"

definition Logout :: "env \<Rightarrow> string option \<Rightarrow> world \<Rightarrow> auth_reply \<times> world" where
  "Logout ev ck w =
     (let w1 = (case ck of Some rawRT \<Rightarrow> if rawRT \<noteq> '''' then snd (Revoke ev rawRT w) else w | None \<Rightarrow> w)
      in (with_cookie (refresh_cookie '''') (json_reply 200 [(''message'', VStr ''logged out'')]), w1))"

definition Me :: "deps \<Rightarrow> env \<Rightarrow> string \<Rightarrow> world \<Rightarrow> auth_reply \<times> world" where
  "Me h ev authHeader w =
     (case bearer authHeader of
        None \<Rightarrow> (fail 401 ''missing or invalid Authorization header'', w)
      | Some tok \<Rightarrow>
          (case Verify (dp_jwt h) (time_now ev w) tok of
             Inl _ \<Rightarrow> (fail 401 ''invalid token'', w)
           | Inr c \<Rightarrow> (json_reply 200 [(''sub'', VStr (tk_Sub c)), (''tenant_id'', VStr (tk_TenantID c)), (''role'', VStr (tk_Role c)),
               (''global_role'', VStr (tk_GlobalRole c)), (''avatar_url'', VStr (tk_AvatarURL c)), (''github_login'', VStr (tk_GitHubLogin c))], w)))"

text \<open>A bound body gives the tenant id; it is required, so that the empty text is refused.\<close>

definition SwitchTenant :: "deps \<Rightarrow> env \<Rightarrow> string \<Rightarrow> error + string \<Rightarrow> world \<Rightarrow> auth_reply \<times> world" where
  "SwitchTenant h ev authHeader body w =
     (case bearer authHeader of
        None \<Rightarrow> (fail 401 ''missing Authorization header'', w)
      | Some tok \<Rightarrow>
          (case Verify (dp_jwt h) (time_now ev w) tok of
             Inl _ \<Rightarrow> (fail 401 ''invalid token'', w)
           | Inr c \<Rightarrow>
               (case body of
                  Inl _ \<Rightarrow> (fail 400 ''tenant_id required'', w)
                | Inr tid \<Rightarrow>
                    (if tid = '''' then (fail 400 ''tenant_id required'', w)
                     else case IsMember ev (tk_Sub c) tid w of
                       (Inl _, w1) \<Rightarrow> (fail 500 ''membership check failed'', w1)
                     | (Inr False, w1) \<Rightarrow> (fail 403 ''not a member of this tenant'', w1)
                     | (Inr True, w1) \<Rightarrow>
                         (let (globalRole, w2) = (case GetGlobalRole ev (tk_Sub c) w1 of (Inr r, w') \<Rightarrow> (r, w') | (Inl _, w') \<Rightarrow> (tk_GlobalRole c, w'));
                              (tenantRole, w3) = (case GetTenantRole ev (tk_Sub c) tid w2 of (Inr r, w') \<Rightarrow> (r, w') | (Inl _, w') \<Rightarrow> (''member'', w'))
                          in created_reply tid 200 (issueTokenPair h ev (tk_Sub c) tid tenantRole globalRole (tk_AvatarURL c) (tk_GitHubLogin c) w3))))))"

definition CreateUserTenant :: "deps \<Rightarrow> env \<Rightarrow> string \<Rightarrow> error + string \<Rightarrow> world \<Rightarrow> auth_reply \<times> world" where
  "CreateUserTenant h ev authHeader body w =
     (case bearer authHeader of
        None \<Rightarrow> (fail 401 ''missing Authorization header'', w)
      | Some tok \<Rightarrow>
          (case Verify (dp_jwt h) (time_now ev w) tok of
             Inl _ \<Rightarrow> (fail 401 ''invalid token'', w)
           | Inr c \<Rightarrow>
               (case body of
                  Inl _ \<Rightarrow> (fail 400 ''tenant_name required'', w)
                | Inr name \<Rightarrow>
                    (if name = '''' then (fail 400 ''tenant_name required'', w)
                     else case CreateTenantForUser ev (tk_Sub c) name w of
                       (Inl _, w1) \<Rightarrow> (fail 500 ''failed to create tenant'', w1)
                     | (Inr tid, w1) \<Rightarrow>
                         (let (globalRole, w2) = (case GetGlobalRole ev (tk_Sub c) w1 of (Inr r, w') \<Rightarrow> (r, w') | (Inl _, w') \<Rightarrow> ('''', w'))
                          in created_reply tid 201 (issueTokenPair h ev (tk_Sub c) tid ''owner'' globalRole (tk_AvatarURL c) (tk_GitHubLogin c) w2))))))"

section \<open>A refresh token works once\<close>

lemma fail_simps [simp]: "ar_status (fail st m) = st" "ar_status (json_reply st b) = st" "ar_status (with_cookie k r) = ar_status r"
  by (simp_all add: fail_def json_reply_def with_cookie_def)

lemma Refresh_200:
  assumes "Refresh h ev (Some rt) w = (r, w')" "ar_status r = 200"
  obtains w1 sc w2 new w3 w4 where "IsBlacklisted ev rt w = (Inr False, w1)" "GetActiveClaims ev rt w1 = (Inr sc, w2)"
    "randomState ev w2 = (Inr new, w3)" "Rotate ev rt new RefreshTokenTTL w3 = (None, w4)" "t_refresh (w_db w') = t_refresh (w_db w4)"
proof -
  have g: "GetGlobalRole ev x v = (q, v') \<Longrightarrow> t_refresh (w_db v') = t_refresh (w_db v)" for x v q v'
    by (auto simp: GetGlobalRole_def stmt_then_def sel_global_role_def run_stmt_def split: prod.splits sum.splits fault.splits)
  have t: "GetTenantRole ev x y v = (q, v') \<Longrightarrow> t_refresh (w_db v') = t_refresh (w_db v)" for x y v q v'
    by (auto simp: GetTenantRole_def stmt_then_def sel_tenant_role_def run_stmt_def split: prod.splits sum.splits fault.splits)
  show thesis
    using assms by (auto simp: Refresh_def Let_def split: prod.splits sum.splits option.splits bool.splits if_splits dest!: g t intro: that)
qed

lemma dead_Refresh:
  assumes "dead (ev_hash ev rt) (w_db w)"
  shows "ar_status (fst (Refresh h ev (Some rt) w)) \<noteq> 200"
proof
  assume s: "ar_status (fst (Refresh h ev (Some rt) w)) = 200"
  obtain r w' where e: "Refresh h ev (Some rt) w = (r, w')" by fastforce
  with s have "ar_status r = 200" by simp
  with e obtain w1 sc w2 where b: "IsBlacklisted ev rt w = (Inr False, w1)" and g: "GetActiveClaims ev rt w1 = (Inr sc, w2)"
    by (rule Refresh_200) blast
  from IsBlacklisted_db[OF b] assms have "dead (ev_hash ev rt) (w_db w1)" by simp
  from dead_refused(1)[OF this] g show False by simp
qed

text \<open>C16: A refresh token can be exchanged once. After a refresh that succeeded, every further refresh with the same token is
  refused, after any operations of the token store and any failures of the database and of Redis in between, as long as the
  random source does not repeat itself.\<close>

theorem refresh_once:
  assumes "Refresh h ev (Some rt) w = (r, w1)" and "ar_status r = 200"
    and "\<And>n b. ev_rand ev n = Inr b \<Longrightarrow> ev_hash ev (base64_encode url_alphabet b) \<noteq> ev_hash ev rt"
    and "rtranclp (store_step ev (ev_hash ev rt)) w1 w2"
  shows "ar_status (fst (Refresh h' ev (Some rt) w2)) \<noteq> 200"
proof -
  from assms(1,2) obtain v1 sc v2 new v3 v4 where rnd: "randomState ev v2 = (Inr new, v3)"
    and rot: "Rotate ev rt new RefreshTokenTTL v3 = (None, v4)" and tab: "t_refresh (w_db w1) = t_refresh (w_db v4)"
    by (rule Refresh_200)
  from rnd have "ev_hash ev new \<noteq> ev_hash ev rt" using assms(3) by (cases "ev_rand ev (w_calls v2)") (auto simp: randomState_def)
  with rot have "dead (ev_hash ev rt) (w_db v4)"
    by (auto simp: Rotate_def Let_def split: prod.splits sum.splits dest!: run_revoke_kills elim!: Create_dead)
  with tab have "dead (ev_hash ev rt) (w_db w1)" by (simp add: dead_def)
  from token_death.steps_inv[OF assms(4) this] show ?thesis by (rule dead_Refresh)
qed

text \<open>Logging out ends the session when the database works.\<close>

lemma logout_kills:
  assumes "\<forall>n. ev_fault ev n = Works" "rt \<noteq> ''''"
  shows "dead (ev_hash ev rt) (w_db (snd (Logout ev (Some rt) w)))"
  using assms dead_revoke[of "ev_hash ev rt" "w_db w" "ev_hash ev rt"]
  by (simp add: Logout_def Revoke_def Let_def run_stmt_all_work split: sum.split)

section \<open>Switching the tenant\<close>

lemma IsMember_True:
  assumes "IsMember ev u tid w = (Inr True, w1)"
  shows "\<exists>m\<in>set (t_members (w_db w)). member_key tid u m" "\<exists>t\<in>set (t_tenants (w_db w)). tn_id t = tid \<and> tn_deleted t = None" "w_db w1 = w_db w"
proof -
  obtain n where s: "run_stmt ev (count_membership u tid) w = (Inr n, w1)" and n: "0 < n"
    using assms by (auto simp: IsMember_def stmt_then_def split: prod.splits sum.splits)
  from run_stmt_fst_snd[OF s] show "w_db w1 = w_db w" by (simp add: count_membership_def)
  from run_stmt_fst_snd(2)[OF s] n have "concat (map (\<lambda>m. filter (\<lambda>tn. tn_id tn = mb_tenant m \<and> tn_id tn = tid \<and> tn_deleted tn = None) (t_tenants (w_db w)))
        (filter (\<lambda>m. mb_user m = u) (t_members (w_db w)))) \<noteq> []"
    by (auto simp: count_membership_def)
  then obtain m t where "m \<in> set (t_members (w_db w))" "mb_user m = u" "t \<in> set (t_tenants (w_db w))" "tn_id t = mb_tenant m" "tn_id t = tid" "tn_deleted t = None"
    by (auto simp: filter_empty_conv)
  then show "\<exists>m\<in>set (t_members (w_db w)). member_key tid u m" "\<exists>t\<in>set (t_tenants (w_db w)). tn_id t = tid \<and> tn_deleted t = None"
    by (auto simp: member_key_def)
qed

text \<open>A switch of the tenant succeeds only for the bearer of a verified token whose user is a member of the requested tenant,
  and only when that tenant is not deleted.\<close>

theorem switch_needs_membership:
  assumes "SwitchTenant h ev hdr (Inr tid) w = (r, w')" and "ar_status r = 200"
  shows "\<exists>tok c. hdr = ''Bearer '' @ tok \<and> Verify (dp_jwt h) (time_now ev w) tok = Inr c \<and>
    (\<exists>m\<in>set (t_members (w_db w)). mb_tenant m = tid \<and> mb_user m = tk_Sub c) \<and>
    (\<exists>t\<in>set (t_tenants (w_db w)). tn_id t = tid \<and> tn_deleted t = None)"
proof -
  from assms obtain tok c w1 where v: "bearer hdr = Some tok" "Verify (dp_jwt h) (time_now ev w) tok = Inr c"
    and m: "IsMember ev (tk_Sub c) tid w = (Inr True, w1)"
    by (auto simp: SwitchTenant_def split: option.splits sum.splits prod.splits bool.splits if_splits)
  have "hdr = ''Bearer '' @ tok" using v(1) by (auto simp: bearer_def prefix_def split: if_splits)
  with v(2) IsMember_True(1,2)[OF m] show ?thesis by (auto simp: member_key_def)
qed

section \<open>The action join\<close>

text \<open>The register action join lets nobody in: its answer is always an error, and when no user has the GitHub login for an
  id, the tables are what they were.\<close>

theorem join_action_fails:
  assumes "rg_Action req = ''join''" and "\<And>ob. VerifyOnboarding (dp_jwt h) (time_now ev w) (rg_OnboardingToken req) = Inr ob \<Longrightarrow>
      \<not> user_exists (w_db w) (ob_GitHubLogin ob) \<and> (\<forall>m\<in>set (t_members (w_db w)). mb_user m \<noteq> ob_GitHubLogin ob)"
    and "Register h ev (Inr req) w = (r, w')"
  shows "ar_status r \<in> {400, 401, 501} \<and> w_db w' = w_db w"
proof -
  have j: "w_db w1 = w_db w" if "JoinTenant ev u tok w = (q, w1)" "\<not> user_exists (w_db w) u" "\<forall>m\<in>set (t_members (w_db w)). mb_user m \<noteq> u" for u tok q w1
    using that(1) unfolding JoinTenant_def
  proof (cases rule: in_tx_cases)
    case (committed x w2)
    define d3 where "d3 = snd (accept_invitation (time_now ev w) tok (time_now ev (tick w)) (ev_uuid ev (Suc (w_calls w))) (w_db w))"
    have "\<exists>(iv :: invitation_row) t i. fst (ins_member_if_new (iv_tenant iv) u (iv_role iv) t i d3) = Inr ()"
      using committed(1) unfolding d3_def by (elim stmt_then_Inr) (simp, blast)
    then obtain iv :: invitation_row and t i where m: "fst (ins_member_if_new (iv_tenant iv) u (iv_role iv) t i d3) = Inr ()" by blast
    have "\<not> user_exists d3 u" "\<not> list_ex (member_key (iv_tenant iv) u) (t_members d3)"
      using that(2,3) by (auto simp: d3_def accept_invitation_def user_exists_def list_ex_iff member_key_def)
    with m show ?thesis by (simp add: ins_member_if_new_def)
  qed simp
  show ?thesis
    using assms by (auto simp: Register_def split: if_splits sum.splits prod.splits dest!: j)
qed

section \<open>Removed members\<close>

lemma RemoveMember_removed:
  assumes "RemoveMember ev c u w = ((200, v), w1)" "tenantIDFromCtx c = Some tid"
  shows "\<not> list_ex (member_key tid u) (t_members (w_db w1))"
    and "t_refresh (w_db w1) = t_refresh (w_db w)" "t_users (w_db w1) = t_users (w_db w)" "t_tenants (w_db w1) = t_tenants (w_db w)" "w_redis w1 = w_redis w"
proof -
  from assms obtain role w0 n where s: "run_stmt ev (sel_tenant_role u tid) w = (Inr role, w0)" "run_stmt ev (del_member tid u) w0 = (Inr n, w1)"
    by (auto simp: RemoveMember_def error_reply_def Let_def split: prod.splits sum.splits if_splits)
  have "w_db w0 = w_db w" using run_stmt_fst_snd(1)[OF s(1)] by (simp add: sel_tenant_role_def)
  with run_stmt_fst_snd(1)[OF s(2)] have w1: "w_db w1 = (w_db w)\<lparr>t_members := filter (\<lambda>m. \<not> member_key tid u m) (t_members (w_db w))\<rparr>"
    by (simp add: del_member_def)
  then show "\<not> list_ex (member_key tid u) (t_members (w_db w1))" "t_refresh (w_db w1) = t_refresh (w_db w)" "t_users (w_db w1) = t_users (w_db w)"
    "t_tenants (w_db w1) = t_tenants (w_db w)" by (simp_all add: list_ex_iff)
  show "w_redis w1 = w_redis w" using run_stmt_redis[OF s(1)] run_stmt_redis[OF s(2)] by simp
qed

text \<open>What a refresh does when everything works and the user has no membership.\<close>

lemma refresh_without_membership:
  assumes works: "\<forall>n. ev_fault ev n = Works" and rand: "\<And>n. \<exists>b. ev_rand ev n = Inr b" and sign: "\<And>p. \<exists>s. jl_SignedString (dp_jwt h) p = Inr s"
    and rt: "rt \<noteq> ''''" "w_redis w (blacklist_key (ev_hash ev rt)) = None"
    and row: "filter (active_row (ev_hash ev rt)) (t_refresh (w_db w)) = [row]" "rr_user row = u" "rr_tenant row = Some tid" "tid \<noteq> ''''"
      "\<And>n. ev_clock ev n < rr_expires row"
    and ex: "user_exists (w_db w) u" "tenant_exists (w_db w) tid" and gone: "\<not> list_ex (member_key tid u) (t_members (w_db w))"
  shows "\<exists>r w' c tok t. Refresh h ev (Some rt) w = (r, w') \<and> ar_status r = 200 \<and> ar_body r = VMap [(''access_token'', VStr tok)] \<and>
    Sign (dp_jwt h) t c AccessTokenTTL = Inr tok \<and> tk_Sub c = u \<and> tk_TenantID c = tid \<and> tk_Role c = ''member''"
proof -
  let ?h = "ev_hash ev rt"
  have b: "IsBlacklisted ev rt w = (Inr False, tick w)"
    using works rt(2) by (simp add: IsBlacklisted_def redis_get_def)
  obtain us u0 where users: "filter (\<lambda>x. us_id x = u) (t_users (w_db w)) = u0 # us"
    using ex(1) by (cases "filter (\<lambda>x. us_id x = u) (t_users (w_db w))") (auto simp: user_exists_def list_ex_iff filter_empty_conv)
  obtain sc w2 where g: "GetActiveClaims ev rt (tick w) = (Inr sc, w2)" and sc: "sc_UserID sc = u" "sc_TenantID sc = tid" and w2: "w_db w2 = w_db w"
    using works row users
    by (auto simp: GetActiveClaims_def run_stmt_all_work sel_active_claims_only[OF row(1)] time_now_def)
  obtain bs where bs: "ev_rand ev (w_calls w2) = Inr bs" using rand by blast
  define new where "new = base64_encode url_alphabet bs"
  have rs: "randomState ev w2 = (Inr new, tick w2)" by (simp add: randomState_def bs new_def)
  have rv: "run_stmt ev (upd_revoke ?h) (tick w2) = (Inr row, tick ((tick w2)\<lparr>w_db := snd (upd_revoke ?h (time_now ev (tick w2)) (ev_uuid ev (w_calls (tick w2))) (w_db w))\<rparr>))"
    using works by (simp add: run_stmt_all_work w2) (simp add: upd_revoke_def query_row_def row(1))
  define w3 where "w3 = blacklist ev ?h (rr_expires row) (tick ((tick w2)\<lparr>w_db := snd (upd_revoke ?h (time_now ev (tick w2)) (ev_uuid ev (w_calls (tick w2))) (w_db w))\<rparr>))"
  have w3: "t_users (w_db w3) = t_users (w_db w)" "t_tenants (w_db w3) = t_tenants (w_db w)" "t_members (w_db w3) = t_members (w_db w)"
    by (simp_all add: w3_def upd_revoke_def)
  obtain w4 where cr: "Create ev u tid new RefreshTokenTTL w3 = (None, w4)" and m4: "t_members (w_db w4) = t_members (w_db w)"
    using works ex row(4) w3
    by (auto simp: Create_def Let_def run_stmt_all_work ins_refresh_def user_exists_def tenant_exists_def)
  have rot: "Rotate ev rt new RefreshTokenTTL (tick w2) = (None, w4)"
    using rv cr by (simp add: Rotate_def Let_def w3_def row(2,3))
  define gq where "gq = GetGlobalRole ev u w4"
  have m5: "t_members (w_db (snd gq)) = t_members (w_db w)"
    using works m4 by (simp add: gq_def GetGlobalRole_def stmt_then_def run_stmt_all_work sel_global_role_def split: sum.split)
  have "filter (member_key tid u) (t_members (w_db w)) = []" using gone by (auto simp: filter_empty_conv list_ex_iff)
  then obtain e w6 where tr: "GetTenantRole ev u tid (snd gq) = (Inl e, w6)"
    using works m5 by (auto simp: GetTenantRole_def stmt_then_def run_stmt_all_work sel_tenant_role_def query_row_def)
  obtain q v where gv: "GetGlobalRole ev u w4 = (q, v)" by fastforce
  have tr': "GetTenantRole ev u tid v = (Inl e, w6)" using tr gv by (simp add: gq_def)
  define c where "c = \<lparr>tk_Sub = u, tk_TenantID = tid, tk_Role = ''member'', tk_GlobalRole = (case q of Inr r \<Rightarrow> r | Inl _ \<Rightarrow> ''''), tk_JTI = take 8 new,
      tk_AvatarURL = sc_AvatarURL sc, tk_GitHubLogin = sc_GitHubLogin sc\<rparr>"
  obtain tok where tok: "Sign (dp_jwt h) (time_now ev w6) c AccessTokenTTL = Inr tok"
    using sign[of "access_payload (time_now ev w6) AccessTokenTTL c"] by (auto simp: Sign_def)
  have "Refresh h ev (Some rt) w = (with_cookie (refresh_cookie new) (json_reply 200 [(''access_token'', VStr tok)]), w6)"
    using rt(1) tok by (cases q) (simp_all add: Refresh_def b g rs rot sc gv tr' c_def)
  then show ?thesis using tok by (force simp: c_def json_reply_def with_cookie_def)
qed

text \<open>C19: Removing a member does not end the sessions of the member. After RemoveMember has answered that the member is removed,
  a refresh token of the member for that tenant still gives, when everything works, an access token for the tenant with the role
  member: the role falls back to member when there is no membership.\<close>

theorem removed_member_keeps_access:
  assumes "RemoveMember ev0 c0 u w0 = ((200, v), w)" and "tenantIDFromCtx c0 = Some tid"
    and "\<forall>n. ev_fault ev n = Works" and "\<And>n. \<exists>b. ev_rand ev n = Inr b" and "\<And>p. \<exists>s. jl_SignedString (dp_jwt h) p = Inr s"
    and "rt \<noteq> ''''" "w_redis w0 (blacklist_key (ev_hash ev rt)) = None"
    and "filter (active_row (ev_hash ev rt)) (t_refresh (w_db w0)) = [row]" "rr_user row = u" "rr_tenant row = Some tid" "tid \<noteq> ''''"
      "\<And>n. ev_clock ev n < rr_expires row"
    and "user_exists (w_db w0) u" "tenant_exists (w_db w0) tid"
  shows "\<exists>r w' c tok t. Refresh h ev (Some rt) w = (r, w') \<and> ar_status r = 200 \<and> ar_body r = VMap [(''access_token'', VStr tok)] \<and>
    Sign (dp_jwt h) t c AccessTokenTTL = Inr tok \<and> tk_Sub c = u \<and> tk_TenantID c = tid \<and> tk_Role c = ''member''"
proof -
  note r = RemoveMember_removed[OF assms(1,2)]
  show ?thesis
    by (rule refresh_without_membership[OF assms(3-6) _ _ assms(9-12) _ _ r(1)])
       (use r assms(7,8,13,14) in \<open>simp_all add: user_exists_def tenant_exists_def\<close>)
qed

section \<open>Examples\<close>

definition demo_github :: github where
  "demo_github = \<lparr>gh_client_id = ''id'', gh_secret = ''s'', gh_new_request = None, gh_token = (\<lambda>_. Inr (200, ''b'')),
     gh_decode_token = (\<lambda>_. Inr \<lparr>ta_AccessToken = ''gho'', ta_Error = '''', ta_ErrorDesc = ''''\<rparr>), gh_user = (\<lambda>_. Inr (200, ''u'')),
     gh_decode_user = (\<lambda>_. Inr \<lparr>gu_ID = 8, gu_Login = ''bob'', gu_Email = '''', gu_AvatarURL = ''''\<rparr>)\<rparr>"

definition demo_deps :: deps where
  "demo_deps = \<lparr>dp_github = demo_github, dp_jwt = fixed_lib (access_payload 0 900 (demo_claims\<lparr>tk_Sub := ''u2''\<rparr>)), dp_CallbackURL = ''cb'', dp_FrontendURL = ''fe'', dp_GlobalAdmin = ''''\<rparr>"

definition still_env :: env where
  "still_env = demo_env\<lparr>ev_clock := (\<lambda>_. 5)\<rparr>"

definition owner_ctx :: req_ctx where
  "owner_ctx = \<lparr>rc_Authorization = '''', rc_keys = [''auth.sub'' \<mapsto> ''u1'', ''auth.role'' \<mapsto> ''owner''],
     rc_tenant = Some (Some \<lparr>tc_TenantID = ''t1'', tc_UserID = ''u1'', tc_Role = ''owner''\<rparr>)\<rparr>"

theorem removed_member_keeps_access_witness:
  "\<exists>r w' c tok t. Refresh demo_deps still_env (Some ''rt'') (snd (RemoveMember demo_env owner_ctx ''u2'' demo_world)) = (r, w') \<and> ar_status r = 200 \<and>
     Sign (dp_jwt demo_deps) t c AccessTokenTTL = Inr tok \<and> tk_TenantID c = ''t1''"
proof -
  let ?r = "RemoveMember demo_env owner_ctx ''u2'' demo_world"
  have "fst (fst ?r) = 200" by code_simp
  then have 1: "?r = ((200, snd (fst ?r)), snd ?r)" by (metis prod.collapse)
  have 2: "tenantIDFromCtx owner_ctx = Some ''t1''" by (simp add: tenantIDFromCtx_def owner_ctx_def FromContext_def)
  have 3: "filter (active_row (ev_hash still_env ''rt'')) (t_refresh (w_db demo_world)) =
      [\<lparr>rr_user = ''u2'', rr_tenant = Some ''t1'', rr_hash = ''h:rt'', rr_expires = 1000, rr_revoked = None\<rparr>]"
    by (simp add: active_row_def still_env_def demo_env_def demo_world_def demo_db_def empty_db_def)
  have 4: "\<forall>n. ev_fault still_env n = Works" "\<And>n. \<exists>b. ev_rand still_env n = Inr b" "\<And>p. \<exists>s. jl_SignedString (dp_jwt demo_deps) p = Inr s"
    "w_redis demo_world (blacklist_key (ev_hash still_env ''rt'')) = None" "user_exists (w_db demo_world) ''u2''" "tenant_exists (w_db demo_world) ''t1''"
    by (simp_all add: still_env_def demo_env_def demo_deps_def fixed_lib_def demo_world_def demo_db_def empty_db_def user_exists_def tenant_exists_def)
  show ?thesis
    using removed_member_keeps_access[OF 1 2 4(1-3) _ 4(4) 3 _ _ _ _ 4(5,6)] by (auto simp: still_env_def)
qed

theorem refresh_once_witness:
  "ar_status (fst (Refresh demo_deps still_env (Some ''rt'') (snd (Refresh demo_deps still_env (Some ''rt'') demo_world)))) \<noteq> 200"
proof -
  let ?r = "Refresh demo_deps still_env (Some ''rt'') demo_world"
  have "ar_status (fst ?r) = 200" by code_simp
  moreover have "ev_hash still_env (base64_encode url_alphabet b) \<noteq> ev_hash still_env ''rt''" if "ev_rand still_env n = Inr b" for n b
  proof -
    have "b = ''random-'' @ show_nat n" using that by (simp add: still_env_def demo_env_def)
    moreover have "base64_encode url_alphabet (''random-'' @ show_nat n) \<noteq> ''rt''" by (simp add: Let_def)
    ultimately have "base64_encode url_alphabet b \<noteq> ''rt''" by metis
    then show ?thesis by (simp add: still_env_def demo_env_def)
  qed
  ultimately show ?thesis
    using refresh_once[of demo_deps still_env "''rt''" demo_world "fst ?r" "snd ?r" "snd ?r" demo_deps] by simp
qed

theorem switch_needs_membership_witness:
  "\<exists>c. Verify (dp_jwt demo_deps) 5 ''x'' = Inr c \<and> (\<exists>m\<in>set (t_members demo_db). mb_tenant m = ''t1'' \<and> mb_user m = tk_Sub c)"
proof -
  let ?r = "SwitchTenant demo_deps still_env ''Bearer x'' (Inr ''t1'') demo_world"
  have "ar_status (fst ?r) = 200" by code_simp
  then show ?thesis
    using switch_needs_membership[of demo_deps still_env "''Bearer x''" "''t1''" demo_world "fst ?r" "snd ?r"]
    by (auto simp: time_now_def still_env_def demo_world_def)
qed

definition join_request :: RegisterRequest where
  "join_request = \<lparr>rg_OnboardingToken = ''ob'', rg_Action = ''join'', rg_TenantName = '''', rg_GitHubOrg = '''', rg_InvitationToken = ''tok''\<rparr>"

theorem join_action_fails_witness:
  "ar_status (fst (Register (demo_deps\<lparr>dp_jwt := two_tokens_lib\<rparr>) still_env (Inr join_request) demo_world)) \<in> {400, 401, 501}"
proof -
  let ?h = "demo_deps\<lparr>dp_jwt := two_tokens_lib\<rparr>"
  let ?r = "Register ?h still_env (Inr join_request) demo_world"
  have v: "ob_GitHubLogin ob = ''gh''" if "VerifyOnboarding (dp_jwt ?h) (time_now still_env demo_world) (rg_OnboardingToken join_request) = Inr ob" for ob
    using that by (simp add: VerifyOnboarding_def parse_with_rsa_def two_tokens_lib_def join_request_def onboarding_payload_def str_field_simps) auto
  have "\<not> user_exists (w_db demo_world) ''gh'' \<and> (\<forall>m\<in>set (t_members (w_db demo_world)). mb_user m \<noteq> ''gh'')"
    by (simp add: user_exists_def demo_world_def demo_db_def empty_db_def)
  then show ?thesis
    using join_action_fails[of join_request ?h still_env demo_world "fst ?r" "snd ?r"] v by (force simp: join_request_def)
qed

end
