(* ===== verification/Vector_Store.thy ===== *)
theory Vector_Store
  imports Go_Strings Cap_Gateway "HOL-Library.Multiset"
begin

text \<open>
  The vector store, pkg/vector/vector_store.go: collections, insertion, vector search, keyword search by
  TF-IDF, and their fusion by reciprocal ranks. The Milvus client is a record of functions of the world;
  the calls that read leave the world as it is. Scores are real numbers instead of float64. The order
  in which sort.Slice leaves equal scores is not specified: the sorting functions are arguments. The
  two searches of a hybrid search are goroutines of their own, so that a panic in one of them ends the
  process: the outer \<open>go\<close> of a hybrid search is the fate of the process, the inner one that of
  the caller.

  Proved: tokenize finds the words of a text; keyword search returns the best candidates, and exactly
  those that have a word of the query; hybrid search adds the reciprocal ranks and returns the best
  sums; without a connection, or with a huge limit, it ends the process.
\<close>

section \<open>Data\<close>

record DocumentChunk =
  dc_ID :: string
  dc_Content :: string
  dc_SourceDocument :: string
  dc_ChunkIndex :: int
  dc_Vector :: "rat list"

record SearchResult =
  sr_ID :: string
  sr_Content :: string
  sr_SourceDocument :: string
  sr_ChunkIndex :: int
  sr_Score :: real

text \<open>The columns of an answer; a column may be missing or too short.\<close>

record columns =
  cl_ids :: "string list option"
  cl_contents :: "string list option"
  cl_sources :: "string list option"
  cl_chunks :: "int list option"

record search_answer =
  sa_ResultCount :: int
  sa_Fields :: columns
  sa_Scores :: "real list"

record field =
  fd_Name :: string
  fd_Type :: string
  fd_Primary :: bool
  fd_Params :: "(string \<times> string) list"

record schema =
  sc_Name :: string
  sc_Description :: string
  sc_AutoID :: bool
  sc_Fields :: "field list"

record 'w milvus =
  mv_Has :: "string \<Rightarrow> 'w \<Rightarrow> error + bool"
  mv_Create :: "schema \<Rightarrow> int \<Rightarrow> 'w \<Rightarrow> error option \<times> 'w"
  mv_Insert :: "string \<Rightarrow> int \<Rightarrow> string list \<Rightarrow> string list \<Rightarrow> string list \<Rightarrow> int list \<Rightarrow> rat list list \<Rightarrow> 'w \<Rightarrow> error option \<times> 'w"
  mv_Load :: "string \<Rightarrow> 'w \<Rightarrow> error option"
  mv_FlatParam :: "error option"
  mv_Search :: "string \<Rightarrow> rat list \<Rightarrow> int \<Rightarrow> 'w \<Rightarrow> error + search_answer list"
  mv_Query :: "string \<Rightarrow> 'w \<Rightarrow> error + columns"
  mv_Flush :: "string \<Rightarrow> 'w \<Rightarrow> error option \<times> 'w"
  mv_Drop :: "string \<Rightarrow> 'w \<Rightarrow> error option \<times> 'w"
  mv_Close :: "'w \<Rightarrow> error option \<times> 'w"

record 'w VectorStore =
  vs_client :: "'w milvus option"
  vs_host :: string
  vs_port :: string
  vs_dim :: int

definition NewVectorStore :: "string \<Rightarrow> string \<Rightarrow> 'w VectorStore" where
  "NewVectorStore host port = \<lparr>vs_client = None, vs_host = host, vs_port = port, vs_dim = 1536\<rparr>"

text \<open>
  Connect: the outcome of dialling, that of the client's own connection, and whether the deadline of the
  context comes before it.
\<close>

definition vs_Connect :: "error option \<Rightarrow> error + 'w milvus \<Rightarrow> bool \<Rightarrow> 'w VectorStore \<Rightarrow> error option \<times> 'w VectorStore" where
  "vs_Connect dial grpc late vs =
     (case dial of
        Some e \<Rightarrow> (Some (Wrapped ''milvus port not reachable'' e), vs)
      | None \<Rightarrow>
          (if late then (Some (ErrorString ''milvus connection timeout''), vs)
           else (case grpc of
                   Inl e \<Rightarrow> (Some (Wrapped ''failed to connect to Milvus'' e), vs)
                 | Inr c \<Rightarrow> (None, vs\<lparr>vs_client := Some c\<rparr>))))"

section \<open>Collections\<close>

text \<open>A call on the client; without one it is a call on a nil interface.\<close>

definition with_client :: "'w VectorStore \<Rightarrow> ('w milvus \<Rightarrow> 'a go) \<Rightarrow> 'a go" where
  "with_client vs f = (case vs_client vs of None \<Rightarrow> Panic nil_deref | Some c \<Rightarrow> f c)"

definition collection_schema :: "string \<Rightarrow> int \<Rightarrow> schema" where
  "collection_schema name d =
     \<lparr>sc_Name = name, sc_Description = ''RAG knowledge collection'', sc_AutoID = False, sc_Fields =
       [\<lparr>fd_Name = ''id'', fd_Type = ''VarChar'', fd_Primary = True, fd_Params = [(''max_length'', ''65535'')]\<rparr>,
        \<lparr>fd_Name = ''content'', fd_Type = ''VarChar'', fd_Primary = False, fd_Params = [(''max_length'', ''65535'')]\<rparr>,
        \<lparr>fd_Name = ''source_document'', fd_Type = ''VarChar'', fd_Primary = False, fd_Params = [(''max_length'', ''255'')]\<rparr>,
        \<lparr>fd_Name = ''chunk_index'', fd_Type = ''Int64'', fd_Primary = False, fd_Params = []\<rparr>,
        \<lparr>fd_Name = ''vector'', fd_Type = ''FloatVector'', fd_Primary = False, fd_Params = [(''dim'', show_int d)]\<rparr>]\<rparr>"

definition CreateCollection :: "'w VectorStore \<Rightarrow> string \<Rightarrow> 'w \<Rightarrow> (error option \<times> 'w) go" where
  "CreateCollection vs name w = with_client vs (\<lambda>c.
     case mv_Has c name w of
       Inl e \<Rightarrow> Ret (Some (Wrapped (''failed to check collection '' @ name) e), w)
     | Inr True \<Rightarrow> Ret (None, w)
     | Inr False \<Rightarrow>
         (case mv_Create c (collection_schema name (vs_dim vs)) 2 w of
            (Some e, w') \<Rightarrow> Ret (Some (Wrapped (''failed to create collection '' @ name) e), w')
          | (None, w') \<Rightarrow> Ret (None, w')))"

definition vs_Insert :: "'w VectorStore \<Rightarrow> string \<Rightarrow> DocumentChunk list \<Rightarrow> 'w \<Rightarrow> (error option \<times> 'w) go" where
  "vs_Insert vs name docs w =
     (if docs = [] then Ret (None, w)
      else with_client vs (\<lambda>c.
        case mv_Insert c name (vs_dim vs) (map dc_ID docs) (map dc_Content docs) (map dc_SourceDocument docs) (map dc_ChunkIndex docs) (map dc_Vector docs) w of
          (Some e, w') \<Rightarrow> Ret (Some (Wrapped ''failed to insert vectors'' e), w')
        | (None, w') \<Rightarrow> Ret (None, w')))"

definition vs_Flush :: "'w VectorStore \<Rightarrow> string \<Rightarrow> 'w \<Rightarrow> (error option \<times> 'w) go" where
  "vs_Flush vs name w = with_client vs (\<lambda>c.
     case mv_Flush c name w of
       (Some e, w') \<Rightarrow> Ret (Some (Wrapped (''failed to flush collection '' @ name) e), w')
     | (None, w') \<Rightarrow> Ret (None, w'))"

definition DeleteCollection :: "'w VectorStore \<Rightarrow> string \<Rightarrow> 'w \<Rightarrow> (error option \<times> 'w) go" where
  "DeleteCollection vs name w = with_client vs (\<lambda>c.
     case mv_Drop c name w of
       (Some e, w') \<Rightarrow> Ret (Some (Wrapped (''failed to delete collection '' @ name) e), w')
     | (None, w') \<Rightarrow> Ret (None, w'))"

definition vs_Close :: "'w VectorStore \<Rightarrow> 'w \<Rightarrow> error option \<times> 'w" where
  "vs_Close vs w = (case vs_client vs of None \<Rightarrow> (None, w) | Some c \<Rightarrow> mv_Close c w)"

section \<open>Vector search\<close>

definition col_at :: "'a \<Rightarrow> 'a list option \<Rightarrow> nat \<Rightarrow> 'a" where
  "col_at z col i = (case col of None \<Rightarrow> z | Some xs \<Rightarrow> if i < length xs then xs ! i else z)"

definition row_at :: "columns \<Rightarrow> nat \<Rightarrow> SearchResult" where
  "row_at c i = \<lparr>sr_ID = col_at '''' (cl_ids c) i, sr_Content = col_at '''' (cl_contents c) i, sr_SourceDocument = col_at '''' (cl_sources c) i,
     sr_ChunkIndex = col_at 0 (cl_chunks c) i, sr_Score = 0\<rparr>"

definition usable :: "SearchResult \<Rightarrow> bool" where
  "usable r \<longleftrightarrow> sr_ID r \<noteq> '''' \<and> sr_Content r \<noteq> ''''"

definition answer_rows :: "search_answer \<Rightarrow> SearchResult list" where
  "answer_rows a =
     filter usable (map (\<lambda>i. (row_at (sa_Fields a) i)\<lparr>sr_Score := col_at 0 (Some (sa_Scores a)) i\<rparr>) [0..<nat (sa_ResultCount a)])"

definition vs_Search :: "'w VectorStore \<Rightarrow> string \<Rightarrow> rat list \<Rightarrow> int \<Rightarrow> 'w \<Rightarrow> (error + SearchResult list) go" where
  "vs_Search vs name queryVector topK w = with_client vs (\<lambda>c.
     case mv_Load c name w of
       Some e \<Rightarrow> Ret (Inl (Wrapped (''failed to load collection '' @ name) e))
     | None \<Rightarrow>
         (case mv_FlatParam c of
            Some e \<Rightarrow> Ret (Inl (Wrapped ''failed to create search params'' e))
          | None \<Rightarrow>
              (case mv_Search c name queryVector topK w of
                 Inl e \<Rightarrow> Ret (Inl (Wrapped ''failed to search vectors'' e))
               | Inr results \<Rightarrow> Ret (Inr (case results of [] \<Rightarrow> [] | a # _ \<Rightarrow> answer_rows a)))))"

section \<open>Words\<close>

text \<open>Lower case: exact for ASCII; \<open>uni\<close> is the Unicode table beyond it. An invalid byte becomes U+FFFD.\<close>

definition unicode_lower :: "(rune \<Rightarrow> rune) \<Rightarrow> rune \<Rightarrow> rune" where
  "unicode_lower uni r = (if r < 128 then if 65 \<le> r \<and> r \<le> 90 then r + 32 else r else uni r)"

definition ToLower :: "(rune \<Rightarrow> rune) \<Rightarrow> string \<Rightarrow> string" where
  "ToLower uni s = concat (map (encode_rune \<circ> unicode_lower uni \<circ> fst) (runes s))"

definition token_rune :: "rune \<Rightarrow> bool" where
  "token_rune r \<longleftrightarrow> 97 \<le> r \<and> r \<le> 122 \<or> 48 \<le> r \<and> r \<le> 57 \<or> r > 127"

fun token_loop :: "rune list \<Rightarrow> string \<Rightarrow> string list" where
  "token_loop [] buf = (if buf \<noteq> [] then [buf] else [])"
| "token_loop (r # rs) buf =
     (if token_rune r then token_loop rs (buf @ encode_rune r)
      else if buf \<noteq> [] then buf # token_loop rs [] else token_loop rs [])"

definition tokenize :: "(rune \<Rightarrow> rune) \<Rightarrow> string \<Rightarrow> string list" where
  "tokenize uni text = token_loop (map fst (runes (ToLower uni text))) []"

section \<open>Keyword search\<close>

definition candidates :: "columns \<Rightarrow> SearchResult list" where
  "candidates c = (case cl_ids c of None \<Rightarrow> [] | Some ids \<Rightarrow> filter usable (map (row_at c) [0..<length ids]))"

definition doc_terms :: "(rune \<Rightarrow> rune) \<Rightarrow> SearchResult \<Rightarrow> string list" where
  "doc_terms uni r = tokenize uni (sr_Content r)"

definition doc_freq :: "(rune \<Rightarrow> rune) \<Rightarrow> SearchResult list \<Rightarrow> string \<Rightarrow> nat" where
  "doc_freq uni cs t = length (filter (\<lambda>c. count_list (doc_terms uni c) t > 0) cs)"

definition idf :: "(rune \<Rightarrow> rune) \<Rightarrow> SearchResult list \<Rightarrow> string \<Rightarrow> real" where
  "idf uni cs t = ln ((real (length cs) + 1) / (real (doc_freq uni cs t) + 1)) + 1"

definition tfidf :: "(rune \<Rightarrow> rune) \<Rightarrow> SearchResult list \<Rightarrow> string list \<Rightarrow> SearchResult \<Rightarrow> real" where
  "tfidf uni cs terms c =
     (let wc = length (doc_terms uni c) in
      \<Sum>t\<leftarrow>terms. real (count_list (doc_terms uni c) t) / real wc * idf uni cs t)"

text \<open>The candidates with a positive score, by their index.\<close>

definition scored :: "(rune \<Rightarrow> rune) \<Rightarrow> SearchResult list \<Rightarrow> string list \<Rightarrow> (nat \<times> real) list" where
  "scored uni cs terms =
     filter (\<lambda>(i, s). length (doc_terms uni (cs ! i)) \<noteq> 0 \<and> s > 0) (map (\<lambda>i. (i, tfidf uni cs terms (cs ! i))) [0..<length cs])"

text \<open>The first \<open>topK\<close> of a sorted list; make panics for a negative length.\<close>

definition take_top :: "int \<Rightarrow> 'a list \<Rightarrow> 'a list go" where
  "take_top topK xs =
     (if topK > int (length xs) then Ret xs
      else if topK < 0 then Panic ''runtime error: makeslice: len out of range'' else Ret (take (nat topK) xs))"

definition keyword_rank :: "((nat \<times> real) list \<Rightarrow> (nat \<times> real) list) \<Rightarrow> (rune \<Rightarrow> rune) \<Rightarrow> string \<Rightarrow> int \<Rightarrow> columns \<Rightarrow> SearchResult list go" where
  "keyword_rank srt uni query topK rows =
     (if cl_ids rows = None \<or> cl_contents rows = None then Ret []
      else let terms = tokenize uni query in
        if terms = [] then Ret []
        else let cs = candidates rows in
          go_bind (take_top topK (srt (scored uni cs terms))) (\<lambda>xs. Ret (map (\<lambda>(i, s). (cs ! i)\<lparr>sr_Score := s\<rparr>) xs)))"

definition KeywordSearch ::
  "((nat \<times> real) list \<Rightarrow> (nat \<times> real) list) \<Rightarrow> (rune \<Rightarrow> rune) \<Rightarrow> 'w VectorStore \<Rightarrow> string \<Rightarrow> string \<Rightarrow> int \<Rightarrow> 'w \<Rightarrow> (error + SearchResult list) go" where
  "KeywordSearch srt uni vs name query topK w = with_client vs (\<lambda>c.
     case mv_Load c name w of
       Some e \<Rightarrow> Ret (Inl (Wrapped (''failed to load collection '' @ name) e))
     | None \<Rightarrow>
         (case mv_Query c name w of
            Inl e \<Rightarrow> Ret (Inl (Wrapped ''failed to query collection'' e))
          | Inr rows \<Rightarrow> go_bind (keyword_rank srt uni query topK rows) (\<lambda>rs. Ret (Inr rs))))"

section \<open>Hybrid search\<close>

definition rrf_value :: "(string \<rightharpoonup> real) \<Rightarrow> string \<Rightarrow> real" where
  "rrf_value m i = (case m i of None \<Rightarrow> 0 | Some v \<Rightarrow> v)"

fun rrf_loop :: "nat \<Rightarrow> SearchResult list \<Rightarrow> (string \<rightharpoonup> real) \<Rightarrow> (string \<rightharpoonup> real)" where
  "rrf_loop rank [] m = m"
| "rrf_loop rank (r # rs) m = rrf_loop (Suc rank) rs (m(sr_ID r \<mapsto> rrf_value m (sr_ID r) + 1 / (60 + real (rank + 1))))"

definition first_results :: "SearchResult list \<Rightarrow> SearchResult list \<Rightarrow> string \<rightharpoonup> SearchResult" where
  "first_results vec kw =
     foldl (\<lambda>m r. if m (sr_ID r) = None then m(sr_ID r \<mapsto> r) else m) (foldl (\<lambda>m r. m(sr_ID r \<mapsto> r)) Map.empty vec) kw"

text \<open>\<open>ks\<close> is the order of the range loop over the scores.\<close>

definition fuse :: "((SearchResult \<times> real) list \<Rightarrow> (SearchResult \<times> real) list) \<Rightarrow> string list \<Rightarrow> int \<Rightarrow> SearchResult list \<Rightarrow> SearchResult list \<Rightarrow> SearchResult list go" where
  "fuse srt ks topK vec kw =
     (let scores = rrf_loop 0 kw (rrf_loop 0 vec Map.empty);
          found = first_results vec kw;
          xs = List.map_filter (\<lambda>i. case found i of None \<Rightarrow> None | Some r \<Rightarrow> Some (r, rrf_value scores i)) ks
      in go_bind (take_top topK (srt xs)) (\<lambda>ys. Ret (map (\<lambda>(r, s). r\<lparr>sr_Score := s\<rparr>) ys)))"

definition HybridSearch ::
  "((nat \<times> real) list \<Rightarrow> (nat \<times> real) list) \<Rightarrow> ((SearchResult \<times> real) list \<Rightarrow> (SearchResult \<times> real) list) \<Rightarrow> (SearchResult list \<Rightarrow> SearchResult list \<Rightarrow> string list)
     \<Rightarrow> (rune \<Rightarrow> rune) \<Rightarrow> 'w VectorStore \<Rightarrow> string \<Rightarrow> rat list \<Rightarrow> string \<Rightarrow> int \<Rightarrow> 'w \<Rightarrow> (error + SearchResult list) go go" where
  "HybridSearch srt srt2 order uni vs name queryVector queryText topK w =
     go_bind (vs_Search vs name queryVector (wrap64 (topK * 2)) w) (\<lambda>vec.
     go_bind (KeywordSearch srt uni vs name queryText (wrap64 (topK * 2)) w) (\<lambda>kw.
       case vec of
         Inl e \<Rightarrow> Ret (Ret (Inl (Wrapped ''vector search failed'' e)))
       | Inr vrs \<Rightarrow>
           (case kw of
              Inl e \<Rightarrow> Ret (Ret (Inl (Wrapped ''keyword search failed'' e)))
            | Inr krs \<Rightarrow> Ret (go_bind (fuse srt2 (order vrs krs) topK vrs krs) (\<lambda>rs. Ret (Inr rs))))))"

section \<open>Sorting\<close>

text \<open>What sort.Slice promises with the comparison of the code: a permutation, best score first.\<close>

locale slice_sort =
  fixes srt :: "('a \<times> real) list \<Rightarrow> ('a \<times> real) list"
  assumes mset_srt: "mset (srt xs) = mset xs"
    and sorted_srt: "sorted_wrt (\<lambda>a b. snd b \<le> snd a) (srt xs)"
begin

lemma set_srt: "set (srt xs) = set xs"
  using mset_srt by (metis set_mset_mset)

lemma length_srt: "length (srt xs) = length xs"
  using mset_srt by (metis size_mset)

lemma sorted_take: "sorted_wrt (\<lambda>a b. snd b \<le> snd a) (take n (srt xs))"
  using sorted_srt[of xs] by (metis append_take_drop_id sorted_wrt_append)

lemma take_best: "x \<in> set xs \<Longrightarrow> x \<in> set (take n (srt xs)) \<or> (\<forall>y\<in>set (take n (srt xs)). snd x \<le> snd y)"
  using sorted_srt[of xs] set_srt[of xs] by (metis UnE append_take_drop_id set_append sorted_wrt_append)

lemma distinct_srt: "distinct (map f (srt xs)) \<longleftrightarrow> distinct (map f xs)"
  using mset_srt[of xs] by (metis mset_eq_imp_distinct_iff mset_map)

lemma top:
  assumes "take_top topK (srt xs) = Ret ys"
  shows "ys = take (nat topK) (srt xs)" "length ys = min (nat topK) (length xs)" "0 \<le> topK"
  using assms by (auto simp: take_top_def length_srt split: if_splits)

end

interpretation stable: slice_sort "sort_key (\<lambda>x. - snd x)"
proof
  show "mset (sort_key (\<lambda>x. - snd x) xs) = mset xs" for xs :: "('a \<times> real) list" by simp
  show "sorted_wrt (\<lambda>a b. snd b \<le> snd a) (sort_key (\<lambda>x. - snd x) xs)" for xs :: "('a \<times> real) list"
    using sorted_sort_key[of "\<lambda>x. - snd x" xs] by (simp add: sorted_map)
qed

section \<open>Keyword search finds the best matches\<close>

definition matches :: "(rune \<Rightarrow> rune) \<Rightarrow> string list \<Rightarrow> SearchResult \<Rightarrow> bool" where
  "matches uni terms c \<longleftrightarrow> set terms \<inter> set (doc_terms uni c) \<noteq> {}"

lemma idf_ge_1: "1 \<le> idf uni cs t"
proof -
  have "doc_freq uni cs t \<le> length cs" by (simp add: doc_freq_def)
  then have "1 \<le> (real (length cs) + 1) / (real (doc_freq uni cs t) + 1)" by simp
  then show ?thesis unfolding idf_def by (simp add: ln_ge_zero)
qed

lemma tfidf_pos: "tfidf uni cs terms c > 0 \<longleftrightarrow> matches uni terms c"
proof -
  define f where "f t = real (count_list (doc_terms uni c) t) / real (length (doc_terms uni c)) * idf uni cs t" for t
  have nonneg: "0 \<le> f t" for t using idf_ge_1[of uni cs t] by (simp add: f_def)
  have zero: "f t = 0 \<longleftrightarrow> t \<notin> set (doc_terms uni c)" for t
    using idf_ge_1[of uni cs t] by (auto simp: f_def count_list_0_iff)
  have "0 \<le> sum_list (map f terms)" by (rule sum_list_nonneg) (auto simp: nonneg)
  moreover have "sum_list (map f terms) = 0 \<longleftrightarrow> (\<forall>t\<in>set terms. f t = 0)"
    using nonneg by (subst sum_list_nonneg_eq_0_iff) auto
  moreover have "tfidf uni cs terms c = sum_list (map f terms)" by (simp add: tfidf_def f_def[abs_def] Let_def)
  ultimately show ?thesis by (auto simp: matches_def zero less_le)
qed

lemma matches_nonempty: "matches uni terms c \<Longrightarrow> doc_terms uni c \<noteq> []"
  by (auto simp: matches_def)

lemma scored_eq: "scored uni cs terms = map (\<lambda>i. (i, tfidf uni cs terms (cs ! i))) (filter (\<lambda>i. matches uni terms (cs ! i)) [0..<length cs])"
  by (auto simp: scored_def filter_map o_def tfidf_pos intro!: arg_cong[of _ _ "map _"] filter_cong dest: matches_nonempty)

lemma length_filter_nth: "length (filter (\<lambda>i. P (cs ! i)) [0..<length cs]) = length (filter P cs)"
proof -
  have "filter P cs = map ((!) cs) (filter (P \<circ> (!) cs) [0..<length cs])" by (metis filter_map map_nth)
  then show ?thesis by (simp add: o_def)
qed

text \<open>C27: Keyword search returns the best of the documents that share a word with the query, each with its
  TF-IDF score, in descending order: as many as there are, up to the limit, and none with a score
  below that of a document that was left out.
\<close>

theorem keyword_search_best:
  assumes srt: "slice_sort srt" and ret: "keyword_rank srt uni query topK rows = Ret rs"
  defines "cs \<equiv> candidates rows" and "terms \<equiv> tokenize uni query"
  shows "(\<forall>r\<in>set rs. \<exists>c\<in>set cs. matches uni terms c \<and> r = c\<lparr>sr_Score := tfidf uni cs terms c\<rparr>) \<and>
    sorted_wrt (\<lambda>a b. sr_Score b \<le> sr_Score a) rs \<and>
    length rs = min (nat topK) (length (filter (matches uni terms) cs)) \<and>
    (\<forall>c\<in>set cs. matches uni terms c \<longrightarrow>
       c\<lparr>sr_Score := tfidf uni cs terms c\<rparr> \<in> set rs \<or> (\<forall>r\<in>set rs. tfidf uni cs terms c \<le> sr_Score r))"
proof (cases "cl_ids rows = None \<or> cl_contents rows = None \<or> terms = []")
  case True
  then have "rs = []" using ret by (auto simp: keyword_rank_def terms_def Let_def split: if_splits)
  moreover have "\<not> matches uni terms c" if "c \<in> set cs" for c
    using that True by (auto simp: cs_def candidates_def usable_def row_at_def col_at_def matches_def)
  then have "filter (matches uni terms) cs = []" by (simp add: filter_empty_conv)
  ultimately show ?thesis using \<open>\<And>c. c \<in> set cs \<Longrightarrow> \<not> matches uni terms c\<close> by simp
next
  case False
  let ?xs = "scored uni cs terms"
  from False ret obtain ys where ys: "take_top topK (srt ?xs) = Ret ys" and rs: "rs = map (\<lambda>(i, s). (cs ! i)\<lparr>sr_Score := s\<rparr>) ys"
    by (auto simp: keyword_rank_def cs_def terms_def Let_def go_bind_Ret_iff split: if_splits)
  note top = slice_sort.top[OF srt ys]
  have el: "(i, s) \<in> set ?xs \<longleftrightarrow> i < length cs \<and> matches uni terms (cs ! i) \<and> s = tfidf uni cs terms (cs ! i)" for i s
    by (auto simp: scored_eq)
  have sub: "set ys \<subseteq> set ?xs" using top(1) slice_sort.set_srt[OF srt] by (metis set_take_subset)
  have 1: "\<forall>r\<in>set rs. \<exists>c\<in>set cs. matches uni terms c \<and> r = c\<lparr>sr_Score := tfidf uni cs terms c\<rparr>"
    using sub unfolding rs by (auto simp: el dest!: subsetD intro!: bexI[of _ "cs ! _"])
  have 2: "sorted_wrt (\<lambda>a b. sr_Score b \<le> sr_Score a) rs"
    using slice_sort.sorted_take[OF srt, of "nat topK" ?xs] by (simp add: rs top(1) sorted_wrt_map split_beta)
  have 3: "length rs = min (nat topK) (length (filter (matches uni terms) cs))"
    by (simp add: rs top(2) scored_eq length_filter_nth)
  have 4: "c\<lparr>sr_Score := tfidf uni cs terms c\<rparr> \<in> set rs \<or> (\<forall>r\<in>set rs. tfidf uni cs terms c \<le> sr_Score r)"
    if c: "c \<in> set cs" "matches uni terms c" for c
  proof -
    from c(1) obtain i where i: "i < length cs" "c = cs ! i" by (auto simp: in_set_conv_nth)
    then have "(i, tfidf uni cs terms c) \<in> set ?xs" using c(2) el by simp
    from slice_sort.take_best[OF srt this, of "nat topK"] have "(i, tfidf uni cs terms c) \<in> set ys \<or> (\<forall>y\<in>set ys. tfidf uni cs terms c \<le> snd y)"
      by (simp add: top(1))
    then show ?thesis using i(2) by (force simp: rs)
  qed
  from 1 2 3 4 show ?thesis by blast
qed

section \<open>Hybrid search adds reciprocal ranks\<close>

definition rank_sum :: "nat \<Rightarrow> SearchResult list \<Rightarrow> string \<Rightarrow> real" where
  "rank_sum k rs i = (\<Sum>(j, r)\<leftarrow>enumerate k rs. if sr_ID r = i then 1 / (60 + real (j + 1)) else 0)"

definition rrf :: "SearchResult list \<Rightarrow> SearchResult list \<Rightarrow> string \<Rightarrow> real" where
  "rrf vec kw i = rank_sum 0 vec i + rank_sum 0 kw i"

lemma rank_sum_simps [simp]:
  "rank_sum k [] i = 0"
  "rank_sum k (r # rs) i = (if sr_ID r = i then 1 / (60 + real (k + 1)) else 0) + rank_sum (Suc k) rs i"
  by (simp_all add: rank_sum_def)

lemma rrf_value_upd [simp]: "rrf_value Map.empty i = 0" "rrf_value (m(j \<mapsto> v)) i = (if i = j then v else rrf_value m i)"
  by (simp_all add: rrf_value_def)

lemma rrf_loop_value: "rrf_value (rrf_loop k rs m) i = rrf_value m i + rank_sum k rs i"
proof (induction rs arbitrary: k m)
  case (Cons r rs)
  show ?case by (simp only: rrf_loop.simps Cons.IH rrf_value_upd rank_sum_simps) simp
qed simp

lemma dom_rrf_loop: "dom (rrf_loop k rs m) = dom m \<union> sr_ID ` set rs"
proof (induction rs arbitrary: k m)
  case (Cons r rs)
  show ?case by (simp only: rrf_loop.simps Cons.IH) (auto split: if_splits)
qed simp

text \<open>A map from ids to results with that id.\<close>

definition keyed :: "string set \<Rightarrow> (string \<rightharpoonup> SearchResult) \<Rightarrow> bool" where
  "keyed A m \<longleftrightarrow> dom m = A \<and> (\<forall>i r. m i = Some r \<longrightarrow> sr_ID r = i)"

lemma keyed_upd: "keyed A m \<Longrightarrow> keyed (insert (sr_ID r) A) (m(sr_ID r \<mapsto> r))"
  by (simp add: keyed_def)

lemma keyed_new: "keyed A m \<Longrightarrow> keyed (insert (sr_ID r) A) (if m (sr_ID r) = None then m(sr_ID r \<mapsto> r) else m)"
proof (cases "m (sr_ID r) = None")
  case False
  assume a: "keyed A m"
  with False have "insert (sr_ID r) A = A" by (auto simp: keyed_def)
  with a False show ?thesis by auto
qed (simp add: keyed_upd)

lemma put_all_results: "keyed A m \<Longrightarrow> keyed (A \<union> sr_ID ` set rs) (foldl (\<lambda>m r. m(sr_ID r \<mapsto> r)) m rs)"
proof (induction rs arbitrary: A m)
  case (Cons r rs)
  from Cons.IH[OF keyed_upd[OF Cons.prems]] show ?case by simp
qed simp

lemma put_new_results:
  "keyed A m \<Longrightarrow> keyed (A \<union> sr_ID ` set rs) (foldl (\<lambda>m r. if m (sr_ID r) = None then m(sr_ID r \<mapsto> r) else m) m rs)"
proof (induction rs arbitrary: A m)
  case (Cons r rs)
  from Cons.IH[OF keyed_new[OF Cons.prems]] show ?case by (simp only: foldl_Cons list.set image_insert Un_insert_right Un_insert_left)
qed simp

lemma first_results_keyed: "keyed (sr_ID ` (set vec \<union> set kw)) (first_results vec kw)"
proof -
  have "keyed {} Map.empty" by (simp add: keyed_def)
  from put_new_results[OF put_all_results[OF this, of vec], of kw] show ?thesis by (simp only: first_results_def Un_empty_left image_Un)
qed

lemma first_results_spec:
  "first_results vec kw i = Some r \<Longrightarrow> sr_ID r = i" "dom (first_results vec kw) = sr_ID ` (set vec \<union> set kw)"
  using first_results_keyed[of vec kw] by (simp_all add: keyed_def)

text \<open>C28: Hybrid search returns every document at most once, with the sum of the reciprocals of sixty plus its
  rank in each of the two lists, in descending order, as many as were found up to the limit, and none
  with a sum below that of a document that was left out.
\<close>

theorem hybrid_ranks_best:
  assumes srt: "slice_sort srt" and ks: "ranges (rrf_loop 0 kw (rrf_loop 0 vec Map.empty)) ks" and ret: "fuse srt ks topK vec kw = Ret rs"
  shows "distinct (map sr_ID rs) \<and> sorted_wrt (\<lambda>a b. sr_Score b \<le> sr_Score a) rs \<and>
    length rs = min (nat topK) (card (sr_ID ` (set vec \<union> set kw))) \<and>
    (\<forall>r\<in>set rs. sr_ID r \<in> sr_ID ` (set vec \<union> set kw) \<and> sr_Score r = rrf vec kw (sr_ID r)) \<and>
    (\<forall>i\<in>sr_ID ` (set vec \<union> set kw). i \<in> sr_ID ` set rs \<or> (\<forall>r\<in>set rs. rrf vec kw i \<le> sr_Score r))"
proof -
  let ?ids = "sr_ID ` (set vec \<union> set kw)" and ?found = "first_results vec kw"
  define pair where "pair i = (the (?found i), rrf vec kw i)" for i
  have dist: "distinct ks" "set ks = ?ids" using ks by (simp_all add: ranges_def dom_rrf_loop image_Un)
  have found: "?found i = Some (the (?found i)) \<and> sr_ID (the (?found i)) = i" if "i \<in> ?ids" for i
    using that first_results_spec[of vec kw] by (metis domIff option.collapse)
  have val: "rrf_value (rrf_loop 0 kw (rrf_loop 0 vec Map.empty)) i = rrf vec kw i" for i
    by (simp add: rrf_loop_value rrf_def)
  have xs: "List.map_filter (\<lambda>i. case ?found i of None \<Rightarrow> None | Some r \<Rightarrow> Some (r, rrf vec kw i)) ls = map pair ls" if "set ls \<subseteq> ?ids" for ls
    using that
  proof (induction ls)
    case (Cons i ls)
    then obtain r where r: "?found i = Some r" using found[of i] by auto
    with Cons show ?case by (simp add: map_filter_simps pair_def)
  qed (simp add: map_filter_simps)
  from ret[unfolded fuse_def Let_def val xs[OF eq_refl[OF dist(2)]]] obtain ys where ys: "take_top topK (srt (map pair ks)) = Ret ys" and rs: "rs = map (\<lambda>(r, s). r\<lparr>sr_Score := s\<rparr>) ys"
    by (auto simp: go_bind_Ret_iff)
  note top = slice_sort.top[OF srt ys]
  have sub: "set ys \<subseteq> pair ` ?ids" using top(1) slice_sort.set_srt[OF srt, of "map pair ks"] dist(2) by (metis set_take_subset list.set_map)
  have id: "sr_ID (fst p) = i" if "p = pair i" "i \<in> ?ids" for p i using that found by (simp add: pair_def)
  have "distinct (map (sr_ID \<circ> fst) (map pair ks))"
  proof -
    have "map (\<lambda>i. sr_ID (fst (pair i))) ks = ks" using dist(2) id[OF refl] by (auto intro: map_idI)
    then show ?thesis using dist(1) by (simp add: o_def)
  qed
  then have "distinct (map (sr_ID \<circ> fst) ys)"
    using slice_sort.distinct_srt[OF srt, of "sr_ID \<circ> fst" "map pair ks"] unfolding top(1) take_map[symmetric] by (metis distinct_take)
  then have 1: "distinct (map sr_ID rs)" by (simp add: rs o_def split_beta)
  have 2: "sorted_wrt (\<lambda>a b. sr_Score b \<le> sr_Score a) rs"
    using slice_sort.sorted_take[OF srt, of "nat topK" "map pair ks"] by (simp add: rs top(1) sorted_wrt_map split_beta)
  have 3: "length rs = min (nat topK) (card ?ids)"
    using top(2) distinct_card[OF dist(1)] dist(2) by (simp add: rs)
  have 4: "\<forall>r\<in>set rs. sr_ID r \<in> ?ids \<and> sr_Score r = rrf vec kw (sr_ID r)"
  proof
    fix r
    assume "r \<in> set rs"
    then obtain y where "y \<in> set ys" "r = (fst y)\<lparr>sr_Score := snd y\<rparr>" by (auto simp: rs split_beta)
    moreover from this(1) sub obtain i where "i \<in> ?ids" "y = pair i" by blast
    ultimately have i: "i \<in> ?ids" "r = (fst (pair i))\<lparr>sr_Score := snd (pair i)\<rparr>" by simp_all
    then show "sr_ID r \<in> ?ids \<and> sr_Score r = rrf vec kw (sr_ID r)" using id[OF refl i(1)] by (simp add: pair_def)
  qed
  have 5: "i \<in> sr_ID ` set rs \<or> (\<forall>r\<in>set rs. rrf vec kw i \<le> sr_Score r)" if i: "i \<in> ?ids" for i
  proof -
    have "pair i \<in> set (map pair ks)" using i dist(2) by simp
    from slice_sort.take_best[OF srt this, of "nat topK"] have "pair i \<in> set ys \<or> (\<forall>y\<in>set ys. rrf vec kw i \<le> snd y)"
      by (simp add: top(1) pair_def)
    then show ?thesis
    proof
      assume "pair i \<in> set ys"
      then have "(fst (pair i))\<lparr>sr_Score := snd (pair i)\<rparr> \<in> set rs" by (force simp: rs)
      then show ?thesis using id[OF refl i] by force
    qed (auto simp: rs)
  qed
  from 1 2 3 4 5 show ?thesis by blast
qed

section \<open>tokenize finds the words\<close>

definition word_char :: "char \<Rightarrow> bool" where
  "word_char c \<longleftrightarrow> 97 \<le> byte c \<and> byte c \<le> 122 \<or> 48 \<le> byte c \<and> byte c \<le> 57"

definition word :: "string \<Rightarrow> bool" where
  "word w \<longleftrightarrow> w \<noteq> [] \<and> list_all word_char w"

fun join_words :: "string list \<Rightarrow> string" where
  "join_words [] = []"
| "join_words [w] = w"
| "join_words (w # v # ws) = w @ CHR '' '' # join_words (v # ws)"

lemma lower_ascii:
  assumes "list_all (\<lambda>c. word_char c \<or> c = CHR '' '') s"
  shows "ascii s" "map fst (runes (ToLower uni s)) = map byte s"
proof -
  show a: "ascii s" using assms by (auto simp: ascii_def list_all_iff word_char_def byte_def)
  have "unicode_lower uni (byte c) = byte c" "encode_rune (byte c) = [c]" if "c \<in> set s" for c
    using assms that by (auto simp: unicode_lower_def encode_rune_def list_all_iff word_char_def byte_def)
  then have "ToLower uni s = s" using a by (simp add: ToLower_def runes_ascii o_def cong: map_cong)
  then show "map fst (runes (ToLower uni s)) = map byte s" using a by (simp add: runes_ascii o_def)
qed

lemma token_loop_word: "list_all word_char w \<Longrightarrow> token_loop (map byte w @ rs) buf = token_loop rs (buf @ w)"
proof (induction w arbitrary: buf)
  case (Cons c w)
  then have "token_rune (byte c)" "encode_rune (byte c) = [c]" by (auto simp: token_rune_def encode_rune_def word_char_def)
  with Cons show ?case by simp
qed simp

lemma token_loop_words: "list_all word ws \<Longrightarrow> token_loop (map byte (join_words ws)) [] = ws"
proof (induction ws rule: join_words.induct)
  case (2 w)
  then show ?case using token_loop_word[of w "[]" "[]"] by (simp add: word_def)
next
  case (3 w v ws)
  have "\<not> token_rune (byte CHR '' '')" by (simp add: token_rune_def byte_def)
  with 3 show ?case by (simp add: token_loop_word word_def)
qed simp

text \<open>Words of lower-case letters and digits, joined by blanks, are the tokens of the text.\<close>

lemma tokenize_join: "list_all word ws \<Longrightarrow> tokenize uni (join_words ws) = ws"
proof -
  assume ws: "list_all word ws"
  then have "list_all (\<lambda>c. word_char c \<or> c = CHR '' '') (join_words ws)"
    by (induction ws rule: join_words.induct) (auto simp: word_def list_all_iff)
  from lower_ascii(2)[OF this] token_loop_words[OF ws] show ?thesis by (simp add: tokenize_def)
qed

lemma tokenize_demo [simp]: "tokenize uni ''go'' = [''go'']" "tokenize uni ''fast'' = [''fast'']" "tokenize uni ''go fast'' = [''go'', ''fast'']"
proof -
  have w: "word ''go''" "word ''fast''" by (simp_all add: word_def word_char_def byte_def)
  with tokenize_join[of "[''go'']" uni] tokenize_join[of "[''fast'']" uni] tokenize_join[of "[''go'', ''fast'']" uni]
  show "tokenize uni ''go'' = [''go'']" "tokenize uni ''fast'' = [''fast'']" "tokenize uni ''go fast'' = [''go'', ''fast'']" by simp_all
qed

definition demo_rows :: columns where
  "demo_rows = \<lparr>cl_ids = Some [''d1'', ''d2'', ''d3''], cl_contents = Some [''go fast'', ''fast'', ''go''], cl_sources = None, cl_chunks = None\<rparr>"

text \<open>Without any limit that applies, the two documents that have the word are found.\<close>

theorem keyword_search_best_witness:
  "\<exists>rs. keyword_rank (sort_key (\<lambda>x. - snd x)) (\<lambda>r. r) ''go'' 5 demo_rows = Ret rs \<and> length rs = 2"
proof -
  have "take_top 5 xs = Ret (take 5 xs)" for xs :: "(nat \<times> real) list" by (simp add: take_top_def)
  then obtain rs where rs: "keyword_rank (sort_key (\<lambda>x. - snd x)) (\<lambda>r. r) ''go'' 5 demo_rows = Ret rs"
    by (simp add: keyword_rank_def demo_rows_def Let_def)
  have "filter (matches (\<lambda>r. r) [''go'']) (candidates demo_rows) = [row_at demo_rows 0, row_at demo_rows 2]"
    by (simp add: candidates_def demo_rows_def upt_rec usable_def row_at_def col_at_def matches_def doc_terms_def nth_Cons' numeral_eq_Suc)
  then have "length rs = 2" using keyword_search_best[OF stable.slice_sort_axioms rs] by simp
  with rs show ?thesis by blast
qed

definition demo_result :: "string \<Rightarrow> SearchResult" where
  "demo_result i = \<lparr>sr_ID = i, sr_Content = ''x'', sr_SourceDocument = '''', sr_ChunkIndex = 0, sr_Score = 0\<rparr>"

theorem hybrid_ranks_best_witness:
  "\<exists>r. fuse (sort_key (\<lambda>x. - snd x)) [''a'', ''b''] 5 [demo_result ''a'', demo_result ''b''] [demo_result ''b''] = Ret r \<and>
     length r = 2 \<and> (\<forall>x\<in>set r. sr_ID x = ''b'' \<longrightarrow> sr_Score x = 1 / 62 + 1 / 61)"
proof -
  let ?v = "[demo_result ''a'', demo_result ''b'']" and ?k = "[demo_result ''b'']"
  have "take_top 5 xs = Ret (if 5 > length xs then xs else take 5 xs)" for xs :: "(SearchResult \<times> real) list"
    by (simp add: take_top_def)
  then obtain r where r: "fuse (sort_key (\<lambda>x. - snd x)) [''a'', ''b''] 5 ?v ?k = Ret r" by (simp add: fuse_def Let_def)
  have ks: "ranges (rrf_loop 0 ?k (rrf_loop 0 ?v Map.empty)) [''a'', ''b'']"
    by (simp add: ranges_def dom_rrf_loop demo_result_def insert_commute)
  have val: "rrf ?v ?k ''b'' = 1 / 62 + 1 / 61" by (simp add: rrf_def demo_result_def)
  have card: "card (sr_ID ` (set ?v \<union> set ?k)) = 2" by (simp add: demo_result_def card_insert_if)
  from hybrid_ranks_best[OF stable.slice_sort_axioms ks r] card val have "length r = 2" "\<forall>x\<in>set r. sr_ID x = ''b'' \<longrightarrow> sr_Score x = 1 / 62 + 1 / 61"
    by auto
  with r show ?thesis by blast
qed

section \<open>What ends the process\<close>

text \<open>Without a connection, or when twice the limit overflows, a hybrid search panics in a goroutine of its own.\<close>

lemma hybrid_without_client: "vs_client vs = None \<Longrightarrow> HybridSearch srt srt2 order uni vs name qv q topK w = Panic nil_deref"
  by (simp add: HybridSearch_def vs_Search_def with_client_def)

lemma hybrid_huge_limit:
  assumes "vs_client vs = Some c" "mv_Load c name w = None" "mv_FlatParam c = None" "mv_Query c name w = Inr rows"
    and "cl_ids rows \<noteq> None" "cl_contents rows \<noteq> None" "tokenize uni q \<noteq> []" "2 ^ 62 \<le> topK" "topK < 2 ^ 63"
  shows "HybridSearch srt srt2 order uni vs name qv q topK w = Panic ''runtime error: makeslice: len out of range''"
proof -
  have neg: "wrap64 (topK * 2) = topK * 2 - 2 ^ 64"
  proof -
    have "(topK * 2 + 2 ^ 63) mod 2 ^ 64 = topK * 2 + 2 ^ 63 - 2 ^ 64"
      using assms(8,9) by (intro int_mod_pos_eq[where q = 1, symmetric, THEN sym]) auto
    then show ?thesis by (simp add: wrap64_def)
  qed
  have "take_top (wrap64 (topK * 2)) xs = Panic ''runtime error: makeslice: len out of range''" for xs :: "(nat \<times> real) list"
    using assms(9) by (simp add: take_top_def neg)
  then have "KeywordSearch srt uni vs name q (wrap64 (topK * 2)) w = Panic ''runtime error: makeslice: len out of range''"
    using assms by (simp add: KeywordSearch_def with_client_def keyword_rank_def Let_def)
  moreover have "\<exists>v. vs_Search vs name qv (wrap64 (topK * 2)) w = Ret v"
    using assms(1-3) by (cases "mv_Search c name qv (wrap64 (topK * 2)) w") (simp_all add: vs_Search_def with_client_def)
  ultimately show ?thesis by (auto simp: HybridSearch_def)
qed

end
