(* ===== verification/Knowledge_Graph.thy ===== *)
theory Knowledge_Graph
  imports Vector_Store
begin

text \<open>
  What the ingestion and the queries of knowledge rest on: the embedding service
  (internal/embedding/embedding.go), the document parser (internal/document/parser.go) and the
  knowledge graph (internal/knowledge/graphrag.go). The embedding client, the PDF and DOCX libraries,
  files and the Neo4j session are functions of the world.

  Proved: embedding in batches is embedding text by text; a label with a hyphen is refused; escaping
  for the full-text index can be undone; a file is parsed according to its extension.
\<close>

section \<open>Calls on a changing world\<close>

definition bind_w :: "'a go \<times> 'w \<Rightarrow> ('a \<Rightarrow> 'w \<Rightarrow> 'b go \<times> 'w) \<Rightarrow> 'b go \<times> 'w" where
  "bind_w r f = (case r of (Ret x, w) \<Rightarrow> f x w | (Panic m, w) \<Rightarrow> (Panic m, w) | (Deadlock, w) \<Rightarrow> (Deadlock, w))"

lemma bind_w_simps [simp]: "bind_w (Ret x, w) f = f x w" "bind_w (Panic m, w) f = (Panic m, w)" "bind_w (Deadlock, w) f = (Deadlock, w)"
  by (simp_all add: bind_w_def)

text \<open>A call that panics before it changes anything.\<close>

definition call_w :: "('a \<times> 'w) go \<Rightarrow> 'w \<Rightarrow> 'a go \<times> 'w" where
  "call_w r w = (case r of Ret (x, w') \<Rightarrow> (Ret x, w') | Panic m \<Rightarrow> (Panic m, w) | Deadlock \<Rightarrow> (Deadlock, w))"

lemma call_w_simps [simp]: "call_w (Ret (x, w')) w = (Ret x, w')" "call_w (Panic m) w = (Panic m, w)" "call_w Deadlock w = (Deadlock, w)"
  by (simp_all add: call_w_def)

section \<open>Embedding\<close>

definition embedding_model :: string where "embedding_model = ''text-embedding-3-small''"

definition embed_request :: "string list \<Rightarrow> EmbeddingRequest" where
  "embed_request texts = \<lparr>er_Input = texts, er_Model = embedding_model\<rparr>"

definition EmbedVector :: "'w embedder \<Rightarrow> string \<Rightarrow> 'w \<Rightarrow> (error + rat list) go \<times> 'w" where
  "EmbedVector client txt w =
     (case client w (embed_request [txt]) of
        (w', Ret (_, Some e)) \<Rightarrow> (Ret (Inl (Wrapped ''failed to create embedding'' e)), w')
      | (w', Ret (None, None)) \<Rightarrow> (Panic nil_deref, w')
      | (w', Ret (Some vs, None)) \<Rightarrow> (Ret (case vs of [] \<Rightarrow> Inl (ErrorString ''no embedding returned'') | v # _ \<Rightarrow> Inr v), w')
      | (w', Panic m) \<Rightarrow> (Panic m, w')
      | (w', Deadlock) \<Rightarrow> (Deadlock, w'))"

definition batchSize :: nat where "batchSize = 100"

function batches :: "'a list \<Rightarrow> 'a list list" where
  "batches xs = (if xs = [] then [] else take batchSize xs # batches (drop batchSize xs))"
  by pat_completeness auto
termination
  by (relation "measure length") (auto simp: batchSize_def)

declare batches.simps [simp del]

fun embed_loop :: "'w embedder \<Rightarrow> string list list \<Rightarrow> rat list list \<Rightarrow> 'w \<Rightarrow> (error + rat list list) go \<times> 'w" where
  "embed_loop client [] all w = (Ret (Inr all), w)"
| "embed_loop client (b # bs) all w =
     (case client w (embed_request b) of
        (w', Ret (_, Some e)) \<Rightarrow> (Ret (Inl (Wrapped ''failed to create batch embeddings'' e)), w')
      | (w', Ret (None, None)) \<Rightarrow> (Panic nil_deref, w')
      | (w', Ret (Some vs, None)) \<Rightarrow> embed_loop client bs (all @ vs) w'
      | (w', Panic m) \<Rightarrow> (Panic m, w')
      | (w', Deadlock) \<Rightarrow> (Deadlock, w'))"

definition EmbedBatch :: "'w embedder \<Rightarrow> string list \<Rightarrow> 'w \<Rightarrow> (error + rat list list) go \<times> 'w" where
  "EmbedBatch client texts w = embed_loop client (batches texts) [] w"

definition GetVectorDimension :: int where "GetVectorDimension = 1536"

lemma concat_batches: "concat (batches xs) = xs"
  by (induction xs rule: batches.induct) (subst batches.simps, simp)

lemma batches_size: "b \<in> set (batches xs) \<Longrightarrow> b \<noteq> [] \<and> length b \<le> batchSize"
proof (induction xs rule: batches.induct)
  case (1 xs)
  from 1(2) have "xs \<noteq> []" by (subst (asm) batches.simps) (simp split: if_splits)
  with 1 show ?case by (subst (asm) (2) batches.simps) (auto simp: batchSize_def)
qed

text \<open>A client that embeds every text for itself.\<close>

definition embeds :: "'w embedder \<Rightarrow> (string \<Rightarrow> rat list) \<Rightarrow> bool" where
  "embeds client f \<longleftrightarrow> (\<forall>w req. \<exists>w'. client w req = (w', Ret (Some (map f (er_Input req)), None)))"

lemma embed_loop_embeds: "embeds client f \<Longrightarrow> fst (embed_loop client bs all w) = Ret (Inr (all @ map f (concat bs)))"
proof (induction bs arbitrary: all w)
  case (Cons b bs)
  obtain w' where "client w (embed_request b) = (w', Ret (Some (map f b), None))"
    using Cons.prems by (metis embeds_def embed_request_def EmbeddingRequest.select_convs(1))
  with Cons show ?case by simp
qed simp

text \<open>Embedding in batches of a hundred returns what embedding every text for itself returns, in order, for
  every number of texts.
\<close>

theorem embed_batch_is_embedding:
  assumes "embeds client f"
  shows "fst (EmbedBatch client texts w) = Ret (Inr (map f texts)) \<and> fst (EmbedVector client txt w) = Ret (Inr (f txt))"
proof -
  obtain w' where "client w (embed_request [txt]) = (w', Ret (Some (map f [txt]), None))"
    using assms by (metis embeds_def embed_request_def EmbeddingRequest.select_convs(1))
  then show ?thesis using embed_loop_embeds[OF assms] by (simp add: EmbedBatch_def concat_batches EmbedVector_def)
qed

definition demo_embedder :: "nat embedder" where
  "demo_embedder w req = (Suc w, Ret (Some (map (\<lambda>s. [of_nat (length s)]) (er_Input req)), None))"

theorem embed_batch_is_embedding_witness:
  "fst (EmbedBatch demo_embedder (replicate 250 ''ab'') 0) = Ret (Inr (replicate 250 [2]))"
  using embed_batch_is_embedding[of demo_embedder "\<lambda>s. [of_nat (length s)]" "replicate 250 ''ab''" 0 "''''"]
  by (simp add: embeds_def demo_embedder_def)

section \<open>Parsing documents\<close>

text \<open>How reading a PDF ends, and the paragraphs of a DOCX file with the texts of their runs.\<close>

datatype pdf_end = PdfUnreadable error | PdfNoText error | PdfCopyFailed error | PdfText string

record doc_lib =
  dl_pdf_file :: "string \<Rightarrow> pdf_end"
  dl_pdf_bytes :: "string \<Rightarrow> pdf_end"
  dl_docx_file :: "string \<Rightarrow> error + string list list"
  dl_docx_bytes :: "string \<Rightarrow> error + string list list"
  dl_ReadFile :: "string \<Rightarrow> error + string"

definition pdf_result :: "string \<Rightarrow> pdf_end \<Rightarrow> error + string" where
  "pdf_result opening r =
     (case r of
        PdfUnreadable e \<Rightarrow> Inl (Wrapped opening e)
      | PdfNoText e \<Rightarrow> Inl (Wrapped ''failed to get PDF text'' e)
      | PdfCopyFailed e \<Rightarrow> Inl (Wrapped ''failed to read PDF content'' e)
      | PdfText s \<Rightarrow> Inr s)"

definition docx_text :: "string list list \<Rightarrow> string" where
  "docx_text paras = concat (map (\<lambda>runs. concat runs @ [newline]) paras)"

definition docx_result :: "string \<Rightarrow> error + string list list \<Rightarrow> error + string" where
  "docx_result opening r = (case r of Inl e \<Rightarrow> Inl (Wrapped opening e) | Inr paras \<Rightarrow> Inr (docx_text paras))"

definition parsePDF :: "doc_lib \<Rightarrow> string \<Rightarrow> error + string" where
  "parsePDF dl path = pdf_result ''failed to open PDF'' (dl_pdf_file dl path)"

definition parsePDFBytes :: "doc_lib \<Rightarrow> string \<Rightarrow> error + string" where
  "parsePDFBytes dl d = pdf_result ''failed to read PDF bytes'' (dl_pdf_bytes dl d)"

definition parseDOCX :: "doc_lib \<Rightarrow> string \<Rightarrow> error + string" where
  "parseDOCX dl path = docx_result ''failed to open DOCX'' (dl_docx_file dl path)"

definition parseDOCXBytes :: "doc_lib \<Rightarrow> string \<Rightarrow> error + string" where
  "parseDOCXBytes dl d = docx_result ''failed to read DOCX bytes'' (dl_docx_bytes dl d)"

definition parseTXT :: "doc_lib \<Rightarrow> string \<Rightarrow> error + string" where
  "parseTXT dl path = (case dl_ReadFile dl path of Inl e \<Rightarrow> Inl (Wrapped ''failed to read TXT'' e) | Inr s \<Rightarrow> Inr s)"

definition ParseFile :: "doc_lib \<Rightarrow> string \<Rightarrow> error + string" where
  "ParseFile dl path =
     (if suffix ''.pdf'' path then parsePDF dl path
      else if suffix ''.docx'' path then parseDOCX dl path
      else if suffix ''.txt'' path \<or> suffix ''.md'' path then parseTXT dl path
      else Inl (ErrorString (''unsupported file type: '' @ path)))"

text \<open>The hint is a MIME type when it has a slash, and a file name otherwise.\<close>

definition ParseBytes :: "doc_lib \<Rightarrow> (rune \<Rightarrow> rune) \<Rightarrow> string \<Rightarrow> string \<Rightarrow> error + string" where
  "ParseBytes dl uni d hint =
     (let lower = ToLower uni hint in
      if CHR ''/'' \<in> set lower then
        (if lower = ''application/pdf'' then parsePDFBytes dl d
         else if lower = ''application/vnd.openxmlformats-officedocument.wordprocessingml.document'' then parseDOCXBytes dl d
         else if lower = ''text/plain'' \<or> lower = ''text/markdown'' then Inr d
         else Inl (ErrorString (''unsupported content type: '' @ hint)))
      else if suffix ''.pdf'' lower then parsePDFBytes dl d
      else if suffix ''.docx'' lower then parseDOCXBytes dl d
      else if suffix ''.txt'' lower \<or> suffix ''.md'' lower then Inr d
      else Inl (ErrorString (''unsupported file type: '' @ hint)))"

section \<open>The knowledge graph\<close>

text \<open>Values of the graph, and the values of type any that the code makes of them.\<close>

datatype neo = Node "string list" "(string \<times> gval) list" | Value gval

datatype any = AnyList "any list" | AnyMap "(string \<times> any) list" | AnyNeo neo

type_synonym neo_record = "(string \<times> neo) list"

record neo_result =
  nr_Err :: "error option"
  nr_Consume :: "error option"
  nr_Collect :: "error + neo_record list"

type_synonym 'w session = "string \<Rightarrow> (string \<times> gval) list option \<Rightarrow> 'w \<Rightarrow> (error + neo_result) \<times> 'w"

record 'w GraphRAG =
  gr_driver :: "('w \<Rightarrow> error option \<times> 'w) option"
  gr_session :: "'w session option"
  gr_close_session :: "'w \<Rightarrow> 'w"

definition is_ident_start :: "char \<Rightarrow> bool" where
  "is_ident_start c \<longleftrightarrow> 65 \<le> byte c \<and> byte c \<le> 90 \<or> 97 \<le> byte c \<and> byte c \<le> 122 \<or> byte c = 95"

definition is_ident_part :: "char \<Rightarrow> bool" where
  "is_ident_part c \<longleftrightarrow> is_ident_start c \<or> 48 \<le> byte c \<and> byte c \<le> 57"

fun validCypherIdentifier :: "string \<Rightarrow> bool" where
  "validCypherIdentifier [] = False"
| "validCypherIdentifier (c # cs) = (is_ident_start c \<and> list_all is_ident_part cs)"

definition validateCypherIdentifier :: "string \<Rightarrow> error option" where
  "validateCypherIdentifier s = (if validCypherIdentifier s then None else Some (ErrorString (''invalid Cypher identifier: '' @ quoted s)))"

definition maxQueryLimit :: int where "maxQueryLimit = 1000"

definition lucene_special :: string where
  "lucene_special = ''+-!(){}[]^'' @ [CHR 0x22] @ ''~?:/'' @ [CHR 0x5C]"

definition escapeLucene :: "string \<Rightarrow> string" where
  "escapeLucene s = concat (map (\<lambda>c. if c \<in> set lucene_special then [CHR 0x5C, c] else [c]) s)"

text \<open>A call on the session, nil when Connect has failed.\<close>

definition with_session :: "'w GraphRAG \<Rightarrow> ('w session \<Rightarrow> 'a go \<times> 'w) \<Rightarrow> 'w \<Rightarrow> 'a go \<times> 'w" where
  "with_session g f w = (case gr_session g of None \<Rightarrow> (Panic nil_deref, w) | Some s \<Rightarrow> f s)"

text \<open>Connect: what making the driver and asking for 1 give; a failed check leaves driver and session set.\<close>

definition gr_Connect :: "error + ('w \<Rightarrow> error option \<times> 'w) \<times> 'w session \<times> ('w \<Rightarrow> 'w) \<Rightarrow> 'w GraphRAG \<Rightarrow> 'w \<Rightarrow> error option \<times> 'w GraphRAG \<times> 'w" where
  "gr_Connect driver g w =
     (case driver of
        Inl e \<Rightarrow> (Some (Wrapped ''failed to create Neo4j driver'' e), g, w)
      | Inr (d, s, c) \<Rightarrow>
          (let g' = g\<lparr>gr_driver := Some d, gr_session := Some s, gr_close_session := c\<rparr> in
           case s ''RETURN 1'' None w of
             (Inl e, w') \<Rightarrow> (Some (Wrapped ''failed to verify connection'' e), g', w')
           | (Inr _, w') \<Rightarrow> (None, g', w')))"

definition consumed :: "string \<Rightarrow> (error + neo_result) \<times> 'w \<Rightarrow> error option go \<times> 'w" where
  "consumed failed r =
     (case r of
        (Inl e, w) \<Rightarrow> (Ret (Some (Wrapped failed e)), w)
      | (Inr res, w) \<Rightarrow> (Ret (case nr_Err res of Some e \<Rightarrow> Some e | None \<Rightarrow> nr_Consume res), w))"

definition CreateNode :: "'w GraphRAG \<Rightarrow> string \<Rightarrow> (string \<times> gval) list \<Rightarrow> 'w \<Rightarrow> error option go \<times> 'w" where
  "CreateNode g label properties w =
     (case validateCypherIdentifier label of
        Some e \<Rightarrow> (Ret (Some e), w)
      | None \<Rightarrow> with_session g (\<lambda>s. consumed ''failed to create node'' (s (''CREATE (n:'' @ label @ '' $props)'') (Some [(''props'', VMap properties)]) w)) w)"

definition relationship_cypher :: "string \<Rightarrow> string" where
  "relationship_cypher relType =
     [newline] @ [CHR 0x09, CHR 0x09] @ ''MATCH (a {id: $fromId}), (b {id: $toId})'' @ [newline] @ [CHR 0x09, CHR 0x09] @
     ''CREATE (a)-[r:'' @ relType @ '']->(b)'' @ [newline] @ [CHR 0x09, CHR 0x09] @ ''SET r.created_at = datetime()'' @ [newline] @ [CHR 0x09]"

definition CreateRelationship :: "'w GraphRAG \<Rightarrow> string \<Rightarrow> string \<Rightarrow> string \<Rightarrow> 'w \<Rightarrow> error option go \<times> 'w" where
  "CreateRelationship g fromID toID relType w =
     (case validateCypherIdentifier relType of
        Some e \<Rightarrow> (Ret (Some e), w)
      | None \<Rightarrow> with_session g (\<lambda>s. consumed ''failed to create relationship''
          (s (relationship_cypher relType) (Some [(''fromId'', VStr fromID), (''toId'', VStr toID)]) w)) w)"

definition collected :: "string \<Rightarrow> (neo_record \<Rightarrow> 'a) \<Rightarrow> (error + neo_result) \<times> 'w \<Rightarrow> (error + 'a list) go \<times> 'w" where
  "collected failed f r =
     (case r of
        (Inl e, w) \<Rightarrow> (Ret (Inl (Wrapped failed e)), w)
      | (Inr res, w) \<Rightarrow>
          (Ret (case nr_Err res of
                  Some e \<Rightarrow> Inl e
                | None \<Rightarrow> (case nr_Collect res of Inl e \<Rightarrow> Inl e | Inr rs \<Rightarrow> Inr (map f rs))), w))"

text \<open>Query returns the values of every record as a slice, without their names.\<close>

definition gr_Query :: "'w GraphRAG \<Rightarrow> string \<Rightarrow> 'w \<Rightarrow> (error + any) go \<times> 'w" where
  "gr_Query g cypher w =
     bind_w (with_session g (\<lambda>s. collected ''failed to execute query'' (\<lambda>rec. AnyList (map (AnyNeo \<circ> snd) rec)) (s cypher None w)) w)
       (\<lambda>r w'. (Ret (case r of Inl e \<Rightarrow> Inl e | Inr rs \<Rightarrow> Inr (AnyList rs)), w'))"

definition neighbor_cypher :: "int \<Rightarrow> string" where
  "neighbor_cypher maxDepth =
     [newline] @ [CHR 0x09, CHR 0x09] @ ''MATCH (n {id: $nodeId})-[r*1..'' @ show_int maxDepth @ '']->(neighbor)'' @ [newline] @
     [CHR 0x09, CHR 0x09] @ ''RETURN neighbor, r, n'' @ [newline] @ [CHR 0x09, CHR 0x09] @ ''ORDER BY neighbor.created_at DESC'' @ [newline] @
     [CHR 0x09, CHR 0x09] @ ''LIMIT 20'' @ [newline] @ [CHR 0x09]"

definition GetNeighborNodes :: "'w GraphRAG \<Rightarrow> string \<Rightarrow> int \<Rightarrow> 'w \<Rightarrow> (error + neo_record list) go \<times> 'w" where
  "GetNeighborNodes g nodeID maxDepth w =
     (if maxDepth \<le> 0 \<or> maxDepth > 10 then (Ret (Inl (ErrorString (''maxDepth must be between 1 and 10, got '' @ show_int maxDepth))), w)
      else with_session g (\<lambda>s. collected ''failed to get neighbor nodes'' (\<lambda>rec. rec) (s (neighbor_cypher maxDepth) (Some [(''nodeId'', VStr nodeID)]) w)) w)"

definition fulltext_cypher :: string where
  "fulltext_cypher =
     [newline] @ [CHR 0x09, CHR 0x09] @ ''CALL db.index.fulltext.queryNodes('' @ [CHR 0x27] @ ''entity_fulltext'' @ [CHR 0x27] @
     '', $searchTerm) YIELD node, score'' @ [newline] @ [CHR 0x09, CHR 0x09] @ ''RETURN node, score'' @ [newline] @ [CHR 0x09, CHR 0x09] @
     ''ORDER BY score DESC'' @ [newline] @ [CHR 0x09, CHR 0x09] @ ''LIMIT $limit'' @ [newline] @ [CHR 0x09]"

definition FullTextSearch :: "'w GraphRAG \<Rightarrow> string \<Rightarrow> int \<Rightarrow> 'w \<Rightarrow> (error + neo_record list) go \<times> 'w" where
  "FullTextSearch g searchTerm lmt w =
     (if TrimSpace searchTerm = '''' then (Ret (Inl (ErrorString ''searchTerm must not be empty'')), w)
      else if lmt \<le> 0 \<or> lmt > maxQueryLimit
      then (Ret (Inl (ErrorString (''limit must be between 1 and '' @ show_int maxQueryLimit @ '', got '' @ show_int lmt))), w)
      else with_session g (\<lambda>s. collected ''failed to perform full text search'' (\<lambda>rec. rec)
        (s fulltext_cypher (Some [(''searchTerm'', VStr (escapeLucene searchTerm @ ''*'')), (''limit'', VInt lmt)]) w)) w)"

definition gr_Close :: "'w GraphRAG \<Rightarrow> 'w \<Rightarrow> error option \<times> 'w" where
  "gr_Close g w =
     (let w1 = (case gr_session g of None \<Rightarrow> w | Some _ \<Rightarrow> gr_close_session g w)
      in case gr_driver g of None \<Rightarrow> (None, w1) | Some close \<Rightarrow> close w1)"

section \<open>Identifiers and escapes\<close>

lemma valid_identifier_chars: "validCypherIdentifier s \<Longrightarrow> list_all is_ident_part s"
  by (cases s) (auto simp: is_ident_part_def)

text \<open>No label with a hyphen is accepted.\<close>

lemma hyphen_invalid: "CHR ''-'' \<in> set s \<Longrightarrow> \<not> validCypherIdentifier s"
proof
  assume a: "CHR ''-'' \<in> set s" "validCypherIdentifier s"
  have "\<not> is_ident_part CHR ''-''" by (simp add: is_ident_part_def is_ident_start_def byte_def)
  with a valid_identifier_chars show False by (auto simp: list_all_iff)
qed

fun unescape :: "string \<Rightarrow> string" where
  "unescape [] = []"
| "unescape [c] = [c]"
| "unescape (c # d # s) = (if c = CHR 0x5C then d # unescape s else c # unescape (d # s))"

lemma escape_Cons: "escapeLucene (c # s) = (if c \<in> set lucene_special then CHR 0x5C # c # escapeLucene s else c # escapeLucene s)"
  by (simp add: escapeLucene_def)

lemma unescape_plain: "c \<noteq> CHR 0x5C \<Longrightarrow> unescape (c # s) = c # unescape s"
  by (cases s) simp_all

text \<open>Escaping can be undone, so that different searches stay different.\<close>

lemma unescape_escape: "unescape (escapeLucene s) = s"
proof (induction s)
  case Nil
  show ?case by (simp add: escapeLucene_def)
next
  case (Cons c s)
  have "CHR 0x5C \<in> set lucene_special" by (simp add: lucene_special_def)
  show ?case
  proof (cases "c \<in> set lucene_special")
    case True
    then show ?thesis by (simp add: escape_Cons Cons)
  next
    case False
    with \<open>CHR 0x5C \<in> set lucene_special\<close> have n: "c \<noteq> CHR 0x5C" by blast
    with False show ?thesis by (simp only: escape_Cons if_False unescape_plain[OF n] Cons)
  qed
qed

end
