(* ===== verification/Knowledge.thy ===== *)
theory Knowledge
  imports Knowledge_Graph Text_Chunk Tenant_DB
begin

text \<open>
  Ingestion and retrieval of knowledge: internal/knowledge/knowledge_ingest.go and
  internal/knowledge/rag_service.go. Both choose the collection of the vector store by the tenant of
  the context. A text that the chunker does not finish blocks the ingestion for ever. The outer \<open>go\<close> of
  a query is the fate of the process, the inner one that of the caller.

  Proved: what a successful ingestion inserts, and where; every workspace of a tenant shares one
  collection; a tenant id with a hyphen gets no graph; the statistics count no documents, whatever the
  graph answers; an ASCII line of more than a thousand bytes is never ingested.
\<close>

section \<open>Ingestion\<close>

record 'w knowledge_base =
  kb_lib :: doc_lib
  kb_lower :: "rune \<Rightarrow> rune"
  kb_chunker :: Chunker
  kb_embed :: "'w embedder"
  kb_store :: "'w VectorStore"
  kb_graph :: "'w GraphRAG option"

record IngestDocumentRequest =
  ir_TenantID :: string
  ir_Workspace :: string
  ir_DocumentData :: string
  ir_FileName :: string
  ir_DocumentID :: string

record IngestResult =
  ig_DocumentID :: string
  ig_Workspace :: string
  ig_TotalChunks :: int
  ig_TotalVectors :: int
  ig_TotalNodes :: int
  ig_Duration :: int
  ig_Errors :: "string list"

definition add_error :: "string \<Rightarrow> IngestResult \<Rightarrow> IngestResult" where
  "add_error e r = r\<lparr>ig_Errors := ig_Errors r @ [e]\<rparr>"

definition chunk_id :: "string \<Rightarrow> nat \<Rightarrow> string" where
  "chunk_id docID i = docID @ ''_chunk_'' @ show_nat i"

definition doc_chunks :: "string \<Rightarrow> TextChunk list \<Rightarrow> rat list list \<Rightarrow> DocumentChunk list" where
  "doc_chunks docID chunks vecs =
     map (\<lambda>i. \<lparr>dc_ID = chunk_id docID i, dc_Content = tc_Content (chunks ! i), dc_SourceDocument = docID, dc_ChunkIndex = int i, dc_Vector = vecs ! i\<rparr>)
       [0..<length vecs]"

definition collection_of :: "tenant_ctx \<Rightarrow> string \<Rightarrow> string" where
  "collection_of ctx workspace = (case TenantCollection ctx ''kb'' of Inr c \<Rightarrow> c | Inl _ \<Rightarrow> workspace @ ''_kb'')"

definition label_of :: "tenant_ctx \<Rightarrow> string \<Rightarrow> string" where
  "label_of ctx l = (case TenantLabel ctx l of Inr t \<Rightarrow> t | Inl _ \<Rightarrow> l)"

text \<open>The nodes of the chunks, each with its link to the document; \<open>now\<close> is the time in seconds.\<close>

fun chunk_nodes :: "'w GraphRAG \<Rightarrow> tenant_ctx \<Rightarrow> string \<Rightarrow> int \<Rightarrow> nat \<Rightarrow> TextChunk list \<Rightarrow> IngestResult \<Rightarrow> 'w \<Rightarrow> IngestResult go \<times> 'w" where
  "chunk_nodes g ctx docID now i [] r w = (Ret r, w)"
| "chunk_nodes g ctx docID now i (c # cs) r w =
     bind_w (CreateNode g (label_of ctx ''DocumentChunk'')
        [(''id'', VStr (chunk_id docID i)), (''content'', VStr (tc_Content c)), (''chunk_index'', VInt (int i)), (''created_at'', VInt now)] w) (\<lambda>err w1.
       case err of
         Some e \<Rightarrow> chunk_nodes g ctx docID now (Suc i) cs (add_error (''graph chunk '' @ show_nat i @ '' node failed: '' @ error_text e) r) w1
       | None \<Rightarrow>
           bind_w (CreateRelationship g docID (chunk_id docID i) ''HAS_CHUNK'' w1) (\<lambda>err2 w2.
             let r1 = r\<lparr>ig_TotalNodes := ig_TotalNodes r + 1\<rparr> in
             chunk_nodes g ctx docID now (Suc i) cs
               (case err2 of None \<Rightarrow> r1 | Some e \<Rightarrow> add_error (''graph chunk '' @ show_nat i @ '' relationship failed: '' @ error_text e) r1) w2))"

definition graph_nodes :: "'w GraphRAG option \<Rightarrow> tenant_ctx \<Rightarrow> IngestDocumentRequest \<Rightarrow> int \<Rightarrow> TextChunk list \<Rightarrow> IngestResult \<Rightarrow> 'w \<Rightarrow> IngestResult go \<times> 'w" where
  "graph_nodes og ctx req now chunks r w =
     (case og of
        None \<Rightarrow> (Ret r, w)
      | Some g \<Rightarrow>
          bind_w (CreateNode g (label_of ctx ''Document'')
             [(''id'', VStr (ir_DocumentID req)), (''title'', VStr (ir_FileName req)), (''workspace'', VStr (ir_Workspace req)), (''created_at'', VInt now)] w) (\<lambda>err w1.
            case err of
              Some e \<Rightarrow> (Ret (add_error (''graph document node failed: '' @ error_text e) r), w1)
            | None \<Rightarrow> chunk_nodes g ctx (ir_DocumentID req) now 0 chunks (r\<lparr>ig_TotalNodes := ig_TotalNodes r + 1\<rparr>) w1))"

definition Contains :: "string \<Rightarrow> string \<Rightarrow> bool" where
  "Contains s sub \<longleftrightarrow> sublist sub s"

text \<open>The steps after the vectors are there: insertion, flush and graph, and before them the collection.\<close>

definition insert_chunks ::
  "'w knowledge_base \<Rightarrow> tenant_ctx \<Rightarrow> IngestDocumentRequest \<Rightarrow> int \<Rightarrow> int \<Rightarrow> TextChunk list \<Rightarrow> DocumentChunk list \<Rightarrow> IngestResult \<Rightarrow> 'w
     \<Rightarrow> (IngestResult \<times> error option) go \<times> 'w" where
  "insert_chunks kb ctx req now dur chunks docs r w =
     (let col = collection_of ctx (ir_Workspace req) in
      bind_w (call_w (vs_Insert (kb_store kb) col docs w) w) (\<lambda>e1 w1.
        case e1 of
          Some e \<Rightarrow> (Ret (add_error (''vector insert failed: '' @ error_text e) r, Some (Wrapped ''failed to insert vectors'' e)), w1)
        | None \<Rightarrow>
            bind_w (call_w (vs_Flush (kb_store kb) col w1) w1) (\<lambda>e2 w2.
              case e2 of
                Some e \<Rightarrow> (Ret (add_error (''flush failed: '' @ error_text e) r, Some (Wrapped ''failed to flush collection'' e)), w2)
              | None \<Rightarrow> bind_w (graph_nodes (kb_graph kb) ctx req now chunks r w2) (\<lambda>r' w3. (Ret (r'\<lparr>ig_Duration := dur\<rparr>, None), w3)))))"

definition store_chunks ::
  "'w knowledge_base \<Rightarrow> tenant_ctx \<Rightarrow> IngestDocumentRequest \<Rightarrow> int \<Rightarrow> int \<Rightarrow> TextChunk list \<Rightarrow> DocumentChunk list \<Rightarrow> IngestResult \<Rightarrow> 'w
     \<Rightarrow> (IngestResult \<times> error option) go \<times> 'w" where
  "store_chunks kb ctx req now dur chunks docs r w =
     bind_w (call_w (CreateCollection (kb_store kb) (collection_of ctx (ir_Workspace req)) w) w) (\<lambda>e1 w1.
       case e1 of
         None \<Rightarrow> insert_chunks kb ctx req now dur chunks docs r w1
       | Some e \<Rightarrow>
           (if Contains (error_text e) ''already exists'' then insert_chunks kb ctx req now dur chunks docs r w1
            else (Ret (add_error (''collection create failed: '' @ error_text e) r, Some e), w1)))"

definition mismatch :: "nat \<Rightarrow> nat \<Rightarrow> string" where
  "mismatch vecs chunks = ''embedding count mismatch: got '' @ show_nat vecs @ '' vectors for '' @ show_nat chunks @ '' chunks''"

definition embed_and_store ::
  "'w knowledge_base \<Rightarrow> tenant_ctx \<Rightarrow> IngestDocumentRequest \<Rightarrow> int \<Rightarrow> int \<Rightarrow> TextChunk list \<Rightarrow> IngestResult \<Rightarrow> 'w \<Rightarrow> (IngestResult \<times> error option) go \<times> 'w" where
  "embed_and_store kb ctx req now dur chunks r w =
     bind_w (EmbedBatch (kb_embed kb) (map tc_Content chunks) w) (\<lambda>res w1.
       case res of
         Inl e \<Rightarrow> (Ret (add_error (''batch embed failed: '' @ error_text e) r, Some (Wrapped ''failed to embed chunks'' e)), w1)
       | Inr vecs \<Rightarrow>
           (if length vecs \<noteq> length chunks
            then (Ret (add_error (mismatch (length vecs) (length chunks)) r, Some (ErrorString (mismatch (length vecs) (length chunks)))), w1)
            else let docs = doc_chunks (ir_DocumentID req) chunks vecs in
              store_chunks kb ctx req now dur chunks docs (r\<lparr>ig_TotalVectors := int (length docs)\<rparr>) w1))"

text \<open>\<open>now\<close> and \<open>dur\<close> are what the clock says of the nodes and of the whole.\<close>

definition IngestDocument :: "'w knowledge_base \<Rightarrow> tenant_ctx \<Rightarrow> int \<Rightarrow> int \<Rightarrow> IngestDocumentRequest \<Rightarrow> 'w \<Rightarrow> (IngestResult \<times> error option) go \<times> 'w" where
  "IngestDocument kb ctx now dur req w =
     (let r = \<lparr>ig_DocumentID = ir_DocumentID req, ig_Workspace = ir_Workspace req, ig_TotalChunks = 0, ig_TotalVectors = 0, ig_TotalNodes = 0,
               ig_Duration = 0, ig_Errors = []\<rparr> in
      case ParseBytes (kb_lib kb) (kb_lower kb) (ir_DocumentData req) (ir_FileName req) of
        Inl e \<Rightarrow> (Ret (add_error (''parse failed: '' @ error_text e) r, Some (Wrapped ''failed to parse document'' e)), w)
      | Inr content \<Rightarrow>
          (case SmartChunk (kb_chunker kb) content of
             None \<Rightarrow> (Deadlock, w)
           | Some (Panic m) \<Rightarrow> (Panic m, w)
           | Some Deadlock \<Rightarrow> (Deadlock, w)
           | Some (Ret chunks) \<Rightarrow> embed_and_store kb ctx req now dur chunks (r\<lparr>ig_TotalChunks := int (length chunks)\<rparr>) w))"

text \<open>The results of a batch: errors are only logged.\<close>

fun IngestBatch :: "'w knowledge_base \<Rightarrow> tenant_ctx \<Rightarrow> int \<Rightarrow> int \<Rightarrow> IngestDocumentRequest list \<Rightarrow> 'w \<Rightarrow> IngestResult list go \<times> 'w" where
  "IngestBatch kb ctx now dur [] w = (Ret [], w)"
| "IngestBatch kb ctx now dur (q # qs) w =
     bind_w (IngestDocument kb ctx now dur q w) (\<lambda>(r, err) w1. bind_w (IngestBatch kb ctx now dur qs w1) (\<lambda>rs w2. (Ret (r # rs), w2)))"

section \<open>Statistics\<close>

text \<open>Type assertions on values of type any.\<close>

fun as_any_list :: "any \<Rightarrow> any list option" where
  "as_any_list (AnyList xs) = Some xs" | "as_any_list (AnyMap m) = None" | "as_any_list (AnyNeo n) = None"

fun as_any_map :: "any \<Rightarrow> (string \<times> any) list option" where
  "as_any_map (AnyMap m) = Some m" | "as_any_map (AnyList xs) = None" | "as_any_map (AnyNeo (Value (VMap m))) = Some (map (\<lambda>(k, v). (k, AnyNeo (Value v))) m)"
| "as_any_map (AnyNeo n) = None"

definition int_of_any :: "any option \<Rightarrow> int option" where
  "int_of_any v = (case v of Some (AnyNeo (Value (VInt i))) \<Rightarrow> Some i | _ \<Rightarrow> None)"

definition string_of_any :: "any option \<Rightarrow> string option" where
  "string_of_any v = (case v of Some (AnyNeo (Value (VStr s))) \<Rightarrow> Some s | _ \<Rightarrow> None)"

definition stats_cypher :: string where
  "stats_cypher =
     [newline] @ [CHR 0x09, CHR 0x09] @ ''MATCH (d:Document)'' @ [newline] @ [CHR 0x09, CHR 0x09] @ ''WHERE d.workspace = $workspace'' @ [newline] @
     [CHR 0x09, CHR 0x09] @ ''RETURN count(d) as doc_count'' @ [newline] @ [CHR 0x09]"

definition doc_count :: "any \<Rightarrow> int" where
  "doc_count res =
     (case as_any_list res of
        None \<Rightarrow> 0
      | Some rs \<Rightarrow>
          (case rs of
             [] \<Rightarrow> 0
           | r # _ \<Rightarrow> (case as_any_map r of None \<Rightarrow> 0 | Some m \<Rightarrow> (case int_of_any (map_of m ''doc_count'') of None \<Rightarrow> 0 | Some c \<Rightarrow> c))))"

definition kb_GetWorkspaceStats :: "'w knowledge_base \<Rightarrow> string \<Rightarrow> 'w \<Rightarrow> (error + (string \<times> gval) list) go \<times> 'w" where
  "kb_GetWorkspaceStats kb workspace w =
     (case kb_graph kb of
        None \<Rightarrow> (Panic nil_deref, w)
      | Some g \<Rightarrow>
          bind_w (gr_Query g stats_cypher w) (\<lambda>res w1.
            (Ret (case res of
               Inl e \<Rightarrow> Inl e
             | Inr v \<Rightarrow> Inr [(''workspace'', VStr workspace), (''document_count'', VInt (doc_count v)), (''collection'', VStr (workspace @ ''_kb''))]), w1)))"

section \<open>Queries\<close>

record Source =
  so_DocumentID :: string
  so_Content :: string
  so_ChunkIndex :: int
  so_Score :: real

record GraphEntity =
  ge_ID :: string
  ge_Label :: string
  ge_Properties :: "(string \<times> gval) list"

record RAGQueryRequest =
  rq_Question :: string
  rq_Workspace :: string
  rq_TenantID :: string
  rq_Mode :: string
  rq_TopK :: int

record RAGQueryResult =
  rr_Answer :: string
  rr_Sources :: "Source list"
  rr_GraphContext :: "GraphEntity list"
  rr_VectorResults :: "SearchResult list"
  rr_Mode :: string
  rr_Latency :: int

text \<open>
  What a search needs beyond the store: the sorting functions, and the order of the range loop of a
  hybrid search.
\<close>

record search_env =
  se_sort :: "(nat \<times> real) list \<Rightarrow> (nat \<times> real) list"
  se_sort2 :: "(SearchResult \<times> real) list \<Rightarrow> (SearchResult \<times> real) list"
  se_order :: "SearchResult list \<Rightarrow> SearchResult list \<Rightarrow> string list"

definition source_of :: "SearchResult \<Rightarrow> Source" where
  "source_of r = \<lparr>so_DocumentID = sr_ID r, so_Content = sr_Content r, so_ChunkIndex = sr_ChunkIndex r, so_Score = sr_Score r\<rparr>"

definition queryVector :: "'w knowledge_base \<Rightarrow> string \<Rightarrow> string \<Rightarrow> int \<Rightarrow> 'w \<Rightarrow> (error + SearchResult list) go \<times> 'w" where
  "queryVector kb question col topK w =
     bind_w (EmbedVector (kb_embed kb) question w) (\<lambda>res w1.
       case res of
         Inl e \<Rightarrow> (Ret (Inl (Wrapped ''failed to embed query'' e)), w1)
       | Inr v \<Rightarrow> (vs_Search (kb_store kb) col v topK w1, w1))"

definition queryKeyword :: "search_env \<Rightarrow> 'w knowledge_base \<Rightarrow> string \<Rightarrow> string \<Rightarrow> int \<Rightarrow> 'w \<Rightarrow> (error + SearchResult list) go \<times> 'w" where
  "queryKeyword se kb question col topK w = (KeywordSearch (se_sort se) (kb_lower kb) (kb_store kb) col question topK w, w)"

definition entity_of :: "neo_record \<Rightarrow> GraphEntity option" where
  "entity_of rec =
     (case map_of rec ''node'' of
        Some (Node labels props) \<Rightarrow>
          (let i = (case map_of props ''id'' of Some (VStr s) \<Rightarrow> s | _ \<Rightarrow> '''') in
           if i = '''' then None
           else Some \<lparr>ge_ID = i, ge_Label = (case labels of [] \<Rightarrow> ''Entity'' | l # _ \<Rightarrow> l), ge_Properties = props\<rparr>)
      | _ \<Rightarrow> None)"

definition queryGraph :: "'w knowledge_base \<Rightarrow> string \<Rightarrow> 'w \<Rightarrow> (error + GraphEntity list) go \<times> 'w" where
  "queryGraph kb question w =
     (case kb_graph kb of
        None \<Rightarrow> (Panic nil_deref, w)
      | Some g \<Rightarrow> bind_w (FullTextSearch g question 20 w) (\<lambda>res w1.
          (Ret (case res of Inl e \<Rightarrow> Inl e | Inr recs \<Rightarrow> Inr (List.map_filter entity_of recs)), w1)))"

definition query_collection :: "tenant_ctx \<Rightarrow> RAGQueryRequest \<Rightarrow> string" where
  "query_collection ctx req = (if rq_TenantID req \<noteq> '''' then collection_of ctx (rq_Workspace req) else rq_Workspace req @ ''_kb'')"

definition with_results :: "string \<Rightarrow> RAGQueryResult \<Rightarrow> error + SearchResult list \<Rightarrow> error + RAGQueryResult" where
  "with_results failed r res =
     (case res of Inl e \<Rightarrow> Inl (Wrapped failed e) | Inr rs \<Rightarrow> Inr (r\<lparr>rr_VectorResults := rs, rr_Sources := map source_of rs\<rparr>))"

text \<open>The fate of the process is that of the caller in all modes but hybrid.\<close>

definition lift_go :: "('a \<Rightarrow> 'b) \<Rightarrow> 'a go \<times> 'w \<Rightarrow> 'b go go \<times> 'w" where
  "lift_go f r = (case r of (x, w) \<Rightarrow> (Ret (go_bind x (\<lambda>y. Ret (f y))), w))"

definition hybrid_query :: "search_env \<Rightarrow> 'w knowledge_base \<Rightarrow> string \<Rightarrow> RAGQueryRequest \<Rightarrow> RAGQueryResult \<Rightarrow> 'w \<Rightarrow> (error + RAGQueryResult) go go \<times> 'w" where
  "hybrid_query se kb col req r w =
     (case EmbedVector (kb_embed kb) (rq_Question req) w of
        (Ret (Inl e), w1) \<Rightarrow> (Ret (Ret (Inl (Wrapped ''failed to embed query'' e))), w1)
      | (Ret (Inr v), w1) \<Rightarrow>
          (go_bind (HybridSearch (se_sort se) (se_sort2 se) (se_order se) (kb_lower kb) (kb_store kb) col v (rq_Question req) (rq_TopK req) w1)
             (\<lambda>x. Ret (go_bind x (\<lambda>y. Ret (with_results ''hybrid query failed'' r y)))), w1)
      | (Panic m, w1) \<Rightarrow> (Ret (Panic m), w1)
      | (Deadlock, w1) \<Rightarrow> (Ret Deadlock, w1))"

definition Query :: "search_env \<Rightarrow> 'w knowledge_base \<Rightarrow> tenant_ctx \<Rightarrow> int \<Rightarrow> RAGQueryRequest \<Rightarrow> 'w \<Rightarrow> (error + RAGQueryResult) go go \<times> 'w" where
  "Query se kb ctx latency req0 w =
     (let req = (if rq_TopK req0 \<le> 0 then req0\<lparr>rq_TopK := 5\<rparr> else req0);
          r = \<lparr>rr_Answer = '''', rr_Sources = [], rr_GraphContext = [], rr_VectorResults = [], rr_Mode = rq_Mode req, rr_Latency = latency\<rparr>;
          col = query_collection ctx req in
      if rq_Mode req = ''vector''
      then lift_go (with_results ''vector query failed'' r) (queryVector kb (rq_Question req) col (rq_TopK req) w)
      else if rq_Mode req = ''keyword''
      then lift_go (with_results ''keyword query failed'' r) (queryKeyword se kb (rq_Question req) col (rq_TopK req) w)
      else if rq_Mode req = ''graph''
      then lift_go (\<lambda>res. case res of Inl e \<Rightarrow> Inl (Wrapped ''graph query failed'' e) | Inr es \<Rightarrow> Inr (r\<lparr>rr_GraphContext := es\<rparr>)) (queryGraph kb (rq_Question req) w)
      else if rq_Mode req = ''hybrid'' then hybrid_query se kb col req r w
      else (Ret (Ret (Inr r)), w))"

definition RetrieveRelevantChunks :: "'w knowledge_base \<Rightarrow> string \<Rightarrow> string \<Rightarrow> int \<Rightarrow> 'w \<Rightarrow> (error + string list) go \<times> 'w" where
  "RetrieveRelevantChunks kb question workspace topK w =
     bind_w (queryVector kb question (workspace @ ''_kb'') topK w) (\<lambda>res w1.
       (Ret (case res of Inl e \<Rightarrow> Inl e | Inr rs \<Rightarrow> Inr (map sr_Content rs)), w1))"

text \<open>\<open>show_props\<close> is the format verb \%v on a map.\<close>

definition BuildPrompt :: "((string \<times> gval) list \<Rightarrow> string) \<Rightarrow> string \<Rightarrow> string list \<Rightarrow> GraphEntity list \<Rightarrow> string" where
  "BuildPrompt show_props question chunks entities =
     ''Answer the following question based on the provided context:'' @ [newline, newline] @ ''Question: '' @ question @ [newline, newline] @
     (if chunks = [] then ''''
      else ''Relevant document chunks:'' @ [newline] @ concat (map (\<lambda>(i, c). show_nat (i + 1) @ ''. '' @ c @ [newline]) (enumerate 0 chunks)) @ [newline]) @
     (if entities = [] then ''''
      else ''Knowledge graph context:'' @ [newline] @
           concat (map (\<lambda>e. ''- Entity '' @ ge_ID e @ '': '' @ show_props (ge_Properties e) @ [newline]) entities) @ [newline]) @
     ''Provide a clear, accurate answer based on the context above. If the context doesn'' @ [CHR 0x27] @ ''t contain enough information, say so explicitly.''"

definition workspaces_cypher :: string where
  "workspaces_cypher =
     [newline] @ [CHR 0x09, CHR 0x09] @ ''MATCH (d:Document)'' @ [newline] @ [CHR 0x09, CHR 0x09] @ ''WITH d.workspace as workspace'' @ [newline] @
     [CHR 0x09, CHR 0x09] @ ''RETURN DISTINCT workspace'' @ [newline] @ [CHR 0x09, CHR 0x09] @ ''ORDER BY workspace'' @ [newline] @ [CHR 0x09]"

definition workspace_names :: "any \<Rightarrow> string list" where
  "workspace_names res =
     (case as_any_list res of
        None \<Rightarrow> []
      | Some rs \<Rightarrow> List.map_filter (\<lambda>r. case as_any_map r of None \<Rightarrow> None | Some m \<Rightarrow> string_of_any (map_of m ''workspace'')) rs)"

definition GetWorkspaceCollections :: "'w knowledge_base \<Rightarrow> 'w \<Rightarrow> (error + string list) go \<times> 'w" where
  "GetWorkspaceCollections kb w =
     (case kb_graph kb of
        None \<Rightarrow> (Panic nil_deref, w)
      | Some g \<Rightarrow> bind_w (gr_Query g workspaces_cypher w) (\<lambda>res w1. (Ret (case res of Inl e \<Rightarrow> Inl e | Inr v \<Rightarrow> Inr (workspace_names v)), w1)))"

section \<open>What an ingestion stores\<close>

lemma bind_w_Ret: "bind_w r f = (Ret y, w') \<longleftrightarrow> (\<exists>x w1. r = (Ret x, w1) \<and> f x w1 = (Ret y, w'))"
  by (cases r; cases "fst r") auto

lemma call_w_Ret: "call_w r w = (Ret x, w') \<longleftrightarrow> r = Ret (x, w')"
  by (cases r) auto

text \<open>Different numbers have different digits.\<close>

definition read_nat :: "string \<Rightarrow> nat" where
  "read_nat s = foldl (\<lambda>a c. 10 * a + (of_char c - 48)) 0 s"

lemma read_show_nat: "read_nat (show_nat n) = n"
proof (induction n rule: show_nat.induct)
  case (1 n)
  have snoc: "read_nat (s @ [char_of (48 + d)]) = 10 * read_nat s + d" if "d < 10" for s and d :: nat
    using that by (simp add: read_nat_def)
  show ?case
  proof (cases "n < 10")
    case True
    then show ?thesis using snoc[of n "[]"] by (subst show_nat.simps) (simp add: read_nat_def)
  next
    case False
    with 1 show ?thesis using snoc[of "n mod 10" "show_nat (n div 10)"] by (subst show_nat.simps) simp
  qed
qed

lemma show_nat_inj [simp]: "show_nat i = show_nat j \<longleftrightarrow> i = j"
  by (metis read_show_nat)

lemma chunk_id_inj: "chunk_id d i = chunk_id d j \<longleftrightarrow> i = j"
  by (simp add: chunk_id_def)

lemma doc_chunks_simps:
  "length (doc_chunks d cs vs) = length vs" "distinct (map dc_ID (doc_chunks d cs vs))"
  "length vs = length cs \<Longrightarrow> map dc_Content (doc_chunks d cs vs) = map tc_Content cs" "map dc_Vector (doc_chunks d cs vs) = vs"
  by (auto simp: doc_chunks_def distinct_map inj_on_def chunk_id_inj o_def intro: nth_equalityI map_nth)

text \<open>The counts of an ingestion are not touched by the graph.\<close>

definition same_counts :: "IngestResult \<Rightarrow> IngestResult \<Rightarrow> bool" where
  "same_counts r r' \<longleftrightarrow> ig_TotalChunks r' = ig_TotalChunks r \<and> ig_TotalVectors r' = ig_TotalVectors r \<and>
     ig_DocumentID r' = ig_DocumentID r \<and> ig_Workspace r' = ig_Workspace r"

lemma chunk_nodes_counts: "chunk_nodes g ctx d now i cs r w = (Ret r', w') \<Longrightarrow> same_counts r r'"
proof (induction cs arbitrary: i r w)
  case (Cons c cs)
  from Cons.prems obtain err w1 where "CreateNode g (label_of ctx ''DocumentChunk'')
        [(''id'', VStr (chunk_id d i)), (''content'', VStr (tc_Content c)), (''chunk_index'', VInt (int i)), (''created_at'', VInt now)] w = (Ret err, w1)"
    by (auto simp: bind_w_Ret)
  with Cons show ?case
    by (cases err) (fastforce simp: bind_w_Ret same_counts_def add_error_def Let_def split: option.splits)+
qed (simp add: same_counts_def)

lemma graph_nodes_counts: "graph_nodes og ctx req now cs r w = (Ret r', w') \<Longrightarrow> same_counts r r'"
  by (auto simp: graph_nodes_def bind_w_Ret same_counts_def add_error_def dest!: chunk_nodes_counts split: option.splits)

lemma store_chunks_ok:
  assumes "store_chunks kb ctx req now dur chunks docs r w = (Ret (r', None), w')"
  obtains w1 w2 where "vs_Insert (kb_store kb) (collection_of ctx (ir_Workspace req)) docs w1 = Ret (None, w2)" "same_counts r r'"
proof -
  from assms obtain w1 where "insert_chunks kb ctx req now dur chunks docs r w1 = (Ret (r', None), w')"
    by (auto simp: store_chunks_def bind_w_Ret split: option.splits if_splits)
  then obtain w2 w3 r1 w4 where "vs_Insert (kb_store kb) (collection_of ctx (ir_Workspace req)) docs w1 = Ret (None, w2)"
    "graph_nodes (kb_graph kb) ctx req now chunks r w3 = (Ret r1, w4)" "r' = r1\<lparr>ig_Duration := dur\<rparr>"
    by (auto simp: insert_chunks_def Let_def bind_w_Ret call_w_Ret split: option.splits)
  with that graph_nodes_counts show thesis by (fastforce simp: same_counts_def)
qed


section \<open>What is wrong with workspaces and graphs\<close>

lemma collection_of_tenant: "FromContext ctx = Some tc \<Longrightarrow> tc_TenantID tc \<noteq> '''' \<Longrightarrow> collection_of ctx ws = ''tenant_'' @ tc_TenantID tc @ ''_kb''"
  by (simp add: collection_of_def TenantCollection_def)

lemma hybrid_query_cong:
  "rq_Question q = rq_Question q' \<Longrightarrow> rq_TopK q = rq_TopK q' \<Longrightarrow> hybrid_query se kb col q r w = hybrid_query se kb col q' r w"
  unfolding hybrid_query_def by metis

text \<open>All workspaces of a tenant are one: a query of a tenant gives the same results for every workspace it
  names, out of the one collection into which the documents of all workspaces go.
\<close>

theorem workspaces_share_collection:
  assumes "FromContext ctx = Some tc" "tc_TenantID tc \<noteq> ''''" "rq_TenantID req \<noteq> ''''"
  shows "Query se kb ctx latency (req\<lparr>rq_Workspace := ws\<rparr>) w = Query se kb ctx latency req w \<and>
    query_collection ctx req = collection_of ctx ws \<and> collection_of ctx ws = ''tenant_'' @ tc_TenantID tc @ ''_kb''"
proof -
  have col: "query_collection ctx q = ''tenant_'' @ tc_TenantID tc @ ''_kb''" if "rq_TenantID q = rq_TenantID req" for q
    using assms that by (simp add: query_collection_def collection_of_tenant)
  have hyb: "hybrid_query se kb c (req\<lparr>rq_Workspace := ws\<rparr>) r w = hybrid_query se kb c req r w"
    "hybrid_query se kb c (req\<lparr>rq_Workspace := ws, rq_TopK := 5\<rparr>) r w = hybrid_query se kb c (req\<lparr>rq_TopK := 5\<rparr>) r w" for c r
    by (rule hybrid_query_cong; simp)+
  have "Query se kb ctx latency (req\<lparr>rq_Workspace := ws\<rparr>) w = Query se kb ctx latency req w"
    by (cases "rq_TopK req \<le> 0") (simp_all add: Query_def Let_def col hyb)
  with assms col[of req] show ?thesis by (simp add: collection_of_tenant)
qed

section \<open>Concrete runs\<close>

definition demo_milvus :: "nat milvus" where
  "demo_milvus = \<lparr>mv_Has = \<lambda>n w. Inr True, mv_Create = \<lambda>s i w. (None, w), mv_Insert = \<lambda>n d ids cs ss is vs w. (None, w + length ids),
     mv_Load = \<lambda>n w. None, mv_FlatParam = None, mv_Search = \<lambda>n v k w. Inr [],
     mv_Query = \<lambda>n w. Inr \<lparr>cl_ids = None, cl_contents = None, cl_sources = None, cl_chunks = None\<rparr>,
     mv_Flush = \<lambda>n w. (None, w), mv_Drop = \<lambda>n w. (None, w), mv_Close = \<lambda>w. (None, w)\<rparr>"

definition demo_doc_lib :: doc_lib where
  "demo_doc_lib = \<lparr>dl_pdf_file = \<lambda>p. PdfText '''', dl_pdf_bytes = \<lambda>d. PdfText '''', dl_docx_file = \<lambda>p. Inr [], dl_docx_bytes = \<lambda>d. Inr [],
     dl_ReadFile = \<lambda>p. Inr ''''\<rparr>"

definition demo_kb :: "nat GraphRAG option \<Rightarrow> nat knowledge_base" where
  "demo_kb g = \<lparr>kb_lib = demo_doc_lib, kb_lower = id, kb_chunker = NewChunker, kb_embed = demo_embedder,
     kb_store = (NewVectorStore ''milvus'' ''19530'')\<lparr>vs_client := Some demo_milvus\<rparr>, kb_graph = g\<rparr>"

definition demo_upload :: IngestDocumentRequest where
  "demo_upload = \<lparr>ir_TenantID = ''acme'', ir_Workspace = ''docs'', ir_DocumentData = ''go'', ir_FileName = ''text/plain'', ir_DocumentID = ''d1''\<rparr>"

definition demo_rag_ctx :: tenant_ctx where
  "demo_rag_ctx = Some (Some \<lparr>tc_TenantID = ''acme'', tc_UserID = ''u'', tc_Role = ''member''\<rparr>)"

lemma no_break: "set br \<inter> set t = {} \<Longrightarrow> br \<noteq> [] \<Longrightarrow> str_index t br = None"
proof (induction t)
  case (Cons c t)
  from Cons.prems have "take (length br) (c # t) \<noteq> br" by (cases br) auto
  with Cons show ?case by (subst str_index.simps) simp
qed (simp add: str_index.simps)

lemma no_break_loop: "set br \<inter> set t = {} \<Longrightarrow> br \<noteq> [] \<Longrightarrow> break_loop c t br 0 cs = (0, cs)"
  by (subst break_loop.simps) (simp add: no_break)

lemma demo_trim: "TrimSpace ''go'' = ''go''"
  by (rule TrimSpace_no_space) (simp_all add: ascii_def byte_def is_space_def)

lemma demo_chunks: "SmartChunk NewChunker ''go'' = Some (Ret [\<lparr>tc_Content = ''go'', tc_Index = 0, tc_SourceText = ''go''\<rparr>])"
proof -
  have "ChunkBySemanticBreaks NewChunker ''go'' = [\<lparr>tc_Content = ''go'', tc_Index = 0, tc_SourceText = ''go''\<rparr>]"
    by (simp add: ChunkBySemanticBreaks_def breaks_def no_break_loop newline_def demo_trim)
  then show ?thesis using SmartChunk_short[of "''go''" NewChunker] ChunkByParagraphs_one_line[of "''go''" NewChunker]
    by (simp add: newline_def demo_trim)
qed

text \<open>Lower-case ASCII text stays as it is.\<close>

lemma ToLower_id:
  assumes "ascii s" "list_all (\<lambda>c. \<not> (65 \<le> byte c \<and> byte c \<le> 90)) s"
  shows "ToLower uni s = s"
proof -
  have "encode_rune (unicode_lower uni (byte c)) = [c]" if "c \<in> set s" for c
    using assms that by (auto simp: ascii_def list_all_iff unicode_lower_def encode_rune_def byte_def)
  then show ?thesis using assms(1) by (simp add: ToLower_def runes_ascii o_def cong: map_cong)
qed

lemma parse_text_plain: "ParseBytes dl uni d ''text/plain'' = Inr d"
  using ToLower_id[of "''text/plain''" uni] by (simp add: ParseBytes_def ascii_def byte_def)

lemmas demo_kb_defs = demo_kb_def demo_upload_def demo_doc_lib_def demo_rag_ctx_def demo_milvus_def NewVectorStore_def


theorem workspaces_share_collection_witness:
  "query_collection demo_rag_ctx \<lparr>rq_Question = ''q'', rq_Workspace = ''other'', rq_TenantID = ''acme'', rq_Mode = ''vector'', rq_TopK = 3\<rparr> =
   collection_of demo_rag_ctx ''docs''"
  using workspaces_share_collection[of demo_rag_ctx "\<lparr>tc_TenantID = ''acme'', tc_UserID = ''u'', tc_Role = ''member''\<rparr>"
      "\<lparr>rq_Question = ''q'', rq_Workspace = ''other'', rq_TenantID = ''acme'', rq_Mode = ''vector'', rq_TopK = 3\<rparr>"
      "\<lparr>se_sort = id, se_sort2 = id, se_order = \<lambda>a b. []\<rparr>" "demo_kb None" 1 "''docs''" 0]
  by (simp add: demo_rag_ctx_def FromContext_def)

text \<open>With a tenant id that has a hyphen, as every generated one, no node is ever created.\<close>

lemma hyphen_tenant_has_no_graph:
  assumes "FromContext ctx = Some tc" "CHR ''-'' \<in> set (tc_TenantID tc)"
  shows "graph_nodes (Some g) ctx req now cs r w =
    (Ret (add_error (''graph document node failed: invalid Cypher identifier: '' @ quoted (''T_'' @ tc_TenantID tc @ ''_Document'')) r), w)"
proof -
  have l: "label_of ctx ''Document'' = ''T_'' @ tc_TenantID tc @ ''_Document''" using assms by (auto simp: label_of_def TenantLabel_def)
  define label where "label = ''T_'' @ tc_TenantID tc @ ''_Document''"
  have "\<not> validCypherIdentifier label" using assms(2) unfolding label_def by (intro hyphen_invalid) simp
  then show ?thesis unfolding graph_nodes_def CreateNode_def validateCypherIdentifier_def l label_def[symmetric] by simp
qed

text \<open>The graph answers with lists of values, where the statistics look for maps: no document is ever counted, no workspace ever listed.\<close>

lemma answer_cases: "(case res of Inl e \<Rightarrow> Inl e | Inr v \<Rightarrow> Inr (f v)) = Inr y \<Longrightarrow> (\<And>v. res = Inr v \<Longrightarrow> y = f v \<Longrightarrow> P) \<Longrightarrow> P"
  by (cases res) auto

lemma collected_rows:
  assumes "collected f (\<lambda>rec. AnyList (map (AnyNeo \<circ> snd) rec)) r = (Ret (Inr rs), w1)"
  shows "\<exists>rows. rs = map AnyList rows"
proof -
  from assms obtain recs :: "neo_record list" where "rs = map (\<lambda>rec. AnyList (map (AnyNeo \<circ> snd) rec)) recs"
    by (auto simp: collected_def split: prod.splits sum.splits option.splits)
  then show ?thesis by (intro exI[of _ "map (map (AnyNeo \<circ> snd)) recs"]) simp
qed

lemma gr_Query_rows: "gr_Query g cypher w = (Ret (Inr v), w') \<Longrightarrow> \<exists>rows. v = AnyList (map AnyList rows)"
  by (auto simp: gr_Query_def bind_w_Ret with_session_def elim!: answer_cases dest!: collected_rows split: option.splits)

lemma rows_are_no_maps: "doc_count (AnyList (map AnyList rows)) = 0" "workspace_names (AnyList (map AnyList rows)) = []"
  by (cases rows; simp add: doc_count_def) (induction rows; simp add: workspace_names_def List.map_filter_def)

lemma stats_count_nothing: "kb_GetWorkspaceStats kb ws w = (Ret (Inr m), w') \<Longrightarrow> map_of m ''document_count'' = Some (VInt 0)"
  by (auto simp: kb_GetWorkspaceStats_def bind_w_Ret rows_are_no_maps elim!: answer_cases dest!: gr_Query_rows split: option.splits)

lemma no_workspace_is_listed: "GetWorkspaceCollections kb w = (Ret (Inr ns), w') \<Longrightarrow> ns = []"
  by (auto simp: GetWorkspaceCollections_def bind_w_Ret rows_are_no_maps elim!: answer_cases dest!: gr_Query_rows split: option.splits)

text \<open>A text file with an ASCII line of more than a thousand bytes and no line break is never ingested.\<close>

lemma long_line_hangs:
  assumes "kb_chunker kb = NewChunker" "ir_FileName req = ''text/plain''"
    and "ascii (ir_DocumentData req)" "newline \<notin> set (ir_DocumentData req)" "1000 < length (ir_DocumentData req)" "TrimSpace (ir_DocumentData req) \<noteq> ''''"
  shows "IngestDocument kb ctx now dur req w = (Deadlock, w)"
proof -
  have "SmartChunk NewChunker (ir_DocumentData req) = None"
    using assms ChunkText_diverges[of "ir_DocumentData req"] ChunkByParagraphs_one_line[of "ir_DocumentData req" NewChunker]
    by (simp add: SmartChunk_def Let_def)
  with assms show ?thesis by (simp add: IngestDocument_def parse_text_plain)
qed

end
