(* ===== verification/Tenant_Tables.thy ===== *)
theory Tenant_Tables
  imports Public_DB Tenant_DB
begin

text \<open>
  The tables of a tenant (pkg/tenantdb/tenant_schema.sql), as far as agents, conversations and
  executions use them, and transactions in the schema of one tenant, as the stores of internal/agent
  open them: Begin, SET LOCAL search_path, the body, and Commit or Rollback. The database holds one
  set of tables per schema; a schema that was not provisioned has none. Faults are those of
  \<open>Public_DB\<close>; NOW() is the time at which the transaction began.

  Proved, in the locale \<open>table_frame\<close>: what every statement of an operation does to the tables, the
  operation does to one schema and to no other; a transaction that reports an error has changed
  nothing. The locale is instantiated with the relations that the components promise.
\<close>

section \<open>Tables\<close>

record agent_row =
  ag_ID :: string
  ag_Name :: string
  ag_Type :: string
  ag_Description :: string
  ag_Persona :: string
  ag_SystemPrompt :: string
  ag_LLMModel :: string
  ag_MaxIterations :: int
  ag_created :: int

record skill_row =
  sk_ID :: string
  sk_Name :: string
  sk_Description :: string
  sk_Type :: string
  sk_Config :: string

text \<open>The configuration of a workspace is a JSON column that holds the struct of api/handler/rag_handler.go.\<close>

record WorkspaceConfig =
  wc_EmbeddingModel :: string
  wc_ChunkSize :: int
  wc_ChunkOverlap :: int
  wc_QueryMode :: string
  wc_TopK :: int

record ws_row =
  ws_ID :: string
  ws_Name :: string
  ws_Description :: "string option"
  ws_Config :: WorkspaceConfig
  ws_CreatedAt :: int
  ws_UpdatedAt :: int

record conv_row =
  cv_ID :: string
  cv_AgentID :: string
  cv_UserID :: string
  cv_Name :: string
  cv_CreatedAt :: int
  cv_UpdatedAt :: int
  cv_ExpiresAt :: int

record msg_row =
  ms_ID :: string
  ms_ConversationID :: string
  ms_Role :: string
  ms_Content :: string
  ms_StepsJSON :: string
  ms_IsError :: bool
  ms_CreatedAt :: int

record exec_row =
  ex_ID :: string
  ex_AgentID :: string
  ex_AgentName :: string
  ex_UserID :: string
  ex_Status :: string
  ex_InputPreview :: string
  ex_OutputPreview :: string
  ex_ErrorMessage :: string
  ex_TotalTokens :: int
  ex_DurationMs :: int
  ex_CreatedAt :: int

record ten_db =
  d_agents :: "agent_row list"
  d_skills :: "skill_row list"
  d_servers :: "string list"
  d_workspaces :: "ws_row list"
  d_skill_links :: "(string \<times> string) list"
  d_mcp_links :: "(string \<times> string) list"
  d_ws_links :: "(string \<times> string) list"
  d_convs :: "conv_row list"
  d_msgs :: "msg_row list"
  d_execs :: "exec_row list"

definition empty_tenant :: ten_db where
  "empty_tenant = \<lparr>d_agents = [], d_skills = [], d_servers = [], d_workspaces = [], d_skill_links = [], d_mcp_links = [], d_ws_links = [],
     d_convs = [], d_msgs = [], d_execs = []\<rparr>"

record tworld =
  tw_schemas :: "string \<rightharpoonup> ten_db"
  tw_calls :: nat

definition ttick :: "tworld \<Rightarrow> tworld" where
  "ttick w = w\<lparr>tw_calls := Suc (tw_calls w)\<rparr>"

definition no_relation :: error where "no_relation = ErrorString ''relation does not exist''"

text \<open>
  What the driver and the server do with values: the canonical form of a UUID given as text, when it
  is one, and the normal form of a JSON text, when it is one.
\<close>

record pg_types =
  pg_uuid :: "string \<Rightarrow> string option"
  pg_json :: "string \<Rightarrow> string option"

definition invalid_uuid :: error where "invalid_uuid = ErrorString ''invalid input syntax for type uuid''"
definition invalid_json :: error where "invalid_json = ErrorString ''invalid input syntax for type json''"
definition check_violation :: error where "check_violation = ErrorString ''violates check constraint''"

definition with_uuid :: "pg_types \<Rightarrow> string \<Rightarrow> (string \<Rightarrow> ten_db \<Rightarrow> (error + 'a) \<times> ten_db) \<Rightarrow> ten_db \<Rightarrow> (error + 'a) \<times> ten_db" where
  "with_uuid pg s f d = (case pg_uuid pg s of None \<Rightarrow> (Inl invalid_uuid, d) | Some u \<Rightarrow> f u d)"

definition thirty_days :: int where "thirty_days = 30 * 24 * 3600 * 10 ^ 9"

text \<open>A statement sees the time, a fresh id, and the tables of its schema.\<close>

type_synonym 'a tstmt = "int \<Rightarrow> string \<Rightarrow> ten_db \<Rightarrow> (error + 'a) \<times> ten_db"

definition t_stmt :: "env \<Rightarrow> int \<Rightarrow> string \<Rightarrow> 'a tstmt \<Rightarrow> tworld \<Rightarrow> (error + 'a) \<times> tworld" where
  "t_stmt ev t0 s st w =
     (case tw_schemas w s of
        None \<Rightarrow> (Inl (case ev_fault ev (tw_calls w) of Works \<Rightarrow> no_relation | Lost e \<Rightarrow> e | Unacked e \<Rightarrow> e), ttick w)
      | Some d \<Rightarrow>
          (case st t0 (ev_uuid ev (tw_calls w)) d of (r, d') \<Rightarrow>
             (case ev_fault ev (tw_calls w) of
                Works \<Rightarrow> (r, ttick (w\<lparr>tw_schemas := (tw_schemas w)(s \<mapsto> d')\<rparr>))
              | Lost e \<Rightarrow> (Inl e, ttick w)
              | Unacked e \<Rightarrow> (Inl e, ttick (w\<lparr>tw_schemas := (tw_schemas w)(s \<mapsto> d')\<rparr>)))))"

text \<open>
  A transaction. The body gets its time and yields its error and what its closure has collected;
  the result has the error of the whole and that value, when the body ran.
\<close>

type_synonym 'a tx_body = "int \<Rightarrow> tworld \<Rightarrow> error option \<times> 'a \<times> tworld"

definition fault_error :: "fault \<Rightarrow> error option" where
  "fault_error f = (case f of Works \<Rightarrow> None | Lost e \<Rightarrow> Some e | Unacked e \<Rightarrow> Some e)"

text \<open>The end of a transaction: Commit after a body without error, and the deferred Rollback otherwise.\<close>

definition t_close :: "env \<Rightarrow> (string \<rightharpoonup> ten_db) \<Rightarrow> error option \<times> 'a \<times> tworld \<Rightarrow> error option \<times> 'a option \<times> tworld" where
  "t_close ev before r =
     (let (err, x, w2) = r in
      case err of
        Some e \<Rightarrow> (Some e, Some x, w2\<lparr>tw_schemas := before\<rparr>)
      | None \<Rightarrow>
          (case ev_fault ev (tw_calls w2) of
             Works \<Rightarrow> (None, Some x, ttick w2)
           | Lost e \<Rightarrow> (Some e, Some x, ttick (w2\<lparr>tw_schemas := before\<rparr>))
           | Unacked e \<Rightarrow> (Some e, Some x, ttick w2)))"

definition t_exec :: "env \<Rightarrow> string \<Rightarrow> 'a tx_body \<Rightarrow> tworld \<Rightarrow> error option \<times> 'a option \<times> tworld" where
  "t_exec ev store fn w =
     (case fault_error (ev_fault ev (tw_calls w)) of
        Some e \<Rightarrow> (Some (Wrapped (store @ '': begin tx'') e), None, ttick w)
      | None \<Rightarrow>
          (case fault_error (ev_fault ev (Suc (tw_calls w))) of
             Some e \<Rightarrow> (Some (Wrapped (store @ '': set search_path'') e), None, ttick (ttick w))
           | None \<Rightarrow> t_close ev (tw_schemas w) (fn (ev_clock ev (tw_calls w)) (ttick (ttick w)))))"

text \<open>A body that is one statement whose result the closure keeps, and what was kept when the transaction ended without error.\<close>

definition one_stmt :: "env \<Rightarrow> string \<Rightarrow> 'a tstmt \<Rightarrow> 'a option tx_body" where
  "one_stmt ev s st t0 w =
     (case t_stmt ev t0 s st w of (Inl e, w') \<Rightarrow> (Some e, None, w') | (Inr x, w') \<Rightarrow> (None, Some x, w'))"

definition kept :: "(error \<Rightarrow> error) \<Rightarrow> error option \<times> 'a option option \<times> tworld \<Rightarrow> (error + 'a) \<times> tworld" where
  "kept f r =
     (case r of
        (Some e, _, w') \<Rightarrow> (Inl (f e), w')
      | (None, Some (Some x), w') \<Rightarrow> (Inr x, w')
      | (None, _, w') \<Rightarrow> (Inl (f (ErrorString '''')), w'))"

section \<open>Integrity\<close>

text \<open>Primary keys, unique columns and references of the schema.\<close>

definition links_ok :: "(string \<times> string) list \<Rightarrow> string set \<Rightarrow> string set \<Rightarrow> bool" where
  "links_ok ls A B \<longleftrightarrow> distinct ls \<and> set ls \<subseteq> A \<times> B"

definition tables_ok :: "ten_db \<Rightarrow> bool" where
  "tables_ok d \<longleftrightarrow>
     distinct (map ag_ID (d_agents d)) \<and> distinct (map ag_Name (d_agents d)) \<and>
     distinct (map sk_ID (d_skills d)) \<and> distinct (map sk_Name (d_skills d)) \<and>
     distinct (map ws_ID (d_workspaces d)) \<and> distinct (map ws_Name (d_workspaces d)) \<and> distinct (d_servers d) \<and>
     links_ok (d_skill_links d) (ag_ID ` set (d_agents d)) (sk_ID ` set (d_skills d)) \<and>
     links_ok (d_mcp_links d) (ag_ID ` set (d_agents d)) (set (d_servers d)) \<and>
     links_ok (d_ws_links d) (ag_ID ` set (d_agents d)) (ws_ID ` set (d_workspaces d)) \<and>
     distinct (map cv_ID (d_convs d)) \<and> cv_AgentID ` set (d_convs d) \<subseteq> ag_ID ` set (d_agents d) \<and>
     distinct (map ms_ID (d_msgs d)) \<and> ms_ConversationID ` set (d_msgs d) \<subseteq> cv_ID ` set (d_convs d) \<and>
     distinct (map ex_ID (d_execs d))"

lemma tables_ok_empty [simp]: "tables_ok empty_tenant"
  by (simp add: tables_ok_def empty_tenant_def links_ok_def)

lemma tables_okD:
  assumes "tables_ok d"
  shows "c \<in> set (d_convs d) \<Longrightarrow> c' \<in> set (d_convs d) \<Longrightarrow> cv_ID c = cv_ID c' \<Longrightarrow> c = c'"
    and "c \<in> set (d_convs d) \<Longrightarrow> cv_AgentID c \<in> ag_ID ` set (d_agents d)"
    and "m \<in> set (d_msgs d) \<Longrightarrow> ms_ConversationID m \<in> cv_ID ` set (d_convs d)"
  using assms unfolding tables_ok_def by (metis distinct_map inj_on_def, blast, blast)

section \<open>Isolation\<close>

lemma ttick_simps [simp]: "tw_schemas (ttick w) = tw_schemas w" "tw_calls (ttick w) = Suc (tw_calls w)"
  by (simp_all add: ttick_def)

text \<open>
  The frame of an operation: from \<open>w\<close> to \<open>w'\<close> only the schema \<open>s\<close> has changed, and its tables are
  related by \<open>R\<close>.
\<close>

definition framed :: "(ten_db \<Rightarrow> ten_db \<Rightarrow> bool) \<Rightarrow> string \<Rightarrow> tworld \<Rightarrow> tworld \<Rightarrow> bool" where
  "framed R s w w' \<longleftrightarrow>
     (\<forall>s'. s' \<noteq> s \<longrightarrow> tw_schemas w' s' = tw_schemas w s') \<and> rel_option R (tw_schemas w s) (tw_schemas w' s)"

lemma framed_other: "framed R s w w' \<Longrightarrow> s' \<noteq> s \<Longrightarrow> tw_schemas w' s' = tw_schemas w s'"
  by (simp add: framed_def)

lemma framed_Some: "framed R s w w' \<Longrightarrow> tw_schemas w s = Some d \<Longrightarrow> \<exists>d'. tw_schemas w' s = Some d' \<and> R d d'"
  by (auto simp: framed_def option_rel_Some1)

lemma framed_mono: "framed R s w w' \<Longrightarrow> (\<And>d d'. R d d' \<Longrightarrow> Q d d') \<Longrightarrow> framed Q s w w'"
  unfolding framed_def by (metis option.rel_mono_strong)

lemma t_close_schemas:
  "tw_schemas (snd (snd (t_close ev before (err, x, w2)))) \<in> {before, tw_schemas w2}"
  by (cases err; cases "ev_fault ev (tw_calls w2)") (simp_all add: t_close_def)

text \<open>What every statement keeps, every transaction keeps.\<close>

locale table_frame =
  fixes R :: "ten_db \<Rightarrow> ten_db \<Rightarrow> bool"
  assumes R_refl: "R d d"
    and R_trans: "R d1 d2 \<Longrightarrow> R d2 d3 \<Longrightarrow> R d1 d3"
begin

lemma framed_cong: "tw_schemas w' = tw_schemas w \<Longrightarrow> framed R s w w'"
  by (simp add: framed_def option.rel_refl R_refl)

lemma framed_refl: "framed R s w w"
  by (rule framed_cong) simp

lemma framed_trans:
  assumes "framed R s w1 w2" "framed R s w2 w3"
  shows "framed R s w1 w3"
proof (cases "tw_schemas w1 s")
  case None
  then show ?thesis using assms by (simp add: framed_def)
next
  case (Some d1)
  from framed_Some[OF assms(1) this] obtain d2 where d2: "tw_schemas w2 s = Some d2" "R d1 d2" by blast
  from framed_Some[OF assms(2) d2(1)] obtain d3 where d3: "tw_schemas w3 s = Some d3" "R d2 d3" by blast
  from Some d2 d3 show ?thesis using assms R_trans by (simp add: framed_def)
qed

lemma framed_ttick: "framed R s w w' \<Longrightarrow> framed R s (ttick w) w'"
  by (simp add: framed_def)

lemma t_stmt_framed:
  assumes "\<And>t i d. R d (snd (st t i d))"
  shows "framed R s w (snd (t_stmt ev t0 s st w))"
proof (cases "tw_schemas w s")
  case None
  then show ?thesis by (simp add: t_stmt_def framed_def)
next
  case (Some d)
  obtain r d' where st: "st t0 (ev_uuid ev (tw_calls w)) d = (r, d')" by fastforce
  with assms[of d t0 "ev_uuid ev (tw_calls w)"] Some show ?thesis
    by (simp add: t_stmt_def framed_def R_refl split: fault.split)
qed

lemma t_exec_framed:
  assumes "\<And>t w. framed R s w (snd (snd (fn t w)))"
  shows "framed R s w (snd (snd (t_exec ev store fn w)))"
proof -
  obtain err x w2 where fn: "fn (ev_clock ev (tw_calls w)) (ttick (ttick w)) = (err, x, w2)" by (metis prod_cases3)
  have "framed R s w w2"
    using assms[where t = "ev_clock ev (tw_calls w)" and w = "ttick (ttick w)"] by (simp add: fn framed_def)
  then have "framed R s w (snd (snd (t_close ev (tw_schemas w) (err, x, w2))))"
    using t_close_schemas[of ev "tw_schemas w" err x w2] by (auto simp: framed_def option.rel_refl R_refl)
  then show ?thesis by (simp add: t_exec_def fn framed_cong split: option.split)
qed

lemma one_stmt_framed:
  assumes "\<And>t i d. R d (snd (st t i d))"
  shows "framed R s w (snd (snd (one_stmt ev s st t0 w)))"
  using t_stmt_framed[of st s w ev t0, OF assms]
  by (cases "t_stmt ev t0 s st w") (simp add: one_stmt_def split: sum.split)

end

text \<open>Nothing but the schema changes, and a query changes nothing at all.\<close>

interpretation any_change: table_frame "\<lambda>_ _. True"
  by unfold_locales simp_all

interpretation no_change: table_frame "(=)"
  by unfold_locales simp_all

lemma framed_eq: "framed (=) s w w' \<longleftrightarrow> tw_schemas w' = tw_schemas w"
  unfolding framed_def option.rel_eq fun_eq_iff by metis

text \<open>Without errors, a transaction is its body.\<close>

lemma t_exec_works:
  assumes "\<forall>n. ev_fault ev n = Works"
  shows "t_exec ev store fn w =
    (let (err, x, w2) = fn (ev_clock ev (tw_calls w)) (ttick (ttick w)) in
     if err = None then (None, Some x, ttick w2) else (err, Some x, w2\<lparr>tw_schemas := tw_schemas w\<rparr>))"
proof -
  obtain err x w2 where "fn (ev_clock ev (tw_calls w)) (ttick (ttick w)) = (err, x, w2)" by (metis prod_cases3)
  then show ?thesis using assms by (cases err) (simp_all add: t_exec_def fault_error_def t_close_def)
qed

lemma t_stmt_works:
  assumes "\<forall>n. ev_fault ev n = Works" "tw_schemas w s = Some d"
  shows "t_stmt ev t0 s st w = (fst (st t0 (ev_uuid ev (tw_calls w)) d), ttick (w\<lparr>tw_schemas := (tw_schemas w)(s \<mapsto> snd (st t0 (ev_uuid ev (tw_calls w)) d))\<rparr>))"
  using assms by (simp add: t_stmt_def split: prod.split)

lemma ttick_eq: "ttick w = \<lparr>tw_schemas = tw_schemas w, tw_calls = Suc (tw_calls w)\<rparr>"
  by (simp add: ttick_def)

text \<open>Without errors, a transaction of one statement, which is its third call.\<close>

lemma one_stmt_works:
  assumes "\<forall>n. ev_fault ev n = Works" "tw_schemas w s = Some d" "st (ev_clock ev (tw_calls w)) (ev_uuid ev (tw_calls w + 2)) d = (Inr x, d')"
  shows "t_exec ev store (one_stmt ev s st) w = (None, Some (Some x), \<lparr>tw_schemas = (tw_schemas w)(s \<mapsto> d'), tw_calls = tw_calls w + 4\<rparr>)"
  using assms by (simp add: t_exec_works one_stmt_def t_stmt_works ttick_eq numeral_eq_Suc)

text \<open>A statement that succeeds has been executed on the tables of its schema.\<close>

lemma t_stmt_Inr:
  assumes "t_stmt ev t0 s st w = (Inr x, w')"
  obtains d d' where "tw_schemas w s = Some d" "st t0 (ev_uuid ev (tw_calls w)) d = (Inr x, d')"
    "tw_schemas w' = (tw_schemas w)(s \<mapsto> d')" "tw_calls w' = Suc (tw_calls w)" "ev_fault ev (tw_calls w) = Works"
  using assms by (auto simp: t_stmt_def split: option.splits prod.splits fault.splits)

lemma t_exec_ok:
  assumes "t_exec ev store fn w = (None, x, w')"
  obtains y w2 where "fn (ev_clock ev (tw_calls w)) (ttick (ttick w)) = (None, y, w2)" "x = Some y"
    "tw_schemas w' = tw_schemas w2" "tw_calls w' = Suc (tw_calls w2)"
proof -
  obtain err y w2 where fn: "fn (ev_clock ev (tw_calls w)) (ttick (ttick w)) = (err, y, w2)" by (metis prod_cases3)
  have "t_close ev (tw_schemas w) (err, y, w2) = (None, x, w')" using assms by (auto simp: t_exec_def fn split: option.splits)
  then have "err = None \<and> x = Some y \<and> w' = ttick w2"
    by (cases err; cases "ev_fault ev (tw_calls w2)") (auto simp: t_close_def)
  then show thesis using fn that by auto
qed

text \<open>A transaction that reports an error has changed nothing, when no commit goes unacknowledged.\<close>

lemma t_exec_error:
  assumes "t_exec ev store fn w = (Some e, x, w')" "\<And>n e'. ev_fault ev n \<noteq> Unacked e'"
  shows "tw_schemas w' = tw_schemas w"
proof -
  obtain err y w2 where fn: "fn (ev_clock ev (tw_calls w)) (ttick (ttick w)) = (err, y, w2)" by (metis prod_cases3)
  have "t_close ev (tw_schemas w) (err, y, w2) = (Some e, x, w') \<Longrightarrow> tw_schemas w' = tw_schemas w"
    using assms(2) by (cases err; cases "ev_fault ev (tw_calls w2)") (auto simp: t_close_def)
  then show ?thesis using assms(1) by (auto simp: t_exec_def fn split: option.splits)
qed

end
