(* ===== verification/Chat.thy ===== *)
theory Chat
  imports Tenant_Tables Tenant_Handler
begin

text \<open>
  Conversations: the store of internal/agent/chat_store.go and the handlers of
  api/handler/chat_handler.go. The store opens a transaction in the schema of the tenant for every
  operation; a conversation belongs to the user who created it, and expires thirty days after its
  last message. A bound body is the decoded request or the error of the decoder; the checks of the
  struct tags are part of the model.

  Proved: every request works in the schema of its own tenant; a user lists, renames and deletes
  only conversations of his own; a message that was added is listed last; the clean-up removes the
  expired conversations with their messages and nothing else. The check that guards the adding of
  a message does not look at the owner: any user of the tenant may write into any conversation.
\<close>

section \<open>The store\<close>

type_synonym ChatConversation = conv_row

record ChatMessage =
  cm_ID :: string
  cm_ConversationID :: string
  cm_Role :: string
  cm_Content :: string
  cm_StepsJSON :: "string option"
  cm_IsError :: bool
  cm_CreatedAt :: int

text \<open>Letters and digits: exact for ASCII; \<open>uni\<close> is the Unicode table beyond it.\<close>

definition letter_or_digit :: "(rune \<Rightarrow> bool) \<Rightarrow> rune \<Rightarrow> bool" where
  "letter_or_digit uni r \<longleftrightarrow>
     (if r < 128 then 48 \<le> r \<and> r \<le> 57 \<or> 65 \<le> r \<and> r \<le> 90 \<or> 97 \<le> r \<and> r \<le> 122 else uni r)"

definition chat_id_char :: "(rune \<Rightarrow> bool) \<Rightarrow> rune \<Rightarrow> bool" where
  "chat_id_char uni r \<longleftrightarrow> letter_or_digit uni r \<or> r = 45 \<or> r = 95"

definition chat_schema :: "string \<Rightarrow> string" where
  "chat_schema tid = ''tenant_'' @ tid"

definition execTenantID :: "env \<Rightarrow> (rune \<Rightarrow> bool) \<Rightarrow> string \<Rightarrow> 'a tx_body \<Rightarrow> tworld \<Rightarrow> error option \<times> 'a option \<times> tworld" where
  "execTenantID ev uni tid fn w =
     (if tid = '''' then (Some (ErrorString ''chat_store: empty tenant_id''), None, w)
      else if \<not> list_all (\<lambda>r. chat_id_char uni (fst r)) (runes tid)
      then (Some (ErrorString (''chat_store: invalid tenant_id '' @ quoted tid)), None, w)
      else t_exec ev ''chat_store'' fn w)"

text \<open>An update that has to affect a row.\<close>

definition AgentErrNotFound :: error where "AgentErrNotFound = ErrorString ''agent not found''"

definition affecting :: "env \<Rightarrow> string \<Rightarrow> nat tstmt \<Rightarrow> unit tx_body" where
  "affecting ev s st t0 w =
     (case t_stmt ev t0 s st w of
        (Inl e, w') \<Rightarrow> (Some e, (), w')
      | (Inr n, w') \<Rightarrow> (if n = 0 then Some AgentErrNotFound else None, (), w'))"

definition wrap_error :: "string \<Rightarrow> error option \<Rightarrow> error option" where
  "wrap_error p e = map_option (Wrapped p) e"

definition ins_conv :: "string \<Rightarrow> string \<Rightarrow> string \<Rightarrow> conv_row tstmt" where
  "ins_conv agentID userID name t i d =
     (if \<not> list_ex (\<lambda>a. ag_ID a = agentID) (d_agents d) then (Inl fk_violation, d)
      else if list_ex (\<lambda>c. cv_ID c = i) (d_convs d) then (Inl unique_violation, d)
      else let conv = \<lparr>cv_ID = i, cv_AgentID = agentID, cv_UserID = userID, cv_Name = name,
                       cv_CreatedAt = t, cv_UpdatedAt = t, cv_ExpiresAt = t + thirty_days\<rparr>
           in (Inr conv, d\<lparr>d_convs := d_convs d @ [conv]\<rparr>))"

definition CreateConversation :: "env \<Rightarrow> (rune \<Rightarrow> bool) \<Rightarrow> string \<Rightarrow> string \<Rightarrow> string \<Rightarrow> string \<Rightarrow> tworld \<Rightarrow> (error + conv_row) \<times> tworld" where
  "CreateConversation ev uni tid agentID userID name w =
     kept (Wrapped ''chat_store: create conversation'') (execTenantID ev uni tid (one_stmt ev (chat_schema tid) (ins_conv agentID userID name)) w)"

definition live_conv :: "string \<Rightarrow> string \<Rightarrow> int \<Rightarrow> conv_row \<Rightarrow> bool" where
  "live_conv agentID userID t c \<longleftrightarrow> cv_AgentID c = agentID \<and> cv_UserID c = userID \<and> t < cv_ExpiresAt c"

definition sel_convs :: "string \<Rightarrow> string \<Rightarrow> conv_row list tstmt" where
  "sel_convs agentID userID t i d =
     (Inr (sort_key (\<lambda>c. - cv_UpdatedAt c) (filter (live_conv agentID userID t) (d_convs d))), d)"

definition ListConversations :: "env \<Rightarrow> (rune \<Rightarrow> bool) \<Rightarrow> string \<Rightarrow> string \<Rightarrow> string \<Rightarrow> tworld \<Rightarrow> (error + conv_row list) \<times> tworld" where
  "ListConversations ev uni tid agentID userID w =
     kept (Wrapped ''chat_store: list conversations'') (execTenantID ev uni tid (one_stmt ev (chat_schema tid) (sel_convs agentID userID)) w)"

definition own_conv :: "string \<Rightarrow> string \<Rightarrow> conv_row \<Rightarrow> bool" where
  "own_conv u userID c \<longleftrightarrow> cv_ID c = u \<and> cv_UserID c = userID"

definition upd_conv_name :: "pg_types \<Rightarrow> string \<Rightarrow> string \<Rightarrow> string \<Rightarrow> nat tstmt" where
  "upd_conv_name pg convID userID name t i =
     with_uuid pg convID (\<lambda>u d.
       (Inr (length (filter (own_conv u userID) (d_convs d))),
        d\<lparr>d_convs := map_where (own_conv u userID) (\<lambda>c. c\<lparr>cv_Name := name, cv_UpdatedAt := t\<rparr>) (d_convs d)\<rparr>))"

definition RenameConversation :: "env \<Rightarrow> pg_types \<Rightarrow> (rune \<Rightarrow> bool) \<Rightarrow> string \<Rightarrow> string \<Rightarrow> string \<Rightarrow> string \<Rightarrow> tworld \<Rightarrow> error option \<times> tworld" where
  "RenameConversation ev pg uni tid convID userID name w =
     (case execTenantID ev uni tid (affecting ev (chat_schema tid) (upd_conv_name pg convID userID name)) w of
        (err, _, w') \<Rightarrow> (wrap_error ''chat_store: rename conversation'' err, w'))"

text \<open>Deleting conversations deletes their messages.\<close>

definition drop_convs :: "(conv_row \<Rightarrow> bool) \<Rightarrow> ten_db \<Rightarrow> ten_db" where
  "drop_convs P d =
     d\<lparr>d_convs := filter (\<lambda>c. \<not> P c) (d_convs d),
       d_msgs := filter (\<lambda>m. \<not> list_ex (\<lambda>c. P c \<and> cv_ID c = ms_ConversationID m) (d_convs d)) (d_msgs d)\<rparr>"

definition del_conv :: "pg_types \<Rightarrow> string \<Rightarrow> string \<Rightarrow> nat tstmt" where
  "del_conv pg convID userID t i =
     with_uuid pg convID (\<lambda>u d. (Inr (length (filter (own_conv u userID) (d_convs d))), drop_convs (own_conv u userID) d))"

definition DeleteConversation :: "env \<Rightarrow> pg_types \<Rightarrow> (rune \<Rightarrow> bool) \<Rightarrow> string \<Rightarrow> string \<Rightarrow> string \<Rightarrow> tworld \<Rightarrow> error option \<times> tworld" where
  "DeleteConversation ev pg uni tid convID userID w =
     (case execTenantID ev uni tid (affecting ev (chat_schema tid) (del_conv pg convID userID)) w of
        (err, _, w') \<Rightarrow> (wrap_error ''chat_store: delete conversation'' err, w'))"

definition bump_conv :: "pg_types \<Rightarrow> string \<Rightarrow> nat tstmt" where
  "bump_conv pg convID t i =
     with_uuid pg convID (\<lambda>u d.
       (Inr (length (filter (\<lambda>c. cv_ID c = u) (d_convs d))),
        d\<lparr>d_convs := map_where (\<lambda>c. cv_ID c = u) (\<lambda>c. c\<lparr>cv_UpdatedAt := t, cv_ExpiresAt := t + thirty_days\<rparr>) (d_convs d)\<rparr>))"

definition ins_msg :: "pg_types \<Rightarrow> ChatMessage \<Rightarrow> string \<Rightarrow> (string \<times> int) tstmt" where
  "ins_msg pg msg steps t i =
     with_uuid pg (cm_ConversationID msg) (\<lambda>u d.
       case pg_json pg steps of
         None \<Rightarrow> (Inl invalid_json, d)
       | Some sj \<Rightarrow>
           (if cm_Role msg \<noteq> ''user'' \<and> cm_Role msg \<noteq> ''agent'' then (Inl check_violation, d)
            else if list_ex (\<lambda>m. ms_ID m = i) (d_msgs d) then (Inl unique_violation, d)
            else if \<not> list_ex (\<lambda>c. cv_ID c = u) (d_convs d) then (Inl fk_violation, d)
            else (Inr (i, t), d\<lparr>d_msgs := d_msgs d @ [\<lparr>ms_ID = i, ms_ConversationID = u, ms_Role = cm_Role msg,
                    ms_Content = cm_Content msg, ms_StepsJSON = sj, ms_IsError = cm_IsError msg, ms_CreatedAt = t\<rparr>]\<rparr>)))"

definition add_body :: "env \<Rightarrow> pg_types \<Rightarrow> string \<Rightarrow> ChatMessage \<Rightarrow> string \<Rightarrow> (string \<times> int) option tx_body" where
  "add_body ev pg s msg steps t0 w =
     (case t_stmt ev t0 s (bump_conv pg (cm_ConversationID msg)) w of
        (Inl e, w1) \<Rightarrow> (Some e, None, w1)
      | (Inr _, w1) \<Rightarrow> one_stmt ev s (ins_msg pg msg steps) t0 w1)"

text \<open>The message is changed in place: the id and the time are scanned into it before the commit.\<close>

definition AddMessage :: "env \<Rightarrow> pg_types \<Rightarrow> (rune \<Rightarrow> bool) \<Rightarrow> string \<Rightarrow> ChatMessage \<Rightarrow> tworld \<Rightarrow> error option \<times> ChatMessage \<times> tworld" where
  "AddMessage ev pg uni tid msg0 w =
     (let steps = (case cm_StepsJSON msg0 of None \<Rightarrow> ''[]'' | Some s \<Rightarrow> s);
          msg = msg0\<lparr>cm_StepsJSON := Some steps\<rparr>
      in case execTenantID ev uni tid (add_body ev pg (chat_schema tid) msg steps) w of
           (err, r, w') \<Rightarrow>
             (wrap_error ''chat_store: add message'' err,
              case r of Some (Some (i, t)) \<Rightarrow> msg\<lparr>cm_ID := i, cm_CreatedAt := t\<rparr> | _ \<Rightarrow> msg, w'))"

definition msg_of_row :: "msg_row \<Rightarrow> ChatMessage" where
  "msg_of_row m = \<lparr>cm_ID = ms_ID m, cm_ConversationID = ms_ConversationID m, cm_Role = ms_Role m, cm_Content = ms_Content m,
     cm_StepsJSON = Some (ms_StepsJSON m), cm_IsError = ms_IsError m, cm_CreatedAt = ms_CreatedAt m\<rparr>"

text \<open>The join has one row for each conversation with the id and the user, of which there is at most one.\<close>

definition join_rows :: "string \<Rightarrow> string \<Rightarrow> ten_db \<Rightarrow> msg_row list" where
  "join_rows u userID d =
     concat (map (\<lambda>m. map (\<lambda>_. m) (filter (\<lambda>c. cv_ID c = ms_ConversationID m \<and> ms_ConversationID m = u \<and> cv_UserID c = userID) (d_convs d))) (d_msgs d))"

definition sel_msgs :: "pg_types \<Rightarrow> string \<Rightarrow> string \<Rightarrow> ChatMessage list tstmt" where
  "sel_msgs pg convID userID t i =
     with_uuid pg convID (\<lambda>u d. (Inr (map msg_of_row (sort_key ms_CreatedAt (join_rows u userID d))), d))"

definition ListMessages :: "env \<Rightarrow> pg_types \<Rightarrow> (rune \<Rightarrow> bool) \<Rightarrow> string \<Rightarrow> string \<Rightarrow> string \<Rightarrow> tworld \<Rightarrow> (error + ChatMessage list) \<times> tworld" where
  "ListMessages ev pg uni tid convID userID w =
     kept (Wrapped ''chat_store: list messages'') (execTenantID ev uni tid (one_stmt ev (chat_schema tid) (sel_msgs pg convID userID)) w)"

definition del_expired :: "unit tstmt" where
  "del_expired t i d = (Inr (), drop_convs (\<lambda>c. cv_ExpiresAt c < t) d)"

definition CleanupExpired :: "env \<Rightarrow> (rune \<Rightarrow> bool) \<Rightarrow> string \<Rightarrow> tworld \<Rightarrow> error option \<times> tworld" where
  "CleanupExpired ev uni tid w =
     (case execTenantID ev uni tid (one_stmt ev (chat_schema tid) del_expired) w of
        (err, _, w') \<Rightarrow> (wrap_error ''chat_store: cleanup expired'' err, w'))"

section \<open>The handlers\<close>

text \<open>Texts beyond ASCII are given by their code points.\<close>

definition utf8 :: "rune list \<Rightarrow> string" where
  "utf8 rs = concat (map encode_rune rs)"

definition gin_error :: "nat \<Rightarrow> string \<Rightarrow> reply" where
  "gin_error code msg = (code, VMap [(''error'', VStr msg)])"

definition new_conversation_name :: string where "new_conversation_name = utf8 [0x65B0, 0x4F1A, 0x8BDD]"
definition create_failed :: string where "create_failed = utf8 [0x521B, 0x5EFA, 0x4F1A, 0x8BDD, 0x5931, 0x8D25]"
definition list_failed :: string where "list_failed = utf8 [0x83B7, 0x53D6, 0x4F1A, 0x8BDD, 0x5217, 0x8868, 0x5931, 0x8D25]"
definition name_empty :: string where "name_empty = ''name '' @ utf8 [0x4E0D, 0x80FD, 0x4E3A, 0x7A7A]"
definition not_yours :: string where "not_yours = utf8 [0x4F1A, 0x8BDD, 0x4E0D, 0x5B58, 0x5728, 0x6216, 0x65E0, 0x6743, 0x64CD, 0x4F5C]"
definition rename_failed :: string where "rename_failed = utf8 [0x91CD, 0x547D, 0x540D, 0x5931, 0x8D25]"
definition delete_failed :: string where "delete_failed = utf8 [0x5220, 0x9664, 0x4F1A, 0x8BDD, 0x5931, 0x8D25]"
definition messages_failed :: string where "messages_failed = utf8 [0x83B7, 0x53D6, 0x6D88, 0x606F, 0x5931, 0x8D25]"
definition fields_required :: string where "fields_required = ''role '' @ utf8 [0x548C] @ '' content '' @ utf8 [0x5FC5, 0x586B]"
definition role_invalid :: string where
  "role_invalid = ''role '' @ utf8 [0x5FC5, 0x987B, 0x4E3A] @ '' user '' @ utf8 [0x6216] @ '' agent''"
definition save_failed :: string where "save_failed = utf8 [0x4FDD, 0x5B58, 0x6D88, 0x606F, 0x5931, 0x8D25]"

definition user_required :: reply where "user_required = gin_error 401 ''user context required''"

definition conversationResponse :: "conv_row \<Rightarrow> gval" where
  "conversationResponse cv =
     VMap [(''id'', VStr (cv_ID cv)), (''agent_id'', VStr (cv_AgentID cv)), (''user_id'', VStr (cv_UserID cv)), (''name'', VStr (cv_Name cv)),
           (''created_at'', VInt (cv_CreatedAt cv)), (''updated_at'', VInt (cv_UpdatedAt cv)), (''expires_at'', VInt (cv_ExpiresAt cv))]"

definition messageResponse :: "ChatMessage \<Rightarrow> gval" where
  "messageResponse m =
     VMap [(''id'', VStr (cm_ID m)), (''conversation_id'', VStr (cm_ConversationID m)), (''role'', VStr (cm_Role m)), (''content'', VStr (cm_Content m)),
           (''steps'', VStr (case cm_StepsJSON m of None \<Rightarrow> ''[]'' | Some s \<Rightarrow> s)), (''is_error'', VBool (cm_IsError m)), (''created_at'', VInt (cm_CreatedAt m))]"

text \<open>Every handler first asks for the tenant and the user of the request.\<close>

definition with_identity :: "req_ctx \<Rightarrow> (string \<Rightarrow> string \<Rightarrow> tworld \<Rightarrow> reply \<times> tworld) \<Rightarrow> tworld \<Rightarrow> reply \<times> tworld" where
  "with_identity c f w =
     (case tenantIDFromCtx c of
        None \<Rightarrow> (respondMissingTenant, w)
      | Some tid \<Rightarrow> (case userIDFromCtx c of None \<Rightarrow> (user_required, w) | Some u \<Rightarrow> f tid u w))"

text \<open>The error of the decoder is ignored here; \<open>name0\<close> is the field as the decoder left it.\<close>

definition h_CreateConversation :: "env \<Rightarrow> (rune \<Rightarrow> bool) \<Rightarrow> req_ctx \<Rightarrow> string \<Rightarrow> string \<Rightarrow> tworld \<Rightarrow> reply \<times> tworld" where
  "h_CreateConversation ev uni c agentID name0 = with_identity c (\<lambda>tid userID w.
     let name = (if name0 = '''' then new_conversation_name else name0) in
     case CreateConversation ev uni tid agentID userID name w of
       (Inl _, w') \<Rightarrow> (gin_error 500 create_failed, w')
     | (Inr conv, w') \<Rightarrow> ((201, conversationResponse conv), w'))"

definition h_ListConversations :: "env \<Rightarrow> (rune \<Rightarrow> bool) \<Rightarrow> req_ctx \<Rightarrow> string \<Rightarrow> tworld \<Rightarrow> reply \<times> tworld" where
  "h_ListConversations ev uni c agentID = with_identity c (\<lambda>tid userID w.
     case ListConversations ev uni tid agentID userID w of
       (Inl _, w') \<Rightarrow> (gin_error 500 list_failed, w')
     | (Inr convs, w') \<Rightarrow> ((200, VMap [(''conversations'', VList (map conversationResponse convs))]), w'))"

text \<open>How the handlers answer the error of an update.\<close>

definition update_reply :: "string \<Rightarrow> error option \<Rightarrow> reply" where
  "update_reply failed err =
     (case err of
        None \<Rightarrow> (204, VNil)
      | Some e \<Rightarrow> if errors_is e AgentErrNotFound then gin_error 404 not_yours else gin_error 500 failed)"

definition h_RenameConversation :: "env \<Rightarrow> pg_types \<Rightarrow> (rune \<Rightarrow> bool) \<Rightarrow> req_ctx \<Rightarrow> string \<Rightarrow> error + string \<Rightarrow> tworld \<Rightarrow> reply \<times> tworld" where
  "h_RenameConversation ev pg uni c convID body = with_identity c (\<lambda>tid userID w.
     case body of
       Inl _ \<Rightarrow> (gin_error 400 name_empty, w)
     | Inr name \<Rightarrow>
         (if name = '''' then (gin_error 400 name_empty, w)
          else case RenameConversation ev pg uni tid convID userID name w of (err, w') \<Rightarrow> (update_reply rename_failed err, w')))"

definition h_DeleteConversation :: "env \<Rightarrow> pg_types \<Rightarrow> (rune \<Rightarrow> bool) \<Rightarrow> req_ctx \<Rightarrow> string \<Rightarrow> tworld \<Rightarrow> reply \<times> tworld" where
  "h_DeleteConversation ev pg uni c convID = with_identity c (\<lambda>tid userID w.
     case DeleteConversation ev pg uni tid convID userID w of (err, w') \<Rightarrow> (update_reply delete_failed err, w'))"

definition h_ListMessages :: "env \<Rightarrow> pg_types \<Rightarrow> (rune \<Rightarrow> bool) \<Rightarrow> req_ctx \<Rightarrow> string \<Rightarrow> tworld \<Rightarrow> reply \<times> tworld" where
  "h_ListMessages ev pg uni c convID = with_identity c (\<lambda>tid userID w.
     case ListMessages ev pg uni tid convID userID w of
       (Inl _, w') \<Rightarrow> (gin_error 500 messages_failed, w')
     | (Inr msgs, w') \<Rightarrow> ((200, VMap [(''messages'', VList (map messageResponse msgs))]), w'))"

definition new_message :: "string \<Rightarrow> string \<Rightarrow> string \<Rightarrow> ChatMessage" where
  "new_message convID role content =
     \<lparr>cm_ID = '''', cm_ConversationID = convID, cm_Role = role, cm_Content = content, cm_StepsJSON = None, cm_IsError = False, cm_CreatedAt = 0\<rparr>"

definition h_AddMessage :: "env \<Rightarrow> pg_types \<Rightarrow> (rune \<Rightarrow> bool) \<Rightarrow> req_ctx \<Rightarrow> string \<Rightarrow> error + string \<times> string \<Rightarrow> tworld \<Rightarrow> reply \<times> tworld" where
  "h_AddMessage ev pg uni c convID body = with_identity c (\<lambda>tid userID w.
     case body of
       Inl _ \<Rightarrow> (gin_error 400 fields_required, w)
     | Inr (role, content) \<Rightarrow>
         (if role = '''' \<or> content = '''' then (gin_error 400 fields_required, w)
          else if role \<noteq> ''user'' \<and> role \<noteq> ''agent'' then (gin_error 400 role_invalid, w)
          else case ListMessages ev pg uni tid convID userID w of
            (Inl _, w1) \<Rightarrow> (gin_error 403 not_yours, w1)
          | (Inr _, w1) \<Rightarrow>
              (case AddMessage ev pg uni tid (new_message convID role content) w1 of
                 (Some _, _, w2) \<Rightarrow> (gin_error 500 save_failed, w2)
               | (None, msg, w2) \<Rightarrow> ((201, messageResponse msg), w2))))"

section \<open>Frames\<close>

lemma execTenantID_framed:
  assumes "table_frame R" "\<And>t w. framed R s w (snd (snd (fn t w)))"
  shows "framed R s w (snd (snd (execTenantID ev uni tid fn w)))"
  using assms by (simp add: execTenantID_def table_frame.framed_refl table_frame.t_exec_framed)

lemma kept_framed: "framed R s w (snd (snd r)) \<Longrightarrow> framed R s w (snd (kept f r))"
  by (cases r) (auto simp: kept_def split: option.split)

lemma affecting_framed:
  assumes "table_frame R" "\<And>t i d. R d (snd (st t i d))"
  shows "framed R s w (snd (snd (affecting ev s st t0 w)))"
  using table_frame.t_stmt_framed[OF assms(1), of st s w ev t0, OF assms(2)]
  by (cases "t_stmt ev t0 s st w") (simp add: affecting_def split: sum.split)

lemmas store_defs = CreateConversation_def ListConversations_def RenameConversation_def DeleteConversation_def
  ListMessages_def CleanupExpired_def

text \<open>What a statement on conversations has to keep for its operation to keep it.\<close>

lemma chat_ops_framed:
  assumes R: "table_frame R"
  shows "(\<And>t i d. R d (snd (ins_conv a u n t i d))) \<Longrightarrow> framed R (chat_schema tid) w (snd (CreateConversation ev uni tid a u n w))"
    and "framed R (chat_schema tid) w (snd (ListConversations ev uni tid a u w))"
    and "(\<And>t i d. R d (snd (upd_conv_name pg cid u n t i d))) \<Longrightarrow> framed R (chat_schema tid) w (snd (RenameConversation ev pg uni tid cid u n w))"
    and "(\<And>t i d. R d (snd (del_conv pg cid u t i d))) \<Longrightarrow> framed R (chat_schema tid) w (snd (DeleteConversation ev pg uni tid cid u w))"
    and "framed R (chat_schema tid) w (snd (ListMessages ev pg uni tid cid u w))"
    and "(\<And>t i d. R d (snd (del_expired t i d))) \<Longrightarrow> framed R (chat_schema tid) w (snd (CleanupExpired ev uni tid w))"
  using table_frame.R_refl[OF R]
  by (auto simp: store_defs sel_convs_def sel_msgs_def split_beta with_uuid_def split: option.splits
      intro!: kept_framed execTenantID_framed[OF R] table_frame.one_stmt_framed[OF R] affecting_framed[OF R])

section \<open>Ownership\<close>

text \<open>The conversations of all users but one and their messages are the same.\<close>

definition others_same :: "string \<Rightarrow> ten_db \<Rightarrow> ten_db \<Rightarrow> bool" where
  "others_same u d d' \<longleftrightarrow>
     filter (\<lambda>c. cv_UserID c \<noteq> u) (d_convs d') = filter (\<lambda>c. cv_UserID c \<noteq> u) (d_convs d) \<and>
     (\<forall>c\<in>set (d_convs d). cv_UserID c \<noteq> u \<longrightarrow>
        filter (\<lambda>m. ms_ConversationID m = cv_ID c) (d_msgs d') = filter (\<lambda>m. ms_ConversationID m = cv_ID c) (d_msgs d))"

definition others_kept :: "string \<Rightarrow> ten_db \<Rightarrow> ten_db \<Rightarrow> bool" where
  "others_kept u d d' \<longleftrightarrow> (tables_ok d \<longrightarrow> tables_ok d' \<and> others_same u d d')"

lemma others_same_trans: "others_same u d1 d2 \<Longrightarrow> others_same u d2 d3 \<Longrightarrow> others_same u d1 d3"
proof -
  assume a: "others_same u d1 d2" "others_same u d2 d3"
  then have "{c \<in> set (d_convs d1). cv_UserID c \<noteq> u} = {c \<in> set (d_convs d2). cv_UserID c \<noteq> u}"
    unfolding others_same_def by (metis set_filter)
  then have "c \<in> set (d_convs d2)" if "c \<in> set (d_convs d1)" "cv_UserID c \<noteq> u" for c using that by blast
  with a show ?thesis unfolding others_same_def by simp
qed

interpretation others: table_frame "others_kept u" for u
  by unfold_locales (auto simp: others_kept_def intro: others_same_trans, auto simp: others_same_def)

lemma filter_map_where:
  "(\<And>r. P r \<Longrightarrow> \<not> Q r \<and> \<not> Q (f r)) \<Longrightarrow> filter Q (map_where P f rs) = filter Q rs"
  by (induction rs) (auto simp: map_where_def)

lemma map_map_where: "(\<And>r. P r \<Longrightarrow> g (f r) = g r) \<Longrightarrow> map g (map_where P f rs) = map g rs"
  by (auto simp: map_where_def)

lemma image_map_where:
  assumes "\<And>r. P r \<Longrightarrow> g (f r) = g r"
  shows "g ` set (map_where P f rs) = g ` set rs"
  using arg_cong[OF map_map_where[of P g f rs, OF assms], of set] by simp

lemma distinct_map_filterI: "distinct (map f xs) \<Longrightarrow> distinct (map f (filter P xs))"
  by (induction xs) auto

lemma ins_conv_kept: "others_kept u d (snd (ins_conv a u n t i d))"
  by (auto simp: others_kept_def others_same_def ins_conv_def tables_ok_def Let_def list_ex_iff)

lemma upd_conv_name_kept: "others_kept u d (snd (upd_conv_name pg cid u n t i d))"
proof -
  have "others_kept u d (d\<lparr>d_convs := map_where (own_conv v u) f (d_convs d)\<rparr>)"
    if f: "f = (\<lambda>c. c\<lparr>cv_Name := n, cv_UpdatedAt := t\<rparr>)" for v f
  proof -
    have 1: "filter (\<lambda>c. cv_UserID c \<noteq> u) (map_where (own_conv v u) f (d_convs d)) = filter (\<lambda>c. cv_UserID c \<noteq> u) (d_convs d)"
      by (rule filter_map_where) (simp add: own_conv_def f)
    have 2: "map cv_ID (map_where (own_conv v u) f (d_convs d)) = map cv_ID (d_convs d)"
      by (rule map_map_where) (simp add: f)
    have 3: "cv_ID ` set (map_where (own_conv v u) f (d_convs d)) = cv_ID ` set (d_convs d)"
      "cv_AgentID ` set (map_where (own_conv v u) f (d_convs d)) = cv_AgentID ` set (d_convs d)"
      by (rule image_map_where, simp add: f)+
    show ?thesis by (simp add: others_kept_def others_same_def tables_ok_def 1 2 3)
  qed
  then show ?thesis by (simp add: upd_conv_name_def with_uuid_def others.R_refl split: option.split)
qed

lemma tables_ok_drop_convs:
  assumes "tables_ok d"
  shows "tables_ok (drop_convs P d)"
proof -
  have "ms_ConversationID ` set (d_msgs (drop_convs P d)) \<subseteq> cv_ID ` set (d_convs (drop_convs P d))"
  proof (rule image_subsetI)
    fix m assume "m \<in> set (d_msgs (drop_convs P d))"
    then have m: "m \<in> set (d_msgs d)" "\<forall>c\<in>set (d_convs d). P c \<longrightarrow> cv_ID c \<noteq> ms_ConversationID m"
      by (simp_all add: drop_convs_def list_ex_iff)
    from tables_okD(3)[OF assms m(1)] obtain c where c: "c \<in> set (d_convs d)" "ms_ConversationID m = cv_ID c" by (rule imageE)
    with m(2) have "c \<in> {c \<in> set (d_convs d). \<not> P c}" by auto
    with c(2) show "ms_ConversationID m \<in> cv_ID ` set (d_convs (drop_convs P d))" by (simp add: drop_convs_def)
  qed
  moreover have "cv_AgentID ` set (d_convs (drop_convs P d)) \<subseteq> ag_ID ` set (d_agents d)"
    using tables_okD(2)[OF assms] by (auto simp: drop_convs_def)
  ultimately show ?thesis using assms by (simp add: tables_ok_def drop_convs_def distinct_map_filterI)
qed

lemma drop_own_convs_kept: "others_kept u d (drop_convs (own_conv cid u) d)"
proof -
  have "filter (\<lambda>m. ms_ConversationID m = cv_ID c) (d_msgs (drop_convs (own_conv cid u) d)) = filter (\<lambda>m. ms_ConversationID m = cv_ID c) (d_msgs d)"
    if "tables_ok d" "c \<in> set (d_convs d)" "cv_UserID c \<noteq> u" for c
  proof -
    have "\<not> list_ex (\<lambda>c'. own_conv cid u c' \<and> cv_ID c' = cv_ID c) (d_convs d)"
      using that(2,3) tables_okD(1)[OF that(1)] by (auto simp: list_ex_iff own_conv_def)
    then show ?thesis by (auto simp: drop_convs_def intro: filter_cong)
  qed
  moreover have "filter (\<lambda>c. cv_UserID c \<noteq> u) (d_convs (drop_convs (own_conv cid u) d)) = filter (\<lambda>c. cv_UserID c \<noteq> u) (d_convs d)"
    by (auto simp: drop_convs_def own_conv_def intro: filter_cong)
  ultimately show ?thesis by (simp add: others_kept_def others_same_def tables_ok_drop_convs)
qed

lemma del_conv_kept: "others_kept u d (snd (del_conv pg cid u t i d))"
  by (simp add: del_conv_def with_uuid_def drop_own_convs_kept others.R_refl split: option.split)

text \<open>The requests on conversations, but for the adding of messages.\<close>

datatype chat_call =
    CreateConv string string
  | ListConvs string
  | RenameConv string "error + string"
  | DeleteConv string
  | ListMsgs string

fun serve_chat :: "env \<Rightarrow> pg_types \<Rightarrow> (rune \<Rightarrow> bool) \<Rightarrow> req_ctx \<Rightarrow> chat_call \<Rightarrow> tworld \<Rightarrow> reply \<times> tworld" where
  "serve_chat ev pg uni c (CreateConv agentID name) = h_CreateConversation ev uni c agentID name"
| "serve_chat ev pg uni c (ListConvs agentID) = h_ListConversations ev uni c agentID"
| "serve_chat ev pg uni c (RenameConv convID body) = h_RenameConversation ev pg uni c convID body"
| "serve_chat ev pg uni c (DeleteConv convID) = h_DeleteConversation ev pg uni c convID"
| "serve_chat ev pg uni c (ListMsgs convID) = h_ListMessages ev pg uni c convID"

lemmas handler_defs = h_CreateConversation_def h_ListConversations_def h_RenameConversation_def h_DeleteConversation_def h_ListMessages_def

lemma with_identity_framed:
  assumes "tenantIDFromCtx c = Some tid" "userIDFromCtx c = Some u" "framed R s w (snd (f tid u w))"
  shows "framed R s w (snd (with_identity c f w))"
  using assms by (simp add: with_identity_def)

lemma snd_case_sum: "snd (case p of (Inl a, w) \<Rightarrow> (f a, w) | (Inr b, w) \<Rightarrow> (g b, w)) = snd p"
  by (cases p) (simp split: sum.split)

lemma serve_chat_framed:
  assumes "tenantIDFromCtx c = Some tid" "userIDFromCtx c = Some u"
  shows "framed (others_kept u) (chat_schema tid) w (snd (serve_chat ev pg uni c q w))"
  by (cases q)
    (auto simp: handler_defs snd_case_sum split_beta split: sum.split
      intro!: with_identity_framed[OF assms] chat_ops_framed[OF others.table_frame_axioms] ins_conv_kept upd_conv_name_kept del_conv_kept
        others.framed_refl)

text \<open>Creating, listing, renaming and deleting conversations and listing messages, a request changes no
  other tenant's tables and no conversation of another user of its tenant with its messages, whatever
  the conversation it names and whatever fails on the way; and all keys and references stay intact.
\<close>

theorem conversations_of_others_safe:
  assumes "tenantIDFromCtx c = Some tid" "userIDFromCtx c = Some u"
    and "tw_schemas w (chat_schema tid) = Some d" "tables_ok d"
    and "serve_chat ev pg uni c q w = (rep, w')"
  shows "\<exists>d'. tw_schemas w' = (tw_schemas w)(chat_schema tid \<mapsto> d') \<and> tables_ok d' \<and> others_same u d d'"
proof -
  have fr: "framed (others_kept u) (chat_schema tid) w w'"
    using serve_chat_framed[OF assms(1,2), of w ev pg uni q] assms(5) by simp
  from framed_Some[OF fr assms(3)] assms(4) obtain d' where "tw_schemas w' (chat_schema tid) = Some d'" "tables_ok d'" "others_same u d d'"
    by (auto simp: others_kept_def)
  moreover have "tw_schemas w' = (tw_schemas w)(chat_schema tid \<mapsto> d')"
    using framed_other[OF fr] calculation(1) by (auto simp: fun_eq_iff)
  ultimately show ?thesis by blast
qed

text \<open>A conversation of another user, and what a stranger's requests do to it.\<close>

definition demo_conv :: conv_row where
  "demo_conv = \<lparr>cv_ID = ''k1'', cv_AgentID = ''a1'', cv_UserID = ''u1'', cv_Name = ''plans'', cv_CreatedAt = 0, cv_UpdatedAt = 0, cv_ExpiresAt = 1000\<rparr>"

definition demo_agent :: agent_row where
  "demo_agent = \<lparr>ag_ID = ''a1'', ag_Name = ''helper'', ag_Type = ''react'', ag_Description = '''', ag_Persona = '''',
     ag_SystemPrompt = '''', ag_LLMModel = '''', ag_MaxIterations = 10, ag_created = 0\<rparr>"

definition demo_tables :: ten_db where
  "demo_tables = empty_tenant\<lparr>d_agents := [demo_agent], d_convs := [demo_conv]\<rparr>"

definition demo_tworld :: tworld where
  "demo_tworld = \<lparr>tw_schemas = [''tenant_t1'' \<mapsto> demo_tables], tw_calls = 0\<rparr>"

definition demo_pg :: pg_types where
  "demo_pg = \<lparr>pg_uuid = Some, pg_json = Some\<rparr>"

definition request_of :: "string \<Rightarrow> string \<Rightarrow> req_ctx" where
  "request_of tid u = \<lparr>rc_Authorization = '''', rc_keys = [''auth.sub'' \<mapsto> u], rc_tenant = Some (Some \<lparr>tc_TenantID = tid, tc_UserID = u, tc_Role = ''member''\<rparr>)\<rparr>"

lemma tables_ok_demo: "tables_ok demo_tables"
  by (simp add: demo_tables_def tables_ok_def empty_tenant_def links_ok_def demo_conv_def demo_agent_def)

theorem conversations_of_others_safe_witness:
  "\<exists>d'. tw_schemas (snd (serve_chat demo_env demo_pg (\<lambda>_. False) (request_of ''t1'' ''u2'') (DeleteConv ''k1'') demo_tworld)) =
     [''tenant_t1'' \<mapsto> d'] \<and> tables_ok d' \<and> filter (\<lambda>c. cv_UserID c \<noteq> ''u2'') (d_convs d') = [demo_conv]"
proof -
  have w: "tw_schemas demo_tworld (chat_schema ''t1'') = Some demo_tables" by (simp add: demo_tworld_def chat_schema_def)
  have c: "tenantIDFromCtx (request_of ''t1'' ''u2'') = Some ''t1''" "userIDFromCtx (request_of ''t1'' ''u2'') = Some ''u2''"
    by (simp_all add: request_of_def tenantIDFromCtx_def userIDFromCtx_def FromContext_def)
  obtain rep w' where r: "serve_chat demo_env demo_pg (\<lambda>_. False) (request_of ''t1'' ''u2'') (DeleteConv ''k1'') demo_tworld = (rep, w')"
    by fastforce
  from conversations_of_others_safe[OF c w tables_ok_demo r] obtain d' where
    "tw_schemas w' = (tw_schemas demo_tworld)(chat_schema ''t1'' \<mapsto> d')" "tables_ok d'" "others_same ''u2'' demo_tables d'" by blast
  then show ?thesis unfolding r by (auto simp: demo_tworld_def chat_schema_def others_same_def demo_tables_def demo_conv_def)
qed

section \<open>Messages\<close>

definition chat_tenant :: "(rune \<Rightarrow> bool) \<Rightarrow> string \<Rightarrow> bool" where
  "chat_tenant uni tid \<longleftrightarrow> tid \<noteq> '''' \<and> list_all (\<lambda>r. chat_id_char uni (fst r)) (runes tid)"

lemma execTenantID_ok: "chat_tenant uni tid \<Longrightarrow> execTenantID ev uni tid fn w = t_exec ev ''chat_store'' fn w"
  by (simp add: execTenantID_def chat_tenant_def)

lemma ListMessages_works:
  assumes "\<forall>n. ev_fault ev n = Works" "chat_tenant uni tid" "tw_schemas w (chat_schema tid) = Some d" "pg_uuid pg cid = Some k"
  shows "ListMessages ev pg uni tid cid u w =
    (Inr (map msg_of_row (sort_key ms_CreatedAt (join_rows k u d))), \<lparr>tw_schemas = tw_schemas w, tw_calls = tw_calls w + 4\<rparr>)"
  using assms by (simp add: ListMessages_def execTenantID_ok one_stmt_works sel_msgs_def with_uuid_def kept_def fun_upd_idem)

definition message_row :: "string \<Rightarrow> int \<Rightarrow> string \<Rightarrow> string \<Rightarrow> ChatMessage \<Rightarrow> msg_row" where
  "message_row i t k steps m = \<lparr>ms_ID = i, ms_ConversationID = k, ms_Role = cm_Role m, ms_Content = cm_Content m,
     ms_StepsJSON = steps, ms_IsError = cm_IsError m, ms_CreatedAt = t\<rparr>"

definition bumped :: "string \<Rightarrow> int \<Rightarrow> ten_db \<Rightarrow> ten_db" where
  "bumped k t d = d\<lparr>d_convs := map_where (\<lambda>c. cv_ID c = k) (\<lambda>c. c\<lparr>cv_UpdatedAt := t, cv_ExpiresAt := t + thirty_days\<rparr>) (d_convs d)\<rparr>"

lemma bumped_simps [simp]:
  "d_msgs (bumped k t d) = d_msgs d"
  "cv_ID ` set (d_convs (bumped k t d)) = cv_ID ` set (d_convs d)"
  by (simp_all add: bumped_def) (rule image_map_where, simp)

lemma list_ex_image: "list_ex (\<lambda>x. f x = y) xs \<longleftrightarrow> y \<in> f ` set xs"
  by (auto simp: list_ex_iff)

lemma AddMessage_works:
  assumes "\<forall>n. ev_fault ev n = Works" "chat_tenant uni tid" "tw_schemas w (chat_schema tid) = Some d"
    and "pg_uuid pg (cm_ConversationID msg) = Some k" "k \<in> cv_ID ` set (d_convs d)" "cm_Role msg \<in> {''user'', ''agent''}"
    and "pg_json pg (case cm_StepsJSON msg of None \<Rightarrow> ''[]'' | Some s \<Rightarrow> s) = Some sj"
    and i: "i = ev_uuid ev (tw_calls w + 3)" "i \<notin> ms_ID ` set (d_msgs d)" and t: "t = ev_clock ev (tw_calls w)"
  shows "AddMessage ev pg uni tid msg w =
    (None, msg\<lparr>cm_StepsJSON := Some (case cm_StepsJSON msg of None \<Rightarrow> ''[]'' | Some s \<Rightarrow> s), cm_ID := i, cm_CreatedAt := t\<rparr>,
     \<lparr>tw_schemas = (tw_schemas w)(chat_schema tid \<mapsto> (bumped k t d)\<lparr>d_msgs := d_msgs d @ [message_row i t k sj msg]\<rparr>), tw_calls = tw_calls w + 5\<rparr>)"
proof -
  let ?d1 = "bumped k t d" and ?w1 = "\<lparr>tw_schemas = tw_schemas w, tw_calls = Suc (Suc (tw_calls w))\<rparr>" and ?steps = "case cm_StepsJSON msg of None \<Rightarrow> ''[]'' | Some s \<Rightarrow> s"
  let ?d2 = "?d1\<lparr>d_msgs := d_msgs d @ [message_row i t k sj msg]\<rparr>" and ?s = "chat_schema tid"
  have 1: "t_stmt ev t ?s (bump_conv pg (cm_ConversationID msg)) ?w1 =
      (Inr (length (filter (\<lambda>c. cv_ID c = k) (d_convs d))), \<lparr>tw_schemas = (tw_schemas w)(?s \<mapsto> ?d1), tw_calls = tw_calls w + 3\<rparr>)"
    using assms(1,3,4) by (simp add: t_stmt_works bump_conv_def with_uuid_def bumped_def ttick_eq numeral_eq_Suc)
  have 2: "ins_msg pg (msg\<lparr>cm_StepsJSON := Some ?steps\<rparr>) ?steps t i ?d1 = (Inr (i, t), ?d2)"
    using assms(4-7) i(2) by (auto simp: ins_msg_def with_uuid_def list_ex_image message_row_def)
  have "add_body ev pg ?s (msg\<lparr>cm_StepsJSON := Some ?steps\<rparr>) ?steps t ?w1 =
      (None, Some (i, t), \<lparr>tw_schemas = (tw_schemas w)(?s \<mapsto> ?d2), tw_calls = tw_calls w + 4\<rparr>)"
    using 2 assms(1) by (simp add: add_body_def 1 one_stmt_def t_stmt_works ttick_eq i(1))
  then show ?thesis
    using assms(1,2) by (simp add: AddMessage_def execTenantID_ok t_exec_works wrap_error_def ttick_eq t)
qed

text \<open>The check that guards the adding of a message only asks whether the messages could be listed, and
  they can, as an empty list, for every conversation: a user's message is stored in the conversation
  of another user of the tenant, which it also keeps from expiring, and the answer is 201.
\<close>

theorem stranger_writes_conversation:
  assumes works: "\<forall>n. ev_fault ev n = Works" and id: "chat_tenant uni tid" and s: "tw_schemas w (chat_schema tid) = Some d"
    and c: "tenantIDFromCtx c = Some tid" "userIDFromCtx c = Some u"
    and cid: "pg_uuid pg cid = Some k" and conv: "cv \<in> set (d_convs d)" "cv_ID cv = k" "cv_UserID cv \<noteq> u"
    and body: "role \<in> {''user'', ''agent''}" "content \<noteq> ''''" and js: "pg_json pg ''[]'' = Some ''[]''"
    and fresh: "ev_uuid ev (tw_calls w + 7) \<notin> ms_ID ` set (d_msgs d)"
  shows "\<exists>rep w' d' m cv'. h_AddMessage ev pg uni c cid (Inr (role, content)) w = ((201, rep), w') \<and>
      tw_schemas w' (chat_schema tid) = Some d' \<and> m \<in> set (d_msgs d') \<and> ms_ConversationID m = k \<and>
      ms_Role m = role \<and> ms_Content m = content \<and>
      cv' \<in> set (d_convs d') \<and> cv_ID cv' = k \<and> cv_UserID cv' = cv_UserID cv \<and>
      cv_ExpiresAt cv' = ev_clock ev (tw_calls w + 4) + thirty_days"
proof -
  let ?w1 = "\<lparr>tw_schemas = tw_schemas w, tw_calls = tw_calls w + 4\<rparr>"
  let ?m = "new_message cid role content" and ?t = "ev_clock ev (tw_calls w + 4)"
  let ?i = "ev_uuid ev (tw_calls w + 7)"
  let ?d = "(bumped k ?t d)\<lparr>d_msgs := d_msgs d @ [message_row ?i ?t k ''[]'' ?m]\<rparr>"
  let ?cv = "cv\<lparr>cv_UpdatedAt := ?t, cv_ExpiresAt := ?t + thirty_days\<rparr>"
  have l: "\<exists>ms. ListMessages ev pg uni tid cid u w = (Inr ms, ?w1)"
    by (simp add: ListMessages_works[OF works id s cid])
  have i: "?i = ev_uuid ev (tw_calls ?w1 + 3)" by (simp add: add.assoc)
  have "\<exists>msg' n. AddMessage ev pg uni tid ?m ?w1 = (None, msg', \<lparr>tw_schemas = (tw_schemas ?w1)(chat_schema tid \<mapsto> ?d), tw_calls = n\<rparr>)"
    by (intro exI, rule AddMessage_works[OF works id _ _ _ _ _ i fresh])
      (use s cid conv body(1) js in \<open>auto simp: new_message_def\<close>)
  then obtain msg' w' where a: "AddMessage ev pg uni tid ?m ?w1 = (None, msg', w')"
    and w': "tw_schemas w' = (tw_schemas w)(chat_schema tid \<mapsto> ?d)" by force
  have cv': "?cv \<in> set (d_convs ?d)" using conv(1,2) by (force simp: bumped_def set_map_where)
  have "h_AddMessage ev pg uni c cid (Inr (role, content)) w = ((201, messageResponse msg'), w')"
    using body c l a by (auto simp: h_AddMessage_def with_identity_def)
  moreover have "message_row ?i ?t k ''[]'' ?m \<in> set (d_msgs ?d)" by simp
  ultimately show ?thesis using cv' conv w'
    by (intro exI[of _ "messageResponse msg'"] exI[of _ w'] exI[of _ ?d] exI[of _ "message_row ?i ?t k ''[]'' ?m"] exI[of _ ?cv])
      (simp add: message_row_def new_message_def)
qed

lemma demo_works: "\<forall>n. ev_fault demo_env n = Works" by (simp add: demo_env_def)

lemma demo_chat_tenant: "chat_tenant uni ''t1''"
  by (simp add: chat_tenant_def runes_ascii byte_def chat_id_char_def letter_or_digit_def)

lemma demo_request: "tenantIDFromCtx (request_of ''t1'' u) = Some ''t1''" "userIDFromCtx (request_of ''t1'' u) = Some u"
  by (simp_all add: request_of_def tenantIDFromCtx_def userIDFromCtx_def FromContext_def)

lemma demo_tables_at: "tw_schemas demo_tworld (chat_schema ''t1'') = Some demo_tables"
  by (simp add: demo_tworld_def chat_schema_def)

theorem stranger_writes_conversation_witness:
  "\<exists>rep w' d' m. h_AddMessage demo_env demo_pg (\<lambda>_. False) (request_of ''t1'' ''u2'') ''k1'' (Inr (''user'', ''hello'')) demo_tworld = ((201, rep), w') \<and>
     tw_schemas w' (chat_schema ''t1'') = Some d' \<and> m \<in> set (d_msgs d') \<and> ms_ConversationID m = ''k1'' \<and> ms_Content m = ''hello''"
proof -
  have "demo_conv \<in> set (d_convs demo_tables)" "cv_ID demo_conv = ''k1''" "cv_UserID demo_conv \<noteq> ''u2''"
    by (simp_all add: demo_tables_def demo_conv_def)
  from stranger_writes_conversation[OF demo_works demo_chat_tenant demo_tables_at demo_request _ this,
      of demo_pg "''k1''" "''user''" "''hello''" "\<lambda>_. False"]
  show ?thesis by (fastforce simp: demo_pg_def demo_tables_def empty_tenant_def)
qed

lemma insort_key_snoc: "f y \<le> f x \<Longrightarrow> insort_key f y (zs @ [x]) = insort_key f y zs @ [x]"
  by (induction zs) auto

lemma sort_key_snoc: "(\<And>y. y \<in> set xs \<Longrightarrow> f y \<le> f x) \<Longrightarrow> sort_key f (xs @ [x]) = sort_key f xs @ [x]"
  by (induction xs) (auto simp: insort_key_snoc)

lemma filter_eq_self: "distinct xs \<Longrightarrow> x \<in> set xs \<Longrightarrow> filter (\<lambda>y. y = x) xs = [x]"
  by (induction xs) (auto simp: filter_empty_conv)

lemma filter_unique:
  assumes "distinct (map f xs)" "x \<in> set xs" "P x" "\<And>y. y \<in> set xs \<Longrightarrow> P y \<Longrightarrow> f y = f x"
  shows "filter P xs = [x]"
proof -
  have "filter P xs = filter (\<lambda>y. y = x) xs"
    using assms by (intro filter_cong) (auto simp: distinct_map dest: inj_onD)
  with assms(1,2) show ?thesis by (simp add: distinct_map filter_eq_self)
qed

lemma concat_map_if: "(\<And>x. f x = (if P x then [x] else [])) \<Longrightarrow> concat (map f xs) = filter P xs"
  by (induction xs) auto

lemma join_rows_own:
  assumes "distinct (map cv_ID (d_convs d))" "cv \<in> set (d_convs d)" "cv_ID cv = k" "cv_UserID cv = u"
  shows "join_rows k u d = filter (\<lambda>m. ms_ConversationID m = k) (d_msgs d)"
proof -
  have cs: "filter (\<lambda>c. cv_ID c = ms_ConversationID m \<and> ms_ConversationID m = k \<and> cv_UserID c = u) (d_convs d) =
      (if ms_ConversationID m = k then [cv] else [])" for m
    using assms by (auto intro!: filter_unique[where f = cv_ID])
  show ?thesis unfolding join_rows_def by (rule concat_map_if, unfold cs, simp)
qed

text \<open>C25: A message that the owner of a conversation adds is listed as the last of it, after the messages that
  were listed before, with its role, content and steps.
\<close>

theorem added_message_is_listed:
  assumes works: "\<forall>n. ev_fault ev n = Works" and id: "chat_tenant uni tid" and s: "tw_schemas w (chat_schema tid) = Some d"
    and ok: "tables_ok d" and cid: "pg_uuid pg cid = Some k"
    and conv: "cv \<in> set (d_convs d)" "cv_ID cv = k" "cv_UserID cv = u"
    and m: "cm_ConversationID msg = cid" "cm_Role msg \<in> {''user'', ''agent''}" "cm_StepsJSON msg = Some steps" "pg_json pg steps = Some sj"
    and fresh: "ev_uuid ev (tw_calls w + 3) \<notin> ms_ID ` set (d_msgs d)"
    and time: "\<forall>m\<in>set (d_msgs d). ms_CreatedAt m \<le> ev_clock ev (tw_calls w)"
    and listed: "ListMessages ev pg uni tid cid u w = (Inr old, w0)"
    and added: "AddMessage ev pg uni tid msg w = (e, msg', w1)"
  shows "e = None \<and> fst (ListMessages ev pg uni tid cid u w1) = Inr (old @ [msg'\<lparr>cm_ConversationID := k, cm_StepsJSON := Some sj\<rparr>])"
proof -
  let ?t = "ev_clock ev (tw_calls w)" and ?i = "ev_uuid ev (tw_calls w + 3)"
  let ?row = "message_row ?i ?t k sj msg"
  let ?d = "(bumped k ?t d)\<lparr>d_msgs := d_msgs d @ [?row]\<rparr>"
  have k: "k \<in> cv_ID ` set (d_convs d)" using conv by blast
  have a: "AddMessage ev pg uni tid msg w = (None, msg\<lparr>cm_ID := ?i, cm_CreatedAt := ?t\<rparr>, \<lparr>tw_schemas = (tw_schemas w)(chat_schema tid \<mapsto> ?d), tw_calls = tw_calls w + 5\<rparr>)"
    using AddMessage_works[OF works id s, of pg msg k sj ?i ?t] cid k m fresh by (cases msg) simp
  have "distinct (map cv_ID (d_convs d))" using ok by (simp add: tables_ok_def)
  then have "join_rows k u d = filter (\<lambda>m. ms_ConversationID m = k) (d_msgs d)" using conv by (rule join_rows_own)
  moreover have "join_rows k u ?d = filter (\<lambda>m. ms_ConversationID m = k) (d_msgs ?d)"
  proof (rule join_rows_own)
    have "map cv_ID (d_convs (bumped k ?t d)) = map cv_ID (d_convs d)" unfolding bumped_def by (simp add: map_map_where)
    then show "distinct (map cv_ID (d_convs ?d))" using ok by (simp add: tables_ok_def)
    show "cv\<lparr>cv_UpdatedAt := ?t, cv_ExpiresAt := ?t + thirty_days\<rparr> \<in> set (d_convs ?d)" using conv by (force simp: bumped_def set_map_where)
  qed (simp_all add: conv)
  moreover have "sort_key ms_CreatedAt (filter P (d_msgs d) @ [?row]) = sort_key ms_CreatedAt (filter P (d_msgs d)) @ [?row]" for P
    by (rule sort_key_snoc) (use time in \<open>auto simp: message_row_def\<close>)
  ultimately have "sort_key ms_CreatedAt (join_rows k u ?d) = sort_key ms_CreatedAt (join_rows k u d) @ [?row]"
    by (simp add: message_row_def)
  moreover have "msg_of_row ?row = msg'\<lparr>cm_ConversationID := k, cm_StepsJSON := Some sj\<rparr>"
    using a added by (simp add: msg_of_row_def message_row_def)
  ultimately show ?thesis
    using a added listed ListMessages_works[OF works id s cid, of u] ListMessages_works[OF works id _ cid, of w1 ?d u] by simp
qed

theorem added_message_is_listed_witness:
  "\<exists>msg' w1. AddMessage demo_env demo_pg (\<lambda>_. False) ''t1'' ((new_message ''k1'' ''user'' ''hello'')\<lparr>cm_StepsJSON := Some ''[]''\<rparr>) demo_tworld = (None, msg', w1) \<and>
     fst (ListMessages demo_env demo_pg (\<lambda>_. False) ''t1'' ''k1'' ''u1'' w1) = Inr [msg'\<lparr>cm_ConversationID := ''k1'', cm_StepsJSON := Some ''[]''\<rparr>]"
proof -
  let ?m = "(new_message ''k1'' ''user'' ''hello'')\<lparr>cm_StepsJSON := Some ''[]''\<rparr>"
  have conv: "demo_conv \<in> set (d_convs demo_tables)" "cv_ID demo_conv = ''k1''" "cv_UserID demo_conv = ''u1''"
    by (simp_all add: demo_tables_def demo_conv_def)
  have k: "pg_uuid demo_pg ''k1'' = Some ''k1''" by (simp add: demo_pg_def)
  have m: "cm_ConversationID ?m = ''k1''" "cm_Role ?m \<in> {''user'', ''agent''}" "cm_StepsJSON ?m = Some ''[]''" "pg_json demo_pg ''[]'' = Some ''[]''"
    by (simp_all add: new_message_def demo_pg_def)
  obtain e msg' w1 where a: "AddMessage demo_env demo_pg (\<lambda>_. False) ''t1'' ?m demo_tworld = (e, msg', w1)" by (metis prod_cases3)
  have l: "\<exists>w0. ListMessages demo_env demo_pg (\<lambda>_. False) ''t1'' ''k1'' ''u1'' demo_tworld = (Inr [], w0)"
    by (simp add: ListMessages_works[OF demo_works demo_chat_tenant demo_tables_at k] join_rows_def demo_tables_def empty_tenant_def)
  then obtain w0 where "ListMessages demo_env demo_pg (\<lambda>_. False) ''t1'' ''k1'' ''u1'' demo_tworld = (Inr [], w0)" by blast
  from added_message_is_listed[OF demo_works demo_chat_tenant demo_tables_at tables_ok_demo k conv m _ _ this a] a
  show ?thesis by (simp add: demo_tables_def empty_tenant_def)
qed

text \<open>
  The clean-up removes the expired conversations with their messages and nothing else; until then
  an expired conversation is not listed, but its messages are, and a new message revives it.
\<close>

lemma cleanup_removes_expired:
  assumes "\<forall>n. ev_fault ev n = Works" "chat_tenant uni tid" "tw_schemas w (chat_schema tid) = Some d" "tables_ok d"
    and "CleanupExpired ev uni tid w = (e, w')"
  shows "\<exists>d'. e = None \<and> tw_schemas w' = (tw_schemas w)(chat_schema tid \<mapsto> d') \<and> tables_ok d' \<and>
     d_convs d' = filter (\<lambda>c. ev_clock ev (tw_calls w) \<le> cv_ExpiresAt c) (d_convs d) \<and>
     d_msgs d' = filter (\<lambda>m. ms_ConversationID m \<in> cv_ID ` set (d_convs d')) (d_msgs d)"
proof -
  let ?t = "ev_clock ev (tw_calls w)"
  let ?d = "drop_convs (\<lambda>c. cv_ExpiresAt c < ?t) d"
  have w': "e = None" "tw_schemas w' = (tw_schemas w)(chat_schema tid \<mapsto> ?d)"
    using assms by (auto simp: CleanupExpired_def execTenantID_ok one_stmt_works del_expired_def wrap_error_def)
  have c: "d_convs ?d = filter (\<lambda>c. ?t \<le> cv_ExpiresAt c) (d_convs d)"
    by (simp add: drop_convs_def not_less)
  have "d_msgs ?d = filter (\<lambda>m. ms_ConversationID m \<in> cv_ID ` set (d_convs ?d)) (d_msgs d)"
  proof -
    have "(\<not> list_ex (\<lambda>c. cv_ExpiresAt c < ?t \<and> cv_ID c = ms_ConversationID m) (d_convs d)) \<longleftrightarrow> ms_ConversationID m \<in> cv_ID ` set (d_convs ?d)"
      (is "?L m \<longleftrightarrow> ?R m") if "m \<in> set (d_msgs d)" for m
    proof -
      from tables_okD(3)[OF assms(4) that] obtain c where c': "c \<in> set (d_convs d)" "ms_ConversationID m = cv_ID c" by (rule imageE)
      have uniq: "x = c" if "x \<in> set (d_convs d)" "cv_ID x = cv_ID c" for x using tables_okD(1)[OF assms(4) that(1) c'(1) that(2)] .
      have "list_ex (\<lambda>x. cv_ExpiresAt x < ?t \<and> cv_ID x = cv_ID c) (d_convs d) \<longleftrightarrow> cv_ExpiresAt c < ?t"
        using c'(1) uniq unfolding list_ex_iff by blast
      moreover have "cv_ID c \<in> cv_ID ` set (filter (\<lambda>c. ?t \<le> cv_ExpiresAt c) (d_convs d)) \<longleftrightarrow> ?t \<le> cv_ExpiresAt c"
        using c'(1) uniq unfolding set_filter image_iff Bex_def mem_Collect_eq by metis
      ultimately show ?thesis unfolding c c'(2) by (simp add: not_less)
    qed
    then have "filter ?L (d_msgs d) = filter ?R (d_msgs d)" by (rule filter_cong[OF refl])
    then show ?thesis by (simp add: drop_convs_def)
  qed
  with w' c tables_ok_drop_convs[OF assms(4)] show ?thesis by blast
qed

end
