(* ===== verification/RAG_Handler.thy ===== *)
theory RAG_Handler
  imports Knowledge Chat
begin

text \<open>
  The handlers of knowledge, api/handler/rag_handler.go: upload of a document, queries, and the
  workspaces of a tenant. The workspaces are rows of the tenant's table rag\_workspaces; every
  statement runs on the pool without a transaction. Tenant ids hold no double quote, so that the quoted
  schema name of a statement is that of the tenant. A bound body is the decoded request or the error of
  the decoder.

  Proved: whatever requests do, the workspaces of a tenant stay within the allowed models, modes and
  sizes, keep their embedding model, and no other tenant's tables change; a created workspace is read
  back; a query that finds something never gets an answer, since the handler panics; a query answers
  the same for every workspace; a linked workspace is not removed.
\<close>

section \<open>Upload and query\<close>

definition DefaultTopK :: int where "DefaultTopK = 5"
definition DefaultChunkSize :: int where "DefaultChunkSize = 512"

text \<open>
  A file of a form: its name, its size, and what opening and one Read give. Read fills the beginning
  of a slice as long as the file; the rest stays zero.
\<close>

record uploaded =
  up_Workspace :: string
  up_Filename :: string
  up_Size :: nat
  up_Open :: "error option"
  up_Read :: "error + string"

definition file_data :: "nat \<Rightarrow> string \<Rightarrow> string" where
  "file_data sz bytes = take sz bytes @ replicate (sz - length bytes) (CHR 0x00)"

definition upload_reply :: "(int \<Rightarrow> string) \<Rightarrow> IngestResult \<times> error option \<Rightarrow> reply" where
  "upload_reply show_dur res =
     (case res of
        (_, Some e) \<Rightarrow> gin_error 500 (error_text e)
      | (r, None) \<Rightarrow>
          (200, VMap [(''success'', VBool True), (''document_id'', VStr (ig_DocumentID r)), (''workspace'', VStr (ig_Workspace r)),
             (''total_chunks'', VInt (ig_TotalChunks r)), (''total_vectors'', VInt (ig_TotalVectors r)), (''total_nodes'', VInt (ig_TotalNodes r)),
             (''duration'', VStr (show_dur (ig_Duration r))), (''errors'', VList (map VStr (ig_Errors r)))]))"

text \<open>\<open>docID\<close> is the fresh id of the document, \<open>show_dur\<close> the text of a duration.\<close>

definition UploadDocument ::
  "'w knowledge_base \<Rightarrow> (int \<Rightarrow> string) \<Rightarrow> req_ctx \<Rightarrow> string \<Rightarrow> int \<Rightarrow> int \<Rightarrow> error + uploaded \<Rightarrow> 'w \<Rightarrow> reply go \<times> 'w" where
  "UploadDocument kb show_dur c docID now dur body w =
     (case tenantIDFromCtx c of
        None \<Rightarrow> (Ret respondMissingTenant, w)
      | Some tid \<Rightarrow>
          (case body of
             Inl e \<Rightarrow> (Ret (gin_error 400 (error_text e)), w)
           | Inr u \<Rightarrow>
               (case up_Open u of
                  Some _ \<Rightarrow> (Ret (gin_error 500 ''failed to open file''), w)
                | None \<Rightarrow>
                    (case up_Read u of
                       Inl _ \<Rightarrow> (Ret (gin_error 500 ''failed to read file''), w)
                     | Inr bytes \<Rightarrow>
                         bind_w (IngestDocument kb (rc_tenant c) now dur
                             \<lparr>ir_TenantID = tid, ir_Workspace = up_Workspace u, ir_DocumentData = file_data (up_Size u) bytes,
                              ir_FileName = up_Filename u, ir_DocumentID = docID\<rparr> w)
                           (\<lambda>res w1. (Ret (upload_reply show_dur res), w1))))))"

record QueryRequest =
  qr_Question :: string
  qr_Workspace :: string
  qr_Mode :: string
  qr_TopK :: int

definition valid_query :: "QueryRequest \<Rightarrow> bool" where
  "valid_query q \<longleftrightarrow> qr_Question q \<noteq> '''' \<and> qr_Workspace q \<noteq> '''' \<and> qr_Mode q \<in> {''vector'', ''graph'', ''hybrid''}"

text \<open>Assigning to the elements of a slice that has the length of \<open>s\<close>, one for each item.\<close>

definition index_panic :: "nat \<Rightarrow> nat \<Rightarrow> string" where
  "index_panic i n = ''runtime error: index out of range ['' @ show_nat i @ ''] with length '' @ show_nat n"

fun assign_items :: "nat \<Rightarrow> 'a list \<Rightarrow> 'a list \<Rightarrow> 'a list go" where
  "assign_items i s [] = Ret s"
| "assign_items i s (x # xs) = (if i < length s then assign_items (Suc i) (s[i := x]) xs else Panic (index_panic i (length s)))"

definition source_json :: "(real \<Rightarrow> gval) \<Rightarrow> Source \<Rightarrow> gval" where
  "source_json num s =
     VMap [(''document_id'', VStr (so_DocumentID s)), (''content'', VStr (so_Content s)), (''chunk_index'', VInt (so_ChunkIndex s)), (''score'', num (so_Score s))]"

definition entity_json :: "GraphEntity \<Rightarrow> gval" where
  "entity_json e = VMap [(''id'', VStr (ge_ID e)), (''label'', VStr (ge_Label e)), (''properties'', VMap (ge_Properties e))]"

text \<open>The slices are made with length 0; \<open>num\<close> is the JSON value of a score.\<close>

definition query_reply :: "(real \<Rightarrow> gval) \<Rightarrow> RAGQueryResult \<Rightarrow> reply go" where
  "query_reply num r =
     go_bind (assign_items 0 [] (map (source_json num) (rr_Sources r))) (\<lambda>sources.
     go_bind (assign_items 0 [] (map entity_json (rr_GraphContext r))) (\<lambda>ctx.
       Ret (200, VMap [(''answer'', VStr (rr_Answer r)), (''sources'', VList sources), (''graph_context'', VList ctx), (''mode'', VStr (rr_Mode r)),
                       (''latency_ms'', VInt (rr_Latency r div 10 ^ 6))])))"

definition rag_request :: "string \<Rightarrow> QueryRequest \<Rightarrow> RAGQueryRequest" where
  "rag_request tid q =
     \<lparr>rq_Question = qr_Question q, rq_Workspace = qr_Workspace q, rq_TenantID = tid, rq_Mode = qr_Mode q,
      rq_TopK = (if qr_TopK q \<le> 0 then DefaultTopK else qr_TopK q)\<rparr>"

text \<open>\<open>verr\<close> is the error of the validator.\<close>

definition h_Query ::
  "search_env \<Rightarrow> 'w knowledge_base \<Rightarrow> (real \<Rightarrow> gval) \<Rightarrow> (QueryRequest \<Rightarrow> error) \<Rightarrow> int \<Rightarrow> req_ctx \<Rightarrow> error + QueryRequest \<Rightarrow> 'w \<Rightarrow> reply go go \<times> 'w" where
  "h_Query se kb num verr latency c body w =
     (case tenantIDFromCtx c of
        None \<Rightarrow> (Ret (Ret respondMissingTenant), w)
      | Some tid \<Rightarrow>
          (case body of
             Inl e \<Rightarrow> (Ret (Ret (gin_error 400 (error_text e))), w)
           | Inr q \<Rightarrow>
               (if \<not> valid_query q then (Ret (Ret (gin_error 400 (error_text (verr q)))), w)
                else bind_w (Query se kb (rc_tenant c) latency (rag_request tid q) w) (\<lambda>res w1.
                  (Ret (go_bind res (\<lambda>x. case x of Inl e \<Rightarrow> Ret (gin_error 500 (error_text e)) | Inr r \<Rightarrow> query_reply num r)), w1)))))"

section \<open>Workspaces\<close>

definition allowedEmbeddingModels :: "string set" where
  "allowedEmbeddingModels = {''text-embedding-v3'', ''embedding-3''}"

definition allowedQueryModes :: "string set" where
  "allowedQueryModes = {''vector'', ''graph'', ''hybrid''}"

definition config_json :: "WorkspaceConfig \<Rightarrow> gval" where
  "config_json cfg =
     VMap [(''embedding_model'', VStr (wc_EmbeddingModel cfg)), (''chunk_size'', VInt (wc_ChunkSize cfg)), (''chunk_overlap'', VInt (wc_ChunkOverlap cfg)),
           (''query_mode'', VStr (wc_QueryMode cfg)), (''top_k'', VInt (wc_TopK cfg))]"

text \<open>A statement on the pool is a transaction of its own.\<close>

definition direct :: "env \<Rightarrow> string \<Rightarrow> 'a tstmt \<Rightarrow> tworld \<Rightarrow> (error + 'a) \<times> tworld" where
  "direct ev tid st w = t_stmt ev (ev_clock ev (tw_calls w)) (chat_schema tid) st w"

definition ins_workspace :: "string \<Rightarrow> string \<Rightarrow> WorkspaceConfig \<Rightarrow> string tstmt" where
  "ins_workspace name descr cfg t i d =
     (if list_ex (\<lambda>r. ws_Name r = name \<or> ws_ID r = i) (d_workspaces d) then (Inl unique_violation, d)
      else (Inr i, d\<lparr>d_workspaces := d_workspaces d @
        [\<lparr>ws_ID = i, ws_Name = name, ws_Description = Some descr, ws_Config = cfg, ws_CreatedAt = t, ws_UpdatedAt = t\<rparr>]\<rparr>))"

definition or_default :: "int \<Rightarrow> int \<Rightarrow> int" where
  "or_default z x = (if x \<le> 0 then z else x)"

definition or_text :: "string \<Rightarrow> string \<Rightarrow> string" where
  "or_text z x = (if x = '''' then z else x)"

text \<open>The configuration that a creation stores, or the text of its refusal.\<close>

definition new_config :: "WorkspaceConfig \<Rightarrow> string + WorkspaceConfig" where
  "new_config cfg =
     (let m = or_text ''text-embedding-v3'' (wc_EmbeddingModel cfg); q = or_text ''hybrid'' (wc_QueryMode cfg) in
      if m \<notin> allowedEmbeddingModels then Inl ''unsupported embedding model''
      else if q \<notin> allowedQueryModes then Inl ''invalid query_mode''
      else Inr \<lparr>wc_EmbeddingModel = m, wc_ChunkSize = or_default DefaultChunkSize (wc_ChunkSize cfg), wc_ChunkOverlap = or_default 64 (wc_ChunkOverlap cfg),
                wc_QueryMode = q, wc_TopK = or_default DefaultTopK (wc_TopK cfg)\<rparr>)"

record CreateWorkspaceRequest =
  cwr_Name :: string
  cwr_Description :: string
  cwr_Config :: WorkspaceConfig

definition created_reply :: "CreateWorkspaceRequest \<Rightarrow> WorkspaceConfig \<Rightarrow> error + string \<Rightarrow> reply" where
  "created_reply q cfg res =
     (case res of
        Inl e \<Rightarrow> (if Contains (error_text e) ''unique'' \<or> Contains (error_text e) ''duplicate'' then gin_error 409 ''workspace already exists''
                 else gin_error 500 (error_text e))
      | Inr i \<Rightarrow> (201, VMap [(''id'', VStr i), (''name'', VStr (cwr_Name q)), (''description'', VStr (cwr_Description q)), (''config'', config_json cfg)]))"

definition CreateWorkspace :: "env \<Rightarrow> error \<Rightarrow> req_ctx \<Rightarrow> error + CreateWorkspaceRequest \<Rightarrow> tworld \<Rightarrow> reply \<times> tworld" where
  "CreateWorkspace ev verr c body w =
     (case tenantIDFromCtx c of
        None \<Rightarrow> (respondMissingTenant, w)
      | Some tid \<Rightarrow>
          (case body of
             Inl e \<Rightarrow> (gin_error 400 (error_text e), w)
           | Inr q \<Rightarrow>
               (if cwr_Name q = '''' then (gin_error 400 (error_text verr), w)
                else (case new_config (cwr_Config q) of
                  Inl msg \<Rightarrow> (gin_error 400 msg, w)
                | Inr cfg \<Rightarrow>
                    (case direct ev tid (ins_workspace (cwr_Name q) (cwr_Description q) cfg) w of
                       (res, w') \<Rightarrow> (created_reply q cfg res, w'))))))"

definition description_of :: "ws_row \<Rightarrow> string" where
  "description_of r = (case ws_Description r of None \<Rightarrow> '''' | Some s \<Rightarrow> s)"

definition workspace_json :: "ws_row \<Rightarrow> gval" where
  "workspace_json r =
     VMap [(''id'', VStr (ws_ID r)), (''name'', VStr (ws_Name r)), (''description'', VStr (description_of r)), (''config'', config_json (ws_Config r)),
           (''created_at'', VInt (ws_CreatedAt r)), (''updated_at'', VInt (ws_UpdatedAt r))]"

definition sel_workspaces :: "ws_row list tstmt" where
  "sel_workspaces t i d = (Inr (sort_key (\<lambda>r. - ws_CreatedAt r) (d_workspaces d)), d)"

text \<open>
  Reading the rows may end early: \<open>broken\<close> is the number of rows before the connection fails. The loop
  then ends as after the last row, since the code does not ask the rows for their error.
\<close>

definition rows_read :: "nat option \<Rightarrow> 'a list \<Rightarrow> 'a list" where
  "rows_read broken rs = (case broken of None \<Rightarrow> rs | Some n \<Rightarrow> take n rs)"

definition ListWorkspaces :: "env \<Rightarrow> nat option \<Rightarrow> req_ctx \<Rightarrow> tworld \<Rightarrow> reply \<times> tworld" where
  "ListWorkspaces ev broken c w =
     (case tenantIDFromCtx c of
        None \<Rightarrow> (respondMissingTenant, w)
      | Some tid \<Rightarrow>
          (case direct ev tid sel_workspaces w of
             (Inl e, w') \<Rightarrow> (gin_error 500 (error_text e), w')
           | (Inr rs, w') \<Rightarrow> ((200, VMap [(''workspaces'', VList (map workspace_json (rows_read broken rs)))]), w')))"

record UpdateWorkspaceRequest =
  uwr_Description :: "string option"
  uwr_Config :: "WorkspaceConfig option"

definition sel_workspace :: "string \<Rightarrow> ws_row tstmt" where
  "sel_workspace name t i d = (query_row (filter (\<lambda>r. ws_Name r = name) (d_workspaces d)), d)"

text \<open>The configuration that an update writes, or the text of its refusal.\<close>

definition merged_config :: "WorkspaceConfig \<Rightarrow> WorkspaceConfig option \<Rightarrow> string + WorkspaceConfig" where
  "merged_config cur oc =
     (case oc of
        None \<Rightarrow> Inr cur
      | Some cfg \<Rightarrow>
          (if wc_EmbeddingModel cfg \<noteq> '''' \<and> wc_EmbeddingModel cfg \<noteq> wc_EmbeddingModel cur then Inl ''embedding_model is immutable after creation''
           else if wc_QueryMode cfg \<noteq> '''' \<and> wc_QueryMode cfg \<notin> allowedQueryModes then Inl ''invalid query_mode''
           else Inr \<lparr>wc_EmbeddingModel = wc_EmbeddingModel cur, wc_ChunkSize = or_default (wc_ChunkSize cur) (wc_ChunkSize cfg),
                     wc_ChunkOverlap = or_default (wc_ChunkOverlap cur) (wc_ChunkOverlap cfg), wc_QueryMode = or_text (wc_QueryMode cur) (wc_QueryMode cfg),
                     wc_TopK = or_default (wc_TopK cur) (wc_TopK cfg)\<rparr>))"

definition upd_workspace :: "string option \<Rightarrow> WorkspaceConfig \<Rightarrow> string \<Rightarrow> unit tstmt" where
  "upd_workspace descr cfg name t i d =
     (Inr (), d\<lparr>d_workspaces := map_where (\<lambda>r. ws_Name r = name)
        (\<lambda>r. r\<lparr>ws_Description := (case descr of None \<Rightarrow> ws_Description r | Some s \<Rightarrow> Some s), ws_Config := cfg, ws_UpdatedAt := t\<rparr>) (d_workspaces d)\<rparr>)"

definition workspace_not_found :: reply where "workspace_not_found = gin_error 404 ''workspace not found''"

definition write_workspace :: "env \<Rightarrow> string \<Rightarrow> string \<Rightarrow> UpdateWorkspaceRequest \<Rightarrow> ws_row \<Rightarrow> tworld \<Rightarrow> reply \<times> tworld" where
  "write_workspace ev tid name q cur w =
     (case merged_config (ws_Config cur) (uwr_Config q) of
        Inl msg \<Rightarrow> (gin_error 400 msg, w)
      | Inr cfg \<Rightarrow>
          (case direct ev tid (upd_workspace (uwr_Description q) cfg name) w of
             (Inl e, w') \<Rightarrow> (gin_error 500 (error_text e), w')
           | (Inr _, w') \<Rightarrow> ((200, VMap [(''name'', VStr name), (''config'', config_json cfg)]), w')))"

definition UpdateWorkspace :: "env \<Rightarrow> req_ctx \<Rightarrow> string \<Rightarrow> error + UpdateWorkspaceRequest \<Rightarrow> tworld \<Rightarrow> reply \<times> tworld" where
  "UpdateWorkspace ev c name body w =
     (case tenantIDFromCtx c of
        None \<Rightarrow> (respondMissingTenant, w)
      | Some tid \<Rightarrow>
          (if name = '''' then (gin_error 400 ''workspace name required'', w)
           else (case body of
             Inl e \<Rightarrow> (gin_error 400 (error_text e), w)
           | Inr q \<Rightarrow>
               (case direct ev tid (sel_workspace name) w of
                  (Inl _, w1) \<Rightarrow> (workspace_not_found, w1)
                | (Inr cur, w1) \<Rightarrow> write_workspace ev tid name q cur w1))))"

text \<open>The statistics come from the graph, whose world is the second component.\<close>

definition stats_json :: "error + (string \<times> gval) list \<Rightarrow> gval" where
  "stats_json res = VMap (case res of Inl e \<Rightarrow> [(''error'', VStr (error_text e))] | Inr m \<Rightarrow> m)"

definition h_GetWorkspaceStats :: "env \<Rightarrow> 'w knowledge_base \<Rightarrow> req_ctx \<Rightarrow> string \<Rightarrow> tworld \<Rightarrow> 'w \<Rightarrow> reply go \<times> tworld \<times> 'w" where
  "h_GetWorkspaceStats ev kb c name w k =
     (case tenantIDFromCtx c of
        None \<Rightarrow> (Ret respondMissingTenant, w, k)
      | Some tid \<Rightarrow>
          (if name = '''' then (Ret (gin_error 400 ''workspace name required''), w, k)
           else (case direct ev tid (sel_workspace name) w of
             (Inl _, w1) \<Rightarrow> (Ret workspace_not_found, w1, k)
           | (Inr r, w1) \<Rightarrow>
               (case kb_GetWorkspaceStats kb name k of
                  (res, k1) \<Rightarrow>
                    (go_bind res (\<lambda>st. Ret (200, VMap [(''name'', VStr name), (''description'', VStr (description_of r)), (''config'', config_json (ws_Config r)),
                       (''stats'', stats_json st)])), w1, k1)))))"

text \<open>DELETE gives the number of rows; a row that an agent refers to is not removed.\<close>

definition del_workspace :: "string \<Rightarrow> nat tstmt" where
  "del_workspace name t i d =
     (if list_ex (\<lambda>r. ws_Name r = name \<and> ws_ID r \<in> snd ` set (d_ws_links d)) (d_workspaces d) then (Inl fk_violation, d)
      else (Inr (length (filter (\<lambda>r. ws_Name r = name) (d_workspaces d))), d\<lparr>d_workspaces := filter (\<lambda>r. ws_Name r \<noteq> name) (d_workspaces d)\<rparr>))"

definition DeleteWorkspace :: "env \<Rightarrow> req_ctx \<Rightarrow> string \<Rightarrow> tworld \<Rightarrow> reply \<times> tworld" where
  "DeleteWorkspace ev c name w =
     (case tenantIDFromCtx c of
        None \<Rightarrow> (respondMissingTenant, w)
      | Some tid \<Rightarrow>
          (if name = '''' then (gin_error 400 ''workspace parameter required'', w)
           else (case direct ev tid (del_workspace name) w of
             (Inl e, w') \<Rightarrow>
               (if errors_is e fk_violation then gin_error 409 ''workspace is still linked to one or more agents; unlink it first''
                else gin_error 500 (error_text e), w')
           | (Inr n, w') \<Rightarrow>
               (if n = 0 then workspace_not_found else (200, VMap [(''success'', VBool True), (''workspace'', VStr name)]), w'))))"

section \<open>Workspaces stay valid\<close>

text \<open>A statement needs to keep the promise only on the tables it meets.\<close>

text \<open>What a workspace reads is one of the rows.\<close>

lemma sel_workspace_Inr:
  assumes "t_stmt ev t0 s (sel_workspace name) w = (Inr r, w1)"
  obtains d where "tw_schemas w s = Some d" "tw_schemas w1 = tw_schemas w" "r \<in> set (d_workspaces d)" "ws_Name r = name"
proof -
  from t_stmt_Inr[OF assms] obtain d d' where d: "tw_schemas w s = Some d" "sel_workspace name t0 (ev_uuid ev (tw_calls w)) d = (Inr r, d')"
    "tw_schemas w1 = (tw_schemas w)(s \<mapsto> d')" by metis
  from d(2) have "r \<in> set (filter (\<lambda>r. ws_Name r = name) (d_workspaces d))" "d' = d"
    by (cases "filter (\<lambda>r. ws_Name r = name) (d_workspaces d)"; simp add: sel_workspace_def query_row_def)+
  with d that show thesis by (metis (mono_tags, lifting) fun_upd_triv mem_Collect_eq set_filter)
qed

context table_frame begin

lemma t_stmt_framed_at:
  assumes "\<And>t i d. tw_schemas w s = Some d \<Longrightarrow> R d (snd (st t i d))"
  shows "framed R s w (snd (t_stmt ev t0 s st w))"
proof (cases "tw_schemas w s")
  case None
  then show ?thesis by (simp add: t_stmt_def framed_def)
next
  case (Some d)
  obtain r d' where st: "st t0 (ev_uuid ev (tw_calls w)) d = (r, d')" by fastforce
  with assms[OF Some, of t0 "ev_uuid ev (tw_calls w)"] Some show ?thesis
    by (simp add: t_stmt_def framed_def R_refl split: fault.split)
qed

lemma update_framed:
  assumes tid: "tenantIDFromCtx c = Some tid"
    and upd: "\<And>d cur oc cfg descr t i. cur \<in> set (d_workspaces d) \<Longrightarrow> ws_Name cur = name \<Longrightarrow> merged_config (ws_Config cur) oc = Inr cfg \<Longrightarrow>
      R d (snd (upd_workspace descr cfg name t i d))"
  shows "framed R (chat_schema tid) w (snd (UpdateWorkspace ev c name body w))"
proof -
  have sel: "framed R (chat_schema tid) w w1" if "direct ev tid (sel_workspace name) w = (r, w1)" for r w1
    using that t_stmt_framed[of "sel_workspace name" "chat_schema tid" w ev "ev_clock ev (tw_calls w)"]
    by (simp add: direct_def sel_workspace_def R_refl)
  have wr: "framed R (chat_schema tid) w (snd (write_workspace ev tid name q cur w1))" if r: "direct ev tid (sel_workspace name) w = (Inr cur, w1)" for q cur w1
  proof (cases "merged_config (ws_Config cur) (uwr_Config q)")
    case (Inr cfg)
    from sel_workspace_Inr[OF r[unfolded direct_def]] obtain d where d: "tw_schemas w1 (chat_schema tid) = Some d" "cur \<in> set (d_workspaces d)" "ws_Name cur = name"
      by metis
    have "framed R (chat_schema tid) w1 (snd (t_stmt ev t0 (chat_schema tid) (upd_workspace descr cfg name) w1))" for t0 descr
      using d upd[OF _ _ Inr] by (intro t_stmt_framed_at) simp
    then show ?thesis using framed_trans[OF sel[OF r]] Inr by (simp add: write_workspace_def direct_def snd_case_sum)
  qed (simp add: write_workspace_def sel[OF r])
  show ?thesis using tid sel wr unfolding UpdateWorkspace_def
    by (auto simp: framed_refl split: sum.split prod.split)
qed

end

definition ws_valid :: "WorkspaceConfig \<Rightarrow> bool" where
  "ws_valid c \<longleftrightarrow> wc_EmbeddingModel c \<in> allowedEmbeddingModels \<and> wc_QueryMode c \<in> allowedQueryModes \<and>
     0 < wc_ChunkSize c \<and> 0 < wc_ChunkOverlap c \<and> 0 < wc_TopK c"

definition rag_ok :: "ten_db \<Rightarrow> bool" where
  "rag_ok d \<longleftrightarrow> tables_ok d \<and> (\<forall>r\<in>set (d_workspaces d). ws_valid (ws_Config r))"

definition rag_kept :: "ten_db \<Rightarrow> ten_db \<Rightarrow> bool" where
  "rag_kept d d' \<longleftrightarrow> (rag_ok d \<longrightarrow> rag_ok d')"

interpretation rag: table_frame rag_kept
  by unfold_locales (auto simp: rag_kept_def)

lemma new_config_valid: "new_config c = Inr cfg \<Longrightarrow> ws_valid cfg"
  by (auto simp: new_config_def ws_valid_def or_default_def DefaultChunkSize_def DefaultTopK_def Let_def split: if_splits)

lemma merged_config_valid: "ws_valid cur \<Longrightarrow> merged_config cur oc = Inr cfg \<Longrightarrow> ws_valid cfg"
  by (auto simp: merged_config_def ws_valid_def or_default_def or_text_def split: option.splits if_splits)

lemma merged_config_model: "merged_config cur oc = Inr cfg \<Longrightarrow> wc_EmbeddingModel cfg = wc_EmbeddingModel cur"
  by (auto simp: merged_config_def split: option.splits if_splits)

lemma links_ok_Un: "links_ok ls A B \<Longrightarrow> B \<subseteq> C \<Longrightarrow> links_ok ls A C"
  by (auto simp: links_ok_def)

lemma tables_ok_workspaces:
  assumes "tables_ok d" "distinct (map ws_ID ws)" "distinct (map ws_Name ws)" "links_ok (d_ws_links d) (ag_ID ` set (d_agents d)) (ws_ID ` set ws)"
  shows "tables_ok (d\<lparr>d_workspaces := ws\<rparr>)"
  using assms by (simp add: tables_ok_def)

lemma tables_okD_ws:
  "tables_ok d \<Longrightarrow> distinct (map ws_ID (d_workspaces d))" "tables_ok d \<Longrightarrow> distinct (map ws_Name (d_workspaces d))"
  "tables_ok d \<Longrightarrow> links_ok (d_ws_links d) (ag_ID ` set (d_agents d)) (ws_ID ` set (d_workspaces d))"
  by (simp_all add: tables_ok_def)

lemma ins_workspace_kept:
  assumes v: "ws_valid cfg"
  shows "rag_kept d (snd (ins_workspace name descr cfg t i d))"
proof (cases "list_ex (\<lambda>r. ws_Name r = name \<or> ws_ID r = i) (d_workspaces d)")
  case False
  let ?r = "\<lparr>ws_ID = i, ws_Name = name, ws_Description = Some descr, ws_Config = cfg, ws_CreatedAt = t, ws_UpdatedAt = t\<rparr>"
  from False have new: "i \<notin> ws_ID ` set (d_workspaces d)" "name \<notin> ws_Name ` set (d_workspaces d)" by (auto simp: list_ex_iff)
  have "tables_ok (d\<lparr>d_workspaces := d_workspaces d @ [?r]\<rparr>)" if ok: "tables_ok d"
  proof (rule tables_ok_workspaces[OF ok])
    show "links_ok (d_ws_links d) (ag_ID ` set (d_agents d)) (ws_ID ` set (d_workspaces d @ [?r]))"
      by (rule links_ok_Un[OF tables_okD_ws(3)[OF ok]]) auto
  qed (use tables_okD_ws(1,2)[OF ok] new in simp_all)
  with False v show ?thesis unfolding rag_kept_def rag_ok_def ins_workspace_def by auto
qed (simp add: ins_workspace_def rag_kept_def)

lemma upd_workspace_kept:
  assumes v: "ws_valid cfg"
  shows "rag_kept d (snd (upd_workspace descr cfg name t i d))"
proof -
  define f :: "ws_row \<Rightarrow> ws_row" where "f = (\<lambda>r. r\<lparr>ws_Description := (case descr of None \<Rightarrow> ws_Description r | Some s \<Rightarrow> Some s), ws_Config := cfg, ws_UpdatedAt := t\<rparr>)"
  let ?ws = "map_where (\<lambda>r. ws_Name r = name) f (d_workspaces d)"
  have same: "map ws_ID ?ws = map ws_ID (d_workspaces d)" "map ws_Name ?ws = map ws_Name (d_workspaces d)"
    by (simp_all add: map_where_def f_def)
  then have ids: "ws_ID ` set ?ws = ws_ID ` set (d_workspaces d)" by (metis list.set_map)
  have "tables_ok (d\<lparr>d_workspaces := ?ws\<rparr>)" if ok: "tables_ok d"
    using tables_okD_ws[OF ok] by (intro tables_ok_workspaces[OF ok]; simp only: same ids)
  moreover have "ws_valid (ws_Config r)" if "r \<in> set ?ws" "\<forall>r\<in>set (d_workspaces d). ws_valid (ws_Config r)" for r
    using that v by (auto simp: set_map_where f_def split: if_splits)
  ultimately show ?thesis by (simp add: rag_kept_def rag_ok_def upd_workspace_def f_def[symmetric])
qed

lemma del_workspace_kept: "rag_kept d (snd (del_workspace name t i d))"
proof (cases "list_ex (\<lambda>r. ws_Name r = name \<and> ws_ID r \<in> snd ` set (d_ws_links d)) (d_workspaces d)")
  case False
  let ?ws = "filter (\<lambda>r. ws_Name r \<noteq> name) (d_workspaces d)"
  have "tables_ok (d\<lparr>d_workspaces := ?ws\<rparr>)" if ok: "tables_ok d"
  proof (rule tables_ok_workspaces[OF ok])
    show "links_ok (d_ws_links d) (ag_ID ` set (d_agents d)) (ws_ID ` set ?ws)"
      unfolding links_ok_def
    proof (intro conjI subrelI)
      show "distinct (d_ws_links d)" using tables_okD_ws(3)[OF ok] by (simp add: links_ok_def)
      fix a u assume l: "(a, u) \<in> set (d_ws_links d)"
      then obtain r where r: "r \<in> set (d_workspaces d)" "u = ws_ID r" "a \<in> ag_ID ` set (d_agents d)"
        using tables_okD_ws(3)[OF ok] by (auto simp: links_ok_def)
      then have "ws_Name r \<noteq> name" using False l by (force simp: list_ex_iff)
      with r show "(a, u) \<in> ag_ID ` set (d_agents d) \<times> ws_ID ` set ?ws" by simp
    qed
  qed (rule distinct_map_filterI, rule tables_okD_ws[OF ok])+
  moreover have "snd (del_workspace name t i d) = d\<lparr>d_workspaces := ?ws\<rparr>" using False by (simp only: del_workspace_def if_False snd_conv)
  ultimately show ?thesis by (simp add: rag_kept_def rag_ok_def)
qed (simp add: del_workspace_def rag_kept_def)

datatype rag_call =
    CreateWs "error + CreateWorkspaceRequest"
  | ListWs "nat option"
  | UpdateWs string "error + UpdateWorkspaceRequest"
  | DeleteWs string

fun serve_rag :: "env \<Rightarrow> error \<Rightarrow> req_ctx \<Rightarrow> rag_call \<Rightarrow> tworld \<Rightarrow> reply \<times> tworld" where
  "serve_rag ev verr c (CreateWs body) w = CreateWorkspace ev verr c body w"
| "serve_rag ev verr c (ListWs broken) w = ListWorkspaces ev broken c w"
| "serve_rag ev verr c (UpdateWs name body) w = UpdateWorkspace ev c name body w"
| "serve_rag ev verr c (DeleteWs name) w = DeleteWorkspace ev c name w"


lemma CreateWorkspace_framed:
  assumes "tenantIDFromCtx c = Some tid"
  shows "framed rag_kept (chat_schema tid) w (snd (CreateWorkspace ev verr c body w))"
  using assms unfolding CreateWorkspace_def direct_def
  by (auto simp: rag.framed_refl split_beta split: sum.split intro!: rag.t_stmt_framed ins_workspace_kept dest: new_config_valid)

lemma ListWorkspaces_framed:
  assumes "tenantIDFromCtx c = Some tid"
  shows "framed rag_kept (chat_schema tid) w (snd (ListWorkspaces ev broken c w))"
  using assms rag.t_stmt_framed[of sel_workspaces "chat_schema tid" w ev]
  by (simp add: ListWorkspaces_def direct_def snd_case_sum sel_workspaces_def rag_kept_def)

lemma DeleteWorkspace_framed:
  assumes "tenantIDFromCtx c = Some tid"
  shows "framed rag_kept (chat_schema tid) w (snd (DeleteWorkspace ev c name w))"
  using assms unfolding DeleteWorkspace_def direct_def
  by (auto simp: rag.framed_refl snd_case_sum intro!: rag.t_stmt_framed del_workspace_kept)

lemma UpdateWorkspace_framed:
  assumes "tenantIDFromCtx c = Some tid"
  shows "framed rag_kept (chat_schema tid) w (snd (UpdateWorkspace ev c name body w))"
proof (rule rag.update_framed[OF assms])
  fix d :: ten_db and cur oc cfg descr t i
  assume "cur \<in> set (d_workspaces d)" "merged_config (ws_Config cur) oc = Inr cfg"
  then show "rag_kept d (snd (upd_workspace descr cfg name t i d))"
    by (metis merged_config_valid rag_kept_def rag_ok_def upd_workspace_kept)
qed

lemma serve_rag_framed:
  "tenantIDFromCtx c = Some tid \<Longrightarrow> framed rag_kept (chat_schema tid) w (snd (serve_rag ev verr c q w))"
  by (cases q) (simp_all add: CreateWorkspace_framed ListWorkspaces_framed UpdateWorkspace_framed DeleteWorkspace_framed)

text \<open>C30: Whatever a request for workspaces asks and whatever fails on the way, it changes no other tenant's
  tables, leaves all keys and references of its tenant intact, and every workspace has an allowed
  embedding model and query mode and positive sizes.
\<close>

theorem workspaces_stay_valid:
  assumes "tenantIDFromCtx c = Some tid" "tw_schemas w (chat_schema tid) = Some d" "rag_ok d" "serve_rag ev verr c q w = (rep, w')"
  shows "\<exists>d'. tw_schemas w' = (tw_schemas w)(chat_schema tid \<mapsto> d') \<and> tables_ok d' \<and> (\<forall>r\<in>set (d_workspaces d'). ws_valid (ws_Config r))"
proof -
  have fr: "framed rag_kept (chat_schema tid) w w'" using serve_rag_framed[OF assms(1), of w ev verr q] assms(4) by simp
  from framed_Some[OF fr assms(2)] assms(3) obtain d' where d': "tw_schemas w' (chat_schema tid) = Some d'" "rag_ok d'" by (auto simp: rag_kept_def)
  then have "tw_schemas w' = (tw_schemas w)(chat_schema tid \<mapsto> d')" using framed_other[OF fr] by (auto simp: fun_eq_iff)
  with d'(2) show ?thesis by (auto simp: rag_ok_def)
qed

text \<open>An update keeps the embedding model, even for a workspace whose configuration is not valid.\<close>

definition ws_key :: "ws_row \<Rightarrow> string \<times> string \<times> string" where
  "ws_key r = (ws_ID r, ws_Name r, wc_EmbeddingModel (ws_Config r))"

definition models_kept :: "ten_db \<Rightarrow> ten_db \<Rightarrow> bool" where
  "models_kept d d' \<longleftrightarrow> (distinct (map ws_Name (d_workspaces d)) \<longrightarrow> map ws_key (d_workspaces d') = map ws_key (d_workspaces d))"

lemma ws_key_name: "map ws_key xs = map ws_key ys \<Longrightarrow> map ws_Name xs = map ws_Name ys"
proof -
  have "map ws_Name zs = map (fst \<circ> snd) (map ws_key zs)" for zs by (simp add: ws_key_def)
  then show "map ws_key xs = map ws_key ys \<Longrightarrow> map ws_Name xs = map ws_Name ys" by metis
qed

interpretation models: table_frame models_kept
  by unfold_locales (auto simp: models_kept_def dest: ws_key_name)

lemma upd_workspace_models:
  assumes "cur \<in> set (d_workspaces d)" "ws_Name cur = name" "merged_config (ws_Config cur) oc = Inr cfg"
  shows "models_kept d (snd (upd_workspace descr cfg name t i d))"
proof -
  have "r = cur" if "distinct (map ws_Name (d_workspaces d))" "r \<in> set (d_workspaces d)" "ws_Name r = name" for r
    using that assms(1,2) by (metis distinct_map inj_on_def)
  then show ?thesis using merged_config_model[OF assms(3)]
    by (auto simp: models_kept_def upd_workspace_def map_where_def ws_key_def)
qed

text \<open>No update, whatever its body and whatever fails, adds, removes or renames a workspace or changes the
  embedding model of one.
\<close>

theorem embedding_model_immutable:
  assumes "tenantIDFromCtx c = Some tid" "tw_schemas w (chat_schema tid) = Some d" "distinct (map ws_Name (d_workspaces d))"
    and "UpdateWorkspace ev c name body w = (rep, w')"
  shows "\<exists>d'. tw_schemas w' (chat_schema tid) = Some d' \<and>
    map (\<lambda>r. (ws_ID r, ws_Name r, wc_EmbeddingModel (ws_Config r))) (d_workspaces d') =
    map (\<lambda>r. (ws_ID r, ws_Name r, wc_EmbeddingModel (ws_Config r))) (d_workspaces d)"
proof -
  have "framed models_kept (chat_schema tid) w (snd (UpdateWorkspace ev c name body w))"
    by (rule models.update_framed[OF assms(1)]) (rule upd_workspace_models)
  from framed_Some[OF this assms(2)] assms(3,4) show ?thesis unfolding models_kept_def ws_key_def by simp
qed

section \<open>A created workspace\<close>

lemma unique_text: "Contains (error_text unique_violation) ''unique''"
  unfolding Contains_def sublist_def unique_violation_def by (rule exI[of _ "''violates ''"], rule exI[of _ "'' constraint''"]) simp

text \<open>Without failures, a workspace that was created is listed with its description and its configuration,
  the defaults filled in, and creating another one of that name is a conflict.
\<close>

theorem created_workspace_is_listed:
  assumes "\<forall>n. ev_fault ev n = Works" "tenantIDFromCtx c = Some tid" "tw_schemas w (chat_schema tid) = Some d"
    and cr: "CreateWorkspace ev verr c (Inr q) w = ((201, rep), w')"
  shows "\<exists>cfg i rows w''. new_config (cwr_Config q) = Inr cfg \<and>
    ListWorkspaces ev None c w' = ((200, VMap [(''workspaces'', VList (map workspace_json rows))]), w'') \<and>
    \<lparr>ws_ID = i, ws_Name = cwr_Name q, ws_Description = Some (cwr_Description q), ws_Config = cfg,
     ws_CreatedAt = ev_clock ev (tw_calls w), ws_UpdatedAt = ev_clock ev (tw_calls w)\<rparr> \<in> set rows \<and>
    fst (CreateWorkspace ev verr c (Inr q) w') = gin_error 409 ''workspace already exists''"
proof -
  let ?s = "chat_schema tid" and ?i = "ev_uuid ev (tw_calls w)" and ?t = "ev_clock ev (tw_calls w)"
  from cr assms(2) obtain cfg where cfg: "new_config (cwr_Config q) = Inr cfg" and n: "cwr_Name q \<noteq> ''''"
    by (auto simp: CreateWorkspace_def gin_error_def split: sum.splits if_splits)
  let ?r = "\<lparr>ws_ID = ?i, ws_Name = cwr_Name q, ws_Description = Some (cwr_Description q), ws_Config = cfg, ws_CreatedAt = ?t, ws_UpdatedAt = ?t\<rparr>"
  have new: "\<not> list_ex (\<lambda>r. ws_Name r = cwr_Name q \<or> ws_ID r = ?i) (d_workspaces d)"
    using cr assms(2) n cfg by (auto simp: CreateWorkspace_def direct_def t_stmt_works[OF assms(1,3)] ins_workspace_def created_reply_def gin_error_def split: if_splits)
  then have w': "w' = ttick (w\<lparr>tw_schemas := (tw_schemas w)(?s \<mapsto> d\<lparr>d_workspaces := d_workspaces d @ [?r]\<rparr>)\<rparr>)"
    using cr assms(2) n cfg by (simp add: CreateWorkspace_def direct_def t_stmt_works[OF assms(1,3)] ins_workspace_def)
  then have s: "tw_schemas w' ?s = Some (d\<lparr>d_workspaces := d_workspaces d @ [?r]\<rparr>)" by simp
  have ls: "\<exists>w''. ListWorkspaces ev None c w' =
      ((200, VMap [(''workspaces'', VList (map workspace_json (sort_key (\<lambda>r. - ws_CreatedAt r) (d_workspaces d @ [?r]))))]), w'')"
    using assms(2) by (simp add: ListWorkspaces_def direct_def t_stmt_works[OF assms(1) s] sel_workspaces_def rows_read_def)
  have "fst (CreateWorkspace ev verr c (Inr q) w') = gin_error 409 ''workspace already exists''"
    using assms(2) n cfg unique_text by (simp add: CreateWorkspace_def direct_def t_stmt_works[OF assms(1) s] ins_workspace_def created_reply_def)
  with cfg ls show ?thesis
    by (intro exI[of _ cfg] exI[of _ ?i] exI[of _ "sort_key (\<lambda>r. - ws_CreatedAt r) (d_workspaces d @ [?r])"]) auto
qed

definition demo_ws_request :: CreateWorkspaceRequest where
  "demo_ws_request = \<lparr>cwr_Name = ''docs'', cwr_Description = ''all of them'',
     cwr_Config = \<lparr>wc_EmbeddingModel = '''', wc_ChunkSize = 0, wc_ChunkOverlap = 0, wc_QueryMode = ''graph'', wc_TopK = 9\<rparr>\<rparr>"

lemmas demo_ws_defs = demo_ws_request_def new_config_def or_text_def or_default_def allowedEmbeddingModels_def allowedQueryModes_def

lemma demo_ws_created:
  obtains rep w' where "CreateWorkspace demo_env (ErrorString '''') (request_of ''t1'' ''u1'') (Inr demo_ws_request) demo_tworld = ((201, rep), w')"
  using demo_request(1)[of "''u1''"]
  by (simp add: CreateWorkspace_def direct_def t_stmt_works[OF demo_works demo_tables_at] ins_workspace_def demo_tables_def
      Tenant_Tables.empty_tenant_def demo_ws_defs created_reply_def)

theorem workspaces_stay_valid_witness:
  "\<exists>d'. tw_schemas (snd (serve_rag demo_env (ErrorString '''') (request_of ''t1'' ''u1'') (CreateWs (Inr demo_ws_request)) demo_tworld)) =
     (tw_schemas demo_tworld)(chat_schema ''t1'' \<mapsto> d') \<and> tables_ok d' \<and> (\<forall>r\<in>set (d_workspaces d'). ws_valid (ws_Config r))"
proof -
  have "rag_ok demo_tables" using tables_ok_demo by (simp add: rag_ok_def demo_tables_def Tenant_Tables.empty_tenant_def)
  from workspaces_stay_valid[OF demo_request(1) demo_tables_at this] show ?thesis by (metis prod.collapse)
qed

theorem created_workspace_is_listed_witness:
  "\<exists>rep w'. CreateWorkspace demo_env (ErrorString '''') (request_of ''t1'' ''u1'') (Inr demo_ws_request) demo_tworld = ((201, rep), w') \<and>
    fst (CreateWorkspace demo_env (ErrorString '''') (request_of ''t1'' ''u1'') (Inr demo_ws_request) w') = gin_error 409 ''workspace already exists''"
proof -
  obtain rep w' where c: "CreateWorkspace demo_env (ErrorString '''') (request_of ''t1'' ''u1'') (Inr demo_ws_request) demo_tworld = ((201, rep), w')"
    by (rule demo_ws_created)
  from created_workspace_is_listed[OF demo_works demo_request(1) demo_tables_at c] c show ?thesis by blast
qed

theorem embedding_model_immutable_witness:
  "\<exists>rep w' w'' d'. CreateWorkspace demo_env (ErrorString '''') (request_of ''t1'' ''u1'') (Inr demo_ws_request) demo_tworld = ((201, rep), w') \<and>
    snd (UpdateWorkspace demo_env (request_of ''t1'' ''u1'') ''docs'' (Inr \<lparr>uwr_Description = Some ''x'', uwr_Config = None\<rparr>) w') = w'' \<and>
    tw_schemas w'' (chat_schema ''t1'') = Some d' \<and> map (\<lambda>r. wc_EmbeddingModel (ws_Config r)) (d_workspaces d') = [''text-embedding-v3'']"
proof -
  obtain rep w' where c: "CreateWorkspace demo_env (ErrorString '''') (request_of ''t1'' ''u1'') (Inr demo_ws_request) demo_tworld = ((201, rep), w')"
    by (rule demo_ws_created)
  obtain d where d: "tw_schemas w' (chat_schema ''t1'') = Some d" "map ws_Name (d_workspaces d) = [''docs'']"
      "map (\<lambda>r. wc_EmbeddingModel (ws_Config r)) (d_workspaces d) = [''text-embedding-v3'']"
    using c demo_request(1)[of "''u1''"]
    by (auto simp: CreateWorkspace_def direct_def t_stmt_works[OF demo_works demo_tables_at] ins_workspace_def demo_tables_def
        Tenant_Tables.empty_tenant_def demo_ws_defs created_reply_def)
  obtain rep2 w'' where u: "UpdateWorkspace demo_env (request_of ''t1'' ''u1'') ''docs'' (Inr \<lparr>uwr_Description = Some ''x'', uwr_Config = None\<rparr>) w' = (rep2, w'')"
    by fastforce
  from embedding_model_immutable[OF demo_request(1) d(1) _ u] d(2) obtain d' where d': "tw_schemas w'' (chat_schema ''t1'') = Some d'"
    "map (\<lambda>r. (ws_ID r, ws_Name r, wc_EmbeddingModel (ws_Config r))) (d_workspaces d') =
     map (\<lambda>r. (ws_ID r, ws_Name r, wc_EmbeddingModel (ws_Config r))) (d_workspaces d)" by auto
  let ?key = "\<lambda>r. (ws_ID r, ws_Name r, wc_EmbeddingModel (ws_Config r))"
  have "map (\<lambda>r. wc_EmbeddingModel (ws_Config r)) (d_workspaces d') = map (snd \<circ> snd) (map ?key (d_workspaces d'))" by simp
  also have "\<dots> = map (snd \<circ> snd) (map ?key (d_workspaces d))" by (simp only: d'(2))
  also have "\<dots> = [''text-embedding-v3'']" using d(3) by (simp add: o_def)
  finally have "map (\<lambda>r. wc_EmbeddingModel (ws_Config r)) (d_workspaces d') = [''text-embedding-v3'']" .
  with c u d'(1) show ?thesis by auto
qed

text \<open>A connection that breaks while the rows are read gives a shorter list and no error.\<close>

lemma broken_list_is_ok:
  assumes "\<forall>n. ev_fault ev n = Works" "tenantIDFromCtx c = Some tid" "tw_schemas w (chat_schema tid) = Some d"
  shows "fst (ListWorkspaces ev (Some 0) c w) = (200, VMap [(''workspaces'', VList [])])"
  using assms(2) by (simp add: ListWorkspaces_def direct_def t_stmt_works[OF assms(1,3)] sel_workspaces_def rows_read_def)

lemma linked_workspace_stays:
  assumes "\<forall>n. ev_fault ev n = Works" "tenantIDFromCtx c = Some tid" "tw_schemas w (chat_schema tid) = Some d"
    and "r \<in> set (d_workspaces d)" "ws_ID r \<in> snd ` set (d_ws_links d)" "ws_Name r \<noteq> ''''"
  shows "\<exists>w'. DeleteWorkspace ev c (ws_Name r) w = (gin_error 409 ''workspace is still linked to one or more agents; unlink it first'', w') \<and>
    tw_schemas w' = tw_schemas w"
proof -
  have "list_ex (\<lambda>r'. ws_Name r' = ws_Name r \<and> ws_ID r' \<in> snd ` set (d_ws_links d)) (d_workspaces d)" using assms(4,5) by (auto simp: list_ex_iff)
  then have "del_workspace (ws_Name r) t i d = (Inl fk_violation, d)" for t i by (simp only: del_workspace_def if_True)
  then have "direct ev tid (del_workspace (ws_Name r)) w = (Inl fk_violation, ttick (w\<lparr>tw_schemas := (tw_schemas w)(chat_schema tid \<mapsto> d)\<rparr>))"
    by (simp add: direct_def t_stmt_works[OF assms(1,3)])
  then show ?thesis using assms(2,3,6) by (simp add: DeleteWorkspace_def fk_violation_def fun_upd_idem)
qed

section \<open>A query that finds something\<close>

lemma assign_nothing: "assign_items 0 [] xs = (if xs = [] then Ret [] else Panic (index_panic 0 0))"
  by (cases xs) simp_all

text \<open>The handler of queries answers with status 200 only when nothing was found: as soon as the search
  returns a source or an entity, writing it into the answer panics.
\<close>

theorem query_answers_only_nothing:
  assumes "tenantIDFromCtx c = Some tid" "valid_query q" "Query se kb (rc_tenant c) latency (rag_request tid q) w = (Ret (Ret (Inr r)), w1)"
  shows "h_Query se kb num verr latency c (Inr q) w =
    (if rr_Sources r = [] \<and> rr_GraphContext r = []
     then (Ret (Ret (200, VMap [(''answer'', VStr (rr_Answer r)), (''sources'', VList []), (''graph_context'', VList []), (''mode'', VStr (rr_Mode r)),
             (''latency_ms'', VInt (rr_Latency r div 10 ^ 6))])), w1)
     else (Ret (Panic ''runtime error: index out of range [0] with length 0''), w1))"
proof -
  have "index_panic 0 0 = ''runtime error: index out of range [0] with length 0''" by code_simp
  then show ?thesis using assms by (simp add: h_Query_def query_reply_def assign_nothing)
qed

definition found_one :: "nat milvus" where
  "found_one = demo_milvus\<lparr>mv_Search := \<lambda>n v k w. Inr [\<lparr>sa_ResultCount = 1, sa_Fields =
      \<lparr>cl_ids = Some [''d1_chunk_0''], cl_contents = Some [''go''], cl_sources = None, cl_chunks = None\<rparr>, sa_Scores = [1]\<rparr>]\<rparr>"

theorem query_answers_only_nothing_witness:
  "\<exists>w1. h_Query \<lparr>se_sort = id, se_sort2 = id, se_order = \<lambda>a b. []\<rparr>
     ((demo_kb None)\<lparr>kb_store := (NewVectorStore ''milvus'' ''19530'')\<lparr>vs_client := Some found_one\<rparr>\<rparr>) (\<lambda>_. VNil) (\<lambda>_. ErrorString '''') 3 (request_of ''t1'' ''u1'')
     (Inr \<lparr>qr_Question = ''q'', qr_Workspace = ''docs'', qr_Mode = ''vector'', qr_TopK = 0\<rparr>) 0 =
   (Ret (Panic ''runtime error: index out of range [0] with length 0''), w1)"
proof -
  let ?q = "\<lparr>qr_Question = ''q'', qr_Workspace = ''docs'', qr_Mode = ''vector'', qr_TopK = 0\<rparr>"
  let ?kb = "(demo_kb None)\<lparr>kb_store := (NewVectorStore ''milvus'' ''19530'')\<lparr>vs_client := Some found_one\<rparr>\<rparr>"
  have v: "valid_query ?q" by (simp add: valid_query_def)
  obtain r w1 where q: "Query \<lparr>se_sort = id, se_sort2 = id, se_order = \<lambda>a b. []\<rparr> ?kb (rc_tenant (request_of ''t1'' ''u1'')) 3 (rag_request ''t1'' ?q) 0 = (Ret (Ret (Inr r)), w1)"
    and s: "rr_Sources r \<noteq> []"
    by (simp add: Query_def rag_request_def DefaultTopK_def lift_go_def queryVector_def EmbedVector_def demo_kb_def demo_embedder_def embed_request_def
        vs_Search_def with_client_def found_one_def demo_milvus_def NewVectorStore_def answer_rows_def row_at_def col_at_def usable_def with_results_def Let_def)
  from query_answers_only_nothing[OF demo_request(1) v q, where num = "\<lambda>_. VNil" and verr = "\<lambda>_. ErrorString ''''"] s show ?thesis by auto
qed

end
