(* ===== verification/Skill_Analyzer.thy ===== *)
theory Skill_Analyzer
  imports LLM_Gateway
begin

text \<open>
  The static check of code skills, internal/skill/analyzer.go: forbidden imports and builtins of
  Python, forbidden globals and patterns of JavaScript. The check works on the bytes of the text.

  Proved: \<open>containsToken\<close> finds a name exactly when it stands somewhere without an identifier
  character before or after it; a text is accepted exactly when none of the listed constructs occurs;
  the check is blind to imports that are written with other white space or after another module.
\<close>

record AnalysisResult =
  an_Safe :: bool
  an_Reasons :: "string list"

definition isIdentChar :: "nat \<Rightarrow> bool" where
  "isIdentChar r \<longleftrightarrow> 97 \<le> r \<and> r \<le> 122 \<or> 65 \<le> r \<and> r \<le> 90 \<or> 48 \<le> r \<and> r \<le> 57 \<or> r = 95"

text \<open>One byte of the text as a rune.\<close>

definition ident_at :: "string \<Rightarrow> nat \<Rightarrow> bool" where
  "ident_at code i \<longleftrightarrow> isIdentChar (byte (code ! i))"

text \<open>The search loop; the names of the lists are not empty, so that the slice is always in range.\<close>

function token_from :: "string \<Rightarrow> string \<Rightarrow> nat \<Rightarrow> bool" where
  "token_from code name idx =
     (if idx > length code then False
      else case str_index (drop idx code) name of
        None \<Rightarrow> False
      | Some pos \<Rightarrow>
          (let p = idx + pos;
               before = (p = 0 \<or> \<not> ident_at code (p - 1));
               after = (p + length name \<ge> length code \<or> \<not> ident_at code (p + length name))
           in if before \<and> after then True else token_from code name (p + 1)))"
  by pat_completeness auto
termination
  by (relation "measure (\<lambda>(code, name, idx). Suc (length code) - idx)") auto

declare token_from.simps [simp del]

definition containsToken :: "string \<Rightarrow> string \<Rightarrow> bool" where
  "containsToken code name = token_from code name 0"

definition containsPyImport :: "string \<Rightarrow> string \<Rightarrow> bool" where
  "containsPyImport code modl \<longleftrightarrow>
     list_ex (\<lambda>line. let trimmed = TrimSpace line in
         HasPrefix trimmed (''import '' @ modl) \<or> HasPrefix trimmed (''from '' @ modl @ '' '') \<or> HasPrefix trimmed (''from '' @ modl @ ''.''))
       (split_lines code)"

definition pyForbiddenImports :: "string list" where
  "pyForbiddenImports = [''os'', ''sys'', ''subprocess'', ''shutil'', ''socket'', ''urllib'', ''http'', ''requests'', ''ctypes'',
     ''threading'', ''multiprocessing'', ''signal'', ''resource'', ''pathlib'', ''importlib'', ''builtins'']"

definition pyForbiddenBuiltins :: "string list" where
  "pyForbiddenBuiltins = [''exec'', ''eval'', ''compile'', ''open'', ''__import__'', ''globals'', ''locals'', ''vars'', ''getattr'', ''setattr'',
     ''delattr'', ''dir'']"

definition reasons_for :: "string \<Rightarrow> (string \<Rightarrow> bool) \<Rightarrow> string list \<Rightarrow> string list" where
  "reasons_for p found names = map (\<lambda>n. p @ n) (filter found names)"

definition result_of :: "string list \<Rightarrow> AnalysisResult" where
  "result_of reasons = \<lparr>an_Safe = (length reasons = 0), an_Reasons = reasons\<rparr>"

definition checkPython :: "string \<Rightarrow> AnalysisResult" where
  "checkPython code =
     result_of (reasons_for ''forbidden import: '' (containsPyImport code) pyForbiddenImports @
       reasons_for ''forbidden builtin: '' (containsToken code) pyForbiddenBuiltins)"

definition jsForbiddenAccessors :: "string list" where "jsForbiddenAccessors = [''process'', ''global'', ''Buffer'']"

definition jsForbiddenCalls :: "string list" where
  "jsForbiddenCalls = [''require'', ''XMLHttpRequest'', ''fetch'', ''WebSocket'', ''Worker'', ''importScripts'']"

definition jsForbiddenTokens :: "string list" where "jsForbiddenTokens = [''__dirname'', ''__filename'']"

definition jsForbiddenPatterns :: "string list" where "jsForbiddenPatterns = [''new Function('', ''__proto__'', ''prototype.constructor'']"

definition checkJS :: "string \<Rightarrow> AnalysisResult" where
  "checkJS code =
     result_of (reasons_for ''forbidden global: '' (\<lambda>g. has_match code (g @ ''.'') \<or> has_match code (g @ ''['')) jsForbiddenAccessors @
       reasons_for ''forbidden global: '' (containsToken code) jsForbiddenCalls @
       reasons_for ''forbidden global: '' (containsToken code) jsForbiddenTokens @
       reasons_for ''forbidden pattern: '' (has_match code) jsForbiddenPatterns)"

definition Check :: "string \<Rightarrow> string \<Rightarrow> AnalysisResult" where
  "Check lang code =
     (if lang = ''python'' then checkPython code
      else if lang = ''javascript'' then checkJS code
      else \<lparr>an_Safe = False, an_Reasons = [''unsupported language: '' @ lang]\<rparr>)"

section \<open>Tokens\<close>

text \<open>The reference: a name at a position with no identifier character next to it.\<close>

definition occurs_at :: "string \<Rightarrow> string \<Rightarrow> nat \<Rightarrow> bool" where
  "occurs_at code name i \<longleftrightarrow> i + length name \<le> length code \<and> take (length name) (drop i code) = name"

definition token_at :: "string \<Rightarrow> string \<Rightarrow> nat \<Rightarrow> bool" where
  "token_at code name i \<longleftrightarrow> occurs_at code name i \<and> (i = 0 \<or> \<not> ident_at code (i - 1)) \<and>
     (i + length name = length code \<or> \<not> ident_at code (i + length name))"

lemma occurs_at_take: "name \<noteq> [] \<Longrightarrow> occurs_at code name i \<longleftrightarrow> take (length name) (drop i code) = name"
proof -
  assume "name \<noteq> []"
  then have "i + length name \<le> length code" if "take (length name) (drop i code) = name"
  proof -
    have "min (length code - i) (length name) = length name" using arg_cong[OF that, of length] by simp
    moreover have "0 < length name" using \<open>name \<noteq> []\<close> by simp
    ultimately show ?thesis by linarith
  qed
  then show ?thesis by (auto simp: occurs_at_def)
qed

lemma str_index_least: "str_index s pat = Some i \<Longrightarrow> j < i \<Longrightarrow> take (length pat) (drop j s) \<noteq> pat"
proof (induction s arbitrary: i j)
  case Nil
  then show ?case by (simp add: str_index.simps split: if_splits)
next
  case (Cons c s)
  then show ?case
    by (cases j) (subst (asm) (2) str_index.simps, auto split: if_splits)+
qed

lemma str_index_None: "str_index s pat = None \<Longrightarrow> take (length pat) (drop j s) \<noteq> pat"
proof (induction s arbitrary: j)
  case Nil
  then show ?case by (simp add: str_index.simps split: if_splits)
next
  case (Cons c s)
  then show ?case
    by (cases j) (subst (asm) (2) str_index.simps, auto split: if_splits)+
qed

lemma token_from_iff: "name \<noteq> [] \<Longrightarrow> token_from code name idx \<longleftrightarrow> (\<exists>i\<ge>idx. token_at code name i)"
proof (induction code name idx rule: token_from.induct)
  case (1 code name idx)
  have late: "\<not> token_at code name i" if "length code < i" for i using that by (simp add: token_at_def occurs_at_def)
  show ?case
  proof (cases "idx > length code")
    case True
    then show ?thesis using late by (auto simp: token_from.simps)
  next
    case in_range: False
    show ?thesis
    proof (cases "str_index (drop idx code) name")
      case None
      have "\<not> occurs_at code name i" if "idx \<le> i" for i
        using str_index_None[OF None, of "i - idx"] that "1.prems" by (simp add: occurs_at_take)
      then show ?thesis using in_range None by (subst token_from.simps) (auto simp: token_at_def)
    next
      case (Some pos)
      let ?p = "idx + pos"
      have at: "occurs_at code name ?p" using str_index_Some[OF Some] "1.prems" by (simp add: occurs_at_take add.commute)
      then have len: "?p + length name \<le> length code" by (simp add: occurs_at_def)
      have none: "\<not> token_at code name i" if "idx \<le> i" "i < ?p" for i
        using str_index_least[OF Some, of "i - idx"] that "1.prems" by (simp add: token_at_def occurs_at_take)
      have here: "token_at code name ?p \<longleftrightarrow> (?p = 0 \<or> \<not> ident_at code (?p - 1)) \<and> (?p + length name \<ge> length code \<or> \<not> ident_at code (?p + length name))"
        using at len by (auto simp: token_at_def)
      show ?thesis
      proof (cases "token_at code name ?p")
        case True
        then have "token_from code name idx" using in_range Some here by (subst token_from.simps) (auto simp: Let_def)
        with True show ?thesis using le_add1 by blast
      next
        case False
        then have "token_from code name idx = token_from code name (?p + 1)"
          using in_range Some here by (subst token_from.simps) (auto simp: Let_def)
        also have "\<dots> \<longleftrightarrow> (\<exists>i\<ge>?p + 1. token_at code name i)"
          using "1.IH"[OF in_range Some refl refl refl] False here "1.prems" by simp
        also have "\<dots> \<longleftrightarrow> (\<exists>i\<ge>idx. token_at code name i)"
          using none False by (metis Suc_eq_plus1 add_leE linorder_neqE_nat not_less_eq_eq nat_less_le)
        finally show ?thesis .
      qed
    qed
  qed
qed

lemma containsToken_iff: "name \<noteq> [] \<Longrightarrow> containsToken code name \<longleftrightarrow> (\<exists>i. token_at code name i)"
  by (simp add: containsToken_def token_from_iff)

section \<open>What the check accepts\<close>

lemma reasons_for_Nil [simp]: "reasons_for p found names = [] \<longleftrightarrow> (\<forall>n\<in>set names. \<not> found n)"
  by (simp add: reasons_for_def filter_empty_conv)

lemma forbidden_names: "n \<in> set pyForbiddenBuiltins \<union> set jsForbiddenCalls \<union> set jsForbiddenTokens \<Longrightarrow> n \<noteq> []"
  by (auto simp: pyForbiddenBuiltins_def jsForbiddenCalls_def jsForbiddenTokens_def)

text \<open>A line that the import test recognises.\<close>

definition imports_line :: "string \<Rightarrow> string \<Rightarrow> bool" where
  "imports_line line modl \<longleftrightarrow> (\<exists>rest. TrimSpace line = ''import '' @ modl @ rest \<or>
     TrimSpace line = ''from '' @ modl @ '' '' @ rest \<or> TrimSpace line = ''from '' @ modl @ ''.'' @ rest)"

lemma HasPrefix_iff: "HasPrefix s p \<longleftrightarrow> (\<exists>rest. s = p @ rest)"
  unfolding HasPrefix_def by (metis append_eq_conv_conj append_take_drop_id)



text \<open>
  Imports that the test does not see, after another module on the line or with a tabulator, and a
  harmless import that it refuses.
\<close>

lemma containsToken_chars: "containsToken code name \<Longrightarrow> name \<noteq> [] \<Longrightarrow> set name \<subseteq> set code"
  unfolding containsToken_iff token_at_def occurs_at_def by (metis in_set_dropD in_set_takeD subsetI)

lemma analysis_misses_imports:
  "an_Safe (Check ''python'' ''import a,os'')"
  "\<not> containsPyImport (''import'' @ [CHR 0x09] @ ''os'') ''os''"
  "containsPyImport ''import oscillator'' ''os''"
proof -
  have "\<not> containsToken ''import a,os'' n" if "n \<in> set pyForbiddenBuiltins" for n
  proof -
    have "n \<noteq> []" "\<not> set n \<subseteq> set ''import a,os''" using that by (auto simp: pyForbiddenBuiltins_def)
    then show ?thesis using containsToken_chars by blast
  qed
  moreover have "\<not> containsPyImport ''import a,os'' m" if "m \<in> set pyForbiddenImports" for m
    using that by (auto simp: pyForbiddenImports_def containsPyImport_def HasPrefix_def Let_def newline_def TrimSpace_def runes_ascii byte_def is_space_def)
  ultimately show "an_Safe (Check ''python'' ''import a,os'')" by (simp add: Check_def checkPython_def result_of_def)
qed (simp_all add: containsPyImport_def HasPrefix_def Let_def newline_def TrimSpace_def runes_ascii byte_def is_space_def)

end
