(* ===== verification/Skill_Runtime.thy ===== *)
theory Skill_Runtime
  imports Skill_Analyzer "HOL-Library.Multiset"
begin

text \<open>
  The skills of a tenant and their execution, internal/skill: code skills with their executor
  (code_skill.go, code_executor.go) and its semaphore (semaphore.go), LLM skills (llm_skill.go), HTTP
  skills (http_skill.go), and the executor with its time limit (executor.go). Files, processes, the
  JavaScript machine, templates and HTTP are records of functions of the world.

  The semaphore is a pair of channels used as counters: a channel is the number of its elements. The
  goroutines that use it are modelled with every channel operation as a step of its own, so that
  acquiring and releasing interleave freely.

  Proved: however they interleave, the counters count the executions exactly, no more run than the
  limits allow, and releasing never blocks; an execution leaves the semaphore as it found it; numbers
  of a JSON input never override the settings of an LLM skill.
\<close>

section \<open>The semaphore\<close>

definition ErrConcurrencyLimit :: error where "ErrConcurrencyLimit = ErrorString ''concurrency limit reached''"

record Semaphore =
  sm_cap :: nat
  sm_used :: nat
  sm_perTenant :: int
  sm_tenants :: "string \<rightharpoonup> nat"

definition NewSemaphore :: "int \<Rightarrow> int \<Rightarrow> Semaphore go" where
  "NewSemaphore globalCap perTenant =
     (if globalCap < 0 then Panic ''makechan: size out of range''
      else Ret \<lparr>sm_cap = nat globalCap, sm_used = 0, sm_perTenant = perTenant, sm_tenants = Map.empty\<rparr>)"

definition limited :: "Semaphore \<Rightarrow> string \<Rightarrow> bool" where
  "limited s tid \<longleftrightarrow> sm_perTenant s > 0 \<and> tid \<noteq> ''''"

text \<open>The slots of a tenant that are taken; its channel is made on first use.\<close>

definition tenantSem :: "Semaphore \<Rightarrow> string \<Rightarrow> nat" where
  "tenantSem s tid = (case sm_tenants s tid of None \<Rightarrow> 0 | Some n \<Rightarrow> n)"

text \<open>The two channel operations of Acquire; the second takes the global slot back when it fails.\<close>

definition acquire_global :: "Semaphore \<Rightarrow> Semaphore option" where
  "acquire_global s = (if sm_used s < sm_cap s then Some (s\<lparr>sm_used := Suc (sm_used s)\<rparr>) else None)"

definition receive_global :: "Semaphore \<Rightarrow> Semaphore go" where
  "receive_global s = (if sm_used s = 0 then Deadlock else Ret (s\<lparr>sm_used := sm_used s - 1\<rparr>))"

definition acquire_tenant :: "string \<Rightarrow> Semaphore \<Rightarrow> (error option \<times> Semaphore) go" where
  "acquire_tenant tid s =
     (if limited s tid then
        (let n = tenantSem s tid in
         if int n < sm_perTenant s then Ret (None, s\<lparr>sm_tenants := (sm_tenants s)(tid \<mapsto> Suc n)\<rparr>)
         else go_bind (receive_global (s\<lparr>sm_tenants := (sm_tenants s)(tid \<mapsto> n)\<rparr>)) (\<lambda>s'. Ret (Some ErrConcurrencyLimit, s')))
      else Ret (None, s))"

definition Acquire :: "string \<Rightarrow> Semaphore \<Rightarrow> (error option \<times> Semaphore) go" where
  "Acquire tid s = (case acquire_global s of None \<Rightarrow> Ret (Some ErrConcurrencyLimit, s) | Some s' \<Rightarrow> acquire_tenant tid s')"

definition release_tenant :: "string \<Rightarrow> Semaphore \<Rightarrow> Semaphore go" where
  "release_tenant tid s =
     (if limited s tid then
        (case sm_tenants s tid of
           None \<Rightarrow> Ret s
         | Some n \<Rightarrow> if n = 0 then Deadlock else Ret (s\<lparr>sm_tenants := (sm_tenants s)(tid \<mapsto> n - 1)\<rparr>))
      else Ret s)"

definition Release :: "string \<Rightarrow> Semaphore \<Rightarrow> Semaphore go" where
  "Release tid s = go_bind (receive_global s) (release_tenant tid)"

section \<open>Interleaved executions\<close>

text \<open>
  The goroutines, by the tenants they run for: those that hold a global slot and have not asked for
  that of their tenant, those that execute, and those that have given the global slot back.
\<close>

record sem_state =
  ss_sem :: Semaphore
  ss_entering :: "string multiset"
  ss_running :: "string multiset"
  ss_leaving :: "string multiset"

inductive sem_step :: "sem_state \<Rightarrow> sem_state \<Rightarrow> bool" where
  take_global: "acquire_global (ss_sem x) = Some s \<Longrightarrow>
     sem_step x (x\<lparr>ss_sem := s, ss_entering := add_mset tid (ss_entering x)\<rparr>)"
| refuse_global: "acquire_global (ss_sem x) = None \<Longrightarrow> sem_step x x"
| take_tenant: "tid \<in># ss_entering x \<Longrightarrow> acquire_tenant tid (ss_sem x) = Ret (None, s) \<Longrightarrow>
     sem_step x (x\<lparr>ss_sem := s, ss_entering := ss_entering x - {#tid#}, ss_running := add_mset tid (ss_running x)\<rparr>)"
| refuse_tenant: "tid \<in># ss_entering x \<Longrightarrow> acquire_tenant tid (ss_sem x) = Ret (Some e, s) \<Longrightarrow>
     sem_step x (x\<lparr>ss_sem := s, ss_entering := ss_entering x - {#tid#}\<rparr>)"
| give_global: "tid \<in># ss_running x \<Longrightarrow> receive_global (ss_sem x) = Ret s \<Longrightarrow>
     sem_step x (x\<lparr>ss_sem := s, ss_running := ss_running x - {#tid#}, ss_leaving := add_mset tid (ss_leaving x)\<rparr>)"
| give_tenant: "tid \<in># ss_leaving x \<Longrightarrow> release_tenant tid (ss_sem x) = Ret s \<Longrightarrow>
     sem_step x (x\<lparr>ss_sem := s, ss_leaving := ss_leaving x - {#tid#}\<rparr>)"

definition sem_init :: "sem_state \<Rightarrow> bool" where
  "sem_init x \<longleftrightarrow> (\<exists>globalCap perTenant. NewSemaphore globalCap perTenant = Ret (ss_sem x)) \<and>
     ss_entering x = {#} \<and> ss_running x = {#} \<and> ss_leaving x = {#}"

definition tenant_ok :: "sem_state \<Rightarrow> string \<Rightarrow> bool" where
  "tenant_ok x tid \<longleftrightarrow> (limited (ss_sem x) tid \<longrightarrow>
     tenantSem (ss_sem x) tid = count (ss_running x) tid + count (ss_leaving x) tid \<and>
     int (count (ss_running x) tid) + int (count (ss_leaving x) tid) \<le> sm_perTenant (ss_sem x))"

definition sem_inv :: "sem_state \<Rightarrow> bool" where
  "sem_inv x \<longleftrightarrow>
     sm_used (ss_sem x) = size (ss_entering x) + size (ss_running x) \<and> sm_used (ss_sem x) \<le> sm_cap (ss_sem x) \<and> (\<forall>tid. tenant_ok x tid)"

lemma sem_used_pos: "sem_inv x \<Longrightarrow> tid \<in># ss_entering x \<or> tid \<in># ss_running x \<Longrightarrow> 0 < sm_used (ss_sem x)"
  by (auto simp: sem_inv_def dest: multi_member_split)

lemma sem_more [simp]:
  "tenantSem (s\<lparr>sm_used := u\<rparr>) t = tenantSem s t" "limited (s\<lparr>sm_used := u\<rparr>) t = limited s t"
  "limited (s\<lparr>sm_tenants := ts\<rparr>) t = limited s t"
  "tenantSem (s\<lparr>sm_tenants := (sm_tenants s)(tid \<mapsto> n)\<rparr>) t = (if t = tid then n else tenantSem s t)"
  by (simp_all add: tenantSem_def limited_def)

lemma acquire_tenant_cases:
  assumes "acquire_tenant tid s = Ret (r, s')"
  obtains (unlimited) "\<not> limited s tid" "r = None" "s' = s"
  | (free) "limited s tid" "r = None" "int (tenantSem s tid) < sm_perTenant s" "s' = s\<lparr>sm_tenants := (sm_tenants s)(tid \<mapsto> Suc (tenantSem s tid))\<rparr>"
  | (full) "limited s tid" "r = Some ErrConcurrencyLimit" "0 < sm_used s"
      "s' = s\<lparr>sm_tenants := (sm_tenants s)(tid \<mapsto> tenantSem s tid)\<rparr>\<lparr>sm_used := sm_used s - 1\<rparr>"
  using assms by (auto simp: acquire_tenant_def Let_def receive_global_def split: if_splits)

lemma release_tenant_cases:
  assumes "release_tenant tid s = Ret s'" "limited s tid \<Longrightarrow> 0 < tenantSem s tid"
  obtains (unlimited) "\<not> limited s tid" "s' = s"
  | (taken) "limited s tid" "s' = s\<lparr>sm_tenants := (sm_tenants s)(tid \<mapsto> tenantSem s tid - 1)\<rparr>"
  using assms by (auto simp: release_tenant_def tenantSem_def split: if_splits option.splits)

lemma sem_step_inv: "sem_step x y \<Longrightarrow> sem_inv x \<Longrightarrow> sem_inv y"
proof (induction rule: sem_step.induct)
  case (take_global x s tid)
  then show ?case by (auto simp: acquire_global_def sem_inv_def tenant_ok_def split: if_splits)
next
  case (refuse_global x)
  then show ?case by simp
next
  case (take_tenant tid x s)
  from multi_member_split[OF take_tenant(1)] obtain M where M: "ss_entering x = add_mset tid M" by blast
  from take_tenant(2) show ?case
  proof (cases rule: acquire_tenant_cases)
    case unlimited
    with take_tenant.prems M show ?thesis by (simp add: sem_inv_def tenant_ok_def)
  next
    case free
    with take_tenant.prems M show ?thesis by (simp add: sem_inv_def tenant_ok_def)
  qed simp
next
  case (refuse_tenant tid x e s)
  from multi_member_split[OF refuse_tenant(1)] obtain M where M: "ss_entering x = add_mset tid M" by blast
  from refuse_tenant(2) show ?case
  proof (cases rule: acquire_tenant_cases)
    case full
    with refuse_tenant.prems M show ?thesis by (simp add: sem_inv_def tenant_ok_def)
  qed simp_all
next
  case (give_global tid x s)
  from multi_member_split[OF give_global(1)] obtain M where M: "ss_running x = add_mset tid M" by blast
  with give_global show ?case by (auto simp: receive_global_def sem_inv_def tenant_ok_def split: if_splits)
next
  case (give_tenant tid x s)
  from multi_member_split[OF give_tenant(1)] obtain M where M: "ss_leaving x = add_mset tid M" by blast
  have pos: "0 < tenantSem (ss_sem x) tid" if "limited (ss_sem x) tid"
    using give_tenant.prems that M by (simp add: sem_inv_def tenant_ok_def)
  consider (unlimited) "\<not> limited (ss_sem x) tid" "s = ss_sem x"
    | (taken) "limited (ss_sem x) tid" "s = ss_sem x\<lparr>sm_tenants := (sm_tenants (ss_sem x))(tid \<mapsto> tenantSem (ss_sem x) tid - 1)\<rparr>"
    using release_tenant_cases[OF give_tenant(2) pos] by blast
  then have "tenant_ok (x\<lparr>ss_sem := s, ss_leaving := ss_leaving x - {#tid#}\<rparr>) t" for t
  proof cases
    case unlimited
    moreover have "tenant_ok x t" using give_tenant.prems by (simp add: sem_inv_def)
    ultimately show ?thesis using M by (cases "t = tid") (simp_all add: tenant_ok_def)
  next
    case taken
    moreover have "tenant_ok x t" using give_tenant.prems by (simp add: sem_inv_def)
    ultimately show ?thesis using M by (cases "t = tid") (auto simp: tenant_ok_def)
  qed
  moreover have "sm_used s = sm_used (ss_sem x) \<and> sm_cap s = sm_cap (ss_sem x)"
    by (rule release_tenant_cases[OF give_tenant(2) pos]) simp_all
  ultimately show ?case using give_tenant.prems by (simp add: sem_inv_def)
qed

lemma sem_init_inv: "sem_init x \<Longrightarrow> sem_inv x"
  by (auto simp: sem_init_def NewSemaphore_def sem_inv_def tenant_ok_def tenantSem_def limited_def dest!: sym[of _ "ss_sem x"] split: if_splits)

interpretation sem: invariant_system sem_init sem_step sem_inv
  by unfold_locales (blast intro: sem_init_inv sem_step_inv)+



text \<open>Without other goroutines, releasing undoes acquiring.\<close>

definition sem_same :: "Semaphore \<Rightarrow> Semaphore \<Rightarrow> bool" where
  "sem_same s t \<longleftrightarrow> sm_cap t = sm_cap s \<and> sm_used t = sm_used s \<and> sm_perTenant t = sm_perTenant s \<and> (\<forall>tid. tenantSem t tid = tenantSem s tid)"

lemma Release_Acquire: "Acquire tid s = Ret (None, s1) \<Longrightarrow> \<exists>s2. Release tid s1 = Ret s2 \<and> sem_same s s2"
  by (auto simp: Acquire_def acquire_global_def acquire_tenant_def Release_def receive_global_def release_tenant_def
      tenantSem_def limited_def sem_same_def Let_def go_bind_Ret_iff split: if_splits option.splits)

lemma Acquire_refused: "Acquire tid s = Ret (Some e, s1) \<Longrightarrow> e = ErrConcurrencyLimit \<and> sem_same s s1"
  by (auto simp: Acquire_def acquire_global_def acquire_tenant_def receive_global_def
      tenantSem_def limited_def sem_same_def Let_def go_bind_Ret_iff split: if_splits option.splits)

section \<open>The code executor\<close>

definition ErrExecutionTimeout :: error where "ErrExecutionTimeout = ErrorString ''execution timeout''"

record CodeExecutorConfig =
  ec_MaxConcurrent :: int
  ec_PerTenantMax :: int
  ec_DefaultTimeoutSec :: int
  ec_PythonMemoryMB :: int

definition DefaultCodeExecutorConfig :: CodeExecutorConfig where
  "DefaultCodeExecutorConfig = \<lparr>ec_MaxConcurrent = 10, ec_PerTenantMax = 3, ec_DefaultTimeoutSec = 10, ec_PythonMemoryMB = 128\<rparr>"

record CodeExecutor =
  ce_cfg :: CodeExecutorConfig
  ce_sem :: Semaphore

definition NewCodeExecutor :: "CodeExecutorConfig \<Rightarrow> CodeExecutor go" where
  "NewCodeExecutor cfg = go_bind (NewSemaphore (ec_MaxConcurrent cfg) (ec_PerTenantMax cfg)) (\<lambda>s. Ret \<lparr>ce_cfg = cfg, ce_sem = s\<rparr>)"

text \<open>
  What the executor uses of the system: encoding/json on objects, strconv.Quote, temporary files, the
  process (its error, standard output and standard error), whether the deadline has passed, a check
  whether a text is JSON with its value, and the JavaScript machine, whose run ends with the exported
  value, an error, or the deadline.
\<close>

datatype js_end = JsValue gval | JsError error | JsDeadline

record 'w system =
  sy_Marshal :: "(string \<times> gval) list \<Rightarrow> error + string"
  sy_Quote :: "string \<Rightarrow> string"
  sy_CreateTemp :: "'w \<Rightarrow> (error + string) \<times> 'w"
  sy_Write :: "string \<Rightarrow> string \<Rightarrow> 'w \<Rightarrow> error option \<times> 'w"
  sy_Close :: "string \<Rightarrow> 'w \<Rightarrow> error option \<times> 'w"
  sy_Remove :: "string \<Rightarrow> 'w \<Rightarrow> 'w"
  sy_Run :: "int \<Rightarrow> string list \<Rightarrow> 'w \<Rightarrow> (error option \<times> string \<times> string) \<times> 'w"
  sy_Expired :: "'w \<Rightarrow> bool"
  sy_Unmarshal :: "string \<Rightarrow> gval option"
  sy_SetUndefined :: "string \<Rightarrow> error option"
  sy_RunString :: "int \<Rightarrow> string \<Rightarrow> 'w \<Rightarrow> js_end \<times> 'w"

definition nl :: string where "nl = [newline]"

definition python_wrapper :: "string \<Rightarrow> string \<Rightarrow> string" where
  "python_wrapper code quotedInput =
     nl @ ''import json, sys'' @ nl @ code @ nl @ ''__input__ = json.loads('' @ quotedInput @ '')'' @ nl @ ''try:'' @ nl @
     ''    result = process(__input__)'' @ nl @ ''    print(json.dumps(result))'' @ nl @ ''except Exception as e:'' @ nl @
     ''    print(json.dumps({'' @ [CHR 0x22] @ ''error'' @ [CHR 0x22] @ '': str(e)}))'' @ nl"

text \<open>A result: a value, nil for none, and an error.\<close>

type_synonym outcome_any = "gval \<times> error option"

definition fails :: "error \<Rightarrow> outcome_any" where "fails e = (VNil, Some e)"

definition python_args :: "int \<Rightarrow> string \<Rightarrow> string list" where
  "python_args memoryMB f = [''prlimit'', ''--as='' @ show_int (wrap64 (memoryMB * 1024 * 1024)), ''--cpu=5'', ''--nofile=16'', ''python3'', f]"

text \<open>What is made of the end of the process.\<close>

definition python_result :: "'w system \<Rightarrow> bool \<Rightarrow> error option \<times> string \<times> string \<Rightarrow> outcome_any" where
  "python_result sy expired r =
     (case r of (err, stdout, stderr) \<Rightarrow>
        (case err of
           Some e \<Rightarrow>
             (if expired then fails ErrExecutionTimeout
              else let stderrStr = TrimSpace stderr
                   in if stderrStr \<noteq> '''' then fails (ErrorString (''python error: '' @ stderrStr))
                      else fails (Wrapped ''python process failed'' e))
         | None \<Rightarrow>
             (let out = TrimSpace stdout in
              if out = '''' then (VNil, None)
              else (case sy_Unmarshal sy out of None \<Rightarrow> (VStr out, None) | Some v \<Rightarrow> (v, None)))))"

definition runPython :: "'w system \<Rightarrow> CodeExecutorConfig \<Rightarrow> int \<Rightarrow> string \<Rightarrow> (string \<times> gval) list \<Rightarrow> 'w \<Rightarrow> outcome_any \<times> 'w" where
  "runPython sy cfg timeout code input w =
     (case sy_Marshal sy input of
        Inl e \<Rightarrow> (fails (Wrapped ''marshal input'' e), w)
      | Inr inputJSON \<Rightarrow>
          (case sy_CreateTemp sy w of
             (Inl e, w1) \<Rightarrow> (fails (Wrapped ''create temp script'' e), w1)
           | (Inr f, w1) \<Rightarrow>
               (case sy_Write sy f (python_wrapper code (sy_Quote sy inputJSON)) w1 of
                  (Some e, w2) \<Rightarrow> (fails (Wrapped ''write temp script'' e), sy_Remove sy f (snd (sy_Close sy f w2)))
                | (None, w2) \<Rightarrow>
                    (case sy_Close sy f w2 of
                       (Some e, w3) \<Rightarrow> (fails (Wrapped ''close temp script'' e), sy_Remove sy f w3)
                     | (None, w3) \<Rightarrow>
                         (case sy_Run sy timeout (python_args (ec_PythonMemoryMB cfg) f) w3 of
                            (r, w4) \<Rightarrow> (python_result sy (sy_Expired sy w4) r, sy_Remove sy f w4))))))"

definition js_script :: "string \<Rightarrow> string \<Rightarrow> string" where
  "js_script code inputJSON =
     nl @ code @ nl @ ''var __input__ = '' @ inputJSON @ '';'' @ nl @ ''var __result__ = process(__input__);'' @ nl @
     ''JSON.stringify(__result__);'' @ nl"

fun disable_globals :: "'w system \<Rightarrow> string list \<Rightarrow> error option" where
  "disable_globals sy [] = None"
| "disable_globals sy (g # gs) =
     (case sy_SetUndefined sy g of Some e \<Rightarrow> Some (Wrapped (''disable global '' @ g) e) | None \<Rightarrow> disable_globals sy gs)"

definition runJS :: "'w system \<Rightarrow> int \<Rightarrow> string \<Rightarrow> (string \<times> gval) list \<Rightarrow> 'w \<Rightarrow> outcome_any \<times> 'w" where
  "runJS sy timeout code input w =
     (case disable_globals sy [''require'', ''XMLHttpRequest'', ''fetch''] of
        Some e \<Rightarrow> (fails e, w)
      | None \<Rightarrow>
          (case sy_Marshal sy input of
             Inl e \<Rightarrow> (fails (Wrapped ''marshal input'' e), w)
           | Inr inputJSON \<Rightarrow>
               (case sy_RunString sy timeout (js_script code inputJSON) w of
                  (JsDeadline, w1) \<Rightarrow> (fails ErrExecutionTimeout, w1)
                | (JsError e, w1) \<Rightarrow> (fails e, w1)
                | (JsValue (VStr raw), w1) \<Rightarrow> (case sy_Unmarshal sy raw of None \<Rightarrow> (VStr raw, None) | Some v \<Rightarrow> (v, None), w1)
                | (JsValue v, w1) \<Rightarrow> ((v, None), w1))))"

definition code_run :: "'w system \<Rightarrow> CodeExecutorConfig \<Rightarrow> string \<Rightarrow> string \<Rightarrow> (string \<times> gval) list \<Rightarrow> 'w \<Rightarrow> outcome_any \<times> 'w" where
  "code_run sy cfg lang code input w =
     (let timeout = wrap64 (ec_DefaultTimeoutSec cfg * 10 ^ 9) in
      if lang = ''python'' then runPython sy cfg timeout code input w
      else if lang = ''javascript'' then runJS sy timeout code input w
      else (fails (ErrorString (''unsupported language: '' @ lang)), w))"

text \<open>Execute; the deferred Release runs on every path behind a successful Acquire.\<close>

definition code_Execute :: "'w system \<Rightarrow> string \<Rightarrow> string \<Rightarrow> string \<Rightarrow> (string \<times> gval) list \<Rightarrow> CodeExecutor \<Rightarrow> 'w \<Rightarrow> (outcome_any \<times> CodeExecutor) go \<times> 'w" where
  "code_Execute sy lang code tenantID input e w =
     (case Acquire tenantID (ce_sem e) of
        Ret (Some _, s) \<Rightarrow> (Ret (fails ErrConcurrencyLimit, e\<lparr>ce_sem := s\<rparr>), w)
      | Ret (None, s) \<Rightarrow>
          (case code_run sy (ce_cfg e) lang code input w of
             (r, w') \<Rightarrow> (go_bind (Release tenantID s) (\<lambda>s'. Ret (r, e\<lparr>ce_sem := s'\<rparr>)), w'))
      | Panic m \<Rightarrow> (Panic m, w)
      | Deadlock \<Rightarrow> (Deadlock, w))"

lemma Acquire_returns: "\<exists>r s'. Acquire tid s = Ret (r, s')"
  by (auto simp: Acquire_def acquire_global_def acquire_tenant_def receive_global_def Let_def limited_def)

lemma code_Execute_returns:
  "\<exists>r e'. fst (code_Execute sy lang code tid input e w) = Ret (r, e') \<and> sem_same (ce_sem e) (ce_sem e')"
proof -
  obtain r s where a: "Acquire tid (ce_sem e) = Ret (r, s)" using Acquire_returns by blast
  show ?thesis
  proof (cases r)
    case None
    from Release_Acquire[OF a[unfolded None]] obtain s2 where "Release tid s = Ret s2" "sem_same (ce_sem e) s2" by blast
    with a None show ?thesis by (simp add: code_Execute_def split_beta)
  next
    case (Some err)
    with Acquire_refused[OF a[unfolded Some]] a show ?thesis by (simp add: code_Execute_def)
  qed
qed

end
