(* ===== verification/Skills.thy ===== *)
theory Skills
  imports Skill_Runtime Cap_Gateway
begin

text \<open>
  The three kinds of skills, internal/skill: code skills (code_skill.go), LLM skills (llm_skill.go)
  and HTTP skills (http_skill.go), with the executor that runs one under a time limit (executor.go).
  All code skills share one code executor, whose state is passed along. Templates, JSON and HTTP are
  records of functions of the world. No value of the model has the Go type float32, as none that
  encoding/json makes has.

  Proved: numbers of a decoded body never override the settings of an LLM skill; user code never
  sees the id of the tenant; a status of 400 or more is an error that keeps the answer.
\<close>

section \<open>Kinds of skills\<close>

record BaseSkill =
  bs_ID :: string
  bs_Name :: string
  bs_Description :: string
  bs_Type :: string

record CodeSkill = BaseSkill +
  cs_Code :: string
  cs_Language :: string
  cs_hasExecutor :: bool

record 'w LLMSkill = BaseSkill +
  ls_SystemPrompt :: string
  ls_Model :: string
  ls_Temperature :: rat
  ls_MaxTokens :: int
  ls_gateway :: "'w Gateway"

record HTTPSkill = BaseSkill +
  hs_URL :: string
  hs_Method :: string
  hs_Headers :: "(string \<times> string) list"
  hs_BodyTemplate :: string
  hs_TimeoutSec :: int

datatype 'w skill = CodeS CodeSkill | LLMS "'w LLMSkill" | HTTPS HTTPSkill

fun GetID :: "'w skill \<Rightarrow> string" where
  "GetID (CodeS s) = bs_ID s" | "GetID (LLMS s) = bs_ID s" | "GetID (HTTPS s) = bs_ID s"

fun GetName :: "'w skill \<Rightarrow> string" where
  "GetName (CodeS s) = bs_Name s" | "GetName (LLMS s) = bs_Name s" | "GetName (HTTPS s) = bs_Name s"

fun GetDescription :: "'w skill \<Rightarrow> string" where
  "GetDescription (CodeS s) = bs_Description s" | "GetDescription (LLMS s) = bs_Description s" | "GetDescription (HTTPS s) = bs_Description s"

fun GetType :: "'w skill \<Rightarrow> string" where
  "GetType (CodeS s) = bs_Type s" | "GetType (LLMS s) = bs_Type s" | "GetType (HTTPS s) = bs_Type s"

definition NewCodeSkill :: "string \<Rightarrow> string \<Rightarrow> string \<Rightarrow> string \<Rightarrow> string \<Rightarrow> CodeSkill" where
  "NewCodeSkill i name description code language =
     \<lparr>bs_ID = i, bs_Name = name, bs_Description = description, bs_Type = ''code'', cs_Code = code, cs_Language = language, cs_hasExecutor = False\<rparr>"

text \<open>The handler gives every code skill the one executor it has.\<close>

definition NewCodeSkillWithExecutor :: "string \<Rightarrow> string \<Rightarrow> string \<Rightarrow> string \<Rightarrow> string \<Rightarrow> CodeSkill" where
  "NewCodeSkillWithExecutor i name description code language = (NewCodeSkill i name description code language)\<lparr>cs_hasExecutor := True\<rparr>"

definition NewLLMSkill :: "string \<Rightarrow> string \<Rightarrow> string \<Rightarrow> string \<Rightarrow> string \<Rightarrow> rat \<Rightarrow> int \<Rightarrow> 'w Gateway \<Rightarrow> 'w LLMSkill" where
  "NewLLMSkill i name description systemPrompt model temperature maxTokens gateway =
     \<lparr>bs_ID = i, bs_Name = name, bs_Description = description, bs_Type = ''llm'', ls_SystemPrompt = systemPrompt, ls_Model = model,
      ls_Temperature = temperature, ls_MaxTokens = maxTokens, ls_gateway = gateway\<rparr>"

definition NewHTTPSkill :: "string \<Rightarrow> string \<Rightarrow> string \<Rightarrow> string \<Rightarrow> string \<Rightarrow> (string \<times> string) list \<Rightarrow> string \<Rightarrow> int \<Rightarrow> HTTPSkill" where
  "NewHTTPSkill i name description url method0 headers bodyTemplate timeoutSec0 =
     (let method = (if method0 = '''' then ''POST'' else method0);
          timeoutSec = (if timeoutSec0 \<le> 0 then 30 else timeoutSec0)
      in \<lparr>bs_ID = i, bs_Name = name, bs_Description = description, bs_Type = ''http'', hs_URL = url, hs_Method = method,
          hs_Headers = headers, hs_BodyTemplate = bodyTemplate, hs_TimeoutSec = timeoutSec\<rparr>)"

definition llm_GetConfig :: "'w LLMSkill \<Rightarrow> (string \<times> gval) list" where
  "llm_GetConfig s =
     [(''system_prompt'', VStr (ls_SystemPrompt s)), (''model'', VStr (ls_Model s)), (''temperature'', VFloat (ls_Temperature s)),
      (''max_tokens'', VInt (ls_MaxTokens s))]"

definition http_GetConfig :: "HTTPSkill \<Rightarrow> (string \<times> gval) list" where
  "http_GetConfig s =
     [(''url'', VStr (hs_URL s)), (''method'', VStr (hs_Method s)), (''headers'', VMap (map (\<lambda>(k, v). (k, VStr v)) (hs_Headers s))),
      (''body_template'', VStr (hs_BodyTemplate s)), (''timeout_sec'', VInt (hs_TimeoutSec s))]"

text \<open>A code skill has no configuration: the assertion to \<^verbatim>\<open>configurable\<close> fails.\<close>

definition configurable :: "'w skill \<Rightarrow> (string \<times> gval) list option" where
  "configurable s = (case s of CodeS _ \<Rightarrow> None | LLMS l \<Rightarrow> Some (llm_GetConfig l) | HTTPS h \<Rightarrow> Some (http_GetConfig h))"

section \<open>Inputs\<close>

text \<open>The assertion of an input to a map; a nil map has no entries.\<close>

fun as_map :: "gval \<Rightarrow> (string \<times> gval) list option" where
  "as_map (VMap m) = Some m"
| "as_map VNil = None"
| "as_map (VBool b) = None"
| "as_map (VInt i) = None"
| "as_map (VFloat q) = None"
| "as_map (VStr s) = None"
| "as_map (VList l) = None"

definition entries :: "(string \<times> gval) list option \<Rightarrow> (string \<times> gval) list" where
  "entries m = (case m of None \<Rightarrow> [] | Some kvs \<Rightarrow> kvs)"

definition string_at :: "(string \<times> gval) list \<Rightarrow> string \<Rightarrow> string option" where
  "string_at m k = (case map_of m k of Some (VStr s) \<Rightarrow> Some s | _ \<Rightarrow> None)"

definition int_at :: "(string \<times> gval) list \<Rightarrow> string \<Rightarrow> int option" where
  "int_at m k = (case map_of m k of Some (VInt i) \<Rightarrow> Some i | _ \<Rightarrow> None)"

definition float32_at :: "(string \<times> gval) list \<Rightarrow> string \<Rightarrow> rat option" where
  "float32_at m k = (case map_of m k of Some _ \<Rightarrow> None | None \<Rightarrow> None)"

section \<open>Code skills\<close>

definition tenant_key :: string where "tenant_key = ''__tenant_id''"

definition user_input :: "(string \<times> gval) list \<Rightarrow> (string \<times> gval) list" where
  "user_input m = filter (\<lambda>kv. fst kv \<noteq> tenant_key) m"

definition not_configured :: "CodeSkill \<Rightarrow> gval" where
  "not_configured s =
     VMap [(''code'', VStr (cs_Code s)), (''language'', VStr (cs_Language s)), (''output'', VStr ''code executor not configured'')]"

definition skill_outcome :: "CodeSkill \<Rightarrow> outcome_any \<Rightarrow> outcome_any" where
  "skill_outcome s r =
     (case r of (out, None) \<Rightarrow> (out, None) | (_, Some err) \<Rightarrow> fails (Wrapped (''code skill '' @ bs_ID s) err))"

definition CodeSkill_Execute :: "'w system \<Rightarrow> CodeSkill \<Rightarrow> gval \<Rightarrow> CodeExecutor \<Rightarrow> 'w \<Rightarrow> (outcome_any \<times> CodeExecutor) go \<times> 'w" where
  "CodeSkill_Execute sy s input e w =
     (let inputMap = entries (as_map input) in
      if \<not> cs_hasExecutor s then (Ret ((not_configured s, None), e), w)
      else let tenantID = (case string_at inputMap tenant_key of None \<Rightarrow> '''' | Some t \<Rightarrow> t) in
        case code_Execute sy (cs_Language s) (cs_Code s) tenantID (user_input inputMap) e w of
          (r, w') \<Rightarrow> (go_bind r (\<lambda>(out, e'). Ret (skill_outcome s out, e')), w'))"

section \<open>LLM skills\<close>

definition llm_model :: "'w LLMSkill \<Rightarrow> (string \<times> gval) list \<Rightarrow> string" where
  "llm_model s m = (case string_at m ''model'' of Some x \<Rightarrow> if x \<noteq> '''' then x else ls_Model s | None \<Rightarrow> ls_Model s)"

definition llm_messages :: "'w LLMSkill \<Rightarrow> string \<Rightarrow> GWMessage list" where
  "llm_messages s prompt =
     (if ls_SystemPrompt s \<noteq> '''' then [\<lparr>gm_Role = ''system'', gm_Content = ls_SystemPrompt s, gm_ToolCalls = [], gm_ToolCallID = ''''\<rparr>] else []) @
     [\<lparr>gm_Role = ''user'', gm_Content = prompt, gm_ToolCalls = [], gm_ToolCallID = ''''\<rparr>]"

definition llm_request :: "'w LLMSkill \<Rightarrow> (string \<times> gval) list \<Rightarrow> string \<Rightarrow> CompletionRequest" where
  "llm_request s m prompt =
     \<lparr>cr_Model = llm_model s m, cr_Messages = llm_messages s prompt,
      cr_Temperature = (case float32_at m ''temperature'' of Some t \<Rightarrow> t | None \<Rightarrow> ls_Temperature s),
      cr_MaxTokens = (case int_at m ''max_tokens'' of Some n \<Rightarrow> if n > 0 then n else ls_MaxTokens s | None \<Rightarrow> ls_MaxTokens s),
      cr_TopP = 0, cr_Tools = [], cr_ToolChoice = '''', cr_Stream = False\<rparr>"

definition llm_answer :: "CompletionResponse \<Rightarrow> gval" where
  "llm_answer r =
     VMap [(''content'', VStr (cp_Content r)), (''model'', VStr (cp_Model r)),
           (''usage'', VMap [(''prompt_tokens'', VInt (cp_PromptTokens r)), (''completion_tokens'', VInt (cp_CompletionTokens r)),
                             (''total_tokens'', VInt (cp_TotalTokens r))])]"

text \<open>\<open>override\<close> is the gateway of the context, when it has one.\<close>

definition LLMSkill_Execute :: "'w Gateway option \<Rightarrow> 'w LLMSkill \<Rightarrow> gval \<Rightarrow> 'w \<Rightarrow> metric list \<times> 'w \<times> outcome_any go" where
  "LLMSkill_Execute override s input w =
     (let gw = (case override of None \<Rightarrow> ls_gateway s | Some g \<Rightarrow> g);
          m = entries (as_map input) in
      if llm_model s m = '''' then ([], w, Ret (fails (ErrorString ''model not specified'')))
      else (case string_at m ''prompt'' of
              None \<Rightarrow> ([], w, Ret (fails (ErrorString ''prompt not specified'')))
            | Some prompt \<Rightarrow>
                (if prompt = '''' then ([], w, Ret (fails (ErrorString ''prompt not specified'')))
                 else (case Complete gw w (llm_request s m prompt) of
                         (ms, w', r) \<Rightarrow>
                           (ms, w', go_bind r (\<lambda>(resp, err).
                              case err of
                                Some e \<Rightarrow> Ret (fails e)
                              | None \<Rightarrow> (case resp of None \<Rightarrow> Panic nil_deref | Some x \<Rightarrow> Ret (llm_answer x, None))))))))"

section \<open>HTTP skills\<close>

record http_request =
  hq_Method :: string
  hq_URL :: string
  hq_Header :: "string \<rightharpoonup> string"
  hq_Body :: "string option"

text \<open>An answer: its status and its body, or the error of reading the body.\<close>

record http_response =
  hp_StatusCode :: int
  hp_Body :: "error + string"

record 'w http_world =
  hw_Parse :: "string \<Rightarrow> error option"
  hw_Render :: "string \<Rightarrow> (string \<times> gval) list option \<Rightarrow> error + string"
  hw_Marshal :: "(string \<times> gval) list \<Rightarrow> error + string"
  hw_Unmarshal :: "string \<Rightarrow> gval option"
  hw_ToUpper :: "string \<Rightarrow> string"
  hw_Invalid :: "string \<Rightarrow> string \<Rightarrow> error option"
  hw_Canonical :: "string \<Rightarrow> string"
  hw_Do :: "int \<Rightarrow> http_request \<Rightarrow> 'w \<Rightarrow> (error + http_response) \<times> 'w"

definition http_body :: "'w http_world \<Rightarrow> HTTPSkill \<Rightarrow> (string \<times> gval) list option \<Rightarrow> error + string option" where
  "http_body h s inputMap =
     (if hs_BodyTemplate s \<noteq> '''' then
        (case hw_Parse h (hs_BodyTemplate s) of
           Some err \<Rightarrow> Inl (Wrapped ''invalid body template'' err)
         | None \<Rightarrow>
             (case hw_Render h (hs_BodyTemplate s) inputMap of
                Inl err \<Rightarrow> Inl (Wrapped ''body template render failed'' err)
              | Inr b \<Rightarrow> Inr (Some b)))
      else (case inputMap of
              None \<Rightarrow> Inr None
            | Some m \<Rightarrow> (case hw_Marshal h m of Inl err \<Rightarrow> Inl (Wrapped ''marshal input'' err) | Inr b \<Rightarrow> Inr (Some b))))"

text \<open>The headers of the skill replace that of the content type; net/http takes an empty method for GET.\<close>

definition http_headers :: "'w http_world \<Rightarrow> HTTPSkill \<Rightarrow> string option \<Rightarrow> string \<rightharpoonup> string" where
  "http_headers h s body =
     foldl (\<lambda>m (k, v). m(hw_Canonical h k \<mapsto> v)) (if body \<noteq> None then [''Content-Type'' \<mapsto> ''application/json''] else Map.empty) (hs_Headers s)"

definition http_req :: "'w http_world \<Rightarrow> HTTPSkill \<Rightarrow> string option \<Rightarrow> http_request" where
  "http_req h s body =
     (let method = hw_ToUpper h (hs_Method s) in
      \<lparr>hq_Method = (if method = '''' then ''GET'' else method), hq_URL = hs_URL s, hq_Header = http_headers h s body, hq_Body = body\<rparr>)"

definition http_result :: "'w http_world \<Rightarrow> http_response \<Rightarrow> outcome_any" where
  "http_result h resp =
     (case hp_Body resp of
        Inl err \<Rightarrow> fails (Wrapped ''read response'' err)
      | Inr raw \<Rightarrow>
          (let body = (case hw_Unmarshal h raw of Some v \<Rightarrow> v | None \<Rightarrow> VStr raw);
               res = VMap [(''status_code'', VInt (hp_StatusCode resp)), (''body'', body)]
           in if hp_StatusCode resp \<ge> 400
              then (res, Some (ErrorString (''HTTP '' @ show_int (hp_StatusCode resp) @ '': '' @ raw)))
              else (res, None)))"

definition http_timeout :: "HTTPSkill \<Rightarrow> int" where
  "http_timeout s = wrap64 (hs_TimeoutSec s * 10 ^ 9)"

definition HTTPSkill_Execute :: "'w http_world \<Rightarrow> HTTPSkill \<Rightarrow> gval \<Rightarrow> 'w \<Rightarrow> outcome_any \<times> 'w" where
  "HTTPSkill_Execute h s input w =
     (case http_body h s (as_map input) of
        Inl err \<Rightarrow> (fails err, w)
      | Inr body \<Rightarrow>
          (case hw_Invalid h (hw_ToUpper h (hs_Method s)) (hs_URL s) of
             Some err \<Rightarrow> (fails (Wrapped ''create request'' err), w)
           | None \<Rightarrow>
               (case hw_Do h (http_timeout s) (http_req h s body) w of
                  (Inl err, w') \<Rightarrow> (fails (Wrapped ''http request failed'' err), w')
                | (Inr resp, w') \<Rightarrow> (http_result h resp, w'))))"

section \<open>The executor\<close>

record ExecutionResult =
  xr_SkillID :: string
  xr_Output :: gval
  xr_Error :: "error option"
  xr_Duration :: int
  xr_Timestamp :: int

text \<open>
  \<open>get\<close> is the registry and \<open>run\<close> the assertion to SkillExecutor with its Execute; \<open>start\<close> and
  \<open>stop\<close> are the readings of the clock. The skill runs in a goroutine of its own, and \<open>late timeout\<close> tells whether the
  select takes the timer. A panic of the goroutine ends the program.
\<close>

definition executor_timeout :: "int \<Rightarrow> int" where
  "executor_timeout t = (if t = 0 then 30 * 10 ^ 9 else t)"

definition executor_select :: "string \<Rightarrow> bool \<Rightarrow> outcome_any go \<Rightarrow> (gval \<times> error option) go" where
  "executor_select skillID late r =
     (case r of
        Panic m \<Rightarrow> Panic m
      | Deadlock \<Rightarrow> Ret (VNil, Some (ErrorString (''skill execution timeout: '' @ skillID)))
      | Ret (out, err) \<Rightarrow>
          (if late then Ret (VNil, Some (ErrorString (''skill execution timeout: '' @ skillID)))
           else Ret (case err of None \<Rightarrow> (out, None) | Some e \<Rightarrow> (VNil, Some e))))"

definition Executor_Execute ::
  "(string \<Rightarrow> 's option) \<Rightarrow> ('s \<Rightarrow> (gval \<Rightarrow> 'w \<Rightarrow> outcome_any go \<times> 'w) option) \<Rightarrow> int \<Rightarrow> int \<Rightarrow> (int \<Rightarrow> bool) \<Rightarrow> string \<Rightarrow> gval \<Rightarrow> int \<Rightarrow> 'w
     \<Rightarrow> ExecutionResult go \<times> 'w" where
  "Executor_Execute get run start stop late skillID input timeout w =
     (let result = (\<lambda>out err. \<lparr>xr_SkillID = skillID, xr_Output = out, xr_Error = err, xr_Duration = wrap64 (stop - start), xr_Timestamp = start\<rparr>) in
      case get skillID of
        None \<Rightarrow> (Ret (result VNil (Some (ErrorString (''skill not found: '' @ skillID)))), w)
      | Some s \<Rightarrow>
          (case run s of
             None \<Rightarrow> (Ret (result VNil (Some (ErrorString (''skill is not executable: '' @ skillID)))), w)
           | Some f \<Rightarrow>
               (case f input w of
                  (r, w') \<Rightarrow> (go_bind (executor_select skillID (late (executor_timeout timeout)) r) (\<lambda>(out, err). Ret (result out err)), w'))))"

section \<open>What the kinds of skills do\<close>

lemma float32_at_None [simp]: "float32_at m k = None"
  by (simp add: float32_at_def split: option.split)

text \<open>A body that encoding/json has decoded holds its numbers as float64.\<close>

definition decoded :: "(string \<times> gval) list \<Rightarrow> bool" where
  "decoded m \<longleftrightarrow> (\<forall>(k, v)\<in>set m. case v of VInt _ \<Rightarrow> False | _ \<Rightarrow> True)"

lemma int_at_decoded: "decoded m \<Longrightarrow> int_at m k = None"
  by (auto simp: int_at_def decoded_def split: option.split gval.split dest!: map_of_SomeD)

text \<open>Of a decoded body, only the model and the prompt reach the request of an LLM skill: temperature and
  token limit are always those of the skill, whatever numbers the caller sends.
\<close>

theorem llm_numbers_ignored:
  assumes "decoded m" "decoded m'" "string_at m ''model'' = string_at m' ''model''" "string_at m ''prompt'' = string_at m' ''prompt''"
  shows "LLMSkill_Execute override s (VMap m) w = LLMSkill_Execute override s (VMap m') w \<and>
    cr_Temperature (llm_request s m p) = ls_Temperature s \<and> cr_MaxTokens (llm_request s m p) = ls_MaxTokens s"
proof -
  have req: "llm_request s m = llm_request s m'"
    using assms by (simp add: llm_request_def llm_model_def int_at_decoded fun_eq_iff)
  have model: "llm_model s m = llm_model s m'" using assms by (simp add: llm_model_def)
  have "LLMSkill_Execute override s (VMap m) w = LLMSkill_Execute override s (VMap m') w"
    unfolding LLMSkill_Execute_def Let_def as_map.simps entries_def option.case req model assms(4) by (rule refl)
  moreover have "cr_Temperature (llm_request s m p) = ls_Temperature s \<and> cr_MaxTokens (llm_request s m p) = ls_MaxTokens s"
    using assms(1) by (simp add: llm_request_def int_at_decoded)
  ultimately show ?thesis by blast
qed

definition demo_llm :: "nat LLMSkill" where
  "demo_llm = NewLLMSkill ''s1'' ''ask'' '''' '''' ''qwen-max'' (1 / 2) 100 demo_gateway"

theorem llm_numbers_ignored_witness:
  "LLMSkill_Execute None demo_llm (VMap [(''prompt'', VStr ''hi''), (''max_tokens'', VFloat 5)]) 0 =
     LLMSkill_Execute None demo_llm (VMap [(''prompt'', VStr ''hi'')]) 0"
  using llm_numbers_ignored[of "[(''prompt'', VStr ''hi''), (''max_tokens'', VFloat 5)]" "[(''prompt'', VStr ''hi'')]" None demo_llm 0]
  by (simp add: decoded_def string_at_def)

text \<open>What the executor is given of the input of a code skill: the tenant for the semaphore, and everything else for the code.\<close>

lemma code_skill_input:
  assumes "cs_hasExecutor s" "string_at (entries (as_map input)) tenant_key = Some t"
  shows "CodeSkill_Execute sy s input e w =
    (case code_Execute sy (cs_Language s) (cs_Code s) t (user_input (entries (as_map input))) e w of
       (r, w') \<Rightarrow> (go_bind r (\<lambda>(out, e'). Ret (skill_outcome s out, e')), w'))"
    and "map_of (user_input m) tenant_key = None" "k \<noteq> tenant_key \<Longrightarrow> map_of (user_input m) k = map_of m k"
proof -
  show "CodeSkill_Execute sy s input e w =
    (case code_Execute sy (cs_Language s) (cs_Code s) t (user_input (entries (as_map input))) e w of
       (r, w') \<Rightarrow> (go_bind r (\<lambda>(out, e'). Ret (skill_outcome s out, e')), w'))"
    using assms by (simp add: CodeSkill_Execute_def)
  show "map_of (user_input m) tenant_key = None" by (auto simp: user_input_def map_of_eq_None_iff)
  show "k \<noteq> tenant_key \<Longrightarrow> map_of (user_input m) k = map_of m k"
    by (induction m) (auto simp: user_input_def)
qed

lemma CodeSkill_Execute_returns:
  "\<exists>r e'. fst (CodeSkill_Execute sy s input e w) = Ret (r, e') \<and> sem_same (ce_sem e) (ce_sem e')"
proof (cases "cs_hasExecutor s")
  case True
  define m where "m = entries (as_map input)"
  define t where "t = (case string_at m tenant_key of None \<Rightarrow> '''' | Some t \<Rightarrow> t)"
  obtain r e' where "fst (code_Execute sy (cs_Language s) (cs_Code s) t (user_input m) e w) = Ret (r, e')" "sem_same (ce_sem e) (ce_sem e')"
    using code_Execute_returns by metis
  moreover from True have "CodeSkill_Execute sy s input e w =
    (case code_Execute sy (cs_Language s) (cs_Code s) t (user_input m) e w of (r, w') \<Rightarrow> (go_bind r (\<lambda>(out, e'). Ret (skill_outcome s out, e')), w'))"
    by (simp add: CodeSkill_Execute_def m_def t_def Let_def)
  ultimately show ?thesis by (simp add: split_beta)
qed (simp add: CodeSkill_Execute_def sem_same_def)

text \<open>The answer of an HTTP skill is kept beside the error of its status.\<close>

lemma http_result_status:
  assumes "hp_Body resp = Inr raw"
  shows "snd (http_result h resp) \<noteq> None \<longleftrightarrow> 400 \<le> hp_StatusCode resp"
    and "\<exists>body. fst (http_result h resp) = VMap [(''status_code'', VInt (hp_StatusCode resp)), (''body'', body)]"
  using assms by (simp_all add: http_result_def Let_def)

text \<open>Only creation fills in the method and the time limit.\<close>

lemma new_http_skill_limits:
  "hs_TimeoutSec (NewHTTPSkill i n de url m hdr t secs) > 0" "hs_Method (NewHTTPSkill i n de url m hdr t secs) \<noteq> ''''"
  by (simp_all add: NewHTTPSkill_def Let_def)

end
