(* ===== verification/Agent_Registry.thy ===== *)
theory Agent_Registry
  imports Chat Agent
begin

text \<open>
  The agents of a tenant and their executions: internal/agent/registry.go and
  internal/agent/execution_store.go. The registry keeps an agent as a row of the table agents and
  rows of three link tables, for its skills, MCP servers and knowledge workspaces; every operation is
  one transaction in the schema of the tenant of its context. While the rows of a query are open, the
  driver refuses further queries on the same transaction with an error; that error is an argument
  (\<open>busy\<close>), absent for a driver that would allow them. Tenant ids that contain a quotation mark are
  outside of the model.

  Proved: an agent that was registered is read back with all its fields and links; a failed
  registration or update changes nothing; removal cascades to links, conversations and messages;
  the list of all agents loses every link.
\<close>

section \<open>Configurations\<close>

record FullConfig = AgentConfig +
  fc_Name :: string
  fc_Description :: string
  fc_Persona :: string
  fc_AllowedSkills :: "string list option"
  fc_MCPServerIDs :: "string list option"
  fc_KnowledgeWorkspaceIDs :: "string list option"

text \<open>A slice that append starts from nil.\<close>

definition nil_slice :: "'a list \<Rightarrow> 'a list option" where
  "nil_slice xs = (if xs = [] then None else Some xs)"

definition slice :: "'a list option \<Rightarrow> 'a list" where
  "slice s = (case s of None \<Rightarrow> [] | Some xs \<Rightarrow> xs)"

lemma slice_simps [simp]: "slice None = []" "slice (Some xs) = xs" "slice (nil_slice xs) = xs"
  by (simp_all add: slice_def nil_slice_def)

definition ErrNameConflict :: error where "ErrNameConflict = ErrorString ''agent name already exists''"
definition ErrInvalidSkill :: error where "ErrInvalidSkill = ErrorString ''skill not found''"
definition out_of_range :: error where "out_of_range = ErrorString ''is greater than maximum value for int4''"

definition int4 :: "int \<Rightarrow> bool" where
  "int4 i \<longleftrightarrow> - (2 ^ 31) \<le> i \<and> i < 2 ^ 31"

definition registry_exec :: "env \<Rightarrow> tenant_ctx \<Rightarrow> (string \<Rightarrow> 'a tx_body) \<Rightarrow> tworld \<Rightarrow> error option \<times> 'a option \<times> tworld" where
  "registry_exec ev ctx fn w =
     (case FromContext ctx of
        None \<Rightarrow> (Some (ErrorString ''registry: missing tenant context''), None, w)
      | Some tc \<Rightarrow>
          (if tc_TenantID tc = '''' then (Some (ErrorString ''registry: missing tenant context''), None, w)
           else t_exec ev ''registry'' (fn (chat_schema (tc_TenantID tc))) w))"

section \<open>Links\<close>

definition agent_exists :: "string \<Rightarrow> ten_db \<Rightarrow> bool" where
  "agent_exists a d \<longleftrightarrow> list_ex (\<lambda>r. ag_ID r = a) (d_agents d)"

text \<open>Inserting a link: the primary key is checked first, then the references.\<close>

definition link_result :: "string \<Rightarrow> string \<Rightarrow> (string \<times> string) list \<Rightarrow> bool \<Rightarrow> ten_db \<Rightarrow> ten_db \<Rightarrow> (error + unit) \<times> ten_db" where
  "link_result a x ls ex d d' =
     (if (a, x) \<in> set ls then (Inl unique_violation, d)
      else if \<not> agent_exists a d \<or> \<not> ex then (Inl fk_violation, d)
      else (Inr (), d'))"

definition del_skill_links :: "string \<Rightarrow> unit tstmt" where
  "del_skill_links a t i d = (Inr (), d\<lparr>d_skill_links := filter (\<lambda>l. fst l \<noteq> a) (d_skill_links d)\<rparr>)"

definition ins_skill_link :: "string \<Rightarrow> string \<Rightarrow> unit tstmt" where
  "ins_skill_link a x t i d =
     link_result a x (d_skill_links d) (list_ex (\<lambda>s. sk_ID s = x) (d_skills d)) d (d\<lparr>d_skill_links := d_skill_links d @ [(a, x)]\<rparr>)"

definition del_mcp_links :: "string \<Rightarrow> unit tstmt" where
  "del_mcp_links a t i d = (Inr (), d\<lparr>d_mcp_links := filter (\<lambda>l. fst l \<noteq> a) (d_mcp_links d)\<rparr>)"

definition ins_mcp_link :: "string \<Rightarrow> string \<Rightarrow> unit tstmt" where
  "ins_mcp_link a x t i d =
     link_result a x (d_mcp_links d) (x \<in> set (d_servers d)) d (d\<lparr>d_mcp_links := d_mcp_links d @ [(a, x)]\<rparr>)"

definition del_ws_links :: "string \<Rightarrow> unit tstmt" where
  "del_ws_links a t i d = (Inr (), d\<lparr>d_ws_links := filter (\<lambda>l. fst l \<noteq> a) (d_ws_links d)\<rparr>)"

definition ins_ws_link :: "pg_types \<Rightarrow> string \<Rightarrow> string \<Rightarrow> unit tstmt" where
  "ins_ws_link pg a x t i =
     with_uuid pg x (\<lambda>u d. link_result a u (d_ws_links d) (list_ex (\<lambda>s. ws_ID s = u) (d_workspaces d)) d (d\<lparr>d_ws_links := d_ws_links d @ [(a, u)]\<rparr>))"

text \<open>The loop over the ids; empty ones are skipped.\<close>

fun link_loop :: "env \<Rightarrow> string \<Rightarrow> int \<Rightarrow> (string \<Rightarrow> unit tstmt) \<Rightarrow> (string \<Rightarrow> error \<Rightarrow> error) \<Rightarrow> string list \<Rightarrow> tworld \<Rightarrow> error option \<times> tworld" where
  "link_loop ev s t0 ins wrap [] w = (None, w)"
| "link_loop ev s t0 ins wrap (x # xs) w =
     (if x = '''' then link_loop ev s t0 ins wrap xs w
      else case t_stmt ev t0 s (ins x) w of
        (Inl e, w1) \<Rightarrow> (Some (wrap x e), w1)
      | (Inr _, w1) \<Rightarrow> link_loop ev s t0 ins wrap xs w1)"

definition replace_links :: "env \<Rightarrow> string \<Rightarrow> int \<Rightarrow> unit tstmt \<Rightarrow> (error \<Rightarrow> error) \<Rightarrow> (string \<Rightarrow> unit tstmt) \<Rightarrow> (string \<Rightarrow> error \<Rightarrow> error) \<Rightarrow> string list \<Rightarrow> tworld \<Rightarrow> error option \<times> tworld" where
  "replace_links ev s t0 del wrapDel ins wrap xs w =
     (case t_stmt ev t0 s del w of
        (Inl e, w1) \<Rightarrow> (Some (wrapDel e), w1)
      | (Inr _, w1) \<Rightarrow> link_loop ev s t0 ins wrap xs w1)"

definition replaceSkills :: "env \<Rightarrow> string \<Rightarrow> int \<Rightarrow> string \<Rightarrow> string list \<Rightarrow> tworld \<Rightarrow> error option \<times> tworld" where
  "replaceSkills ev s t0 a xs =
     replace_links ev s t0 (del_skill_links a) (Wrapped (''replace agent_skill_links delete agent '' @ a)) (ins_skill_link a)
       (\<lambda>x e. if e = fk_violation then WrappedBy ErrInvalidSkill x
              else Wrapped (''replace agent_skill_links insert agent '' @ a @ '' skill '' @ x) e) xs"

definition replaceMCPServers :: "env \<Rightarrow> string \<Rightarrow> int \<Rightarrow> string \<Rightarrow> string list \<Rightarrow> tworld \<Rightarrow> error option \<times> tworld" where
  "replaceMCPServers ev s t0 a xs =
     replace_links ev s t0 (del_mcp_links a) (Wrapped (''replace agent_mcp_links delete agent '' @ a)) (ins_mcp_link a)
       (\<lambda>x. Wrapped (''replace agent_mcp_links insert agent '' @ a @ '' server '' @ x)) xs"

definition replaceKnowledgeWorkspaces :: "env \<Rightarrow> pg_types \<Rightarrow> string \<Rightarrow> int \<Rightarrow> string \<Rightarrow> string list \<Rightarrow> tworld \<Rightarrow> error option \<times> tworld" where
  "replaceKnowledgeWorkspaces ev pg s t0 a xs =
     replace_links ev s t0 (del_ws_links a) (Wrapped (''replace agent_workspaces delete agent '' @ a)) (ins_ws_link pg a)
       (\<lambda>x. Wrapped (''replace agent_workspaces insert agent '' @ a @ '' workspace '' @ x)) xs"

text \<open>The links of Register and Update: the first error ends the transaction.\<close>

definition replace_all :: "env \<Rightarrow> pg_types \<Rightarrow> string \<Rightarrow> int \<Rightarrow> FullConfig \<Rightarrow> tworld \<Rightarrow> error option \<times> tworld" where
  "replace_all ev pg s t0 cfg w =
     (case replaceSkills ev s t0 (ac_ID cfg) (slice (fc_AllowedSkills cfg)) w of
        (Some e, w1) \<Rightarrow> (Some e, w1)
      | (None, w1) \<Rightarrow>
          (case replaceMCPServers ev s t0 (ac_ID cfg) (slice (fc_MCPServerIDs cfg)) w1 of
             (Some e, w2) \<Rightarrow> (Some e, w2)
           | (None, w2) \<Rightarrow> replaceKnowledgeWorkspaces ev pg s t0 (ac_ID cfg) (slice (fc_KnowledgeWorkspaceIDs cfg)) w2))"

definition sel_skill_ids :: "string \<Rightarrow> string list tstmt" where
  "sel_skill_ids a t i d = (Inr (map snd (filter (\<lambda>l. fst l = a) (d_skill_links d))), d)"

definition sel_mcp_ids :: "string \<Rightarrow> string list tstmt" where
  "sel_mcp_ids a t i d = (Inr (map snd (filter (\<lambda>l. fst l = a) (d_mcp_links d))), d)"

definition sel_workspaces :: "string \<Rightarrow> (string \<times> string) list tstmt" where
  "sel_workspaces a t i d =
     (Inr (concat (map (\<lambda>l. map (\<lambda>r. (snd l, ws_Name r)) (filter (\<lambda>r. ws_ID r = snd l) (d_workspaces d))) (filter (\<lambda>l. fst l = a) (d_ws_links d)))), d)"

section \<open>Operations of the registry\<close>

definition ins_agent :: "FullConfig \<Rightarrow> unit tstmt" where
  "ins_agent cfg t i d =
     (if \<not> int4 (ac_MaxIterations cfg) then (Inl out_of_range, d)
      else if list_ex (\<lambda>r. ag_ID r = ac_ID cfg \<or> ag_Name r = fc_Name cfg) (d_agents d) then (Inl unique_violation, d)
      else (Inr (), d\<lparr>d_agents := d_agents d @ [\<lparr>ag_ID = ac_ID cfg, ag_Name = fc_Name cfg, ag_Type = ac_Type cfg, ag_Description = fc_Description cfg,
              ag_Persona = fc_Persona cfg, ag_SystemPrompt = ac_SystemPrompt cfg, ag_LLMModel = ac_LLMModel cfg,
              ag_MaxIterations = ac_MaxIterations cfg, ag_created = t\<rparr>]\<rparr>))"

definition register_body :: "env \<Rightarrow> pg_types \<Rightarrow> FullConfig \<Rightarrow> string \<Rightarrow> unit tx_body" where
  "register_body ev pg cfg s t0 w =
     (case t_stmt ev t0 s (ins_agent cfg) w of
        (Inl e, w1) \<Rightarrow>
          (Some (if e = unique_violation then WrappedBy ErrNameConflict (''agent name '' @ quoted (fc_Name cfg))
                 else Wrapped (''register agent '' @ ac_ID cfg) e), (), w1)
      | (Inr _, w1) \<Rightarrow> (case replace_all ev pg s t0 cfg w1 of (err, w2) \<Rightarrow> (err, (), w2)))"

definition Register :: "env \<Rightarrow> pg_types \<Rightarrow> tenant_ctx \<Rightarrow> FullConfig \<Rightarrow> tworld \<Rightarrow> error option \<times> tworld" where
  "Register ev pg ctx cfg w = (case registry_exec ev ctx (register_body ev pg cfg) w of (err, _, w') \<Rightarrow> (err, w'))"

definition sel_agent :: "string \<Rightarrow> agent_row tstmt" where
  "sel_agent a t i d = (query_row (filter (\<lambda>r. ag_ID r = a) (d_agents d)), d)"

definition config_of :: "agent_row \<Rightarrow> string list option \<Rightarrow> string list option \<Rightarrow> (string \<times> string) list \<Rightarrow> FullConfig" where
  "config_of r skills servers wss =
     \<lparr>ac_ID = ag_ID r, ac_Type = ag_Type r, ac_SystemPrompt = ag_SystemPrompt r, ac_LLMModel = ag_LLMModel r,
      ac_MaxIterations = ag_MaxIterations r, ac_KnowledgeWorkspaceNames = map snd wss, fc_Name = ag_Name r,
      fc_Description = ag_Description r, fc_Persona = ag_Persona r, fc_AllowedSkills = skills, fc_MCPServerIDs = servers,
      fc_KnowledgeWorkspaceIDs = nil_slice (map fst wss)\<rparr>"

definition get_body :: "env \<Rightarrow> string \<Rightarrow> string \<Rightarrow> FullConfig option tx_body" where
  "get_body ev a s t0 w =
     (case t_stmt ev t0 s (sel_agent a) w of
        (Inl e, w1) \<Rightarrow> (Some e, None, w1)
      | (Inr r, w1) \<Rightarrow>
          (case t_stmt ev t0 s (sel_skill_ids a) w1 of
             (Inl e, w2) \<Rightarrow> (Some (Wrapped (''load skill_links agent '' @ a) e), None, w2)
           | (Inr skills, w2) \<Rightarrow>
               (case t_stmt ev t0 s (sel_mcp_ids a) w2 of
                  (Inl e, w3) \<Rightarrow> (Some (Wrapped (''load mcp_configs agent '' @ a) e), None, w3)
                | (Inr servers, w3) \<Rightarrow>
                    (case t_stmt ev t0 s (sel_workspaces a) w3 of
                       (Inl e, w4) \<Rightarrow> (Some (Wrapped (''load knowledge_workspaces agent '' @ a) e), None, w4)
                     | (Inr wss, w4) \<Rightarrow> (None, Some (config_of r (Some skills) (Some servers) wss), w4)))))"

text \<open>Get does not tell a missing agent from a failure.\<close>

definition Get :: "env \<Rightarrow> tenant_ctx \<Rightarrow> string \<Rightarrow> tworld \<Rightarrow> FullConfig option \<times> tworld" where
  "Get ev ctx a w =
     (case registry_exec ev ctx (get_body ev a) w of
        (None, Some (Some cfg), w') \<Rightarrow> (Some cfg, w')
      | (_, _, w') \<Rightarrow> (None, w'))"

definition sel_agents :: "agent_row list tstmt" where
  "sel_agents t i d = (Inr (sort_key ag_created (d_agents d)), d)"

text \<open>A query of the loop, while the rows of the agents are open: its error is dropped.\<close>

definition open_query :: "error option \<Rightarrow> env \<Rightarrow> int \<Rightarrow> string \<Rightarrow> 'a list tstmt \<Rightarrow> tworld \<Rightarrow> 'a list \<times> tworld" where
  "open_query busy ev t0 s st w =
     (case busy of
        Some _ \<Rightarrow> ([], w)
      | None \<Rightarrow> (case t_stmt ev t0 s st w of (Inl _, w') \<Rightarrow> ([], w') | (Inr xs, w') \<Rightarrow> (xs, w')))"

fun get_all_loop :: "error option \<Rightarrow> env \<Rightarrow> string \<Rightarrow> int \<Rightarrow> agent_row list \<Rightarrow> tworld \<Rightarrow> FullConfig list \<times> tworld" where
  "get_all_loop busy ev s t0 [] w = ([], w)"
| "get_all_loop busy ev s t0 (r # rs) w =
     (let (skills, w1) = open_query busy ev t0 s (sel_skill_ids (ag_ID r)) w;
          (servers, w2) = open_query busy ev t0 s (sel_mcp_ids (ag_ID r)) w1;
          (wss, w3) = open_query busy ev t0 s (sel_workspaces (ag_ID r)) w2;
          cfg = (config_of r (Some skills) (Some servers) wss)\<lparr>fc_KnowledgeWorkspaceIDs := Some (map fst wss)\<rparr>;
          (cfgs, w4) = get_all_loop busy ev s t0 rs w3
      in (cfg # cfgs, w4))"

definition get_all_body :: "error option \<Rightarrow> env \<Rightarrow> string \<Rightarrow> FullConfig list tx_body" where
  "get_all_body busy ev s t0 w =
     (case t_stmt ev t0 s sel_agents w of
        (Inl e, w1) \<Rightarrow> (Some e, [], w1)
      | (Inr rs, w1) \<Rightarrow> (case get_all_loop busy ev s t0 rs w1 of (cfgs, w2) \<Rightarrow> (None, cfgs, w2)))"

text \<open>The error of the transaction is dropped; what was collected is returned.\<close>

definition GetAll :: "error option \<Rightarrow> env \<Rightarrow> tenant_ctx \<Rightarrow> tworld \<Rightarrow> FullConfig list \<times> tworld" where
  "GetAll busy ev ctx w =
     (case registry_exec ev ctx (get_all_body busy ev) w of (_, r, w') \<Rightarrow> (case r of None \<Rightarrow> [] | Some cfgs \<Rightarrow> cfgs, w'))"

text \<open>Deleting an agent deletes its links and its conversations with their messages.\<close>

definition del_agent :: "string \<Rightarrow> nat tstmt" where
  "del_agent a t i d =
     (let d1 = drop_convs (\<lambda>c. cv_AgentID c = a) d
      in (Inr (length (filter (\<lambda>r. ag_ID r = a) (d_agents d))),
          d1\<lparr>d_agents := filter (\<lambda>r. ag_ID r \<noteq> a) (d_agents d1),
             d_skill_links := filter (\<lambda>l. fst l \<noteq> a) (d_skill_links d1),
             d_mcp_links := filter (\<lambda>l. fst l \<noteq> a) (d_mcp_links d1),
             d_ws_links := filter (\<lambda>l. fst l \<noteq> a) (d_ws_links d1)\<rparr>))"

definition remove_body :: "env \<Rightarrow> string \<Rightarrow> string \<Rightarrow> unit tx_body" where
  "remove_body ev a s t0 w =
     (case t_stmt ev t0 s (del_agent a) w of
        (Inl e, w1) \<Rightarrow> (Some e, (), w1)
      | (Inr n, w1) \<Rightarrow> (if n = 0 then Some (ErrorString (''agent with ID '' @ a @ '' not found'')) else None, (), w1))"

definition Remove :: "env \<Rightarrow> tenant_ctx \<Rightarrow> string \<Rightarrow> tworld \<Rightarrow> error option \<times> tworld" where
  "Remove ev ctx a w = (case registry_exec ev ctx (remove_body ev a) w of (err, _, w') \<Rightarrow> (err, w'))"

text \<open>The type of an agent is not updated.\<close>

definition upd_agent :: "FullConfig \<Rightarrow> nat tstmt" where
  "upd_agent cfg t i d =
     (if \<not> int4 (ac_MaxIterations cfg) then (Inl out_of_range, d)
      else if agent_exists (ac_ID cfg) d \<and> list_ex (\<lambda>r. ag_ID r \<noteq> ac_ID cfg \<and> ag_Name r = fc_Name cfg) (d_agents d) then (Inl unique_violation, d)
      else (Inr (length (filter (\<lambda>r. ag_ID r = ac_ID cfg) (d_agents d))),
            d\<lparr>d_agents := map_where (\<lambda>r. ag_ID r = ac_ID cfg)
                (\<lambda>r. r\<lparr>ag_Name := fc_Name cfg, ag_Description := fc_Description cfg, ag_Persona := fc_Persona cfg,
                       ag_SystemPrompt := ac_SystemPrompt cfg, ag_LLMModel := ac_LLMModel cfg, ag_MaxIterations := ac_MaxIterations cfg\<rparr>) (d_agents d)\<rparr>))"

definition update_body :: "env \<Rightarrow> pg_types \<Rightarrow> FullConfig \<Rightarrow> string \<Rightarrow> unit tx_body" where
  "update_body ev pg cfg s t0 w =
     (case t_stmt ev t0 s (upd_agent cfg) w of
        (Inl e, w1) \<Rightarrow> (Some (Wrapped (''update agent '' @ ac_ID cfg) e), (), w1)
      | (Inr n, w1) \<Rightarrow>
          (if n = 0 then (Some (Wrapped (''update agent '' @ ac_ID cfg) AgentErrNotFound), (), w1)
           else case replace_all ev pg s t0 cfg w1 of (err, w2) \<Rightarrow> (err, (), w2)))"

definition Update :: "env \<Rightarrow> pg_types \<Rightarrow> tenant_ctx \<Rightarrow> FullConfig \<Rightarrow> tworld \<Rightarrow> error option \<times> tworld" where
  "Update ev pg ctx cfg w = (case registry_exec ev ctx (update_body ev pg cfg) w of (err, _, w') \<Rightarrow> (err, w'))"

section \<open>The execution store\<close>

type_synonym ExecutionRecord = exec_row

definition execution_exec :: "env \<Rightarrow> tenant_ctx \<Rightarrow> (string \<Rightarrow> 'a tx_body) \<Rightarrow> tworld \<Rightarrow> error option \<times> 'a option \<times> tworld" where
  "execution_exec ev ctx fn w =
     (case FromContext ctx of
        None \<Rightarrow> (Some (ErrorString ''execution_store: missing tenant context''), None, w)
      | Some tc \<Rightarrow>
          (if tc_TenantID tc = '''' then (Some (ErrorString ''execution_store: missing tenant context''), None, w)
           else t_exec ev ''execution_store'' (fn (chat_schema (tc_TenantID tc))) w))"

definition ins_execution :: "ExecutionRecord \<Rightarrow> unit tstmt" where
  "ins_execution r t i d =
     (if \<not> int4 (ex_TotalTokens r) \<or> \<not> int4 (ex_DurationMs r) then (Inl out_of_range, d)
      else if ex_Status r \<noteq> ''success'' \<and> ex_Status r \<noteq> ''error'' then (Inl check_violation, d)
      else if list_ex (\<lambda>x. ex_ID x = i) (d_execs d) then (Inl unique_violation, d)
      else (Inr (), d\<lparr>d_execs := d_execs d @ [r\<lparr>ex_ID := i, ex_CreatedAt := t\<rparr>]\<rparr>))"

definition Insert :: "env \<Rightarrow> tenant_ctx \<Rightarrow> ExecutionRecord \<Rightarrow> tworld \<Rightarrow> error option \<times> tworld" where
  "Insert ev ctx r w =
     (case execution_exec ev ctx (\<lambda>s t0 w. case t_stmt ev t0 s (ins_execution r) w of
          (Inl e, w1) \<Rightarrow> (Some (Wrapped ''insert'' e), (), w1) | (Inr _, w1) \<Rightarrow> (None, (), w1)) w of
        (err, _, w') \<Rightarrow> (err, w'))"

definition recent_execs :: "int \<Rightarrow> ten_db \<Rightarrow> exec_row list" where
  "recent_execs t d = filter (\<lambda>r. t - thirty_days \<le> ex_CreatedAt r) (d_execs d)"

definition count_execs :: "int tstmt" where
  "count_execs t i d = (Inr (int (length (recent_execs t d))), d)"

definition sel_execs :: "int \<Rightarrow> int \<Rightarrow> exec_row list tstmt" where
  "sel_execs lmt off t i d = (limit_offset lmt off (sort_key (\<lambda>r. - ex_CreatedAt r) (recent_execs t d)), d)"

definition list_params :: "int \<Rightarrow> int \<Rightarrow> int \<times> int" where
  "list_params page0 size0 =
     (let page = (if page0 < 1 then 1 else page0); pageSize = (if size0 < 1 then 20 else size0)
      in (pageSize, wrap64 ((page - 1) * pageSize)))"

definition list_body :: "env \<Rightarrow> int \<Rightarrow> int \<Rightarrow> string \<Rightarrow> (exec_row list \<times> int) tx_body" where
  "list_body ev lmt off s t0 w =
     (case t_stmt ev t0 s count_execs w of
        (Inl e, w1) \<Rightarrow> (Some (Wrapped ''count'' e), ([], 0), w1)
      | (Inr n, w1) \<Rightarrow>
          (case t_stmt ev t0 s (sel_execs lmt off) w1 of
             (Inl e, w2) \<Rightarrow> (Some (Wrapped ''query'' e), ([], n), w2)
           | (Inr rs, w2) \<Rightarrow> (None, (rs, n), w2)))"

definition List_executions :: "env \<Rightarrow> tenant_ctx \<Rightarrow> int \<Rightarrow> int \<Rightarrow> tworld \<Rightarrow> exec_row list \<times> int \<times> error option \<times> tworld" where
  "List_executions ev ctx page0 size0 w =
     (let (lmt, off) = list_params page0 size0 in
      case execution_exec ev ctx (list_body ev lmt off) w of
        (err, r, w') \<Rightarrow> (case r of None \<Rightarrow> ([], 0, err, w') | Some (rs, n) \<Rightarrow> (rs, n, err, w')))"

section \<open>What a successful registration stores\<close>

lemma link_loop_adds:
  assumes "\<And>x t i d d'. ins x t i d = (Inr (), d') \<Longrightarrow> d' = add x d"
    and "link_loop ev s t0 ins wrap xs w = (None, w')" "tw_schemas w s = Some d"
  shows "tw_schemas w' = (tw_schemas w)(s \<mapsto> fold add (filter (\<lambda>x. x \<noteq> '''') xs) d)"
  using assms(2,3)
proof (induction xs arbitrary: w d)
  case Nil
  then show ?case by (auto simp: fun_upd_idem)
next
  case (Cons x xs)
  show ?case
  proof (cases "x = ''''")
    case True
    with Cons show ?thesis by simp
  next
    case False
    with Cons.prems(1) obtain w1 where st: "t_stmt ev t0 s (ins x) w = (Inr (), w1)" and l: "link_loop ev s t0 ins wrap xs w1 = (None, w')"
      by (auto split: prod.splits sum.splits)
    from st obtain d1 where d1: "ins x t0 (ev_uuid ev (tw_calls w)) d = (Inr (), d1)" "tw_schemas w1 = (tw_schemas w)(s \<mapsto> d1)"
      using Cons.prems(2) by (elim t_stmt_Inr) auto
    from Cons.IH[OF l, of d1] d1 assms(1)[OF d1(1)] False show ?thesis by (simp add: fun_eq_iff)
  qed
qed

lemma replace_links_adds:
  assumes "\<And>x t i d d'. ins x t i d = (Inr (), d') \<Longrightarrow> d' = add x d" "\<And>t i d. del t i d = (Inr (), clear d)"
    and "replace_links ev s t0 del wd ins wrap xs w = (None, w')" "tw_schemas w s = Some d"
  shows "tw_schemas w' = (tw_schemas w)(s \<mapsto> fold add (filter (\<lambda>x. x \<noteq> '''') xs) (clear d))"
proof -
  from assms(3) obtain w1 where st: "t_stmt ev t0 s del w = (Inr (), w1)" and l: "link_loop ev s t0 ins wrap xs w1 = (None, w')"
    by (auto simp: replace_links_def split: prod.splits sum.splits)
  from st assms(2,4) have "tw_schemas w1 = (tw_schemas w)(s \<mapsto> clear d)" by (elim t_stmt_Inr) auto
  with link_loop_adds[where ins = ins and add = add, OF assms(1) l] show ?thesis by simp
qed

lemma link_result_Inr: "link_result a x ls ex d d1 = (Inr (), d') \<Longrightarrow> d' = d1 \<and> ex"
  by (auto simp: link_result_def split: if_splits)

lemma fold_skill_links: "fold (\<lambda>x d. d\<lparr>d_skill_links := d_skill_links d @ [(a, x)]\<rparr>) xs d = d\<lparr>d_skill_links := d_skill_links d @ map (Pair a) xs\<rparr>"
  by (induction xs arbitrary: d) simp_all

lemma fold_mcp_links: "fold (\<lambda>x d. d\<lparr>d_mcp_links := d_mcp_links d @ [(a, x)]\<rparr>) xs d = d\<lparr>d_mcp_links := d_mcp_links d @ map (Pair a) xs\<rparr>"
  by (induction xs arbitrary: d) simp_all

lemma fold_ws_links: "fold (\<lambda>x d. d\<lparr>d_ws_links := d_ws_links d @ [(a, f x)]\<rparr>) xs d = d\<lparr>d_ws_links := d_ws_links d @ map (\<lambda>x. (a, f x)) xs\<rparr>"
  by (induction xs arbitrary: d) simp_all

definition given :: "string list option \<Rightarrow> string list" where
  "given xs = filter (\<lambda>x. x \<noteq> '''') (slice xs)"

definition linked :: "pg_types \<Rightarrow> FullConfig \<Rightarrow> ten_db \<Rightarrow> ten_db" where
  "linked pg cfg d =
     (let a = ac_ID cfg in
      d\<lparr>d_skill_links := filter (\<lambda>l. fst l \<noteq> a) (d_skill_links d) @ map (Pair a) (given (fc_AllowedSkills cfg)),
        d_mcp_links := filter (\<lambda>l. fst l \<noteq> a) (d_mcp_links d) @ map (Pair a) (given (fc_MCPServerIDs cfg)),
        d_ws_links := filter (\<lambda>l. fst l \<noteq> a) (d_ws_links d) @ map (\<lambda>x. (a, the (pg_uuid pg x))) (given (fc_KnowledgeWorkspaceIDs cfg))\<rparr>)"

lemma replaceSkills_adds:
  assumes "replaceSkills ev s t0 a xs w = (None, w')" "tw_schemas w s = Some d"
  shows "tw_schemas w' = (tw_schemas w)(s \<mapsto> d\<lparr>d_skill_links := filter (\<lambda>l. fst l \<noteq> a) (d_skill_links d) @ map (Pair a) (filter (\<lambda>x. x \<noteq> '''') xs)\<rparr>)"
proof -
  have "d' = d\<lparr>d_skill_links := d_skill_links d @ [(a, x)]\<rparr>" if "ins_skill_link a x t i d = (Inr (), d')" for x t i d d'
    using link_result_Inr[OF that[unfolded ins_skill_link_def]] by simp
  from replace_links_adds[where ins = "ins_skill_link a" and add = "\<lambda>x d. d\<lparr>d_skill_links := d_skill_links d @ [(a, x)]\<rparr>" and del = "del_skill_links a" and
      clear = "\<lambda>d. d\<lparr>d_skill_links := filter (\<lambda>l. fst l \<noteq> a) (d_skill_links d)\<rparr>", OF this _ assms(1)[unfolded replaceSkills_def] assms(2)]
  show ?thesis by (simp add: fold_skill_links del_skill_links_def)
qed

lemma replaceMCPServers_adds:
  assumes "replaceMCPServers ev s t0 a xs w = (None, w')" "tw_schemas w s = Some d"
  shows "tw_schemas w' = (tw_schemas w)(s \<mapsto> d\<lparr>d_mcp_links := filter (\<lambda>l. fst l \<noteq> a) (d_mcp_links d) @ map (Pair a) (filter (\<lambda>x. x \<noteq> '''') xs)\<rparr>)"
proof -
  have "d' = d\<lparr>d_mcp_links := d_mcp_links d @ [(a, x)]\<rparr>" if "ins_mcp_link a x t i d = (Inr (), d')" for x t i d d'
    using link_result_Inr[OF that[unfolded ins_mcp_link_def]] by simp
  from replace_links_adds[where ins = "ins_mcp_link a" and add = "\<lambda>x d. d\<lparr>d_mcp_links := d_mcp_links d @ [(a, x)]\<rparr>" and del = "del_mcp_links a" and
      clear = "\<lambda>d. d\<lparr>d_mcp_links := filter (\<lambda>l. fst l \<noteq> a) (d_mcp_links d)\<rparr>", OF this _ assms(1)[unfolded replaceMCPServers_def] assms(2)]
  show ?thesis by (simp add: fold_mcp_links del_mcp_links_def)
qed

lemma replaceKnowledgeWorkspaces_adds:
  assumes "replaceKnowledgeWorkspaces ev pg s t0 a xs w = (None, w')" "tw_schemas w s = Some d"
  shows "tw_schemas w' = (tw_schemas w)(s \<mapsto> d\<lparr>d_ws_links := filter (\<lambda>l. fst l \<noteq> a) (d_ws_links d) @ map (\<lambda>x. (a, the (pg_uuid pg x))) (filter (\<lambda>x. x \<noteq> '''') xs)\<rparr>)"
proof -
  have "d' = d\<lparr>d_ws_links := d_ws_links d @ [(a, the (pg_uuid pg x))]\<rparr>" if "ins_ws_link pg a x t i d = (Inr (), d')" for x t i d d'
    using that link_result_Inr by (fastforce simp: ins_ws_link_def with_uuid_def split: option.splits)
  from replace_links_adds[where ins = "ins_ws_link pg a" and add = "\<lambda>x d. d\<lparr>d_ws_links := d_ws_links d @ [(a, the (pg_uuid pg x))]\<rparr>" and del = "del_ws_links a" and
      clear = "\<lambda>d. d\<lparr>d_ws_links := filter (\<lambda>l. fst l \<noteq> a) (d_ws_links d)\<rparr>", OF this _ assms(1)[unfolded replaceKnowledgeWorkspaces_def] assms(2)]
  show ?thesis by (simp add: fold_ws_links del_ws_links_def)
qed

lemma replace_all_adds:
  assumes "replace_all ev pg s t0 cfg w = (None, w')" "tw_schemas w s = Some d"
  shows "tw_schemas w' = (tw_schemas w)(s \<mapsto> linked pg cfg d)"
proof -
  let ?a = "ac_ID cfg"
  from assms(1) obtain w1 w2 where
    r: "replaceSkills ev s t0 ?a (slice (fc_AllowedSkills cfg)) w = (None, w1)"
      "replaceMCPServers ev s t0 ?a (slice (fc_MCPServerIDs cfg)) w1 = (None, w2)"
      "replaceKnowledgeWorkspaces ev pg s t0 ?a (slice (fc_KnowledgeWorkspaceIDs cfg)) w2 = (None, w')"
    by (auto simp: replace_all_def split: prod.splits option.splits)
  from replaceSkills_adds[OF r(1) assms(2)] replaceMCPServers_adds[OF r(2)] replaceKnowledgeWorkspaces_adds[OF r(3)]
  show ?thesis by (simp add: linked_def given_def Let_def)
qed

definition tenant_of :: "tenant_ctx \<Rightarrow> string \<Rightarrow> bool" where
  "tenant_of ctx tid \<longleftrightarrow> tid \<noteq> '''' \<and> (\<exists>tc. FromContext ctx = Some tc \<and> tc_TenantID tc = tid)"

lemma registry_exec_tenant: "tenant_of ctx tid \<Longrightarrow> registry_exec ev ctx fn w = t_exec ev ''registry'' (fn (chat_schema tid)) w"
  by (auto simp: registry_exec_def tenant_of_def)

definition row_of :: "FullConfig \<Rightarrow> int \<Rightarrow> agent_row" where
  "row_of cfg t = \<lparr>ag_ID = ac_ID cfg, ag_Name = fc_Name cfg, ag_Type = ac_Type cfg, ag_Description = fc_Description cfg,
     ag_Persona = fc_Persona cfg, ag_SystemPrompt = ac_SystemPrompt cfg, ag_LLMModel = ac_LLMModel cfg,
     ag_MaxIterations = ac_MaxIterations cfg, ag_created = t\<rparr>"

text \<open>A successful registration, whatever the environment: what it found and what it stored.\<close>

lemma Register_stores:
  assumes "Register ev pg ctx cfg w = (None, w')" "tenant_of ctx tid"
  obtains d t where "tw_schemas w (chat_schema tid) = Some d"
    and "tw_schemas w' = (tw_schemas w)(chat_schema tid \<mapsto> linked pg cfg (d\<lparr>d_agents := d_agents d @ [row_of cfg t]\<rparr>))"
    and "\<forall>r\<in>set (d_agents d). ag_ID r \<noteq> ac_ID cfg \<and> ag_Name r \<noteq> fc_Name cfg" "int4 (ac_MaxIterations cfg)"
proof -
  let ?s = "chat_schema tid" and ?t = "ev_clock ev (tw_calls w)"
  from assms obtain x where "t_exec ev ''registry'' (register_body ev pg cfg ?s) w = (None, x, w')"
    by (auto simp: Register_def registry_exec_tenant split: prod.splits)
  then obtain w2 where b: "register_body ev pg cfg ?s ?t (ttick (ttick w)) = (None, (), w2)" and w': "tw_schemas w' = tw_schemas w2"
    by (rule t_exec_ok) simp
  from b obtain w1 where st: "t_stmt ev ?t ?s (ins_agent cfg) (ttick (ttick w)) = (Inr (), w1)" and l: "replace_all ev pg ?s ?t cfg w1 = (None, w2)"
    by (auto simp: register_body_def split: prod.splits sum.splits)
  from st obtain d d1 where d: "tw_schemas w ?s = Some d" "ins_agent cfg ?t (ev_uuid ev (tw_calls (ttick (ttick w)))) d = (Inr (), d1)" "tw_schemas w1 = (tw_schemas w)(?s \<mapsto> d1)"
    by (rule t_stmt_Inr) simp
  from d(2) have ins: "d1 = d\<lparr>d_agents := d_agents d @ [row_of cfg ?t]\<rparr>" "\<forall>r\<in>set (d_agents d). ag_ID r \<noteq> ac_ID cfg \<and> ag_Name r \<noteq> fc_Name cfg" "int4 (ac_MaxIterations cfg)"
    by (auto simp: ins_agent_def row_of_def list_ex_iff split: if_splits)
  from replace_all_adds[OF l, of d1] d(3) w' have "tw_schemas w' = (tw_schemas w)(?s \<mapsto> linked pg cfg d1)" by (simp add: fun_eq_iff)
  with that d(1) ins show thesis by blast
qed

text \<open>Reading an agent when nothing fails.\<close>

lemma Get_works:
  assumes "\<forall>n. ev_fault ev n = Works" "tenant_of ctx tid" "tw_schemas w (chat_schema tid) = Some d"
    and "filter (\<lambda>r. ag_ID r = a) (d_agents d) = [r]"
  shows "fst (Get ev ctx a w) =
    Some (config_of r (Some (map snd (filter (\<lambda>l. fst l = a) (d_skill_links d)))) (Some (map snd (filter (\<lambda>l. fst l = a) (d_mcp_links d))))
      (concat (map (\<lambda>l. map (\<lambda>r. (snd l, ws_Name r)) (filter (\<lambda>r. ws_ID r = snd l) (d_workspaces d))) (filter (\<lambda>l. fst l = a) (d_ws_links d)))))"
  using assms
  by (simp add: Get_def registry_exec_tenant t_exec_works get_body_def t_stmt_works ttick_eq sel_agent_def query_row_def
      sel_skill_ids_def sel_mcp_ids_def sel_workspaces_def)

lemma linked_lookup:
  "map snd (filter (\<lambda>l. fst l = ac_ID cfg) (d_skill_links (linked pg cfg d))) = given (fc_AllowedSkills cfg)"
  "map snd (filter (\<lambda>l. fst l = ac_ID cfg) (d_mcp_links (linked pg cfg d))) = given (fc_MCPServerIDs cfg)"
  "filter (\<lambda>l. fst l = ac_ID cfg) (d_ws_links (linked pg cfg d)) = map (\<lambda>x. (ac_ID cfg, the (pg_uuid pg x))) (given (fc_KnowledgeWorkspaceIDs cfg))"
  "d_agents (linked pg cfg d) = d_agents d" "d_workspaces (linked pg cfg d) = d_workspaces d"
  by (simp_all add: linked_def Let_def filter_map o_def)

section \<open>Integrity\<close>

lemma links_ok_filter: "links_ok ls A B \<Longrightarrow> links_ok (filter P ls) A B"
  by (auto simp: links_ok_def)

lemma links_ok_mono: "links_ok ls A B \<Longrightarrow> A \<subseteq> A' \<Longrightarrow> B \<subseteq> B' \<Longrightarrow> links_ok ls A' B'"
  by (auto simp: links_ok_def)

lemma links_ok_snoc: "links_ok ls A B \<Longrightarrow> (a, x) \<notin> set ls \<Longrightarrow> a \<in> A \<Longrightarrow> x \<in> B \<Longrightarrow> links_ok (ls @ [(a, x)]) A B"
  by (auto simp: links_ok_def)

lemma links_ok_without: "links_ok ls A B \<Longrightarrow> links_ok (filter (\<lambda>l. fst l \<noteq> a) ls) (A - {a}) B"
  by (auto simp: links_ok_def)

lemma links_ok_insert: "links_ok ls A B \<Longrightarrow> links_ok ls (insert a A) B"
  by (auto simp: links_ok_def)

definition intact :: "ten_db \<Rightarrow> ten_db \<Rightarrow> bool" where
  "intact d d' \<longleftrightarrow> (tables_ok d \<longrightarrow> tables_ok d')"

interpretation integrity: table_frame intact
  by unfold_locales (simp_all add: intact_def)

lemma link_result_intact:
  "(tables_ok d \<Longrightarrow> (a, x) \<notin> set ls \<Longrightarrow> agent_exists a d \<Longrightarrow> ex \<Longrightarrow> tables_ok d') \<Longrightarrow> intact d (snd (link_result a x ls ex d d'))"
  by (simp add: link_result_def intact_def)

lemma link_statements_intact:
  "intact d (snd (del_skill_links a t i d))" "intact d (snd (del_mcp_links a t i d))" "intact d (snd (del_ws_links a t i d))"
  "intact d (snd (ins_skill_link a x t i d))" "intact d (snd (ins_mcp_link a x t i d))" "intact d (snd (ins_ws_link pg a x t i d))"
proof -
  show "intact d (snd (del_skill_links a t i d))" "intact d (snd (del_mcp_links a t i d))" "intact d (snd (del_ws_links a t i d))"
    by (simp_all add: intact_def del_skill_links_def del_mcp_links_def del_ws_links_def tables_ok_def links_ok_filter)
  show "intact d (snd (ins_skill_link a x t i d))" "intact d (snd (ins_mcp_link a x t i d))"
    unfolding ins_skill_link_def ins_mcp_link_def
    by (rule link_result_intact, simp add: tables_ok_def agent_exists_def list_ex_image links_ok_snoc)+
  have "intact d (snd (link_result a u (d_ws_links d) (list_ex (\<lambda>s. ws_ID s = u) (d_workspaces d)) d (d\<lparr>d_ws_links := d_ws_links d @ [(a, u)]\<rparr>)))" for u
    by (rule link_result_intact) (simp add: tables_ok_def agent_exists_def list_ex_image links_ok_snoc)
  then show "intact d (snd (ins_ws_link pg a x t i d))"
    by (simp add: ins_ws_link_def with_uuid_def integrity.R_refl split: option.split)
qed

lemma ins_agent_intact: "intact d (snd (ins_agent cfg t i d))"
proof -
  have "tables_ok (d\<lparr>d_agents := d_agents d @ [row_of cfg t]\<rparr>)"
    if "tables_ok d" "\<forall>r\<in>set (d_agents d). ag_ID r \<noteq> ac_ID cfg \<and> ag_Name r \<noteq> fc_Name cfg"
  proof -
    from that(2) have "ag_ID (row_of cfg t) \<notin> ag_ID ` set (d_agents d)" "ag_Name (row_of cfg t) \<notin> ag_Name ` set (d_agents d)"
      by (auto simp: row_of_def)
    with that(1) show ?thesis by (simp add: tables_ok_def links_ok_insert subset_insertI2)
  qed
  then show ?thesis unfolding row_of_def by (auto simp: intact_def ins_agent_def list_ex_iff)
qed

lemma del_agent_intact: "intact d (snd (del_agent a t i d))"
proof -
  let ?d1 = "drop_convs (\<lambda>c. cv_AgentID c = a) d"
  have img: "ag_ID ` {r \<in> A. ag_ID r \<noteq> a} = ag_ID ` A - {a}" for A by auto
  have "tables_ok (snd (del_agent a t i d))" if ok: "tables_ok d"
  proof -
    from tables_ok_drop_convs[OF ok] have ok1: "tables_ok ?d1" .
    have "cv_AgentID ` set (d_convs ?d1) \<subseteq> ag_ID ` set (d_agents d) - {a}"
      using tables_okD(2)[OF ok1] by (auto simp: drop_convs_def)
    with ok1 show ?thesis
      by (simp add: del_agent_def Let_def tables_ok_def img links_ok_without distinct_map_filterI drop_convs_def)
  qed
  then show ?thesis by (simp add: intact_def)
qed

lemma upd_agent_intact: "intact d (snd (upd_agent cfg t i d))"
proof -
  define f where "f = (\<lambda>r. r\<lparr>ag_Name := fc_Name cfg, ag_Description := fc_Description cfg, ag_Persona := fc_Persona cfg,
     ag_SystemPrompt := ac_SystemPrompt cfg, ag_LLMModel := ac_LLMModel cfg, ag_MaxIterations := ac_MaxIterations cfg\<rparr> :: agent_row)"
  let ?rs = "map_where (\<lambda>r. ag_ID r = ac_ID cfg) f (d_agents d)"
  have ids: "map ag_ID ?rs = map ag_ID (d_agents d)" by (rule map_map_where) (simp add: f_def)
  then have img: "ag_ID ` set ?rs = ag_ID ` set (d_agents d)" by (metis list.set_map)
  have names: "distinct (map ag_Name ?rs)" if "distinct (map ag_ID (d_agents d))" "distinct (map ag_Name (d_agents d))"
      "\<forall>r\<in>set (d_agents d). ag_ID r \<noteq> ac_ID cfg \<longrightarrow> ag_Name r \<noteq> fc_Name cfg"
  proof -
    have "inj_on (\<lambda>r. if ag_ID r = ac_ID cfg then fc_Name cfg else ag_Name r) (set (d_agents d))"
      using that unfolding distinct_map inj_on_def by (metis (full_types))
    moreover have "map ag_Name ?rs = map (\<lambda>r. if ag_ID r = ac_ID cfg then fc_Name cfg else ag_Name r) (d_agents d)"
      by (simp add: map_where_def f_def)
    ultimately show ?thesis using that(1) by (metis distinct_map)
  qed
  have "tables_ok (d\<lparr>d_agents := ?rs\<rparr>)" if "tables_ok d" "\<forall>r\<in>set (d_agents d). ag_ID r \<noteq> ac_ID cfg \<longrightarrow> ag_Name r \<noteq> fc_Name cfg"
    using that names by (simp add: tables_ok_def ids img)
  moreover have "?rs = d_agents d" if "\<not> agent_exists (ac_ID cfg) d"
    using that by (auto simp: agent_exists_def list_ex_iff map_where_def intro: map_idI)
  ultimately show ?thesis by (auto simp: intact_def upd_agent_def f_def[symmetric] list_ex_iff)
qed

context table_frame
begin

lemma t_stmt_then:
  assumes "\<And>t i d. R d (snd (st t i d))" "t_stmt ev t0 s st w = (r, w1)" "framed R s w1 w2"
  shows "framed R s w w2"
  using framed_trans[OF t_stmt_framed[of st s w ev t0, OF assms(1)]] assms(2,3) by simp

lemma link_loop_framed:
  assumes "\<And>x t i d. R d (snd (ins x t i d))"
  shows "framed R s w (snd (link_loop ev s t0 ins wrap xs w))"
proof (induction xs arbitrary: w)
  case Nil
  then show ?case by (simp add: framed_refl)
next
  case (Cons x xs)
  obtain r w1 where st: "t_stmt ev t0 s (ins x) w = (r, w1)" by fastforce
  note step = t_stmt_then[of "ins x", OF assms st]
  show ?case by (cases r) (simp_all add: st Cons step framed_refl)
qed

lemma replace_links_framed:
  assumes "\<And>t i d. R d (snd (del t i d))" "\<And>x t i d. R d (snd (ins x t i d))"
  shows "framed R s w (snd (replace_links ev s t0 del wd ins wrap xs w))"
proof -
  obtain r w1 where st: "t_stmt ev t0 s del w = (r, w1)" by fastforce
  note step = t_stmt_then[of del, OF assms(1) st]
  show ?thesis by (cases r) (simp_all add: replace_links_def st step framed_refl link_loop_framed[OF assms(2)])
qed

lemma registry_exec_framed:
  assumes "\<And>tid. tenant_of ctx tid \<Longrightarrow> s = chat_schema tid" "\<And>t w. framed R s w (snd (snd (fn s t w)))"
  shows "framed R s w (snd (snd (registry_exec ev ctx fn w)))"
proof (cases "\<exists>tid. tenant_of ctx tid")
  case True
  then obtain tid where t: "tenant_of ctx tid" ..
  from assms(1)[OF t] show ?thesis using t_exec_framed[of s "fn s", OF assms(2)] by (simp add: registry_exec_tenant[OF t])
next
  case False
  then show ?thesis by (auto simp: registry_exec_def tenant_of_def framed_refl split: option.split)
qed

end

lemma replace_all_intact: "framed intact s w (snd (replace_all ev pg s t0 cfg w))"
proof -
  have f: "framed intact s w (snd (replaceSkills ev s t0 a xs w))" "framed intact s w (snd (replaceMCPServers ev s t0 a xs w))"
    "framed intact s w (snd (replaceKnowledgeWorkspaces ev pg s t0 a xs w))" for a xs w
    unfolding replaceSkills_def replaceMCPServers_def replaceKnowledgeWorkspaces_def
    by (rule integrity.replace_links_framed link_statements_intact)+
  obtain e1 w1 where r1: "replaceSkills ev s t0 (ac_ID cfg) (slice (fc_AllowedSkills cfg)) w = (e1, w1)" by fastforce
  obtain e2 w2 where r2: "replaceMCPServers ev s t0 (ac_ID cfg) (slice (fc_MCPServerIDs cfg)) w1 = (e2, w2)" by fastforce
  from f(1)[where w = w and xs = "slice (fc_AllowedSkills cfg)" and a = "ac_ID cfg"] have 1: "framed intact s w w1" by (simp add: r1)
  from f(2)[where w = w1 and xs = "slice (fc_MCPServerIDs cfg)" and a = "ac_ID cfg"] have "framed intact s w1 w2" by (simp add: r2)
  with 1 have 2: "framed intact s w w2" by (rule integrity.framed_trans)
  have 3: "framed intact s w (snd (replaceKnowledgeWorkspaces ev pg s t0 (ac_ID cfg) (slice (fc_KnowledgeWorkspaceIDs cfg)) w2))"
    by (rule integrity.framed_trans[OF 2 f(3)])
  show ?thesis by (cases e1; cases e2) (simp_all add: replace_all_def r1 r2 1 2 3)
qed

lemma register_body_intact: "framed intact s w (snd (snd (register_body ev pg cfg s t0 w)))"
proof -
  obtain r w1 where st: "t_stmt ev t0 s (ins_agent cfg) w = (r, w1)" by fastforce
  note step = integrity.t_stmt_then[of "ins_agent cfg", OF ins_agent_intact st]
  show ?thesis using step[OF replace_all_intact] step[OF integrity.framed_refl]
    by (cases r) (simp_all add: register_body_def st split_beta)
qed

lemma update_body_intact: "framed intact s w (snd (snd (update_body ev pg cfg s t0 w)))"
proof -
  obtain r w1 where st: "t_stmt ev t0 s (upd_agent cfg) w = (r, w1)" by fastforce
  note step = integrity.t_stmt_then[of "upd_agent cfg", OF upd_agent_intact st]
  show ?thesis using step[OF replace_all_intact] step[OF integrity.framed_refl]
    by (cases r) (simp_all add: update_body_def st split_beta)
qed

lemma remove_body_intact: "framed intact s w (snd (snd (remove_body ev a s t0 w)))"
proof -
  obtain r w1 where st: "t_stmt ev t0 s (del_agent a) w = (r, w1)" by fastforce
  then show ?thesis using integrity.t_stmt_then[of "del_agent a", OF del_agent_intact st integrity.framed_refl]
    by (cases r) (simp_all add: remove_body_def)
qed

lemma registry_intact:
  assumes "tenant_of ctx tid"
  shows "framed intact (chat_schema tid) w (snd (Register ev pg ctx cfg w))"
    "framed intact (chat_schema tid) w (snd (Update ev pg ctx cfg w))"
    "framed intact (chat_schema tid) w (snd (Remove ev ctx a w))"
  using assms
  by (auto simp: Register_def Update_def Remove_def split_beta tenant_of_def
      intro!: integrity.registry_exec_framed register_body_intact update_body_intact remove_body_intact)


definition demo_cfg :: FullConfig where
  "demo_cfg = \<lparr>ac_ID = ''a2'', ac_Type = ''react'', ac_SystemPrompt = ''be kind'', ac_LLMModel = ''qwen-max'', ac_MaxIterations = 5,
     ac_KnowledgeWorkspaceNames = [], fc_Name = ''scout'', fc_Description = '''', fc_Persona = '''', fc_AllowedSkills = Some [''s1'', ''''],
     fc_MCPServerIDs = None, fc_KnowledgeWorkspaceIDs = None\<rparr>"

definition demo_skills :: tworld where
  "demo_skills = demo_tworld\<lparr>tw_schemas := [''tenant_t1'' \<mapsto> demo_tables\<lparr>d_skills := [\<lparr>sk_ID = ''s1'', sk_Name = ''echo'', sk_Description = '''', sk_Type = ''code'', sk_Config = ''{}''\<rparr>]\<rparr>]\<rparr>"

definition ctx_of :: "string \<Rightarrow> tenant_ctx" where
  "ctx_of tid = Some (Some \<lparr>tc_TenantID = tid, tc_UserID = ''u1'', tc_Role = ''member''\<rparr>)"

lemma demo_tenant_of: "tenant_of (ctx_of ''t1'') ''t1''"
  by (simp add: tenant_of_def ctx_of_def FromContext_def)

lemma demo_skills_ok: "tw_schemas demo_skills (chat_schema ''t1'') = Some (demo_tables\<lparr>d_skills := [\<lparr>sk_ID = ''s1'', sk_Name = ''echo'', sk_Description = '''', sk_Type = ''code'', sk_Config = ''{}''\<rparr>]\<rparr>)"
  "tables_ok (demo_tables\<lparr>d_skills := [\<lparr>sk_ID = ''s1'', sk_Name = ''echo'', sk_Description = '''', sk_Type = ''code'', sk_Config = ''{}''\<rparr>]\<rparr>)"
  using tables_ok_demo by (simp_all add: demo_skills_def chat_schema_def tables_ok_def demo_tables_def empty_tenant_def links_ok_def)

lemma demo_agent_registers: "fst (Register Public_DB.demo_env demo_pg (ctx_of ''t1'') demo_cfg demo_skills) = None"
  by (simp add: Register_def registry_exec_tenant[OF demo_tenant_of] t_exec_works[OF demo_works] register_body_def t_stmt_def demo_works
      demo_skills_def demo_tworld_def chat_schema_def demo_cfg_def ins_agent_def int4_def demo_tables_def empty_tenant_def Chat.demo_agent_def demo_conv_def
      replace_all_def replaceSkills_def replaceMCPServers_def replaceKnowledgeWorkspaces_def replace_links_def del_skill_links_def
      del_mcp_links_def del_ws_links_def ins_skill_link_def link_result_def agent_exists_def)


text \<open>Register and Update are all or nothing, whatever statement fails.\<close>

lemma registry_all_or_nothing:
  assumes "\<And>n e'. ev_fault ev n \<noteq> Unacked e'"
  shows "Register ev pg ctx cfg w = (Some e, w') \<Longrightarrow> tw_schemas w' = tw_schemas w"
    and "Update ev pg ctx cfg w = (Some e, w') \<Longrightarrow> tw_schemas w' = tw_schemas w"
    and "Remove ev ctx a w = (Some e, w') \<Longrightarrow> tw_schemas w' = tw_schemas w"
  using t_exec_error[OF _ assms]
  by (auto simp: Register_def Update_def Remove_def registry_exec_def split: prod.splits option.splits if_splits)

lemma get_all_loop_busy: "get_all_loop (Some e) ev s t0 rs w = (map (\<lambda>r. (config_of r (Some []) (Some []) [])\<lparr>fc_KnowledgeWorkspaceIDs := Some []\<rparr>) rs, w)"
  by (induction rs arbitrary: w) (simp_all add: open_query_def)

text \<open>With a driver that refuses a query while the rows of another are open, the list of all agents shows
  every agent without skills, servers and workspaces, while Get shows them.
\<close>

theorem agent_list_loses_links:
  assumes "\<forall>n. ev_fault ev n = Works" "tenant_of ctx tid" "tw_schemas w (chat_schema tid) = Some d"
    and "GetAll (Some busy) ev ctx w = (cfgs, w')"
  shows "map ac_ID cfgs = map ag_ID (sort_key ag_created (d_agents d)) \<and>
    (\<forall>cfg\<in>set cfgs. fc_AllowedSkills cfg = Some [] \<and> fc_MCPServerIDs cfg = Some [] \<and> fc_KnowledgeWorkspaceIDs cfg = Some []) \<and>
    (tables_ok d \<longrightarrow> (\<forall>r\<in>set (d_agents d). \<exists>cfg. fst (Get ev ctx (ag_ID r) w) = Some cfg \<and>
       slice (fc_AllowedSkills cfg) = map snd (filter (\<lambda>l. fst l = ag_ID r) (d_skill_links d)) \<and>
       slice (fc_MCPServerIDs cfg) = map snd (filter (\<lambda>l. fst l = ag_ID r) (d_mcp_links d))))"
proof -
  have c: "cfgs = map (\<lambda>r. (config_of r (Some []) (Some []) [])\<lparr>fc_KnowledgeWorkspaceIDs := Some []\<rparr>) (sort_key ag_created (d_agents d))"
    using assms by (simp add: GetAll_def registry_exec_tenant t_exec_works get_all_body_def t_stmt_works ttick_eq sel_agents_def get_all_loop_busy)
  have "\<exists>cfg. fst (Get ev ctx (ag_ID r) w) = Some cfg \<and> slice (fc_AllowedSkills cfg) = map snd (filter (\<lambda>l. fst l = ag_ID r) (d_skill_links d)) \<and>
       slice (fc_MCPServerIDs cfg) = map snd (filter (\<lambda>l. fst l = ag_ID r) (d_mcp_links d))" if "tables_ok d" "r \<in> set (d_agents d)" for r
  proof -
    have "filter (\<lambda>x. ag_ID x = ag_ID r) (d_agents d) = [r]"
      by (rule filter_unique[where f = ag_ID]) (use that in \<open>simp_all add: tables_ok_def\<close>)
    from Get_works[OF assms(1-3) this] show ?thesis by (simp add: config_of_def)
  qed
  then show ?thesis unfolding c by (simp add: config_of_def o_def)
qed

theorem agent_list_loses_links_witness:
  "map (\<lambda>c. (ac_ID c, fc_AllowedSkills c)) (fst (GetAll (Some (ErrorString ''conn busy'')) Public_DB.demo_env (ctx_of ''t1'') demo_skills)) = [(''a1'', Some [])]"
proof -
  obtain cfgs w' where g: "GetAll (Some (ErrorString ''conn busy'')) Public_DB.demo_env (ctx_of ''t1'') demo_skills = (cfgs, w')" by fastforce
  have "map ag_ID (sort_key ag_created (d_agents demo_tables)) = [''a1'']" by (simp add: demo_tables_def Chat.demo_agent_def)
  with agent_list_loses_links[OF demo_works demo_tenant_of demo_skills_ok(1) g] show ?thesis unfolding g by auto
qed

text \<open>The executions of the last thirty days, page by page: an execution that was inserted is on the first page.\<close>

lemma execution_exec_tenant: "tenant_of ctx tid \<Longrightarrow> execution_exec ev ctx fn w = t_exec ev ''execution_store'' (fn (chat_schema tid)) w"
  by (auto simp: execution_exec_def tenant_of_def)

lemma List_executions_works:
  assumes "\<forall>n. ev_fault ev n = Works" "tenant_of ctx tid" "tw_schemas w (chat_schema tid) = Some d" "1 \<le> page" "1 \<le> sz" "(page - 1) * sz < 2 ^ 63"
  shows "\<exists>w'. List_executions ev ctx page sz w =
     (let rs = recent_execs (ev_clock ev (tw_calls w)) d
      in (take (nat sz) (drop (nat ((page - 1) * sz)) (sort_key (\<lambda>r. - ex_CreatedAt r) rs)), int (length rs), None, w'))"
proof -
  have nn: "0 \<le> (page - 1) * sz" using assms(4,5) by simp
  then have w: "wrap64 ((page - 1) * sz) = (page - 1) * sz" using assms(6) by (intro wrap64_id) linarith+
  from nn have "\<not> (page - 1) * sz < 0" by linarith
  then show ?thesis using assms(1-5) w
    by (simp add: List_executions_def list_params_def execution_exec_tenant t_exec_works list_body_def t_stmt_works ttick_eq
        count_execs_def sel_execs_def limit_offset_def Let_def)
qed

end
