(* ===== verification/Skill_Registry.thy ===== *)
theory Skill_Registry
  imports Skills Agent_Registry Router MCP_Manager
begin

text \<open>
  The registry of skills, internal/orchestrator/registry.go, its handlers, api/handler/skill_handler.go,
  and the adapters to the skill gateway, internal/skillgateway/providers. The registry keeps the
  skills of all tenants in one map of the process, and a row of the table skills in the schema of the
  tenant that wrote it last. The update of a skill changes the object that the map holds before it
  writes the row.

  Proved: creation stores the skill in memory and in the schema of the tenant; a name that is taken
  leaves everything as it was on creation; a skill that an agent uses is not removed. Renaming to a
  taken name drops the skill from memory; any tenant can remove the skill of another from memory; a
  caller names the tenant that pays for a run.
\<close>

section \<open>The registry\<close>

record 'w skill_registry =
  og_skills :: "string \<rightharpoonup> 'w skill"
  og_createdAt :: "string \<rightharpoonup> int"
  og_pool :: bool

definition NewRegistry :: "bool \<Rightarrow> 'w skill_registry" where
  "NewRegistry pool = \<lparr>og_skills = Map.empty, og_createdAt = Map.empty, og_pool = pool\<rparr>"

definition SkillErrNameConflict :: error where "SkillErrNameConflict = ErrorString ''skill name already exists''"
definition ErrSkillInUse :: error where "ErrSkillInUse = ErrorString ''skill still linked to agents''"

text \<open>tenantdb.ExecTenant on the tables of the model.\<close>

definition tenant_exec :: "env \<Rightarrow> tenant_ctx \<Rightarrow> (string \<Rightarrow> 'a tx_body) \<Rightarrow> tworld \<Rightarrow> error option \<times> 'a option \<times> tworld" where
  "tenant_exec ev ctx fn w =
     (case FromContext ctx of
        None \<Rightarrow> (Some missing_tenant, None, w)
      | Some tc \<Rightarrow>
          (if tc_TenantID tc = '''' then (Some (ErrorString ''tenantdb: tenant_id is empty (global_admin cannot use ExecTenant)''), None, w)
           else if \<not> safe_id (tc_TenantID tc) then (Some (ErrorString (''tenantdb: invalid tenant_id '' @ quoted (tc_TenantID tc))), None, w)
           else t_exec ev ''tenantdb'' (fn (chat_schema (tc_TenantID tc))) w))"

text \<open>INSERT with ON CONFLICT (id) DO UPDATE; \<open>cfg\<close> is the text of the configuration.\<close>

definition skill_row_of :: "string \<Rightarrow> 'w skill \<Rightarrow> string \<Rightarrow> skill_row" where
  "skill_row_of i s cfg = \<lparr>sk_ID = i, sk_Name = GetName s, sk_Description = GetDescription s, sk_Type = GetType s, sk_Config = cfg\<rparr>"

definition put_skill :: "pg_types \<Rightarrow> string \<Rightarrow> 'w skill \<Rightarrow> string \<Rightarrow> unit tstmt" where
  "put_skill pg i s cfg t u d =
     (case pg_json pg cfg of
        None \<Rightarrow> (Inl invalid_json, d)
      | Some j \<Rightarrow>
          (if list_ex (\<lambda>r. sk_ID r \<noteq> i \<and> sk_Name r = GetName s) (d_skills d) then (Inl unique_violation, d)
           else if list_ex (\<lambda>r. sk_ID r = i) (d_skills d)
           then (Inr (), d\<lparr>d_skills := map_where (\<lambda>r. sk_ID r = i) (\<lambda>_. skill_row_of i s j) (d_skills d)\<rparr>)
           else (Inr (), d\<lparr>d_skills := d_skills d @ [skill_row_of i s j]\<rparr>)))"

definition config_text :: "((string \<times> gval) list \<Rightarrow> error + string) \<Rightarrow> 'w skill \<Rightarrow> string" where
  "config_text mar s =
     (case configurable s of None \<Rightarrow> ''{}'' | Some m \<Rightarrow> (case mar m of Inl _ \<Rightarrow> ''{}'' | Inr b \<Rightarrow> b))"

text \<open>A body that is one statement.\<close>

definition plain_stmt :: "env \<Rightarrow> 'a tstmt \<Rightarrow> string \<Rightarrow> unit tx_body" where
  "plain_stmt ev st s t0 w = (case t_stmt ev t0 s st w of (Inl e, w') \<Rightarrow> (Some e, (), w') | (Inr _, w') \<Rightarrow> (None, (), w'))"

definition orch_put :: "string \<Rightarrow> 'w skill \<Rightarrow> int \<Rightarrow> 'w skill_registry \<Rightarrow> 'w skill_registry" where
  "orch_put i s now r = r\<lparr>og_skills := (og_skills r)(i \<mapsto> s), og_createdAt := (og_createdAt r)(i \<mapsto> now)\<rparr>"

definition orch_delete :: "string \<Rightarrow> 'w skill_registry \<Rightarrow> 'w skill_registry" where
  "orch_delete i r = r\<lparr>og_skills := (og_skills r)(i := None), og_createdAt := (og_createdAt r)(i := None)\<rparr>"

definition orch_Register ::
  "env \<Rightarrow> pg_types \<Rightarrow> ((string \<times> gval) list \<Rightarrow> error + string) \<Rightarrow> tenant_ctx \<Rightarrow> string \<Rightarrow> 'w skill \<Rightarrow> 'w skill_registry \<Rightarrow> tworld
     \<Rightarrow> error option \<times> 'w skill_registry \<times> tworld" where
  "orch_Register ev pg mar ctx i s r w =
     (let r1 = orch_put i s (ev_clock ev (tw_calls w)) r in
      if \<not> og_pool r then (None, r1, w)
      else case tenant_exec ev ctx (plain_stmt ev (put_skill pg i s (config_text mar s))) w of
        (None, _, w') \<Rightarrow> (None, r1, w')
      | (Some e, _, w') \<Rightarrow>
          (if errors_is e unique_violation
           then (Some (WrappedBy SkillErrNameConflict (''skill name '' @ quoted (GetName s))), orch_delete i r1, w')
           else (Some (Wrapped (''persist skill '' @ i) e), r1, w')))"

definition orch_Get :: "string \<Rightarrow> 'w skill_registry \<Rightarrow> 'w skill option" where
  "orch_Get i r = og_skills r i"

definition GetCreatedAt :: "string \<Rightarrow> 'w skill_registry \<Rightarrow> int option" where
  "GetCreatedAt i r = og_createdAt r i"

text \<open>\<open>ks\<close> is the order of the loop over the map.\<close>

definition orch_GetAll :: "string list \<Rightarrow> 'w skill_registry \<Rightarrow> 'w skill list" where
  "orch_GetAll ks r = List.map_filter (og_skills r) ks"

text \<open>Links of agents restrict the deletion.\<close>

definition del_skill :: "string \<Rightarrow> unit tstmt" where
  "del_skill i t u d =
     (if list_ex (\<lambda>l. snd l = i) (d_skill_links d) then (Inl fk_violation, d)
      else (Inr (), d\<lparr>d_skills := filter (\<lambda>r. sk_ID r \<noteq> i) (d_skills d)\<rparr>))"

definition orch_Remove :: "env \<Rightarrow> tenant_ctx \<Rightarrow> string \<Rightarrow> 'w skill_registry \<Rightarrow> tworld \<Rightarrow> error option \<times> 'w skill_registry \<times> tworld" where
  "orch_Remove ev ctx i r w =
     (if og_skills r i = None then (Some (ErrorString (''skill not found: '' @ i)), r, w)
      else if \<not> og_pool r then (None, orch_delete i r, w)
      else case tenant_exec ev ctx (plain_stmt ev (del_skill i)) w of
        (None, _, w') \<Rightarrow> (None, orch_delete i r, w')
      | (Some e, _, w') \<Rightarrow>
          (Some (if errors_is e fk_violation then WrappedBy ErrSkillInUse (''unlink skill '' @ i @ '' from all agents first'') else e), r, w'))"

section \<open>Handlers\<close>

record CreateSkillRequest =
  csr_Name :: string
  csr_Description :: string
  csr_Type :: string
  csr_Code :: string
  csr_Language :: string
  csr_SystemPrompt :: string
  csr_Model :: string
  csr_Temperature :: rat
  csr_MaxTokens :: int
  csr_URL :: string
  csr_Method :: string
  csr_Headers :: "(string \<times> string) list"
  csr_BodyTemplate :: string
  csr_TimeoutSec :: int

definition valid_skill_request :: "CreateSkillRequest \<Rightarrow> bool" where
  "valid_skill_request q \<longleftrightarrow> csr_Name q \<noteq> '''' \<and> csr_Type q \<in> {''code'', ''llm'', ''http''} \<and> csr_Language q \<in> {'''', ''python'', ''javascript''}"

text \<open>Binding: the error of the decoder, or \<open>verr\<close>, the error of the validator.\<close>

definition bind_request :: "(CreateSkillRequest \<Rightarrow> error) \<Rightarrow> error + CreateSkillRequest \<Rightarrow> error + CreateSkillRequest" where
  "bind_request verr body = (case body of Inl e \<Rightarrow> Inl e | Inr q \<Rightarrow> if valid_skill_request q then Inr q else Inl (verr q))"

text \<open>The zero time in nanoseconds of the Unix clock.\<close>

definition zero_time :: int where "zero_time = - 62135596800 * 10 ^ 9"

definition analysis_errors :: "string list \<Rightarrow> (string \<times> gval) list" where
  "analysis_errors rs = (if rs = [] then [] else [(''analysis_errors'', VList (map VStr rs))])"

definition buildSkillResponse :: "'w skill \<Rightarrow> int \<Rightarrow> gval" where
  "buildSkillResponse s createdAt =
     VMap ([(''id'', VStr (GetID s)), (''name'', VStr (GetName s)), (''description'', VStr (GetDescription s)), (''type'', VStr (GetType s))] @
       (case configurable s of None \<Rightarrow> [] | Some m \<Rightarrow> if m = [] then [] else [(''config'', VMap m)]) @
       [(''created_at'', VInt createdAt)])"

definition rejected_code :: "string list \<Rightarrow> reply" where
  "rejected_code rs =
     (400, VMap ([(''id'', VStr ''''), (''name'', VStr ''''), (''description'', VStr ''''), (''type'', VStr '''')] @ analysis_errors rs @ [(''created_at'', VStr '''')]))"

text \<open>The skill that a creation makes, or the reply of a refusal.\<close>

definition new_skill :: "'w Gateway \<Rightarrow> string \<Rightarrow> CreateSkillRequest \<Rightarrow> reply + 'w skill" where
  "new_skill gw i q =
     (if csr_Type q = ''code'' then
        (let res = Check (csr_Language q) (csr_Code q) in
         if \<not> an_Safe res then Inl (rejected_code (an_Reasons res))
         else Inr (CodeS (NewCodeSkillWithExecutor i (csr_Name q) (csr_Description q) (csr_Code q) (csr_Language q))))
      else if csr_Type q = ''llm'' then
        Inr (LLMS (NewLLMSkill i (csr_Name q) (csr_Description q) (csr_SystemPrompt q) (csr_Model q) (csr_Temperature q) (csr_MaxTokens q) gw))
      else if csr_Type q = ''http'' then
        Inr (HTTPS (NewHTTPSkill i (csr_Name q) (csr_Description q) (csr_URL q) (csr_Method q) (csr_Headers q) (csr_BodyTemplate q) (csr_TimeoutSec q)))
      else Inl (error_reply 400 ''unsupported skill type''))"

definition created_time :: "string \<Rightarrow> 'w skill_registry \<Rightarrow> int" where
  "created_time i r = (case GetCreatedAt i r of None \<Rightarrow> zero_time | Some t \<Rightarrow> t)"

definition stored_reply :: "nat \<Rightarrow> string \<Rightarrow> string \<Rightarrow> 'w skill \<Rightarrow> error option \<times> 'w skill_registry \<times> tworld \<Rightarrow> reply \<times> 'w skill_registry \<times> tworld" where
  "stored_reply code failed i s res =
     (case res of
        (None, r, w) \<Rightarrow> ((code, buildSkillResponse s (created_time i r)), r, w)
      | (Some e, r, w) \<Rightarrow>
          (if errors_is e SkillErrNameConflict then error_reply 409 (error_text e) else error_reply 500 failed, r, w))"

text \<open>\<open>i\<close> is the fresh id.\<close>

definition CreateSkill ::
  "env \<Rightarrow> pg_types \<Rightarrow> ((string \<times> gval) list \<Rightarrow> error + string) \<Rightarrow> (CreateSkillRequest \<Rightarrow> error) \<Rightarrow> 'w Gateway \<Rightarrow> req_ctx \<Rightarrow> string \<Rightarrow> error + CreateSkillRequest
     \<Rightarrow> 'w skill_registry \<Rightarrow> tworld \<Rightarrow> reply \<times> 'w skill_registry \<times> tworld" where
  "CreateSkill ev pg mar verr gw c i body r w =
     (case bind_request verr body of
        Inl e \<Rightarrow> (error_reply 400 (error_text e), r, w)
      | Inr q \<Rightarrow>
          (case new_skill gw i q of
             Inl rep \<Rightarrow> (rep, r, w)
           | Inr s \<Rightarrow> stored_reply 201 ''failed to create skill'' i s (orch_Register ev pg mar (rc_tenant c) i s r w)))"

definition skill_not_found :: reply where "skill_not_found = error_reply 404 ''skill not found''"

definition GetSkill :: "string \<Rightarrow> 'w skill_registry \<Rightarrow> reply" where
  "GetSkill i r = (case orch_Get i r of None \<Rightarrow> skill_not_found | Some s \<Rightarrow> (200, buildSkillResponse s (created_time i r)))"

definition GetAllSkills :: "string list \<Rightarrow> 'w skill_registry \<Rightarrow> reply" where
  "GetAllSkills ks r = (200, VMap [(''skills'', VList (map (\<lambda>s. buildSkillResponse s (created_time (GetID s) r)) (orch_GetAll ks r)))])"

text \<open>The object after the assignments of an update; the type, the id and what other kinds use stay.\<close>

definition update_fields :: "CreateSkillRequest \<Rightarrow> 'w skill \<Rightarrow> 'w skill" where
  "update_fields q s =
     (case s of
        CodeS k \<Rightarrow> CodeS (k\<lparr>bs_Name := csr_Name q, bs_Description := csr_Description q, cs_Code := csr_Code q, cs_Language := csr_Language q\<rparr>)
      | LLMS k \<Rightarrow> LLMS (k\<lparr>bs_Name := csr_Name q, bs_Description := csr_Description q, ls_SystemPrompt := csr_SystemPrompt q, ls_Model := csr_Model q,
                          ls_Temperature := csr_Temperature q, ls_MaxTokens := csr_MaxTokens q\<rparr>)
      | HTTPS k \<Rightarrow> HTTPS (k\<lparr>bs_Name := csr_Name q, bs_Description := csr_Description q, hs_URL := csr_URL q, hs_Method := csr_Method q,
                          hs_Headers := csr_Headers q, hs_BodyTemplate := csr_BodyTemplate q, hs_TimeoutSec := csr_TimeoutSec q\<rparr>))"

fun kind_of :: "'w skill \<Rightarrow> string" where
  "kind_of (CodeS _) = ''code''" | "kind_of (LLMS _) = ''llm''" | "kind_of (HTTPS _) = ''http''"

definition update_skill :: "CreateSkillRequest \<Rightarrow> 'w skill \<Rightarrow> reply + 'w skill" where
  "update_skill q s =
     (if GetType s \<in> {''code'', ''llm'', ''http''} then
        (if kind_of s \<noteq> GetType s then Inl (error_reply 400 ''type mismatch'')
         else if GetType s = ''code'' \<and> \<not> an_Safe (Check (csr_Language q) (csr_Code q))
         then Inl (rejected_code (an_Reasons (Check (csr_Language q) (csr_Code q))))
         else Inr (update_fields q s))
      else Inl (error_reply 400 ''unsupported skill type''))"

definition UpdateSkill ::
  "env \<Rightarrow> pg_types \<Rightarrow> ((string \<times> gval) list \<Rightarrow> error + string) \<Rightarrow> (CreateSkillRequest \<Rightarrow> error) \<Rightarrow> req_ctx \<Rightarrow> string \<Rightarrow> error + CreateSkillRequest
     \<Rightarrow> 'w skill_registry \<Rightarrow> tworld \<Rightarrow> reply \<times> 'w skill_registry \<times> tworld" where
  "UpdateSkill ev pg mar verr c i body r w =
     (case orch_Get i r of
        None \<Rightarrow> (skill_not_found, r, w)
      | Some s0 \<Rightarrow>
          (case bind_request verr body of
             Inl e \<Rightarrow> (error_reply 400 (error_text e), r, w)
           | Inr q \<Rightarrow>
               (case update_skill q s0 of
                  Inl rep \<Rightarrow> (rep, r, w)
                | Inr s \<Rightarrow> stored_reply 200 ''failed to update skill'' i s
                    (orch_Register ev pg mar (rc_tenant c) i s (r\<lparr>og_skills := (og_skills r)(i \<mapsto> s)\<rparr>) w))))"

definition DeleteSkill :: "env \<Rightarrow> req_ctx \<Rightarrow> string \<Rightarrow> 'w skill_registry \<Rightarrow> tworld \<Rightarrow> reply \<times> 'w skill_registry \<times> tworld" where
  "DeleteSkill ev c i r w =
     (case orch_Remove ev (rc_tenant c) i r w of
        (Some e, r', w') \<Rightarrow> (if errors_is e ErrSkillInUse then error_reply 409 (error_text e) else skill_not_found, r', w')
      | (None, r', w') \<Rightarrow> (message_reply ''skill deleted successfully'', r', w'))"

text \<open>Running a code skill: the tenant of the request is looked up under the key tenant\_id.\<close>

definition run_input :: "req_ctx \<Rightarrow> (string \<times> gval) list option \<Rightarrow> (string \<times> gval) list" where
  "run_input c input0 =
     (let input = entries input0 in
      case rc_keys c ''tenant_id'' of
        None \<Rightarrow> input
      | Some tid \<Rightarrow> if tid = '''' then input else (tenant_key, VStr tid) # user_input input)"

definition run_error :: "nat \<Rightarrow> string \<Rightarrow> reply" where
  "run_error code e = (code, VMap ((''output'', VNil) # (if e = '''' then [] else [(''error'', VStr e)])))"

definition run_reply :: "outcome_any \<Rightarrow> reply" where
  "run_reply res =
     (case res of
        (out, None) \<Rightarrow> (200, VMap [(''output'', out)])
      | (_, Some e) \<Rightarrow> if errors_is e ErrConcurrencyLimit then run_error 429 ''concurrency limit reached'' else run_error 500 (error_text e))"

definition RunSkill :: "'w system \<Rightarrow> req_ctx \<Rightarrow> string \<Rightarrow> error + (string \<times> gval) list option \<Rightarrow> 'w skill_registry \<Rightarrow> CodeExecutor \<Rightarrow> 'w
     \<Rightarrow> (reply \<times> CodeExecutor) go \<times> 'w" where
  "RunSkill sy c i body r e w =
     (case orch_Get i r of
        None \<Rightarrow> (Ret (skill_not_found, e), w)
      | Some (CodeS k) \<Rightarrow>
          (case body of
             Inl err \<Rightarrow> (Ret (error_reply 400 (error_text err), e), w)
           | Inr input \<Rightarrow>
               (case CodeSkill_Execute sy k (VMap (run_input c input)) e w of
                  (res, w') \<Rightarrow> (go_bind res (\<lambda>(out, e'). Ret (run_reply out, e')), w')))
      | Some _ \<Rightarrow> (Ret (error_reply 400 ''skill is not a code skill'', e), w))"

section \<open>Transactions of the registry\<close>

lemma tenant_exec_safe: "tenant_of ctx tid \<Longrightarrow> safe_id tid \<Longrightarrow> tenant_exec ev ctx fn w = t_exec ev ''tenantdb'' (fn (chat_schema tid)) w"
  by (auto simp: tenant_exec_def tenant_of_def)

lemma plain_stmt_works:
  assumes "\<forall>n. ev_fault ev n = Works" "tw_schemas w s = Some d" "st (ev_clock ev (tw_calls w)) (ev_uuid ev (tw_calls w + 2)) d = (r, d')"
    and "\<And>e. r = Inl e \<Longrightarrow> d' = d"
  shows "\<exists>x w'. t_exec ev store (plain_stmt ev st s) w = (case r of Inl e \<Rightarrow> (Some e, x, w') | Inr _ \<Rightarrow> (None, x, w')) \<and>
    tw_schemas w' = (tw_schemas w)(s \<mapsto> d')"
proof (cases r)
  case (Inl e)
  with assms show ?thesis by (simp add: t_exec_works plain_stmt_def t_stmt_works ttick_eq numeral_eq_Suc fun_upd_idem)
next
  case (Inr y)
  with assms show ?thesis by (simp add: t_exec_works plain_stmt_def t_stmt_works ttick_eq numeral_eq_Suc)
qed

lemma orch_put_simps [simp]:
  "og_skills (orch_put i s t r) = (og_skills r)(i \<mapsto> s)" "og_createdAt (orch_put i s t r) = (og_createdAt r)(i \<mapsto> t)" "og_pool (orch_put i s t r) = og_pool r"
  "og_skills (orch_delete i r) = (og_skills r)(i := None)" "og_createdAt (orch_delete i r) = (og_createdAt r)(i := None)" "og_pool (orch_delete i r) = og_pool r"
  by (simp_all add: orch_put_def orch_delete_def)

lemma orch_delete_put [simp]: "orch_delete i (orch_put i s t r) = orch_delete i r"
  by (simp add: orch_put_def orch_delete_def)

lemma orch_delete_none: "og_skills r i = None \<Longrightarrow> og_createdAt r i = None \<Longrightarrow> orch_delete i r = r"
  by (simp add: orch_delete_def fun_upd_idem)

definition name_taken :: "string \<Rightarrow> string \<Rightarrow> ten_db \<Rightarrow> bool" where
  "name_taken i n d \<longleftrightarrow> list_ex (\<lambda>r. sk_ID r \<noteq> i \<and> sk_Name r = n) (d_skills d)"

definition stored :: "string \<Rightarrow> 'w skill \<Rightarrow> string \<Rightarrow> ten_db \<Rightarrow> ten_db" where
  "stored i s j d =
     (if list_ex (\<lambda>r. sk_ID r = i) (d_skills d) then d\<lparr>d_skills := map_where (\<lambda>r. sk_ID r = i) (\<lambda>_. skill_row_of i s j) (d_skills d)\<rparr>
      else d\<lparr>d_skills := d_skills d @ [skill_row_of i s j]\<rparr>)"

lemma put_skill_eq:
  "put_skill pg i s cfg t u d =
     (case pg_json pg cfg of None \<Rightarrow> (Inl invalid_json, d) | Some j \<Rightarrow> if name_taken i (GetName s) d then (Inl unique_violation, d) else (Inr (), stored i s j d))"
  by (simp add: put_skill_def name_taken_def stored_def split: option.split)

lemmas conflict_defs = unique_violation_def invalid_json_def no_relation_def SkillErrNameConflict_def missing_tenant_def

text \<open>The outcomes of Register without faults, in a tenant that is provisioned.\<close>

lemma orch_Register_works:
  assumes "\<forall>n. ev_fault ev n = Works" "og_pool r" "tenant_of ctx tid" "safe_id tid" "tw_schemas w (chat_schema tid) = Some d"
  obtains (taken) w' where "name_taken i (GetName s) d" "tw_schemas w' = tw_schemas w"
      "orch_Register ev pg mar ctx i s r w = (Some (WrappedBy SkillErrNameConflict (''skill name '' @ quoted (GetName s))), orch_delete i r, w')"
  | (unstorable) w' where "pg_json pg (config_text mar s) = None" "tw_schemas w' = tw_schemas w"
      "orch_Register ev pg mar ctx i s r w = (Some (Wrapped (''persist skill '' @ i) invalid_json), orch_put i s (ev_clock ev (tw_calls w)) r, w')"
  | (stored) j w' where "\<not> name_taken i (GetName s) d" "pg_json pg (config_text mar s) = Some j"
      "tw_schemas w' = (tw_schemas w)(chat_schema tid \<mapsto> stored i s j d)"
      "orch_Register ev pg mar ctx i s r w = (None, orch_put i s (ev_clock ev (tw_calls w)) r, w')"
proof -
  let ?st = "put_skill pg i s (config_text mar s)"
  obtain res d' where st: "?st (ev_clock ev (tw_calls w)) (ev_uuid ev (tw_calls w + 2)) d = (res, d')" by fastforce
  have same: "d' = d" if "res = Inl e" for e
    using st that by (auto simp: put_skill_eq split: option.splits if_splits)
  obtain x w' where x: "t_exec ev ''tenantdb'' (plain_stmt ev ?st (chat_schema tid)) w = (case res of Inl e \<Rightarrow> (Some e, x, w') | Inr _ \<Rightarrow> (None, x, w'))"
    and w': "tw_schemas w' = (tw_schemas w)(chat_schema tid \<mapsto> d')"
    using plain_stmt_works[where st = ?st and store = "''tenantdb''", OF assms(1,5) st] same by blast
  have reg: "orch_Register ev pg mar ctx i s r w = (case res of
      Inl e \<Rightarrow> (if errors_is e unique_violation then (Some (WrappedBy SkillErrNameConflict (''skill name '' @ quoted (GetName s))), orch_delete i r, w')
               else (Some (Wrapped (''persist skill '' @ i) e), orch_put i s (ev_clock ev (tw_calls w)) r, w'))
    | Inr _ \<Rightarrow> (None, orch_put i s (ev_clock ev (tw_calls w)) r, w'))"
    using assms by (simp add: orch_Register_def tenant_exec_safe x Let_def split: sum.split)
  have idem: "(tw_schemas w)(chat_schema tid \<mapsto> d) = tw_schemas w" using assms(5) by (simp add: fun_upd_idem)
  show thesis
  proof (cases "pg_json pg (config_text mar s)")
    case None
    with st have "res = Inl invalid_json \<and> d' = d" by (simp add: put_skill_eq)
    with unstorable[OF None] w' reg idem show thesis by (simp add: conflict_defs)
  next
    case (Some j)
    show thesis
    proof (cases "name_taken i (GetName s) d")
      case True
      with st Some have "res = Inl unique_violation \<and> d' = d" by (simp add: put_skill_eq)
      with taken[OF True] w' reg idem show thesis by (simp add: conflict_defs)
    next
      case False
      with st Some have "res = Inr () \<and> d' = Skill_Registry.stored i s j d" by (simp add: put_skill_eq)
      with stored[OF False Some] w' reg show thesis by simp
    qed
  qed
qed

section \<open>Creation\<close>

text \<open>A created skill is the one that is returned from then on, and it is stored in the schema of the
  tenant, under a name that no other skill there has, with the configuration of its kind; nothing else
  changes in memory or in any schema.
\<close>

theorem created_skill_is_stored:
  assumes works: "\<forall>n. ev_fault ev n = Works" and pool: "og_pool r" and t: "tenant_of (rc_tenant c) tid" "safe_id tid"
    and d: "tw_schemas w (chat_schema tid) = Some d" "\<forall>x\<in>set (d_skills d). sk_ID x \<noteq> i"
    and ok: "CreateSkill ev pg mar verr gw c i body r w = ((201, v), r', w')"
  shows "\<exists>s j. GetID s = i \<and> GetSkill i r' = (200, v) \<and> og_skills r' = (og_skills r)(i \<mapsto> s) \<and> pg_json pg (config_text mar s) = Some j \<and>
    tw_schemas w' = (tw_schemas w)(chat_schema tid \<mapsto> d\<lparr>d_skills := d_skills d @ [skill_row_of i s j]\<rparr>) \<and>
    (\<forall>x\<in>set (d_skills d). sk_Name x \<noteq> GetName s)"
proof -
  from ok obtain q s where q: "bind_request verr body = Inr q" and s: "new_skill gw i q = Inr s"
    and rep: "stored_reply 201 ''failed to create skill'' i s (orch_Register ev pg mar (rc_tenant c) i s r w) = ((201, v), r', w')"
    by (auto simp: CreateSkill_def error_reply_def new_skill_def rejected_code_def Let_def split: sum.splits if_splits)
  have id: "GetID s = i"
    using s by (auto simp: new_skill_def NewCodeSkillWithExecutor_def NewCodeSkill_def NewLLMSkill_def NewHTTPSkill_def Let_def split: if_splits)
  from works pool t d(1) show ?thesis
  proof (cases rule: orch_Register_works[where s = s and mar = mar and pg = pg and i = i])
    case (taken w1)
    with rep show ?thesis by (simp add: stored_reply_def error_reply_def conflict_defs)
  next
    case (unstorable w1)
    with rep show ?thesis by (simp add: stored_reply_def error_reply_def split: if_splits)
  next
    case (stored j w1)
    then have "tw_schemas w1 = (tw_schemas w)(chat_schema tid \<mapsto> d\<lparr>d_skills := d_skills d @ [skill_row_of i s j]\<rparr>)"
      using d(2) by (auto simp: Skill_Registry.stored_def list_ex_iff)
    with stored rep id d(2) show ?thesis
      by (auto simp: stored_reply_def GetSkill_def orch_Get_def created_time_def GetCreatedAt_def name_taken_def list_ex_iff
          intro!: exI[of _ s])
  qed
qed

text \<open>A creation that is refused, because its body is not valid, its code not acceptable or its name
  taken, leaves the registry and all schemas as they were. Only the reply 500 may leave a skill in
  memory that no schema holds.
\<close>

theorem refused_creation_changes_nothing:
  assumes works: "\<forall>n. ev_fault ev n = Works" and pool: "og_pool r" and t: "tenant_of (rc_tenant c) tid" "safe_id tid"
    and d: "tw_schemas w (chat_schema tid) = Some d" and fresh: "og_skills r i = None" "og_createdAt r i = None"
    and refused: "CreateSkill ev pg mar verr gw c i body r w = ((code, v), r', w')" "code \<noteq> 201"
  shows "tw_schemas w' = tw_schemas w \<and> (code \<noteq> 500 \<longrightarrow> r' = r)"
proof (cases "bind_request verr body")
  case (Inl e)
  with refused show ?thesis by (auto simp: CreateSkill_def)
next
  case (Inr q)
  show ?thesis
  proof (cases "new_skill gw i q")
    case (Inl rep)
    with refused Inr show ?thesis by (auto simp: CreateSkill_def)
  next
    case (Inr s)
    with refused \<open>bind_request verr body = Inr q\<close>
    have rep: "stored_reply 201 ''failed to create skill'' i s (orch_Register ev pg mar (rc_tenant c) i s r w) = ((code, v), r', w')"
      by (simp add: CreateSkill_def)
    from works pool t d show ?thesis
    proof (cases rule: orch_Register_works[where s = s and mar = mar and pg = pg and i = i])
      case (taken w1)
      with rep show ?thesis by (auto simp: stored_reply_def orch_delete_none[OF fresh])
    next
      case (unstorable w1)
      with rep show ?thesis by (auto simp: stored_reply_def error_reply_def conflict_defs)
    next
      case (stored j w1)
      with rep refused(2) show ?thesis by (simp add: stored_reply_def)
    qed
  qed
qed

definition demo_tenant :: ten_db where
  "demo_tenant = Tenant_Tables.empty_tenant\<lparr>d_skills := [\<lparr>sk_ID = ''s0'', sk_Name = ''ping'', sk_Description = '''', sk_Type = ''http'', sk_Config = ''{}''\<rparr>]\<rparr>"

definition demo_tworld :: tworld where
  "demo_tworld = \<lparr>tw_schemas = [''tenant_t1'' \<mapsto> demo_tenant, ''tenant_t2'' \<mapsto> Tenant_Tables.empty_tenant], tw_calls = 0\<rparr>"

definition demo_body :: "string \<Rightarrow> CreateSkillRequest" where
  "demo_body n = \<lparr>csr_Name = n, csr_Description = '''', csr_Type = ''http'', csr_Code = '''', csr_Language = '''', csr_SystemPrompt = '''', csr_Model = '''',
     csr_Temperature = 0, csr_MaxTokens = 0, csr_URL = ''http://x'', csr_Method = '''', csr_Headers = [], csr_BodyTemplate = '''', csr_TimeoutSec = 0\<rparr>"

definition demo_skill :: "nat skill" where
  "demo_skill = HTTPS (NewHTTPSkill ''s1'' ''pong'' '''' ''http://x'' '''' [] '''' 0)"

definition demo_registry :: "nat skill_registry" where
  "demo_registry = orch_put ''s1'' demo_skill 0 (NewRegistry True)"

lemma safe_ids [simp]: "safe_id ''t1''" "safe_id ''t2''"
  by (simp_all add: safe_id_chars isSafeTenantIDChar_def byte_def)

lemma demo_tenants [simp]: "tenant_of (rc_tenant (request_of tid u)) tid \<longleftrightarrow> tid \<noteq> ''''"
  by (simp add: tenant_of_def request_of_def FromContext_def)

lemma skills_demo_works: "\<forall>n. ev_fault Public_DB.demo_env n = Works"
  by (simp add: Public_DB.demo_env_def)

abbreviation "demo_create n \<equiv>
  CreateSkill Public_DB.demo_env demo_pg (\<lambda>_. Inr ''{}'') (\<lambda>_. ErrorString ''invalid'') (NewGateway :: nat Gateway) (request_of ''t1'' ''u1'') ''s1'' (Inr (demo_body n)) (NewRegistry True) demo_tworld"

lemmas demo_create_defs = CreateSkill_def bind_request_def valid_skill_request_def demo_body_def new_skill_def orch_Register_def NewRegistry_def
  tenant_exec_safe t_exec_works[OF skills_demo_works] plain_stmt_def t_stmt_works[OF skills_demo_works] ttick_eq demo_tworld_def chat_schema_def
  put_skill_eq demo_pg_def name_taken_def demo_tenant_def stored_def NewHTTPSkill_def

theorem created_skill_is_stored_witness:
  "\<exists>s :: nat skill. GetName s = ''pong'' \<and> GetID s = ''s1'' \<and> og_skills (fst (snd (demo_create ''pong''))) = [''s1'' \<mapsto> s]"
proof -
  have "fst (fst (demo_create ''pong'')) = 201"
    by (simp add: demo_create_defs stored_reply_def Let_def tenant_exec_safe[where tid = "''t1''"] Tenant_Tables.empty_tenant_def)
  then obtain v r' w' where c: "demo_create ''pong'' = ((201, v), r', w')" by (metis prod.collapse)
  obtain s :: "nat skill" where s: "GetID s = ''s1''" "og_skills r' = [''s1'' \<mapsto> s]" "GetSkill ''s1'' r' = (200, v)"
    using created_skill_is_stored[OF skills_demo_works _ _ _ _ _ c, of "''t1''" demo_tenant]
    by (auto simp: NewRegistry_def demo_tworld_def demo_tenant_def chat_schema_def)
  moreover have "r' = fst (snd (demo_create ''pong''))" by (simp add: c)
  then have "og_skills r' = [''s1'' \<mapsto> HTTPS (NewHTTPSkill ''s1'' ''pong'' '''' ''http://x'' '''' [] '''' 0)]"
    by (simp add: demo_create_defs stored_reply_def Let_def tenant_exec_safe[where tid = "''t1''"] Tenant_Tables.empty_tenant_def)
  ultimately have "s = HTTPS (NewHTTPSkill ''s1'' ''pong'' '''' ''http://x'' '''' [] '''' 0)" by (metis fun_upd_same option.inject)
  then show ?thesis using s c by (intro exI[of _ s]) (simp add: NewHTTPSkill_def)
qed

theorem refused_creation_changes_nothing_witness:
  "fst (fst (demo_create ''ping'')) = 409 \<and> fst (snd (demo_create ''ping'')) = NewRegistry True"
proof -
  have code: "fst (fst (demo_create ''ping'')) = 409"
    by (simp add: demo_create_defs stored_reply_def Let_def tenant_exec_safe[where tid = "''t1''"] Tenant_Tables.empty_tenant_def
        conflict_defs error_reply_def)
  then obtain v r' w' where c: "demo_create ''ping'' = ((409, v), r', w')" by (metis prod.collapse)
  have "r' = NewRegistry True"
    using refused_creation_changes_nothing[OF skills_demo_works _ _ _ _ _ _ c, of "''t1''" demo_tenant]
    by (simp add: NewRegistry_def demo_tworld_def chat_schema_def)
  with code c show ?thesis by simp
qed

lemma go_bind_assoc: "go_bind (go_bind r f) g = go_bind r (\<lambda>x. go_bind (f x) g)"
  by (cases r) simp_all

lemma table_guards_first:
  "list_all (\<lambda>r. public_route r \<and> JWT \<notin> set (rt_guards r) \<or> rt_guards r \<noteq> [] \<and> hd (rt_guards r) = JWT \<and> JWT \<notin> set (tl (rt_guards r))) (SetupRouter True db)"
  by (cases db) (simp_all only: route_table, code_simp+)

section \<open>Updates and removal\<close>

text \<open>Renaming a skill to the name of another skill of the tenant is answered with 409, as it should be, but
  the skill is gone from memory afterwards, for every tenant, while its row is still there.
\<close>

theorem rename_conflict_drops_skill:
  assumes works: "\<forall>n. ev_fault ev n = Works" and pool: "og_pool r" and t: "tenant_of (rc_tenant c) tid" "safe_id tid"
    and d: "tw_schemas w (chat_schema tid) = Some d"
    and q: "bind_request verr (Inr q) = Inr q" "og_skills r i = Some s0" "update_skill q s0 = Inr s" "pg_json pg (config_text mar s) \<noteq> None"
    and taken: "x \<in> set (d_skills d)" "sk_ID x \<noteq> i" "sk_Name x = csr_Name q"
    and res: "UpdateSkill ev pg mar verr c i (Inr q) r w = (rep, r', w')"
  shows "fst rep = 409 \<and> GetSkill i r' = skill_not_found \<and> tw_schemas w' = tw_schemas w"
proof -
  have "GetName s = csr_Name q"
    using q(3) by (auto simp: update_skill_def update_fields_def Let_def split: if_splits skill.splits)
  with taken have n: "name_taken i (GetName s) d" by (auto simp: name_taken_def list_ex_iff)
  let ?r = "r\<lparr>og_skills := (og_skills r)(i \<mapsto> s)\<rparr>"
  have rep: "stored_reply 200 ''failed to update skill'' i s (orch_Register ev pg mar (rc_tenant c) i s ?r w) = (rep, r', w')"
    using res q by (simp add: UpdateSkill_def orch_Get_def)
  have "og_pool ?r" using pool by simp
  from works this t d show ?thesis
  proof (cases rule: orch_Register_works[where s = s and mar = mar and pg = pg and i = i])
    case (taken w1)
    with rep show ?thesis by (auto simp: stored_reply_def conflict_defs error_reply_def GetSkill_def orch_Get_def)
  next
    case (unstorable w1)
    with q(4) show ?thesis by simp
  next
    case (stored j w1)
    with n show ?thesis by simp
  qed
qed

theorem rename_conflict_drops_skill_witness:
  "GetSkill ''s1'' (fst (snd (UpdateSkill Public_DB.demo_env demo_pg (\<lambda>_. Inr ''{}'') (\<lambda>_. ErrorString ''invalid'') (request_of ''t1'' ''u1'') ''s1'' (Inr (demo_body ''ping''))
       demo_registry demo_tworld))) = skill_not_found"
proof -
  obtain rep r' w' where u: "UpdateSkill Public_DB.demo_env demo_pg (\<lambda>_. Inr ''{}'') (\<lambda>_. ErrorString ''invalid'') (request_of ''t1'' ''u1'') ''s1'' (Inr (demo_body ''ping''))
       demo_registry demo_tworld = (rep, r', w')" by (metis prod.collapse)
  have "\<exists>s. update_skill (demo_body ''ping'') demo_skill = Inr s \<and> pg_json demo_pg (config_text (\<lambda>_. Inr ''{}'') s) \<noteq> None"
    by (simp add: update_skill_def demo_skill_def NewHTTPSkill_def demo_pg_def)
  then obtain s where s: "update_skill (demo_body ''ping'') demo_skill = Inr s" "pg_json demo_pg (config_text (\<lambda>_. Inr ''{}'') s) \<noteq> None" by blast
  have "GetSkill ''s1'' r' = skill_not_found"
    using rename_conflict_drops_skill[OF skills_demo_works _ _ _ _ _ _ s(1) s(2) _ _ _ u, of "''t1''" demo_tenant "hd (d_skills demo_tenant)"]
    by (simp add: demo_registry_def NewRegistry_def demo_tworld_def chat_schema_def bind_request_def valid_skill_request_def demo_body_def demo_tenant_def)
  then show ?thesis by (simp add: u)
qed

lemma orch_Remove_works:
  assumes "\<forall>n. ev_fault ev n = Works" "og_pool r" "tenant_of ctx tid" "safe_id tid" "tw_schemas w (chat_schema tid) = Some d" "og_skills r i \<noteq> None"
  shows "\<exists>w'. orch_Remove ev ctx i r w =
      (if list_ex (\<lambda>l. snd l = i) (d_skill_links d)
       then (Some (WrappedBy ErrSkillInUse (''unlink skill '' @ i @ '' from all agents first'')), r, w') else (None, orch_delete i r, w')) \<and>
    tw_schemas w' = (if list_ex (\<lambda>l. snd l = i) (d_skill_links d) then tw_schemas w
       else (tw_schemas w)(chat_schema tid \<mapsto> d\<lparr>d_skills := filter (\<lambda>x. sk_ID x \<noteq> i) (d_skills d)\<rparr>))"
proof -
  obtain res d' where st: "del_skill i (ev_clock ev (tw_calls w)) (ev_uuid ev (tw_calls w + 2)) d = (res, d')" by fastforce
  have same: "d' = d" if "res = Inl e" for e using st that by (auto simp: del_skill_def split: if_splits)
  obtain x w' where x: "t_exec ev ''tenantdb'' (plain_stmt ev (del_skill i) (chat_schema tid)) w = (case res of Inl e \<Rightarrow> (Some e, x, w') | Inr _ \<Rightarrow> (None, x, w'))"
    "tw_schemas w' = (tw_schemas w)(chat_schema tid \<mapsto> d')"
    using plain_stmt_works[where st = "del_skill i" and store = "''tenantdb''", OF assms(1,5) st] same by blast
  have "errors_is fk_violation fk_violation" by (simp add: fk_violation_def)
  moreover have "(tw_schemas w)(chat_schema tid \<mapsto> d) = tw_schemas w" using assms(5) by (simp add: fun_upd_idem)
  ultimately show ?thesis using assms st x
    by (cases "list_ex (\<lambda>l. snd l = i) (d_skill_links d)")
      (auto simp: orch_Remove_def tenant_exec_safe del_skill_def intro!: exI[of _ w'])
qed

text \<open>A skill that an agent of the requesting tenant uses is not removed: the answer is 409 and nothing changes.
  When no agent of that tenant uses it, any tenant removes it from memory for all: the rows of the other
  tenants, its owner among them, stay, but no request finds the skill any more.
\<close>

theorem any_tenant_removes:
  assumes works: "\<forall>n. ev_fault ev n = Works" and pool: "og_pool r" and t: "tenant_of (rc_tenant c) tid" "safe_id tid"
    and d: "tw_schemas w (chat_schema tid) = Some d" and s: "og_skills r i = Some s"
    and res: "DeleteSkill ev c i r w = (rep, r', w')"
  shows "if \<exists>a. (a, i) \<in> set (d_skill_links d) then fst rep = 409 \<and> r' = r \<and> tw_schemas w' = tw_schemas w
    else fst rep = 200 \<and> GetSkill i r' = skill_not_found \<and> (\<forall>other. other \<noteq> tid \<longrightarrow> tw_schemas w' (chat_schema other) = tw_schemas w (chat_schema other))"
proof -
  have l: "list_ex (\<lambda>l. snd l = i) (d_skill_links d) \<longleftrightarrow> (\<exists>a. (a, i) \<in> set (d_skill_links d))" by (force simp: list_ex_iff)
  obtain w1 where rm: "orch_Remove ev (rc_tenant c) i r w =
      (if \<exists>a. (a, i) \<in> set (d_skill_links d)
       then (Some (WrappedBy ErrSkillInUse (''unlink skill '' @ i @ '' from all agents first'')), r, w1) else (None, orch_delete i r, w1))"
    and w1: "tw_schemas w1 = (if \<exists>a. (a, i) \<in> set (d_skill_links d) then tw_schemas w
       else (tw_schemas w)(chat_schema tid \<mapsto> d\<lparr>d_skills := filter (\<lambda>x. sk_ID x \<noteq> i) (d_skills d)\<rparr>))"
    using orch_Remove_works[OF works pool t d, of i] s unfolding l by auto
  show ?thesis
  proof (cases "\<exists>a. (a, i) \<in> set (d_skill_links d)")
    case True
    then have "orch_Remove ev (rc_tenant c) i r w = (Some (WrappedBy ErrSkillInUse (''unlink skill '' @ i @ '' from all agents first'')), r, w1)"
      by (simp only: rm if_True)
    with True w1 res show ?thesis by (auto simp: DeleteSkill_def ErrSkillInUse_def error_reply_def)
  next
    case False
    then have "orch_Remove ev (rc_tenant c) i r w = (None, orch_delete i r, w1)" by (simp only: rm if_False)
    with False w1 res show ?thesis by (auto simp: DeleteSkill_def message_reply_def GetSkill_def orch_Get_def chat_schema_def)
  qed
qed

theorem any_tenant_removes_witness:
  "let r = fst (snd (DeleteSkill Public_DB.demo_env (request_of ''t2'' ''u9'') ''s1'' demo_registry demo_tworld))
   in GetSkill ''s1'' r = skill_not_found"
proof -
  obtain rep r' w' where u: "DeleteSkill Public_DB.demo_env (request_of ''t2'' ''u9'') ''s1'' demo_registry demo_tworld = (rep, r', w')" by (metis prod.collapse)
  have "GetSkill ''s1'' r' = skill_not_found"
    using any_tenant_removes[OF skills_demo_works _ _ _ _ _ u, of "''t2''" Tenant_Tables.empty_tenant demo_skill]
    by (simp add: demo_registry_def NewRegistry_def demo_tworld_def chat_schema_def Tenant_Tables.empty_tenant_def)
  then show ?thesis by (simp add: u)
qed

section \<open>Running\<close>

text \<open>No guard of any route sets the key that RunSkill asks for the tenant. So the caller names the tenant
  whose share of the executor a run takes, in the field \_\_tenant\_id of the input; without the field no
  limit per tenant applies.
\<close>

theorem caller_names_tenant:
  assumes route: "rt \<in> set (SetupRouter jwt db)" "reach lib now dbs rt c = Next c'" "rc_keys c ''tenant_id'' = None"
    and s: "og_skills r i = Some (CodeS k)" "cs_hasExecutor k"
  shows "RunSkill sy c' i (Inr (Some m)) r e w =
    (case code_Execute sy (cs_Language k) (cs_Code k) (case string_at m tenant_key of None \<Rightarrow> '''' | Some t \<Rightarrow> t) (user_input m) e w of
       (res, w') \<Rightarrow> (go_bind res (\<lambda>(out, e'). Ret (run_reply (skill_outcome k out), e')), w'))"
proof -
  have "rc_keys c' ''tenant_id'' = None"
  proof (cases jwt)
    case False
    have "set (rt_guards rt) \<subseteq> {ActiveTenant}" using table_unguarded[of db] route(1) False by (auto simp: list_all_iff)
    then have "JWT \<notin> set (rt_guards rt)" by auto
    with guards_Next[OF route(2)[unfolded reach_def]] route(3) show ?thesis by simp
  next
    case True
    have "public_route rt \<and> JWT \<notin> set (rt_guards rt) \<or> rt_guards rt \<noteq> [] \<and> hd (rt_guards rt) = JWT \<and> JWT \<notin> set (tl (rt_guards rt))"
      using table_guards_first[of db] route(1) True by (auto simp: list_all_iff)
    then show ?thesis
    proof
      assume "public_route rt \<and> JWT \<notin> set (rt_guards rt)"
      with guards_Next[OF route(2)[unfolded reach_def]] route(3) show ?thesis by simp
    next
      assume g: "rt_guards rt \<noteq> [] \<and> hd (rt_guards rt) = JWT \<and> JWT \<notin> set (tl (rt_guards rt))"
      then obtain gs where gs: "rt_guards rt = JWT # gs" "JWT \<notin> set gs" by (cases "rt_guards rt") auto
      from route(2) gs(1) obtain c1 where j: "JWTMiddleware lib now c = Next c1" and rest: "run_chain (map (guard_fn lib now dbs) gs) c1 = Next c'"
        by (auto simp: reach_def split: outcome.splits)
      from j have "rc_keys c1 ''tenant_id'' = None" by (rule JWTMiddleware_Next) (simp add: route(3))
      with guards_Next[OF rest gs(2)] show ?thesis by simp
    qed
  qed
  with s show ?thesis
    by (simp add: RunSkill_def orch_Get_def run_input_def entries_def Let_def CodeSkill_Execute_def go_bind_assoc case_prod_unfold)
qed

definition demo_sys :: "nat system" where
  "demo_sys = \<lparr>sy_Marshal = (\<lambda>_. Inr ''{}''), sy_Quote = quoted, sy_CreateTemp = (\<lambda>w. (Inr ''f'', Suc w)), sy_Write = (\<lambda>_ _ w. (None, w)), sy_Close = (\<lambda>_ w. (None, w)),
     sy_Remove = (\<lambda>_ w. w), sy_Run = (\<lambda>_ _ w. ((None, ''1'', ''''), w)), sy_Expired = (\<lambda>_. False), sy_Unmarshal = (\<lambda>_. Some (VFloat 1)),
     sy_SetUndefined = (\<lambda>_. None), sy_RunString = (\<lambda>_ _ w. (JsValue (VStr ''1''), w))\<rparr>"

definition demo_code :: CodeSkill where
  "demo_code = NewCodeSkillWithExecutor ''c1'' ''one'' '''' ''function process(x) { return 1 }'' ''javascript''"

definition busy_executor :: CodeExecutor where
  "busy_executor = \<lparr>ce_cfg = DefaultCodeExecutorConfig, ce_sem = \<lparr>sm_cap = 10, sm_used = 3, sm_perTenant = 3, sm_tenants = [''t1'' \<mapsto> 3]\<rparr>\<rparr>"

text \<open>With all slots of a tenant taken, naming that tenant is refused and naming none is not.\<close>

theorem caller_names_tenant_witness:
  "fst (RunSkill demo_sys (request_of ''t2'' ''u9'') ''c1'' (Inr (Some [(tenant_key, VStr ''t1'')])) (orch_put ''c1'' (CodeS demo_code) 0 demo_registry) busy_executor 0) =
     Ret (run_error 429 ''concurrency limit reached'', busy_executor)"
proof -
  let ?rt = "handle ''GET'' ''/health'' [] ''health''"
  have 1: "?rt \<in> set (SetupRouter False True)" by (simp add: route_table)
  have 2: "reach lib now dbs ?rt c = Next c" for lib now dbs c by (simp add: reach_def handle_def)
  have "Acquire ''t1'' (ce_sem busy_executor) = Ret (Some ErrConcurrencyLimit, ce_sem busy_executor)"
    by (simp add: busy_executor_def Acquire_def acquire_global_def acquire_tenant_def limited_def tenantSem_def receive_global_def fun_upd_idem)
  then have "fst (code_Execute demo_sys lang code ''t1'' inp busy_executor 0) = Ret (fails ErrConcurrencyLimit, busy_executor)" for lang code inp
    by (simp add: code_Execute_def)
  moreover have "run_reply (skill_outcome demo_code (fails ErrConcurrencyLimit)) = run_error 429 ''concurrency limit reached''"
    by (simp add: run_reply_def skill_outcome_def fails_def ErrConcurrencyLimit_def)
  ultimately show ?thesis
    using caller_names_tenant[OF 1 2, of "request_of ''t2'' ''u9''" "orch_put ''c1'' (CodeS demo_code) 0 demo_registry" "''c1''" demo_code demo_sys "[(tenant_key, VStr ''t1'')]" busy_executor 0]
    by (simp add: request_of_def demo_code_def NewCodeSkillWithExecutor_def string_at_def split_beta)
qed

text \<open>Only creation fills in what an HTTP skill leaves out: after an update without method and time limit it sends GET and waits for ever.\<close>

lemma update_drops_defaults:
  assumes "csr_Method q = ''''" "csr_TimeoutSec q = 0" "hw_ToUpper h '''' = ''''"
  shows "\<exists>k'. update_fields q (HTTPS k) = HTTPS k' \<and> hq_Method (http_req h k' body) = ''GET'' \<and> http_timeout k' = 0"
  using assms by (simp add: update_fields_def http_req_def http_timeout_def Let_def)

text \<open>The code of a code skill is not stored.\<close>

lemma code_not_stored: "config_text mar (CodeS k) = ''{}''"
  by (simp add: config_text_def configurable_def)

section \<open>Adapters to the skill gateway\<close>

text \<open>The Execute of a skill; all kinds are a SkillExecutor.\<close>

definition skill_Execute ::
  "'w system \<Rightarrow> 'w http_world \<Rightarrow> 'w Gateway option \<Rightarrow> 'w skill \<Rightarrow> gval \<Rightarrow> CodeExecutor \<Rightarrow> 'w \<Rightarrow> metric list \<times> (outcome_any \<times> CodeExecutor) go \<times> 'w" where
  "skill_Execute sy h override s input e w =
     (case s of
        CodeS k \<Rightarrow> ([], CodeSkill_Execute sy k input e w)
      | LLMS k \<Rightarrow> (case LLMSkill_Execute override k input w of (ms, w', r) \<Rightarrow> (ms, go_bind r (\<lambda>out. Ret (out, e)), w'))
      | HTTPS k \<Rightarrow> (case HTTPSkill_Execute h k input w of (out, w') \<Rightarrow> ([], Ret (out, e), w')))"

definition code_SkillIDs :: "CodeSkill \<Rightarrow> string list" where "code_SkillIDs k = [bs_ID k]"
definition code_Has :: "CodeSkill \<Rightarrow> string \<Rightarrow> bool" where "code_Has k i \<longleftrightarrow> bs_ID k = i"
definition llm_SkillIDs :: "'w LLMSkill \<Rightarrow> string list" where "llm_SkillIDs k = [bs_ID k]"
definition llm_Has :: "'w LLMSkill \<Rightarrow> string \<Rightarrow> bool" where "llm_Has k i \<longleftrightarrow> bs_ID k = i"

definition adapter_SkillIDs :: "string list \<Rightarrow> 'w skill_registry \<Rightarrow> string list" where
  "adapter_SkillIDs ks r = map GetID (orch_GetAll ks r)"

definition adapter_Has :: "'w skill_registry \<Rightarrow> string \<Rightarrow> bool" where
  "adapter_Has r i \<longleftrightarrow> orch_Get i r \<noteq> None"

definition adapter_Execute ::
  "'w system \<Rightarrow> 'w http_world \<Rightarrow> 'w Gateway option \<Rightarrow> 'w skill_registry \<Rightarrow> string \<Rightarrow> gval \<Rightarrow> CodeExecutor \<Rightarrow> 'w \<Rightarrow> metric list \<times> (outcome_any \<times> CodeExecutor) go \<times> 'w" where
  "adapter_Execute sy h override r i input e w =
     (case orch_Get i r of
        None \<Rightarrow> ([], Ret (fails (ErrorString (''skill not found in registry: '' @ i)), e), w)
      | Some s \<Rightarrow> skill_Execute sy h override s input e w)"

text \<open>
  The assertion of the MCP provider asks for an Execute without a context, which no wrapper has: it
  fails for every skill.
\<close>

definition mcp_SkillIDs :: "string list \<Rightarrow> MCPSkillAdapter \<Rightarrow> string list" where
  "mcp_SkillIDs ks a = map sw_ID (adapter_GetAllSkills ks a)"

definition mcp_Has :: "MCPSkillAdapter \<Rightarrow> string \<Rightarrow> bool" where
  "mcp_Has a i \<longleftrightarrow> adapter_GetSkill i a \<noteq> None"

definition mcp_Execute :: "MCPSkillAdapter \<Rightarrow> string \<Rightarrow> gval \<Rightarrow> outcome_any" where
  "mcp_Execute a i input =
     (case adapter_GetSkill i a of
        None \<Rightarrow> fails (ErrorString (''MCP skill not found: '' @ i))
      | Some s \<Rightarrow> fails (ErrorString (''MCP skill '' @ i @ '' does not implement Execute'')))"

end
