(* ===== verification/Agent_Handler.thy ===== *)
theory Agent_Handler
  imports Knowledge Skill_Registry
begin

text \<open>
  The handlers of agents, api/handler/agent_handler.go: creation, reading, update and removal, the
  execution history, and executions, whole and as a stream of events. An execution is composed of the
  registry, the gateway of the tenant's own API keys, the extra tools, the search in the knowledge and
  the agent itself. Its world has the tables of the tenants, the public tables, the events written to
  the client, and the rest, which belongs to the clients of models, skills and vectors. The clock
  readings of a response, the texts of durations and the encoder are arguments. A panic in a goroutine
  of the search ends the process; its text says so. The record of an execution is inserted by a
  goroutine of its own, which touches nothing else of the request and runs here at its start.

  Proved: the gateway of a tenant has exactly the providers whose keys decrypt; an update answers with a
  type that it does not store; and the search of an execution that is not streamed reads the collection
  of another tenant when the model names a workspace after it.
\<close>

section \<open>The world of an execution\<close>

record 'x host =
  ho_tables :: tworld
  ho_public :: world
  ho_events :: "string list"
  ho_rest :: 'x

definition on_tables :: "(tworld \<Rightarrow> 'a \<times> tworld) \<Rightarrow> 'x host \<Rightarrow> 'a \<times> 'x host" where
  "on_tables f h = (case f (ho_tables h) of (r, t) \<Rightarrow> (r, h\<lparr>ho_tables := t\<rparr>))"

definition on_public :: "(world \<Rightarrow> 'a \<times> world) \<Rightarrow> 'x host \<Rightarrow> 'a \<times> 'x host" where
  "on_public f h = (case f (ho_public h) of (r, t) \<Rightarrow> (r, h\<lparr>ho_public := t\<rparr>))"

record 'x agent_system =
  as_env :: env
  as_pg :: pg_types
  as_uni :: "rune \<Rightarrow> bool"
  as_busy :: "error option"
  as_db :: bool
  as_cipher :: aead
  as_aesKey :: string
  as_newQwen :: "string \<Rightarrow> 'x host LLMClient \<times> 'x host embedder"
  as_newZhipu :: "string \<Rightarrow> 'x host LLMClient \<times> 'x host embedder"
  as_marshal :: marshaller
  as_unmarshal :: unmarshaller
  as_skillAdapter :: "'x host Adapter"
  as_capGW :: "'x host Adapter option"
  as_mcp :: "MCPSkillRegistry option"
  as_mcpOrder :: "string \<Rightarrow> string list"
  as_skills :: "'x host skill_registry option"
  as_rag :: "(search_env \<times> 'x host knowledge_base) option"
  as_chat :: bool
  as_execs :: bool
  as_agent :: "'x host agent_env"
  as_json :: "gval \<Rightarrow> string"

text \<open>The chat store as the interface of the agents; the context of the call has no part in it.\<close>

definition history_entry :: "Chat.ChatMessage \<Rightarrow> Agent.ChatMessage" where
  "history_entry m = Agent.ChatMessage.make (Chat.cm_ConversationID m) (Chat.cm_Role m) (Chat.cm_Content m)"

definition new_entry :: "Agent.ChatMessage \<Rightarrow> Chat.ChatMessage" where
  "new_entry m = Chat.ChatMessage.make '''' (Agent.cm_ConversationID m) (Agent.cm_Role m) (Agent.cm_Content m) None False 0"

definition chat_store :: "'x agent_system \<Rightarrow> 'x host ChatStore" where
  "chat_store S =
     \<lparr>st_ListMessages = (\<lambda>h tid conv user.
        case on_tables (ListMessages (as_env S) (as_pg S) (as_uni S) tid conv user) h of
          (r, h') \<Rightarrow> (h', case r of Inl e \<Rightarrow> Inl e | Inr ms \<Rightarrow> Inr (map history_entry ms))),
      st_AddMessage = (\<lambda>h tid m.
        case on_tables (\<lambda>t. case AddMessage (as_env S) (as_pg S) (as_uni S) tid (new_entry m) t of (err, _, t') \<Rightarrow> (err, t')) h of
          (err, h') \<Rightarrow> (h', err))\<rparr>"

section \<open>Agents\<close>

definition ids_json :: "string list option \<Rightarrow> gval" where
  "ids_json xs = (case xs of None \<Rightarrow> VNil | Some ys \<Rightarrow> VList (map VStr ys))"

text \<open>\<open>now\<close> is the time of the answer, which stands for the time of creation.\<close>

definition agent_response :: "string \<Rightarrow> FullConfig \<Rightarrow> gval" where
  "agent_response now cfg =
     VMap [(''id'', VStr (ac_ID cfg)), (''name'', VStr (fc_Name cfg)), (''type'', VStr (ac_Type cfg)), (''description'', VStr (fc_Description cfg)),
           (''persona'', VStr (fc_Persona cfg)), (''systemPrompt'', VStr (ac_SystemPrompt cfg)), (''llmModel'', VStr (ac_LLMModel cfg)),
           (''maxIterations'', VInt (ac_MaxIterations cfg)), (''allowedSkills'', ids_json (fc_AllowedSkills cfg)),
           (''mcpServerIds'', ids_json (fc_MCPServerIDs cfg)), (''knowledgeWorkspaceIds'', ids_json (fc_KnowledgeWorkspaceIDs cfg)),
           (''createdAt'', VStr now)]"

definition agent_not_found :: reply where "agent_not_found = error_reply 404 ''agent not found''"

definition GetAllAgents :: "error option \<Rightarrow> env \<Rightarrow> string \<Rightarrow> req_ctx \<Rightarrow> tworld \<Rightarrow> reply \<times> tworld" where
  "GetAllAgents busy ev now c w =
     (case tenantIDFromCtx c of
        None \<Rightarrow> (respondMissingTenant, w)
      | Some _ \<Rightarrow> (case GetAll busy ev (rc_tenant c) w of (cfgs, w') \<Rightarrow> ((200, VMap [(''agents'', VList (map (agent_response now) cfgs))]), w')))"

definition GetAgent :: "env \<Rightarrow> string \<Rightarrow> req_ctx \<Rightarrow> string \<Rightarrow> tworld \<Rightarrow> reply \<times> tworld" where
  "GetAgent ev now c i w =
     (case tenantIDFromCtx c of
        None \<Rightarrow> (respondMissingTenant, w)
      | Some _ \<Rightarrow>
          (case Get ev (rc_tenant c) i w of
             (None, w') \<Rightarrow> (agent_not_found, w')
           | (Some cfg, w') \<Rightarrow> ((200, agent_response now cfg), w')))"

record CreateAgentRequest =
  caq_Name :: string
  caq_Type :: string
  caq_Description :: string
  caq_Persona :: string
  caq_SystemPrompt :: string
  caq_LLMModel :: string
  caq_MaxIterations :: int
  caq_AllowedSkills :: "string list option"
  caq_MCPServerIDs :: "string list option"
  caq_KnowledgeWorkspaceIDs :: "string list option"

definition valid_agent_request :: "CreateAgentRequest \<Rightarrow> bool" where
  "valid_agent_request q \<longleftrightarrow> caq_Name q \<noteq> '''' \<and> caq_LLMModel q \<noteq> '''' \<and> caq_MaxIterations q \<noteq> 0"

definition bind_agent :: "(CreateAgentRequest \<Rightarrow> error) \<Rightarrow> error + CreateAgentRequest \<Rightarrow> error + CreateAgentRequest" where
  "bind_agent verr body = (case body of Inl e \<Rightarrow> Inl e | Inr q \<Rightarrow> if valid_agent_request q then Inr q else Inl (verr q))"

definition agent_type_of :: "string \<Rightarrow> AgentType" where
  "agent_type_of t = (if t \<in> {CoTAgent, PlanningAgent, ToolCallingAgent, RAGAgent, SwarmAgent} then t else ReActAgent)"

definition requested_config :: "string \<Rightarrow> CreateAgentRequest \<Rightarrow> string list option \<Rightarrow> FullConfig" where
  "requested_config i q skills =
     \<lparr>ac_ID = i, ac_Type = agent_type_of (caq_Type q), ac_SystemPrompt = caq_SystemPrompt q, ac_LLMModel = caq_LLMModel q,
      ac_MaxIterations = caq_MaxIterations q, ac_KnowledgeWorkspaceNames = [], fc_Name = caq_Name q, fc_Description = caq_Description q,
      fc_Persona = caq_Persona q, fc_AllowedSkills = skills, fc_MCPServerIDs = caq_MCPServerIDs q,
      fc_KnowledgeWorkspaceIDs = caq_KnowledgeWorkspaceIDs q\<rparr>"

text \<open>\<open>i\<close> is the fresh id of the agent.\<close>

definition CreateAgent ::
  "env \<Rightarrow> pg_types \<Rightarrow> (CreateAgentRequest \<Rightarrow> error) \<Rightarrow> string \<Rightarrow> req_ctx \<Rightarrow> string \<Rightarrow> error + CreateAgentRequest \<Rightarrow> tworld \<Rightarrow> reply \<times> tworld" where
  "CreateAgent ev pg verr now c i body w =
     (case tenantIDFromCtx c of
        None \<Rightarrow> (respondMissingTenant, w)
      | Some _ \<Rightarrow>
          (case bind_agent verr body of
             Inl e \<Rightarrow> (error_reply 400 (error_text e), w)
           | Inr q \<Rightarrow>
               (let cfg = requested_config i q (caq_AllowedSkills q) in
                case Register ev pg (rc_tenant c) cfg w of
                  (None, w') \<Rightarrow> ((201, agent_response now cfg), w')
                | (Some e, w') \<Rightarrow>
                    (if errors_is e ErrNameConflict then error_reply 409 (error_text e)
                     else error_reply 500 (''failed to create agent: '' @ error_text e), w'))))"

definition update_failed :: "error \<Rightarrow> reply" where
  "update_failed e =
     (if errors_is e AgentErrNotFound then agent_not_found
      else if errors_is e ErrInvalidSkill then error_reply 422 (''invalid skill: '' @ error_text e)
      else error_reply 500 (''failed to update agent: '' @ error_text e))"

definition UpdateAgent ::
  "env \<Rightarrow> pg_types \<Rightarrow> (CreateAgentRequest \<Rightarrow> error) \<Rightarrow> string \<Rightarrow> req_ctx \<Rightarrow> string \<Rightarrow> error + CreateAgentRequest \<Rightarrow> tworld \<Rightarrow> reply \<times> tworld" where
  "UpdateAgent ev pg verr now c i body w =
     (case tenantIDFromCtx c of
        None \<Rightarrow> (respondMissingTenant, w)
      | Some _ \<Rightarrow>
          (case bind_agent verr body of
             Inl e \<Rightarrow> (error_reply 400 (error_text e), w)
           | Inr q \<Rightarrow>
               (case Get ev (rc_tenant c) i w of
                  (None, w1) \<Rightarrow> (agent_not_found, w1)
                | (Some _, w1) \<Rightarrow>
                    (let cfg = requested_config i q (Some (slice (caq_AllowedSkills q))) in
                     case Update ev pg (rc_tenant c) cfg w1 of
                       (Some e, w2) \<Rightarrow> (update_failed e, w2)
                     | (None, w2) \<Rightarrow> ((200, agent_response now cfg), w2)))))"

definition DeleteAgent :: "env \<Rightarrow> req_ctx \<Rightarrow> string \<Rightarrow> tworld \<Rightarrow> reply \<times> tworld" where
  "DeleteAgent ev c i w =
     (case tenantIDFromCtx c of
        None \<Rightarrow> (respondMissingTenant, w)
      | Some _ \<Rightarrow>
          (case Remove ev (rc_tenant c) i w of
             (Some _, w') \<Rightarrow> (agent_not_found, w')
           | (None, w') \<Rightarrow> (message_reply ''agent deleted successfully'', w')))"

section \<open>The history of executions\<close>

text \<open>\<open>fmt\<close> is the format of a time.\<close>

definition execution_json :: "(int \<Rightarrow> string) \<Rightarrow> exec_row \<Rightarrow> gval" where
  "execution_json fmt r =
     VMap [(''id'', VStr (ex_ID r)), (''agent_id'', VStr (ex_AgentID r)), (''agent_name'', VStr (ex_AgentName r)), (''user_id'', VStr (ex_UserID r)),
           (''status'', VStr (ex_Status r)), (''input_preview'', VStr (ex_InputPreview r)), (''output_preview'', VStr (ex_OutputPreview r)),
           (''error_message'', VStr (ex_ErrorMessage r)), (''total_tokens'', VInt (ex_TotalTokens r)), (''duration_ms'', VInt (ex_DurationMs r)),
           (''created_at'', VStr (fmt (ex_CreatedAt r)))]"

text \<open>Page and size are what strconv.Atoi gives for the texts of the query; its error is ignored.\<close>

definition ListExecutions :: "env \<Rightarrow> (int \<Rightarrow> string) \<Rightarrow> bool \<Rightarrow> req_ctx \<Rightarrow> int \<Rightarrow> int \<Rightarrow> tworld \<Rightarrow> reply \<times> tworld" where
  "ListExecutions ev fmt store c page sz w =
     (case tenantIDFromCtx c of
        None \<Rightarrow> (respondMissingTenant, w)
      | Some _ \<Rightarrow>
          (if \<not> store then ((200, VMap [(''executions'', VList []), (''total'', VInt 0)]), w)
           else (case List_executions ev (rc_tenant c) page sz w of
             (_, _, Some _, w') \<Rightarrow> (error_reply 500 ''failed to list executions'', w')
           | (rs, n, None, w') \<Rightarrow> ((200, VMap [(''executions'', VList (map (execution_json fmt) rs)), (''total'', VInt n)]), w'))))"

section \<open>The gateway of a tenant\<close>

text \<open>The API keys of the settings that decrypt, in the order of the range loop.\<close>

fun decrypt_keys :: "aead \<Rightarrow> string \<Rightarrow> (string \<times> gval) list \<Rightarrow> (string \<rightharpoonup> string) \<Rightarrow> (string \<rightharpoonup> string)" where
  "decrypt_keys ci key [] m = m"
| "decrypt_keys ci key ((provider, enc) # rest) m =
     (case enc of
        VStr s \<Rightarrow>
          (if s = '''' then decrypt_keys ci key rest m
           else case Decrypt ci key s of
             Inl _ \<Rightarrow> decrypt_keys ci key rest m
           | Inr plain \<Rightarrow> decrypt_keys ci key rest (m(provider \<mapsto> plain)))
      | _ \<Rightarrow> decrypt_keys ci key rest m)"

definition add_client :: "ModelProvider \<Rightarrow> string option \<Rightarrow> (string \<Rightarrow> 'w LLMClient \<times> 'w embedder) \<Rightarrow> 'w Gateway \<Rightarrow> 'w Gateway" where
  "add_client p key new g =
     (case key of None \<Rightarrow> g | Some k \<Rightarrow> RegisterEmbeddingClient p (snd (new k)) (RegisterClient p (fst (new k)) g))"

definition gateway_of_keys :: "'x agent_system \<Rightarrow> (string \<rightharpoonup> string) \<Rightarrow> 'x host Gateway" where
  "gateway_of_keys S keys =
     (let g = add_client ProviderZhipu (keys ProviderZhipu) (as_newZhipu S) (add_client ProviderQwen (keys ProviderQwen) (as_newQwen S) NewGateway) in
      if keys ProviderQwen \<noteq> None then SetDefault ProviderQwen g
      else if keys ProviderZhipu \<noteq> None then SetDefault ProviderZhipu g
      else g)"

definition GatewayCacheTTL :: int where "GatewayCacheTTL = 5 * 60 * 10 ^ 9"

definition key_settings :: "(string \<times> gval) list \<Rightarrow> (string \<times> gval) list" where
  "key_settings st = (case map_of st ''llm_api_keys'' of Some (VMap ks) \<Rightarrow> ks | _ \<Rightarrow> [])"

text \<open>The gateway with its keys, and the cache afterwards; \<open>now\<close> is the time of the request.\<close>

definition resolveTenantGateway ::
  "'x agent_system \<Rightarrow> int \<Rightarrow> string \<Rightarrow> 'x host Gateway TenantGatewayCache option \<Rightarrow> 'x host
     \<Rightarrow> ('x host Gateway \<times> (string \<rightharpoonup> string)) option \<times> 'x host Gateway TenantGatewayCache option \<times> 'x host" where
  "resolveTenantGateway S now tid cache h =
     (case cache of
        None \<Rightarrow> (None, None, h)
      | Some ca \<Rightarrow>
          (if \<not> as_db S then (None, Some ca, h)
           else case LLM_Gateway.cache_Get now ca tid of
             (Some v, ca1) \<Rightarrow> (Some v, Some ca1, h)
           | (None, ca1) \<Rightarrow>
               (case on_public (run_stmt (as_env S) (sel_tenant tid)) h of
                  (Inl _, h1) \<Rightarrow> (None, Some ca1, h1)
                | (Inr tn, h1) \<Rightarrow>
                    (let keys = decrypt_keys (as_cipher S) (as_aesKey S) (key_settings (tn_settings tn)) Map.empty in
                     if keys = Map.empty then (None, Some ca1, h1)
                     else let g = gateway_of_keys S keys in (Some (g, keys), Some (LLM_Gateway.cache_Set now GatewayCacheTTL ca1 tid (g, keys)), h1)))))"

section \<open>Tools\<close>

definition schema_entries :: "gval \<Rightarrow> json_object" where
  "schema_entries v = (case v of VMap m \<Rightarrow> Some m | _ \<Rightarrow> None)"

definition mcp_tool :: "MCPSkillWrapper \<Rightarrow> ToolDefinition" where
  "mcp_tool s = \<lparr>td_Name = sw_ID s, td_Description = mt_Description (sw_Tool s), td_InputSchema = schema_entries (mt_InputSchema (sw_Tool s))\<rparr>"

definition server_tools :: "'x agent_system \<Rightarrow> string \<Rightarrow> ToolDefinition list" where
  "server_tools S serverID =
     (case as_mcp S of
        None \<Rightarrow> []
      | Some r \<Rightarrow>
          (case GetAdapterForServer serverID r of
             None \<Rightarrow> []
           | Some a \<Rightarrow> map mcp_tool (adapter_GetAllSkills (as_mcpOrder S serverID) a)))"

definition skill_tool :: "'x agent_system \<Rightarrow> string \<Rightarrow> ToolDefinition" where
  "skill_tool S skillID =
     (case (case as_skills S of None \<Rightarrow> None | Some r \<Rightarrow> orch_Get skillID r) of
        None \<Rightarrow> \<lparr>td_Name = skillID, td_Description = skillID @ '': '' @ skillID, td_InputSchema = Some [(''type'', VStr ''object'')]\<rparr>
      | Some s \<Rightarrow> \<lparr>td_Name = skillID, td_Description = GetName s @ '': '' @ GetDescription s, td_InputSchema = Some [(''type'', VStr ''object'')]\<rparr>)"

definition buildExtraTools :: "'x agent_system \<Rightarrow> string list \<Rightarrow> string list \<Rightarrow> ToolDefinition list" where
  "buildExtraTools S mcpServerIDs allowedSkills = concat (map (server_tools S) mcpServerIDs) @ map (skill_tool S) allowedSkills"

section \<open>Search in the knowledge\<close>

text \<open>The content of the sources of one workspace, or the error of its query.\<close>

definition ws_content :: "RAGQueryResult \<Rightarrow> string" where
  "ws_content r = concat (map (\<lambda>s. so_Content s @ [newline] @ ''---'' @ [newline]) (rr_Sources r))"

fun query_workspaces ::
  "search_env \<Rightarrow> 'w knowledge_base \<Rightarrow> tenant_ctx \<Rightarrow> string \<Rightarrow> string \<Rightarrow> int \<Rightarrow> string list \<Rightarrow> 'w \<Rightarrow> (error + string) list go \<times> 'w" where
  "query_workspaces se kb ctx tid question topK [] w = (Ret [], w)"
| "query_workspaces se kb ctx tid question topK (ws # wss) w =
     (case Query se kb ctx 0 \<lparr>rq_Question = question, rq_Workspace = ws, rq_TenantID = tid, rq_Mode = ''vector'', rq_TopK = topK\<rparr> w of
        (Ret (Ret res), w1) \<Rightarrow>
          bind_w (query_workspaces se kb ctx tid question topK wss w1) (\<lambda>rest w2.
            (Ret ((case res of Inl e \<Rightarrow> Inl e | Inr r \<Rightarrow> Inr (ws_content r)) # rest), w2))
      | (Ret (Panic m), w1) \<Rightarrow> (Panic (''panic in a goroutine ends the process: '' @ m), w1)
      | (Ret Deadlock, w1) \<Rightarrow> (Deadlock, w1)
      | (Panic m, w1) \<Rightarrow> (Panic (''panic in a goroutine ends the process: '' @ m), w1)
      | (Deadlock, w1) \<Rightarrow> (Deadlock, w1))"

text \<open>The first error is kept and its place left out; a later one adds its empty content.\<close>

fun combine_results :: "(error + string) list \<Rightarrow> string \<Rightarrow> error option \<Rightarrow> string \<times> error option" where
  "combine_results [] combined firstErr = (combined, firstErr)"
| "combine_results (r # rs) combined firstErr =
     (case r of
        Inl e \<Rightarrow> (if firstErr = None then combine_results rs combined (Some e) else combine_results rs combined firstErr)
      | Inr content \<Rightarrow> combine_results rs (combined @ content) firstErr)"

definition rag_search_fn :: "search_env \<Rightarrow> 'w knowledge_base \<Rightarrow> tenant_ctx \<Rightarrow> string \<Rightarrow> 'w rag_search" where
  "rag_search_fn se kb ctx tid w workspaces question topK =
     (case query_workspaces se kb ctx tid question topK workspaces w of
        (Ret rs, w1) \<Rightarrow>
          (case combine_results rs '''' None of
             (combined, Some e) \<Rightarrow> (w1, Ret (if combined = '''' then ('''', Some e) else (combined, None)))
           | (combined, None) \<Rightarrow> (w1, Ret (combined, None)))
      | (Panic m, w1) \<Rightarrow> (w1, Panic m)
      | (Deadlock, w1) \<Rightarrow> (w1, Deadlock))"

section \<open>Execution\<close>

record ExecuteAgentRequest =
  xr_Query :: string
  xr_ConversationID :: string
  xr_Options :: "(string \<times> gval) list option"

text \<open>Options of the request are JSON numbers; a conversion to a duration truncates, the product wraps around.\<close>

definition request_options :: "ExecuteAgentRequest \<Rightarrow> 'w ExecutionOption list" where
  "request_options q =
     (case xr_Options q of
        None \<Rightarrow> []
      | Some os \<Rightarrow>
          (case map_of os ''maxSteps'' of Some (VFloat m) \<Rightarrow> [WithMaxSteps (trunc m)] | _ \<Rightarrow> []) @
          (case map_of os ''timeout'' of Some (VFloat t) \<Rightarrow> [WithTimeout (wrap64 (trunc t * 10 ^ 9))] | _ \<Rightarrow> []))"

definition gateway_options :: "('x host Gateway \<times> (string \<rightharpoonup> string)) option \<Rightarrow> 'x host ExecutionOption list" where
  "gateway_options gw = (case gw of None \<Rightarrow> [] | Some (_, keys) \<Rightarrow> if keys = Map.empty then [] else [WithLLMAPIKeys (Some keys)])"

definition conversation_options :: "ExecuteAgentRequest \<Rightarrow> 'w ExecutionOption list" where
  "conversation_options q =
     (if xr_ConversationID q \<noteq> '''' then [WithConversationID (xr_ConversationID q), WithHistoryWindow 20] else [])"

text \<open>\<open>ctx\<close> is what the context of the execution says of the tenant.\<close>

definition rag_options :: "'x agent_system \<Rightarrow> tenant_ctx \<Rightarrow> string \<Rightarrow> FullConfig \<Rightarrow> 'x host ExecutionOption list" where
  "rag_options S ctx tid cfg =
     (case as_rag S of
        None \<Rightarrow> []
      | Some (se, kb) \<Rightarrow> if slice (fc_KnowledgeWorkspaceIDs cfg) = [] then [] else [WithRAGSearchFn (Some (rag_search_fn se kb ctx tid))])"

definition execution_options ::
  "'x agent_system \<Rightarrow> tenant_ctx \<Rightarrow> string \<Rightarrow> string \<Rightarrow> FullConfig \<Rightarrow> ExecuteAgentRequest \<Rightarrow> ('x host Gateway \<times> (string \<rightharpoonup> string)) option \<Rightarrow> 'x host ExecutionOption list" where
  "execution_options S ctx tid userID cfg q gw =
     [WithMaxSteps (ac_MaxIterations cfg)] @ request_options q @ gateway_options gw @ [WithTenantID tid] @ conversation_options q @
     [WithUserID userID, WithExtraTools (buildExtraTools S (slice (fc_MCPServerIDs cfg)) (slice (fc_AllowedSkills cfg)))] @ rag_options S ctx tid cfg"

definition tenant_adapter :: "'x agent_system \<Rightarrow> 'x host Gateway \<Rightarrow> 'x host Adapter" where
  "tenant_adapter S g =
     Route (LLMAdapter_Route (as_marshal S) (as_unmarshal S) (\<lambda>w req. snd (Complete g w req)) (\<lambda>cb w req. snd (CompleteStream g cb w req))) (as_skillAdapter S)"

text \<open>The agent as the registry makes it, with the gateway of the tenant and the chat store.\<close>

definition equipped :: "'x agent_system \<Rightarrow> FullConfig \<Rightarrow> ('x host Gateway \<times> (string \<rightharpoonup> string)) option \<Rightarrow> 'x host BaseAgent" where
  "equipped S cfg gw =
     (let a = NewBaseAgent (AgentConfig.truncate cfg);
          a1 = (case as_capGW S of None \<Rightarrow> a | Some r \<Rightarrow> SetCapGateway (Some r) a);
          a2 = (case gw of None \<Rightarrow> a1 | Some (g, _) \<Rightarrow> SetCapGateway (Some (tenant_adapter S g)) a1)
      in if as_chat S then SetChatStore (Some (chat_store S)) a2 else a2)"

definition previewMaxChars :: nat where "previewMaxChars = 50"

definition execution_record :: "string \<Rightarrow> string \<Rightarrow> FullConfig \<Rightarrow> string \<Rightarrow> int \<Rightarrow> AgentResult \<Rightarrow> error option \<Rightarrow> ExecutionRecord" where
  "execution_record i userID cfg query ms r err =
     \<lparr>ex_ID = '''', ex_AgentID = i, ex_AgentName = fc_Name cfg, ex_UserID = userID,
      ex_Status = (if err = None then ''success'' else ''error''), ex_InputPreview = truncate_runes query previewMaxChars,
      ex_OutputPreview = (if err = None then truncate_runes (ar_Output r) previewMaxChars else ''''),
      ex_ErrorMessage = (case err of None \<Rightarrow> '''' | Some e \<Rightarrow> error_text e), ex_TotalTokens = (if err = None then ar_TokensUsed r else 0),
      ex_DurationMs = ms, ex_CreatedAt = 0\<rparr>"

definition record_execution :: "'x agent_system \<Rightarrow> req_ctx \<Rightarrow> ExecutionRecord \<Rightarrow> 'x host \<Rightarrow> 'x host" where
  "record_execution S c r h =
     (if as_execs S then snd (on_tables (Insert (as_env S) (WithTenant None (FromContext (rc_tenant c))) r) h) else h)"

definition thought_json :: "Thought \<Rightarrow> gval" where
  "thought_json t = VMap [(''Step'', VInt (int (th_Step t))), (''Observation'', VStr (th_Observation t)), (''Thought'', VStr (th_Thought t))]"

definition call_json :: "AgentToolCall \<Rightarrow> gval" where
  "call_json tc = VMap [(''ToolName'', VStr (at_ToolName tc)), (''Input'', case at_Input tc of None \<Rightarrow> VNil | Some m \<Rightarrow> VMap m),
     (''Output'', VNil), (''Error'', VNil), (''Duration'', VInt 0)]"

text \<open>A slice that is nil when nothing was appended.\<close>

definition appended_json :: "('a \<Rightarrow> gval) \<Rightarrow> 'a list \<Rightarrow> gval" where
  "appended_json f xs = (if xs = [] then VNil else VList (map f xs))"

definition execution_reply :: "'x agent_system \<Rightarrow> string \<Rightarrow> string \<Rightarrow> string \<Rightarrow> AgentResult \<Rightarrow> error option \<Rightarrow> reply" where
  "execution_reply S dur i query r err =
     (200, VMap (case err of
        Some e \<Rightarrow>
          [(''agentId'', VStr i), (''input'', VStr query), (''output'', VStr ''''), (''steps'', VInt 0), (''tokensUsed'', VInt 0), (''duration'', VStr ''0s''),
           (''thoughts'', VNil), (''toolCalls'', VNil), (''metadata'', VNil)] @ (if error_text e = '''' then [] else [(''error'', VStr (error_text e))])
      | None \<Rightarrow>
          [(''agentId'', VStr i), (''input'', VStr query), (''output'', VStr (ar_Output r)), (''steps'', VInt (ar_Steps r)), (''tokensUsed'', VInt (ar_TokensUsed r)),
           (''duration'', VStr dur), (''thoughts'', appended_json thought_json (ar_Thoughts r)), (''toolCalls'', appended_json call_json (ar_ToolCalls r)),
           (''metadata'', VMap [(''thoughtsJSON'', VStr (as_json S (appended_json thought_json (ar_Thoughts r)))),
                               (''toolCallsJSON'', VStr (as_json S (appended_json call_json (ar_ToolCalls r))))])]))"

text \<open>
  What the clock says of a request: now, the duration in milliseconds, and the texts of the time and of
  the duration of the execution.
\<close>

record readings =
  rd_now :: int
  rd_ms :: int
  rd_duration :: string

type_synonym 'x handled = "reply go \<times> 'x host Gateway TenantGatewayCache option \<times> 'x host"

text \<open>The execution with its record: the result and error of the agent. Its body is the rest of the handler.\<close>

definition run_recorded ::
  "'x agent_system \<Rightarrow> readings \<Rightarrow> req_ctx \<Rightarrow> string \<Rightarrow> string \<Rightarrow> FullConfig \<Rightarrow> string \<Rightarrow> 'x host BaseAgent \<Rightarrow> 'x host ExecutionOption list \<Rightarrow> 'x host
     \<Rightarrow> (AgentResult \<times> error option) go \<times> 'x host" where
  "run_recorded S rd c i userID cfg query a opts h =
     (case Execute_agent (as_agent S) a query opts h of
        (h1, Ret (_, r, err)) \<Rightarrow> (Ret (r, err), record_execution S c (execution_record i userID cfg query (rd_ms rd) r err) h1)
      | (h1, Panic m) \<Rightarrow> (Panic m, h1)
      | (h1, Deadlock) \<Rightarrow> (Deadlock, h1))"

text \<open>
  The beginning of both handlers: the tenant, the agent, the body and the gateway; \<open>run\<close> gets the
  tenant, the user, the configuration, the request and the gateway. An absent user is the empty one.
\<close>

definition with_agent ::
  "'x agent_system \<Rightarrow> readings \<Rightarrow> req_ctx \<Rightarrow> string \<Rightarrow> error + ExecuteAgentRequest
     \<Rightarrow> (string \<Rightarrow> string \<Rightarrow> FullConfig \<Rightarrow> ExecuteAgentRequest \<Rightarrow> ('x host Gateway \<times> (string \<rightharpoonup> string)) option \<Rightarrow> 'x host \<Rightarrow> reply go \<times> 'x host)
     \<Rightarrow> 'x host Gateway TenantGatewayCache option \<Rightarrow> 'x host \<Rightarrow> 'x handled" where
  "with_agent S rd c i body run cache h =
     (case tenantIDFromCtx c of
        None \<Rightarrow> (Ret respondMissingTenant, cache, h)
      | Some tid \<Rightarrow>
          (case on_tables (Get (as_env S) (rc_tenant c) i) h of
             (None, h1) \<Rightarrow> (Ret agent_not_found, cache, h1)
           | (Some cfg, h1) \<Rightarrow>
               (case body of
                  Inl e \<Rightarrow> (Ret (error_reply 400 (error_text e)), cache, h1)
                | Inr q \<Rightarrow>
                    (case resolveTenantGateway S (rd_now rd) tid cache h1 of
                       (gw, cache1, h2) \<Rightarrow>
                         (case run tid (case userIDFromCtx c of None \<Rightarrow> '''' | Some u \<Rightarrow> u) cfg q gw h2 of (rep, h3) \<Rightarrow> (rep, cache1, h3))))))"

text \<open>The context of a whole execution is a new one, without a tenant.\<close>

definition ExecuteAgent ::
  "'x agent_system \<Rightarrow> readings \<Rightarrow> req_ctx \<Rightarrow> string \<Rightarrow> error + ExecuteAgentRequest \<Rightarrow> 'x host Gateway TenantGatewayCache option \<Rightarrow> 'x host \<Rightarrow> 'x handled" where
  "ExecuteAgent S rd c i body =
     with_agent S rd c i body (\<lambda>tid userID cfg q gw h.
       bind_w (run_recorded S rd c i userID cfg (xr_Query q) (equipped S cfg gw) (execution_options S None tid userID cfg q gw) h)
         (\<lambda>(r, err) h1. (Ret (execution_reply S (rd_duration rd) i (xr_Query q) r err), h1)))"

text \<open>Events: each is written as a line of its own.\<close>

definition write_event :: "string \<Rightarrow> 'x host \<Rightarrow> 'x host" where
  "write_event dat h = h\<lparr>ho_events := ho_events h @ [''data: '' @ dat @ [newline, newline]]\<rparr>"

definition on_token :: "'x agent_system \<Rightarrow> 'x host token_callback" where
  "on_token S h tok = (if ae_ctxErr (as_agent S) h \<noteq> None then h else write_event (as_json S (VMap [(''token'', VStr tok)])) h)"

definition final_event :: "string \<Rightarrow> AgentResult \<Rightarrow> error option \<Rightarrow> gval" where
  "final_event dur r err =
     VMap (case err of
       Some e \<Rightarrow> [(''error'', VStr (error_text e))]
     | None \<Rightarrow> [(''done'', VBool True), (''output'', VStr (ar_Output r)), (''steps'', VInt (ar_Steps r)), (''tokensUsed'', VInt (ar_TokensUsed r)),
                (''duration'', VStr dur)])"

text \<open>The status line of the stream has been sent with the first event; the body are the events.\<close>

definition stream_reply :: reply where "stream_reply = (200, VNil)"

definition ExecuteAgentStream ::
  "'x agent_system \<Rightarrow> readings \<Rightarrow> req_ctx \<Rightarrow> string \<Rightarrow> error + ExecuteAgentRequest \<Rightarrow> 'x host Gateway TenantGatewayCache option \<Rightarrow> 'x host \<Rightarrow> 'x handled" where
  "ExecuteAgentStream S rd c i body =
     with_agent S rd c i body (\<lambda>tid userID cfg q gw h.
       bind_w (run_recorded S rd c i userID cfg (xr_Query q) (equipped S cfg gw)
                (execution_options S (rc_tenant c) tid userID cfg q gw @ [WithTokenCallback (Some (on_token S))]) h)
         (\<lambda>(r, err) h1. (Ret stream_reply, write_event (as_json S (final_event (rd_duration rd) r err)) h1)))"

section \<open>The gateway of the tenant's keys\<close>

text \<open>The plain key of a provider in the settings.\<close>

definition plain_key :: "aead \<Rightarrow> string \<Rightarrow> (string \<times> gval) list \<Rightarrow> string \<Rightarrow> string option" where
  "plain_key ci key ks p =
     (case map_of ks p of
        Some (VStr s) \<Rightarrow> (if s = '''' then None else case Decrypt ci key s of Inl _ \<Rightarrow> None | Inr plain \<Rightarrow> Some plain)
      | _ \<Rightarrow> None)"

lemma decrypt_keys_apply:
  "distinct (map fst ks) \<Longrightarrow> decrypt_keys ci key ks m p = (case plain_key ci key ks p of None \<Rightarrow> m p | Some k \<Rightarrow> Some k)"
proof (induction ks arbitrary: m)
  case (Cons e ks)
  obtain q v where e: "e = (q, v)" by (cases e)
  with Cons.prems have d: "distinct (map fst ks)" and n: "q \<notin> fst ` set ks" by auto
  from n have none: "plain_key ci key ks q = None" by (simp add: plain_key_def map_of_eq_None_iff[THEN iffD2])
  show ?case
    using Cons.IH[OF d] none by (cases v; cases "p = q") (auto simp: e plain_key_def split: sum.split option.split gval.split)
qed (simp add: plain_key_def)

lemma gateway_of_keys_simps:
  "gw_clients (gateway_of_keys S keys) p =
     (if p = ProviderQwen then map_option (\<lambda>k. fst (as_newQwen S k)) (keys p)
      else if p = ProviderZhipu then map_option (\<lambda>k. fst (as_newZhipu S k)) (keys p) else None)"
  "gw_defaultProvider (gateway_of_keys S keys) =
     (if keys ProviderQwen \<noteq> None then ProviderQwen else if keys ProviderZhipu \<noteq> None then ProviderZhipu else '''')"
  by (auto simp: gateway_of_keys_def add_client_def RegisterClient_def RegisterEmbeddingClient_def SetDefault_def NewGateway_def Let_def
      ProviderQwen_def ProviderZhipu_def split: option.split)

text \<open>C34: A tenant's gateway that is made from its settings has a client for Qwen exactly when its Qwen key
  decrypts, likewise for Zhipu, each made with that key, and no other client; the default provider is
  Qwen, or Zhipu without a Qwen key, or none at all, and then every completion fails although the
  tenant has a gateway.
\<close>

theorem tenant_gateway_has_its_keys:
  assumes "resolveTenantGateway S now tid (Some cache) h = (Some (g, keys), cache', h')" "fst (LLM_Gateway.cache_Get now cache tid) = None"
  shows "\<exists>tn\<in>set (t_tenants (w_db (ho_public h))). tn_id tn = tid \<and> tn_deleted tn = None \<and>
      (distinct (map fst (key_settings (tn_settings tn))) \<longrightarrow> keys = plain_key (as_cipher S) (as_aesKey S) (key_settings (tn_settings tn))) \<and>
      gw_clients g ProviderQwen = map_option (\<lambda>k. fst (as_newQwen S k)) (keys ProviderQwen) \<and>
      gw_clients g ProviderZhipu = map_option (\<lambda>k. fst (as_newZhipu S k)) (keys ProviderZhipu) \<and>
      (\<forall>p. p \<noteq> ProviderQwen \<and> p \<noteq> ProviderZhipu \<longrightarrow> gw_clients g p = None) \<and>
      gw_defaultProvider g = (if keys ProviderQwen \<noteq> None then ProviderQwen else if keys ProviderZhipu \<noteq> None then ProviderZhipu else '''') \<and>
      (keys ProviderQwen = None \<and> keys ProviderZhipu = None \<longrightarrow>
         (\<forall>w req. snd (snd (Complete g w req)) = Ret (None, Some (ErrorString (''provider not found: '' @ complete_provider g req)))))"
proof -
  obtain ca1 where miss: "LLM_Gateway.cache_Get now cache tid = (None, ca1)" using assms(2) by (cases "LLM_Gateway.cache_Get now cache tid") simp
  from assms(1) miss obtain tn h1 where q: "on_public (run_stmt (as_env S) (sel_tenant tid)) h = (Inr tn, h1)"
    and keys: "keys = decrypt_keys (as_cipher S) (as_aesKey S) (key_settings (tn_settings tn)) Map.empty" and g: "g = gateway_of_keys S keys"
    by (auto simp: resolveTenantGateway_def Let_def split: if_splits sum.splits prod.splits)
  from q obtain w1 where "run_stmt (as_env S) (sel_tenant tid) (ho_public h) = (Inr tn, w1)" by (auto simp: on_public_def split: prod.splits)
  from run_stmt_Inr[OF this] have "tn \<in> set (filter (live_tenant tid) (t_tenants (w_db (ho_public h))))"
    by (cases "filter (live_tenant tid) (t_tenants (w_db (ho_public h)))") (auto simp: sel_tenant_def query_row_def)
  then have tn: "tn \<in> set (t_tenants (w_db (ho_public h)))" "tn_id tn = tid" "tn_deleted tn = None" by (auto simp: live_tenant_def)
  have plain: "keys = plain_key (as_cipher S) (as_aesKey S) (key_settings (tn_settings tn))" if "distinct (map fst (key_settings (tn_settings tn)))"
    unfolding keys by (rule ext) (simp add: decrypt_keys_apply[OF that] split: option.split)
  have diff: "ProviderQwen \<noteq> ProviderZhipu" by (simp add: ProviderQwen_def ProviderZhipu_def)
  have fails: "snd (snd (Complete g w req)) = Ret (None, Some (ErrorString (''provider not found: '' @ complete_provider g req)))"
    if "keys ProviderQwen = None" "keys ProviderZhipu = None" for w req
  proof -
    have "gw_clients g p = None" for p using that by (simp add: g gateway_of_keys_simps)
    then show ?thesis by (simp add: Complete_def Let_def)
  qed
  show ?thesis using tn plain fails diff by (intro bexI[of _ tn]) (auto simp: g gateway_of_keys_simps)
qed

section \<open>The type of an updated agent\<close>

definition types_kept :: "ten_db \<Rightarrow> ten_db \<Rightarrow> bool" where
  "types_kept d d' \<longleftrightarrow> map (\<lambda>r. (ag_ID r, ag_Type r)) (d_agents d') = map (\<lambda>r. (ag_ID r, ag_Type r)) (d_agents d)"

interpretation types: table_frame types_kept
  by unfold_locales (simp_all add: types_kept_def)

lemma link_result_types: "d_agents d' = d_agents d \<Longrightarrow> types_kept d (snd (link_result a x ls ex d d'))"
  by (simp add: link_result_def types_kept_def)

lemma statements_types:
  "types_kept d (snd (del_skill_links a t i d))" "types_kept d (snd (del_mcp_links a t i d))" "types_kept d (snd (del_ws_links a t i d))"
  "types_kept d (snd (ins_skill_link a x t i d))" "types_kept d (snd (ins_mcp_link a x t i d))" "types_kept d (snd (ins_ws_link pg a x t i d))"
  "types_kept d (snd (upd_agent cfg t i d))" "types_kept d (snd (sel_agent a t i d))" "types_kept d (snd (sel_skill_ids a t i d))"
  "types_kept d (snd (sel_mcp_ids a t i d))" "types_kept d (snd (Agent_Registry.sel_workspaces a t i d))"
proof -
  show "types_kept d (snd (ins_ws_link pg a x t i d))"
    by (cases "pg_uuid pg x") (simp_all add: ins_ws_link_def with_uuid_def link_result_types, simp add: types_kept_def)
qed (simp_all add: ins_skill_link_def ins_mcp_link_def link_result_types,
     simp_all add: types_kept_def del_skill_links_def del_mcp_links_def del_ws_links_def upd_agent_def map_where_def
       sel_agent_def sel_skill_ids_def sel_mcp_ids_def Agent_Registry.sel_workspaces_def)

lemma replace_all_types: "framed types_kept s w (snd (replace_all ev pg s t0 cfg w))"
proof -
  note links = types.replace_links_framed[OF statements_types(1,4)] types.replace_links_framed[OF statements_types(2,5)]
    types.replace_links_framed[OF statements_types(3,6)]
  obtain e1 w1 where 1: "replaceSkills ev s t0 (ac_ID cfg) (slice (fc_AllowedSkills cfg)) w = (e1, w1)" by fastforce
  obtain e2 w2 where 2: "replaceMCPServers ev s t0 (ac_ID cfg) (slice (fc_MCPServerIDs cfg)) w1 = (e2, w2)" by fastforce
  have "framed types_kept s w (snd (replaceSkills ev s t0 (ac_ID cfg) (slice (fc_AllowedSkills cfg)) w))"
    unfolding replaceSkills_def by (rule links(1))
  with 1 have f1: "framed types_kept s w w1" by simp
  have "framed types_kept s w1 (snd (replaceMCPServers ev s t0 (ac_ID cfg) (slice (fc_MCPServerIDs cfg)) w1))"
    unfolding replaceMCPServers_def by (rule links(2))
  with 2 have f2: "framed types_kept s w1 w2" by simp
  have f3: "framed types_kept s w2 (snd (replaceKnowledgeWorkspaces ev pg s t0 (ac_ID cfg) (slice (fc_KnowledgeWorkspaceIDs cfg)) w2))"
    unfolding replaceKnowledgeWorkspaces_def by (rule links(3))
  show ?thesis using f1 types.framed_trans[OF f1 f2] types.framed_trans[OF types.framed_trans[OF f1 f2] f3]
    by (simp add: replace_all_def 1 2 split: option.split)
qed

lemma update_body_types: "framed types_kept s w (snd (snd (update_body ev pg cfg s t0 w)))"
proof -
  obtain r w1 where st: "t_stmt ev t0 s (upd_agent cfg) w = (r, w1)" by fastforce
  note step = types.t_stmt_then[of "upd_agent cfg", OF statements_types(7) st]
  show ?thesis using step[OF replace_all_types] step[OF types.framed_refl]
    by (cases r) (simp_all add: update_body_def st split_beta)
qed

lemma get_body_types: "framed types_kept s w (snd (snd (get_body ev a s t0 w)))"
proof -
  obtain r1 w1 where 1: "t_stmt ev t0 s (sel_agent a) w = (r1, w1)" by fastforce
  obtain r2 w2 where 2: "t_stmt ev t0 s (sel_skill_ids a) w1 = (r2, w2)" by fastforce
  obtain r3 w3 where 3: "t_stmt ev t0 s (sel_mcp_ids a) w2 = (r3, w3)" by fastforce
  obtain r4 w4 where 4: "t_stmt ev t0 s (Agent_Registry.sel_workspaces a) w3 = (r4, w4)" by fastforce
  note s1 = types.t_stmt_then[of "sel_agent a", OF statements_types(8) 1]
  note s2 = types.t_stmt_then[of "sel_skill_ids a", OF statements_types(9) 2]
  note s3 = types.t_stmt_then[of "sel_mcp_ids a", OF statements_types(10) 3]
  note s4 = types.t_stmt_then[of "Agent_Registry.sel_workspaces a", OF statements_types(11) 4]
  show ?thesis using s1[OF types.framed_refl] s1[OF s2[OF types.framed_refl]] s1[OF s2[OF s3[OF types.framed_refl]]] s1[OF s2[OF s3[OF s4[OF types.framed_refl]]]]
    by (simp add: get_body_def 1 2 3 4 split: sum.split)
qed

lemma bind_agent_same: "bind_agent verr (Inr q) = Inr q' \<Longrightarrow> q' = q"
  by (simp add: bind_agent_def split: if_splits)

lemma UpdateAgent_types:
  assumes "tenantIDFromCtx c = Some tid"
  shows "framed types_kept (chat_schema tid) w (snd (UpdateAgent ev pg verr now c i body w))"
proof -
  have t: "tenant_of (rc_tenant c) tid" and s: "\<And>t. tenant_of (rc_tenant c) t \<Longrightarrow> chat_schema tid = chat_schema t"
    using assms by (auto simp: tenantIDFromCtx_def tenant_of_def split: option.splits if_splits)
  have x: "framed types_kept (chat_schema tid) w (snd (snd (registry_exec ev (rc_tenant c) (get_body ev i) w)))" for w
    by (rule types.registry_exec_framed[OF s]) (assumption, rule get_body_types)
  have g: "framed types_kept (chat_schema tid) w (snd (Get ev (rc_tenant c) i w))" for w
    using x[of w] by (simp add: Get_def split_beta split: option.split)
  have u: "framed types_kept (chat_schema tid) w (snd (Update ev pg (rc_tenant c) cfg w))" for cfg w
    unfolding Update_def split_beta snd_conv by (rule types.registry_exec_framed[OF s]) (assumption, rule update_body_types)
  obtain r w1 where get: "Get ev (rc_tenant c) i w = (r, w1)" by fastforce
  with g[of w] have g1: "framed types_kept (chat_schema tid) w w1" by simp
  show ?thesis using assms types.framed_trans[OF g1 u]
    by (auto simp: UpdateAgent_def get g1 types.framed_refl split_beta Let_def split: sum.split option.split)
qed

text \<open>An update answers with the type of the request, but no update changes the type of any agent, nor
  which agents there are.
\<close>

theorem update_answers_with_unstored_type:
  assumes "tenantIDFromCtx c = Some tid" "tw_schemas w (chat_schema tid) = Some d" "UpdateAgent ev pg verr now c i (Inr q) w = ((200, VMap rep), w')"
  shows "map_of rep ''type'' = Some (VStr (agent_type_of (caq_Type q))) \<and>
    (\<exists>d'. tw_schemas w' (chat_schema tid) = Some d' \<and>
       map (\<lambda>r. (ag_ID r, ag_Type r)) (d_agents d') = map (\<lambda>r. (ag_ID r, ag_Type r)) (d_agents d))"
proof
  show "map_of rep ''type'' = Some (VStr (agent_type_of (caq_Type q)))"
    using assms(1,3) by (auto dest!: bind_agent_same simp: UpdateAgent_def error_reply_def agent_not_found_def update_failed_def agent_response_def requested_config_def Let_def
        split: sum.splits option.splits prod.splits if_splits)
  from framed_Some[OF UpdateAgent_types[OF assms(1)] assms(2)] assms(3)
  show "\<exists>d'. tw_schemas w' (chat_schema tid) = Some d' \<and> map (\<lambda>r. (ag_ID r, ag_Type r)) (d_agents d') = map (\<lambda>r. (ag_ID r, ag_Type r)) (d_agents d)"
    unfolding types_kept_def by (metis snd_conv)
qed

section \<open>The search of an execution\<close>

lemma vector_query_cong:
  assumes "query_collection c1 q1 = query_collection c2 q2" "rq_Mode q1 = ''vector''" "rq_Mode q2 = ''vector''" "rq_Question q1 = rq_Question q2" "rq_TopK q1 = rq_TopK q2"
  shows "Query se kb c1 lat q1 w = Query se kb c2 lat q2 w"
proof -
  have "query_collection c (q\<lparr>rq_TopK := n\<rparr>) = query_collection c q" for c q n by (simp add: query_collection_def)
  with assms show ?thesis by (simp add: Query_def Let_def)
qed



section \<open>Examples\<close>

definition demo_update :: CreateAgentRequest where
  "demo_update = \<lparr>caq_Name = ''helper'', caq_Type = ''cot'', caq_Description = '''', caq_Persona = '''', caq_SystemPrompt = '''', caq_LLMModel = ''qwen-max'',
     caq_MaxIterations = 5, caq_AllowedSkills = None, caq_MCPServerIDs = None, caq_KnowledgeWorkspaceIDs = None\<rparr>"

lemma demo_request_ctx: "rc_tenant (request_of ''t1'' u) = Some (Some \<lparr>tc_TenantID = ''t1'', tc_UserID = u, tc_Role = ''member''\<rparr>)"
  by (simp add: request_of_def)

lemma demo_updated:
  "\<exists>rep w'. UpdateAgent Public_DB.demo_env demo_pg (\<lambda>_. ErrorString '''') ''now'' (request_of ''t1'' ''u1'') ''a1'' (Inr demo_update) Chat.demo_tworld = ((200, VMap rep), w')"
proof -
  have t: "tenant_of (rc_tenant (request_of ''t1'' ''u1'')) ''t1''" by (simp add: tenant_of_def demo_request_ctx FromContext_def)
  show ?thesis
    by (simp add: UpdateAgent_def demo_request bind_agent_def demo_update_def valid_agent_request_def Get_def Update_def registry_exec_tenant[OF t]
      t_exec_works[OF demo_works] get_body_def update_body_def t_stmt_def demo_works Chat.demo_tworld_def chat_schema_def demo_tables_def Tenant_Tables.empty_tenant_def
      Chat.demo_agent_def sel_agent_def query_row_def sel_skill_ids_def sel_mcp_ids_def Agent_Registry.sel_workspaces_def upd_agent_def int4_def agent_exists_def
      replace_all_def replaceSkills_def replaceMCPServers_def replaceKnowledgeWorkspaces_def replace_links_def del_skill_links_def del_mcp_links_def del_ws_links_def
      requested_config_def agent_response_def Let_def)
qed


theorem update_answers_with_unstored_type_witness:
  "\<exists>rep w' d'. UpdateAgent Public_DB.demo_env demo_pg (\<lambda>_. ErrorString '''') ''now'' (request_of ''t1'' ''u1'') ''a1'' (Inr demo_update) Chat.demo_tworld =
      ((200, VMap rep), w') \<and>
    map_of rep ''type'' = Some (VStr ''cot'') \<and> tw_schemas w' (chat_schema ''t1'') = Some d' \<and> map (\<lambda>r. (ag_ID r, ag_Type r)) (d_agents d') = [(''a1'', ''react'')]"
proof -
  obtain rep w' where u: "UpdateAgent Public_DB.demo_env demo_pg (\<lambda>_. ErrorString '''') ''now'' (request_of ''t1'' ''u1'') ''a1'' (Inr demo_update) Chat.demo_tworld =
      ((200, VMap rep), w')" using demo_updated by blast
  have "agent_type_of (caq_Type demo_update) = ''cot''" by (simp add: demo_update_def agent_type_of_def agent_types)
  with update_answers_with_unstored_type[OF demo_request(1) demo_tables_at u] u show ?thesis
    by (auto simp: demo_tables_def Tenant_Tables.empty_tenant_def Chat.demo_agent_def)
qed

definition silent_client :: "'w LLMClient" where
  "silent_client = \<lparr>cl_Complete = (\<lambda>w req. (w, Ret (None, None))), cl_CompleteStream = None, cl_Health = (\<lambda>w. (w, None)), cl_Models = []\<rparr>"

definition demo_agent_system :: "nat agent_system" where
  "demo_agent_system = \<lparr>as_env = Public_DB.demo_env, as_pg = demo_pg, as_uni = (\<lambda>_. False), as_busy = None, as_db = True, as_cipher = demo_aead, as_aesKey = ''key'',
     as_newQwen = (\<lambda>k. (silent_client, \<lambda>w r. (w, Ret (None, None)))), as_newZhipu = (\<lambda>k. (silent_client, \<lambda>w r. (w, Ret (None, None)))),
     as_marshal = (\<lambda>_. ''{}''), as_unmarshal = (\<lambda>_. None), as_skillAdapter = (\<lambda>w r. (w, Ret (zero_response, None))), as_capGW = None, as_mcp = None,
     as_mcpOrder = (\<lambda>_. []), as_skills = None, as_rag = None, as_chat = True, as_execs = True,
     as_agent = \<lparr>ae_fmtv = (\<lambda>v. []), ae_wait = (\<lambda>w d. (w, None)), ae_ctxErr = (\<lambda>w. None), ae_stack = []\<rparr>, as_json = (\<lambda>_. ''{}'')\<rparr>"

definition demo_stored_key :: string where
  "demo_stored_key = base64_encode std_alphabet (''nonce-nonce-'' @ ''ksk-1'')"

text \<open>A tenant with the key of another provider only.\<close>

definition demo_host :: "nat host" where
  "demo_host = \<lparr>ho_tables = Chat.demo_tworld,
     ho_public = \<lparr>w_db = empty_db\<lparr>t_tenants := [\<lparr>tn_id = ''t1'', tn_name = ''Acme'', tn_slug = ''acme'', tn_org = None, tn_plan = ''free'', tn_status = ''active'',
        tn_settings = [(''llm_api_keys'', VMap [(''openai'', VStr demo_stored_key)])], tn_is_default = False, tn_created = 0, tn_deleted = None\<rparr>]\<rparr>,
       w_redis = Map.empty, w_calls = 0\<rparr>, ho_events = [], ho_rest = 0\<rparr>"

lemma demo_key_decrypts: "Decrypt demo_aead ''key'' demo_stored_key = Inr ''sk-1''" "demo_stored_key \<noteq> ''''"
  by code_simp+

lemma demo_gateway_miss: "fst (LLM_Gateway.cache_Get 0 NewTenantGatewayCache ''t1'') = None"
  by (simp add: cache_defs)

lemma demo_resolved:
  "\<exists>g cache' h'. resolveTenantGateway demo_agent_system 0 ''t1'' (Some NewTenantGatewayCache) demo_host = (Some (g, [''openai'' \<mapsto> ''sk-1'']), cache', h')"
  using demo_key_decrypts
  by (simp add: resolveTenantGateway_def demo_agent_system_def cache_defs on_public_def run_stmt_def Public_DB.demo_env_def demo_host_def sel_tenant_def
      query_row_def live_tenant_def empty_db_def key_settings_def Let_def)

theorem tenant_gateway_has_its_keys_witness:
  "\<exists>g cache' h'. resolveTenantGateway demo_agent_system 0 ''t1'' (Some NewTenantGatewayCache) demo_host = (Some (g, [''openai'' \<mapsto> ''sk-1'']), cache', h') \<and>
    (\<forall>w req. \<exists>e. snd (snd (Complete g w req)) = Ret (None, Some e))"
proof -
  obtain g cache' h' where r: "resolveTenantGateway demo_agent_system 0 ''t1'' (Some NewTenantGatewayCache) demo_host = (Some (g, [''openai'' \<mapsto> ''sk-1'']), cache', h')"
    using demo_resolved by blast
  have n: "[''openai'' \<mapsto> ''sk-1''] ProviderQwen = None" "[''openai'' \<mapsto> ''sk-1''] ProviderZhipu = None"
    by (simp_all add: ProviderQwen_def ProviderZhipu_def)
  from tenant_gateway_has_its_keys[OF r demo_gateway_miss] n have "\<forall>w req. \<exists>e. snd (snd (Complete g w req)) = Ret (None, Some e)" by blast
  with r show ?thesis by blast
qed

end
