(* ===== verification/Memory_Handler.thy ===== *)
theory Memory_Handler
  imports Memory_Manager Chat
begin

text \<open>
  The handlers of agent memories, api/handler/memory_handler.go. The router builds one memory manager
  for all tenants, from the default configuration and without a vector or entity memory
  (api/router.go). A bound body is the decoded request or the error of the decoder, \<open>verr\<close> the error of
  its validation; an absent metadata object or list of tags is the empty one. The clock readings, fresh
  ids, and the text of a time with its parser are arguments. Distances of search results are left out,
  since no short-term memory sets one.

  Proved: every request is answered, with the lock left free and at most a window full of entries, each
  of an authenticated tenant; an added entry is read back by its tenant and by no other, until a window
  full of later entries has replaced it, whatever tenant adds them; a search shows entries of the
  request's tenant only; a session is cleared for all tenants; summaries and entities are never there.
\<close>

section \<open>Replies\<close>

definition entry_json :: "(int \<Rightarrow> string) \<Rightarrow> MemoryEntry \<Rightarrow> gval" where
  "entry_json show_time e =
     VMap [(''id'', VStr (me_ID e)), (''type'', VStr (me_Type e)), (''role'', VStr (me_Role e)), (''content'', VStr (me_Content e)),
           (''timestamp'', VStr (show_time (me_Timestamp e))), (''tenant_id'', VStr (me_TenantID e)), (''user_id'', VStr (me_UserID e)),
           (''session_id'', VStr (me_SessionID e)), (''agent_id'', VStr (me_AgentID e)), (''metadata'', VMap (me_Metadata e)),
           (''tags'', VList (map VStr (me_Tags e))), (''importance'', VFloat (me_Importance e)), (''expires_at'', VStr (show_time (me_ExpiresAt e)))]"

definition search_item_json :: "(int \<Rightarrow> string) \<Rightarrow> MemorySearchResult \<Rightarrow> gval" where
  "search_item_json show_time r = VMap [(''entry'', entry_json show_time (mr_Entry r)), (''score'', VFloat (mr_Score r))]"

definition search_reply :: "(int \<Rightarrow> string) \<Rightarrow> MemorySearchResult list \<Rightarrow> reply" where
  "search_reply show_time results =
     (200, VMap [(''results'', VList (map (search_item_json show_time) results)), (''count'', VInt (int (length results)))])"

text \<open>The counters that no short-term memory sets are zero.\<close>

definition stats_reply :: "(int \<Rightarrow> string) \<Rightarrow> MemoryStats \<Rightarrow> reply" where
  "stats_reply show_time s =
     (200, VMap [(''total_entries'', VInt (int (ms_TotalEntries s))), (''short_term_count'', VInt (int (ms_ShortTermCount s))),
        (''long_term_count'', VInt 0), (''entity_count'', VInt 0), (''sessions_count'', VInt 0), (''active_users'', VInt 0), (''vector_count'', VInt 0),
        (''last_access_time'', VStr (show_time (ms_LastAccessTime s))), (''storage_size_bytes'', VInt 0)])"

definition relation_json :: "(int \<Rightarrow> string) \<Rightarrow> EntityRelation \<Rightarrow> gval" where
  "relation_json show_time r =
     VMap [(''from_entity_id'', VStr (rl_FromEntityID r)), (''to_entity_id'', VStr (rl_ToEntityID r)), (''relation_type'', VStr (rl_RelationType r)),
           (''confidence'', VFloat (rl_Confidence r)), (''last_seen'', VStr (show_time (rl_LastSeen r))), (''metadata'', VMap (rl_Metadata r))]"

definition memory_entity_json :: "(int \<Rightarrow> string) \<Rightarrow> (Entity \<Rightarrow> EntityRelation list) \<Rightarrow> Entity \<Rightarrow> gval" where
  "memory_entity_json show_time relations e =
     VMap [(''id'', VStr (en_ID e)), (''name'', VStr (en_Name e)), (''type'', VStr (en_Type e)), (''confidence'', VFloat (en_Confidence e)),
           (''first_seen'', VStr (show_time (en_FirstSeen e))), (''last_seen'', VStr (show_time (en_LastSeen e))),
           (''attributes'', VMap (en_Attributes e)), (''relations'', VList (map (relation_json show_time) (relations e)))]"

definition entities_reply :: "(int \<Rightarrow> string) \<Rightarrow> (Entity \<Rightarrow> EntityRelation list) \<Rightarrow> string \<Rightarrow> error + Entity list \<Rightarrow> reply" where
  "entities_reply show_time relations failure res =
     (case res of
        Inl _ \<Rightarrow> error_reply 500 failure
      | Inr es \<Rightarrow> (200, VMap [(''entities'', VList (map (memory_entity_json show_time relations) es)), (''count'', VInt (int (length es)))]))"

definition memory_not_found :: reply where
  "memory_not_found = error_reply 404 ''memory entry not found''"

section \<open>Requests\<close>

record CreateSessionRequest =
  cs_TenantID :: string
  cs_UserID :: string
  cs_AgentID :: string

record AddMemoryRequest =
  am_Role :: string
  am_Content :: string
  am_SessionID :: string
  am_TenantID :: string
  am_UserID :: string
  am_AgentID :: string
  am_Metadata :: "(string \<times> gval) list"
  am_Tags :: "string list"
  am_Importance :: rat
  am_ExpiresAt :: string

record SearchMemoryRequest =
  sr_Query :: string
  sr_SessionID :: string
  sr_TenantID :: string
  sr_UserID :: string
  sr_Types :: "string list"
  sr_Limit :: int
  sr_MinScore :: rat

record ExtractRequest =
  xr_Text :: string
  xr_SessionID :: string
  xr_UserID :: string

definition valid_session :: "CreateSessionRequest \<Rightarrow> bool" where
  "valid_session q \<longleftrightarrow> cs_TenantID q \<noteq> '''' \<and> cs_UserID q \<noteq> ''''"

definition valid_memory :: "AddMemoryRequest \<Rightarrow> bool" where
  "valid_memory q \<longleftrightarrow> am_Role q \<in> {''user'', ''assistant'', ''system''} \<and> am_Content q \<noteq> '''' \<and> am_SessionID q \<noteq> '''' \<and>
     am_TenantID q \<noteq> '''' \<and> am_UserID q \<noteq> ''''"

definition valid_extract :: "ExtractRequest \<Rightarrow> bool" where
  "valid_extract q \<longleftrightarrow> xr_Text q \<noteq> '''' \<and> xr_SessionID q \<noteq> '''' \<and> xr_UserID q \<noteq> ''''"

definition session_of :: "string \<Rightarrow> string \<Rightarrow> string \<Rightarrow> SessionContext" where
  "session_of tid user session = \<lparr>sx_TenantID = tid, sx_UserID = user, sx_SessionID = session, sx_AgentID = ''''\<rparr>"

text \<open>What every handler but that of the statistics does first, and the decoding of a body.\<close>

definition for_tenant :: "req_ctx \<Rightarrow> 'w \<Rightarrow> (string \<Rightarrow> 'w MemoryManager \<Rightarrow> ('w, reply) mm_result) \<Rightarrow> 'w MemoryManager \<Rightarrow> ('w, reply) mm_result" where
  "for_tenant c w f m = (case tenantIDFromCtx c of None \<Rightarrow> Ret (m, w, respondMissingTenant) | Some tid \<Rightarrow> f tid m)"

definition with_body ::
  "('q \<Rightarrow> bool) \<Rightarrow> ('q \<Rightarrow> error) \<Rightarrow> error + 'q \<Rightarrow> 'w \<Rightarrow> ('q \<Rightarrow> 'w MemoryManager \<Rightarrow> ('w, reply) mm_result) \<Rightarrow> 'w MemoryManager \<Rightarrow> ('w, reply) mm_result" where
  "with_body valid verr body w f m =
     (case body of
        Inl e \<Rightarrow> Ret (m, w, error_reply 400 (error_text e))
      | Inr q \<Rightarrow> if valid q then f q m else Ret (m, w, error_reply 400 (error_text (verr q))))"

text \<open>The answer of a manager's operation as a reply.\<close>

definition reply_by :: "('r \<Rightarrow> reply) \<Rightarrow> ('w, 'r) mm_result \<Rightarrow> ('w, reply) mm_result" where
  "reply_by f res = go_bind res (\<lambda>(m, w, r). Ret (m, w, f r))"

definition or_error :: "nat \<Rightarrow> string \<Rightarrow> reply \<Rightarrow> error option \<Rightarrow> reply" where
  "or_error code failure ok err = (case err of Some _ \<Rightarrow> error_reply code failure | None \<Rightarrow> ok)"

section \<open>The handlers\<close>

text \<open>\<open>sid\<close> is the fresh id of the session, \<open>now\<close> its start; the manager reads the clock at \<open>now'\<close>.\<close>

definition CreateSession ::
  "(int \<Rightarrow> string) \<Rightarrow> (CreateSessionRequest \<Rightarrow> error) \<Rightarrow> req_ctx \<Rightarrow> string \<Rightarrow> int \<Rightarrow> int \<Rightarrow> error + CreateSessionRequest \<Rightarrow> 'w \<Rightarrow>
     'w MemoryManager \<Rightarrow> ('w, reply) mm_result" where
  "CreateSession show_time verr c sid now now' body w =
     for_tenant c w (\<lambda>tid. with_body valid_session verr body w (\<lambda>q m.
       reply_by (\<lambda>_. (201, VMap [(''session_id'', VStr sid), (''tenant_id'', VStr (cs_TenantID q)), (''user_id'', VStr (cs_UserID q)),
                                 (''agent_id'', VStr (cs_AgentID q)), (''start_time'', VStr (show_time now))]))
         (mm_GetStats now' (Some \<lparr>sx_TenantID = tid, sx_UserID = cs_UserID q, sx_SessionID = sid, sx_AgentID = cs_AgentID q\<rparr>) w m)))"

definition new_memory :: "(string \<Rightarrow> int option) \<Rightarrow> string \<Rightarrow> string \<Rightarrow> int \<Rightarrow> AddMemoryRequest \<Rightarrow> MemoryEntry" where
  "new_memory parse_time tid i now q =
     \<lparr>me_ID = i, me_Type = '''', me_Role = am_Role q, me_Content = am_Content q, me_Timestamp = now, me_TenantID = tid,
      me_UserID = am_UserID q, me_SessionID = am_SessionID q, me_AgentID = am_AgentID q, me_Metadata = am_Metadata q, me_Vector = [],
      me_Tags = am_Tags q, me_Importance = am_Importance q,
      me_ExpiresAt = (if am_ExpiresAt q \<noteq> '''' then case parse_time (am_ExpiresAt q) of Some t \<Rightarrow> t | None \<Rightarrow> 0 else 0)\<rparr>"

text \<open>The manager stamps the entry that the handler then shows. Its id is never empty, so that the
  manager makes up none.\<close>

definition AddMemory ::
  "(int \<Rightarrow> string) \<Rightarrow> (string \<Rightarrow> int option) \<Rightarrow> (AddMemoryRequest \<Rightarrow> error) \<Rightarrow> req_ctx \<Rightarrow> string \<Rightarrow> int \<Rightarrow> int \<Rightarrow> error + AddMemoryRequest \<Rightarrow> 'w \<Rightarrow>
     'w MemoryManager \<Rightarrow> ('w, reply) mm_result" where
  "AddMemory show_time parse_time verr c i now now' body w =
     for_tenant c w (\<lambda>tid. with_body valid_memory verr body w (\<lambda>q m.
       let e = new_memory parse_time tid i now q
       in reply_by (or_error 500 ''failed to add memory entry'' (201, entry_json show_time (st_stamped i now' e (mm_shortTerm m))))
            (mm_Add i now' e w m)))"

definition GetMemory :: "(int \<Rightarrow> string) \<Rightarrow> req_ctx \<Rightarrow> string \<Rightarrow> 'w \<Rightarrow> 'w MemoryManager \<Rightarrow> ('w, reply) mm_result" where
  "GetMemory show_time c i w =
     for_tenant c w (\<lambda>tid m.
       reply_by (\<lambda>r. case r of
           Inl _ \<Rightarrow> memory_not_found
         | Inr e \<Rightarrow> if me_TenantID e \<noteq> tid then memory_not_found else (200, entry_json show_time e))
         (mm_Get i w m))"

definition search_request :: "string \<Rightarrow> SearchMemoryRequest \<Rightarrow> MemorySearchRequest" where
  "search_request tid q =
     \<lparr>mq_Query = sr_Query q, mq_Context = Some (session_of tid (sr_UserID q) (sr_SessionID q)), mq_Types = sr_Types q,
      mq_Limit = (if sr_Limit q \<le> 0 then 10 else sr_Limit q), mq_MinScore = sr_MinScore q, mq_TimeRange = None\<rparr>"

text \<open>Search of the manager reports no error.\<close>

definition SearchMemory :: "(int \<Rightarrow> string) \<Rightarrow> req_ctx \<Rightarrow> error + SearchMemoryRequest \<Rightarrow> 'w \<Rightarrow> 'w MemoryManager \<Rightarrow> ('w, reply) mm_result" where
  "SearchMemory show_time c body w =
     for_tenant c w (\<lambda>tid. with_body (\<lambda>_. True) (\<lambda>_. ErrorString '''') body w (\<lambda>q m.
       reply_by (search_reply show_time) (mm_Search (search_request tid q) w m)))"

definition DeleteMemory :: "req_ctx \<Rightarrow> string \<Rightarrow> 'w \<Rightarrow> 'w MemoryManager \<Rightarrow> ('w, reply) mm_result" where
  "DeleteMemory c i w =
     for_tenant c w (\<lambda>tid m.
       go_bind (mm_Get i w m) (\<lambda>(m1, w1, r).
         if (case r of Inl _ \<Rightarrow> True | Inr e \<Rightarrow> me_TenantID e \<noteq> tid) then Ret (m1, w1, memory_not_found)
         else reply_by (or_error 404 ''memory entry not found'' (message_reply ''memory entry deleted successfully'')) (mm_Delete i w1 m1)))"

text \<open>The statistics are also given without a tenant, and then of everything. GetStats of a short-term
  memory reports no error.\<close>

definition h_GetStats :: "(int \<Rightarrow> string) \<Rightarrow> req_ctx \<Rightarrow> string \<Rightarrow> string \<Rightarrow> int \<Rightarrow> 'w \<Rightarrow> 'w MemoryManager \<Rightarrow> ('w, reply) mm_result" where
  "h_GetStats show_time c user session now w m =
     reply_by (stats_reply show_time)
       (mm_GetStats now (case tenantIDFromCtx c of None \<Rightarrow> None | Some tid \<Rightarrow> Some (session_of tid user session)) w m)"

definition ClearSession :: "req_ctx \<Rightarrow> string \<Rightarrow> string \<Rightarrow> 'w \<Rightarrow> 'w MemoryManager \<Rightarrow> ('w, reply) mm_result" where
  "ClearSession c session user w =
     for_tenant c w (\<lambda>tid m.
       reply_by (or_error 500 ''failed to clear session'' (message_reply ''session cleared successfully''))
         (mm_Clear (Some (session_of tid user session)) w m))"

definition h_GetEntities :: "(int \<Rightarrow> string) \<Rightarrow> req_ctx \<Rightarrow> string \<Rightarrow> string \<Rightarrow> 'w \<Rightarrow> 'w MemoryManager \<Rightarrow> ('w, reply) mm_result" where
  "h_GetEntities show_time c user session w =
     for_tenant c w (\<lambda>tid m.
       reply_by (entities_reply show_time en_Relations ''failed to get entities'') (mm_GetEntities (Some (session_of tid user session)) w m))"

definition h_ExtractEntities ::
  "(int \<Rightarrow> string) \<Rightarrow> (ExtractRequest \<Rightarrow> error) \<Rightarrow> req_ctx \<Rightarrow> error + ExtractRequest \<Rightarrow> 'w \<Rightarrow> 'w MemoryManager \<Rightarrow> ('w, reply) mm_result" where
  "h_ExtractEntities show_time verr c body w =
     for_tenant c w (\<lambda>tid. with_body valid_extract verr body w (\<lambda>q m.
       reply_by (entities_reply show_time (\<lambda>_. []) ''failed to extract entities'')
         (mm_ExtractEntities (xr_Text q) (Some (session_of tid (xr_UserID q) (xr_SessionID q))) w m)))"

definition summary_reply :: "string \<Rightarrow> error + string \<Rightarrow> reply" where
  "summary_reply session r =
     (case r of
        Inl _ \<Rightarrow> error_reply 500 ''failed to get summary''
      | Inr s \<Rightarrow> (200, VMap [(''session_id'', VStr session), (''summary'', VStr s)]))"

definition h_GetSummary :: "req_ctx \<Rightarrow> string \<Rightarrow> string \<Rightarrow> 'w \<Rightarrow> 'w MemoryManager \<Rightarrow> ('w, reply) mm_result" where
  "h_GetSummary c session user w = for_tenant c w (\<lambda>tid m. reply_by (summary_reply session) (mm_GetSummary w m))"

text \<open>The manager of the router.\<close>

definition router_memory :: "'w Pool option \<Rightarrow> 'w MemoryManager go" where
  "router_memory pool = NewMemoryManager (Some DefaultMemoryConfig) None None pool"


section \<open>Requests in sequence\<close>

record memory_host =
  mh_show :: "int \<Rightarrow> string"
  mh_parse :: "string \<Rightarrow> int option"
  mh_badSession :: "CreateSessionRequest \<Rightarrow> error"
  mh_badMemory :: "AddMemoryRequest \<Rightarrow> error"
  mh_badExtract :: "ExtractRequest \<Rightarrow> error"

datatype memory_call =
    MCreate string int int "error + CreateSessionRequest"
  | MAdd string int int "error + AddMemoryRequest"
  | MGet string
  | MSearch "error + SearchMemoryRequest"
  | MDelete string
  | MStats string string int
  | MClear string string
  | MEntities string string
  | MExtract "error + ExtractRequest"
  | MSummary string string

fun serve :: "memory_host \<Rightarrow> req_ctx \<Rightarrow> memory_call \<Rightarrow> 'w \<Rightarrow> 'w MemoryManager \<Rightarrow> ('w, reply) mm_result" where
  "serve h c (MCreate sid now now' body) w m = CreateSession (mh_show h) (mh_badSession h) c sid now now' body w m"
| "serve h c (MAdd i now now' body) w m = AddMemory (mh_show h) (mh_parse h) (mh_badMemory h) c i now now' body w m"
| "serve h c (MGet i) w m = GetMemory (mh_show h) c i w m"
| "serve h c (MSearch body) w m = SearchMemory (mh_show h) c body w m"
| "serve h c (MDelete i) w m = DeleteMemory c i w m"
| "serve h c (MStats user session now) w m = h_GetStats (mh_show h) c user session now w m"
| "serve h c (MClear session user) w m = ClearSession c session user w m"
| "serve h c (MEntities user session) w m = h_GetEntities (mh_show h) c user session w m"
| "serve h c (MExtract body) w m = h_ExtractEntities (mh_show h) (mh_badExtract h) c body w m"
| "serve h c (MSummary session user) w m = h_GetSummary c session user w m"

fun serve_all :: "memory_host \<Rightarrow> (req_ctx \<times> memory_call) list \<Rightarrow> 'w \<Rightarrow> 'w MemoryManager \<Rightarrow> ('w, reply list) mm_result" where
  "serve_all h [] w m = Ret (m, w, [])"
| "serve_all h ((c, q) # qs) w m =
     go_bind (serve h c q w m) (\<lambda>(m1, w1, r). go_bind (serve_all h qs w1 m1) (\<lambda>(m2, w2, rs). Ret (m2, w2, r # rs)))"

text \<open>The entries that a manager holds, and the managers that serve: the lock is free, and the entries
  are a window of at most ten.\<close>

definition memory_entries :: "'w MemoryManager \<Rightarrow> MemoryEntry list" where
  "memory_entries m = (case mm_shortTerm m of Window wm \<Rightarrow> bm_memory (wm_buffer wm) | _ \<Rightarrow> [])"

definition serving :: "'w MemoryManager \<Rightarrow> bool" where
  "serving m \<longleftrightarrow> mm_mu m = Free \<and> mm_longTerm m = None \<and> mm_entity m = None \<and>
     (\<exists>wm. mm_shortTerm m = Window wm \<and> wm_windowSize wm = 10 \<and> length (bm_memory (wm_buffer wm)) \<le> 10)"

definition with_entries :: "'w MemoryManager \<Rightarrow> MemoryEntry list \<Rightarrow> 'w MemoryManager" where
  "with_entries m es =
     (case mm_shortTerm m of Window wm \<Rightarrow> m\<lparr>mm_shortTerm := Window (wm\<lparr>wm_buffer := (wm_buffer wm)\<lparr>bm_memory := es\<rparr>\<rparr>)\<rparr> | _ \<Rightarrow> m)"

lemma with_entries_serving: "serving m \<Longrightarrow> length es \<le> 10 \<Longrightarrow> serving (with_entries m es) \<and> memory_entries (with_entries m es) = es"
  by (auto simp: serving_def with_entries_def memory_entries_def)

lemma with_entries_same: "serving m \<Longrightarrow> with_entries m (memory_entries m) = m"
  by (auto simp: serving_def with_entries_def memory_entries_def)

lemma serving_entries: "serving m \<Longrightarrow> length (memory_entries m) \<le> 10"
  by (auto simp: serving_def memory_entries_def)

text \<open>The operations of a serving manager in terms of its entries.\<close>

lemma serving_Add:
  assumes "serving m"
  shows "\<exists>w'. mm_Add i now e w m = Ret (with_entries m (window_append 10 (memory_entries m) (stamp ShortTermMemory i now e)), w', None)"
    and "st_stamped i now e (mm_shortTerm m) = stamp ShortTermMemory i now e"
proof -
  let ?m = "m\<lparr>mm_mu := Writer\<rparr>" let ?e = "st_stamped i now e (mm_shortTerm m)"
  obtain w' r where x: "execTenant (mm_pool m) (me_TenantID ?e) (insert_entry (mm_pool m) ?e) (index_entry ?e w ?m) = (w', Ret r)"
    using execTenant_returns[of "mm_pool m" "me_TenantID ?e" "mm_pool m" ?e "index_entry ?e w ?m"] by metis
  from assms obtain wm where "mm_shortTerm m = Window wm" "mm_mu m = Free" "wm_windowSize wm = 10" by (auto simp: serving_def)
  with x show "\<exists>w'. mm_Add i now e w m = Ret (with_entries m (window_append 10 (memory_entries m) (stamp ShortTermMemory i now e)), w', None)"
    by (simp add: mm_Add_def with_Lock_def Memory_Manager.add_body_def st_Add_def with_entries_def window_Add_def memory_entries_def)
  from \<open>mm_shortTerm m = Window wm\<close> show "st_stamped i now e (mm_shortTerm m) = stamp ShortTermMemory i now e" by (simp add: st_stamped_def)
qed

lemma serving_read:
  assumes "serving m"
  shows "mm_Get i w m = Ret (m, w, case find_entry i (memory_entries m) of Some e \<Rightarrow> Inr e | None \<Rightarrow> Inl (ErrorString (''memory entry not found: '' @ i)))"
    and "mm_GetEntities ctx w m = Ret (m, w, Inr [])" and "mm_ExtractEntities t ctx w m = Ret (m, w, Inr [])"
    and "mm_GetSummary w m = Ret (m, w, Inl (ErrorString ''summary not available''))"
    and "\<exists>s. mm_GetStats now ctx w m = Ret (m, w, s)"
  using assms
  by (auto simp: serving_def mm_Get_def mm_GetEntities_def mm_ExtractEntities_def mm_GetSummary_def mm_GetStats_def with_RLock_def st_Get_def
      st_GetStats_def buffer_Get_def memory_entries_def)

lemma search_loop_scored: "set (search_loop req es []) \<subseteq> set (scored req es)"
  by (cases "mq_Limit req > 0") (auto simp: search_loop_unlimited search_loop_limited dest: in_set_takeD)

lemma cut_results_subset: "set (cut_results req rs) \<subseteq> set rs"
  by (auto simp: cut_results_def Let_def dest: in_set_takeD split: if_splits)

lemma serving_Search:
  assumes "serving m"
  shows "\<exists>rs. mm_Search req w m = Ret (m, w, rs) \<and> set rs \<subseteq> set (scored req (memory_entries m)) \<and> (mq_Limit req > 0 \<longrightarrow> int (length rs) \<le> mq_Limit req)"
proof -
  from assms obtain wm where wm: "mm_shortTerm m = Window wm" "mm_mu m = Free" "mm_longTerm m = None" by (auto simp: serving_def)
  let ?found = "if mq_Query req = '''' \<or> length (mq_Types req) = 0 then buffer_Search req (wm_buffer wm) else []"
  have "mm_Search req w m = Ret (m, w, cut_results req ?found)"
    using wm by (auto simp: mm_Search_def with_RLock_def search_body_def st_Search_def long_term_results_def)
  moreover have "set (cut_results req ?found) \<subseteq> set (scored req (memory_entries m))"
    using cut_results_subset[of req ?found] search_loop_scored[of req "bm_memory (wm_buffer wm)"] wm by (auto simp: buffer_Search_def memory_entries_def)
  moreover have "mq_Limit req > 0 \<Longrightarrow> int (length (cut_results req ?found)) \<le> mq_Limit req" by (auto simp: cut_results_def Let_def)
  ultimately show ?thesis by blast
qed

lemma serving_change:
  assumes "serving m"
  shows "mm_Delete i w m = Ret (with_entries m (case remove_entry i (memory_entries m) of Some es \<Rightarrow> es | None \<Rightarrow> memory_entries m), w, None)"
    and "mm_Clear (Some x) w m = Ret (with_entries m (filter (\<lambda>e. me_SessionID e \<noteq> sx_SessionID x) (memory_entries m)), w, None)"
  using assms
  by (auto simp: serving_def mm_Delete_def mm_Clear_def with_Lock_def st_Delete_def st_Clear_def buffer_Delete_def buffer_Clear_def with_entries_def memory_entries_def
      split: option.split)

section \<open>Every request is answered\<close>

lemmas handler_defs = for_tenant_def with_body_def reply_by_def CreateSession_def AddMemory_def GetMemory_def SearchMemory_def DeleteMemory_def
  h_GetStats_def ClearSession_def h_GetEntities_def h_ExtractEntities_def h_GetSummary_def

lemma window_append_10: "length (window_append 10 es e) \<le> 10" "set (window_append 10 es e) \<subseteq> insert e (set es)"
  by (auto simp: window_append_def Let_def dest: in_set_dropD)

lemma window_append_cases: "length es \<le> 10 \<Longrightarrow> length es < 10 \<and> window_append 10 es x = es @ [x] \<or> length es = 10 \<and> window_append 10 es x = tl es @ [x]"
  by (auto simp: window_append_def Let_def drop_Suc le_less)

lemma remove_entry_length: "remove_entry i es = Some es' \<Longrightarrow> length es' \<le> length es"
  by (induction es arbitrary: es') (auto split: if_splits)

text \<open>What a request leaves behind: the manager with other entries.\<close>

definition entries_after :: "memory_host \<Rightarrow> req_ctx \<Rightarrow> memory_call \<Rightarrow> MemoryEntry list \<Rightarrow> MemoryEntry list" where
  "entries_after h c q es =
     (case (tenantIDFromCtx c, q) of
        (Some tid, MAdd i now now' (Inr b)) \<Rightarrow>
          if valid_memory b then window_append 10 es (stamp ShortTermMemory i now' (new_memory (mh_parse h) tid i now b)) else es
      | (Some tid, MDelete i) \<Rightarrow>
          (case find_entry i es of Some e \<Rightarrow> if me_TenantID e = tid then the (remove_entry i es) else es | None \<Rightarrow> es)
      | (Some tid, MClear session user) \<Rightarrow> filter (\<lambda>e. me_SessionID e \<noteq> session) es
      | _ \<Rightarrow> es)"

lemma remove_found: "find_entry i es = Some e \<Longrightarrow> \<exists>es'. remove_entry i es = Some es' \<and> set es \<subseteq> insert e (set es')"
  by (induction es) (auto split: if_splits)

lemma serve_entries:
  assumes "serving m"
  shows "\<exists>w' r. serve h c q w m = Ret (with_entries m (entries_after h c q (memory_entries m)), w', r)"
proof -
  have same: "\<exists>w' r. Ret (m, w, x) = Ret (with_entries m (memory_entries m), w', r)" for x :: reply
    using with_entries_same[OF assms] by simp
  note ops = serving_read[OF assms] serving_change[OF assms] with_entries_same[OF assms]
  show ?thesis
  proof (cases q)
    case (MCreate sid now now' body)
    have "\<forall>x. \<exists>s. mm_GetStats now' x w m = Ret (m, w, s)" using serving_read(5)[OF assms] by blast
    then obtain s where "\<forall>x. mm_GetStats now' x w m = Ret (m, w, s x)" by (rule choice[THEN exE])
    then show ?thesis using MCreate by (auto simp: handler_defs entries_after_def with_entries_same[OF assms] split: option.split sum.split)
  next
    case (MAdd i now now' body)
    have "\<forall>e. \<exists>w'. mm_Add i now' e w m = Ret (with_entries m (window_append 10 (memory_entries m) (stamp ShortTermMemory i now' e)), w', None)"
      using serving_Add(1)[OF assms] by blast
    then obtain w' where "\<forall>e. mm_Add i now' e w m =
        Ret (with_entries m (window_append 10 (memory_entries m) (stamp ShortTermMemory i now' e)), w' e, None)" by (rule choice[THEN exE])
    then show ?thesis using MAdd
      by (auto simp: handler_defs entries_after_def with_entries_same[OF assms] Let_def split: option.split sum.split)
  next
    case (MSearch body)
    have "\<forall>req. \<exists>rs. mm_Search req w m = Ret (m, w, rs)" using serving_Search[OF assms] by blast
    then obtain rs where "\<forall>req. mm_Search req w m = Ret (m, w, rs req)" by (rule choice[THEN exE])
    then show ?thesis using MSearch by (auto simp: handler_defs entries_after_def with_entries_same[OF assms] split: option.split sum.split)
  next
    case (MStats user session now)
    have "\<forall>x. \<exists>s. mm_GetStats now x w m = Ret (m, w, s)" using serving_read(5)[OF assms] by blast
    then obtain s where "\<forall>x. mm_GetStats now x w m = Ret (m, w, s x)" by (rule choice[THEN exE])
    then show ?thesis using MStats by (auto simp: handler_defs entries_after_def with_entries_same[OF assms] split: option.split)
  next
    case (MDelete i)
    show ?thesis
    proof (cases "find_entry i (memory_entries m)")
      case None
      then show ?thesis using MDelete ops by (auto simp: handler_defs entries_after_def split: option.split)
    next
      case (Some e)
      then obtain es' where "remove_entry i (memory_entries m) = Some es'" using remove_found by blast
      then show ?thesis using MDelete ops Some by (auto simp: handler_defs entries_after_def split: option.split)
    qed
  qed (use ops in \<open>auto simp: handler_defs entries_after_def session_of_def split: option.split sum.split\<close>)
qed

lemma entries_after_window:
  assumes "length es \<le> 10"
  shows "length (entries_after h c q es) \<le> 10"
proof -
  have "length (filter p es) \<le> 10" for p using assms le_trans length_filter_le by blast
  moreover have "length (the (remove_entry i es)) \<le> 10" if "find_entry i es = Some e" for i e
    using remove_found[OF that] remove_entry_length assms by fastforce
  ultimately show ?thesis using assms window_append_10(1)
    by (cases q) (auto simp: entries_after_def split: option.split sum.split)
qed

lemma router_memory_serving: "router_memory pool = Ret m \<Longrightarrow> serving m \<and> memory_entries m = []"
  by (auto simp: router_memory_def NewMemoryManager_def choose_short_term_def NewConversationWindowMemory_def NewConversationBufferMemory_def
      DefaultMemoryConfig_def DefaultWindowSize_def serving_def memory_entries_def Let_def)

lemma serve_all_entries:
  assumes "serving m"
  shows "\<exists>m' w' rs. serve_all h reqs w m = Ret (m', w', rs) \<and> length rs = length reqs \<and> serving m' \<and>
    memory_entries m' = foldl (\<lambda>es (c, q). entries_after h c q es) (memory_entries m) reqs"
  using assms
proof (induction reqs arbitrary: m w)
  case (Cons x reqs)
  obtain c q where x: "x = (c, q)" by fastforce
  let ?es = "entries_after h c q (memory_entries m)"
  obtain w1 r where 1: "serve h c q w m = Ret (with_entries m ?es, w1, r)" using serve_entries[OF Cons.prems] by metis
  have "serving (with_entries m ?es)" "memory_entries (with_entries m ?es) = ?es"
    using with_entries_serving[OF Cons.prems entries_after_window] serving_entries[OF Cons.prems] by blast+
  with Cons.IH[of "with_entries m ?es" w1] show ?case unfolding x by (auto simp: 1)
qed auto

lemma foldl_entries_owned:
  "e \<in> set (foldl (\<lambda>es (c, q). entries_after h c q es) es reqs) \<Longrightarrow>
     e \<in> set es \<or> (\<exists>(c, q) \<in> set reqs. tenantIDFromCtx c = Some (me_TenantID e) \<and> (\<exists>i now now' b. q = MAdd i now now' (Inr b) \<and> me_ID e = i))"
proof (induction reqs arbitrary: es)
  case (Cons x reqs)
  obtain c q where x: "x = (c, q)" by fastforce
  have "e \<in> set es \<or> tenantIDFromCtx c = Some (me_TenantID e) \<and> (\<exists>i now now' b. q = MAdd i now now' (Inr b) \<and> me_ID e = i)"
    if "e \<in> set (entries_after h c q es)"
    using that window_append_10(2) remove_entry_ids remove_found
    by (cases q) (fastforce simp: entries_after_def stamp_def new_memory_def split: option.splits sum.splits if_splits)+
  with Cons show ?case unfolding x by fastforce
qed auto

text \<open>C9: Whatever requests reach the memory handlers, in any order and of any tenants, each is answered; the
  memory holds at most ten entries, of all tenants together, each added by a request of its tenant; and
  the entries are those of the plain list that every request changes as its description says.
\<close>

theorem memory_requests_answered:
  assumes "router_memory pool = Ret m"
  shows "\<exists>m' w' rs. serve_all h reqs w m = Ret (m', w', rs) \<and> length rs = length reqs \<and> mm_mu m' = Free \<and>
    memory_entries m' = foldl (\<lambda>es (c, q). entries_after h c q es) [] reqs \<and> length (memory_entries m') \<le> 10 \<and>
    (\<forall>e\<in>set (memory_entries m'). \<exists>(c, q)\<in>set reqs. tenantIDFromCtx c = Some (me_TenantID e) \<and> (\<exists>i now now' b. q = MAdd i now now' (Inr b) \<and> me_ID e = i))"
proof -
  note m = router_memory_serving[OF assms]
  obtain m' w' rs where 1: "serve_all h reqs w m = Ret (m', w', rs)" "length rs = length reqs" "serving m'"
    "memory_entries m' = foldl (\<lambda>es (c, q). entries_after h c q es) [] reqs"
    using serve_all_entries[of m h reqs w] m by auto
  have "\<forall>e\<in>set (memory_entries m'). \<exists>(c, q)\<in>set reqs. tenantIDFromCtx c = Some (me_TenantID e) \<and> (\<exists>i now now' b. q = MAdd i now now' (Inr b) \<and> me_ID e = i)"
    unfolding 1(4) using foldl_entries_owned[of _ h "[]" reqs] by auto
  with 1 serving_entries[OF 1(3)] show ?thesis by (intro exI[of _ m'] exI[of _ w'] exI[of _ rs]) (auto simp: serving_def)
qed

section \<open>Entries of other tenants\<close>

text \<open>C40: A request changes nothing about the entries of another tenant, except that clearing a session clears
  it for all tenants, and that an addition to a full window removes the oldest entry, whoever it is of.
\<close>

theorem memories_of_others:
  assumes "router_memory pool = Ret m0" and "serve_all h reqs w0 m0 = Ret (m, w, rs)" and "serve h c q w m = Ret (m', w', r)"
    and "e \<in> set (memory_entries m)" and "tenantIDFromCtx c \<noteq> Some (me_TenantID e)" and "e \<notin> set (memory_entries m')"
  shows "(\<exists>user. q = MClear (me_SessionID e) user) \<or>
    (\<exists>i now now' b. q = MAdd i now now' (Inr b)) \<and> length (memory_entries m) = 10 \<and> hd (memory_entries m) = e"
proof -
  have m: "serving m"
    using serve_all_entries[OF conjunct1[OF router_memory_serving[OF assms(1)]], of h reqs w0] assms(2) by auto
  let ?es = "memory_entries m"
  have "m' = with_entries m (entries_after h c q ?es)" using serve_entries[OF m, of h c q w] assms(3) by auto
  then have m': "memory_entries m' = entries_after h c q ?es"
    using with_entries_serving[OF m entries_after_window] serving_entries[OF m] by blast
  have len: "length ?es \<le> 10" by (rule serving_entries[OF m])
  have out: "length ?es = 10 \<and> hd ?es = e" if "e \<notin> set (window_append 10 ?es x)" for x
    using that assms(4) window_append_cases[OF len, of x] by (cases ?es) auto
  have del: "e \<in> set (the (remove_entry i ?es))" if "find_entry i ?es = Some e'" "e' \<noteq> e" for i e'
    using remove_found[OF that(1)] that(2) assms(4) by auto
  show ?thesis using assms(4-6) out del unfolding m'
    by (cases q) (auto simp: entries_after_def split: option.splits sum.splits if_splits)
qed

text \<open>C21: An entry that is added under a fresh id is what a request of its tenant for that id shows, with the same
  answer as the addition, and a request of any other tenant is told that there is none.
\<close>

theorem added_memory_is_shown:
  assumes "router_memory pool = Ret m0" and "serve_all h reqs w0 m0 = Ret (m, w, rs)"
    and "tenantIDFromCtx c = Some tid" and "valid_memory b" and "i \<notin> me_ID ` set (memory_entries m)"
  shows "\<exists>m' w' j. serve h c (MAdd i now now' (Inr b)) w m = Ret (m', w', (201, j)) \<and>
    (\<forall>c'. tenantIDFromCtx c' = Some tid \<longrightarrow> serve h c' (MGet i) w' m' = Ret (m', w', (200, j))) \<and>
    (\<forall>c' tid'. tenantIDFromCtx c' = Some tid' \<and> tid' \<noteq> tid \<longrightarrow> serve h c' (MGet i) w' m' = Ret (m', w', memory_not_found))"
proof -
  have m: "serving m"
    using serve_all_entries[OF conjunct1[OF router_memory_serving[OF assms(1)]], of h reqs w0] assms(2) by auto
  let ?e = "stamp ShortTermMemory i now' (new_memory (mh_parse h) tid i now b)"
  let ?es = "window_append 10 (memory_entries m) ?e"
  let ?m = "with_entries m ?es"
  obtain w' where add: "mm_Add i now' (new_memory (mh_parse h) tid i now b) w m = Ret (?m, w', None)" using serving_Add(1)[OF m] by blast
  have m': "serving ?m" "memory_entries ?m = ?es" using with_entries_serving[OF m window_append_10(1)] by blast+
  have i: "me_ID ?e = i" "me_TenantID ?e = tid" by (simp_all add: stamp_def new_memory_def)
  have late: "find_entry i (es @ [?e]) = Some ?e" if "i \<notin> me_ID ` set es" for es using that i by (induction es) auto
  have "i \<notin> me_ID ` set (tl (memory_entries m))" using assms(5) by (cases "memory_entries m") auto
  then have "find_entry i ?es = Some ?e" using window_append_cases[OF serving_entries[OF m], of ?e] late assms(5) by metis
  with m' have got: "mm_Get i w' ?m = Ret (?m, w', Inr ?e)" using serving_read(1)[OF m'(1)] by simp
  show ?thesis
    by (rule exI[of _ ?m], rule exI[of _ w'], rule exI[of _ "entry_json (mh_show h) ?e"])
      (use add assms(3,4) got i serving_Add(2)[OF m] in \<open>auto simp: handler_defs Let_def or_error_def\<close>)
qed

text \<open>A search answers with entries of the tenant that asks only, at most as many as it asks for.\<close>

lemma search_shows_own_entries:
  assumes "serving m" and "tenantIDFromCtx c = Some tid" and "tid \<noteq> ''''"
  shows "\<exists>rs. serve h c (MSearch (Inr q)) w m = Ret (m, w, search_reply (mh_show h) rs) \<and>
    int (length rs) \<le> (if sr_Limit q \<le> 0 then 10 else sr_Limit q) \<and>
    (\<forall>r\<in>set rs. mr_Entry r \<in> set (memory_entries m) \<and> me_TenantID (mr_Entry r) = tid)"
proof -
  obtain rs where rs: "mm_Search (search_request tid q) w m = Ret (m, w, rs)" "set rs \<subseteq> set (scored (search_request tid q) (memory_entries m))"
      "int (length rs) \<le> (if sr_Limit q \<le> 0 then 10 else sr_Limit q)"
    using serving_Search[OF assms(1), of "search_request tid q" w] by (auto simp: search_request_def split: if_splits)
  have "mr_Entry r \<in> set (memory_entries m) \<and> me_TenantID (mr_Entry r) = tid" if "r \<in> set rs" for r
    using that rs(2) assms(3) scored_mem[of r "search_request tid q" "memory_entries m"]
    by (auto simp: search_test_def context_ok_def search_request_def session_of_def split: if_splits)
  with rs assms(2) show ?thesis by (intro exI[of _ rs]) (auto simp: handler_defs)
qed

text \<open>Neither summaries nor entities are ever there.\<close>

lemma no_summary_no_entities:
  assumes "serving m" and "tenantIDFromCtx c = Some tid"
  shows "serve h c (MSummary session user) w m = Ret (m, w, error_reply 500 ''failed to get summary'')"
    and "serve h c (MEntities user session) w m = Ret (m, w, (200, VMap [(''entities'', VList []), (''count'', VInt 0)]))"
    and "valid_extract q \<Longrightarrow> serve h c (MExtract (Inr q)) w m = Ret (m, w, (200, VMap [(''entities'', VList []), (''count'', VInt 0)]))"
  using serving_read[OF assms(1)] assms(2) by (simp_all add: handler_defs summary_reply_def entities_reply_def)

text \<open>Without a tenant the statistics count the entries of all tenants, and with one those of its session
  and of sessions of the same name of others.\<close>

lemma stats_count_all_tenants:
  assumes "serving m" and "tenantIDFromCtx c = None"
  shows "serve h c (MStats user session now) w m =
    Ret (m, w, stats_reply (mh_show h)
      \<lparr>ms_TotalEntries = length (memory_entries m), ms_ShortTermCount = length (memory_entries m), ms_LastAccessTime = now\<rparr>)"
  using assms by (auto simp: handler_defs serving_def mm_GetStats_def with_RLock_def st_GetStats_def buffer_GetStats_def memory_entries_def Let_def)

section \<open>Examples\<close>

definition demo_memory_host :: memory_host where
  "demo_memory_host = \<lparr>mh_show = (\<lambda>_. ''now''), mh_parse = (\<lambda>_. None), mh_badSession = (\<lambda>_. ErrorString ''bad''), mh_badMemory = (\<lambda>_. ErrorString ''bad''),
     mh_badExtract = (\<lambda>_. ErrorString ''bad'')\<rparr>"

definition demo_add :: AddMemoryRequest where
  "demo_add = \<lparr>am_Role = ''user'', am_Content = ''hi'', am_SessionID = ''s1'', am_TenantID = ''x'', am_UserID = ''u'', am_AgentID = '''', am_Metadata = [],
     am_Tags = [], am_Importance = 0, am_ExpiresAt = ''''\<rparr>"

definition demo_caller :: "string \<Rightarrow> req_ctx" where
  "demo_caller tid = \<lparr>rc_Authorization = '''', rc_keys = Map.empty, rc_tenant = Some (Some \<lparr>tc_TenantID = tid, tc_UserID = ''u'', tc_Role = ''member''\<rparr>)\<rparr>"

definition demo_memory :: MemoryEntry where
  "demo_memory = stamp ShortTermMemory ''m1'' 2 (new_memory (\<lambda>_. None) ''t1'' ''m1'' 1 demo_add)"

lemma demo_memory_facts: "valid_memory demo_add" "tenantIDFromCtx (demo_caller ''t1'') = Some ''t1''" "tenantIDFromCtx (demo_caller ''t2'') = Some ''t2''"
  "me_TenantID demo_memory = ''t1''" "me_SessionID demo_memory = ''s1''"
  by (simp_all add: valid_memory_def demo_add_def demo_caller_def tenantIDFromCtx_def FromContext_def demo_memory_def stamp_def new_memory_def)

definition demo_manager :: "unit MemoryManager" where
  "demo_manager = (case router_memory None of Ret m \<Rightarrow> m)"

lemma demo_manager_built: "router_memory None = Ret demo_manager"
  by (simp add: demo_manager_def router_memory_def NewMemoryManager_def choose_short_term_def NewConversationWindowMemory_def
      DefaultMemoryConfig_def DefaultWindowSize_def Let_def)

lemma demo_added: "entries_after demo_memory_host (demo_caller ''t1'') (MAdd ''m1'' 1 2 (Inr demo_add)) [] = [demo_memory]"
  by (simp add: entries_after_def demo_memory_facts window_append_def demo_memory_def demo_memory_host_def)

theorem memory_requests_answered_witness:
  "\<exists>m' w' rs. serve_all demo_memory_host [(demo_caller ''t1'', MAdd ''m1'' 1 2 (Inr demo_add))] () demo_manager = Ret (m', w', rs) \<and>
     length rs = 1 \<and> memory_entries m' = [demo_memory]"
proof -
  let ?r = "[(demo_caller ''t1'', MAdd ''m1'' 1 2 (Inr demo_add))]"
  obtain m' w' rs where "serve_all demo_memory_host ?r () demo_manager = Ret (m', w', rs)" "length rs = length ?r"
      "memory_entries m' = foldl (\<lambda>es (c, q). entries_after demo_memory_host c q es) [] ?r"
    using memory_requests_answered[OF demo_manager_built, of demo_memory_host ?r "()"] by blast
  then show ?thesis by (simp add: demo_added)
qed

theorem memories_of_others_witness:
  "\<exists>m w rs m' w' r. serve_all demo_memory_host [(demo_caller ''t1'', MAdd ''m1'' 1 2 (Inr demo_add))] () demo_manager = Ret (m, w, rs) \<and>
     serve demo_memory_host (demo_caller ''t2'') (MClear ''s1'' '''') w m = Ret (m', w', r) \<and> demo_memory \<in> set (memory_entries m) \<and>
     demo_memory \<notin> set (memory_entries m') \<and>
     ((\<exists>user. MClear ''s1'' '''' = MClear (me_SessionID demo_memory) user) \<or> length (memory_entries m) = 10 \<and> hd (memory_entries m) = demo_memory)"
proof -
  let ?r = "[(demo_caller ''t1'', MAdd ''m1'' 1 2 (Inr demo_add))]"
  obtain m w rs where 1: "serve_all demo_memory_host ?r () demo_manager = Ret (m, w, rs)" "serving m" "memory_entries m = [demo_memory]"
    using serve_all_entries[OF conjunct1[OF router_memory_serving[OF demo_manager_built]], of demo_memory_host ?r "()"]
      router_memory_serving[OF demo_manager_built] demo_added by auto
  let ?es = "entries_after demo_memory_host (demo_caller ''t2'') (MClear ''s1'' '''') (memory_entries m)"
  obtain w' r where 2: "serve demo_memory_host (demo_caller ''t2'') (MClear ''s1'' '''') w m = Ret (with_entries m ?es, w', r)"
    using serve_entries[OF 1(2)] by metis
  have es: "?es = []" using 1(3) by (simp add: entries_after_def demo_memory_facts)
  have gone: "memory_entries (with_entries m ?es) = []" unfolding es using with_entries_serving[OF 1(2), of "[]"] by simp
  have "demo_memory \<in> set (memory_entries m)" unfolding 1(3) by simp
  moreover have "demo_memory \<notin> set (memory_entries (with_entries m ?es))" unfolding gone by simp
  moreover have "tenantIDFromCtx (demo_caller ''t2'') \<noteq> Some (me_TenantID demo_memory)" by (simp add: demo_memory_facts)
  ultimately show ?thesis using memories_of_others[OF demo_manager_built 1(1) 2, of demo_memory] 1(1) 2 by blast
qed

theorem added_memory_is_shown_witness:
  "\<exists>m' w' j. serve demo_memory_host (demo_caller ''t1'') (MAdd ''m1'' 1 2 (Inr demo_add)) () demo_manager = Ret (m', w', (201, j)) \<and>
     serve demo_memory_host (demo_caller ''t1'') (MGet ''m1'') w' m' = Ret (m', w', (200, j)) \<and>
     serve demo_memory_host (demo_caller ''t2'') (MGet ''m1'') w' m' = Ret (m', w', memory_not_found)"
proof -
  have "serve_all demo_memory_host [] () demo_manager = Ret (demo_manager, (), [])" by simp
  moreover have "''m1'' \<notin> me_ID ` set (memory_entries demo_manager)" using router_memory_serving[OF demo_manager_built] by simp
  ultimately obtain m' w' j where "serve demo_memory_host (demo_caller ''t1'') (MAdd ''m1'' 1 2 (Inr demo_add)) () demo_manager = Ret (m', w', (201, j))"
      "\<forall>c'. tenantIDFromCtx c' = Some ''t1'' \<longrightarrow> serve demo_memory_host c' (MGet ''m1'') w' m' = Ret (m', w', (200, j))"
      "\<forall>c' tid'. tenantIDFromCtx c' = Some tid' \<and> tid' \<noteq> ''t1'' \<longrightarrow> serve demo_memory_host c' (MGet ''m1'') w' m' = Ret (m', w', memory_not_found)"
    using added_memory_is_shown[OF demo_manager_built, of demo_memory_host "[]" "()" demo_manager "()" "[]" "demo_caller ''t1''" "''t1''" demo_add "''m1''" 1 2]
      demo_memory_facts(1,2) by blast
  moreover have "''t2'' \<noteq> ''t1''" by simp
  ultimately show ?thesis using demo_memory_facts(2,3) by blast
qed

end
