(* ===== verification/Agent_Memory.thy ===== *)
theory Agent_Memory
  imports Agent Memory_Handler
begin

text \<open>
  What an agent does with a memory manager: the fields MemoryManager and SessionContext of BaseAgent in
  internal/agent/agent.go, the constructor and the setters for them and for the metrics, and
  RetrieveMemory. Execute uses neither field, so that the theory Agent models it without them; here the
  base agent is extended by them. A metrics provider that is absent is NoopMetrics.

  Proved: without a manager and a session nothing is retrieved; with a manager that serves, an agent
  retrieves entries that fit its session only, at most as many as asked for, and stays as it is.
\<close>

record ('w, 'm) MemoryAgent = "'w BaseAgent" +
  ma_metrics :: "'m option"
  ma_MemoryManager :: "'w MemoryManager option"
  ma_SessionContext :: "SessionContext option"

definition NewBaseAgentWithMemory :: "AgentConfig \<Rightarrow> 'w MemoryManager option \<Rightarrow> SessionContext option \<Rightarrow> ('w, 'm) MemoryAgent" where
  "NewBaseAgentWithMemory config memoryManager sessionCtx =
     \<lparr>ba_config = config, ba_StepsTaken = 0, ba_Memory = [], ba_CapGateway = None, ba_ChatStore = None,
      ma_metrics = None, ma_MemoryManager = memoryManager, ma_SessionContext = sessionCtx\<rparr>"

definition WithMetrics :: "'m option \<Rightarrow> ('w, 'm) MemoryAgent \<Rightarrow> ('w, 'm) MemoryAgent" where
  "WithMetrics m a = a\<lparr>ma_metrics := m\<rparr>"

definition SetMemoryManager :: "'w MemoryManager option \<Rightarrow> SessionContext option \<Rightarrow> ('w, 'm) MemoryAgent \<Rightarrow> ('w, 'm) MemoryAgent" where
  "SetMemoryManager manager sessionCtx a = a\<lparr>ma_MemoryManager := manager, ma_SessionContext := sessionCtx\<rparr>"

definition WithChatStore :: "'w ChatStore option \<Rightarrow> ('w, 'm) MemoryAgent \<Rightarrow> ('w, 'm) MemoryAgent" where
  "WithChatStore cs a = a\<lparr>ba_ChatStore := cs\<rparr>"

definition GetConfig :: "('w, 'm) MemoryAgent \<Rightarrow> AgentConfig" where
  "GetConfig a = ba_config a"

definition memory_request :: "string \<Rightarrow> SessionContext \<Rightarrow> int \<Rightarrow> MemorySearchRequest" where
  "memory_request query s limit =
     \<lparr>mq_Query = query, mq_Context = Some s, mq_Types = [], mq_Limit = limit, mq_MinScore = 0, mq_TimeRange = None\<rparr>"

definition RetrieveMemory :: "string \<Rightarrow> int \<Rightarrow> 'w \<Rightarrow> ('w, 'm) MemoryAgent \<Rightarrow> (('w, 'm) MemoryAgent \<times> 'w \<times> MemorySearchResult list) go" where
  "RetrieveMemory query limit w a =
     (case ma_MemoryManager a of
        None \<Rightarrow> Ret (a, w, [])
      | Some m \<Rightarrow>
          (case ma_SessionContext a of
             None \<Rightarrow> Ret (a, w, [])
           | Some s \<Rightarrow>
               go_bind (mm_Search (memory_request query s limit) w m) (\<lambda>(m', w', rs). Ret (a\<lparr>ma_MemoryManager := Some m'\<rparr>, w', rs))))"

lemma retrieve_without_memory:
  "ma_MemoryManager a = None \<or> ma_SessionContext a = None \<Longrightarrow> RetrieveMemory query limit w a = Ret (a, w, [])"
  by (auto simp: RetrieveMemory_def split: option.split)

text \<open>An agent retrieves only entries that fit its own session: those of its tenant, user and session, where
  the session names them. Nothing is changed, and no more entries come than were asked for.\<close>

lemma retrieved_entries_fit_session:
  assumes "ma_MemoryManager a = Some m" and "ma_SessionContext a = Some s" and "serving m"
  shows "\<exists>rs. RetrieveMemory query limit w a = Ret (a, w, rs) \<and> (limit > 0 \<longrightarrow> int (length rs) \<le> limit) \<and>
    (\<forall>r\<in>set rs. mr_Entry r \<in> set (memory_entries m) \<and> context_ok (Some s) (mr_Entry r))"
proof -
  let ?q = "memory_request query s limit"
  obtain rs where rs: "mm_Search ?q w m = Ret (m, w, rs)" "set rs \<subseteq> set (scored ?q (memory_entries m))"
      "limit > 0 \<longrightarrow> int (length rs) \<le> limit"
    using serving_Search[OF assms(3), of ?q w] by (auto simp: memory_request_def)
  have "RetrieveMemory query limit w a = Ret (a, w, rs)"
    using assms rs(1) by (simp add: RetrieveMemory_def)
  moreover have "mr_Entry r \<in> set (memory_entries m) \<and> context_ok (Some s) (mr_Entry r)" if "r \<in> set rs" for r
    using that rs(2) scored_mem[of r ?q "memory_entries m"] by (auto simp: search_test_def memory_request_def split: if_splits)
  ultimately show ?thesis using rs(3) by blast
qed

end
