(* ===== verification/MCP_Handler.thy ===== *)
theory MCP_Handler
  imports MCP_Manager Chat
begin

text \<open>
  The handlers of MCP servers, their tools and the skills made of them, api/handler/mcp_handler.go. One
  manager and one skill registry serve all tenants (api/router.go). \<open>order\<close> and \<open>orders\<close> give the order
  of range loops, \<open>show_time\<close> the text of a time; an empty list is written like an absent one. A bound
  body is the decoded request or the error of the decoder.

  Proved: no request ever registers a skill, so that executing a tool always fails and no skill is ever
  listed; in every reachable state all servers that the status counts are connected; a server that one
  tenant has connected is shown to all and is disconnected by a request of any other tenant; a failed
  connection leaves servers as they were.
\<close>

section \<open>Replies\<close>

definition nil_list :: "gval list \<Rightarrow> gval" where
  "nil_list xs = (if xs = [] then VNil else VList xs)"

definition tool_json :: "MCPTool \<Rightarrow> gval" where
  "tool_json t = VMap [(''name'', VStr (mt_Name t)), (''description'', VStr (mt_Description t)), (''inputSchema'', mt_InputSchema t)]"

definition resource_json :: "MCPResource \<Rightarrow> gval" where
  "resource_json r = VMap [(''uri'', VStr (mr_URI r)), (''name'', VStr (mr_Name r)), (''description'', VStr (mr_Description r)), (''mimeType'', VStr (mr_MimeType r))]"

definition server_json :: "(int \<Rightarrow> string) \<Rightarrow> MCPServerInfo \<Rightarrow> gval" where
  "server_json show_time i =
     VMap [(''ID'', VStr (si_ID i)), (''Name'', VStr (si_Name i)), (''Version'', VStr (si_Version i)), (''Protocol'', VStr (si_Protocol i)),
           (''Transport'', VStr (si_Transport i)), (''Tools'', nil_list (map tool_json (si_Tools i))), (''Resources'', nil_list (map resource_json (si_Resources i))),
           (''Status'', VStr (si_Status i)), (''LastUpdated'', VStr (show_time (si_LastUpdated i))), (''Error'', VStr (si_Error i))]"

definition listing_reply :: "string \<Rightarrow> gval list \<Rightarrow> reply" where
  "listing_reply key xs = (200, VMap [(key, nil_list xs), (''count'', VInt (int (length xs)))])"

definition skill_json :: "MCPSkillWrapper \<Rightarrow> gval" where
  "skill_json s = VMap [(''id'', VStr (sw_ID s)), (''name'', VStr (sw_Name s)), (''description'', VStr (sw_Description s)), (''type'', VStr (sw_Type s))]"

section \<open>Servers\<close>

definition h_ListServers :: "(int \<Rightarrow> string) \<Rightarrow> string list \<Rightarrow> 'w ClientManager \<Rightarrow> reply" where
  "h_ListServers show_time order m = listing_reply ''servers'' (map (server_json show_time) (GetAllServerInfo order m))"

definition h_GetServer :: "(int \<Rightarrow> string) \<Rightarrow> string \<Rightarrow> 'w ClientManager \<Rightarrow> reply" where
  "h_GetServer show_time serverID m =
     (case GetServerInfo serverID m of None \<Rightarrow> gin_error 404 ''server not found'' | Some i \<Rightarrow> (200, server_json show_time i))"

definition h_ListTools :: "'w mcp_env \<Rightarrow> cache_pick \<Rightarrow> int \<Rightarrow> string \<Rightarrow> 'w ClientManager \<Rightarrow> 'w \<Rightarrow> reply \<times> 'w ClientManager \<times> 'w" where
  "h_ListTools env pick now serverID m w =
     (case cm_ListTools env pick now serverID m w of
        (Inl e, m', w') \<Rightarrow> (gin_error 500 (error_text e), m', w')
      | (Inr tools, m', w') \<Rightarrow> (listing_reply ''tools'' (map tool_json tools), m', w'))"

definition h_ListResources :: "'w mcp_env \<Rightarrow> cache_pick \<Rightarrow> int \<Rightarrow> string \<Rightarrow> 'w ClientManager \<Rightarrow> 'w \<Rightarrow> reply \<times> 'w ClientManager \<times> 'w" where
  "h_ListResources env pick now serverID m w =
     (case cm_ListResources env pick now serverID m w of
        (Inl e, m', w') \<Rightarrow> (gin_error 500 (error_text e), m', w')
      | (Inr rs, m', w') \<Rightarrow> (listing_reply ''resources'' (map resource_json rs), m', w'))"

fun count_status :: "MCPServerInfo list \<Rightarrow> nat \<times> nat \<times> nat \<Rightarrow> nat \<times> nat \<times> nat" where
  "count_status [] n = n"
| "count_status (s # ss) (up, down, err) =
     count_status ss
       (if si_Status s = ''connected'' then (up + 1, down, err)
        else if si_Status s = ''disconnected'' then (up, down + 1, err)
        else if si_Status s = ''error'' then (up, down, err + 1)
        else (up, down, err))"

definition GetServerStatus :: "string list \<Rightarrow> 'w ClientManager \<Rightarrow> reply" where
  "GetServerStatus order m =
     (let servers = GetAllServerInfo order m in
      case count_status servers (0, 0, 0) of (up, down, err) \<Rightarrow>
        (200, VMap [(''total'', VInt (int (length servers))), (''connected'', VInt (int up)), (''disconnected'', VInt (int down)),
                    (''error'', VInt (int err))]))"

definition connect_reply :: "MCPServerConfig \<Rightarrow> error option \<Rightarrow> reply" where
  "connect_reply cfg err =
     (case err of
        None \<Rightarrow> (201, VMap [(''message'', VStr ''connected''), (''server_id'', VStr (mc_ID cfg))])
      | Some e \<Rightarrow> if errors_is e ErrNameConflict then gin_error 409 (error_text e) else gin_error 500 (error_text e))"

definition ConnectServer ::
  "'w mcp_env \<Rightarrow> req_ctx \<Rightarrow> cache_pick \<Rightarrow> int \<Rightarrow> error + MCPServerConfig \<Rightarrow> 'w ClientManager \<Rightarrow> 'w \<Rightarrow> reply go \<times> 'w ClientManager \<times> 'w" where
  "ConnectServer env c pick now body m w =
     (case tenantIDFromCtx c of
        None \<Rightarrow> (Ret respondMissingTenant, m, w)
      | Some _ \<Rightarrow>
          (case body of
             Inl e \<Rightarrow> (Ret (gin_error 400 (error_text e)), m, w)
           | Inr cfg \<Rightarrow> (case cm_Connect env (rc_tenant c) pick now cfg m w of (r, m', w') \<Rightarrow> (go_bind r (\<lambda>err. Ret (connect_reply cfg err)), m', w'))))"

definition DisconnectServer :: "req_ctx \<Rightarrow> string \<Rightarrow> 'w ClientManager \<Rightarrow> 'w \<Rightarrow> reply \<times> 'w ClientManager \<times> 'w" where
  "DisconnectServer c serverID m w =
     (case tenantIDFromCtx c of
        None \<Rightarrow> (respondMissingTenant, m, w)
      | Some _ \<Rightarrow>
          (case cm_Disconnect (rc_tenant c) serverID m w of
             (Some e, m', w') \<Rightarrow> (gin_error 500 (error_text e), m', w')
           | (None, m', w') \<Rightarrow> (message_reply ''disconnected'', m', w')))"

section \<open>Tools and skills\<close>

definition ExecuteTool ::
  "'w mcp_env \<Rightarrow> string list \<Rightarrow> string \<Rightarrow> error + gval \<Rightarrow> MCPSkillRegistry \<Rightarrow> 'w ClientManager \<Rightarrow> 'w \<Rightarrow> reply \<times> 'w" where
  "ExecuteTool env order toolID body r m w =
     (case body of
        Inl _ \<Rightarrow> (gin_error 400 ''invalid input'', w)
      | Inr input \<Rightarrow>
          (case ExecuteSkill env order toolID input r m w of
             (Inl e, w') \<Rightarrow> (gin_error 500 (error_text e), w')
           | (Inr v, w') \<Rightarrow> ((200, VMap [(''result'', v)]), w')))"

definition h_ListSkills :: "(string \<times> string list) list \<Rightarrow> MCPSkillRegistry \<Rightarrow> reply" where
  "h_ListSkills orders r = listing_reply ''skills'' (map skill_json (registry_GetAllSkills orders r))"

definition h_GetSkill :: "string list \<Rightarrow> string \<Rightarrow> MCPSkillRegistry \<Rightarrow> reply" where
  "h_GetSkill order skillID r =
     (case registry_GetSkill order skillID r of None \<Rightarrow> gin_error 404 ''skill not found'' | Some s \<Rightarrow> (200, skill_json s))"

text \<open>RefreshSkills of the registry reports no error.\<close>

definition h_RefreshSkills ::
  "'w mcp_env \<Rightarrow> cache_pick \<Rightarrow> int \<Rightarrow> string list \<Rightarrow> MCPSkillRegistry \<Rightarrow> 'w ClientManager \<Rightarrow> 'w \<Rightarrow> reply \<times> MCPSkillRegistry \<times> 'w ClientManager \<times> 'w" where
  "h_RefreshSkills env pick now order r m w =
     (case RefreshSkills env pick now order r m w of (r', m', w') \<Rightarrow> (message_reply ''skills refreshed successfully'', r', m', w'))"

section \<open>Requests in sequence\<close>

datatype mcp_call =
    PServers "string list"
  | PServer string
  | PTools int string
  | PResources int string
  | PExecute "string list" string "error + gval"
  | PSkills "(string \<times> string list) list"
  | PSkill "string list" string
  | PRefresh int "string list"
  | PStatus "string list"
  | PConnect int "error + MCPServerConfig"
  | PDisconnect string

record 'w mcp_system =
  ms_env :: "'w mcp_env"
  ms_pick :: cache_pick
  ms_show :: "int \<Rightarrow> string"

fun mcp_serve ::
  "'w mcp_system \<Rightarrow> req_ctx \<Rightarrow> mcp_call \<Rightarrow> MCPSkillRegistry \<times> 'w ClientManager \<times> 'w \<Rightarrow> reply go \<times> MCPSkillRegistry \<times> 'w ClientManager \<times> 'w" where
  "mcp_serve S c (PServers order) (r, m, w) = (Ret (h_ListServers (ms_show S) order m), r, m, w)"
| "mcp_serve S c (PServer i) (r, m, w) = (Ret (h_GetServer (ms_show S) i m), r, m, w)"
| "mcp_serve S c (PTools now i) (r, m, w) = (case h_ListTools (ms_env S) (ms_pick S) now i m w of (p, m', w') \<Rightarrow> (Ret p, r, m', w'))"
| "mcp_serve S c (PResources now i) (r, m, w) = (case h_ListResources (ms_env S) (ms_pick S) now i m w of (p, m', w') \<Rightarrow> (Ret p, r, m', w'))"
| "mcp_serve S c (PExecute order i body) (r, m, w) = (case ExecuteTool (ms_env S) order i body r m w of (p, w') \<Rightarrow> (Ret p, r, m, w'))"
| "mcp_serve S c (PSkills orders) (r, m, w) = (Ret (h_ListSkills orders r), r, m, w)"
| "mcp_serve S c (PSkill order i) (r, m, w) = (Ret (h_GetSkill order i r), r, m, w)"
| "mcp_serve S c (PRefresh now order) (r, m, w) =
     (case h_RefreshSkills (ms_env S) (ms_pick S) now order r m w of (p, r', m', w') \<Rightarrow> (Ret p, r', m', w'))"
| "mcp_serve S c (PStatus order) (r, m, w) = (Ret (GetServerStatus order m), r, m, w)"
| "mcp_serve S c (PConnect now body) (r, m, w) = (case ConnectServer (ms_env S) c (ms_pick S) now body m w of (p, m', w') \<Rightarrow> (p, r, m', w'))"
| "mcp_serve S c (PDisconnect i) (r, m, w) = (case DisconnectServer c i m w of (p, m', w') \<Rightarrow> (Ret p, r, m', w'))"

inductive mcp_requests :: "'w mcp_system \<Rightarrow> MCPSkillRegistry \<times> 'w ClientManager \<times> 'w \<Rightarrow> MCPSkillRegistry \<times> 'w ClientManager \<times> 'w \<Rightarrow> bool" for S where
  request: "mcp_serve S c q s = (p, s') \<Longrightarrow> mcp_requests S s s'"

lemma listings_ok:
  "mgr_ok m \<Longrightarrow> h_ListTools env pick now i m w = (p, m', w') \<Longrightarrow> mgr_ok m'"
  "mgr_ok m \<Longrightarrow> h_ListResources env pick now i m w = (p, m', w') \<Longrightarrow> mgr_ok m'"
  by (auto simp: h_ListTools_def h_ListResources_def dest: mgr_ok_ListTools mgr_ok_ListResources split: prod.splits sum.splits)

text \<open>What all requests preserve: the invariant of the manager, and that the registry has no server.\<close>

definition mcp_ok :: "MCPSkillRegistry \<times> 'w ClientManager \<times> 'w \<Rightarrow> bool" where
  "mcp_ok s \<longleftrightarrow> fst s = NewMCPSkillRegistry \<and> mgr_ok (fst (snd s))"

lemma refresh_nothing: "RefreshSkills env pick now order NewMCPSkillRegistry m w = (NewMCPSkillRegistry, m, w)"
  by (induction order) (simp_all add: NewMCPSkillRegistry_def)

lemma mcp_ok_serve:
  assumes "mcp_ok s" and "mcp_serve S c q s = (p, s')"
  shows "mcp_ok s'"
proof -
  obtain r m w where s: "s = (r, m, w)" by (cases s)
  have r: "r = NewMCPSkillRegistry" and m: "mgr_ok m" using assms(1) by (simp_all add: mcp_ok_def s)
  show ?thesis
  proof (cases q)
    case (PConnect now body)
    then show ?thesis using assms(2) r m mgr_ok_connect[OF m]
      by (auto simp: s mcp_ok_def ConnectServer_def split: prod.splits option.splits sum.splits)
  next
    case (PDisconnect i)
    then show ?thesis using assms(2) r m mgr_ok_Disconnect[OF m]
      by (auto simp: s mcp_ok_def DisconnectServer_def split: prod.splits option.splits)
  qed (use assms(2) r m listings_ok[OF m] in \<open>auto simp: s mcp_ok_def h_RefreshSkills_def refresh_nothing split: prod.splits\<close>)
qed

interpretation mcp: invariant_system "\<lambda>s. \<exists>pool w. s = (NewMCPSkillRegistry, NewClientManager pool, w)" "mcp_requests S" mcp_ok for S
proof
  fix s :: "MCPSkillRegistry \<times> 'a ClientManager \<times> 'a"
  assume "\<exists>pool w. s = (NewMCPSkillRegistry, NewClientManager pool, w)"
  then show "mcp_ok s" by (auto simp: mcp_ok_def mgr_ok_def NewClientManager_def)
next
  fix s t :: "MCPSkillRegistry \<times> 'a ClientManager \<times> 'a"
  assume "mcp_requests S s t" and "mcp_ok s"
  then show "mcp_ok t" by cases (rule mcp_ok_serve)
qed

section \<open>What the handlers never do\<close>

lemma empty_registry: "registry_GetSkill order i NewMCPSkillRegistry = None" "registry_GetAllSkills orders NewMCPSkillRegistry = []"
  by (induction order) (auto simp: NewMCPSkillRegistry_def registry_GetAllSkills_def)

text \<open>Whatever requests of whatever tenants have been served, no skill is registered: executing a tool always
  fails with the same answer, no skill is listed and none is found.
\<close>

theorem no_tool_is_executed:
  assumes "rtranclp (mcp_requests S) (NewMCPSkillRegistry, NewClientManager pool, w0) (r, m, w)"
  shows "mcp_serve S c (PExecute order i (Inr input)) (r, m, w) = (Ret (gin_error 500 (''skill not found: '' @ i)), r, m, w) \<and>
    mcp_serve S c (PSkills orders) (r, m, w) = (Ret (200, VMap [(''skills'', VNil), (''count'', VInt 0)]), r, m, w) \<and>
    mcp_serve S c (PSkill order i) (r, m, w) = (Ret (gin_error 404 ''skill not found''), r, m, w)"
proof -
  have "mcp_ok (r, m, w)" by (rule mcp.reachable_inv[OF _ assms]) blast
  then have "r = NewMCPSkillRegistry" by (simp add: mcp_ok_def)
  then show ?thesis
    by (simp add: ExecuteTool_def ExecuteSkill_def h_ListSkills_def h_GetSkill_def empty_registry listing_reply_def nil_list_def)
qed

lemma all_servers_connected: "mgr_ok m \<Longrightarrow> s \<in> set (GetAllServerInfo order m) \<Longrightarrow> si_Status s = ''connected''"
  by (auto simp: GetAllServerInfo_def List.map_filter_def GetServerInfo_def GetClient_def managed_ok_def client_ok_def dest!: mgr_okD)

lemma count_connected: "\<forall>s\<in>set ss. si_Status s = ''connected'' \<Longrightarrow> count_status ss (a, b, c) = (a + length ss, b, c)"
  by (induction ss arbitrary: a) auto

lemma length_all_servers: "ranges (cm_clients m) order \<Longrightarrow> length (GetAllServerInfo order m) = card (dom (cm_clients m))"
proof -
  assume "ranges (cm_clients m) order"
  then have "distinct order" "set order = dom (cm_clients m)" by (simp_all add: ranges_def)
  moreover from this have "GetAllServerInfo order m = map (\<lambda>i. bc_info (the (cm_clients m i))) order"
    unfolding GetAllServerInfo_def List.map_filter_def GetServerInfo_def GetClient_def
    by (subst filter_True) (auto simp: dom_def)
  ultimately show ?thesis by (metis distinct_card length_map)
qed

text \<open>In every reachable state the status reports as many servers as the manager has, all of them connected,
  whatever has become of the servers meanwhile.
\<close>

theorem status_all_connected:
  assumes "rtranclp (mcp_requests S) (NewMCPSkillRegistry, NewClientManager pool, w0) (r, m, w)" and "ranges (cm_clients m) order"
  shows "mcp_serve S c (PStatus order) (r, m, w) =
    (Ret (200, VMap [(''total'', VInt (int (card (dom (cm_clients m))))), (''connected'', VInt (int (card (dom (cm_clients m))))),
                     (''disconnected'', VInt 0), (''error'', VInt 0)]), r, m, w)"
proof -
  have "mcp_ok (r, m, w)" by (rule mcp.reachable_inv[OF _ assms(1)]) blast
  then have "count_status (GetAllServerInfo order m) (0, 0, 0) = (length (GetAllServerInfo order m), 0, 0)"
    using count_connected[of "GetAllServerInfo order m" 0 0 0] all_servers_connected[of m _ order] by (auto simp: mcp_ok_def)
  then show ?thesis using length_all_servers[OF assms(2)] by (simp add: GetServerStatus_def Let_def)
qed

text \<open>A server that a request of one tenant has connected is shown to every caller, with or without a tenant,
  and a request of any other tenant disconnects it; the row that is then disabled is looked for in the
  tables of that other tenant.
\<close>

theorem servers_are_shared:
  assumes "mcp_serve S c (PConnect now (Inr cfg)) (r, m, w) = (Ret (201, v), r', m', w')"
  shows "(\<exists>i. mcp_serve S c1 (PServer (mc_ID cfg)) (r', m', w') = (Ret (200, server_json (ms_show S) i), r', m', w') \<and> GetServerInfo (mc_ID cfg) m' = Some i) \<and>
    (tenantIDFromCtx c2 \<noteq> None \<longrightarrow> (\<exists>m2. mcp_serve S c2 (PDisconnect (mc_ID cfg)) (r', m', w') =
       (Ret (message_reply ''disconnected''), r', m2, persistDisconnect (rc_tenant c2) (cm_pool m') (mc_ID cfg) w') \<and> GetServerInfo (mc_ID cfg) m2 = None))"
proof -
  obtain err where "cm_Connect (ms_env S) (rc_tenant c) (ms_pick S) now cfg m w = (Ret err, m', w')" "connect_reply cfg err = (201, v)"
    using assms by (cases "cm_Connect (ms_env S) (rc_tenant c) (ms_pick S) now cfg m w")
      (auto simp: ConnectServer_def respondMissingTenant_def go_bind_Ret_iff split: option.splits)
  moreover from this(2) have "err = None" by (auto simp: connect_reply_def gin_error_def split: option.splits if_splits)
  ultimately have conn: "cm_Connect (ms_env S) (rc_tenant c) (ms_pick S) now cfg m w = (Ret None, m', w')" by simp
  have "cm_clients m' (mc_ID cfg) \<noteq> None" by (rule cm_Connect_success[OF conn]) simp
  then obtain cl where "cm_clients m' (mc_ID cfg) = Some cl" by blast
  then show ?thesis
    by (auto simp: h_GetServer_def GetServerInfo_def GetClient_def DisconnectServer_def cm_Disconnect_def split: option.split)
qed

text \<open>A connection that fails leaves the servers as they were.\<close>

lemma failed_connection_keeps_servers:
  assumes "mcp_serve S c (PConnect now body) (r, m, w) = (Ret (code, v), r', m', w')" and "code \<noteq> 201"
  shows "r' = r \<and> cm_clients m' = cm_clients m \<and> cm_configs m' = cm_configs m"
proof (cases "tenantIDFromCtx c")
  case (Some t)
  show ?thesis
  proof (cases body)
    case (Inr cfg)
    obtain g where g: "cm_Connect (ms_env S) (rc_tenant c) (ms_pick S) now cfg m w = (g, m', w')" "go_bind g (\<lambda>err. Ret (connect_reply cfg err)) = Ret (code, v)" "r' = r"
      using assms(1) Inr Some by (auto simp: ConnectServer_def split: prod.splits)
    then obtain e where "g = Ret (Some e)" using assms(2) by (auto simp: go_bind_Ret_iff connect_reply_def split: option.splits)
    with g connect_failure_clean show ?thesis by metis
  qed (use assms Some in \<open>auto simp: ConnectServer_def\<close>)
qed (use assms in \<open>auto simp: ConnectServer_def\<close>)

section \<open>Examples\<close>

definition demo_mcp :: "unit mcp_system" where
  "demo_mcp = \<lparr>ms_env = echo_env VNil '''', ms_pick = (\<lambda>_. []), ms_show = (\<lambda>_. ''now'')\<rparr>"

definition demo_user :: "string \<Rightarrow> req_ctx" where
  "demo_user tid = \<lparr>rc_Authorization = '''', rc_keys = Map.empty, rc_tenant = Some (Some \<lparr>tc_TenantID = tid, tc_UserID = ''u'', tc_Role = ''member''\<rparr>)\<rparr>"

lemma demo_user_tenant: "tid \<noteq> '''' \<Longrightarrow> tenantIDFromCtx (demo_user tid) = Some tid"
  by (simp add: demo_user_def tenantIDFromCtx_def FromContext_def)

theorem no_tool_is_executed_witness:
  "mcp_serve demo_mcp (demo_user ''t1'') (PExecute [] ''mcp:s:sum'' (Inr VNil)) (NewMCPSkillRegistry, NewClientManager None, ()) =
    (Ret (gin_error 500 (''skill not found: '' @ ''mcp:s:sum'')), NewMCPSkillRegistry, NewClientManager None, ())"
  using no_tool_is_executed[OF rtranclp.rtrancl_refl, of demo_mcp "demo_user ''t1''" "[]" "''mcp:s:sum''" VNil None "()" "[]"] by blast

lemma connect_without_pool: "cm_pool m = None \<Longrightarrow> cm_Connect env ctx pick now cfg m w = cm_Connect env None pick now cfg m w"
proof -
  assume "cm_pool m = None"
  then have "persistConnect ctx (cm_pool m) = persistConnect None (cm_pool m)" by (intro ext) (simp add: persistConnect_def)
  then show ?thesis unfolding cm_Connect_def by (simp only:)
qed

lemma demo_user_connects:
  "mcp_serve demo_mcp (demo_user ''t1'') (PConnect 0 (Inr http_config)) (NewMCPSkillRegistry, NewClientManager None, ()) =
    (Ret (201, VMap [(''message'', VStr ''connected''), (''server_id'', VStr ''s'')]), NewMCPSkillRegistry, demo_manager, ())"
proof -
  have "cm_Connect (echo_env VNil '''') (rc_tenant (demo_user ''t1'')) (\<lambda>_. []) 0 http_config (NewClientManager None) () = (Ret None, demo_manager, ())"
    by (subst connect_without_pool) (simp_all add: demo_connects, simp add: NewClientManager_def)
  then show ?thesis by (simp add: ConnectServer_def demo_mcp_def demo_user_tenant connect_reply_def http_config_def)
qed

theorem status_all_connected_witness:
  "\<exists>n. mcp_serve demo_mcp (demo_user ''t2'') (PStatus [''s'']) (NewMCPSkillRegistry, demo_manager, ()) =
    (Ret (200, VMap [(''total'', VInt n), (''connected'', VInt n), (''disconnected'', VInt 0), (''error'', VInt 0)]), NewMCPSkillRegistry, demo_manager, ()) \<and> n = 1"
proof -
  have step: "rtranclp (mcp_requests demo_mcp) (NewMCPSkillRegistry, NewClientManager None, ()) (NewMCPSkillRegistry, demo_manager, ())"
    by (rule r_into_rtranclp, rule mcp_requests.request, rule demo_user_connects)
  have "dom (cm_clients demo_manager) = {''s''}"
    by (rule cm_Connect_success[OF demo_connects], drule arg_cong[of _ _ cm_clients]) (simp add: NewClientManager_def http_config_def)
  with status_all_connected[OF step, of "[''s'']"] show ?thesis by (simp add: ranges_def)
qed

theorem servers_are_shared_witness:
  "\<exists>i m2. mcp_serve demo_mcp (demo_user ''t2'') (PServer ''s'') (NewMCPSkillRegistry, demo_manager, ()) =
      (Ret (200, server_json (\<lambda>_. ''now'') i), NewMCPSkillRegistry, demo_manager, ()) \<and>
    mcp_serve demo_mcp (demo_user ''t2'') (PDisconnect ''s'') (NewMCPSkillRegistry, demo_manager, ()) =
      (Ret (message_reply ''disconnected''), NewMCPSkillRegistry, m2, persistDisconnect (rc_tenant (demo_user ''t2'')) (cm_pool demo_manager) ''s'' ()) \<and>
    GetServerInfo ''s'' m2 = None"
proof -
  have "tenantIDFromCtx (demo_user ''t2'') \<noteq> None" by (simp add: demo_user_tenant)
  moreover have "mc_ID http_config = ''s''" "ms_show demo_mcp = (\<lambda>_. ''now'')" by (simp_all add: http_config_def demo_mcp_def)
  ultimately show ?thesis using servers_are_shared[OF demo_user_connects, of "demo_user ''t2''" "demo_user ''t2''"] by metis
qed

end
