(* ===== verification/Middleware.thy ===== *)
theory Middleware
  imports Onboard Tenant_Handler
begin

text \<open>
  The middleware that every request passes, api/middleware: error handling and CORS (middleware.go), the
  access log (trace.go) and the metrics of requests (metrics.go), in the order of api/router.go; and the
  guards and helpers that no route uses (tenant.go, prometheus.go). A handler is a function of the
  request and of the server's state, which keeps the gauge of requests in flight, the counted requests
  and the access log. A handler that panics has written nothing. Elapsed times, sizes, addresses and user
  agents are left out of the log.

  Proved: the stack answers every request whose handler returns or panics; a request whose handler returns
  is counted and logged once, with the level of its status, and the gauge is back where it was; a handler
  that panics leaves the gauge raised and no entry in the log; logged bodies are the first 2048 bytes and
  those of /auth/ are never logged, while those of the tenant's settings, with its keys, are; a body that
  breaks off reaches the handler as if it were whole.
\<close>

section \<open>Requests and responses\<close>

record request =
  rq_Method :: string
  rq_Path :: string
  rq_Query :: string
  rq_ContentType :: string
  rq_RequestID :: string
  rq_Origin :: string
  rq_Body :: "(string \<times> error option) option"

text \<open>
  \<open>rs_Writes\<close> are the pieces written to the body, in order; \<open>rs_Written\<close> says that the header has been
  sent; \<open>rs_Tenant\<close> and \<open>rs_Errors\<close> are what the request's context has at the end.
\<close>

record response =
  rs_Status :: nat
  rs_Writes :: "string list"
  rs_Written :: bool
  rs_ContentType :: string
  rs_Headers :: "(string \<times> string) list"
  rs_Tenant :: tenant_ctx
  rs_Errors :: "error list"

datatype level = Info | Warn | Error

record access_entry =
  ae_Level :: level
  ae_RequestID :: string
  ae_Method :: string
  ae_Path :: string
  ae_Query :: string
  ae_Status :: nat
  ae_TenantID :: string
  ae_UserID :: string
  ae_ReqBody :: string
  ae_RespBody :: string

record 'a server =
  sv_InFlight :: int
  sv_Requests :: "(string \<times> string \<times> nat) list"
  sv_Access :: "access_entry list"
  sv_App :: 'a

type_synonym 'a handler = "request \<Rightarrow> 'a server \<Rightarrow> response go \<times> 'a server"

section \<open>The access log\<close>

definition maxBodyLogSize :: nat where "maxBodyLogSize = 2048"

definition truncation_mark :: string where "truncation_mark = ''...[truncated]''"

record body_writer =
  bw_body :: string
  bw_truncated :: bool

definition new_body_writer :: body_writer where
  "new_body_writer = \<lparr>bw_body = '''', bw_truncated = False\<rparr>"

text \<open>Write and WriteString keep their bytes alike; the bytes themselves are passed on.\<close>

definition bw_Write :: "body_writer \<Rightarrow> string \<Rightarrow> body_writer" where
  "bw_Write bw b =
     (if bw_truncated bw then bw
      else let available = int maxBodyLogSize - int (length (bw_body bw))
        in if available > 0
           then (if int (length b) \<le> available then bw\<lparr>bw_body := bw_body bw @ b\<rparr>
                 else bw\<lparr>bw_body := bw_body bw @ take (nat available) b, bw_truncated := True\<rparr>)
           else bw\<lparr>bw_truncated := True\<rparr>)"

definition captured :: "body_writer \<Rightarrow> string" where
  "captured bw = (if bw_truncated bw then bw_body bw @ truncation_mark else bw_body bw)"

definition sensitivePathPrefixes :: "string list" where
  "sensitivePathPrefixes = [''/auth/'']"

definition isSensitivePath :: "string \<Rightarrow> bool" where
  "isSensitivePath path = list_ex (\<lambda>p. prefix p path) sensitivePathPrefixes"

definition isJSONContent :: "string \<Rightarrow> bool" where
  "isJSONContent contentType \<longleftrightarrow> sublist ''application/json'' contentType"

definition logged_body :: "string \<Rightarrow> string" where
  "logged_body raw = (if length raw > maxBodyLogSize then take maxBodyLogSize raw @ truncation_mark else raw)"

text \<open>The request body that is logged, and the request that the handlers get: ReadAll drops its error.\<close>

definition read_request :: "request \<Rightarrow> string \<times> request" where
  "read_request rq =
     (case rq_Body rq of
        Some (raw, err) \<Rightarrow>
          (if \<not> isSensitivePath (rq_Path rq) \<and> isJSONContent (rq_ContentType rq) then (logged_body raw, rq\<lparr>rq_Body := Some (raw, None)\<rparr>) else ('''', rq))
      | None \<Rightarrow> ('''', rq))"

definition level_of :: "nat \<Rightarrow> level" where
  "level_of status = (if status \<ge> 500 then Error else if status \<ge> 400 then Warn else Info)"

text \<open>The levels are ordered by their severity, as in the zap library.\<close>

fun severity :: "level \<Rightarrow> nat" where
  "severity Info = 0"
| "severity Warn = 1"
| "severity Error = 2"

instantiation level :: linorder
begin

definition less_eq_level :: "level \<Rightarrow> level \<Rightarrow> bool" where "less_eq_level a b \<longleftrightarrow> severity a \<le> severity b"
definition less_level :: "level \<Rightarrow> level \<Rightarrow> bool" where "less_level a b \<longleftrightarrow> severity a < severity b"

instance
proof
  fix a b :: level
  show "a \<le> b \<Longrightarrow> b \<le> a \<Longrightarrow> a = b" by (cases a; cases b) (simp_all add: less_eq_level_def)
qed (auto simp: less_eq_level_def less_level_def)

end

text \<open>Worse statuses are logged at higher levels, and from Warn on exactly the failures.\<close>

lemma level_of_mono: "mono level_of"
  by (rule monoI) (simp add: level_of_def less_eq_level_def)

lemma failures_are_warned: "Warn \<le> level_of status \<longleftrightarrow> 400 \<le> status"
  by (simp add: level_of_def less_eq_level_def)

definition tenant_and_user :: "tenant_ctx \<Rightarrow> string \<times> string" where
  "tenant_and_user ctx = (case FromContext ctx of None \<Rightarrow> ('''', '''') | Some tc \<Rightarrow> (tc_TenantID tc, tc_UserID tc))"

definition access_entry_of :: "string \<Rightarrow> string \<Rightarrow> request \<Rightarrow> response \<Rightarrow> access_entry" where
  "access_entry_of requestID reqBody rq r =
     \<lparr>ae_Level = level_of (rs_Status r), ae_RequestID = requestID, ae_Method = rq_Method rq, ae_Path = rq_Path rq, ae_Query = rq_Query rq,
      ae_Status = rs_Status r, ae_TenantID = fst (tenant_and_user (rs_Tenant r)), ae_UserID = snd (tenant_and_user (rs_Tenant r)), ae_ReqBody = reqBody,
      ae_RespBody = (if \<not> isSensitivePath (rq_Path rq) \<and> isJSONContent (rs_ContentType r) then captured (foldl bw_Write new_body_writer (rs_Writes r)) else '''')\<rparr>"

text \<open>\<open>fresh\<close> is a new id for a request that brings none.\<close>

definition TraceMiddleware :: "string \<Rightarrow> 'a handler \<Rightarrow> 'a handler" where
  "TraceMiddleware fresh inner rq s =
     (let requestID = (if rq_RequestID rq = '''' then fresh else rq_RequestID rq)
      in case read_request rq of (reqBody, rq') \<Rightarrow>
         (case inner rq' s of
            (Ret r, s') \<Rightarrow>
              (let r' = r\<lparr>rs_Headers := (''X-Request-ID'', requestID) # rs_Headers r\<rparr>
               in (Ret r', s'\<lparr>sv_Access := sv_Access s' @ [access_entry_of requestID reqBody rq r]\<rparr>))
          | (x, s') \<Rightarrow> (x, s')))"

section \<open>The other middleware of all routes\<close>

text \<open>gin.Recovery, which comes first. The headers that were set before the panic are left out.\<close>

definition Recovery :: "'a handler \<Rightarrow> 'a handler" where
  "Recovery inner rq s =
     (case inner rq s of
        (Panic m, s') \<Rightarrow> (Ret \<lparr>rs_Status = 500, rs_Writes = [], rs_Written = True, rs_ContentType = '''', rs_Headers = [], rs_Tenant = None, rs_Errors = []\<rparr>, s')
      | x \<Rightarrow> x)"

text \<open>\<open>json\<close> writes a JSON object.\<close>

definition ErrorHandler :: "(gval \<Rightarrow> string) \<Rightarrow> 'a handler \<Rightarrow> 'a handler" where
  "ErrorHandler json inner rq s =
     (case inner rq s of
        (Ret r, s') \<Rightarrow>
          (if rs_Errors r = [] \<or> rs_Written r then (Ret r, s')
           else (Ret (r\<lparr>rs_Status := 400, rs_Writes := [json (VMap [(''error'', VStr (error_text (last (rs_Errors r))))])], rs_Written := True,
                        rs_ContentType := ''application/json; charset=utf-8''\<rparr>), s'))
      | x \<Rightarrow> x)"

definition cors_headers :: "string \<Rightarrow> (string \<times> string) list" where
  "cors_headers allowedOrigin =
     [(''Access-Control-Allow-Origin'', allowedOrigin), (''Access-Control-Allow-Credentials'', ''true''),
      (''Access-Control-Allow-Headers'', ''Content-Type, Content-Length, Accept-Encoding, X-CSRF-Token, Authorization, accept, origin, Cache-Control, X-Requested-With''),
      (''Access-Control-Allow-Methods'', ''POST, OPTIONS, GET, PUT, PATCH, DELETE'')]"

definition CORSMiddleware :: "string \<Rightarrow> 'a handler \<Rightarrow> 'a handler" where
  "CORSMiddleware allowedOrigin inner rq s =
     (if rq_Method rq = ''OPTIONS''
      then (Ret \<lparr>rs_Status = 204, rs_Writes = [], rs_Written = True, rs_ContentType = '''', rs_Headers = cors_headers allowedOrigin, rs_Tenant = None, rs_Errors = []\<rparr>, s)
      else case inner rq s of
        (Ret r, s') \<Rightarrow> (Ret (r\<lparr>rs_Headers := cors_headers allowedOrigin @ rs_Headers r\<rparr>), s')
      | x \<Rightarrow> x)"

definition MetricsMiddleware :: "'a handler \<Rightarrow> 'a handler" where
  "MetricsMiddleware inner rq s =
     (case inner rq (s\<lparr>sv_InFlight := sv_InFlight s + 1\<rparr>) of
        (Ret r, s') \<Rightarrow> (Ret r, s'\<lparr>sv_InFlight := sv_InFlight s' - 1, sv_Requests := sv_Requests s' @ [(rq_Method rq, rq_Path rq, rs_Status r)]\<rparr>)
      | (x, s') \<Rightarrow> (x, s'))"

text \<open>PrometheusMiddleware does the same with the Prometheus metrics, TrustedProxies nothing; no route uses them.\<close>

definition PrometheusMiddleware :: "'a handler \<Rightarrow> 'a handler" where
  "PrometheusMiddleware inner rq s =
     (case inner rq (s\<lparr>sv_InFlight := sv_InFlight s + 1\<rparr>) of
        (Ret r, s') \<Rightarrow>
          (let s1 = s'\<lparr>sv_InFlight := sv_InFlight s' - 1\<rparr> in (Ret r, s1\<lparr>sv_Requests := sv_Requests s1 @ [(rq_Method rq, rq_Path rq, rs_Status r)]\<rparr>))
      | (x, s') \<Rightarrow> (x, s'))"

lemma prometheus_is_metrics: "PrometheusMiddleware = MetricsMiddleware"
  by (simp add: fun_eq_iff PrometheusMiddleware_def MetricsMiddleware_def Let_def split: prod.split go.split)

definition TrustedProxies :: "'a handler \<Rightarrow> 'a handler" where
  "TrustedProxies inner = inner"

definition all_routes :: "(gval \<Rightarrow> string) \<Rightarrow> string \<Rightarrow> string \<Rightarrow> 'a handler \<Rightarrow> 'a handler" where
  "all_routes json allowedOrigin fresh h = Recovery (ErrorHandler json (TraceMiddleware fresh (CORSMiddleware allowedOrigin (MetricsMiddleware h))))"

section \<open>Guards and helpers that no route uses\<close>

record TenantClaims =
  tn_Subject :: string
  tn_TenantID :: string
  tn_Role :: string

text \<open>strings.SplitN at the first space.\<close>

definition split_space :: "string \<Rightarrow> (string \<times> string) option" where
  "split_space h = (if CHR '' '' \<in> set h then Some (takeWhile (\<lambda>c. c \<noteq> CHR '' '') h, drop 1 (dropWhile (\<lambda>c. c \<noteq> CHR '' '') h)) else None)"

text \<open>\<open>parse\<close> gives the claims of a token whose HMAC signature is right and which is valid.\<close>

definition TenantAuthMiddleware :: "(string \<Rightarrow> TenantClaims option) \<Rightarrow> middleware" where
  "TenantAuthMiddleware parse c =
     (if rc_Authorization c = '''' then Abort 401 ''missing Authorization header''
      else case split_space (rc_Authorization c) of
        None \<Rightarrow> Abort 401 ''invalid Authorization format, expected Bearer token''
      | Some (scheme, tok) \<Rightarrow>
          (if \<not> EqualFold scheme ''Bearer'' then Abort 401 ''invalid Authorization format, expected Bearer token''
           else case parse tok of
             None \<Rightarrow> Abort 401 ''invalid or expired token''
           | Some claims \<Rightarrow>
               (if tn_Role claims \<notin> {''tenant_admin'', ''tenant_user'', ''global_admin''} then Abort 403 ''unknown role in token''
                else if tn_Role claims \<noteq> ''global_admin'' \<and> tn_TenantID claims = '''' then Abort 403 ''tenant_id required for non-global_admin role''
                else Next (c\<lparr>rc_tenant := WithTenant (rc_tenant c)
                       (Some \<lparr>tc_TenantID = tn_TenantID claims, tc_UserID = tn_Subject claims, tc_Role = tn_Role claims\<rparr>)\<rparr>))))"

definition NamespaceMiddleware :: "string \<Rightarrow> middleware" where
  "NamespaceMiddleware namespace c = Next (c\<lparr>rc_keys := (rc_keys c)(''namespace'' \<mapsto> namespace)\<rparr>)"

text \<open>\<open>header\<close> is the header X-Tenant-ID of the request.\<close>

definition TenantMiddleware :: "string \<Rightarrow> middleware" where
  "TenantMiddleware header c = Next (c\<lparr>rc_keys := (rc_keys c)(''tenant_id'' \<mapsto> (if header = '''' then ''default'' else header))\<rparr>)"

definition GetTenantID :: "req_ctx \<Rightarrow> string" where
  "GetTenantID c = (case rc_keys c ''tenant_id'' of Some i \<Rightarrow> i | None \<Rightarrow> ''default'')"

definition GetNamespace :: "req_ctx \<Rightarrow> string" where
  "GetNamespace c = (case rc_keys c ''namespace'' of Some i \<Rightarrow> i | None \<Rightarrow> ''default'')"

text \<open>\<open>atoi\<close> is strconv.Atoi.\<close>

definition ParseIntHeader :: "(string \<Rightarrow> int option) \<Rightarrow> string \<Rightarrow> int \<Rightarrow> int" where
  "ParseIntHeader atoi value defaultValue = (if value = '''' then defaultValue else case atoi value of None \<Rightarrow> defaultValue | Some i \<Rightarrow> i)"

section \<open>The captured body\<close>

definition captures :: "body_writer \<Rightarrow> string \<Rightarrow> bool" where
  "captures bw s \<longleftrightarrow> bw_body bw = take maxBodyLogSize s \<and> (length s > maxBodyLogSize \<longrightarrow> bw_truncated bw) \<and>
     (bw_truncated bw \<longrightarrow> maxBodyLogSize \<le> length s)"

lemma bw_Write_captures: "captures bw s \<Longrightarrow> captures (bw_Write bw b) (s @ b)"
  by (auto simp: captures_def bw_Write_def Let_def nat_diff_distrib split: if_splits)

lemma foldl_captures: "captures bw s \<Longrightarrow> captures (foldl bw_Write bw bs) (s @ concat bs)"
  by (induction bs arbitrary: bw s) (auto dest: bw_Write_captures simp flip: append_assoc)

text \<open>However a response is written in pieces, what the log captures of it are its first 2048 bytes, with the
  mark of a truncation when there are more; an answer of exactly 2048 bytes may bear the mark as well.
\<close>

theorem log_captures_beginning:
  "captured (foldl bw_Write new_body_writer bs) = take maxBodyLogSize (concat bs) \<and> length (concat bs) \<le> maxBodyLogSize \<or>
   captured (foldl bw_Write new_body_writer bs) = take maxBodyLogSize (concat bs) @ truncation_mark \<and> maxBodyLogSize \<le> length (concat bs)"
proof -
  have "captures new_body_writer ''''" by (simp add: captures_def new_body_writer_def)
  from foldl_captures[OF this, of bs] show ?thesis by (auto simp: captures_def captured_def)
qed

section \<open>Every request through the stack\<close>

definition demo_json :: "gval \<Rightarrow> string" where "demo_json v = ''{}''"

text \<open>A request whose handler returns is answered, counted with the status that the handler gave it, and logged
  once under that status and its level, even when the error handler then changes the status; the gauge of
  requests in flight is what the handler left.
\<close>

theorem returned_request_is_logged:
  assumes "rq_Method rq \<noteq> ''OPTIONS''" and "h (snd (read_request rq)) (s\<lparr>sv_InFlight := sv_InFlight s + 1\<rparr>) = (Ret r, s')"
  shows "\<exists>r' e. all_routes json origin fresh h rq s =
      (Ret r', s'\<lparr>sv_InFlight := sv_InFlight s' - 1, sv_Requests := sv_Requests s' @ [(rq_Method rq, rq_Path rq, rs_Status r)], sv_Access := sv_Access s' @ [e]\<rparr>) \<and>
    ae_Status e = rs_Status r \<and> ae_Level e = level_of (rs_Status r) \<and> ae_Path e = rq_Path rq \<and> ae_ReqBody e = fst (read_request rq) \<and>
    (rs_Status r' = (if rs_Errors r = [] \<or> rs_Written r then rs_Status r else 400))"
proof -
  obtain b rq' where rd: "read_request rq = (b, rq')" by fastforce
  then have same: "rq_Method rq' = rq_Method rq" "rq_Path rq' = rq_Path rq" by (auto simp: read_request_def split: option.splits if_splits)
  let ?i = "if rq_RequestID rq = '''' then fresh else rq_RequestID rq"
  let ?r1 = "r\<lparr>rs_Headers := cors_headers origin @ rs_Headers r\<rparr>"
  let ?e = "access_entry_of ?i b rq ?r1"
  let ?s = "s'\<lparr>sv_InFlight := sv_InFlight s' - 1, sv_Requests := sv_Requests s' @ [(rq_Method rq, rq_Path rq, rs_Status r)], sv_Access := sv_Access s' @ [?e]\<rparr>"
  have e: "ae_Status ?e = rs_Status r" "ae_Level ?e = level_of (rs_Status r)" "ae_Path ?e = rq_Path rq" "ae_ReqBody ?e = b" by (simp_all add: access_entry_of_def)
  have "TraceMiddleware fresh (CORSMiddleware origin (MetricsMiddleware h)) rq s = (Ret (?r1\<lparr>rs_Headers := (''X-Request-ID'', ?i) # rs_Headers ?r1\<rparr>), ?s)"
    using assms rd same by (simp add: TraceMiddleware_def CORSMiddleware_def MetricsMiddleware_def Let_def)
  then obtain r' where "all_routes json origin fresh h rq s = (Ret r', ?s) \<and> rs_Status r' = (if rs_Errors r = [] \<or> rs_Written r then rs_Status r else 400)"
    by (cases "rs_Errors r = [] \<or> rs_Written r") (auto simp: all_routes_def Recovery_def ErrorHandler_def)
  with e rd show ?thesis by (intro exI[of _ r'] exI[of _ ?e]) simp
qed

text \<open>A request whose handler panics is answered with status 500; it is not logged and not counted, and the
  gauge of requests in flight stays raised by one for ever.
\<close>

theorem panicking_request_leaks:
  assumes "rq_Method rq \<noteq> ''OPTIONS''" and "h (snd (read_request rq)) (s\<lparr>sv_InFlight := sv_InFlight s + 1\<rparr>) = (Panic m, s\<lparr>sv_InFlight := sv_InFlight s + 1\<rparr>)"
  shows "\<exists>r. all_routes json origin fresh h rq s = (Ret r, s\<lparr>sv_InFlight := sv_InFlight s + 1\<rparr>) \<and> rs_Status r = 500"
proof -
  obtain b rq' where rd: "read_request rq = (b, rq')" by fastforce
  then have same: "rq_Method rq' = rq_Method rq" by (auto simp: read_request_def split: option.splits if_splits)
  show ?thesis using assms rd same
    by (simp add: all_routes_def Recovery_def ErrorHandler_def TraceMiddleware_def CORSMiddleware_def MetricsMiddleware_def Let_def)
qed

text \<open>The log has no bodies of requests under /auth/, but it has the beginning of every other JSON body, such as
  the settings of a tenant with its API keys.\<close>

lemma auth_bodies_are_not_logged:
  "prefix ''/auth/'' (rq_Path rq) \<Longrightarrow> fst (read_request rq) = '''' \<and> ae_RespBody (access_entry_of i b rq r) = ''''"
  by (auto simp: read_request_def isSensitivePath_def sensitivePathPrefixes_def access_entry_of_def split: option.split)

lemma settings_are_logged:
  assumes "rq_Path rq = ''/tenant/settings''" and "rq_ContentType rq = ''application/json''" and "rq_Body rq = Some (raw, None)" and "length raw \<le> maxBodyLogSize"
  shows "ae_ReqBody (access_entry_of i (fst (read_request rq)) rq r) = raw"
  using assms by (simp add: access_entry_of_def read_request_def isSensitivePath_def sensitivePathPrefixes_def isJSONContent_def logged_body_def)

text \<open>A JSON body whose transfer breaks off reaches the handlers as a whole one.\<close>

lemma broken_body_looks_whole:
  "\<not> isSensitivePath (rq_Path rq) \<Longrightarrow> isJSONContent (rq_ContentType rq) \<Longrightarrow> rq_Body rq = Some (raw, Some e) \<Longrightarrow>
     rq_Body (snd (read_request rq)) = Some (raw, None)"
  by (simp add: read_request_def)

text \<open>A preflight is answered without any handler.\<close>

lemma preflight_answered:
  "rq_Method rq = ''OPTIONS'' \<Longrightarrow> \<exists>r s'. all_routes json origin fresh h rq s = (Ret r, s') \<and> rs_Status r = 204 \<and> sv_App s' = sv_App s"
  by (auto simp: all_routes_def Recovery_def ErrorHandler_def TraceMiddleware_def CORSMiddleware_def Let_def read_request_def split: option.split)

text \<open>The guard of tenant.go lets a request pass only with the claims of a valid token, with one of its three
  roles, and with a tenant unless it is the global administrator's.\<close>

lemma tenant_guard_passes:
  "TenantAuthMiddleware parse c = Next c' \<Longrightarrow> \<exists>scheme tok claims. split_space (rc_Authorization c) = Some (scheme, tok) \<and> parse tok = Some claims \<and>
     tn_Role claims \<in> {''tenant_admin'', ''tenant_user'', ''global_admin''} \<and> (tn_Role claims = ''global_admin'' \<or> tn_TenantID claims \<noteq> '''') \<and>
     FromContext (rc_tenant c') = Some \<lparr>tc_TenantID = tn_TenantID claims, tc_UserID = tn_Subject claims, tc_Role = tn_Role claims\<rparr>"
  by (auto simp: TenantAuthMiddleware_def WithTenant_def FromContext_def split: if_splits option.splits)

lemma namespace_roundtrip: "NamespaceMiddleware n c = Next c' \<Longrightarrow> GetNamespace c' = n"
  "TenantMiddleware x c = Next c' \<Longrightarrow> GetTenantID c' = (if x = '''' then ''default'' else x)"
  by (auto simp: NamespaceMiddleware_def GetNamespace_def TenantMiddleware_def GetTenantID_def)

section \<open>Examples\<close>

definition demo_rq :: request where
  "demo_rq = \<lparr>rq_Method = ''POST'', rq_Path = ''/knowledge/query'', rq_Query = '''', rq_ContentType = ''application/json'', rq_RequestID = ''r1'', rq_Origin = '''',
     rq_Body = Some (''{}'', None)\<rparr>"

definition demo_server :: "unit server" where
  "demo_server = \<lparr>sv_InFlight = 0, sv_Requests = [], sv_Access = [], sv_App = ()\<rparr>"

theorem returned_request_is_logged_witness:
  "\<exists>r' e. all_routes demo_json ''*'' ''x'' (\<lambda>_ s. (Ret \<lparr>rs_Status = 404, rs_Writes = [''{}''], rs_Written = True, rs_ContentType = '''', rs_Headers = [], rs_Tenant = None, rs_Errors = []\<rparr>, s))
      demo_rq demo_server = (Ret r', \<lparr>sv_InFlight = 0, sv_Requests = [(''POST'', ''/knowledge/query'', 404)], sv_Access = [e], sv_App = ()\<rparr>) \<and> ae_Level e = Warn"
proof -
  let ?r = "\<lparr>rs_Status = 404, rs_Writes = [''{}''], rs_Written = True, rs_ContentType = '''', rs_Headers = [], rs_Tenant = None, rs_Errors = []\<rparr>"
  have "rq_Method demo_rq \<noteq> ''OPTIONS''" by (simp add: demo_rq_def)
  from returned_request_is_logged[OF this, of "\<lambda>_ s. (Ret ?r, s)" demo_server ?r "demo_server\<lparr>sv_InFlight := sv_InFlight demo_server + 1\<rparr>" demo_json "''*''" "''x''"]
  show ?thesis by (auto simp: demo_server_def demo_rq_def level_of_def)
qed

theorem panicking_request_leaks_witness:
  "\<exists>r. all_routes demo_json ''*'' ''x'' (\<lambda>_ s. (Panic ''index out of range'', s)) demo_rq demo_server = (Ret r, demo_server\<lparr>sv_InFlight := 1\<rparr>) \<and> rs_Status r = 500"
proof -
  have "rq_Method demo_rq \<noteq> ''OPTIONS''" by (simp add: demo_rq_def)
  from panicking_request_leaks[OF this, of "\<lambda>_ s. (Panic ''index out of range'', s)" demo_server "''index out of range''" demo_json "''*''" "''x''"]
  show ?thesis by (simp add: demo_server_def)
qed

end
