(* ===== verification/Serving.thy ===== *)
theory Serving
  imports Router RAG_Handler
begin

text \<open>
  Requests on conversations and knowledge workspaces as the server gets them: the route of a call in the
  table of api/router.go, the guards of the route, and then the handler on the tables of the tenants. A
  request is the time of its arrival, its Authorization header and the call; the keys and the tenant of its
  context are set by the guards only.

  Proved: with a JWT service, the tables of a tenant change only by requests that carry a token for this
  tenant: a user's conversations by tokens of this user, but for added messages, for which every token of the
  tenant does, and the workspaces by tokens of its admins and owners.
\<close>

section \<open>Through the router to the handler\<close>

datatype server_call =
    OnChat chat_call
  | AddMsg string "error + string \<times> string"
  | OnWorkspaces rag_call

text \<open>Method and path of a call.\<close>

fun endpoint :: "server_call \<Rightarrow> string \<times> string" where
  "endpoint (OnChat (CreateConv agentID name)) = (''POST'', ''/agents/:id/conversations'')"
| "endpoint (OnChat (ListConvs agentID)) = (''GET'', ''/agents/:id/conversations'')"
| "endpoint (OnChat (RenameConv convID body)) = (''PATCH'', ''/conversations/:convID'')"
| "endpoint (OnChat (DeleteConv convID)) = (''DELETE'', ''/conversations/:convID'')"
| "endpoint (OnChat (ListMsgs convID)) = (''GET'', ''/conversations/:convID/messages'')"
| "endpoint (AddMsg convID body) = (''POST'', ''/conversations/:convID/messages'')"
| "endpoint (OnWorkspaces (CreateWs body)) = (''POST'', ''/knowledge/workspaces'')"
| "endpoint (OnWorkspaces (ListWs broken)) = (''GET'', ''/knowledge/workspaces'')"
| "endpoint (OnWorkspaces (UpdateWs name body)) = (''PATCH'', ''/knowledge/workspaces/:name'')"
| "endpoint (OnWorkspaces (DeleteWs name)) = (''DELETE'', ''/knowledge/workspaces/:name'')"

definition route_of :: "bool \<Rightarrow> bool \<Rightarrow> server_call \<Rightarrow> route option" where
  "route_of jwt db q = find (\<lambda>r. (rt_method r, rt_path r) = endpoint q) (SetupRouter jwt db)"

record tenant_server =
  sr_lib :: jwt_lib
  sr_status :: "(string \<Rightarrow> error + string) option"
  sr_env :: env
  sr_pg :: pg_types
  sr_uni :: "rune \<Rightarrow> bool"
  sr_verr :: error
  sr_db :: bool

type_synonym http_request = "int \<times> string \<times> server_call"

definition arriving :: "string \<Rightarrow> req_ctx" where
  "arriving auth = \<lparr>rc_Authorization = auth, rc_keys = Map.empty, rc_tenant = None\<rparr>"

fun handled :: "tenant_server \<Rightarrow> req_ctx \<Rightarrow> server_call \<Rightarrow> tworld \<Rightarrow> reply \<times> tworld" where
  "handled S c (OnChat q) w = serve_chat (sr_env S) (sr_pg S) (sr_uni S) c q w"
| "handled S c (AddMsg convID body) w = h_AddMessage (sr_env S) (sr_pg S) (sr_uni S) c convID body w"
| "handled S c (OnWorkspaces q) w = serve_rag (sr_env S) (sr_verr S) c q w"

definition http_serve :: "tenant_server \<Rightarrow> http_request \<Rightarrow> tworld \<Rightarrow> reply \<times> tworld" where
  "http_serve S rq w =
     (case rq of (now, auth, q) \<Rightarrow>
       (case route_of True (sr_db S) q of
          None \<Rightarrow> (gin_error 404 ''404 page not found'', w)
        | Some r \<Rightarrow>
            (case reach (sr_lib S) now (sr_status S) r (arriving auth) of
               Abort code msg \<Rightarrow> (gin_error code msg, w)
             | Next c \<Rightarrow> handled S c q w)))"

fun http_serve_all :: "tenant_server \<Rightarrow> http_request list \<Rightarrow> tworld \<Rightarrow> reply list \<times> tworld" where
  "http_serve_all S [] w = ([], w)"
| "http_serve_all S (rq # rqs) w = (case http_serve S rq w of (p, w1) \<Rightarrow> (case http_serve_all S rqs w1 of (ps, w2) \<Rightarrow> (p # ps, w2)))"

lemma http_serve_all_state: "snd (http_serve_all S (rq # rqs) w) = snd (http_serve_all S rqs (snd (http_serve S rq w)))"
  by (simp add: split_beta)

section \<open>Who is asking\<close>

text \<open>Every call has its route with its guards.\<close>

fun changes_workspaces :: "server_call \<Rightarrow> bool" where
  "changes_workspaces (OnWorkspaces (ListWs broken)) = False"
| "changes_workspaces (OnWorkspaces q) = True"
| "changes_workspaces q = False"

definition guards_fit :: "server_call \<Rightarrow> guard list \<Rightarrow> bool" where
  "guards_fit q gs \<longleftrightarrow> gs \<noteq> [] \<and> hd gs = JWT \<and> JWT \<notin> set (tl gs) \<and> InjectTenant \<in> set (tl gs) \<and>
     (changes_workspaces q \<longrightarrow> TenantRole ''admin'' \<in> set (tl gs))"

lemma route_guards: "(case route_of True db q of None \<Rightarrow> False | Some r \<Rightarrow> guards_fit q (rt_guards r))"
proof (cases q)
  case (OnChat q')
  then show ?thesis by (cases q'; cases db) (simp_all only: route_of_def endpoint.simps route_table, code_simp+)
next
  case (AddMsg i b)
  then show ?thesis by (cases db) (simp_all only: route_of_def endpoint.simps route_table, code_simp+)
next
  case (OnWorkspaces q')
  then show ?thesis by (cases q'; cases db) (simp_all only: route_of_def endpoint.simps route_table, code_simp+)
qed

lemma no_tenant_no_context:
  assumes "run_chain (map (guard_fn lib now status) gs) c = Next d" "JWT \<notin> set gs" "key_or_empty c ''auth.tenant_id'' = ''''"
  shows "d = c"
  using assms
proof (induction gs arbitrary: c)
  case (Cons g gs)
  from Cons.prems(1) obtain e where e: "guard_fn lib now status g c = Next e" and rest: "run_chain (map (guard_fn lib now status) gs) e = Next d"
    by (auto split: outcome.splits)
  have "e = c" using e guard_fn_Next(2)[OF e] Cons.prems(2,3) by (cases "g = InjectTenant") (auto simp: InjectTenantContext_def Let_def)
  with rest Cons show ?case by simp
qed simp

text \<open>A request that comes to its handler has the tenant and the user of its token.\<close>

lemma reaching_identity:
  assumes "guards_fit q (rt_guards r)" and "reach lib now status r (arriving auth) = Next c"
  shows "\<exists>tok claims. auth = ''Bearer '' @ tok \<and> Verify lib now tok = Inr claims \<and>
    tenantIDFromCtx c = (if tk_TenantID claims = '''' then None else Some (tk_TenantID claims)) \<and> userIDFromCtx c = Some (tk_Sub claims) \<and>
    (changes_workspaces q \<longrightarrow> tk_Role claims \<in> {''admin'', ''owner''})"
proof -
  obtain gs where gs: "rt_guards r = JWT # gs" "JWT \<notin> set gs" "InjectTenant \<in> set gs" "changes_workspaces q \<longrightarrow> TenantRole ''admin'' \<in> set gs"
    using assms(1) by (cases "rt_guards r") (auto simp: guards_fit_def)
  from assms(2) gs(1) obtain c1 where c1: "JWTMiddleware lib now (arriving auth) = Next c1" and rest: "run_chain (map (guard_fn lib now status) gs) c1 = Next c"
    by (auto simp: reach_def split: outcome.splits)
  from c1 obtain tok claims where tok: "rc_Authorization (arriving auth) = ''Bearer '' @ tok" "Verify lib now tok = Inr claims"
    and keys: "c1 = (arriving auth)\<lparr>rc_keys := (rc_keys (arriving auth))(''auth.sub'' \<mapsto> tk_Sub claims, ''auth.tenant_id'' \<mapsto> tk_TenantID claims,
                  ''auth.role'' \<mapsto> tk_Role claims, ''auth.global_role'' \<mapsto> tk_GlobalRole claims, ''auth.jti'' \<mapsto> tk_JTI claims)\<rparr>"
    by (rule JWTMiddleware_Next)
  have k: "key_or_empty c1 ''auth.role'' = tk_Role claims" "key_or_empty c1 ''auth.sub'' = tk_Sub claims" "key_or_empty c1 ''auth.tenant_id'' = tk_TenantID claims"
    by (simp_all add: keys key_or_empty_def)
  note g = guards_Next[OF rest gs(2), unfolded k]
  have "tenantIDFromCtx c = (if tk_TenantID claims = '''' then None else Some (tk_TenantID claims))"
  proof (cases "tk_TenantID claims = ''''")
    case True
    then have "c = c1" using no_tenant_no_context[OF rest gs(2)] k by simp
    with True show ?thesis by (simp add: keys arriving_def tenantIDFromCtx_def FromContext_def)
  next
    case False
    with g gs(3) show ?thesis by (simp add: tenantIDFromCtx_def)
  qed
  moreover have "userIDFromCtx c = Some (tk_Sub claims)" using g by (simp add: userIDFromCtx_def keys)
  moreover have "role_rank ''admin'' \<le> role_rank s \<Longrightarrow> s \<in> {''admin'', ''owner''}" for s by (auto simp: role_rank_def split: if_splits)
  ultimately show ?thesis using tok g gs(4) by (auto simp: arriving_def)
qed

section \<open>What each kind of request keeps\<close>

lemma framed_both: "framed R s w w' \<Longrightarrow> framed Q s w w' \<Longrightarrow> framed (\<lambda>d d'. R d d' \<and> Q d d') s w w'"
  by (cases "tw_schemas w s"; cases "tw_schemas w' s") (simp_all add: framed_def)

definition same_workspaces :: "ten_db \<Rightarrow> ten_db \<Rightarrow> bool" where
  "same_workspaces d d' \<longleftrightarrow> d_workspaces d' = d_workspaces d"

definition same_chats :: "ten_db \<Rightarrow> ten_db \<Rightarrow> bool" where
  "same_chats d d' \<longleftrightarrow> d_convs d' = d_convs d \<and> d_msgs d' = d_msgs d"

interpretation ws_same: table_frame same_workspaces
  by unfold_locales (simp_all add: same_workspaces_def)

interpretation chats_same: table_frame same_chats
  by unfold_locales (simp_all add: same_chats_def)

text \<open>The statements on conversations and messages.\<close>

lemma chat_statements_workspaces:
  "same_workspaces d (snd (ins_conv a u n t i d))" "same_workspaces d (snd (upd_conv_name pg cid u n t i d))"
  "same_workspaces d (snd (del_conv pg cid u t i d))" "same_workspaces d (snd (bump_conv pg cid t i d))"
  "same_workspaces d (snd (ins_msg pg m steps t i d))"
  by (simp_all add: same_workspaces_def ins_conv_def upd_conv_name_def del_conv_def bump_conv_def ins_msg_def with_uuid_def drop_convs_def Let_def
      split: option.split)

lemma chat_workspaces:
  assumes "tenantIDFromCtx c = Some tid" "userIDFromCtx c = Some u"
  shows "framed same_workspaces (chat_schema tid) w (snd (serve_chat ev pg uni c q w))"
  by (cases q)
    (auto simp: Chat.handler_defs snd_case_sum split_beta split: sum.split
      intro!: with_identity_framed[OF assms] chat_ops_framed[OF ws_same.table_frame_axioms] chat_statements_workspaces ws_same.framed_refl)

definition tables_kept :: "ten_db \<Rightarrow> ten_db \<Rightarrow> bool" where
  "tables_kept d d' \<longleftrightarrow> (tables_ok d \<longrightarrow> tables_ok d') \<and> same_workspaces d d'"

interpretation tables: table_frame tables_kept
  by unfold_locales (auto simp: tables_kept_def same_workspaces_def)

lemma bump_conv_kept: "tables_kept d (snd (bump_conv pg cid t i d))"
proof -
  have "tables_kept d (d\<lparr>d_convs := map_where P f (d_convs d)\<rparr>)"
    if f: "f = (\<lambda>c. c\<lparr>cv_UpdatedAt := t, cv_ExpiresAt := t + thirty_days\<rparr>)" for P f
  proof -
    have 1: "map cv_ID (map_where P f (d_convs d)) = map cv_ID (d_convs d)" by (rule map_map_where) (simp add: f)
    have 2: "cv_ID ` set (map_where P f (d_convs d)) = cv_ID ` set (d_convs d)"
      "cv_AgentID ` set (map_where P f (d_convs d)) = cv_AgentID ` set (d_convs d)"
      by (rule image_map_where, simp add: f)+
    show ?thesis by (simp add: tables_kept_def same_workspaces_def tables_ok_def 1 2)
  qed
  then show ?thesis by (simp add: bump_conv_def with_uuid_def tables.R_refl split: option.split)
qed

lemma ins_msg_kept: "tables_kept d (snd (ins_msg pg m steps t i d))"
  by (auto simp: ins_msg_def with_uuid_def tables_kept_def same_workspaces_def tables_ok_def list_ex_iff split: option.split)

lemma AddMessage_framed: "framed tables_kept (chat_schema tid) w (snd (snd (AddMessage ev pg uni tid msg w)))"
proof -
  have "framed tables_kept s w (snd (snd (add_body ev pg s m steps t w)))" for s m steps t w
  proof (cases "t_stmt ev t s (bump_conv pg (cm_ConversationID m)) w")
    case (Pair r w1)
    have 1: "framed tables_kept s w w1" using tables.t_stmt_framed[of "bump_conv pg (cm_ConversationID m)" s w ev t, OF bump_conv_kept] Pair by simp
    show ?thesis
    proof (cases r)
      case (Inr n)
      from tables.framed_trans[OF 1 tables.one_stmt_framed[of "ins_msg pg m steps" s w1 ev t, OF ins_msg_kept]] show ?thesis
        by (simp add: add_body_def Pair Inr)
    qed (simp add: add_body_def Pair 1)
  qed
  then show ?thesis
    by (simp add: AddMessage_def Let_def split_beta execTenantID_framed[OF tables.table_frame_axioms])
qed

lemma h_AddMessage_framed:
  assumes "tenantIDFromCtx c = Some tid" "userIDFromCtx c = Some u"
  shows "framed tables_kept (chat_schema tid) w (snd (h_AddMessage ev pg uni c convID body w))"
proof -
  obtain r w1 where l: "ListMessages ev pg uni tid convID u w = (r, w1)" by fastforce
  have 1: "framed tables_kept (chat_schema tid) w w1"
    using chat_ops_framed(5)[OF tables.table_frame_axioms, of tid w ev pg uni convID u] l by simp
  have 2: "framed tables_kept (chat_schema tid) w w2" if "AddMessage ev pg uni tid m w1 = (e, m', w2)" for m e m' w2
    using tables.framed_trans[OF 1 AddMessage_framed[of tid w1 ev pg uni m]] that by simp
  show ?thesis
  proof (cases body)
    case (Inr b)
    obtain role content where b: "b = (role, content)" by fastforce
    obtain e m' w2 where add: "AddMessage ev pg uni tid (new_message convID role content) w1 = (e, m', w2)" by (metis prod_cases3)
    from 1 2[OF add] show ?thesis using assms
      by (cases r; cases e) (simp_all add: h_AddMessage_def with_identity_def Inr b l add tables.framed_refl)
  qed (use assms in \<open>simp add: h_AddMessage_def with_identity_def tables.framed_refl\<close>)
qed

text \<open>The statements on workspaces.\<close>

lemma ws_statements_chats:
  "same_chats d (snd (ins_workspace name descr cfg t i d))" "same_chats d (snd (upd_workspace dd cfg name t i d))"
  "same_chats d (snd (del_workspace name t i d))" "same_chats d (snd (sel_workspaces t i d))"
  by (simp_all add: same_chats_def ins_workspace_def upd_workspace_def del_workspace_def sel_workspaces_def Let_def)

lemma serve_rag_chats:
  assumes "tenantIDFromCtx c = Some tid"
  shows "framed same_chats (chat_schema tid) w (snd (serve_rag ev verr c q w))"
proof (cases q)
  case (UpdateWs name body)
  then show ?thesis using chats_same.update_framed[OF assms] ws_statements_chats(2) by simp
qed (use assms in \<open>auto simp: CreateWorkspace_def ListWorkspaces_def DeleteWorkspace_def direct_def chats_same.framed_refl snd_case_sum
    split_beta split: sum.split intro!: chats_same.t_stmt_framed ws_statements_chats\<close>)

lemma list_workspaces_same:
  assumes "tenantIDFromCtx c = Some tid"
  shows "framed same_workspaces (chat_schema tid) w (snd (serve_rag ev verr c (ListWs broken) w))"
  using assms by (auto simp: ListWorkspaces_def direct_def snd_case_sum sel_workspaces_def same_workspaces_def split_beta
      split: sum.split intro!: ws_same.t_stmt_framed)

section \<open>Who may change what\<close>

text \<open>The claims of the token that a request carries, if it is valid at the time.\<close>

definition claims_of :: "tenant_server \<Rightarrow> http_request \<Rightarrow> TokenClaims option" where
  "claims_of S rq = (case rq of (now, auth, q) \<Rightarrow>
     (case bearer auth of None \<Rightarrow> None | Some tok \<Rightarrow> (case Verify (sr_lib S) now tok of Inl _ \<Rightarrow> None | Inr claims \<Rightarrow> Some claims)))"

text \<open>The requests that may change conversations of the user \<open>u\<close> of the tenant \<open>tid\<close>: his own, and the messages that
  anyone of the tenant adds; and those that may change the workspaces of the tenant.\<close>

definition may_change_chats :: "tenant_server \<Rightarrow> string \<Rightarrow> string \<Rightarrow> http_request \<Rightarrow> bool" where
  "may_change_chats S tid u rq \<longleftrightarrow> (case claims_of S rq of
     None \<Rightarrow> False
   | Some claims \<Rightarrow> tk_TenantID claims = tid \<and> (case snd (snd rq) of OnChat _ \<Rightarrow> tk_Sub claims = u | AddMsg _ _ \<Rightarrow> True | OnWorkspaces _ \<Rightarrow> False))"

definition may_change_workspaces :: "tenant_server \<Rightarrow> string \<Rightarrow> http_request \<Rightarrow> bool" where
  "may_change_workspaces S tid rq \<longleftrightarrow> (case claims_of S rq of
     None \<Rightarrow> False
   | Some claims \<Rightarrow> tk_TenantID claims = tid \<and> tk_Role claims \<in> {''admin'', ''owner''} \<and> changes_workspaces (snd (snd rq)))"

text \<open>A user's conversations with the messages of each.\<close>

definition conversations_of :: "string \<Rightarrow> ten_db \<Rightarrow> (conv_row \<times> msg_row list) list" where
  "conversations_of u d = map (\<lambda>c. (c, filter (\<lambda>m. ms_ConversationID m = cv_ID c) (d_msgs d))) (filter (\<lambda>c. cv_UserID c = u) (d_convs d))"

lemma others_same_conversations:
  assumes "others_same v d d'" "u \<noteq> v"
  shows "conversations_of u d' = conversations_of u d"
proof -
  have "filter (\<lambda>c. cv_UserID c = u) (filter (\<lambda>c. cv_UserID c \<noteq> v) cs) = filter (\<lambda>c. cv_UserID c = u) cs" for cs
    using assms(2) by (induction cs) auto
  then have "filter (\<lambda>c. cv_UserID c = u) (d_convs d') = filter (\<lambda>c. cv_UserID c = u) (d_convs d)"
    using assms(1) unfolding others_same_def by metis
  then show ?thesis using assms unfolding conversations_of_def others_same_def by auto
qed

text \<open>What a request keeps of the tables of a tenant.\<close>

definition keeps :: "tenant_server \<Rightarrow> string \<Rightarrow> http_request \<Rightarrow> ten_db \<Rightarrow> ten_db \<Rightarrow> bool" where
  "keeps S tid rq d d' \<longleftrightarrow> rag_ok d' \<and> (\<forall>u. \<not> may_change_chats S tid u rq \<longrightarrow> conversations_of u d' = conversations_of u d) \<and>
     (\<not> may_change_workspaces S tid rq \<longrightarrow> d_workspaces d' = d_workspaces d)"

lemma keeps_refl: "rag_ok d \<Longrightarrow> keeps S tid rq d d"
  by (simp add: keeps_def)

lemma handled_without_tenant: "tenantIDFromCtx c = None \<Longrightarrow> snd (handled S c q w) = w"
proof (cases q)
  case (OnChat q')
  then show "tenantIDFromCtx c = None \<Longrightarrow> snd (handled S c q w) = w" by (cases q') (simp_all add: Chat.handler_defs with_identity_def)
next
  case (AddMsg i b)
  then show "tenantIDFromCtx c = None \<Longrightarrow> snd (handled S c q w) = w" by (simp add: h_AddMessage_def with_identity_def)
next
  case (OnWorkspaces q')
  then show "tenantIDFromCtx c = None \<Longrightarrow> snd (handled S c q w) = w"
    by (cases q') (simp_all add: CreateWorkspace_def ListWorkspaces_def UpdateWorkspace_def DeleteWorkspace_def)
qed

text \<open>The frame of a handler, by what it handles.\<close>

definition handler_frame :: "string \<Rightarrow> server_call \<Rightarrow> ten_db \<Rightarrow> ten_db \<Rightarrow> bool" where
  "handler_frame v q d d' \<longleftrightarrow> (case q of
     OnChat _ \<Rightarrow> others_kept v d d' \<and> same_workspaces d d'
   | AddMsg _ _ \<Rightarrow> tables_kept d d'
   | OnWorkspaces q' \<Rightarrow> rag_kept d d' \<and> same_chats d d' \<and> (\<not> changes_workspaces q \<longrightarrow> same_workspaces d d'))"

lemma handled_framed:
  assumes "tenantIDFromCtx c = Some t" "userIDFromCtx c = Some v"
  shows "framed (handler_frame v q) (chat_schema t) w (snd (handled S c q w))"
proof (cases q)
  case (OnChat q')
  then show ?thesis
    using framed_both[OF serve_chat_framed[OF assms] chat_workspaces[OF assms]] by (simp add: handler_frame_def[abs_def])
next
  case (AddMsg i b)
  then show ?thesis using h_AddMessage_framed[OF assms] by (simp add: handler_frame_def[abs_def])
next
  case (OnWorkspaces q')
  have both: "framed (\<lambda>d d'. rag_kept d d' \<and> same_chats d d') (chat_schema t) w (snd (serve_rag (sr_env S) (sr_verr S) c q' w))"
    by (rule framed_both[OF serve_rag_framed[OF assms(1)] serve_rag_chats[OF assms(1)]])
  show ?thesis
  proof (cases q')
    case (ListWs broken)
    from framed_both[OF both[unfolded ListWs] list_workspaces_same[OF assms(1)]] show ?thesis
      by (simp add: handler_frame_def[abs_def] OnWorkspaces ListWs conj_assoc)
  qed (use both OnWorkspaces in \<open>simp_all add: handler_frame_def[abs_def]\<close>)
qed

lemma handler_frame_keeps:
  assumes "handler_frame v q d d'" "rag_ok d" "claims_of S (now, auth, q) = Some claims" "tk_TenantID claims = tid" "tk_Sub claims = v"
    and "changes_workspaces q \<longrightarrow> tk_Role claims \<in> {''admin'', ''owner''}"
  shows "keeps S tid (now, auth, q) d d'"
proof (cases q)
  case (OnChat q')
  then show ?thesis using assms others_same_conversations[of v d d']
    by (auto simp: handler_frame_def keeps_def may_change_chats_def others_kept_def same_workspaces_def rag_ok_def)
next
  case (AddMsg i b)
  then show ?thesis using assms by (auto simp: handler_frame_def keeps_def may_change_chats_def tables_kept_def same_workspaces_def rag_ok_def)
next
  case (OnWorkspaces q')
  then show ?thesis using assms
    by (auto simp: handler_frame_def keeps_def may_change_workspaces_def rag_kept_def same_chats_def same_workspaces_def conversations_of_def)
qed

lemma http_serve_keeps:
  assumes "tw_schemas w (chat_schema tid) = Some d" "rag_ok d"
  shows "\<exists>d'. tw_schemas (snd (http_serve S rq w)) (chat_schema tid) = Some d' \<and> keeps S tid rq d d'"
proof -
  obtain now auth q where rq: "rq = (now, auth, q)" by (cases rq) auto
  obtain r where r: "route_of True (sr_db S) q = Some r" "guards_fit q (rt_guards r)" using route_guards[where db = "sr_db S" and q = q] by (auto split: option.splits)
  show ?thesis
  proof (cases "reach (sr_lib S) now (sr_status S) r (arriving auth)")
    case (Abort code msg)
    then show ?thesis using assms keeps_refl by (simp add: http_serve_def rq r)
  next
    case (Next c)
    then have served: "snd (http_serve S rq w) = snd (handled S c q w)" by (simp add: http_serve_def rq r)
    obtain tok claims where tok: "auth = ''Bearer '' @ tok" "Verify (sr_lib S) now tok = Inr claims"
      and who: "tenantIDFromCtx c = (if tk_TenantID claims = '''' then None else Some (tk_TenantID claims))" "userIDFromCtx c = Some (tk_Sub claims)"
        "changes_workspaces q \<longrightarrow> tk_Role claims \<in> {''admin'', ''owner''}"
      using reaching_identity[OF r(2) Next] by blast
    have cl: "claims_of S (now, auth, q) = Some claims" using tok by (simp add: claims_of_def bearer_def)
    show ?thesis
    proof (cases "tk_TenantID claims = ''''")
      case True
      then show ?thesis using assms keeps_refl handled_without_tenant[of c S q w] who(1) unfolding served by simp
    next
      case False
      then have fr: "framed (handler_frame (tk_Sub claims) q) (chat_schema (tk_TenantID claims)) w (snd (http_serve S rq w))"
        unfolding served using who by (intro handled_framed) simp_all
      show ?thesis
      proof (cases "tk_TenantID claims = tid")
        case True
        from framed_Some[OF fr] assms(1) True obtain d' where "tw_schemas (snd (http_serve S rq w)) (chat_schema tid) = Some d'"
          "handler_frame (tk_Sub claims) q d d'" by blast
        then show ?thesis using handler_frame_keeps[OF _ assms(2) cl True refl who(3)] unfolding rq by blast
      next
        case False
        then have "chat_schema tid \<noteq> chat_schema (tk_TenantID claims)" by (simp add: chat_schema_def)
        from framed_other[OF fr this] assms show ?thesis using keeps_refl by simp
      qed
    qed
  qed
qed


text \<open>A member of the tenant asks to delete the conversation of another user and to make a workspace, and a request
  without a token to delete the conversation.\<close>

definition member_claims :: TokenClaims where
  "member_claims = demo_claims\<lparr>tk_Sub := ''u2'', tk_Role := ''member''\<rparr>"

definition member_server :: tenant_server where
  "member_server = \<lparr>sr_lib = fixed_lib (access_payload 0 900 member_claims), sr_status = None, sr_env = demo_env, sr_pg = demo_pg,
     sr_uni = (\<lambda>_. False), sr_verr = ErrorString '''', sr_db = True\<rparr>"

definition member_requests :: "http_request list" where
  "member_requests = [(1, ''Bearer tok'', OnChat (DeleteConv ''k1'')), (1, '''', OnChat (DeleteConv ''k1'')),
     (1, ''Bearer tok'', OnWorkspaces (CreateWs (Inr demo_ws_request)))]"

lemma member_may_nothing:
  "\<forall>rq\<in>set member_requests. \<not> may_change_chats member_server ''t1'' ''u1'' rq \<and> \<not> may_change_workspaces member_server ''t1'' rq"
proof -
  have "claims_of member_server (1, ''Bearer tok'', q) = Some member_claims" "claims_of member_server (1, '''', q) = None" for q
    by (simp_all add: claims_of_def bearer_def member_server_def Verify_def parse_with_rsa_def fixed_lib_def access_payload_def str_field_simps
        member_claims_def demo_claims_def)
  then show ?thesis by (simp add: member_requests_def may_change_chats_def may_change_workspaces_def member_claims_def)
qed


end
