(* ===== verification/LLM_Clients.thy ===== *)
theory LLM_Clients
  imports LLM_Gateway
begin

text \<open>
  The clients of the two providers, internal/llmgateway/qwen.go and zhipu.go, and the gateway of the
  server's own keys, internal/llmgateway/config.go. The clients are the same code up to names and the
  address, so that one client takes them from its vendor. The encoder and decoders of JSON, the check
  of an address and the HTTP client are a record of functions of the world; a response's body is its
  bytes and the error that may end it. The lines of a stream are those of bufio.Scanner, whose limit
  is 65536 bytes for one line. An empty list of messages is written as an empty list.

  Proved: a completion succeeds exactly on a complete answer with status 200 and a choice; a stream
  hands on exactly the non-empty pieces of its content, in order, and returns the fold of the events
  up to [DONE]; of tool calls that come in pieces only the last event's piece is kept; a stream that
  breaks off with the end of the body counts as complete; the gateway of the server has exactly the
  clients with keys, and with a Zhipu key only its default provider has no client.
\<close>

section \<open>Requests\<close>

definition args_json :: "json_object \<Rightarrow> gval" where
  "args_json kv = (case kv of None \<Rightarrow> VNil | Some kvs \<Rightarrow> VMap kvs)"

definition gw_tool_json :: "Tool \<Rightarrow> gval" where
  "gw_tool_json t =
     VMap [(''type'', VStr (tl_Type t)), (''function'', VMap [(''name'', VStr (tf_Name (tl_Function t))),
             (''description'', VStr (tf_Description (tl_Function t))), (''parameters'', args_json (tf_Parameters (tl_Function t)))])]"

definition call_json :: "GWToolCall \<Rightarrow> gval" where
  "call_json t =
     VMap [(''id'', VStr (gtc_ID t)), (''type'', VStr (gtc_Type t)),
           (''function'', VMap [(''name'', VStr (gtc_Name t)), (''arguments'', VStr (gtc_Arguments t))])]"

text \<open>A field with the option omitempty.\<close>

definition unless_empty :: "bool \<Rightarrow> string \<Rightarrow> gval \<Rightarrow> (string \<times> gval) list" where
  "unless_empty absent key v = (if absent then [] else [(key, v)])"

definition message_json :: "GWMessage \<Rightarrow> gval" where
  "message_json m =
     VMap ((''role'', VStr (gm_Role m)) # unless_empty (gm_Content m = '''') ''content'' (VStr (gm_Content m)) @
           unless_empty (gm_ToolCalls m = []) ''tool_calls'' (VList (map call_json (gm_ToolCalls m))) @
           unless_empty (gm_ToolCallID m = '''') ''tool_call_id'' (VStr (gm_ToolCallID m)))"

definition request_json :: "CompletionRequest \<Rightarrow> gval" where
  "request_json r =
     VMap ([(''model'', VStr (cr_Model r)), (''messages'', VList (map message_json (cr_Messages r)))] @
           unless_empty (cr_Temperature r = 0) ''temperature'' (VFloat (cr_Temperature r)) @
           unless_empty (cr_MaxTokens r = 0) ''max_tokens'' (VInt (cr_MaxTokens r)) @
           unless_empty (cr_TopP r = 0) ''top_p'' (VFloat (cr_TopP r)) @
           unless_empty (cr_Tools r = []) ''tools'' (VList (map gw_tool_json (cr_Tools r))) @
           unless_empty (cr_ToolChoice r = '''') ''tool_choice'' (VStr (cr_ToolChoice r)) @
           unless_empty (\<not> cr_Stream r) ''stream'' (VBool True))"

section \<open>The outside\<close>

text \<open>
  \<open>ha_Broken\<close> is the error that ends the body, and \<open>ha_Early\<close> says whether it has come up by the time
  that a line is found at which reading stops.
\<close>

record http_call =
  hc_URL :: string
  hc_Body :: string
  hc_Authorization :: string
  hc_EventStream :: bool
  hc_Timeout :: "int option"

record http_answer =
  ha_Status :: nat
  ha_Body :: string
  ha_Broken :: "error option"
  ha_Early :: bool

record completion_body =
  ob_Choices :: "(string \<times> GWToolCall list) list"
  ob_Model :: string
  ob_Usage :: "int \<times> int \<times> int"

record chunk_body =
  ck_Choices :: "(string \<times> GWToolCall list) list"
  ck_Model :: string
  ck_Usage :: "(int \<times> int \<times> int) option"

record 'w llm_host =
  lh_Marshal :: "gval \<Rightarrow> error + string"
  lh_BadURL :: "string \<Rightarrow> error option"
  lh_Do :: "http_call \<Rightarrow> 'w \<Rightarrow> (error + http_answer) \<times> 'w"
  lh_Completion :: "string \<Rightarrow> error + completion_body"
  lh_Chunk :: "string \<Rightarrow> error + chunk_body"
  lh_Embeddings :: "string \<Rightarrow> error + rat list list"

record vendor =
  vd_Name :: string
  vd_BaseURL :: string
  vd_HealthModel :: string
  vd_Models :: "string list"

definition qwen :: vendor where
  "qwen = \<lparr>vd_Name = ''qwen'', vd_BaseURL = ''https://dashscope.aliyuncs.com/compatible-mode/v1'', vd_HealthModel = ''qwen-turbo'',
           vd_Models = [''qwen-turbo'', ''qwen-plus'', ''qwen-max'', ''qwen-long'']\<rparr>"

definition zhipu :: vendor where
  "zhipu = \<lparr>vd_Name = ''zhipu'', vd_BaseURL = ''https://open.bigmodel.cn/api/paas/v4'', vd_HealthModel = ''glm-4-flash'',
            vd_Models = [''glm-4-flash'', ''glm-4'', ''glm-4-air'', ''glm-4v'']\<rparr>"

record llm_client =
  lc_vendor :: vendor
  lc_apiKey :: string
  lc_base :: string

definition new_client :: "vendor \<Rightarrow> string \<Rightarrow> llm_client" where
  "new_client v apiKey = \<lparr>lc_vendor = v, lc_apiKey = apiKey, lc_base = vd_BaseURL v\<rparr>"

definition new_client_with_base :: "vendor \<Rightarrow> string \<Rightarrow> string \<Rightarrow> llm_client" where
  "new_client_with_base v apiKey baseURL = \<lparr>lc_vendor = v, lc_apiKey = apiKey, lc_base = baseURL\<rparr>"

definition LLMRequestTimeout :: int where "LLMRequestTimeout = 60 * 10 ^ 9"

section \<open>Posting a request\<close>

definition tag :: "llm_client \<Rightarrow> string \<Rightarrow> string" where
  "tag c s = vd_Name (lc_vendor c) @ '': '' @ s"

definition api_call :: "llm_client \<Rightarrow> string \<Rightarrow> bool \<Rightarrow> string \<Rightarrow> http_call" where
  "api_call c path stream body =
     \<lparr>hc_URL = lc_base c @ path, hc_Body = body, hc_Authorization = ''Bearer '' @ lc_apiKey c, hc_EventStream = stream,
      hc_Timeout = (if stream then None else Some LLMRequestTimeout)\<rparr>"

text \<open>What the three operations have in common up to the response; \<open>what\<close> is their word in the errors.\<close>

definition post :: "'w llm_host \<Rightarrow> llm_client \<Rightarrow> string \<Rightarrow> string \<Rightarrow> bool \<Rightarrow> gval \<Rightarrow> 'w \<Rightarrow> (error + http_answer) \<times> 'w" where
  "post h c what path stream payload w =
     (case lh_Marshal h payload of
        Inl e \<Rightarrow> (Inl (Wrapped (tag c (''marshal '' @ what @ ''request'')) e), w)
      | Inr body \<Rightarrow>
          (case lh_BadURL h (lc_base c @ path) of
             Some e \<Rightarrow> (Inl (Wrapped (tag c (''build '' @ what @ ''request'')) e), w)
           | None \<Rightarrow>
               (case lh_Do h (api_call c path stream body) w of
                  (Inl e, w') \<Rightarrow> (Inl (Wrapped (tag c (''do '' @ what @ ''request'')) e), w')
                | (Inr a, w') \<Rightarrow> (Inr a, w'))))"

definition status_error :: "llm_client \<Rightarrow> string \<Rightarrow> http_answer \<Rightarrow> error" where
  "status_error c what a = ErrorString (tag c (what @ ''status '' @ show_nat (ha_Status a) @ '': '' @ ha_Body a))"

definition whole_body :: "llm_client \<Rightarrow> string \<Rightarrow> http_answer \<Rightarrow> error + string" where
  "whole_body c what a =
     (case ha_Broken a of
        Some e \<Rightarrow> Inl (Wrapped (tag c (''read '' @ what @ ''body'')) e)
      | None \<Rightarrow> if ha_Status a \<noteq> 200 then Inl (status_error c what a) else Inr (ha_Body a))"

section \<open>Complete\<close>

definition completion_of :: "'w llm_host \<Rightarrow> llm_client \<Rightarrow> http_answer \<Rightarrow> error + CompletionResponse" where
  "completion_of h c a =
     (case whole_body c '''' a of
        Inl e \<Rightarrow> Inl e
      | Inr raw \<Rightarrow>
          (case lh_Completion h raw of
             Inl e \<Rightarrow> Inl (Wrapped (tag c ''decode response'') e)
           | Inr out \<Rightarrow>
               (case ob_Choices out of
                  [] \<Rightarrow> Inl (ErrorString (tag c ''no choices in response''))
                | (content, calls) # _ \<Rightarrow>
                    Inr \<lparr>cp_Content = content, cp_Model = ob_Model out, cp_ToolCalls = calls, cp_PromptTokens = fst (ob_Usage out),
                         cp_CompletionTokens = fst (snd (ob_Usage out)), cp_TotalTokens = snd (snd (ob_Usage out))\<rparr>)))"

definition answered :: "error + 'a \<Rightarrow> ('a option \<times> error option) go" where
  "answered r = Ret (case r of Inl e \<Rightarrow> (None, Some e) | Inr x \<Rightarrow> (Some x, None))"

definition client_Complete :: "'w llm_host \<Rightarrow> llm_client \<Rightarrow> 'w completer" where
  "client_Complete h c w req =
     (case post h c '''' ''/chat/completions'' False (request_json req) w of
        (Inl e, w') \<Rightarrow> (w', answered (Inl e))
      | (Inr a, w') \<Rightarrow> (w', answered (completion_of h c a)))"

section \<open>CompleteStream\<close>

definition max_line :: nat where "max_line = 64 * 1024"

definition raw_lines :: "string \<Rightarrow> string list" where
  "raw_lines s = (let ls = split_lines s in if last ls = [] then butlast ls else ls)"

definition drop_cr :: "string \<Rightarrow> string" where
  "drop_cr l = (if l \<noteq> [] \<and> last l = CHR 0x0D then butlast l else l)"

definition scanned_lines :: "string \<Rightarrow> string list" where
  "scanned_lines s = map drop_cr (takeWhile (\<lambda>l. length l < max_line) (raw_lines s))"

definition line_too_long :: "string \<Rightarrow> bool" where
  "line_too_long s = list_ex (\<lambda>l. max_line \<le> length l) (raw_lines s)"

definition ErrTooLong :: error where "ErrTooLong = ErrorString ''bufio.Scanner: token too long''"

definition empty_response :: CompletionResponse where
  "empty_response = \<lparr>cp_Content = '''', cp_Model = '''', cp_ToolCalls = [], cp_PromptTokens = 0, cp_CompletionTokens = 0, cp_TotalTokens = 0\<rparr>"

definition chunk_token :: "chunk_body \<Rightarrow> string" where
  "chunk_token ch = (case ck_Choices ch of [] \<Rightarrow> '''' | (t, _) # _ \<Rightarrow> t)"

definition chunk_calls :: "chunk_body \<Rightarrow> GWToolCall list" where
  "chunk_calls ch = (case ck_Choices ch of [] \<Rightarrow> [] | (_, calls) # _ \<Rightarrow> calls)"

definition apply_chunk :: "CompletionResponse \<Rightarrow> chunk_body \<Rightarrow> CompletionResponse" where
  "apply_chunk r ch =
     (let r1 = (if ck_Model ch \<noteq> '''' then r\<lparr>cp_Model := ck_Model ch\<rparr> else r);
          r2 = (case ck_Usage ch of None \<Rightarrow> r1 | Some (p, q, t) \<Rightarrow> r1\<lparr>cp_PromptTokens := p, cp_CompletionTokens := q, cp_TotalTokens := t\<rparr>);
          r3 = (if chunk_token ch \<noteq> '''' then r2\<lparr>cp_Content := cp_Content r2 @ chunk_token ch\<rparr> else r2)
      in if chunk_calls ch \<noteq> [] then r3\<lparr>cp_ToolCalls := chunk_calls ch\<rparr> else r3)"

definition hand_on :: "'w token_callback \<Rightarrow> 'w \<Rightarrow> chunk_body \<Rightarrow> 'w" where
  "hand_on onToken w ch = (if chunk_token ch \<noteq> '''' then onToken w (chunk_token ch) else w)"

text \<open>The loop over the lines; the result says whether [DONE] ended it.\<close>

fun stream_loop :: "'w llm_host \<Rightarrow> 'w token_callback \<Rightarrow> string list \<Rightarrow> CompletionResponse \<Rightarrow> 'w \<Rightarrow> bool \<times> CompletionResponse \<times> 'w" where
  "stream_loop h onToken [] r w = (False, r, w)"
| "stream_loop h onToken (l # ls) r w =
     (if \<not> HasPrefix l ''data: '' then stream_loop h onToken ls r w
      else if drop 6 l = ''[DONE]'' then (True, r, w)
      else case lh_Chunk h (drop 6 l) of
        Inl _ \<Rightarrow> stream_loop h onToken ls r w
      | Inr ch \<Rightarrow> stream_loop h onToken ls (apply_chunk r ch) (hand_on onToken w ch))"

definition scan_error :: "bool \<Rightarrow> http_answer \<Rightarrow> error option" where
  "scan_error ended a =
     (if ended then (if ha_Early a then ha_Broken a else None) else if line_too_long (ha_Body a) then Some ErrTooLong else ha_Broken a)"

definition read_stream :: "'w llm_host \<Rightarrow> llm_client \<Rightarrow> 'w token_callback \<Rightarrow> http_answer \<Rightarrow> 'w \<Rightarrow> 'w \<times> (error + CompletionResponse)" where
  "read_stream h c onToken a w =
     (if ha_Status a \<noteq> 200 then (w, Inl (status_error c ''stream '' a))
      else case stream_loop h onToken (scanned_lines (ha_Body a)) empty_response w of
        (ended, r, w') \<Rightarrow>
          (w', case scan_error ended a of Some e \<Rightarrow> Inl (Wrapped (tag c ''read stream'') e) | None \<Rightarrow> Inr r))"

definition client_CompleteStream :: "'w llm_host \<Rightarrow> llm_client \<Rightarrow> 'w token_callback \<Rightarrow> 'w completer" where
  "client_CompleteStream h c onToken w req =
     (case post h c ''stream '' ''/chat/completions'' True (request_json (req\<lparr>cr_Stream := True\<rparr>)) w of
        (Inl e, w') \<Rightarrow> (w', answered (Inl e))
      | (Inr a, w') \<Rightarrow> (case read_stream h c onToken a w' of (w'', r) \<Rightarrow> (w'', answered r)))"

section \<open>Embeddings, health and models\<close>

definition embeddings_of :: "'w llm_host \<Rightarrow> llm_client \<Rightarrow> http_answer \<Rightarrow> error + rat list list" where
  "embeddings_of h c a =
     (case whole_body c ''embed '' a of
        Inl e \<Rightarrow> Inl e
      | Inr raw \<Rightarrow> (case lh_Embeddings h raw of Inl e \<Rightarrow> Inl (Wrapped (tag c ''decode embed response'') e) | Inr es \<Rightarrow> Inr es))"

definition client_CreateEmbeddings :: "'w llm_host \<Rightarrow> llm_client \<Rightarrow> 'w embedder" where
  "client_CreateEmbeddings h c w req =
     (case post h c ''embed '' ''/embeddings'' False (VMap [(''model'', VStr (er_Model req)), (''input'', VList (map VStr (er_Input req)))]) w of
        (Inl e, w') \<Rightarrow> (w', answered (Inl e))
      | (Inr a, w') \<Rightarrow> (w', answered (embeddings_of h c a)))"

definition ping :: "llm_client \<Rightarrow> CompletionRequest" where
  "ping c = \<lparr>cr_Model = vd_HealthModel (lc_vendor c), cr_Messages = [\<lparr>gm_Role = ''user'', gm_Content = ''ping'', gm_ToolCalls = [], gm_ToolCallID = ''''\<rparr>],
     cr_Temperature = 0, cr_MaxTokens = 1, cr_TopP = 0, cr_Tools = [], cr_ToolChoice = '''', cr_Stream = False\<rparr>"

definition client_Health :: "'w llm_host \<Rightarrow> llm_client \<Rightarrow> 'w \<Rightarrow> 'w \<times> error option" where
  "client_Health h c w = (case client_Complete h c w (ping c) of (w', Ret (_, e)) \<Rightarrow> (w', e) | (w', _) \<Rightarrow> (w', None))"

definition client_Models :: "llm_client \<Rightarrow> string list" where
  "client_Models c = vd_Models (lc_vendor c)"

text \<open>The client as the interfaces of the gateway.\<close>

definition as_client :: "'w llm_host \<Rightarrow> llm_client \<Rightarrow> 'w LLMClient \<times> 'w embedder" where
  "as_client h c =
     (\<lparr>cl_Complete = client_Complete h c, cl_CompleteStream = Some (client_CompleteStream h c), cl_Health = client_Health h c,
       cl_Models = client_Models c\<rparr>, client_CreateEmbeddings h c)"

definition NewQwenClient :: "'w llm_host \<Rightarrow> string \<Rightarrow> 'w LLMClient \<times> 'w embedder" where
  "NewQwenClient h apiKey = as_client h (new_client qwen apiKey)"

definition NewQwenClientWithBase :: "'w llm_host \<Rightarrow> string \<Rightarrow> string \<Rightarrow> 'w LLMClient \<times> 'w embedder" where
  "NewQwenClientWithBase h apiKey baseURL = as_client h (new_client_with_base qwen apiKey baseURL)"

definition NewZhipuClient :: "'w llm_host \<Rightarrow> string \<Rightarrow> 'w LLMClient \<times> 'w embedder" where
  "NewZhipuClient h apiKey = as_client h (new_client zhipu apiKey)"

definition NewZhipuClientWithBase :: "'w llm_host \<Rightarrow> string \<Rightarrow> string \<Rightarrow> 'w LLMClient \<times> 'w embedder" where
  "NewZhipuClientWithBase h apiKey baseURL = as_client h (new_client_with_base zhipu apiKey baseURL)"

text \<open>The methods of ZhipuClient, the same code as those of QwenClient with its own name, address and models.\<close>

definition ZhipuClient_Complete :: "'w llm_host \<Rightarrow> string \<Rightarrow> string \<Rightarrow> 'w completer" where
  "ZhipuClient_Complete h apiKey base = client_Complete h (new_client_with_base zhipu apiKey base)"

definition ZhipuClient_CompleteStream :: "'w llm_host \<Rightarrow> string \<Rightarrow> string \<Rightarrow> 'w token_callback \<Rightarrow> 'w completer" where
  "ZhipuClient_CompleteStream h apiKey base = client_CompleteStream h (new_client_with_base zhipu apiKey base)"

definition ZhipuClient_CreateEmbeddings :: "'w llm_host \<Rightarrow> string \<Rightarrow> string \<Rightarrow> 'w embedder" where
  "ZhipuClient_CreateEmbeddings h apiKey base = client_CreateEmbeddings h (new_client_with_base zhipu apiKey base)"

definition ZhipuClient_Health :: "'w llm_host \<Rightarrow> string \<Rightarrow> string \<Rightarrow> 'w \<Rightarrow> 'w \<times> error option" where
  "ZhipuClient_Health h apiKey base = client_Health h (new_client_with_base zhipu apiKey base)"

definition ZhipuClient_Models :: "string list" where
  "ZhipuClient_Models = vd_Models zhipu"

lemma zhipu_client_methods:
  "NewZhipuClientWithBase h apiKey base =
     (\<lparr>cl_Complete = ZhipuClient_Complete h apiKey base, cl_CompleteStream = Some (ZhipuClient_CompleteStream h apiKey base),
       cl_Health = ZhipuClient_Health h apiKey base, cl_Models = ZhipuClient_Models\<rparr>, ZhipuClient_CreateEmbeddings h apiKey base)"
  by (simp add: NewZhipuClientWithBase_def as_client_def client_Models_def new_client_with_base_def ZhipuClient_Complete_def
      ZhipuClient_CompleteStream_def ZhipuClient_Health_def ZhipuClient_Models_def ZhipuClient_CreateEmbeddings_def)

section \<open>The gateway of the server's keys\<close>

record Config =
  cf_QwenAPIKey :: string
  cf_ZhipuAPIKey :: string
  cf_DefaultProvider :: ModelProvider

definition LoadConfig :: "(string \<Rightarrow> string) \<Rightarrow> Config" where
  "LoadConfig getenv = \<lparr>cf_QwenAPIKey = getenv ''QWEN_API_KEY'', cf_ZhipuAPIKey = getenv ''ZHIPU_API_KEY'', cf_DefaultProvider = ProviderQwen\<rparr>"

definition register_both :: "ModelProvider \<Rightarrow> 'w LLMClient \<times> 'w embedder \<Rightarrow> 'w Gateway \<Rightarrow> 'w Gateway" where
  "register_both p c g = RegisterEmbeddingClient p (snd c) (RegisterClient p (fst c) g)"

definition InitializeGateway :: "'w llm_host \<Rightarrow> Config \<Rightarrow> 'w Gateway" where
  "InitializeGateway h cfg =
     (let g = (if cf_QwenAPIKey cfg \<noteq> '''' then register_both ProviderQwen (NewQwenClient h (cf_QwenAPIKey cfg)) NewGateway else NewGateway);
          g' = (if cf_ZhipuAPIKey cfg \<noteq> '''' then register_both ProviderZhipu (NewZhipuClient h (cf_ZhipuAPIKey cfg)) g else g)
      in SetDefault (if cf_DefaultProvider cfg \<noteq> '''' then cf_DefaultProvider cfg else ProviderQwen) g')"

section \<open>Completions\<close>

text \<open>A completion succeeds exactly when the request could be sent and its answer came whole, with status 200
  and a choice, and then it is the first choice with the model and usage of the answer.
\<close>

theorem completion_succeeds_iff:
  "(\<exists>w'. client_Complete h c w req = (w', Ret (Some r, None))) \<longleftrightarrow>
     (\<exists>body a out content calls rest w'. lh_Marshal h (request_json req) = Inr body \<and> lh_BadURL h (lc_base c @ ''/chat/completions'') = None \<and>
        lh_Do h (api_call c ''/chat/completions'' False body) w = (Inr a, w') \<and> ha_Broken a = None \<and> ha_Status a = 200 \<and>
        lh_Completion h (ha_Body a) = Inr out \<and> ob_Choices out = (content, calls) # rest \<and>
        r = \<lparr>cp_Content = content, cp_Model = ob_Model out, cp_ToolCalls = calls, cp_PromptTokens = fst (ob_Usage out),
             cp_CompletionTokens = fst (snd (ob_Usage out)), cp_TotalTokens = snd (snd (ob_Usage out))\<rparr>)"
proof -
  have of: "completion_of h c a = Inr r \<longleftrightarrow> (\<exists>out content calls rest. ha_Broken a = None \<and> ha_Status a = 200 \<and> lh_Completion h (ha_Body a) = Inr out \<and>
      ob_Choices out = (content, calls) # rest \<and> r = \<lparr>cp_Content = content, cp_Model = ob_Model out, cp_ToolCalls = calls,
        cp_PromptTokens = fst (ob_Usage out), cp_CompletionTokens = fst (snd (ob_Usage out)), cp_TotalTokens = snd (snd (ob_Usage out))\<rparr>)" for a
    by (auto simp: completion_of_def whole_body_def split: option.splits sum.splits list.splits)
  have ans: "answered x = Ret (Some r, None) \<longleftrightarrow> x = Inr r" for x by (auto simp: answered_def split: sum.splits)
  have post: "post h c '''' ''/chat/completions'' False p w = (Inr a, w') \<longleftrightarrow> (\<exists>body. lh_Marshal h p = Inr body \<and>
      lh_BadURL h (lc_base c @ ''/chat/completions'') = None \<and> lh_Do h (api_call c ''/chat/completions'' False body) w = (Inr a, w'))" for p a w'
    by (auto simp: post_def split: sum.splits option.splits prod.splits)
  have "(\<exists>w'. client_Complete h c w req = (w', Ret (Some r, None))) \<longleftrightarrow>
      (\<exists>a w'. post h c '''' ''/chat/completions'' False (request_json req) w = (Inr a, w') \<and> completion_of h c a = Inr r)"
    by (auto simp: client_Complete_def ans split: prod.splits sum.splits)
  then show ?thesis unfolding post of by blast
qed

section \<open>Streams\<close>

lemma apply_chunk_simps [simp]:
  "cp_Content (apply_chunk r ch) = cp_Content r @ chunk_token ch"
  "cp_ToolCalls (apply_chunk r ch) = (if chunk_calls ch \<noteq> [] then chunk_calls ch else cp_ToolCalls r)"
  by (auto simp: apply_chunk_def Let_def split: option.split prod.split)

text \<open>The events of a stream: the decoded payloads up to [DONE].\<close>

fun stream_events :: "'w llm_host \<Rightarrow> string list \<Rightarrow> chunk_body list" where
  "stream_events h [] = []"
| "stream_events h (l # ls) =
     (if \<not> HasPrefix l ''data: '' then stream_events h ls
      else if drop 6 l = ''[DONE]'' then []
      else case lh_Chunk h (drop 6 l) of Inl _ \<Rightarrow> stream_events h ls | Inr ch \<Rightarrow> ch # stream_events h ls)"

lemma stream_loop_events:
  "\<exists>ended. stream_loop h onToken ls r w = (ended, foldl apply_chunk r (stream_events h ls), foldl (hand_on onToken) w (stream_events h ls))"
  by (induction h onToken ls r w rule: stream_loop.induct) (auto split: sum.split)

lemma hand_on_tokens: "foldl (hand_on onToken) w chs = foldl onToken w (filter (\<lambda>t. t \<noteq> '''') (map chunk_token chs))"
  by (induction chs arbitrary: w) (auto simp: hand_on_def)

lemma content_of_fold: "cp_Content (foldl apply_chunk r chs) = cp_Content r @ concat (map chunk_token chs)"
  by (induction chs arbitrary: r) auto

lemma concat_nonempty: "concat (filter (\<lambda>t. t \<noteq> []) ts) = concat ts"
  by (induction ts) auto

text \<open>A stream that succeeds has handed on, in order, pieces of text none of which is empty and whose
  concatenation is the content that it returns: what was shown is what is returned.
\<close>

theorem stream_hands_on_its_content:
  assumes "client_CompleteStream h c onToken w req = (w', Ret (Some r, None))"
  shows "\<exists>body a w1 ts. lh_Marshal h (request_json (req\<lparr>cr_Stream := True\<rparr>)) = Inr body \<and>
    lh_Do h (api_call c ''/chat/completions'' True body) w = (Inr a, w1) \<and> ha_Status a = 200 \<and>
    w' = foldl onToken w1 ts \<and> '''' \<notin> set ts \<and> concat ts = cp_Content r"
proof -
  let ?p = "request_json (req\<lparr>cr_Stream := True\<rparr>)"
  obtain a w1 where a: "post h c ''stream '' ''/chat/completions'' True ?p w = (Inr a, w1)" "read_stream h c onToken a w1 = (w', Inr r)"
    using assms by (auto simp: client_CompleteStream_def answered_def split: prod.splits sum.splits)
  from a(1) obtain body where b: "lh_Marshal h ?p = Inr body" "lh_Do h (api_call c ''/chat/completions'' True body) w = (Inr a, w1)"
    by (auto simp: post_def split: sum.splits option.splits prod.splits)
  let ?evs = "stream_events h (scanned_lines (ha_Body a))"
  obtain ended where "stream_loop h onToken (scanned_lines (ha_Body a)) empty_response w1 =
      (ended, foldl apply_chunk empty_response ?evs, foldl (hand_on onToken) w1 ?evs)"
    using stream_loop_events[of h onToken "scanned_lines (ha_Body a)" empty_response w1] by blast
  with a(2) have st: "ha_Status a = 200" "r = foldl apply_chunk empty_response ?evs" "w' = foldl (hand_on onToken) w1 ?evs"
    by (auto simp: read_stream_def split: if_splits option.splits)
  let ?ts = "filter (\<lambda>t. t \<noteq> '''') (map chunk_token ?evs)"
  have "cp_Content r = concat ?ts" unfolding st(2) content_of_fold by (simp add: empty_response_def concat_nonempty del: filter_map)
  with b st(1,3) show ?thesis unfolding hand_on_tokens by (intro exI[of _ body] exI[of _ a] exI[of _ w1] exI[of _ ?ts]) auto
qed

text \<open>A stream as the providers write it: an event per line after the word data, with an empty line after
  each, and [DONE] at the end.\<close>

definition data_line :: "string \<Rightarrow> string" where
  "data_line p = ''data: '' @ p"

definition finish :: string where "finish = ''[DONE]''"

definition event_text :: "string \<Rightarrow> string" where
  "event_text p = data_line p @ [newline, newline]"

definition stream_text :: "string list \<Rightarrow> string" where
  "stream_text ps = concat (map event_text ps) @ data_line finish @ [newline]"

lemma data_line_simps [simp]: "HasPrefix (data_line p) ''data: ''" "drop 6 (data_line p) = p" "newline \<in> set (data_line p) \<longleftrightarrow> newline \<in> set p"
  "length (data_line p) = length p + 6" "data_line p \<noteq> []" "newline \<notin> set finish" "length finish = 6"
  by (simp_all add: HasPrefix_def data_line_def newline_def finish_def)

lemma split_lines_cons: "newline \<notin> set l \<Longrightarrow> split_lines (l @ newline # s) = l # split_lines s"
  by (induction l) auto

lemma split_lines_stream:
  "\<forall>p\<in>set ps. newline \<notin> set p \<Longrightarrow>
     split_lines (stream_text ps @ rest) = concat (map (\<lambda>p. [data_line p, []]) ps) @ data_line finish # split_lines rest"
proof (induction ps)
  case Nil
  show ?case using split_lines_cons[of "data_line finish" rest] by (simp add: stream_text_def)
next
  case (Cons p ps)
  have "split_lines (data_line p @ newline # newline # stream_text ps @ rest) = data_line p # [] # split_lines (stream_text ps @ rest)"
    using split_lines_cons[of "data_line p"] Cons.prems by simp
  with Cons show ?case by (simp add: stream_text_def event_text_def)
qed

definition event_ok :: "string \<Rightarrow> bool" where
  "event_ok p \<longleftrightarrow> newline \<notin> set p \<and> length p < max_line - 6 \<and> (p = [] \<or> last p \<noteq> CHR 0x0D) \<and> p \<noteq> ''[DONE]''"

lemma event_line: "event_ok p \<Longrightarrow> length p + 6 < max_line \<and> drop_cr (data_line p) = data_line p"
  by (auto simp: event_ok_def max_line_def drop_cr_def data_line_def)

lemma finish_line: "drop_cr (data_line finish) = data_line finish" "12 < max_line"
  by (simp_all add: drop_cr_def data_line_def finish_def max_line_def)

lemma scanned_stream:
  assumes "\<forall>p\<in>set ps. event_ok p"
  shows "\<exists>ls. scanned_lines (stream_text ps @ rest) = concat (map (\<lambda>p. [data_line p, []]) ps) @ data_line finish # ls"
proof -
  let ?good = "concat (map (\<lambda>p. [data_line p, []]) ps) @ [data_line finish]"
  have "split_lines (stream_text ps @ rest) = ?good @ split_lines rest"
    using split_lines_stream[of ps rest] assms by (auto simp: event_ok_def)
  then have "\<exists>ls. raw_lines (stream_text ps @ rest) = ?good @ ls"
    using split_lines_not_Nil[of rest] by (auto simp: raw_lines_def Let_def butlast_append)
  then obtain ls where raw: "raw_lines (stream_text ps @ rest) = ?good @ ls" by blast
  have "\<forall>l\<in>set ?good. length l < max_line" using assms event_line finish_line(2) by fastforce
  moreover have "map drop_cr ?good = ?good" using assms
  proof (induction ps)
    case (Cons p ps)
    then show ?case using event_line[of p] by (simp add: drop_cr_def)
  qed (simp add: finish_line(1))
  ultimately have "scanned_lines (stream_text ps @ rest) = ?good @ map drop_cr (takeWhile (\<lambda>l. length l < max_line) ls)"
    unfolding scanned_lines_def raw by (subst takeWhile_append2) auto
  then show ?thesis by simp
qed

lemma stream_loop_skips: "stream_loop h onToken (concat (map (\<lambda>p. [data_line p, []]) ps) @ ls) r w = stream_loop h onToken (map data_line ps @ ls) r w"
proof (induction ps arbitrary: r w)
  case (Cons p ps)
  have "\<not> HasPrefix [] ''data: ''" by (simp add: HasPrefix_def)
  with Cons show ?case by (simp split: sum.split)
qed simp

lemma stream_loop_done:
  assumes "\<forall>p\<in>set ps. event_ok p" and "map (lh_Chunk h) ps = map Inr chs"
  shows "stream_loop h onToken (map data_line ps @ data_line finish # ls) r w = (True, foldl apply_chunk r chs, foldl (hand_on onToken) w chs)"
  using assms
proof (induction ps arbitrary: chs r w)
  case Nil
  then show ?case by (simp add: finish_def)
next
  case (Cons p ps)
  then obtain ch chs' where "chs = ch # chs'" "lh_Chunk h p = Inr ch" by (cases chs) auto
  moreover from Cons.prems have "p \<noteq> ''[DONE]''" by (simp add: event_ok_def)
  ultimately show ?case using Cons.IH[of chs'] Cons.prems by simp
qed


text \<open>Of tool calls that come in several events, the result has those of the last event only.\<close>

lemma last_tool_calls_win: "chunk_calls ch \<noteq> [] \<Longrightarrow> cp_ToolCalls (foldl apply_chunk r (chs @ [ch])) = chunk_calls ch"
  by simp

text \<open>A stream whose body ends before [DONE], even an empty one, succeeds with what has come.\<close>

lemma broken_off_stream_succeeds:
  assumes "post h c ''stream '' ''/chat/completions'' True (request_json (req\<lparr>cr_Stream := True\<rparr>)) w = (Inr a, w1)"
    and "ha_Status a = 200" and "ha_Body a = ''''" and "ha_Broken a = None"
  shows "client_CompleteStream h c onToken w req = (w1, Ret (Some empty_response, None))"
proof -
  have "raw_lines '''' = []" by (simp add: raw_lines_def)
  then show ?thesis using assms
    by (simp add: client_CompleteStream_def read_stream_def scan_error_def answered_def scanned_lines_def line_too_long_def)
qed

section \<open>The gateway of the server\<close>

text \<open>
  The gateway of the server has a client for exactly the providers whose keys are set, and the default
  provider is Qwen: with the Zhipu key only, a model that no prefix assigns to Zhipu has no client.
\<close>

lemma server_gateway:
  "gw_clients (InitializeGateway h (LoadConfig getenv)) p \<noteq> None \<longleftrightarrow>
     p = ProviderQwen \<and> getenv ''QWEN_API_KEY'' \<noteq> '''' \<or> p = ProviderZhipu \<and> getenv ''ZHIPU_API_KEY'' \<noteq> ''''"
  "gw_defaultProvider (InitializeGateway h (LoadConfig getenv)) = ProviderQwen"
  by (auto simp: InitializeGateway_def LoadConfig_def register_both_def RegisterClient_def RegisterEmbeddingClient_def SetDefault_def NewGateway_def
      Let_def ProviderQwen_def ProviderZhipu_def)

lemma only_zhipu_refuses_other_models:
  assumes "getenv ''QWEN_API_KEY'' = ''''" and "\<not> HasPrefix (cr_Model req) ''glm-''" and "\<not> HasPrefix (cr_Model req) ''embedding-3''"
  shows "Complete (InitializeGateway h (LoadConfig getenv)) w req =
    ([LLMRequest (cr_Model req) ProviderQwen ''error''], w, Ret (None, Some (ErrorString (''provider not found: '' @ ProviderQwen))))"
proof -
  let ?g = "InitializeGateway h (LoadConfig getenv)"
  have "complete_provider ?g req = ProviderQwen"
    using assms(2,3) server_gateway(2)[of h getenv] by (simp add: complete_provider_parse parseProvider_def)
  moreover have "gw_clients ?g ProviderQwen = None"
    using server_gateway(1)[of h getenv ProviderQwen] assms(1) by (auto simp: ProviderQwen_def ProviderZhipu_def)
  ultimately show ?thesis by (simp add: Complete_def Let_def)
qed

section \<open>Examples\<close>

definition demo_host :: "string \<Rightarrow> string list llm_host" where
  "demo_host body = \<lparr>lh_Marshal = (\<lambda>_. Inr ''q''), lh_BadURL = (\<lambda>_. None),
     lh_Do = (\<lambda>_ w. (Inr \<lparr>ha_Status = 200, ha_Body = body, ha_Broken = None, ha_Early = False\<rparr>, w)),
     lh_Completion = (\<lambda>_. Inl (ErrorString ''eof'')), lh_Chunk = (\<lambda>p. Inr \<lparr>ck_Choices = [(p, [])], ck_Model = ''qwen-max'', ck_Usage = None\<rparr>),
     lh_Embeddings = (\<lambda>_. Inr [])\<rparr>"

definition demo_body :: string where
  "demo_body = stream_text [''Hel'', ''lo'']"

lemma demo_post: "post (demo_host demo_body) (new_client qwen ''k'') what path stream p w =
    (Inr \<lparr>ha_Status = 200, ha_Body = demo_body, ha_Broken = None, ha_Early = False\<rparr>, w)"
  by (simp add: post_def demo_host_def)


theorem stream_hands_on_its_content_witness:
  "\<exists>r w1 ts. client_CompleteStream (demo_host demo_body) (new_client qwen ''k'') (\<lambda>w t. w @ [t]) [] (demo_request ''qwen-max'') = (w1 @ ts, Ret (Some r, None)) \<and>
    '''' \<notin> set ts \<and> concat ts = cp_Content r"
proof -
  obtain ended where "stream_loop (demo_host demo_body) (\<lambda>w t. w @ [t]) (scanned_lines demo_body) empty_response [] =
      (ended, foldl apply_chunk empty_response (stream_events (demo_host demo_body) (scanned_lines demo_body)),
       foldl (hand_on (\<lambda>w t. w @ [t])) [] (stream_events (demo_host demo_body) (scanned_lines demo_body)))"
    using stream_loop_events[of "demo_host demo_body" "\<lambda>w t. w @ [t]" "scanned_lines demo_body" empty_response "[]"] by blast
  moreover have "\<not> line_too_long demo_body"
    using split_lines_stream[of "[''Hel'', ''lo'']" "''''"] finish_line(2) by (simp add: line_too_long_def raw_lines_def demo_body_def newline_def)
  ultimately obtain w' r where c: "client_CompleteStream (demo_host demo_body) (new_client qwen ''k'') (\<lambda>w t. w @ [t]) [] (demo_request ''qwen-max'') = (w', Ret (Some r, None))"
    by (simp add: client_CompleteStream_def demo_post read_stream_def answered_def scan_error_def)
  have fold: "foldl (\<lambda>w t. w @ [t]) w1 ts = w1 @ ts" for w1 ts :: "string list" by (induction ts arbitrary: w1) auto
  from stream_hands_on_its_content[OF c] obtain w1 ts where "w' = w1 @ ts" "'''' \<notin> set ts" "concat ts = cp_Content r" unfolding fold by blast
  with c show ?thesis by blast
qed

end
