(* ===== verification/Spec2Isabelle.thy ===== *)
theory Spec2Isabelle
  imports Pipeline Text_Chunk Agent Harness Memory_Manager A2A_System MCP_Manager Router Auth_Handler RAG_Handler Agent_Handler
    Agent_Memory MCP_Handler Middleware Serving Server_Main
begin

text \<open>
  A verification of the Stratum backend, a multi-tenant server for agents, skills, knowledge and
  conversations, written in Go: internal, pkg, api and cmd under src.

  \<^bold>\<open>The program.\<close> cmd/server/main.go reads the configuration, connects to PostgreSQL, Redis, Milvus,
  Neo4j and NATS, migrates the schemas, registers five components with the harness and serves HTTP.
  api/router.go builds the stores, gateways and handlers once and shares them among all requests. A
  request passes the middleware of all routes, then the guards of its route (token, tenant context,
  role, active tenant), then its handler. Handlers work through stores, each of which opens a
  transaction in the schema of the tenant of the request's context, and through gateways: the LLM
  gateway with its provider clients, the skill gateway with circuit breakers and pipelines, and the
  capability gateway that routes to both. An agent is executed by a graph of nodes, which alternate a
  completion with tool calls, over the capability gateway, the knowledge search and the conversation
  store. Beside the server's path stand the agent-to-agent protocol, the memory manager and the MCP
  manager, with their own locks, channels and loops.

  \<^bold>\<open>The theories\<close>, in the order of their imports, each with its own header.

  \<^item> Base. Go_Base: error values and their chains (internal/skillgateway/types.go, errors.Is), the results
    \<open>Ret\<close>, \<open>Panic\<close> and \<open>Block\<close> of Go code, JSON values, range loops over maps; the locales \<open>keyed_map\<close>,
    \<open>keyed_store\<close>, \<open>invariant_system\<close> and others that the components interpret. Go_Strings: Go's string functions
    on byte lists. Crypto: hex, base64 and AES-GCM over a cipher that is a parameter (pkg/crypto).
  \<^item> Skill gateway (internal/skillgateway). Circuit_Breaker, Atomic_Engine and Pipeline: breakers,
    provider registry, the retry loop of one request, and trees of steps.
  \<^item> LLM and capabilities. LLM_Gateway and LLM_Clients (internal/llmgateway); Cap_Gateway
    (internal/capgateway).
  \<^item> Agents (internal/agent). State_Graph and React_Graph (graph); Agent and Agent_Memory (agent.go);
    Agent_Registry and Chat (registry.go, execution_store.go, chat_store.go and the handlers of
    conversations); A2A_Protocol, A2A_Client, A2A_Negotiation, A2A_Discovery, A2A_Orchestrator and
    A2A_System (a2a); Agent_Handler (api/handler/agent_handler.go).
  \<^item> Skills (internal/skill, internal/orchestrator). Skill_Analyzer, Skill_Runtime, Skills and Skill_Registry,
    the latter with the handlers of skills and the providers.
  \<^item> Knowledge. Text_Chunk (internal/textchunk), Vector_Store (pkg/vector), Knowledge_Graph
    (internal/embedding, internal/document, internal/knowledge/graphrag.go), Knowledge (ingestion and retrieval),
    RAG_Handler.
  \<^item> Memories (internal/memory). Memory, Memory_Manager, Memory_Handler.
  \<^item> MCP (internal/mcp). MCP_Cache, MCP_Client, MCP_Manager, MCP_Handler.
  \<^item> Tenants and access. Tenant_DB (pkg/tenantdb), Tenant_Tables and Public_DB (the tables), Auth_JWT,
    Token_Store and Onboard (internal/auth), Auth_Handler and Tenant_Handler (api/handler), Router (the table of
    routes with their guards), Serving (routes, guards and handlers together, for conversations and workspaces),
    Middleware (api/middleware).
  \<^item> The process. Harness (internal/harness), Server_Main (cmd/server and the connections).

  \<^bold>\<open>How code becomes definitions.\<close> A struct is a record, an enumeration or union a datatype, a method a
  function from the receiver to its result and the receiver as it is afterwards. An error is a value of
  \<open>error\<close>, whose chain \<open>errors_is\<close> walks; a function with an error result returns an option or a sum. A
  panic and an operation that never returns are the values \<open>Panic\<close> and \<open>Block\<close> of the type \<open>go\<close>. What lies
  outside the repository (drivers, HTTP, JSON codecs, JWT, clocks, random ids, sorting, scheduling) is
  an argument of the definitions: a function of a world \<open>'w\<close> that it may change, a record of such functions, or an
  observation handed in. Handlers are modelled whole: the checks of the struct tags, every early
  return, every status. Go leaves the order of a range loop over a map open; the order is an argument
  that lists the keys, restricted by \<open>ranges\<close> where a theorem needs it to be complete.

  Integers are of type \<open>int\<close> or \<open>nat\<close> where the code cannot come near the limits, and are wrapped at 64 bits
  where it can: the doubling delays of State_Graph and the limits of Vector_Store. Floating-point numbers are rational
  or real numbers; scores are therefore exact.

  Databases are lists of rows with their keys and references. A statement succeeds, fails without effect, or
  takes effect while its answer is lost; a commit may be lost in the same two ways. Theorems about
  stores hold for every pattern of such faults unless they say otherwise. A transaction runs as a whole,
  and where the code uses single statements instead, their interleavings are explicit (Token_Store). Mutexes
  are explicit where they are misused (Memory_Manager, A2A_System); elsewhere an operation under a mutex is one
  step. Channels of the semaphore (Skill_Runtime) and of the message handlers (A2A_Protocol) are counters and
  queues with the interleavings as steps. The goroutines of a parallel pipeline step, of a hybrid search and of a
  search over workspaces are run in an order that is an argument.

  Loops are structural recursion or recursion on a measure. Loops that the code does not bound are
  partial functions with the value None for not returning (Text_Chunk, whose chunking in fact does not
  return for some texts), or carry the code's own bound: \<open>MaxSteps\<close> of a graph, the attempts of a retry, which
  the definitions take as fuel, so that no fuel beyond the code's is needed.

  \<^bold>\<open>What is shown.\<close> Per component: well-formedness and its preservation by every operation, behaviour on
  every branch, and the contract with its clients. Across components:
  \<^item> Requests. Atomic_Engine and Pipeline: the first success within the clamped attempts, first failures by
    step and index, breakers that settle. State_Graph, React_Graph, Agent: a run succeeds exactly when its
    step relation reaches the end within the budget, and answers from a conversation of complete tool rounds.
    LLM_Clients: a stream returns the fold of its events.
  \<^item> Isolation. Tenant_DB: transactions select exactly the tenant's schema. Router with Auth_JWT: every handler
    outside the public routes runs with a verified token and its tenant. Serving: through router, guards and
    handlers, a tenant's conversations and workspaces change only by tokens of the right user or role. Chat, RAG_Handler, Tenant_Handler and
    Memory_Handler: what sequences of requests, with any faults, can change of others. Where isolation fails
    (shared skills, MCP servers, memories, searches of executions), the theorem states the failure.
  \<^item> Integrity. Public_DB, Onboard and Tenant_Tables: keys and references survive every statement. Token_Store
    and Auth_Handler: a refresh token is used once. Tenant_Handler: owners stay, secrets are stored encrypted.
  \<^item> Data. Round trips of agents, messages and memories through their stores; chunks, vectors and rankings of
    the knowledge; exactness of the static check of skills; counting of the semaphore under all interleavings.
  \<^item> Defects. Theorems such as \<open>SmartChunk_does_not_return\<close>, \<open>stop_never_returns\<close> and
    \<open>chat_cleanup_never_runs\<close> prove that the code does not do what it is meant to do.

  \<^bold>\<open>Interfaces.\<close> Where several components share a contract it is a locale, interpreted on each: keyed maps and
  stores (containers, caches, registries), transition systems with an invariant (breakers, negotiation,
  tokens, managers, handlers), logs of bounded length, statements that stay within the tables of a tenant, the
  sorting of slices, and the alphabets of base64. The components' theorems use the interpretations' facts.

  \<^bold>\<open>Not modelled.\<close> Log lines and metrics other than those that carry behaviour; latencies and sizes in
  answers; the registration of Prometheus metrics and the set-up of the logger (pkg/observability), which only call
  libraries; the mocks of internal/knowledge; the request structs of api/model apart from the fields and tags that
  handlers use; SQL files apart from the tables and constraints that statements meet; the front end under
  web. Two executions at a time of one agent object, and data races in general, are not modelled. The
  time limits of contexts are observations and not derived from a clock, except for the start of the server.
\<close>

end
